(* ===== verification/Prelude.thy ===== *)
theory Prelude imports Complex_Main "HOL-Library.List_Lexorder" "HOL-Library.Char_ord" begin

text \<open>
  Shared vocabulary of the development: the dynamically typed values the Python code passes
  around (JSON-like payloads), insertion-ordered dictionaries with string keys, exceptions as
  values, f-string messages kept as template and arguments, and decimal rendering of counters.

  Conventions. A Python float is either a finite rational (\<^verbatim>\<open>Fin\<close>), an infinity or a NaN;
  comparisons are exact, and arithmetic on finite floats is exact rational arithmetic (the
  rounding of IEEE doubles is not modelled). A Python dict is an association list in insertion
  order. An operation that may raise and that mutates state returns its result (an exception
  on the left, a value on the right) together with the state it leaves behind, because Python
  keeps the mutations made before an exception.
\<close>

section \<open>Lemma collections\<close>

named_theorems dict_simps \<open>evaluation of insertion-ordered dictionaries\<close>
named_theorems world_frame \<open>fields that an operation of the simulation world leaves alone\<close>
named_theorems journal_simps \<open>what operations append to the simulation journal\<close>

section \<open>Python values\<close>

datatype pyfloat = Fin rat | PosInf | NegInf | NaN

datatype pyval =
    VNone
  | VBool bool
  | VInt int
  | VFloat pyfloat
  | VStr string
  | VList "pyval list"
  | VDict "(string \<times> pyval) list"

type_synonym pydict = "(string \<times> pyval) list"

text \<open>\<^verbatim>\<open>Raised cls args\<close> is an exception of a class the program defines.\<close>

text \<open>An f-string is kept as its literal text (with a hole for each argument) and its arguments.\<close>

datatype msg = Msg string "pyval list"

datatype exc =
    ValueError msg
  | KeyError pyval
  | TypeError msg
  | Raised string "pyval list"

type_synonym 'a result = "exc + 'a"

subsection \<open>Results\<close>

definition bind_result :: "'a result \<Rightarrow> ('a \<Rightarrow> 'b result) \<Rightarrow> 'b result" where
  "bind_result r f = (case r of Inl e \<Rightarrow> Inl e | Inr a \<Rightarrow> f a)"

lemma bind_result_simps [simp]:
  "bind_result (Inl e) f = Inl e"
  "bind_result (Inr a) f = f a"
  by (simp_all add: bind_result_def)

lemma bind_result_Inr_iff:
  "bind_result r f = Inr b \<longleftrightarrow> (\<exists>a. r = Inr a \<and> f a = Inr b)"
  by (cases r) auto

text \<open>The values of a list of results, or its first exception.\<close>

fun all_ok :: "'a result list \<Rightarrow> 'a list result" where
  "all_ok [] = Inr []"
| "all_ok (Inl x # rs) = Inl x"
| "all_ok (Inr a # rs) = bind_result (all_ok rs) (\<lambda>xs. Inr (a # xs))"

lemma all_ok_Inr_iff: "all_ok rs = Inr xs \<longleftrightarrow> rs = map Inr xs"
proof (induction rs arbitrary: xs rule: all_ok.induct)
  case (3 a rs)
  then show ?case by (cases xs) (auto simp: bind_result_Inr_iff)
qed auto

text \<open>
  Sequencing of operations that may raise and that change state: an exception skips the rest and
  keeps the state reached so far.
\<close>

definition and_then ::
  "'a result \<times> 's \<Rightarrow> ('a \<Rightarrow> 's \<Rightarrow> 'b result \<times> 's) \<Rightarrow> 'b result \<times> 's" where
  "and_then m f = (case m of (Inl x, s) \<Rightarrow> (Inl x, s) | (Inr a, s) \<Rightarrow> f a s)"

lemma and_then_simps [simp]:
  "and_then (Inl x, s) f = (Inl x, s)"
  "and_then (Inr a, s) f = f a s"
  by (simp_all add: and_then_def)

lemma and_then_rel:
  assumes "R s (snd m)" and "\<And>a s1. m = (Inr a, s1) \<Longrightarrow> R s1 (snd (f a s1))"
    and "\<And>a b c. R a b \<Longrightarrow> R b c \<Longrightarrow> R a c"
  shows "R s (snd (and_then m f))"
proof -
  obtain r s1 where m: "m = (r, s1)" by (cases m)
  show ?thesis
  proof (cases r)
    case (Inl x)
    with m assms(1) show ?thesis by simp
  next
    case (Inr a)
    with m assms(1) assms(2)[of a s1] show ?thesis by (auto intro: assms(3))
  qed
qed

lemma and_then_cong [fundef_cong]:
  "m = m' \<Longrightarrow> (\<And>a s. m' = (Inr a, s) \<Longrightarrow> f a s = g a s) \<Longrightarrow> and_then m f = and_then m' g"
  by (cases m'; cases "fst m'") auto

lemma and_then_Inr_iff:
  "and_then m f = (Inr b, s') \<longleftrightarrow> (\<exists>a s1. m = (Inr a, s1) \<and> f a s1 = (Inr b, s'))"
  by (cases m; cases "fst m") auto

subsection \<open>Truth, numbers and strings\<close>

fun truthy :: "pyval \<Rightarrow> bool" where
  "truthy VNone = False"
| "truthy (VBool b) = b"
| "truthy (VInt i) = (i \<noteq> 0)"
| "truthy (VFloat f) = (f \<noteq> Fin 0)"
| "truthy (VStr s) = (s \<noteq> [])"
| "truthy (VList xs) = (xs \<noteq> [])"
| "truthy (VDict d) = (d \<noteq> [])"

text \<open>Python's \<^verbatim>\<open>x or y\<close>.\<close>

definition py_or :: "pyval \<Rightarrow> pyval \<Rightarrow> pyval" where
  "py_or x y = (if truthy x then x else y)"

text \<open>\<^verbatim>\<open>s or t\<close> where the left operand is a string or None.\<close>

definition str_or :: "string option \<Rightarrow> string \<Rightarrow> string" where
  "str_or s t = (case s of None \<Rightarrow> t | Some u \<Rightarrow> if u = [] then t else u)"

lemma str_or_simps [simp]:
  "str_or None t = t"
  "str_or (Some []) t = t"
  "u \<noteq> [] \<Longrightarrow> str_or (Some u) t = u"
  by (simp_all add: str_or_def)

lemma str_or_nonempty: "t \<noteq> [] \<Longrightarrow> str_or s t \<noteq> []"
  by (auto simp: str_or_def split: option.splits)

definition opt_str :: "string option \<Rightarrow> pyval" where
  "opt_str s = (case s of None \<Rightarrow> VNone | Some u \<Rightarrow> VStr u)"

lemma opt_str_simps [simp]: "opt_str None = VNone" "opt_str (Some u) = VStr u"
  by (simp_all add: opt_str_def)

lemma opt_str_inject [simp]: "opt_str a = opt_str b \<longleftrightarrow> a = b"
  by (cases a; cases b) simp_all

definition opt_num :: "rat option \<Rightarrow> pyval" where
  "opt_num x = (case x of None \<Rightarrow> VNone | Some q \<Rightarrow> VFloat (Fin q))"

text \<open>\<^verbatim>\<open>isinstance\<close> tests; in Python a bool is an int.\<close>

fun is_bool :: "pyval \<Rightarrow> bool" where
  "is_bool (VBool _) = True" | "is_bool _ = False"

fun is_int :: "pyval \<Rightarrow> bool" where
  "is_int (VBool _) = True" | "is_int (VInt _) = True" | "is_int _ = False"

fun is_num :: "pyval \<Rightarrow> bool" where
  "is_num (VBool _) = True" | "is_num (VInt _) = True" | "is_num (VFloat _) = True"
| "is_num _ = False"

fun is_str :: "pyval \<Rightarrow> bool" where
  "is_str (VStr _) = True" | "is_str _ = False"

fun is_list :: "pyval \<Rightarrow> bool" where
  "is_list (VList _) = True" | "is_list _ = False"

fun is_dict :: "pyval \<Rightarrow> bool" where
  "is_dict (VDict _) = True" | "is_dict _ = False"

text \<open>The number a numeric value stands for when it is compared or computed with.\<close>

fun num_of :: "pyval \<Rightarrow> pyfloat" where
  "num_of (VBool b) = Fin (if b then 1 else 0)"
| "num_of (VInt i) = Fin (of_int i)"
| "num_of (VFloat f) = f"
| "num_of _ = NaN"

text \<open>IEEE comparisons: every comparison with a NaN is false.\<close>

fun pf_lt :: "pyfloat \<Rightarrow> pyfloat \<Rightarrow> bool" where
  "pf_lt NaN _ = False"
| "pf_lt _ NaN = False"
| "pf_lt (Fin a) (Fin b) = (a < b)"
| "pf_lt PosInf _ = False"
| "pf_lt _ PosInf = True"
| "pf_lt _ NegInf = False"
| "pf_lt NegInf _ = True"

definition pf_eq :: "pyfloat \<Rightarrow> pyfloat \<Rightarrow> bool" where
  "pf_eq a b \<longleftrightarrow> a \<noteq> NaN \<and> a = b"

definition pf_le :: "pyfloat \<Rightarrow> pyfloat \<Rightarrow> bool" where
  "pf_le a b \<longleftrightarrow> pf_lt a b \<or> pf_eq a b"

fun is_finite :: "pyfloat \<Rightarrow> bool" where
  "is_finite (Fin _) = True" | "is_finite _ = False"

lemma pf_lt_Fin [simp]: "pf_le (Fin a) (Fin b) \<longleftrightarrow> a \<le> b"
  by (auto simp: pf_le_def pf_eq_def)

lemma pf_lt_asym: "pf_lt a b \<Longrightarrow> \<not> pf_lt b a"
  by (cases a; cases b) auto

lemma pf_lt_trans: "pf_lt a b \<Longrightarrow> pf_lt b c \<Longrightarrow> pf_lt a c"
  by (cases a; cases b; cases c) auto

text \<open>Arithmetic on floats, exact on finite operands.  The divisor of \<^verbatim>\<open>pf_div\<close> is not zero.\<close>

fun pf_neg :: "pyfloat \<Rightarrow> pyfloat" where
  "pf_neg NaN = NaN"
| "pf_neg PosInf = NegInf"
| "pf_neg NegInf = PosInf"
| "pf_neg (Fin a) = Fin (- a)"

fun pf_add :: "pyfloat \<Rightarrow> pyfloat \<Rightarrow> pyfloat" where
  "pf_add NaN _ = NaN"
| "pf_add _ NaN = NaN"
| "pf_add (Fin a) (Fin b) = Fin (a + b)"
| "pf_add PosInf NegInf = NaN"
| "pf_add NegInf PosInf = NaN"
| "pf_add PosInf _ = PosInf"
| "pf_add _ PosInf = PosInf"
| "pf_add NegInf _ = NegInf"
| "pf_add _ NegInf = NegInf"

definition pf_sub :: "pyfloat \<Rightarrow> pyfloat \<Rightarrow> pyfloat" where
  "pf_sub a b = pf_add a (pf_neg b)"

definition pf_scale :: "rat \<Rightarrow> pyfloat \<Rightarrow> pyfloat" where
  "pf_scale k a = (case a of
      Fin q \<Rightarrow> Fin (k * q)
    | NaN \<Rightarrow> NaN
    | _ \<Rightarrow> if k = 0 then NaN else if 0 < k then a else pf_neg a)"

definition pf_div :: "pyfloat \<Rightarrow> pyfloat \<Rightarrow> pyfloat" where
  "pf_div a b = (case b of
      Fin q \<Rightarrow> pf_scale (1 / q) a
    | NaN \<Rightarrow> NaN
    | _ \<Rightarrow> if is_finite a then Fin 0 else NaN)"

definition pf_abs :: "pyfloat \<Rightarrow> pyfloat" where
  "pf_abs a = (if pf_lt a (Fin 0) then pf_neg a else a)"

text \<open>
  \<^verbatim>\<open>float(i)\<close> of an int: exact up to 53 bits, beyond that rounded to 53 significant bits with
  ties to even, and an OverflowError from the midpoint between the largest float and \<open>2 ^ 1024\<close> on.
\<close>

fun bit_count :: "nat \<Rightarrow> nat" where
  "bit_count n = (if n = 0 then 0 else Suc (bit_count (n div 2)))"

declare bit_count.simps [simp del]

definition round_bits :: "nat \<Rightarrow> nat" where
  "round_bits n =
     (let k = bit_count n - 53; m = n div 2 ^ k; r = n mod 2 ^ k;
          up = (2 ^ k < 2 * r \<or> 2 * r = 2 ^ k \<and> odd m)
      in (if up then m + 1 else m) * 2 ^ k)"

definition float_of_int :: "int \<Rightarrow> pyfloat result" where
  "float_of_int i =
     (if 2 ^ 1024 - 2 ^ 970 \<le> \<bar>i\<bar> then
        Inl (Raised ''OverflowError'' [VStr ''int too large to convert to float''])
      else if \<bar>i\<bar> < 2 ^ 53 then Inr (Fin (of_int i))
      else Inr (Fin (of_int (sgn i) * of_nat (round_bits (nat \<bar>i\<bar>)))))"

lemma float_of_int_cases:
  "(\<exists>q. float_of_int i = Inr (Fin q)) \<or> (\<exists>x. float_of_int i = Inl x)"
  by (simp add: float_of_int_def)

lemma float_of_int_small [simp]: "\<bar>i\<bar> < 9007199254740992 \<Longrightarrow> float_of_int i = Inr (Fin (of_int i))"
  by (simp add: float_of_int_def)

text \<open>\<^verbatim>\<open>math.isfinite(v)\<close> of a numeric value converts it to a float first.\<close>

definition isfinite :: "pyval \<Rightarrow> bool result" where
  "isfinite v =
     (case v of
        VInt i \<Rightarrow> bind_result (float_of_int i) (\<lambda>f. Inr (is_finite f))
      | _ \<Rightarrow> Inr (is_finite (num_of v)))"

text \<open>An int that no float holds.\<close>

definition too_large :: "pyval \<Rightarrow> bool" where
  "too_large v \<longleftrightarrow> (\<exists>i. v = VInt i \<and> 2 ^ 1024 - 2 ^ 970 \<le> \<bar>i\<bar>)"

lemma isfinite_eq:
  "isfinite v =
     (if too_large v then Inl (Raised ''OverflowError'' [VStr ''int too large to convert to float''])
      else Inr (is_finite (num_of v)))"
  by (cases v) (simp_all add: isfinite_def too_large_def float_of_int_def)

text \<open>The value whose \<^verbatim>\<open>get\<close> is called.\<close>

definition dict_of_val :: "pyval \<Rightarrow> pydict result" where
  "dict_of_val v = (case v of VDict d \<Rightarrow> Inr d | _ \<Rightarrow> Inl (Raised ''AttributeError'' [v, VStr ''get'']))"

text \<open>\<^verbatim>\<open>list(v)\<close>: the characters of a string, the keys of a dictionary.\<close>

definition py_list :: "pyval \<Rightarrow> pyval list result" where
  "py_list v =
     (case v of
        VList xs \<Rightarrow> Inr xs
      | VStr s \<Rightarrow> Inr (map (\<lambda>c. VStr [c]) s)
      | VDict d \<Rightarrow> Inr (map (VStr \<circ> fst) d)
      | _ \<Rightarrow> Inl (TypeError (Msg ''object is not iterable'' [v])))"

text \<open>A list or a dictionary cannot be a key of a dictionary, nor be looked up in one.\<close>

definition hashed :: "pyval \<Rightarrow> pyval result" where
  "hashed v =
     (case v of
        VList _ \<Rightarrow> Inl (TypeError (Msg ''unhashable type: list'' []))
      | VDict _ \<Rightarrow> Inl (TypeError (Msg ''unhashable type: dict'' []))
      | _ \<Rightarrow> Inr v)"

text \<open>Membership of a value in a set of strings hashes it: a list or a dict raises TypeError.\<close>

definition in_strs :: "pyval \<Rightarrow> string list \<Rightarrow> bool result" where
  "in_strs v S =
     (case v of
        VStr s \<Rightarrow> Inr (s \<in> set S)
      | VList _ \<Rightarrow> Inl (TypeError (Msg ''unhashable type: list'' []))
      | VDict _ \<Rightarrow> Inl (TypeError (Msg ''unhashable type: dict'' []))
      | _ \<Rightarrow> Inr False)"

lemma in_strs_True: "in_strs v S = Inr True \<longleftrightarrow> (\<exists>s. v = VStr s \<and> s \<in> set S)"
  by (cases v) (auto simp: in_strs_def)

section \<open>Dictionaries\<close>

text \<open>
  \<^verbatim>\<open>d.get(k)\<close> is \<^verbatim>\<open>dict_get\<close>, \<^verbatim>\<open>k in d\<close> is \<^verbatim>\<open>dict_has\<close>, \<^verbatim>\<open>d[k] = v\<close>
  is \<^verbatim>\<open>dict_set\<close>: an existing key keeps its place, a new one goes to the end.
  \<^verbatim>\<open>{**a, **b}\<close> is \<^verbatim>\<open>dict_merge\<close>, \<^verbatim>\<open>d.pop(k, None)\<close> is \<^verbatim>\<open>dict_del\<close>.
\<close>

definition dict_get :: "(string \<times> pyval) list \<Rightarrow> string \<Rightarrow> pyval" where
  "dict_get d k = (case map_of d k of None \<Rightarrow> VNone | Some v \<Rightarrow> v)"

definition dict_has :: "(string \<times> 'v) list \<Rightarrow> string \<Rightarrow> bool" where
  "dict_has d k \<longleftrightarrow> map_of d k \<noteq> None"

fun dict_set :: "'k \<Rightarrow> 'v \<Rightarrow> ('k \<times> 'v) list \<Rightarrow> ('k \<times> 'v) list" where
  "dict_set k v [] = [(k, v)]"
| "dict_set k v ((k', v') # d) =
     (if k = k' then (k, v) # d else (k', v') # dict_set k v d)"

definition dict_del :: "'k \<Rightarrow> ('k \<times> 'v) list \<Rightarrow> ('k \<times> 'v) list" where
  "dict_del k d = filter (\<lambda>(k', _). k' \<noteq> k) d"

definition dict_merge :: "('k \<times> 'v) list \<Rightarrow> ('k \<times> 'v) list \<Rightarrow> ('k \<times> 'v) list" where
  "dict_merge a b = fold (\<lambda>(k, v). dict_set k v) b a"

text \<open>\<^verbatim>\<open>d.get(k, default)\<close>.\<close>

definition dict_get_or :: "(string \<times> pyval) list \<Rightarrow> string \<Rightarrow> pyval \<Rightarrow> pyval" where
  "dict_get_or d k w = (case map_of d k of None \<Rightarrow> w | Some v \<Rightarrow> v)"

lemma map_of_dict_set [simp]: "map_of (dict_set k v d) = (map_of d)(k \<mapsto> v)"
  by (induction d) auto

lemma fst_dict_set: "fst ` set (dict_set k v d) = insert k (fst ` set d)"
  by (simp flip: dom_map_of_conv_image_fst)

lemma distinct_dict_set: "distinct (map fst d) \<Longrightarrow> distinct (map fst (dict_set k v d))"
proof (induction d)
  case Nil
  then show ?case by simp
next
  case (Cons kv d)
  then show ?case
    using fst_dict_set[of k v d] by (cases kv) (auto simp: image_iff)
qed

lemma in_dict_set: "kv \<in> set (dict_set k v d) \<Longrightarrow> kv = (k, v) \<or> kv \<in> set d"
  by (induction d) (auto split: if_splits)

lemma length_dict_set:
  "length (dict_set k v d) = (if map_of d k = None then Suc (length d) else length d)"
  by (induction d) auto

lemma dict_set_new: "map_of d k = None \<Longrightarrow> dict_set k v d = d @ [(k, v)]"
  by (induction d) (auto split: if_splits)

lemma map_of_dict_del [simp]: "map_of (dict_del k d) = (map_of d)(k := None)"
  by (induction d) (auto simp: dict_del_def fun_eq_iff)

lemma distinct_dict_del: "distinct (map fst d) \<Longrightarrow> distinct (map fst (dict_del k d))"
  by (simp add: dict_del_def distinct_map_filter)

lemma length_dict_del_le: "length (dict_del k d) \<le> length d"
  by (simp add: dict_del_def)

lemma dict_has_iff: "dict_has d k \<longleftrightarrow> k \<in> fst ` set d"
  by (simp add: dict_has_def map_of_eq_None_iff)

lemma dict_get_set [simp]: "dict_get (dict_set k v d) k' = (if k' = k then v else dict_get d k')"
  by (simp add: dict_get_def)

lemma dict_get_Nil [simp]: "dict_get [] k = VNone"
  by (simp add: dict_get_def)

lemma dict_get_Cons [simp]: "dict_get ((k, v) # d) k' = (if k' = k then v else dict_get d k')"
  by (simp add: dict_get_def)

lemma map_of_dict_merge:
  "map_of (dict_merge a b) k = (case map_of (rev b) k of None \<Rightarrow> map_of a k | Some v \<Rightarrow> Some v)"
  unfolding dict_merge_def
  by (induction b arbitrary: a) (auto simp: map_add_def split: option.splits)

lemma distinct_dict_merge: "distinct (map fst a) \<Longrightarrow> distinct (map fst (dict_merge a b))"
  unfolding dict_merge_def by (induction b arbitrary: a) (auto simp: distinct_dict_set)

subsection \<open>Typed reads of a dictionary\<close>

text \<open>
  \<^verbatim>\<open>d[k]\<close> where the code expects a string: a missing key is a KeyError. A value of another
  type is reported as a TypeError; the wire records the code reads here are typed.
\<close>

definition item_str :: "pydict \<Rightarrow> string \<Rightarrow> string result" where
  "item_str d k =
     (case map_of d k of
        None \<Rightarrow> Inl (KeyError (VStr k))
      | Some (VStr s) \<Rightarrow> Inr s
      | Some v \<Rightarrow> Inl (TypeError (Msg ''expected str'' [v])))"

text \<open>\<^verbatim>\<open>d.get(k)\<close> where the code expects a string or None.\<close>

definition get_str :: "pydict \<Rightarrow> string \<Rightarrow> string option" where
  "get_str d k = (case dict_get d k of VStr s \<Rightarrow> Some s | _ \<Rightarrow> None)"

text \<open>
  \<^verbatim>\<open>dict(v)\<close> for a mapping. Anything else is reported as a TypeError (Python would also take an
  iterable of pairs, which no producer of these values emits).
\<close>

definition as_dict :: "pyval \<Rightarrow> pydict result" where
  "as_dict v = (case v of VDict d \<Rightarrow> Inr d | _ \<Rightarrow> Inl (TypeError (Msg ''not a mapping'' [v])))"

lemma as_dict_simps [simp]: "as_dict (VDict d) = Inr d"
  by (simp add: as_dict_def)

section \<open>Decimal rendering of counters\<close>

definition digit_char :: "nat \<Rightarrow> char" where
  "digit_char d = char_of (48 + d)"

definition char_digit :: "char \<Rightarrow> nat" where
  "char_digit c = of_char c - 48"

fun dec :: "nat \<Rightarrow> string" where
  "dec n = (if n < 10 then [digit_char n] else dec (n div 10) @ [digit_char (n mod 10)])"

declare dec.simps [simp del]

text \<open>\<^verbatim>\<open>f"{n:08d}"\<close>: at least the given number of digits, padded with zeros on the left.\<close>

definition pad :: "nat \<Rightarrow> string \<Rightarrow> string" where
  "pad w s = replicate (w - length s) (CHR ''0'') @ s"

definition undec :: "string \<Rightarrow> nat" where
  "undec s = foldl (\<lambda>n c. 10 * n + char_digit c) 0 s"

lemma char_digit_digit_char: "d < 10 \<Longrightarrow> char_digit (digit_char d) = d"
  by (simp add: char_digit_def digit_char_def)

lemma undec_snoc: "undec (s @ [c]) = 10 * undec s + char_digit c"
  by (simp add: undec_def)

lemma undec_dec: "undec (dec n) = n"
proof (induction n rule: dec.induct)
  case (1 n)
  show ?case
  proof (cases "n < 10")
    case True
    then show ?thesis by (simp add: dec.simps[of n] undec_def char_digit_digit_char)
  next
    case False
    with 1 have "undec (dec (n div 10)) = n div 10" by simp
    with False show ?thesis
      by (simp add: dec.simps[of n] undec_snoc char_digit_digit_char)
  qed
qed

lemma undec_zeros: "undec (replicate k (CHR ''0'') @ s) = undec s"
proof (induction k)
  case 0
  then show ?case by simp
next
  case (Suc k)
  have "undec (CHR ''0'' # t) = undec t" for t
    by (simp add: undec_def char_digit_def)
  with Suc show ?case by simp
qed

lemma undec_pad_dec: "undec (pad w (dec n)) = n"
  by (simp add: pad_def undec_zeros undec_dec)

lemma pad_dec_inject: "pad w (dec m) = pad w (dec n) \<longleftrightarrow> m = n"
  using undec_pad_dec by metis

section \<open>repr of strings\<close>

text \<open>
  \<^verbatim>\<open>f"{s!r}"\<close> for a string of code points below 256: single quotes unless the string holds
  a single quote and no double quote; backslash, the quote, tab, newline and carriage return
  have two-character escapes, other non-printable code points are written in hexadecimal.
\<close>

definition hex_char :: "nat \<Rightarrow> char" where
  "hex_char d = (if d < 10 then char_of (48 + d) else char_of (87 + d))"

definition repr_char :: "char \<Rightarrow> char \<Rightarrow> string" where
  "repr_char q c =
     (let n = (of_char c :: nat) in
      if c = q \<or> n = 92 then [CHR 92, c]
      else if n = 9 then [CHR 92, CHR ''t'']
      else if n = 10 then [CHR 92, CHR ''n'']
      else if n = 13 then [CHR 92, CHR ''r'']
      else if n < 32 \<or> 127 \<le> n \<and> n \<le> 160 \<or> n = 173
      then [CHR 92, CHR ''x'', hex_char (n div 16), hex_char (n mod 16)]
      else [c])"

definition py_repr :: "string \<Rightarrow> string" where
  "py_repr s =
     (let q = (if CHR 39 \<in> set s \<and> CHR 34 \<notin> set s then CHR 34 else CHR 39)
      in q # concat (List.map (repr_char q) s) @ [q])"

text \<open>\<^verbatim>\<open>repr\<close> and \<^verbatim>\<open>str\<close> of a value.  The shortest decimal of a float is the
  argument \<^verbatim>\<open>fr\<close>.\<close>

definition int_dec :: "int \<Rightarrow> string" where
  "int_dec i = (if i < 0 then CHR ''-'' # dec (nat (- i)) else dec (nat i))"

fun comma :: "string list \<Rightarrow> string" where
  "comma [] = []"
| "comma [x] = x"
| "comma (x # y # xs) = x @ '', '' @ comma (y # xs)"

fun val_repr :: "(pyfloat \<Rightarrow> string) \<Rightarrow> pyval \<Rightarrow> string" where
  "val_repr fr VNone = ''None''"
| "val_repr fr (VBool b) = (if b then ''True'' else ''False'')"
| "val_repr fr (VInt i) = int_dec i"
| "val_repr fr (VFloat f) = fr f"
| "val_repr fr (VStr s) = py_repr s"
| "val_repr fr (VList xs) = ''['' @ comma (map (val_repr fr) xs) @ '']''"
| "val_repr fr (VDict d) =
     ''{'' @ comma (map (\<lambda>kv. py_repr (fst kv) @ '': '' @ val_repr fr (snd kv)) d) @ ''}''"

definition py_str :: "(pyfloat \<Rightarrow> string) \<Rightarrow> pyval \<Rightarrow> string" where
  "py_str fr v = (case v of VStr s \<Rightarrow> s | _ \<Rightarrow> val_repr fr v)"

lemma py_str_VStr [simp]: "py_str fr (VStr s) = s"
  by (simp add: py_str_def)

text \<open>An f-string, from its literal text with a hole for each argument: \<^verbatim>\<open>{}\<close> stands for
  \<^verbatim>\<open>str\<close> of the argument and \<^verbatim>\<open>{!r}\<close> for its \<^verbatim>\<open>repr\<close>.\<close>

fun fill :: "(pyfloat \<Rightarrow> string) \<Rightarrow> string \<Rightarrow> pyval list \<Rightarrow> string" where
  "fill fr [] vs = []"
| "fill fr (c # cs) vs =
     (case vs of
        [] \<Rightarrow> c # cs
      | v # ws \<Rightarrow>
          if take 2 (c # cs) = ''{}'' then py_str fr v @ fill fr (drop 1 cs) ws
          else if take 4 (c # cs) = ''{!r}'' then val_repr fr v @ fill fr (drop 3 cs) ws
          else c # fill fr cs vs)"

text \<open>\<^verbatim>\<open>str.strip\<close> and \<^verbatim>\<open>str.lower\<close> on code points below 256.\<close>

definition is_space :: "char \<Rightarrow> bool" where
  "is_space c \<longleftrightarrow> of_char c \<in> ({9, 10, 11, 12, 13, 28, 29, 30, 31, 32, 133, 160} :: nat set)"

definition strip :: "string \<Rightarrow> string" where
  "strip s = rev (dropWhile is_space (rev (dropWhile is_space s)))"

definition lower_char :: "char \<Rightarrow> char" where
  "lower_char c =
     (let n = (of_char c :: nat) in
      if 65 \<le> n \<and> n \<le> 90 \<or> 192 \<le> n \<and> n \<le> 222 \<and> n \<noteq> 215 then char_of (n + 32) else c)"

definition lower :: "string \<Rightarrow> string" where
  "lower s = map lower_char s"

section \<open>Lists\<close>

text \<open>\<^verbatim>\<open>next((x for x in xs if p(x)), None)\<close>.\<close>

definition first_match :: "('a \<Rightarrow> bool) \<Rightarrow> 'a list \<Rightarrow> 'a option" where
  "first_match p xs = List.find p xs"

lemma first_match_simps [simp]:
  "first_match p [] = None"
  "first_match p (x # xs) = (if p x then Some x else first_match p xs)"
  by (simp_all add: first_match_def)

lemma first_match_SomeD: "first_match p xs = Some x \<Longrightarrow> x \<in> set xs \<and> p x"
  by (induction xs) (auto split: if_splits)

lemma first_match_None_iff: "first_match p xs = None \<longleftrightarrow> (\<forall>x\<in>set xs. \<not> p x)"
  by (induction xs) auto

lemma first_match_append:
  "first_match p (xs @ ys) = (case first_match p xs of None \<Rightarrow> first_match p ys | Some x \<Rightarrow> Some x)"
  by (induction xs) auto

section \<open>Keyed stores\<close>

text \<open>
  The contract of an in-memory store keyed by an id.  Everything a client can observe of a run of
  writes and removals is the run on a plain map.
\<close>

locale keyed_store =
  fixes look :: "'s \<Rightarrow> 'k \<Rightarrow> 'v option"
    and put :: "'k \<Rightarrow> 'v \<Rightarrow> 's \<Rightarrow> 's"
    and remove :: "'k \<Rightarrow> 's \<Rightarrow> 's"
  assumes look_put: "look (put k v s) = (look s)(k \<mapsto> v)"
    and look_remove: "look (remove k s) = (look s)(k := None)"
begin

definition step :: "('k \<times> 'v option) \<Rightarrow> 's \<Rightarrow> 's" where
  "step w s = (case w of (k, Some v) \<Rightarrow> put k v s | (k, None) \<Rightarrow> remove k s)"

lemma look_step: "look (step w s) = (look s)(fst w := snd w)"
  by (cases w) (auto simp: step_def look_put look_remove split: option.splits)

lemma run_refines: "look (fold step ws s) = fold (\<lambda>(k, v) m. m(k := v)) ws (look s)"
  by (induction ws arbitrary: s) (auto simp: look_step split_beta)

lemma fold_upd: "fold (\<lambda>(k, v) m. m(k := v)) ws m k = (case map_of (rev ws) k of None \<Rightarrow> m k | Some v \<Rightarrow> v)"
  by (induction ws arbitrary: m) (auto simp: map_add_def split: option.splits)

text \<open>The last write or removal of a key decides what is found under it.\<close>

lemma last_write: "look (fold step ws s) k =
    (case map_of (rev ws) k of None \<Rightarrow> look s k | Some v \<Rightarrow> v)"
  by (simp add: run_refines fold_upd)

end

end
