(* ===== verification/Sim_Runtime.thy ===== *)
theory Sim_Runtime imports Prelude begin

text \<open>
  The wire records of the simulation world (\<^verbatim>\<open>api/server/world/model.py\<close>) and the
  deterministic runtime with its append-only causal journal
  (\<^verbatim>\<open>api/server/world/runtime.py\<close>).

  The runtime is an extensible record: every component that holds a reference to the same
  runtime (objective manager, evaluator, scenario) extends it, so the sharing of the one journal
  is the sharing of one record. SimPy's environment is not part of the repository: its
  \<^verbatim>\<open>peek\<close> and \<^verbatim>\<open>step\<close> are the parameters \<^verbatim>\<open>peek\<close> (\<^const>\<open>None\<close> for infinity) and
  \<^verbatim>\<open>estep\<close> of the stepping operations; its clock is the field \<^verbatim>\<open>rt_now\<close>.
\<close>

section \<open>Wire records\<close>

record sim_event =
  ev_seq :: nat
  ev_id :: string
  ev_time :: rat
  ev_type :: string
  ev_actor :: "string option"
  ev_target :: "string option"
  ev_cause :: "string option"
  ev_trace :: string
  ev_payload :: pydict

definition event_to_dict :: "sim_event \<Rightarrow> pydict" where
  "event_to_dict e =
     [(''seq'', VInt (int (ev_seq e))),
      (''event_id'', VStr (ev_id e)),
      (''sim_time'', VFloat (Fin (ev_time e))),
      (''type'', VStr (ev_type e)),
      (''actor_id'', opt_str (ev_actor e)),
      (''target_id'', opt_str (ev_target e)),
      (''cause_event_id'', opt_str (ev_cause e)),
      (''trace_id'', VStr (ev_trace e)),
      (''payload'', VDict (ev_payload e))]"

record sim_command =
  cmd_id :: string
  cmd_trace :: string
  cmd_issuer :: string
  cmd_type :: string
  cmd_payload :: pydict

definition command_to_dict :: "sim_command \<Rightarrow> pydict" where
  "command_to_dict c =
     [(''command_id'', VStr (cmd_id c)),
      (''trace_id'', VStr (cmd_trace c)),
      (''issued_by'', VStr (cmd_issuer c)),
      (''type'', VStr (cmd_type c)),
      (''payload'', VDict (cmd_payload c))]"

section \<open>The runtime\<close>

datatype rt_status = RPaused | RRunning | RCompleted

record runtime =
  rt_seed :: int
  rt_now :: rat
  rt_journal :: "sim_event list"
  rt_status :: rt_status
  rt_seq :: nat

definition new_runtime :: "int \<Rightarrow> runtime" where
  "new_runtime seed =
     \<lparr>rt_seed = seed, rt_now = 0, rt_journal = [], rt_status = RPaused, rt_seq = 0\<rparr>"

definition event_name :: "nat \<Rightarrow> string" where
  "event_name n = ''evt-'' @ pad 8 (dec n)"

definition emit ::
  "string \<Rightarrow> string option \<Rightarrow> string option \<Rightarrow> string option \<Rightarrow> string option \<Rightarrow> pydict \<Rightarrow>
   'a runtime_scheme \<Rightarrow> sim_event \<times> 'a runtime_scheme" where
  "emit ty actor target cause trace payload s =
     (let n = Suc (rt_seq s);
          eid = event_name n;
          e = \<lparr>ev_seq = n, ev_id = eid, ev_time = rt_now s, ev_type = ty, ev_actor = actor,
               ev_target = target, ev_cause = cause, ev_trace = str_or trace eid,
               ev_payload = payload\<rparr>
      in (e, s\<lparr>rt_seq := n, rt_journal := rt_journal s @ [e]\<rparr>))"

definition rt_pause :: "'a runtime_scheme \<Rightarrow> 'a runtime_scheme" where
  "rt_pause s = s\<lparr>rt_status := RPaused\<rparr>"

text \<open>\<^verbatim>\<open>step\<close>: nothing to do when the event queue is empty.\<close>

definition rt_step ::
  "('a runtime_scheme \<Rightarrow> rat option) \<Rightarrow> ('a runtime_scheme \<Rightarrow> 'a runtime_scheme) \<Rightarrow>
   'a runtime_scheme \<Rightarrow> sim_event list \<times> 'a runtime_scheme" where
  "rt_step peek estep s =
     (if peek s = None then ([], s\<lparr>rt_status := RCompleted\<rparr>)
      else
        let before = length (rt_journal s);
            s1 = estep (s\<lparr>rt_status := RRunning\<rparr>);
            s2 = (if peek s1 = None then s1\<lparr>rt_status := RCompleted\<rparr>
                  else s1\<lparr>rt_status := RPaused\<rparr>)
        in (drop before (rt_journal s2), s2))"

text \<open>\<^verbatim>\<open>while self.env.peek() <= until: self.env.step()\<close> -- may never end.\<close>

partial_function (option) run_loop ::
  "('a runtime_scheme \<Rightarrow> rat option) \<Rightarrow> ('a runtime_scheme \<Rightarrow> 'a runtime_scheme) \<Rightarrow> rat \<Rightarrow>
   'a runtime_scheme \<Rightarrow> 'a runtime_scheme option" where
  "run_loop peek estep until s =
     (case peek s of
        None \<Rightarrow> Some s
      | Some t \<Rightarrow> if t \<le> until then run_loop peek estep until (estep s) else Some s)"

definition run_until ::
  "('a runtime_scheme \<Rightarrow> rat option) \<Rightarrow> ('a runtime_scheme \<Rightarrow> 'a runtime_scheme) \<Rightarrow> rat \<Rightarrow>
   'a runtime_scheme \<Rightarrow> (sim_event list result \<times> 'a runtime_scheme) option" where
  "run_until peek estep until s =
     (if until < rt_now s
      then Some (Inl (ValueError (Msg ''cannot run backwards from {} to {}''
                   [VFloat (Fin (rt_now s)), VFloat (Fin until)])), s)
      else
        let before = length (rt_journal s) in
        case run_loop peek estep until (s\<lparr>rt_status := RRunning\<rparr>) of
          None \<Rightarrow> None
        | Some s1 \<Rightarrow>
            let s2 = s1\<lparr>rt_status := (if peek s1 = None then RCompleted else RPaused)\<rparr>
            in Some (Inr (drop before (rt_journal s2)), s2))"

fun run_events_loop ::
  "('a runtime_scheme \<Rightarrow> rat option) \<Rightarrow> ('a runtime_scheme \<Rightarrow> 'a runtime_scheme) \<Rightarrow> nat \<Rightarrow>
   'a runtime_scheme \<Rightarrow> 'a runtime_scheme" where
  "run_events_loop peek estep 0 s = s"
| "run_events_loop peek estep (Suc n) s =
     (if peek s = None then s\<lparr>rt_status := RCompleted\<rparr>
      else run_events_loop peek estep n (snd (rt_step peek estep s)))"

definition run_events ::
  "('a runtime_scheme \<Rightarrow> rat option) \<Rightarrow> ('a runtime_scheme \<Rightarrow> 'a runtime_scheme) \<Rightarrow> nat \<Rightarrow>
   'a runtime_scheme \<Rightarrow> sim_event list \<times> 'a runtime_scheme" where
  "run_events peek estep count s =
     (let before = length (rt_journal s);
          s1 = run_events_loop peek estep count s
      in (drop before (rt_journal s1), s1))"

definition canonical_journal :: "'a runtime_scheme \<Rightarrow> pydict list" where
  "canonical_journal s = map event_to_dict (rt_journal s)"

section \<open>Journal integrity\<close>

text \<open>
  The journal is well formed when its entries carry the sequence numbers 1, 2, \<dots> without a gap,
  every id is the rendering of its number, the counter is the length, and no entry has an empty
  trace.
\<close>

definition journal_ok :: "'a runtime_scheme \<Rightarrow> bool" where
  "journal_ok s \<longleftrightarrow>
     rt_seq s = length (rt_journal s) \<and>
     (\<forall>i < length (rt_journal s).
        ev_seq (rt_journal s ! i) = Suc i \<and>
        ev_id (rt_journal s ! i) = event_name (Suc i) \<and>
        ev_trace (rt_journal s ! i) \<noteq> [])"

text \<open>\<^verbatim>\<open>extends s s'\<close>: the journal of \<^verbatim>\<open>s'\<close> is that of \<^verbatim>\<open>s\<close> with events appended.\<close>

definition extends :: "'a runtime_scheme \<Rightarrow> 'b runtime_scheme \<Rightarrow> bool" where
  "extends s s' \<longleftrightarrow> (\<exists>es. rt_journal s' = rt_journal s @ es)"

lemma event_name_inject [simp]: "event_name m = event_name n \<longleftrightarrow> m = n"
  by (simp add: event_name_def pad_dec_inject)

lemma event_name_nonempty [simp]: "event_name n \<noteq> []"
  by (simp add: event_name_def)

lemma extends_refl [simp, intro]: "extends s s"
  by (simp add: extends_def)

lemma extends_trans [trans]: "extends a b \<Longrightarrow> extends b c \<Longrightarrow> extends a c"
  by (auto simp: extends_def)

lemma extends_take: "extends s s' \<Longrightarrow> take (length (rt_journal s)) (rt_journal s') = rt_journal s"
  by (auto simp: extends_def)

lemma extends_cong: "rt_journal s' = rt_journal s \<Longrightarrow> extends s s'"
  by (simp add: extends_def)

lemma extends_subset: "extends s s' \<Longrightarrow> set (rt_journal s) \<subseteq> set (rt_journal s')"
  by (auto simp: extends_def)

lemma extends_length: "extends s s' \<Longrightarrow> length (rt_journal s) \<le> length (rt_journal s')"
  by (auto simp: extends_def)

lemma journal_ok_cong:
  "rt_journal s' = rt_journal s \<Longrightarrow> rt_seq s' = rt_seq s \<Longrightarrow> journal_ok s' = journal_ok s"
  by (simp add: journal_ok_def)

lemma journal_ok_new: "journal_ok (new_runtime seed)"
  by (simp add: journal_ok_def new_runtime_def)

subsection \<open>Emission\<close>

lemma emit_event [journal_simps]:
  "ev_type (fst (emit ty a t c tr p s)) = ty"
  "ev_actor (fst (emit ty a t c tr p s)) = a"
  "ev_target (fst (emit ty a t c tr p s)) = t"
  "ev_cause (fst (emit ty a t c tr p s)) = c"
  "ev_payload (fst (emit ty a t c tr p s)) = p"
  "ev_time (fst (emit ty a t c tr p s)) = rt_now s"
  "ev_id (fst (emit ty a t c tr p s)) = event_name (Suc (rt_seq s))"
  "ev_trace (fst (emit ty a t c tr p s)) = str_or tr (event_name (Suc (rt_seq s)))"
  by (simp_all add: emit_def Let_def)

lemma emit_state [journal_simps]:
  "rt_journal (snd (emit ty a t c tr p s)) = rt_journal s @ [fst (emit ty a t c tr p s)]"
  "rt_seq (snd (emit ty a t c tr p s)) = Suc (rt_seq s)"
  "rt_now (snd (emit ty a t c tr p s)) = rt_now s"
  "rt_seed (snd (emit ty a t c tr p s)) = rt_seed s"
  "rt_status (snd (emit ty a t c tr p s)) = rt_status s"
  "runtime.more (snd (emit ty a t c tr p s)) = runtime.more s"
  by (simp_all add: emit_def Let_def)

lemma emit_extends: "extends s (snd (emit ty a t c tr p s))"
  by (auto simp: extends_def emit_state)

lemma emit_in_journal: "fst (emit ty a t c tr p s) \<in> set (rt_journal (snd (emit ty a t c tr p s)))"
  by (simp add: emit_state)

lemma emit_journal_ok:
  assumes "journal_ok s"
  shows "journal_ok (snd (emit ty a t c tr p s))"
  using assms
  by (auto simp: journal_ok_def emit_def Let_def nth_append less_Suc_eq str_or_nonempty)

text \<open>Well-formed journals have pairwise distinct ids, so an id names one event.\<close>

lemma journal_ids_distinct:
  assumes "journal_ok s"
  shows "distinct (map ev_id (rt_journal s))"
proof -
  have "map ev_id (rt_journal s) = map (\<lambda>i. event_name (Suc i)) [0..<length (rt_journal s)]"
    using assms by (auto simp: journal_ok_def intro!: nth_equalityI)
  moreover have "distinct (map (\<lambda>i. event_name (Suc i)) [0..<length (rt_journal s)])"
    by (simp add: distinct_map inj_on_def)
  ultimately show ?thesis by simp
qed

subsection \<open>Stepping\<close>

text \<open>What the stepping operations need of the environment: one SimPy step keeps the journal
  well formed and only appends to it (it runs process code, which reaches the journal through
  \<^const>\<open>emit\<close> alone).\<close>

definition env_appends :: "('a runtime_scheme \<Rightarrow> 'a runtime_scheme) \<Rightarrow> bool" where
  "env_appends estep \<longleftrightarrow>
     (\<forall>s. journal_ok s \<longrightarrow> journal_ok (estep s) \<and> extends s (estep s))"

lemma env_appendsD:
  "env_appends estep \<Longrightarrow> journal_ok s \<Longrightarrow> journal_ok (estep s)"
  "env_appends estep \<Longrightarrow> journal_ok s \<Longrightarrow> extends s (estep s)"
  by (simp_all add: env_appends_def)

lemma rt_step_ok:
  assumes "env_appends estep" and "journal_ok s"
  shows "journal_ok (snd (rt_step peek estep s))"
    and "rt_journal (snd (rt_step peek estep s)) = rt_journal s @ fst (rt_step peek estep s)"
proof -
  let ?r = "s\<lparr>rt_status := RRunning\<rparr>"
  have ok: "journal_ok ?r" using assms(2) by (simp add: journal_ok_def)
  have "journal_ok (estep ?r)" and ext: "extends ?r (estep ?r)"
    using env_appendsD[OF assms(1) ok] by auto
  then show "journal_ok (snd (rt_step peek estep s))"
    using assms(2) by (auto simp: rt_step_def Let_def journal_ok_def)
  show "rt_journal (snd (rt_step peek estep s)) = rt_journal s @ fst (rt_step peek estep s)"
    using ext by (auto simp: rt_step_def Let_def extends_def)
qed

lemma run_loop_ok:
  assumes ret: "run_loop peek estep until s = Some s'"
    and env: "env_appends estep" and ok: "journal_ok s"
  shows "journal_ok s' \<and> extends s s' \<and> (\<forall>t. peek s' = Some t \<longrightarrow> until < t)"
proof -
  let ?P = "\<lambda>peek estep until s s'. env_appends estep \<longrightarrow> journal_ok s \<longrightarrow>
          journal_ok s' \<and> extends s s' \<and> (\<forall>t. peek s' = Some t \<longrightarrow> until < t)"
  have "?P peek estep until s s'"
  proof (rule run_loop.raw_induct[where P = ?P, OF _ ret])
    fix f :: "('a runtime_scheme \<Rightarrow> rat option) \<Rightarrow> ('a runtime_scheme \<Rightarrow> 'a runtime_scheme) \<Rightarrow>
              rat \<Rightarrow> 'a runtime_scheme \<Rightarrow> 'a runtime_scheme option"
      and peek and estep :: "'a runtime_scheme \<Rightarrow> 'a runtime_scheme" and until s r
    assume IH: "\<And>peek estep until s r. f peek estep until s = Some r \<Longrightarrow> ?P peek estep until s r"
      and eq: "(case peek s of None \<Rightarrow> Some s
                | Some t \<Rightarrow> if t \<le> until then f peek estep until (estep s) else Some s) = Some r"
    show "?P peek estep until s r"
      using eq IH[of peek estep until "estep s" r] env_appendsD[of estep s]
      by (auto split: option.splits if_splits intro: extends_trans)
  qed
  with env ok show ?thesis by blast
qed

text \<open>
  Termination: when some natural-number measure of the environment decreases with every step
  taken at or before the bound, the loop returns.
\<close>

lemma run_loop_returns:
  assumes dec: "\<And>s t. peek s = Some t \<Longrightarrow> t \<le> until \<Longrightarrow> (m (estep s) :: nat) < m s"
  shows "\<exists>s'. run_loop peek estep until s = Some s'"
proof (induction "m s" arbitrary: s rule: less_induct)
  case less
  show ?case
  proof (cases "peek s")
    case None
    then show ?thesis by (simp add: run_loop.simps)
  next
    case (Some t)
    show ?thesis
    proof (cases "t \<le> until")
      case True
      with Some dec have "m (estep s) < m s" by simp
      from less[OF this] Some True show ?thesis by (simp add: run_loop.simps)
    next
      case False
      with Some show ?thesis by (simp add: run_loop.simps)
    qed
  qed
qed

lemma run_events_loop_ok:
  assumes "env_appends estep"
  shows "journal_ok s \<Longrightarrow>
    journal_ok (run_events_loop peek estep n s) \<and> extends s (run_events_loop peek estep n s)"
proof (induction n arbitrary: s)
  case 0
  then show ?case by simp
next
  case (Suc n)
  let ?s1 = "snd (rt_step peek estep s)"
  have "extends s ?s1"
    using rt_step_ok(2)[OF assms Suc.prems, of peek] by (simp add: extends_def)
  moreover have "journal_ok (run_events_loop peek estep n ?s1)"
      and "extends ?s1 (run_events_loop peek estep n ?s1)"
    using Suc.IH[OF rt_step_ok(1)[OF assms Suc.prems, of peek]] by auto
  moreover have "journal_ok (s\<lparr>rt_status := RCompleted\<rparr>)"
    using Suc.prems by (simp add: journal_ok_def)
  ultimately show ?case
    by (auto intro: extends_trans simp: extends_cong)
qed

end
