(* ===== verification/Objectives.thy ===== *)
theory Objectives imports Sim_Runtime begin

text \<open>
  The objective lifecycle (\<^verbatim>\<open>api/server/world/objectives.py\<close>) over the simulation journal:
  the state of \<^verbatim>\<open>ObjectiveManager\<close>, its operations \<^verbatim>\<open>open\<close> and \<^verbatim>\<open>transition\<close> with
  every exception branch, the journal event each of them appends, and the invariant that makes
  de-duplication by (type, target) correct.  Objective routes come from
  \<^verbatim>\<open>api/shared/world_contracts.py\<close>, their resolution from
  \<^verbatim>\<open>api/server/world/registry.py\<close>.
\<close>

section \<open>Data\<close>

record route =
  r_sensor :: string
  r_type :: string
  r_allowed :: "string set"
  r_success :: "string set"
  r_failure :: "string set"
  r_timeout :: rat

datatype ostatus = Open | Claimed | Acting | Evaluating | Resolved | Failed | Superseded

fun ostatus_str :: "ostatus \<Rightarrow> string" where
  "ostatus_str Open = ''open''"
| "ostatus_str Claimed = ''claimed''"
| "ostatus_str Acting = ''acting''"
| "ostatus_str Evaluating = ''evaluating''"
| "ostatus_str Resolved = ''resolved''"
| "ostatus_str Failed = ''failed''"
| "ostatus_str Superseded = ''superseded''"

record objective =
  o_id :: string
  o_type :: string
  o_trace :: string
  o_owner :: string
  o_priority :: int
  o_status :: ostatus
  o_created :: rat
  o_deadline :: "rat option"
  o_evidence :: "string list"
  o_allowed :: "string set"
  o_claimed_by :: "string option"

definition objective_to_dict :: "objective \<Rightarrow> pydict" where
  "objective_to_dict ob =
     [(''id'', VStr (o_id ob)),
      (''type'', VStr (o_type ob)),
      (''trace_id'', VStr (o_trace ob)),
      (''owner_function'', VStr (o_owner ob)),
      (''priority'', VInt (o_priority ob)),
      (''status'', VStr (ostatus_str (o_status ob))),
      (''created_at'', VFloat (Fin (o_created ob))),
      (''deadline'', opt_num (o_deadline ob)),
      (''evidence_event_ids'', VList (map VStr (o_evidence ob))),
      (''allowed_command_types'', VList (map VStr (sorted_list_of_set (o_allowed ob)))),
      (''claimed_by'', opt_str (o_claimed_by ob))]"

text \<open>\<^verbatim>\<open>_ALLOWED_TRANSITIONS\<close> and \<^verbatim>\<open>_TERMINAL\<close>.\<close>

fun allowed_transitions :: "ostatus \<Rightarrow> ostatus set" where
  "allowed_transitions Open = {Claimed, Superseded, Failed}"
| "allowed_transitions Claimed = {Acting, Superseded, Failed}"
| "allowed_transitions Acting = {Evaluating, Superseded, Failed}"
| "allowed_transitions Evaluating = {Resolved, Failed, Superseded}"
| "allowed_transitions Resolved = {}"
| "allowed_transitions Failed = {}"
| "allowed_transitions Superseded = {}"

definition terminal :: "ostatus set" where
  "terminal = {Resolved, Failed, Superseded}"

definition objective_id :: "string \<Rightarrow> string" where
  "objective_id sensor_event_id = ''obj-'' @ sensor_event_id"

definition event_type :: "ostatus \<Rightarrow> string" where
  "event_type st = (if st = Open then ''objective.opened'' else ''objective.'' @ ostatus_str st)"

section \<open>Route resolution\<close>

definition resolve_objective_route :: "route list \<Rightarrow> string \<Rightarrow> string option \<Rightarrow> route result" where
  "resolve_objective_route routes world sensor =
     (case first_match (\<lambda>r. Some (r_sensor r) = sensor) routes of
        Some r \<Rightarrow> Inr r
      | None \<Rightarrow> Inl (ValueError (Msg ''no objective route for sensor {!r} in world {!r}''
                      [opt_str sensor, VStr world])))"

section \<open>The manager\<close>

record objman = runtime +
  om_objectives :: "string \<rightharpoonup> objective"
  om_order :: "string list"
  om_active :: "(string \<times> string option) \<rightharpoonup> string"
  om_target :: "string \<rightharpoonup> string option"
  om_baseline :: "string \<rightharpoonup> pydict"
  om_route :: "string \<rightharpoonup> route"
  om_last :: "string \<rightharpoonup> string"

text \<open>\<^verbatim>\<open>self._target_by_id.get(oid)\<close>: None both for a missing entry and for a None target.\<close>

definition target_of :: "'a objman_scheme \<Rightarrow> string \<Rightarrow> string option" where
  "target_of s oid = (case om_target s oid of None \<Rightarrow> None | Some t \<Rightarrow> t)"

definition om_emit ::
  "objective \<Rightarrow> string option \<Rightarrow> pydict \<Rightarrow> 'a objman_scheme \<Rightarrow> sim_event \<times> 'a objman_scheme" where
  "om_emit ob cause extra s =
     (let payload = (if extra = [] then objective_to_dict ob
                     else dict_merge (objective_to_dict ob) extra);
          (e, s1) = emit (event_type (o_status ob)) (Some (o_owner ob)) (target_of s (o_id ob))
                      cause (Some (o_trace ob)) payload s
      in (e, s1\<lparr>om_last := (om_last s1)(o_id ob \<mapsto> ev_id e)\<rparr>))"

text \<open>\<^verbatim>\<open>dict((sensor_event.get("payload") or {}).get("measurements") or {})\<close>.\<close>

definition sensor_measurements :: "pydict \<Rightarrow> pydict result" where
  "sensor_measurements ev =
     bind_result (as_dict (py_or (dict_get ev ''payload'') (VDict [])))
       (\<lambda>p. as_dict (py_or (dict_get p ''measurements'') (VDict [])))"

definition om_open ::
  "pydict \<Rightarrow> route \<Rightarrow> string \<Rightarrow> int \<Rightarrow> rat option \<Rightarrow>
   'a objman_scheme \<Rightarrow> objective result \<times> 'a objman_scheme" where
  "om_open sensor_event r owner priority deadline s =
     (let target = get_str sensor_event ''target_id'';
          key = (r_type r, target)
      in case om_active s key of
           Some oid \<Rightarrow>
             (case om_objectives s oid of
                Some ob \<Rightarrow> (Inr ob, s)
              | None \<Rightarrow> (Inl (KeyError (VStr oid)), s))
         | None \<Rightarrow>
             (case item_str sensor_event ''event_id'' of
                Inl e \<Rightarrow> (Inl e, s)
              | Inr sid \<Rightarrow>
             (case item_str sensor_event ''trace_id'' of
                Inl e \<Rightarrow> (Inl e, s)
              | Inr trace \<Rightarrow>
                  let ob = \<lparr>o_id = objective_id sid, o_type = r_type r, o_trace = trace,
                            o_owner = owner, o_priority = priority, o_status = Open,
                            o_created = rt_now s, o_deadline = deadline, o_evidence = [sid],
                            o_allowed = r_allowed r, o_claimed_by = None\<rparr>;
                      s1 = s\<lparr>om_objectives := (om_objectives s)(o_id ob \<mapsto> ob),
                             om_order := om_order s @ [o_id ob],
                             om_active := (om_active s)(key \<mapsto> o_id ob),
                             om_target := (om_target s)(o_id ob \<mapsto> target)\<rparr>
                  in (case sensor_measurements sensor_event of
                       Inl e \<Rightarrow> (Inl e, s1)
                     | Inr m \<Rightarrow>
                         let s2 = s1\<lparr>om_baseline := (om_baseline s1)(o_id ob \<mapsto> m),
                                     om_route := (om_route s1)(o_id ob \<mapsto> r)\<rparr>;
                             (ev, s3) = om_emit ob (Some sid) [] s2
                         in (Inr ob, s3)))))"

definition om_transition ::
  "string \<Rightarrow> ostatus \<Rightarrow> string option \<Rightarrow> string option \<Rightarrow> string option \<Rightarrow> pydict \<Rightarrow>
   'a objman_scheme \<Rightarrow> objective result \<times> 'a objman_scheme" where
  "om_transition oid to claimer cause evidence payload s =
     (case om_objectives s oid of
        None \<Rightarrow> (Inl (KeyError (VStr oid)), s)
      | Some ob \<Rightarrow>
          if to \<notin> allowed_transitions (o_status ob) then
            (Inl (ValueError (Msg ''objective {} cannot transition {} to {}''
              [VStr oid, VStr (ostatus_str (o_status ob)), VStr (ostatus_str to)])), s)
          else if to = Claimed \<and> claimer = None \<and> o_claimed_by ob = None then
            (Inl (ValueError (Msg ''claimed transition requires claimed_by'' [])), s)
          else
            let ob' = ob\<lparr>o_status := to,
                         o_claimed_by := (if claimer = None then o_claimed_by ob else claimer),
                         o_evidence := (case evidence of None \<Rightarrow> o_evidence ob
                                        | Some e \<Rightarrow> o_evidence ob @ [e])\<rparr>;
                s1 = s\<lparr>om_objectives := (om_objectives s)(oid \<mapsto> ob')\<rparr>;
                key = (o_type ob', target_of s1 oid);
                s2 = (if to \<in> terminal \<and> om_active s1 key = Some oid
                      then s1\<lparr>om_active := (om_active s1)(key := None)\<rparr> else s1);
                cause' = (case cause of
                            Some (c # cs) \<Rightarrow> Some (c # cs)
                          | _ \<Rightarrow> om_last s2 oid);
                (ev, s3) = om_emit ob' cause' payload s2
            in (Inr ob', s3))"

definition om_get :: "'a objman_scheme \<Rightarrow> string \<Rightarrow> objective option" where
  "om_get s oid = om_objectives s oid"

definition baseline_for :: "'a objman_scheme \<Rightarrow> string \<Rightarrow> pydict" where
  "baseline_for s oid = (case om_baseline s oid of None \<Rightarrow> [] | Some d \<Rightarrow> d)"

definition route_for :: "'a objman_scheme \<Rightarrow> string \<Rightarrow> route result" where
  "route_for s oid = (case om_route s oid of None \<Rightarrow> Inl (KeyError (VStr oid)) | Some r \<Rightarrow> Inr r)"

definition last_event_id :: "'a objman_scheme \<Rightarrow> string \<Rightarrow> string option" where
  "last_event_id s oid = om_last s oid"

definition om_all :: "'a objman_scheme \<Rightarrow> objective list" where
  "om_all s = List.map_filter (om_objectives s) (om_order s)"

definition om_active_list :: "'a objman_scheme \<Rightarrow> objective list" where
  "om_active_list s = filter (\<lambda>ob. o_status ob \<notin> terminal) (om_all s)"

section \<open>Lemmas: what each operation changes\<close>

lemma terminal_no_transitions: "st \<in> terminal \<longleftrightarrow> allowed_transitions st = {}"
  by (cases st) (auto simp: terminal_def)

lemma target_of_cong: "om_target s' = om_target s \<Longrightarrow> target_of s' oid = target_of s oid"
  by (simp add: target_of_def)

text \<open>Emission leaves the manager's own tables alone.\<close>

lemma emit_objman_frame [world_frame]:
  "om_objectives (snd (emit ty a t c tr p (s :: 'a objman_scheme))) = om_objectives s"
  "om_order (snd (emit ty a t c tr p (s :: 'a objman_scheme))) = om_order s"
  "om_active (snd (emit ty a t c tr p (s :: 'a objman_scheme))) = om_active s"
  "om_target (snd (emit ty a t c tr p (s :: 'a objman_scheme))) = om_target s"
  "om_baseline (snd (emit ty a t c tr p (s :: 'a objman_scheme))) = om_baseline s"
  "om_route (snd (emit ty a t c tr p (s :: 'a objman_scheme))) = om_route s"
  "om_last (snd (emit ty a t c tr p (s :: 'a objman_scheme))) = om_last s"
  "objman.more (snd (emit ty a t c tr p (s :: 'a objman_scheme))) = objman.more s"
  by (simp_all add: emit_def Let_def)

lemma om_emit_frame [world_frame]:
  "om_objectives (snd (om_emit ob c x s)) = om_objectives s"
  "om_order (snd (om_emit ob c x s)) = om_order s"
  "om_active (snd (om_emit ob c x s)) = om_active s"
  "om_target (snd (om_emit ob c x s)) = om_target s"
  "om_baseline (snd (om_emit ob c x s)) = om_baseline s"
  "om_route (snd (om_emit ob c x s)) = om_route s"
  "rt_now (snd (om_emit ob c x s)) = rt_now s"
  "objman.more (snd (om_emit ob c x s)) = objman.more s"
  by (simp_all add: om_emit_def Let_def split_beta world_frame journal_simps)

lemma om_emit_journal [journal_simps]:
  "rt_journal (snd (om_emit ob c x s)) = rt_journal s @ [fst (om_emit ob c x s)]"
  "rt_seq (snd (om_emit ob c x s)) = Suc (rt_seq s)"
  "ev_type (fst (om_emit ob c x s)) = event_type (o_status ob)"
  "ev_cause (fst (om_emit ob c x s)) = c"
  "ev_id (fst (om_emit ob c x s)) = event_name (Suc (rt_seq s))"
  "ev_trace (fst (om_emit ob c x s)) = str_or (Some (o_trace ob)) (event_name (Suc (rt_seq s)))"
  "om_last (snd (om_emit ob c x s)) = (om_last s)(o_id ob \<mapsto> event_name (Suc (rt_seq s)))"
  by (simp_all add: om_emit_def Let_def split_beta journal_simps world_frame)

lemma journal_ok_tables [simp]:
  "journal_ok (s\<lparr>om_last := x1\<rparr>) = journal_ok s"
  "journal_ok (s\<lparr>om_objectives := x2\<rparr>) = journal_ok s"
  "journal_ok (s\<lparr>om_active := x3\<rparr>) = journal_ok s"
  "journal_ok (s\<lparr>om_order := x4\<rparr>) = journal_ok s"
  "journal_ok (s\<lparr>om_target := x5\<rparr>) = journal_ok s"
  "journal_ok (s\<lparr>om_baseline := x6\<rparr>) = journal_ok s"
  "journal_ok (s\<lparr>om_route := x7\<rparr>) = journal_ok s"
  by (simp_all add: journal_ok_def)

lemma om_emit_journal_ok: "journal_ok s \<Longrightarrow> journal_ok (snd (om_emit ob c x s))"
  by (simp add: om_emit_def Let_def split_beta emit_journal_ok)

lemma om_emit_extends: "extends s (snd (om_emit ob c x s))"
  by (auto simp: extends_def journal_simps)

subsection \<open>The two operations, case by case\<close>

text \<open>
  A transition either raises and changes nothing, or replaces one objective by its successor,
  retires its key when the new status is terminal, and appends exactly one lifecycle event.
\<close>

definition succ_objective ::
  "objective \<Rightarrow> ostatus \<Rightarrow> string option \<Rightarrow> string option \<Rightarrow> objective" where
  "succ_objective ob to claimer evidence =
     ob\<lparr>o_status := to,
        o_claimed_by := (if claimer = None then o_claimed_by ob else claimer),
        o_evidence := (case evidence of None \<Rightarrow> o_evidence ob | Some e \<Rightarrow> o_evidence ob @ [e])\<rparr>"

lemma succ_objective_simps [simp]:
  "o_status (succ_objective ob to cl ev) = to"
  "o_id (succ_objective ob to cl ev) = o_id ob"
  "o_type (succ_objective ob to cl ev) = o_type ob"
  "o_trace (succ_objective ob to cl ev) = o_trace ob"
  "o_owner (succ_objective ob to cl ev) = o_owner ob"
  "o_allowed (succ_objective ob to cl ev) = o_allowed ob"
  "o_claimed_by (succ_objective ob to cl ev) = (if cl = None then o_claimed_by ob else cl)"
  by (simp_all add: succ_objective_def)

definition may_move :: "objective \<Rightarrow> ostatus \<Rightarrow> string option \<Rightarrow> bool" where
  "may_move ob to claimer \<longleftrightarrow>
     to \<in> allowed_transitions (o_status ob) \<and>
     (to = Claimed \<longrightarrow> claimer \<noteq> None \<or> o_claimed_by ob \<noteq> None)"

lemma om_transition_refused:
  assumes "om_objectives s oid = None \<or> (\<exists>ob. om_objectives s oid = Some ob \<and> \<not> may_move ob to cl)"
  shows "\<exists>e. om_transition oid to cl c ev p s = (Inl e, s)"
  using assms by (auto simp: om_transition_def may_move_def)

text \<open>The state from which an accepted transition emits its lifecycle event.\<close>

definition retire :: "string \<Rightarrow> objective \<Rightarrow> ostatus \<Rightarrow> 'a objman_scheme \<Rightarrow> 'a objman_scheme" where
  "retire oid ob' to s =
     (let s1 = s\<lparr>om_objectives := (om_objectives s)(oid \<mapsto> ob')\<rparr>;
          key = (o_type ob', target_of s oid)
      in if to \<in> terminal \<and> om_active s key = Some oid
         then s1\<lparr>om_active := (om_active s)(key := None)\<rparr> else s1)"

lemma retire_simps [simp]:
  "om_objectives (retire oid ob' to s) = (om_objectives s)(oid \<mapsto> ob')"
  "om_order (retire oid ob' to s) = om_order s"
  "om_target (retire oid ob' to s) = om_target s"
  "om_baseline (retire oid ob' to s) = om_baseline s"
  "om_route (retire oid ob' to s) = om_route s"
  "om_last (retire oid ob' to s) = om_last s"
  "rt_now (retire oid ob' to s) = rt_now s"
  "rt_seq (retire oid ob' to s) = rt_seq s"
  "rt_journal (retire oid ob' to s) = rt_journal s"
  "objman.more (retire oid ob' to s) = objman.more s"
  "journal_ok (retire oid ob' to s) = journal_ok s"
  by (simp_all add: retire_def Let_def)

lemma om_active_retire:
  "om_active (retire oid ob' to s) =
     (let key = (o_type ob', target_of s oid) in
      if to \<in> terminal \<and> om_active s key = Some oid then (om_active s)(key := None)
      else om_active s)"
  by (simp add: retire_def Let_def)

definition pick_cause :: "string option \<Rightarrow> string option \<Rightarrow> string option" where
  "pick_cause c prev = (if c = None \<or> c = Some [] then prev else c)"

lemma om_transition_eq:
  assumes "om_objectives s oid = Some ob" and "may_move ob to cl"
  shows "om_transition oid to cl c ev p s =
     (Inr (succ_objective ob to cl ev),
      snd (om_emit (succ_objective ob to cl ev) (pick_cause c (om_last s oid)) p
             (retire oid (succ_objective ob to cl ev) to s)))"
proof -
  have g1: "to \<in> allowed_transitions (o_status ob)"
    and g2: "(to = Claimed \<and> cl = None \<and> o_claimed_by ob = None) = False"
    using assms(2) by (auto simp: may_move_def)
  have pick: "(case c of Some (x # xs) \<Rightarrow> Some (x # xs) | _ \<Rightarrow> l) = pick_cause c l" for l
    by (auto simp: pick_cause_def split: option.split list.split)
  show ?thesis
    using g1 unfolding om_transition_def assms(1)
    by (simp only: option.case g2 if_False Let_def split_beta pick
        succ_objective_def[symmetric] prod.case simp_thms)
       (simp add: retire_def Let_def target_of_def)
qed

lemma om_transition_accepted:
  assumes "om_objectives s oid = Some ob" and "may_move ob to cl"
  shows "fst (om_transition oid to cl c ev p s) = Inr (succ_objective ob to cl ev)"
    and "om_objectives (snd (om_transition oid to cl c ev p s)) =
           (om_objectives s)(oid \<mapsto> succ_objective ob to cl ev)"
    and "om_active (snd (om_transition oid to cl c ev p s)) =
           (let key = (o_type ob, target_of s oid) in
            if to \<in> terminal \<and> om_active s key = Some oid then (om_active s)(key := None)
            else om_active s)"
    and "om_order (snd (om_transition oid to cl c ev p s)) = om_order s"
    and "om_target (snd (om_transition oid to cl c ev p s)) = om_target s"
    and "om_baseline (snd (om_transition oid to cl c ev p s)) = om_baseline s"
    and "om_route (snd (om_transition oid to cl c ev p s)) = om_route s"
    and "rt_now (snd (om_transition oid to cl c ev p s)) = rt_now s"
    and "objman.more (snd (om_transition oid to cl c ev p s)) = objman.more s"
    and "journal_ok s \<Longrightarrow> journal_ok (snd (om_transition oid to cl c ev p s))"
    and "om_last (snd (om_transition oid to cl c ev p s)) =
           (om_last s)(o_id ob \<mapsto> event_name (Suc (rt_seq s)))"
  by (simp_all add: om_transition_eq[OF assms] world_frame journal_simps om_emit_journal_ok
      om_active_retire Let_def)

lemma om_transition_journal:
  assumes "om_objectives s oid = Some ob" and "may_move ob to cl"
  shows "\<exists>e. rt_journal (snd (om_transition oid to cl c ev p s)) = rt_journal s @ [e] \<and>
             ev_type e = event_type to \<and>
             ev_id e = event_name (Suc (rt_seq s)) \<and>
             ev_trace e = str_or (Some (o_trace ob)) (event_name (Suc (rt_seq s))) \<and>
             ev_cause e = pick_cause c (om_last s oid)"
  by (auto simp: om_transition_eq[OF assms] journal_simps)

lemma om_transition_seq:
  assumes "om_objectives s oid = Some ob" and "may_move ob to cl"
  shows "rt_seq (snd (om_transition oid to cl c ev p s)) = Suc (rt_seq s)"
  by (simp add: om_transition_eq[OF assms] journal_simps)

lemma om_transition_cases:
  obtains (refused) e where "om_transition oid to cl c ev p s = (Inl e, s)"
      "om_objectives s oid = None \<or> (\<exists>ob. om_objectives s oid = Some ob \<and> \<not> may_move ob to cl)"
  | (accepted) ob where "om_objectives s oid = Some ob" "may_move ob to cl"
proof (cases "\<exists>ob. om_objectives s oid = Some ob \<and> may_move ob to cl")
  case True
  then show thesis using accepted by blast
next
  case False
  then have no: "om_objectives s oid = None \<or>
      (\<exists>ob. om_objectives s oid = Some ob \<and> \<not> may_move ob to cl)"
    by (cases "om_objectives s oid") auto
  then obtain e where "om_transition oid to cl c ev p s = (Inl e, s)"
    using om_transition_refused by blast
  then show thesis using no by (rule refused)
qed

lemma om_transition_extends: "extends s (snd (om_transition oid to cl c ev p s))"
proof (cases rule: om_transition_cases[of oid to cl c ev p s])
  case (refused e)
  then show ?thesis by simp
next
  case (accepted ob)
  then show ?thesis using om_transition_journal[OF accepted, of c ev p] by (auto simp: extends_def)
qed

lemma om_transition_journal_ok:
  "journal_ok s \<Longrightarrow> journal_ok (snd (om_transition oid to cl c ev p s))"
  by (cases rule: om_transition_cases[of oid to cl c ev p s])
     (auto simp: om_transition_accepted(10))

lemma om_transition_now: "rt_now (snd (om_transition oid to cl c ev p s)) = rt_now s"
  by (cases rule: om_transition_cases[of oid to cl c ev p s])
     (auto simp: om_transition_accepted(8))

lemma om_transition_more: "objman.more (snd (om_transition oid to cl c ev p s)) = objman.more s"
  by (cases rule: om_transition_cases[of oid to cl c ev p s])
     (auto simp: om_transition_accepted(9))

text \<open>An \<^verbatim>\<open>open\<close> either returns the live objective of its key, or fails before any write, or
  installs a fresh objective (the measurements of a malformed payload may still raise after
  the tables have been written).\<close>

definition fresh_objective ::
  "pydict \<Rightarrow> route \<Rightarrow> string \<Rightarrow> int \<Rightarrow> rat option \<Rightarrow> string \<Rightarrow> string \<Rightarrow> rat \<Rightarrow> objective" where
  "fresh_objective ev r owner prio dl sid trace now =
     \<lparr>o_id = objective_id sid, o_type = r_type r, o_trace = trace, o_owner = owner,
      o_priority = prio, o_status = Open, o_created = now, o_deadline = dl,
      o_evidence = [sid], o_allowed = r_allowed r, o_claimed_by = None\<rparr>"

lemma fresh_objective_simps [simp]:
  "o_status (fresh_objective ev r owner prio dl sid trace now) = Open"
  "o_id (fresh_objective ev r owner prio dl sid trace now) = objective_id sid"
  "o_type (fresh_objective ev r owner prio dl sid trace now) = r_type r"
  "o_trace (fresh_objective ev r owner prio dl sid trace now) = trace"
  "o_owner (fresh_objective ev r owner prio dl sid trace now) = owner"
  "o_allowed (fresh_objective ev r owner prio dl sid trace now) = r_allowed r"
  "o_claimed_by (fresh_objective ev r owner prio dl sid trace now) = None"
  by (simp_all add: fresh_objective_def)

lemma om_open_existing:
  assumes "om_active s (r_type r, get_str ev ''target_id'') = Some oid"
    and "om_objectives s oid = Some ob"
  shows "om_open ev r owner prio dl s = (Inr ob, s)"
  using assms by (simp add: om_open_def)

lemma om_open_fresh:
  fixes owner :: string and prio :: int and dl :: "rat option"
  assumes none: "om_active s (r_type r, get_str ev ''target_id'') = None"
    and sid: "item_str ev ''event_id'' = Inr sid" and tr: "item_str ev ''trace_id'' = Inr trace"
  defines "ob \<equiv> fresh_objective ev r owner prio dl sid trace (rt_now s)"
  shows "om_objectives (snd (om_open ev r owner prio dl s)) = (om_objectives s)(o_id ob \<mapsto> ob)"
    and "om_order (snd (om_open ev r owner prio dl s)) = om_order s @ [o_id ob]"
    and "om_active (snd (om_open ev r owner prio dl s)) =
           (om_active s)((r_type r, get_str ev ''target_id'') \<mapsto> o_id ob)"
    and "om_target (snd (om_open ev r owner prio dl s)) =
           (om_target s)(o_id ob \<mapsto> get_str ev ''target_id'')"
    and "objman.more (snd (om_open ev r owner prio dl s)) = objman.more s"
    and "rt_now (snd (om_open ev r owner prio dl s)) = rt_now s"
    and "journal_ok s \<Longrightarrow> journal_ok (snd (om_open ev r owner prio dl s))"
    and "extends s (snd (om_open ev r owner prio dl s))"
  using none sid tr unfolding ob_def fresh_objective_def
  by (auto simp: om_open_def Let_def split_beta world_frame om_emit_journal_ok extends_def
      journal_simps split: sum.splits)

lemma om_open_fresh_ok:
  fixes owner :: string and prio :: int and dl :: "rat option"
  assumes none: "om_active s (r_type r, get_str ev ''target_id'') = None"
    and sid: "item_str ev ''event_id'' = Inr sid" and tr: "item_str ev ''trace_id'' = Inr trace"
    and m: "sensor_measurements ev = Inr m"
  defines "ob \<equiv> fresh_objective ev r owner prio dl sid trace (rt_now s)"
  shows "fst (om_open ev r owner prio dl s) = Inr ob"
    and "\<exists>e. rt_journal (snd (om_open ev r owner prio dl s)) = rt_journal s @ [e] \<and>
             ev_type e = ''objective.opened'' \<and> ev_cause e = Some sid \<and>
             (trace \<noteq> [] \<longrightarrow> ev_trace e = trace)"
    and "om_baseline (snd (om_open ev r owner prio dl s)) = (om_baseline s)(o_id ob \<mapsto> m)"
    and "om_route (snd (om_open ev r owner prio dl s)) = (om_route s)(o_id ob \<mapsto> r)"
  using none sid tr m unfolding ob_def fresh_objective_def
  by (auto simp: om_open_def Let_def split_beta world_frame journal_simps event_type_def)

lemma om_open_cases:
  obtains (existing) oid ob where
      "om_active s (r_type r, get_str ev ''target_id'') = Some oid"
      "om_objectives s oid = Some ob" "om_open ev r owner prio dl s = (Inr ob, s)"
  | (failed) e where "om_open ev r owner prio dl s = (Inl e, s)"
  | (fresh) sid trace where
      "om_active s (r_type r, get_str ev ''target_id'') = None"
      "item_str ev ''event_id'' = Inr sid" "item_str ev ''trace_id'' = Inr trace"
proof (cases "om_active s (r_type r, get_str ev ''target_id'')")
  case None
  show thesis
  proof (cases "item_str ev ''event_id''")
    case (Inl e)
    with None have "om_open ev r owner prio dl s = (Inl e, s)" by (simp add: om_open_def)
    then show thesis by (rule failed)
  next
    case (Inr sid)
    show thesis
    proof (cases "item_str ev ''trace_id''")
      case (Inl e)
      with None Inr have "om_open ev r owner prio dl s = (Inl e, s)" by (simp add: om_open_def)
      then show thesis by (rule failed)
    next
      case (Inr trace)
      with None \<open>item_str ev ''event_id'' = Inr sid\<close> show thesis by (rule fresh)
    qed
  qed
next
  case (Some oid)
  then show thesis
    by (cases "om_objectives s oid") (auto simp: om_open_def intro: existing failed)
qed

end
