(* ===== verification/Objective_Lifecycle.thy ===== *)
theory Objective_Lifecycle imports Objectives begin

text \<open>
  The invariant of the objective manager and what follows from it: the active index and the
  objectives agree, so at most one live objective exists for a (type, target); a status only
  moves along the transition table; terminal is final; every lifecycle event stays on the
  objective's trace.  The manager's steps are a relation over its public operations, and the
  invariant is lifted to every reachable state by rule induction.
\<close>

section \<open>The invariant\<close>

definition live :: "objective \<Rightarrow> bool" where
  "live ob \<longleftrightarrow> o_status ob \<notin> terminal"

text \<open>Statuses that only a claimed objective can have.\<close>

definition owned :: "ostatus set" where
  "owned = {Claimed, Acting, Evaluating, Resolved}"

definition objectives_ok :: "'a objman_scheme \<Rightarrow> bool" where
  "objectives_ok s \<longleftrightarrow>
     (\<forall>oid ob. om_objectives s oid = Some ob \<longrightarrow>
        o_id ob = oid \<and> om_target s oid \<noteq> None \<and>
        (o_status ob \<in> owned \<longrightarrow> o_claimed_by ob \<noteq> None))"

definition index_ok :: "'a objman_scheme \<Rightarrow> bool" where
  "index_ok s \<longleftrightarrow>
     (\<forall>oid ob. om_objectives s oid = Some ob \<longrightarrow> live ob \<longrightarrow>
        om_active s (o_type ob, target_of s oid) = Some oid) \<and>
     (\<forall>ty tg oid. om_active s (ty, tg) = Some oid \<longrightarrow>
        (\<exists>ob. om_objectives s oid = Some ob \<and> live ob \<and> ty = o_type ob \<and> tg = target_of s oid))"

definition order_ok :: "'a objman_scheme \<Rightarrow> bool" where
  "order_ok s \<longleftrightarrow> set (om_order s) = dom (om_objectives s)"

definition om_inv :: "'a objman_scheme \<Rightarrow> bool" where
  "om_inv s \<longleftrightarrow> objectives_ok s \<and> index_ok s \<and> order_ok s"

lemmas om_inv_defs = om_inv_def objectives_ok_def index_ok_def order_ok_def

definition om_init :: "'a objman_scheme \<Rightarrow> bool" where
  "om_init s \<longleftrightarrow> om_objectives s = Map.empty \<and> om_order s = [] \<and> om_active s = Map.empty"

lemma om_init_inv: "om_init s \<Longrightarrow> om_inv s"
  by (simp add: om_init_def om_inv_defs)

lemma om_inv_cong:
  assumes "om_objectives s' = om_objectives s" "om_order s' = om_order s"
    and "om_active s' = om_active s" "om_target s' = om_target s"
  shows "om_inv s' = om_inv s"
  using assms by (simp add: om_inv_defs target_of_def)

lemma emit_om_inv: "om_inv (snd (emit ty a t c tr p s)) = om_inv s"
  by (rule om_inv_cong) (simp_all add: world_frame)

text \<open>Objects of the invariant, in the form the other components use.\<close>

lemma om_invD:
  assumes "om_inv s" and "om_objectives s oid = Some ob"
  shows "o_id ob = oid" and "om_target s oid \<noteq> None" and "oid \<in> set (om_order s)"
    and "o_status ob \<in> owned \<Longrightarrow> o_claimed_by ob \<noteq> None"
    and "live ob \<Longrightarrow> om_active s (o_type ob, target_of s oid) = Some oid"
  using assms by (auto simp: om_inv_defs)

lemma om_active_live:
  assumes "om_inv s" and "om_active s k = Some oid"
  obtains ob where "om_objectives s oid = Some ob" "live ob" "k = (o_type ob, target_of s oid)"
proof -
  have "om_active s (fst k, snd k) = Some oid" using assms(2) by simp
  moreover have "\<forall>ty tg oid. om_active s (ty, tg) = Some oid \<longrightarrow>
        (\<exists>ob. om_objectives s oid = Some ob \<and> live ob \<and> ty = o_type ob \<and> tg = target_of s oid)"
    using assms(1) by (simp add: om_inv_def index_ok_def)
  ultimately obtain ob where ob: "om_objectives s oid = Some ob" "live ob"
      "fst k = o_type ob" "snd k = target_of s oid"
    by blast
  show thesis by (rule that[OF ob(1,2)]) (simp add: prod_eq_iff ob(3,4))
qed

lemma live_key_unique:
  assumes "om_inv s"
    and "om_objectives s i = Some a" "live a" and "om_objectives s j = Some b" "live b"
    and "o_type a = o_type b" "target_of s i = target_of s j"
  shows "i = j"
proof -
  have "Some i = om_active s (o_type a, target_of s i)"
    using om_invD(5)[OF assms(1,2,3)] by (rule sym)
  also have "\<dots> = om_active s (o_type b, target_of s j)"
    by (simp only: assms(6,7))
  also have "\<dots> = Some j" using om_invD(5)[OF assms(1,4,5)] .
  finally show ?thesis by simp
qed

section \<open>Transitions preserve it\<close>

lemma owned_transition:
  assumes "to \<in> allowed_transitions st" and "to \<in> owned"
  shows "to = Claimed \<or> st \<in> owned"
  using assms by (cases st) (auto simp: owned_def)

lemma may_move_claimed:
  assumes "may_move ob to cl" and "o_status ob \<in> owned \<Longrightarrow> o_claimed_by ob \<noteq> None"
    and "to \<in> owned"
  shows "o_claimed_by (succ_objective ob to cl ev) \<noteq> None"
  using assms owned_transition[of to "o_status ob"] by (auto simp: may_move_def)

lemma may_move_live: "may_move ob to cl \<Longrightarrow> live ob"
  using terminal_no_transitions by (auto simp: may_move_def live_def)

lemma om_transition_inv:
  assumes inv: "om_inv s"
  shows "om_inv (snd (om_transition oid to cl c ev p s))"
proof (cases rule: om_transition_cases[of oid to cl c ev p s])
  case (refused e)
  with inv show ?thesis by simp
next
  case (accepted ob)
  note acc = om_transition_accepted[OF accepted, of c ev p]
  let ?s = "snd (om_transition oid to cl c ev p s)" and ?ob = "succ_objective ob to cl ev"
  note ob = om_invD[OF inv accepted(1)]
  have tgt: "target_of ?s i = target_of s i" for i
    by (rule target_of_cong) (simp add: acc)
  have key: "om_active s (o_type ob, target_of s oid) = Some oid"
    using ob(5) may_move_live[OF accepted(2)] .
  have "objectives_ok ?s"
    using inv ob may_move_claimed[OF accepted(2) ob(4)]
    by (auto simp: objectives_ok_def acc om_inv_def)
  moreover have "order_ok ?s"
    using inv accepted(1) by (auto simp: order_ok_def acc om_inv_def)
  moreover have "index_ok ?s"
    unfolding index_ok_def
  proof (intro conjI allI impI)
    fix i b
    assume b: "om_objectives ?s i = Some b" and lv: "live b"
    show "om_active ?s (o_type b, target_of ?s i) = Some i"
    proof (cases "i = oid")
      case True
      with b lv key show ?thesis by (auto simp: acc tgt live_def Let_def)
    next
      case False
      with b lv have "om_active s (o_type b, target_of s i) = Some i"
        using om_invD(5)[OF inv] by (simp add: acc)
      with False key show ?thesis by (auto simp: acc tgt Let_def)
    qed
  next
    fix ty tg i
    assume act: "om_active ?s (ty, tg) = Some i"
    then have "om_active s (ty, tg) = Some i" by (auto simp: acc Let_def split: if_splits)
    then obtain b where b: "om_objectives s i = Some b" "live b" "(ty, tg) = (o_type b, target_of s i)"
      by (rule om_active_live[OF inv])
    show "\<exists>b. om_objectives ?s i = Some b \<and> live b \<and> ty = o_type b \<and> tg = target_of ?s i"
    proof (cases "i = oid")
      case True
      with act b key accepted(1) show ?thesis
        by (auto simp: acc tgt live_def Let_def split: if_splits)
    next
      case False
      with b show ?thesis by (auto simp: acc tgt)
    qed
  qed
  ultimately show ?thesis by (simp add: om_inv_def)
qed

section \<open>Opening preserves it\<close>

text \<open>
  The id of an objective is a function of the sensor event's id.  Opening the same event again is
  harmless as long as it is opened for the same key: the callers resolve type and target from
  the event itself.
\<close>

definition same_key :: "pydict \<Rightarrow> route \<Rightarrow> 'a objman_scheme \<Rightarrow> bool" where
  "same_key ev r s \<longleftrightarrow>
     (\<forall>sid ob. item_str ev ''event_id'' = Inr sid \<longrightarrow>
        om_objectives s (objective_id sid) = Some ob \<longrightarrow>
        o_type ob = r_type r \<and> target_of s (objective_id sid) = get_str ev ''target_id'')"

lemma om_open_inv:
  assumes inv: "om_inv s" and same: "same_key ev r s"
  shows "om_inv (snd (om_open ev r owner prio dl s))"
proof (cases rule: om_open_cases[of s r ev owner prio dl])
  case (existing oid ob)
  with inv show ?thesis by simp
next
  case (failed e)
  with inv show ?thesis by simp
next
  case (fresh sid trace)
  let ?s = "snd (om_open ev r owner prio dl s)" and ?oid = "objective_id sid"
  let ?ob = "fresh_objective ev r owner prio dl sid trace (rt_now s)"
  note fr = om_open_fresh[OF fresh, of owner prio dl]
  have tgt: "target_of ?s i = (if i = ?oid then get_str ev ''target_id'' else target_of s i)" for i
    by (simp add: target_of_def fr)
  have dead: "\<not> live b" if "om_objectives s ?oid = Some b" for b
    using that same fresh(1,2) om_invD(5)[OF inv that] by (auto simp: same_key_def)
  have "objectives_ok ?s"
    using inv by (auto simp: objectives_ok_def fr om_inv_def owned_def)
  moreover have "order_ok ?s"
    using inv by (auto simp: order_ok_def fr om_inv_def)
  moreover have "index_ok ?s"
    unfolding index_ok_def
  proof (intro conjI allI impI)
    fix i b
    assume b: "om_objectives ?s i = Some b" and lv: "live b"
    show "om_active ?s (o_type b, target_of ?s i) = Some i"
    proof (cases "i = ?oid")
      case True
      with b show ?thesis by (auto simp: fr tgt)
    next
      case False
      with b lv have "om_active s (o_type b, target_of s i) = Some i"
        using om_invD(5)[OF inv] by (simp add: fr)
      with False fresh(1) show ?thesis by (auto simp: fr tgt)
    qed
  next
    fix ty tg i
    assume act: "om_active ?s (ty, tg) = Some i"
    show "\<exists>b. om_objectives ?s i = Some b \<and> live b \<and> ty = o_type b \<and> tg = target_of ?s i"
    proof (cases "(ty, tg) = (r_type r, get_str ev ''target_id'')")
      case True
      with act show ?thesis by (auto simp: fr tgt live_def terminal_def)
    next
      case False
      with act have "om_active s (ty, tg) = Some i" by (auto simp: fr split: if_splits)
      then obtain b where b: "om_objectives s i = Some b" "live b" "(ty, tg) = (o_type b, target_of s i)"
        by (rule om_active_live[OF inv])
      with dead have "i \<noteq> ?oid" by auto
      with b show ?thesis by (auto simp: fr tgt)
    qed
  qed
  ultimately show ?thesis by (simp add: om_inv_def)
qed

section \<open>Runs\<close>

text \<open>The steps the rest of the program can take on the manager: open, transition, any other
  component emitting on the shared journal, the environment moving the clock on, the runtime
  changing its playback status, and any change to what extends the manager's state (evaluations,
  the service, the scenario).\<close>

inductive om_step :: "'a objman_scheme \<Rightarrow> 'a objman_scheme \<Rightarrow> bool" where
  opened: "same_key ev r s \<Longrightarrow> om_step s (snd (om_open ev r owner prio dl s))"
| moved: "om_step s (snd (om_transition oid to cl c evid p s))"
| emitted: "om_step s (snd (emit ty a t c tr p s))"
| clocked: "rt_now s \<le> t \<Longrightarrow> om_step s (s\<lparr>rt_now := t\<rparr>)"
| played: "om_step s (s\<lparr>rt_status := st\<rparr>)"
| elsewhere: "om_step s (objman.more_update f s)"

inductive om_reachable :: "'a objman_scheme \<Rightarrow> bool" where
  start: "om_init s \<Longrightarrow> journal_ok s \<Longrightarrow> om_reachable s"
| step: "om_reachable s \<Longrightarrow> om_step s s' \<Longrightarrow> om_reachable s'"

text \<open>Time, playback and the rest of the state are not the manager's.\<close>

lemma om_frame:
  "om_inv (s\<lparr>rt_now := t\<rparr>) = om_inv s" "om_inv (s\<lparr>rt_status := st\<rparr>) = om_inv s"
  "om_inv (objman.more_update f s) = om_inv s"
  "journal_ok (s\<lparr>rt_now := t\<rparr>) = journal_ok s" "journal_ok (s\<lparr>rt_status := st\<rparr>) = journal_ok s"
  "journal_ok (objman.more_update f s) = journal_ok s"
  by (rule om_inv_cong journal_ok_cong; simp)+

lemma om_step_inv: "om_step s s' \<Longrightarrow> om_inv s \<Longrightarrow> om_inv s'"
  by (induction rule: om_step.induct) (simp_all add: om_open_inv om_transition_inv emit_om_inv om_frame)

lemma om_open_journal_ok:
  "journal_ok s \<Longrightarrow> journal_ok (snd (om_open ev r owner prio dl s))"
  by (cases rule: om_open_cases[of s r ev owner prio dl]) (simp_all add: om_open_fresh(7))

lemma om_open_extends: "extends s (snd (om_open ev r owner prio dl s))"
  by (cases rule: om_open_cases[of s r ev owner prio dl]) (simp_all add: om_open_fresh(8))

lemma om_step_journal: "om_step s s' \<Longrightarrow> journal_ok s \<Longrightarrow> journal_ok s' \<and> extends s s'"
  by (induction rule: om_step.induct)
     (simp_all add: om_open_journal_ok om_open_extends om_transition_journal_ok
        om_transition_extends emit_journal_ok emit_extends om_frame extends_cong)

lemma om_reachable_ok: "om_reachable s \<Longrightarrow> om_inv s \<and> journal_ok s"
  by (induction rule: om_reachable.induct)
     (auto simp: om_init_inv dest: om_step_inv om_step_journal)

text \<open>One step moves one objective's status along the table at most; a fresh sensor event may put a
  new open objective in place of a finished one with the same id.\<close>

definition status_step :: "ostatus \<Rightarrow> ostatus \<Rightarrow> bool" where
  "status_step a b \<longleftrightarrow> a = b \<or> b \<in> allowed_transitions a"

lemma om_transition_status:
  assumes inv: "om_inv s" and ob: "om_objectives s i = Some ob"
  shows "\<exists>ob'. om_objectives (snd (om_transition oid to cl c ev p s)) i = Some ob' \<and>
            status_step (o_status ob) (o_status ob') \<and> o_trace ob' = o_trace ob \<and>
            o_type ob' = o_type ob \<and> o_allowed ob' = o_allowed ob"
proof (cases rule: om_transition_cases[of oid to cl c ev p s])
  case (refused e)
  with ob show ?thesis by (simp add: status_step_def)
next
  case (accepted b)
  then show ?thesis
    using ob by (auto simp: om_transition_accepted(2) status_step_def may_move_def)
qed

lemma om_step_status:
  assumes "om_step s s'" and "om_inv s" and "om_objectives s i = Some ob"
  shows "\<exists>ob'. om_objectives s' i = Some ob' \<and>
           (status_step (o_status ob) (o_status ob') \<or> \<not> live ob \<and> o_status ob' = Open)"
  using assms
proof (induction rule: om_step.induct)
  case (opened ev r s owner prio dl)
  show ?case
  proof (cases rule: om_open_cases[of s r ev owner prio dl])
    case (existing oid b)
    with opened show ?thesis by (simp add: status_step_def)
  next
    case (failed e)
    with opened show ?thesis by (simp add: status_step_def)
  next
    case (fresh sid trace)
    have "\<not> live ob" if "i = objective_id sid"
      using that opened fresh(1,2) om_invD(5)[OF opened(2,3)] by (auto simp: same_key_def)
    then show ?thesis
      using opened(3) by (auto simp: om_open_fresh(1)[OF fresh] status_step_def)
  qed
next
  case (moved s oid to cl c evid p)
  from om_transition_status[OF moved] show ?case by blast
next
  case (emitted s ty a t c tr p)
  then show ?case by (simp add: world_frame status_step_def)
qed (simp_all add: status_step_def)

end
