(* ===== verification/Outcomes.thy ===== *)
theory Outcomes imports Objective_Lifecycle begin

text \<open>
  Evidence-backed outcome evaluation (\<^verbatim>\<open>api/server/world/evaluations.py\<close>) and the command
  gateway that scopes a command to its claimed objective before the scenario may mutate the world
  (\<^verbatim>\<open>api/server/world/commands.py\<close>).  The scenario's own \<^verbatim>\<open>apply_command\<close> is an
  argument of the gateway, as it is in the code; what the gateway relies on is the locale
  \<^verbatim>\<open>command_scenario\<close>, which the support world interprets.
\<close>

section \<open>Data\<close>

datatype estatus = Started | EResolved | EFailed | TimedOut

fun estatus_str :: "estatus \<Rightarrow> string" where
  "estatus_str Started = ''started''"
| "estatus_str EResolved = ''resolved''"
| "estatus_str EFailed = ''failed''"
| "estatus_str TimedOut = ''timed_out''"

record evaluation =
  e_id :: string
  e_objective :: string
  e_trace :: string
  e_command :: string
  e_started :: rat
  e_baseline :: pydict
  e_status :: estatus
  e_deadline :: "rat option"
  e_final :: "pydict option"
  e_evidence :: "string list"
  e_completed :: "rat option"

definition evaluation_to_dict :: "evaluation \<Rightarrow> pydict" where
  "evaluation_to_dict e =
     [(''id'', VStr (e_id e)),
      (''objective_id'', VStr (e_objective e)),
      (''trace_id'', VStr (e_trace e)),
      (''command_id'', VStr (e_command e)),
      (''started_at'', VFloat (Fin (e_started e))),
      (''baseline'', VDict (e_baseline e)),
      (''status'', VStr (estatus_str (e_status e))),
      (''deadline_at'', opt_num (e_deadline e)),
      (''final_measurements'', (case e_final e of None \<Rightarrow> VNone | Some d \<Rightarrow> VDict d)),
      (''evidence_event_ids'', VList (map VStr (e_evidence e))),
      (''completed_at'', opt_num (e_completed e))]"

record evaluator = objman +
  ev_list :: "evaluation list"
  ev_route :: "string \<rightharpoonup> route"

section \<open>The evaluator\<close>

definition eval_for_objective :: "'a evaluator_scheme \<Rightarrow> string \<Rightarrow> evaluation option" where
  "eval_for_objective s oid = first_match (\<lambda>e. e_objective e = oid) (rev (ev_list s))"

definition eval_start ::
  "objective \<Rightarrow> sim_command \<Rightarrow> route \<Rightarrow> string option \<Rightarrow>
   'a evaluator_scheme \<Rightarrow> evaluation \<times> 'a evaluator_scheme" where
  "eval_start ob c r cause s =
     (let e = \<lparr>e_id = ''eval-'' @ cmd_id c, e_objective = o_id ob, e_trace = cmd_trace c,
               e_command = cmd_id c, e_started = rt_now s,
               e_baseline = baseline_for s (o_id ob), e_status = Started,
               e_deadline = Some (rt_now s + r_timeout r), e_final = None, e_evidence = [],
               e_completed = None\<rparr>;
          s1 = s\<lparr>ev_list := ev_list s @ [e], ev_route := (ev_route s)(e_id e \<mapsto> r)\<rparr>;
          (_, s2) = emit ''evaluation.started'' (Some (o_owner ob)) (o_claimed_by ob) cause
                      (Some (cmd_trace c)) (evaluation_to_dict e) s1
      in (e, s2))"

text \<open>\<^verbatim>\<open>xs[xs.index(x)] = y\<close>: the first equal element; an absent one raises ValueError.\<close>

fun replace_first :: "'b \<Rightarrow> 'b \<Rightarrow> 'b list \<Rightarrow> 'b list" where
  "replace_first x y [] = []"
| "replace_first x y (z # zs) = (if z = x then y # zs else z # replace_first x y zs)"

text \<open>\<^verbatim>\<open>dict(payload.get("measurements") or payload)\<close>.\<close>

definition evidence_measurements :: "sim_event \<Rightarrow> pydict result" where
  "evidence_measurements ev =
     as_dict (py_or (dict_get (ev_payload ev) ''measurements'') (VDict (ev_payload ev)))"

definition finished ::
  "evaluation \<Rightarrow> estatus \<Rightarrow> pydict option \<Rightarrow> string list \<Rightarrow> rat \<Rightarrow> evaluation" where
  "finished e st final evidence now =
     e\<lparr>e_status := st, e_final := final, e_evidence := evidence, e_completed := Some now\<rparr>"

definition outcome_of :: "estatus \<Rightarrow> ostatus" where
  "outcome_of st = (if st = EResolved then Resolved else Failed)"

definition eval_finish ::
  "evaluation \<Rightarrow> estatus \<Rightarrow> sim_event option \<Rightarrow>
   'a evaluator_scheme \<Rightarrow> unit result \<times> 'a evaluator_scheme" where
  "eval_finish e st evidence s =
     (case om_get s (e_objective e) of
        None \<Rightarrow> (Inr (), s)
      | Some ob \<Rightarrow>
          if o_status ob \<noteq> Evaluating then (Inr (), s)
          else
            (case (case evidence of None \<Rightarrow> Inr None
                   | Some ev \<Rightarrow> bind_result (evidence_measurements ev) (\<lambda>d. Inr (Some d))) of
               Inl x \<Rightarrow> (Inl x, s)
             | Inr final \<Rightarrow>
                 let evid = map_option ev_id evidence;
                     upd = finished e st final (case evid of None \<Rightarrow> [] | Some i \<Rightarrow> [i]) (rt_now s)
                 in if e \<notin> set (ev_list s)
                    then (Inl (ValueError (Msg ''evaluation is not in list'' [])), s)
                    else
                      and_then (om_transition (e_objective e) (outcome_of st) None evid evid
                              [(''evaluation_id'', VStr (e_id e)),
                               (''evaluation_status'', VStr (estatus_str st))]
                              (s\<lparr>ev_list := replace_first e upd (ev_list s)\<rparr>))
                        (\<lambda>_ s1. (Inr (), snd (emit (''evaluation.'' @ estatus_str st) (Some (o_owner ob))
                              (o_claimed_by ob) (last_event_id s1 (e_objective e))
                              (Some (e_trace e)) (evaluation_to_dict upd) s1)))))"

text \<open>The first event of the evidence that decides an evaluation on its own trace.\<close>

definition match_evidence :: "route \<Rightarrow> evaluation \<Rightarrow> sim_event list \<Rightarrow> sim_event option" where
  "match_evidence r e evidence =
     first_match (\<lambda>ev. ev_trace ev = e_trace e \<and> ev_type ev \<in> r_success r \<union> r_failure r) evidence"

text \<open>The body of the loop over the evaluations, and the loop.\<close>

definition observe_one ::
  "sim_event list \<Rightarrow> evaluation \<Rightarrow> 'a evaluator_scheme \<Rightarrow> unit result \<times> 'a evaluator_scheme" where
  "observe_one evidence e s =
     (if e_status e \<noteq> Started then (Inr (), s)
      else (case ev_route s (e_id e) of
          None \<Rightarrow> (Inl (KeyError (VStr (e_id e))), s)
        | Some r \<Rightarrow>
            (case match_evidence r e evidence of
               Some m \<Rightarrow>
                 eval_finish e (if ev_type m \<in> r_success r then EResolved else EFailed) (Some m) s
             | None \<Rightarrow>
                 if (case e_deadline e of None \<Rightarrow> False | Some d \<Rightarrow> d \<le> rt_now s)
                 then eval_finish e TimedOut None s
                 else (Inr (), s))))"

fun observe_loop ::
  "sim_event list \<Rightarrow> evaluation list \<Rightarrow> 'a evaluator_scheme \<Rightarrow>
   unit result \<times> 'a evaluator_scheme" where
  "observe_loop evidence [] s = (Inr (), s)"
| "observe_loop evidence (e # es) s =
     and_then (observe_one evidence e s) (\<lambda>_ s1. observe_loop evidence es s1)"

definition observe ::
  "sim_event list \<Rightarrow> 'a evaluator_scheme \<Rightarrow> unit result \<times> 'a evaluator_scheme" where
  "observe evidence s = observe_loop evidence (ev_list s) s"

section \<open>The command gateway\<close>

definition reject_reason :: "objective \<Rightarrow> sim_command \<Rightarrow> string option" where
  "reject_reason ob c =
     (if o_status ob \<noteq> Acting then
        Some (''objective '' @ o_id ob @ '' is '' @ ostatus_str (o_status ob) @ '', not acting'')
      else if cmd_trace c \<noteq> o_trace ob then Some ''command trace does not match objective trace''
      else if cmd_type c \<notin> o_allowed ob then
        Some (''command type '' @ py_repr (cmd_type c) @ '' not allowed for objective'')
      else if Some (cmd_issuer c) \<noteq> o_claimed_by ob then
        Some (''issuer '' @ py_repr (cmd_issuer c) @ '' did not claim the objective'')
      else None)"

definition gateway_apply ::
  "(sim_command \<Rightarrow> 'a evaluator_scheme \<Rightarrow> sim_event result \<times> 'a evaluator_scheme) \<Rightarrow>
   objective \<Rightarrow> sim_command \<Rightarrow> 'a evaluator_scheme \<Rightarrow> sim_event result \<times> 'a evaluator_scheme" where
  "gateway_apply apply_scenario ob0 c s =
     (let ob = (case om_get s (o_id ob0) of None \<Rightarrow> ob0 | Some ob \<Rightarrow> ob) in
      (case reject_reason ob c of
         Some reason \<Rightarrow>
           (let (rejected, s1) =
                  emit ''command.rejected'' (Some (cmd_issuer c)) (o_claimed_by ob)
                    (last_event_id s (o_id ob)) (Some (cmd_trace c))
                    [(''command'', VDict (command_to_dict c)), (''reason'', VStr reason)] s
            in and_then (om_transition (o_id ob) Failed None (Some (ev_id rejected)) None
                           [(''reason'', VStr reason)] s1)
                 (\<lambda>_ s2. (Inr rejected, s2)))
       | None \<Rightarrow>
           (let journal_start = length (rt_journal s) in
            and_then (apply_scenario c s) (\<lambda>res s1.
              if ev_type res = ''command.rejected'' then
                and_then (om_transition (o_id ob) Failed None (Some (ev_id res)) None
                            [(''reason'', VStr ''scenario rejected command'')] s1)
                  (\<lambda>_ s2. (Inr res, s2))
              else
                and_then (om_transition (o_id ob) Evaluating None (Some (ev_id res))
                            (Some (ev_id res)) [] s1) (\<lambda>_ s2.
                and_then (route_for s2 (o_id ob), s2) (\<lambda>r s2.
                let s3 = snd (eval_start ob c r (Some (ev_id res)) s2) in
                and_then (observe (drop journal_start (rt_journal s3)) s3)
                  (\<lambda>_ s4. (Inr res, s4))))))))"

section \<open>Frames\<close>

lemma evaluator_more:
  assumes "objman.more s' = objman.more (s :: 'a evaluator_scheme)"
  shows "ev_list s' = ev_list s" "ev_route s' = ev_route s" "evaluator.more s' = evaluator.more s"
  using assms by (cases s; cases s'; simp)+

lemmas om_transition_evaluator = evaluator_more[OF om_transition_more]

lemma emit_evaluator_frame [world_frame]:
  "ev_list (snd (emit ty a t c tr p (s :: 'a evaluator_scheme))) = ev_list s"
  "ev_route (snd (emit ty a t c tr p (s :: 'a evaluator_scheme))) = ev_route s"
  "evaluator.more (snd (emit ty a t c tr p (s :: 'a evaluator_scheme))) = evaluator.more s"
  by (simp_all add: emit_def Let_def)

lemma om_open_evaluator:
  "ev_list (snd (om_open ev r owner prio dl (s :: 'a evaluator_scheme))) = ev_list s"
  "ev_route (snd (om_open ev r owner prio dl (s :: 'a evaluator_scheme))) = ev_route s"
  "evaluator.more (snd (om_open ev r owner prio dl (s :: 'a evaluator_scheme))) = evaluator.more s"
proof -
  have "objman.more (snd (om_open ev r owner prio dl s)) = objman.more s"
    by (cases rule: om_open_cases[of s r ev owner prio dl]) (simp_all add: om_open_fresh(5))
  from evaluator_more[OF this]
  show "ev_list (snd (om_open ev r owner prio dl s)) = ev_list s"
    "ev_route (snd (om_open ev r owner prio dl s)) = ev_route s"
    "evaluator.more (snd (om_open ev r owner prio dl s)) = evaluator.more s" by auto
qed

lemma journal_ok_evals [simp]:
  "journal_ok (s\<lparr>ev_list := x1\<rparr>) = journal_ok s"
  "journal_ok (s\<lparr>ev_route := x2\<rparr>) = journal_ok s"
  by (simp_all add: journal_ok_def)

lemma extends_evals [simp]:
  "extends a (s\<lparr>ev_list := x1\<rparr>) = extends a s" "extends (s\<lparr>ev_list := x1\<rparr>) b = extends s b"
  "extends a (s\<lparr>ev_route := x2\<rparr>) = extends a s" "extends (s\<lparr>ev_route := x2\<rparr>) b = extends s b"
  by (simp_all add: extends_def)

lemma om_inv_evals [simp]:
  "om_inv (s\<lparr>ev_list := x1\<rparr>) = om_inv s" "om_inv (s\<lparr>ev_route := x2\<rparr>) = om_inv s"
  by (rule om_inv_cong; simp)+

section \<open>What finishing and observing change\<close>

text \<open>\<^verbatim>\<open>eval_finish\<close> returns without effect, or raises without having finished anything, or
  replaces one started evaluation by a finished one and moves its objective to the matching
  terminal status.\<close>

lemma replace_first_all2:
  assumes "\<And>z. P z z" and "P x y"
  shows "list_all2 P zs (replace_first x y zs)"
  by (induction zs) (auto simp: assms list.rel_refl)

lemma set_replace_first: "x \<in> set zs \<Longrightarrow> y \<in> set (replace_first x y zs)"
  by (induction zs) auto

lemma set_replace_first_subset: "set (replace_first x y zs) \<subseteq> insert y (set zs)"
  by (induction zs) auto

lemma outcome_of_reachable [simp]:
  "outcome_of st \<in> allowed_transitions Evaluating" "outcome_of st \<in> terminal"
  "outcome_of st \<noteq> Claimed" "outcome_of st \<noteq> Evaluating"
  by (auto simp: outcome_of_def terminal_def)

lemma eval_finish_cases:
  obtains (idle) "eval_finish e st evidence s = (Inr (), s)"
      "\<forall>ob. om_objectives s (e_objective e) = Some ob \<longrightarrow> o_status ob \<noteq> Evaluating"
  | (raised) x where "eval_finish e st evidence s = (Inl x, s)"
  | (finishes) ob final evid s1 s2 where
      "om_objectives s (e_objective e) = Some ob" "o_status ob = Evaluating" "e \<in> set (ev_list s)"
      "evid = map_option ev_id evidence"
      "s1 = snd (om_transition (e_objective e) (outcome_of st) None evid evid
                 [(''evaluation_id'', VStr (e_id e)),
                  (''evaluation_status'', VStr (estatus_str st))]
                 (s\<lparr>ev_list := replace_first e
                    (finished e st final (case evid of None \<Rightarrow> [] | Some i \<Rightarrow> [i]) (rt_now s))
                    (ev_list s)\<rparr>))"
      "s2 = snd (emit (''evaluation.'' @ estatus_str st) (Some (o_owner ob))
                 (o_claimed_by ob) (last_event_id s1 (e_objective e)) (Some (e_trace e))
                 (evaluation_to_dict
                   (finished e st final (case evid of None \<Rightarrow> [] | Some i \<Rightarrow> [i]) (rt_now s))) s1)"
      "eval_finish e st evidence s = (Inr (), s2)"
proof -
  let ?fin = "case evidence of None \<Rightarrow> Inr None
              | Some ev \<Rightarrow> bind_result (evidence_measurements ev) (\<lambda>d. Inr (Some d))"
  consider (gone) "\<forall>ob. om_objectives s (e_objective e) = Some ob \<longrightarrow> o_status ob \<noteq> Evaluating"
    | (bad) x where "eval_finish e st evidence s = (Inl x, s)"
    | (ok) ob final where "om_objectives s (e_objective e) = Some ob" "o_status ob = Evaluating"
        "?fin = Inr final" "e \<in> set (ev_list s)"
    by (cases "om_objectives s (e_objective e)"; cases ?fin)
       (fastforce simp: eval_finish_def om_get_def)+
  then show thesis
  proof cases
    case gone
    then show thesis
      by (intro idle) (auto simp: eval_finish_def om_get_def split: option.splits)
  next
    case (bad x)
    then show thesis by (rule raised)
  next
    case (ok ob final)
    let ?evid = "map_option ev_id evidence"
    let ?s = "s\<lparr>ev_list := replace_first e
          (finished e st final (case ?evid of None \<Rightarrow> [] | Some i \<Rightarrow> [i]) (rt_now s)) (ev_list s)\<rparr>"
    have acc: "om_objectives ?s (e_objective e) = Some ob" "may_move ob (outcome_of st) None"
      using ok outcome_of_reachable(1,3)[of st]
      by (simp_all add: may_move_def del: allowed_transitions.simps)
    show thesis
      by (rule finishes[where final = final, OF ok(1,2,4) refl refl refl])
         (use ok om_transition_eq[OF acc, of ?evid ?evid] in
           \<open>simp add: eval_finish_def om_get_def Let_def\<close>)
  qed
qed

text \<open>How one entry of the evaluation list may change: not at all, or from started to a verdict
  that keeps its identity and baseline.\<close>

definition eval_moves :: "rat \<Rightarrow> evaluation \<Rightarrow> evaluation \<Rightarrow> bool" where
  "eval_moves now a b \<longleftrightarrow> a = b \<or>
     e_status a = Started \<and> e_status b \<noteq> Started \<and>
     (\<exists>st final evid. b = finished a st final evid now)"

lemma eval_moves_refl [simp]: "eval_moves now a a"
  by (simp add: eval_moves_def)

lemma eval_moves_trans: "eval_moves now a b \<Longrightarrow> eval_moves now b c \<Longrightarrow> eval_moves now a c"
  by (auto simp: eval_moves_def)

lemma finished_simps [simp]:
  "e_status (finished e st final evid now) = st"
  "e_objective (finished e st final evid now) = e_objective e"
  "e_id (finished e st final evid now) = e_id e"
  "e_trace (finished e st final evid now) = e_trace e"
  "e_baseline (finished e st final evid now) = e_baseline e"
  "e_evidence (finished e st final evid now) = evid"
  "e_completed (finished e st final evid now) = Some now"
  by (simp_all add: finished_def)

text \<open>What the world keeps through any step of the evaluator.\<close>

definition keeps_world :: "'a evaluator_scheme \<Rightarrow> 'a evaluator_scheme \<Rightarrow> bool" where
  "keeps_world s s' \<longleftrightarrow>
     extends s s' \<and> (journal_ok s \<longrightarrow> journal_ok s') \<and> (om_inv s \<longrightarrow> om_inv s') \<and>
     rt_now s' = rt_now s \<and> evaluator.more s' = evaluator.more s"

lemma keeps_world_refl [simp]: "keeps_world s s"
  by (simp add: keeps_world_def)

lemma keeps_world_trans: "keeps_world a b \<Longrightarrow> keeps_world b c \<Longrightarrow> keeps_world a c"
  by (auto simp: keeps_world_def intro: extends_trans)

lemma emit_keeps_world: "keeps_world s (snd (emit ty a t c tr p s))"
  by (simp add: keeps_world_def emit_extends emit_journal_ok emit_om_inv emit_state(3) world_frame)

lemma om_transition_keeps_world: "keeps_world s (snd (om_transition oid to cl c ev p s))"
  by (simp add: keeps_world_def om_transition_extends om_transition_journal_ok om_transition_inv
      om_transition_now om_transition_evaluator)

lemma ev_list_keeps_world: "keeps_world s (s\<lparr>ev_list := xs\<rparr>)"
  by (simp add: keeps_world_def)

lemma ev_route_keeps_world: "keeps_world s (s\<lparr>ev_route := m\<rparr>)"
  by (simp add: keeps_world_def)

lemmas keeps_world_intros =
  keeps_world_trans[OF ev_list_keeps_world keeps_world_trans[OF om_transition_keeps_world
    emit_keeps_world]]

text \<open>One step of the evaluator: every entry moves at most to a verdict, and the world is kept.\<close>

definition ev_step :: "'a evaluator_scheme \<Rightarrow> 'a evaluator_scheme \<Rightarrow> bool" where
  "ev_step s s' \<longleftrightarrow>
     list_all2 (eval_moves (rt_now s)) (ev_list s) (ev_list s') \<and> ev_route s' = ev_route s \<and>
     keeps_world s s'"

lemma ev_step_refl [simp]: "ev_step s s"
  by (simp add: ev_step_def list.rel_refl)

lemma ev_step_trans: "ev_step a b \<Longrightarrow> ev_step b c \<Longrightarrow> ev_step a c"
proof -
  assume ab: "ev_step a b" and bc: "ev_step b c"
  have "rt_now b = rt_now a" using ab by (simp add: ev_step_def keeps_world_def)
  with ab bc have l: "list_all2 (eval_moves (rt_now a)) (ev_list a) (ev_list b)"
      "list_all2 (eval_moves (rt_now a)) (ev_list b) (ev_list c)"
    by (simp_all add: ev_step_def)
  have "list_all2 (eval_moves (rt_now a)) (ev_list a) (ev_list c)"
    by (rule list_all2_trans[OF _ l]) (rule eval_moves_trans)
  with ab bc show "ev_step a c" by (auto simp: ev_step_def intro: keeps_world_trans)
qed

lemma eval_finish_step:
  assumes "e_status e = Started" and "st \<noteq> Started"
  shows "ev_step s (snd (eval_finish e st ev s))"
proof -
  have moves: "list_all2 (eval_moves now) zs
          (replace_first e (finished e st final evid now) zs)" for now zs final evid
    by (rule replace_first_all2) (use assms in \<open>auto simp: eval_moves_def\<close>)
  show ?thesis
    by (cases rule: eval_finish_cases[where e = e and st = st and evidence = ev and s = s])
       (simp_all add: ev_step_def moves world_frame om_transition_evaluator keeps_world_intros)
qed

lemma observe_one_step: "ev_step s (snd (observe_one evs e s))"
  by (auto simp: observe_one_def eval_finish_step split: option.splits)

lemma observe_loop_step: "ev_step s (snd (observe_loop evs es s))"
proof (induction es arbitrary: s)
  case (Cons e es)
  show ?case
    unfolding observe_loop.simps
    by (rule and_then_rel[where R = ev_step, OF observe_one_step Cons.IH ev_step_trans])
qed simp

lemma observe_ev_step: "ev_step s (snd (observe evs s))"
  by (simp add: observe_def observe_loop_step)

section \<open>Verdicts\<close>

text \<open>
  A finished evaluation and its objective agree, and no objective has two finished evaluations:
  an outcome is decided at most once.
\<close>

abbreviation is_finished :: "evaluation \<Rightarrow> bool" where
  "is_finished e \<equiv> e_status e \<noteq> Started"

definition verdicts_ok :: "'a evaluator_scheme \<Rightarrow> bool" where
  "verdicts_ok s \<longleftrightarrow>
     (\<forall>e \<in> set (ev_list s). is_finished e \<longrightarrow>
        map_option o_status (om_objectives s (e_objective e)) = Some (outcome_of (e_status e))) \<and>
     distinct (map e_objective (filter is_finished (ev_list s)))"

lemma distinct_replace_first:
  assumes "\<not> P x" and "P y" and "distinct (map f (filter P zs))"
    and "f y \<notin> f ` set (filter P zs)"
  shows "distinct (map f (filter P (replace_first x y zs)))"
  using assms(3,4)
proof (induction zs)
  case (Cons z zs)
  have sub: "f ` set (filter P (replace_first x y ws)) \<subseteq> insert (f y) (f ` set (filter P ws))"
    for ws using set_replace_first_subset[of x y ws] by auto
  show ?case
    using Cons assms(1,2) sub[of zs] by (auto split: if_splits)
qed simp

text \<open>Changing statuses of objectives that are not terminal keeps the agreement.\<close>

lemma verdicts_ok_frame:
  assumes "verdicts_ok s" and "ev_list s' = ev_list s"
    and "\<And>i ob. om_objectives s i = Some ob \<Longrightarrow> o_status ob \<in> terminal \<Longrightarrow>
           map_option o_status (om_objectives s' i) = Some (o_status ob)"
  shows "verdicts_ok s'"
  unfolding verdicts_ok_def
proof (intro conjI ballI impI)
  fix e assume e: "e \<in> set (ev_list s')" "is_finished e"
  with assms(1,2) obtain ob where "om_objectives s (e_objective e) = Some ob"
      "o_status ob = outcome_of (e_status e)"
    by (auto simp: verdicts_ok_def)
  with assms(3)[of "e_objective e" ob]
  show "map_option o_status (om_objectives s' (e_objective e)) = Some (outcome_of (e_status e))"
    by simp
qed (use assms(1,2) in \<open>simp add: verdicts_ok_def\<close>)

lemma emit_verdicts_ok: "verdicts_ok s \<Longrightarrow> verdicts_ok (snd (emit ty a t c tr p s))"
  by (erule verdicts_ok_frame) (simp_all add: world_frame)

lemma om_transition_terminal_kept:
  assumes "om_objectives s i = Some ob" and "o_status ob \<in> terminal"
  shows "om_objectives (snd (om_transition oid to cl c ev p s)) i = Some ob"
proof (cases rule: om_transition_cases[of oid to cl c ev p s])
  case (refused e)
  with assms show ?thesis by simp
next
  case (accepted b)
  with assms may_move_live[OF accepted(2)] show ?thesis
    by (auto simp: om_transition_accepted(2) live_def)
qed

lemma om_transition_verdicts_ok:
  "verdicts_ok s \<Longrightarrow> verdicts_ok (snd (om_transition oid to cl c ev p s))"
  by (erule verdicts_ok_frame) (simp_all add: om_transition_evaluator om_transition_terminal_kept)

lemma eval_finish_verdicts_ok:
  assumes "verdicts_ok s" and "e_status e = Started" and "st \<noteq> Started"
  shows "verdicts_ok (snd (eval_finish e st ev s))"
proof (cases rule: eval_finish_cases[where e = e and st = st and evidence = ev and s = s])
  case idle
  with assms show ?thesis by simp
next
  case (raised x)
  with assms show ?thesis by simp
next
  case (finishes ob final evid s1 s2)
  let ?upd = "finished e st final (case evid of None \<Rightarrow> [] | Some i \<Rightarrow> [i]) (rt_now s)"
  let ?s = "s\<lparr>ev_list := replace_first e ?upd (ev_list s)\<rparr>"
  have acc: "om_objectives ?s (e_objective e) = Some ob" "may_move ob (outcome_of st) None"
    using finishes(1,2) outcome_of_reachable(1,3)[of st]
    by (simp_all add: may_move_def del: allowed_transitions.simps)
  have other: "e_objective x \<noteq> e_objective e" if "x \<in> set (ev_list s)" "is_finished x" for x
  proof
    assume "e_objective x = e_objective e"
    with that assms(1) finishes(1,2) outcome_of_reachable(4)[of "e_status x"] show False
      by (auto simp: verdicts_ok_def)
  qed
  have "om_objectives s1 = (om_objectives s)(e_objective e \<mapsto> succ_objective ob (outcome_of st) None evid)"
    unfolding finishes(5) by (simp add: om_transition_accepted(2)[OF acc])
  moreover have l: "ev_list s1 = replace_first e ?upd (ev_list s)"
    unfolding finishes(5) by (simp add: om_transition_evaluator)
  moreover have "distinct (map e_objective (filter is_finished (ev_list s1)))"
    unfolding l
  proof (rule distinct_replace_first)
    show "e_objective ?upd \<notin> e_objective ` set (filter is_finished (ev_list s))"
    proof
      assume "e_objective ?upd \<in> e_objective ` set (filter is_finished (ev_list s))"
      then obtain x where "x \<in> set (ev_list s)" "is_finished x" "e_objective x = e_objective e"
        by fastforce
      with other show False by blast
    qed
    show "distinct (map e_objective (filter is_finished (ev_list s)))"
      using assms(1) by (simp add: verdicts_ok_def)
  qed (simp_all add: assms)
  ultimately have "verdicts_ok s1"
    using assms(1) other set_replace_first_subset[of e ?upd "ev_list s"]
    by (fastforce simp: verdicts_ok_def)
  then show ?thesis using finishes(6,7) by (simp add: emit_verdicts_ok)
qed

lemma observe_one_verdicts_ok: "verdicts_ok s \<Longrightarrow> verdicts_ok (snd (observe_one evs e s))"
  by (auto simp: observe_one_def eval_finish_verdicts_ok split: option.splits)

lemma observe_loop_verdicts_ok: "verdicts_ok s \<Longrightarrow> verdicts_ok (snd (observe_loop evs es s))"
proof (induction es arbitrary: s)
  case (Cons e es)
  show ?case
    unfolding observe_loop.simps
    by (rule and_then_rel[where R = "\<lambda>s s'. verdicts_ok s \<longrightarrow> verdicts_ok s'", rule_format])
       (use Cons observe_one_verdicts_ok in auto)
qed simp

lemma observe_verdicts_ok: "verdicts_ok s \<Longrightarrow> verdicts_ok (snd (observe evs s))"
  by (simp add: observe_def observe_loop_verdicts_ok)

lemma eval_start_verdicts_ok: "verdicts_ok s \<Longrightarrow> verdicts_ok (snd (eval_start ob c r cause s))"
  by (simp add: eval_start_def Let_def split_beta emit_verdicts_ok)
     (rule emit_verdicts_ok, simp add: verdicts_ok_def)

lemma eval_start_keeps_world: "keeps_world s (snd (eval_start ob c r cause s))"
  unfolding eval_start_def Let_def split_beta snd_conv
  by (rule keeps_world_trans[OF _ emit_keeps_world]) (simp add: keeps_world_def)

section \<open>The gateway\<close>

text \<open>A command in scope: what the gateway demands before the scenario sees it.\<close>

definition in_scope :: "objective \<Rightarrow> sim_command \<Rightarrow> bool" where
  "in_scope ob c \<longleftrightarrow>
     o_status ob = Acting \<and> cmd_trace c = o_trace ob \<and> cmd_type c \<in> o_allowed ob \<and>
     o_claimed_by ob = Some (cmd_issuer c)"

lemma reject_reason_None: "reject_reason ob c = None \<longleftrightarrow> in_scope ob c"
  by (auto simp: reject_reason_def in_scope_def)

lemma failed_allowed: "o_status ob \<notin> terminal \<Longrightarrow> may_move ob Failed cl"
  by (cases "o_status ob") (simp_all add: may_move_def terminal_def)

text \<open>The state in which a rejection moves the objective: the rejection is already journalled.\<close>

definition rejection :: "objective \<Rightarrow> sim_command \<Rightarrow> string \<Rightarrow> 'a evaluator_scheme \<Rightarrow>
    sim_event \<times> 'a evaluator_scheme" where
  "rejection ob c reason s =
     emit ''command.rejected'' (Some (cmd_issuer c)) (o_claimed_by ob)
       (last_event_id s (o_id ob)) (Some (cmd_trace c))
       [(''command'', VDict (command_to_dict c)), (''reason'', VStr reason)] s"

lemma gateway_reject_eq:
  assumes "om_objectives s (o_id ob0) = Some ob" and "o_id ob = o_id ob0"
    and "reject_reason ob c = Some reason"
  shows "gateway_apply ap ob0 c s =
     (let (rejected, s1) = rejection ob c reason s in
      and_then (om_transition (o_id ob) Failed None (Some (ev_id rejected)) None
                  [(''reason'', VStr reason)] s1) (\<lambda>_ s2. (Inr rejected, s2)))"
  using assms by (simp add: gateway_apply_def om_get_def rejection_def Let_def)

lemma rejection_simps [simp]:
  "om_objectives (snd (rejection ob c reason s)) = om_objectives s"
  "rt_journal (snd (rejection ob c reason s)) =
     rt_journal s @ [fst (rejection ob c reason s)]"
  "evaluator.more (snd (rejection ob c reason s)) = evaluator.more s"
  "ev_list (snd (rejection ob c reason s)) = ev_list s"
  "ev_route (snd (rejection ob c reason s)) = ev_route s"
  "rt_now (snd (rejection ob c reason s)) = rt_now s"
  "ev_type (fst (rejection ob c reason s)) = ''command.rejected''"
  by (simp_all add: rejection_def world_frame journal_simps)

text \<open>What the gateway relies on of a scenario: it appends to the journal, has no access to the objective and evaluation tables, and time stands still
  while it runs.\<close>

definition world_tables ::
  "'a evaluator_scheme \<Rightarrow> (string \<rightharpoonup> objective) \<times> string list \<times> (string \<times> string option \<rightharpoonup> string) \<times>
     (string \<rightharpoonup> string option) \<times> (string \<rightharpoonup> pydict) \<times> (string \<rightharpoonup> route) \<times> (string \<rightharpoonup> string) \<times>
     evaluation list \<times> (string \<rightharpoonup> route)" where
  "world_tables s = (om_objectives s, om_order s, om_active s, om_target s, om_baseline s,
     om_route s, om_last s, ev_list s, ev_route s)"

lemma world_tablesD:
  assumes "world_tables s' = world_tables s"
  shows "om_objectives s' = om_objectives s" "om_order s' = om_order s"
    "om_active s' = om_active s" "om_target s' = om_target s" "om_baseline s' = om_baseline s"
    "om_route s' = om_route s" "om_last s' = om_last s" "ev_list s' = ev_list s"
    "ev_route s' = ev_route s"
  using assms by (simp_all add: world_tables_def)

lemma emit_world_tables [world_frame]:
  "world_tables (snd (emit ty a t c tr p s)) = world_tables s"
  by (simp add: world_tables_def world_frame)

text \<open>What every operation of the world keeps.\<close>

definition world_safe :: "'a evaluator_scheme \<Rightarrow> 'a evaluator_scheme \<Rightarrow> bool" where
  "world_safe s s' \<longleftrightarrow>
     extends s s' \<and> (journal_ok s \<longrightarrow> journal_ok s') \<and> (om_inv s \<longrightarrow> om_inv s') \<and>
     (verdicts_ok s \<longrightarrow> verdicts_ok s') \<and> rt_now s' = rt_now s"

lemma world_safe_refl [simp]: "world_safe s s"
  by (simp add: world_safe_def)

lemma world_safe_trans: "world_safe a b \<Longrightarrow> world_safe b c \<Longrightarrow> world_safe a c"
  by (auto simp: world_safe_def intro: extends_trans)

lemma world_safe_of_keeps: "keeps_world s s' \<Longrightarrow> (verdicts_ok s \<Longrightarrow> verdicts_ok s') \<Longrightarrow> world_safe s s'"
  by (simp add: world_safe_def keeps_world_def)

lemma emit_safe: "world_safe s (snd (emit ty a t c tr p s))"
  by (rule world_safe_of_keeps) (simp_all add: emit_keeps_world emit_verdicts_ok)

lemma transition_safe: "world_safe s (snd (om_transition oid to cl c ev p s))"
  by (rule world_safe_of_keeps) (simp_all add: om_transition_keeps_world om_transition_verdicts_ok)

lemma start_safe: "world_safe s (snd (eval_start ob c r cause s))"
  by (rule world_safe_of_keeps) (simp_all add: eval_start_keeps_world eval_start_verdicts_ok)

lemma observe_safe: "world_safe s (snd (observe evs s))"
  using observe_ev_step[of s evs]
  by (intro world_safe_of_keeps) (simp_all add: ev_step_def observe_verdicts_ok)

text \<open>A reflexive and transitive relation that holds across each step of the gateway holds across the
  gateway.\<close>

lemma gateway_rel:
  fixes R :: "'a evaluator_scheme \<Rightarrow> 'a evaluator_scheme \<Rightarrow> bool"
  assumes rfl: "\<And>a. R a a" and trans: "\<And>a b c. R a b \<Longrightarrow> R b c \<Longrightarrow> R a c"
    and em: "\<And>ty a t c tr p s. R s (snd (emit ty a t c tr p s))"
    and tr: "\<And>oid to cl c ev p s. R s (snd (om_transition oid to cl c ev p s))"
    and st: "\<And>ob c r cause s. R s (snd (eval_start ob c r cause s))"
    and obs: "\<And>evs s. R s (snd (observe evs s))"
    and ap: "\<And>c s. R s (snd (ap c s))"
  shows "R s (snd (gateway_apply ap ob0 c s))"
proof -
  note bind = and_then_rel[where R = R, OF _ _ trans]
  have last: "R s (snd (and_then (om_transition oid to cl c ev p s) (\<lambda>_ s2. (Inr r, s2))))"
    for oid to cl c ev p and r :: sim_event and s
    by (rule bind) (auto simp: tr rfl)
  have tail: "R s (snd (and_then (observe (f s') s') (\<lambda>_ s4. (Inr res, s4))))"
    if "s' = snd (eval_start ob c r cause s)" for f ob cause r s' and res :: sim_event and s
  proof (rule trans)
    show "R s s'" unfolding that by (rule st)
    show "R s' (snd (and_then (observe (f s') s') (\<lambda>_ s4. (Inr res, s4))))"
      by (rule bind[OF obs]) (simp add: rfl)
  qed
  have accept: "R s (snd (and_then (om_transition oid Evaluating None i i [] s) (\<lambda>_ s2.
       and_then (route_for s2 oid, s2) (\<lambda>r s2.
         let s3 = snd (eval_start ob c r cause s2) in
         and_then (observe (drop n (rt_journal s3)) s3) (\<lambda>_ s4. (Inr res, s4))))))"
    for oid i ob cause n and res :: sim_event and s
    unfolding Let_def
    by (rule bind, rule tr, rule bind) (auto simp: rfl intro!: bind tail[where f = "\<lambda>s3. drop n (rt_journal s3)", OF refl])
  show ?thesis
  proof (cases "reject_reason (case om_get s (o_id ob0) of None \<Rightarrow> ob0 | Some ob \<Rightarrow> ob) c")
    case (Some reason)
    then show ?thesis
      unfolding gateway_apply_def Let_def split_beta
      by (simp add: trans[OF em last])
  next
    case None
    then show ?thesis
      unfolding gateway_apply_def Let_def
      by (simp add: bind[OF ap] last accept[unfolded Let_def])
  qed
qed

locale command_scenario =
  fixes apply_cmd :: "sim_command \<Rightarrow> 'a evaluator_scheme \<Rightarrow> sim_event result \<times> 'a evaluator_scheme"
  assumes scenario_extends: "extends s (snd (apply_cmd c s))"
    and scenario_journal_ok: "journal_ok s \<Longrightarrow> journal_ok (snd (apply_cmd c s))"
    and scenario_tables: "world_tables (snd (apply_cmd c s)) = world_tables s"
    and scenario_now: "rt_now (snd (apply_cmd c s)) = rt_now s"
begin

lemma scenario_safe: "world_safe s (snd (apply_cmd c s))"
proof -
  note t = world_tablesD[OF scenario_tables[of c s]]
  have "om_inv (snd (apply_cmd c s)) = om_inv s" by (rule om_inv_cong) (simp_all add: t)
  moreover have "verdicts_ok s \<Longrightarrow> verdicts_ok (snd (apply_cmd c s))"
    by (erule verdicts_ok_frame) (simp_all add: t)
  ultimately show ?thesis
    by (simp add: world_safe_def scenario_extends scenario_journal_ok scenario_now)
qed

lemmas safe_steps = emit_safe transition_safe start_safe observe_safe scenario_safe

lemma gateway_safe: "world_safe s (snd (gateway_apply apply_cmd ob0 c s))"
  by (rule gateway_rel[where R = world_safe, OF world_safe_refl world_safe_trans safe_steps])

end

section \<open>Out of scope\<close>

lemma rejection_world_safe: "world_safe s (snd (rejection ob c reason s))"
  by (simp add: rejection_def emit_safe)

lemma gateway_rejects_live:
  assumes "om_objectives s (o_id ob0) = Some ob" and "o_id ob = o_id ob0"
    and "\<not> in_scope ob c" and "o_status ob \<notin> terminal"
  shows "\<exists>rej failed s'. gateway_apply ap ob0 c s = (Inr rej, s') \<and>
     rt_journal s' = rt_journal s @ [rej, failed] \<and>
     ev_type rej = ''command.rejected'' \<and> ev_type failed = ''objective.failed'' \<and>
     ev_cause failed = Some (ev_id rej) \<and>
     om_objectives s' = (om_objectives s)(o_id ob \<mapsto> ob\<lparr>o_status := Failed\<rparr>) \<and>
     rt_now s' = rt_now s \<and> ev_list s' = ev_list s \<and> ev_route s' = ev_route s \<and>
     evaluator.more s' = evaluator.more s"
proof -
  obtain reason where r: "reject_reason ob c = Some reason"
    using assms(3) reject_reason_None by (cases "reject_reason ob c") auto
  let ?rej = "fst (rejection ob c reason s)" and ?s1 = "snd (rejection ob c reason s)"
  have acc: "om_objectives ?s1 (o_id ob) = Some ob" "may_move ob Failed None"
    using assms by (simp_all add: failed_allowed)
  let ?t = "om_transition (o_id ob) Failed None (Some (ev_id ?rej)) None
              [(''reason'', VStr reason)] ?s1"
  have eq: "gateway_apply ap ob0 c s = (Inr ?rej, snd ?t)"
    using gateway_reject_eq[OF assms(1,2) r, of ap]
      om_transition_eq[OF acc, of "Some (ev_id ?rej)" None "[(''reason'', VStr reason)]"]
    by (simp add: split_beta Let_def)
  have "ev_id ?rej \<noteq> []" by (simp add: rejection_def emit_def Let_def)
  then have j: "\<exists>failed. rt_journal (snd ?t) = rt_journal s @ [?rej, failed] \<and>
      ev_type failed = ''objective.failed'' \<and> ev_cause failed = Some (ev_id ?rej)"
    using om_transition_journal[OF acc, of "Some (ev_id ?rej)" None "[(''reason'', VStr reason)]"]
    by (auto simp: event_type_def pick_cause_def)
  show ?thesis
    using j
    by (auto simp: eq om_transition_accepted(2)[OF acc] om_transition_evaluator om_transition_now
        succ_objective_def intro!: exI[of _ ?rej])
qed

text \<open>A rejection of a finished objective journals the rejection and then raises: the transition to
  failed is not allowed from a terminal status.\<close>

lemma gateway_raises_terminal:
  assumes "om_objectives s (o_id ob0) = Some ob" and "o_id ob = o_id ob0"
    and "o_status ob \<in> terminal"
  shows "\<exists>m rej s'. gateway_apply ap ob0 c s = (Inl (ValueError m), s') \<and>
     rt_journal s' = rt_journal s @ [rej] \<and> ev_type rej = ''command.rejected'' \<and>
     om_objectives s' = om_objectives s"
proof -
  have "\<not> in_scope ob c" using assms(3) by (auto simp: in_scope_def terminal_def)
  then obtain reason where r: "reject_reason ob c = Some reason"
    using reject_reason_None by (cases "reject_reason ob c") auto
  have no: "Failed \<notin> allowed_transitions (o_status ob)"
    using assms(3) terminal_no_transitions by auto
  show ?thesis
    using gateway_reject_eq[OF assms(1,2) r, of ap] assms(1,2) no
    by (simp add: om_transition_def split_beta Let_def)
qed

text \<open>The scenario's own state changes only under an objective in scope.\<close>

lemma gateway_guards:
  assumes "evaluator.more (snd (gateway_apply ap ob0 c s)) \<noteq> evaluator.more s"
  shows "in_scope (case om_objectives s (o_id ob0) of None \<Rightarrow> ob0 | Some ob \<Rightarrow> ob) c"
proof (rule ccontr)
  assume no: "\<not> ?thesis"
  then obtain reason where r:
    "reject_reason (case om_get s (o_id ob0) of None \<Rightarrow> ob0 | Some ob \<Rightarrow> ob) c = Some reason"
    using reject_reason_None by (metis not_Some_eq om_get_def)
  have "evaluator.more (snd (and_then (om_transition oid to cl c' ev p s') (\<lambda>_ s2. (x, s2)))) =
      evaluator.more s'" for oid to cl c' ev p and x :: "sim_event result" and s' :: "'a evaluator_scheme"
    using om_transition_evaluator(3)[of oid to cl c' ev p s']
    by (cases "om_transition oid to cl c' ev p s'"; cases "fst (om_transition oid to cl c' ev p s')")
       auto
  with r assms show False
    by (simp add: gateway_apply_def Let_def split_beta world_frame)
qed

end
