(* ===== verification/Bus.thy ===== *)
theory Bus imports Prelude begin

text \<open>
  Fleet events and what consumes them: the catalogue of waking types
  (\<^verbatim>\<open>api/shared/events.py\<close>), the event bus (\<^verbatim>\<open>services/event_bus.py\<close>), triage
  (\<^verbatim>\<open>services/triage.py\<close>), the debouncing queue of the fleet manager
  (\<^verbatim>\<open>services/fleet_manager_queue.py\<close>), the cache of pending gates
  (\<^verbatim>\<open>services/pending_gates.py\<close>) and the verdict vocabulary
  (\<^verbatim>\<open>services/decision_vocab.py\<close>), all under \<^verbatim>\<open>api/\<close>.
\<close>

section \<open>Fleet events\<close>

text \<open>\<^verbatim>\<open>FleetEvent\<close> allows extra fields; they are the dictionary \<^verbatim>\<open>fe_extra\<close>.\<close>

record fleet_event =
  fe_type :: string
  fe_workflow :: "string option"
  fe_extra :: pydict

definition wake_types :: "string list" where
  "wake_types =
     [''workflow.exception.detected'', ''workflow.hitl.requested'', ''workflow.hitl.escalated'',
      ''workflow.sla.breach_imminent'', ''workflow.policy.violation'',
      ''fleet.anomaly.detected'', ''fleet.tick'', ''claim.routed.red'']"

definition wakes_fleet_manager :: "fleet_event \<Rightarrow> bool" where
  "wakes_fleet_manager e \<longleftrightarrow> fe_type e \<in> set wake_types"

section \<open>The event bus\<close>

text \<open>
  Handlers are numbered; \<^verbatim>\<open>run h e\<close> is what handler number \<^verbatim>\<open>h\<close> does to the world on
  event \<^verbatim>\<open>e\<close>, possibly raising.  The world extends the bus, since a handler may register or
  remove handlers itself.
\<close>

record event_bus =
  eb_typed :: "string \<Rightarrow> nat list"
  eb_any :: "nat list"

definition bus_on :: "string \<Rightarrow> nat \<Rightarrow> 'a event_bus_scheme \<Rightarrow> 'a event_bus_scheme" where
  "bus_on ty h b = b\<lparr>eb_typed := (eb_typed b)(ty := eb_typed b ty @ [h])\<rparr>"

definition bus_off :: "string \<Rightarrow> nat \<Rightarrow> 'a event_bus_scheme \<Rightarrow> 'a event_bus_scheme" where
  "bus_off ty h b = b\<lparr>eb_typed := (eb_typed b)(ty := remove1 h (eb_typed b ty))\<rparr>"

definition bus_on_any :: "nat \<Rightarrow> 'a event_bus_scheme \<Rightarrow> 'a event_bus_scheme" where
  "bus_on_any h b = b\<lparr>eb_any := eb_any b @ [h]\<rparr>"

definition bus_off_any :: "nat \<Rightarrow> 'a event_bus_scheme \<Rightarrow> 'a event_bus_scheme" where
  "bus_off_any h b = b\<lparr>eb_any := remove1 h (eb_any b)\<rparr>"

text \<open>One pass over a snapshot of handlers; an exception of a handler is dropped.\<close>

fun deliver ::
  "(nat \<Rightarrow> fleet_event \<Rightarrow> 'w \<Rightarrow> unit result \<times> 'w) \<Rightarrow> fleet_event \<Rightarrow> nat list \<Rightarrow> 'w \<Rightarrow> 'w" where
  "deliver run e [] w = w"
| "deliver run e (h # hs) w =
     (case run h e w of (Inl _, w1) \<Rightarrow> deliver run e hs w1 | (Inr _, w1) \<Rightarrow> deliver run e hs w1)"

definition bus_emit ::
  "(nat \<Rightarrow> fleet_event \<Rightarrow> 'a event_bus_scheme \<Rightarrow> unit result \<times> 'a event_bus_scheme) \<Rightarrow>
   fleet_event \<Rightarrow> 'a event_bus_scheme \<Rightarrow> 'a event_bus_scheme" where
  "bus_emit run e b =
     (let b1 = deliver run e (eb_typed b (fe_type e)) b in deliver run e (eb_any b1) b1)"

lemma deliver_fold: "deliver run e hs w = fold (\<lambda>h w. snd (run h e w)) hs w"
  by (induction hs arbitrary: w) (auto split: prod.splits sum.splits)

section \<open>Triage\<close>

definition should_wake :: "string set \<Rightarrow> fleet_event \<Rightarrow> bool" where
  "should_wake wake_hints e \<longleftrightarrow> wakes_fleet_manager e \<or> fe_type e \<in> wake_hints"

type_synonym triage = "(string \<times> rat) list"

definition is_duplicate_invoice :: "fleet_event \<Rightarrow> bool" where
  "is_duplicate_invoice e \<longleftrightarrow> fe_type e = ''workflow.exception.detected'' \<and>
     dict_get (fe_extra e) ''category'' = VStr ''duplicate-invoice''"

definition triage_observe :: "fleet_event \<Rightarrow> rat \<Rightarrow> triage \<Rightarrow> triage" where
  "triage_observe e now dups =
     (if is_duplicate_invoice e
      then filter (\<lambda>(w, t). now - t \<le> 60) (dups @ [(str_or (fe_workflow e) '''', now)])
      else dups)"

definition detect_anomaly :: "rat \<Rightarrow> triage \<Rightarrow> string list option" where
  "detect_anomaly now dups =
     (let recent = filter (\<lambda>(w, t). now - t \<le> 60) dups
      in if 3 \<le> length recent then Some (map fst recent) else None)"

text \<open>The specification keeps every duplicate ever seen.  Dropping the old ones is invisible to
  detection as long as the clock does not go back.\<close>

fun observe_all :: "(fleet_event \<times> rat) list \<Rightarrow> triage \<Rightarrow> triage" where
  "observe_all [] d = d"
| "observe_all ((e, t) # es) d = observe_all es (triage_observe e t d)"

definition seen_duplicates :: "(fleet_event \<times> rat) list \<Rightarrow> triage" where
  "seen_duplicates es =
     map (\<lambda>(e, t). (str_or (fe_workflow e) '''', t)) (filter (\<lambda>(e, t). is_duplicate_invoice e) es)"

lemma filter_window:
  fixes now :: rat
  assumes "now \<le> now'"
  shows "filter (\<lambda>(w, t). now' - t \<le> 60) (filter (\<lambda>(w, t). now - t \<le> 60) d) =
    filter (\<lambda>(w, t). now' - t \<le> 60) d"
  using assms by (induction d) auto

lemma observe_all_window:
  assumes "\<forall>(e, t) \<in> set es. t \<le> now"
  shows "filter (\<lambda>(w, t). now - t \<le> 60) (observe_all es d) =
    filter (\<lambda>(w, t). now - t \<le> 60) (d @ seen_duplicates es)"
  using assms
proof (induction es arbitrary: d)
  case Nil
  then show ?case by (simp add: seen_duplicates_def)
next
  case (Cons et es)
  obtain e t where et: "et = (e, t)" by (cases et)
  from Cons.prems et have "t \<le> now" by simp
  then show ?case
    using Cons.IH[of "triage_observe e t d"] Cons.prems
    by (simp add: et triage_observe_def seen_duplicates_def filter_window del: filter_filter)
qed

lemma detect_anomaly_spec:
  assumes "\<forall>(e, t) \<in> set es. t \<le> now"
  shows "detect_anomaly now (observe_all es []) = detect_anomaly now (seen_duplicates es)"
  using observe_all_window[OF assms, of "[]"] by (simp add: detect_anomaly_def)

section \<open>The queue of the fleet manager\<close>

record queue_entry =
  qe_workflow :: "string option"
  qe_reason :: string

text \<open>
  The flush task sleeps for the debounce time, then hands batches to the processor until nothing
  is pending; every \<^verbatim>\<open>await\<close> is a point where other operations may run, so the task is a state
  machine.  \<^verbatim>\<open>fq_batches\<close> records what the processor was given.
\<close>

datatype flush_task = Idle | Sleeping | Processing

record flush_queue =
  fq_pending :: "(string \<times> queue_entry) list"
  fq_task :: flush_task
  fq_flushing :: bool
  fq_batches :: "queue_entry list list"

definition new_queue :: flush_queue where
  "new_queue = \<lparr>fq_pending = [], fq_task = Idle, fq_flushing = False, fq_batches = []\<rparr>"

definition queue_key :: "queue_entry \<Rightarrow> string" where
  "queue_key q = str_or (qe_workflow q) (''__fleet__:'' @ qe_reason q)"

definition enqueue :: "queue_entry \<Rightarrow> flush_queue \<Rightarrow> flush_queue" where
  "enqueue q s =
     (let s1 = s\<lparr>fq_pending := dict_set (queue_key q) q (fq_pending s)\<rparr>
      in if fq_task s1 = Idle then s1\<lparr>fq_task := Sleeping\<rparr> else s1)"

definition queue_depth :: "flush_queue \<Rightarrow> nat" where
  "queue_depth s = length (fq_pending s)"

text \<open>The head of \<^verbatim>\<open>while self._pending\<close>: take a batch, or leave the loop and reset the flag.\<close>

definition flush_head :: "flush_queue \<Rightarrow> flush_queue" where
  "flush_head s =
     (if fq_pending s = [] then s\<lparr>fq_flushing := False, fq_task := Idle\<rparr>
      else s\<lparr>fq_batches := fq_batches s @ [map snd (fq_pending s)], fq_pending := [],
             fq_task := Processing\<rparr>)"

definition flush_wake :: "flush_queue \<Rightarrow> flush_queue" where
  "flush_wake s =
     (if fq_flushing s then s\<lparr>fq_task := Idle\<rparr> else flush_head (s\<lparr>fq_flushing := True\<rparr>))"

definition flush_failed :: "flush_queue \<Rightarrow> flush_queue" where
  "flush_failed s = s\<lparr>fq_flushing := False, fq_task := Idle\<rparr>"

definition queue_stop :: "flush_queue \<Rightarrow> flush_queue" where
  "queue_stop s = s\<lparr>fq_pending := [], fq_flushing := False, fq_task := Idle\<rparr>"

inductive queue_step :: "flush_queue \<Rightarrow> flush_queue \<Rightarrow> bool" where
  enqueued: "queue_step s (enqueue q s)"
| woken: "fq_task s = Sleeping \<Longrightarrow> queue_step s (flush_wake s)"
| processed: "fq_task s = Processing \<Longrightarrow> queue_step s (flush_head s)"
| stopped: "queue_step s (queue_stop s)"

inductive queue_reachable :: "flush_queue \<Rightarrow> bool" where
  new: "queue_reachable new_queue"
| step: "queue_reachable s \<Longrightarrow> queue_step s s' \<Longrightarrow> queue_reachable s'"

inductive_cases queue_stepE: "queue_step s s'"

text \<open>While the processor does not raise, nothing pending is ever left without a task.\<close>

definition queue_inv :: "flush_queue \<Rightarrow> bool" where
  "queue_inv s \<longleftrightarrow>
     (fq_pending s \<noteq> [] \<longrightarrow> fq_task s \<noteq> Idle) \<and>
     (fq_flushing s \<longleftrightarrow> fq_task s = Processing) \<and>
     distinct (map fst (fq_pending s)) \<and>
     (\<forall>(k, q) \<in> set (fq_pending s). k = queue_key q) \<and>
     (\<forall>b \<in> set (fq_batches s). b \<noteq> [] \<and> distinct (map queue_key b))"

lemma set_dict_set: "set (dict_set k v d) \<subseteq> insert (k, v) (set d)"
  by (induction d) (auto split: if_splits)

lemma dict_set_nonempty [simp]: "dict_set k v d \<noteq> []"
  by (cases d) (auto split: if_splits)

lemma enqueue_inv: "queue_inv s \<Longrightarrow> queue_inv (enqueue q s)"
  using set_dict_set[of "queue_key q" q "fq_pending s"]
  by (fastforce simp: queue_inv_def enqueue_def Let_def distinct_dict_set)

lemma map_queue_key:
  assumes "\<forall>(k, q) \<in> set d. k = queue_key q"
  shows "map queue_key (map snd d) = map fst d"
  using assms by (induction d) auto

lemma flush_head_inv:
  assumes "distinct (map fst (fq_pending s))" "\<forall>(k, q) \<in> set (fq_pending s). k = queue_key q"
    and "\<forall>b \<in> set (fq_batches s). b \<noteq> [] \<and> distinct (map queue_key b)"
    and "fq_flushing s"
  shows "queue_inv (flush_head s)"
  using assms map_queue_key[OF assms(2)]
  by (auto simp: queue_inv_def flush_head_def simp del: map_map)

lemma flush_wake_inv: "queue_inv s \<Longrightarrow> fq_task s = Sleeping \<Longrightarrow> queue_inv (flush_wake s)"
  unfolding flush_wake_def queue_inv_def[of s] by (simp, intro flush_head_inv) simp_all

lemma queue_step_inv: "queue_step s s' \<Longrightarrow> queue_inv s \<Longrightarrow> queue_inv s'"
proof (induction rule: queue_step.induct)
  case (processed s)
  then show ?case by (intro flush_head_inv) (simp_all add: queue_inv_def)
next
  case (stopped s)
  then show ?case by (simp add: queue_stop_def queue_inv_def)
qed (simp_all add: enqueue_inv flush_wake_inv)

lemma queue_reachable_inv: "queue_reachable s \<Longrightarrow> queue_inv s"
proof (induction rule: queue_reachable.induct)
  case new
  show ?case by (simp add: new_queue_def queue_inv_def)
qed (rule queue_step_inv)

section \<open>Pending gates\<close>

record gate =
  g_phase :: string
  g_event :: string

type_synonym gates = "(string \<times> gate) list"

definition gates_record ::
  "string \<Rightarrow> string option \<Rightarrow> string option \<Rightarrow> gates \<Rightarrow> gates" where
  "gates_record wid phase event g =
     (if wid = '''' \<or> str_or phase '''' = '''' \<or> str_or event '''' = '''' then g
      else dict_set wid \<lparr>g_phase = the phase, g_event = the event\<rparr> g)"

definition gates_get :: "string \<Rightarrow> gates \<Rightarrow> gate option" where
  "gates_get wid g = map_of g wid"

definition gates_clear :: "string \<Rightarrow> gates \<Rightarrow> gates" where
  "gates_clear wid g = dict_del wid g"

definition gates_reset :: "gates \<Rightarrow> gates" where
  "gates_reset g = []"

definition gates_put :: "string \<Rightarrow> gate \<Rightarrow> gates \<Rightarrow> gates" where
  "gates_put wid v g = dict_set wid v g"

interpretation gate_store: keyed_store "\<lambda>g wid. gates_get wid g" gates_put gates_clear
  by unfold_locales (auto simp: gates_get_def gates_put_def gates_clear_def fun_eq_iff)

section \<open>Decision verdicts\<close>

definition verdicts :: "string list" where
  "verdicts = [''approve'', ''reject'', ''escalate'', ''defer'', ''request_changes'', ''partial'',
     ''void'', ''freeze'', ''unfreeze'', ''cap'']"

definition aliases :: "(string \<times> string) list" where
  "aliases =
     [(''approved'', ''approve''), (''ok'', ''approve''), (''rejected'', ''reject''),
      (''deny'', ''reject''), (''denied'', ''reject''), (''escalated'', ''escalate''),
      (''deferred'', ''defer''), (''changes_requested'', ''request_changes''),
      (''voided'', ''void''), (''frozen'', ''freeze''), (''unfrozen'', ''unfreeze''),
      (''capped'', ''cap'')]"

definition canonical_verdict :: "string option \<Rightarrow> string" where
  "canonical_verdict raw =
     (case raw of
        None \<Rightarrow> ''''
      | Some r \<Rightarrow> (let s = lower (strip r) in case map_of aliases s of None \<Rightarrow> s | Some v \<Rightarrow> v))"

definition is_valid_verdict :: "string option \<Rightarrow> bool" where
  "is_valid_verdict s = (case s of None \<Rightarrow> False | Some v \<Rightarrow> v \<in> set verdicts)"

text \<open>Canonicalisation is idempotent on what it produces from an alias or a verdict.\<close>

lemma alias_target_valid: "map_of aliases s = Some v \<Longrightarrow> v \<in> set verdicts \<and> map_of aliases v = None"
proof -
  have "list_all (\<lambda>(k, v). v \<in> set verdicts \<and> map_of aliases v = None) aliases" by code_simp
  moreover assume "map_of aliases s = Some v"
  ultimately show ?thesis by (auto simp: list_all_iff dest: map_of_SomeD)
qed

end
