(* ===== verification/World_Service.thy ===== *)
theory World_Service imports Outcomes Bus begin

text \<open>
  The adapter that owns one live world (\<^verbatim>\<open>api/server/world/service.py\<close>): every write surface
  runs an operation on the runtime and then publishes what it journalled to the event bus, letting
  the evaluator observe each event first.  The bus is the log of what was put on it
  (\<^verbatim>\<open>sv_bus\<close>); a handler that calls back into the service is not modelled.  Scenario
  methods, which the service reaches by name, are arguments.
\<close>

section \<open>Control inputs\<close>

definition require_finite_positive :: "pyval \<Rightarrow> string \<Rightarrow> rat \<Rightarrow> rat result" where
  "require_finite_positive v label lb =
     (if is_bool v \<or> \<not> is_num v then
        Inl (ValueError (Msg ''{} must be numeric'' [VStr label]))
      else bind_result (isfinite v) (\<lambda>fin.
        if \<not> fin then Inl (ValueError (Msg ''{} must be finite'' [VStr label]))
        else if pf_le (num_of v) (Fin lb) then
          Inl (ValueError (Msg ''{} must be greater than {}'' [VStr label, VFloat (Fin lb)]))
        else bind_result (case v of VInt i \<Rightarrow> float_of_int i | _ \<Rightarrow> Inr (num_of v)) (\<lambda>f.
          case f of Fin q \<Rightarrow> Inr q | _ \<Rightarrow> Inl (ValueError (Msg ''{} must be finite'' [VStr label])))))"

text \<open>An accepted input is a number above the floor that a float can hold.\<close>

lemma require_finite_positive_accepts:
  "require_finite_positive v label lb = Inr q \<Longrightarrow>
     \<not> is_bool v \<and> \<not> too_large v \<and> (\<exists>r. num_of v = Fin r \<and> lb < r)"
  by (cases v; cases "num_of v")
     (auto simp: require_finite_positive_def isfinite_eq bind_result_Inr_iff split: if_splits)

section \<open>State\<close>

record service = evaluator +
  sv_name :: string
  sv_seed :: int
  sv_published :: nat
  sv_bus :: "fleet_event list"
  sv_stop :: bool
  sv_speed :: rat

definition service_status :: "'a service_scheme \<Rightarrow> string" where
  "service_status s =
     (if rt_status s = RCompleted then ''completed''
      else if sv_stop s then ''stopped'' else ''running'')"

definition events_after :: "int \<Rightarrow> 'a service_scheme \<Rightarrow> pydict list" where
  "events_after seq s = map event_to_dict (drop (nat (max seq 0)) (rt_journal s))"

section \<open>Publication\<close>

definition world_event :: "sim_event \<Rightarrow> fleet_event" where
  "world_event e =
     \<lparr>fe_type = ''world.'' @ ev_type e, fe_workflow = None,
      fe_extra = [(''simulation_event'', VDict (event_to_dict e)), (''trace_id'', VStr (ev_trace e))]\<rparr>"

definition publish :: "sim_event \<Rightarrow> 'a service_scheme \<Rightarrow> 'a service_scheme" where
  "publish e s = s\<lparr>sv_bus := sv_bus s @ [world_event e]\<rparr>"

text \<open>
  Observing an event may journal more events, which the loop then reaches.  It ends because each
  verdict journals two events and uses up one started evaluation.
\<close>

abbreviation open_evaluations :: "'a evaluator_scheme \<Rightarrow> nat" where
  "open_evaluations s \<equiv> length (filter (\<lambda>e. e_status e = Started) (ev_list s))"

definition budget :: "'a evaluator_scheme \<Rightarrow> nat" where
  "budget s = length (rt_journal s) + 2 * open_evaluations s"

lemma filter_replace_first:
  assumes "P x" and "\<not> P y" and "x \<in> set zs"
  shows "Suc (length (filter P (replace_first x y zs))) = length (filter P zs)"
  using assms(3) by (induction zs) (use assms(1,2) in auto)

lemma om_transition_one_event:
  "length (rt_journal (snd (om_transition oid to cl c ev p s))) \<le> Suc (length (rt_journal s))"
proof (cases rule: om_transition_cases[of oid to cl c ev p s])
  case (refused e)
  then show ?thesis by simp
next
  case (accepted ob)
  then show ?thesis using om_transition_journal[OF accepted, of c ev p] by auto
qed

lemma eval_finish_budget:
  assumes "e_status e = Started" and "st \<noteq> Started"
  shows "budget (snd (eval_finish e st ev s)) \<le> budget s"
proof (cases rule: eval_finish_cases[where e = e and st = st and evidence = ev and s = s])
  case (finishes ob final evid s1 s2)
  let ?upd = "finished e st final (case evid of None \<Rightarrow> [] | Some i \<Rightarrow> [i]) (rt_now s)"
  have "Suc (length (filter (\<lambda>e. e_status e = Started) (replace_first e ?upd (ev_list s)))) =
      open_evaluations s"
    by (rule filter_replace_first) (use assms finishes(3) in auto)
  moreover have "length (rt_journal s1) \<le> Suc (length (rt_journal s))"
    unfolding finishes(5) by (rule order_trans[OF om_transition_one_event]) simp
  ultimately show ?thesis
    using finishes(5,6,7)
    by (simp add: budget_def world_frame journal_simps om_transition_evaluator)
qed simp_all

lemma observe_one_budget: "budget (snd (observe_one evs e s)) \<le> budget s"
  by (auto simp: observe_one_def eval_finish_budget split: option.splits)

lemma observe_loop_budget: "budget (snd (observe_loop evs es s)) \<le> budget s"
proof (induction es arbitrary: s)
  case (Cons e es)
  show ?case
    unfolding observe_loop.simps
    by (rule and_then_rel[where R = "\<lambda>a b. budget b \<le> budget a"])
       (use Cons observe_one_budget in auto)
qed simp

lemma observe_budget: "budget (snd (observe evs s)) \<le> budget s"
  by (simp add: observe_def observe_loop_budget)

lemma observe_extends: "extends s (snd (observe evs s))"
  using observe_ev_step[of s evs] by (simp add: ev_step_def keeps_world_def)

function publish_loop :: "nat \<Rightarrow> 'a service_scheme \<Rightarrow> unit result \<times> 'a service_scheme" where
  "publish_loop i s =
     (if i < length (rt_journal s) then
        and_then (observe [rt_journal s ! i] s)
          (\<lambda>_ s1. publish_loop (Suc i) (publish (rt_journal s ! i) s1))
      else (Inr (), s))"
  by pat_completeness auto

termination
proof (relation "measure (\<lambda>(i, s). budget s - i)")
  fix i and s s1 :: "'a service_scheme" and u
  assume i: "i < length (rt_journal s)" and o: "observe [rt_journal s ! i] s = (Inr u, s1)"
  have "budget (publish e s1) = budget s1" for e by (simp add: budget_def publish_def)
  moreover have "budget s1 \<le> budget s" using observe_budget[of "[rt_journal s ! i]" s] o by simp
  moreover have "i < budget s" using i by (simp add: budget_def)
  ultimately show "((Suc i, publish (rt_journal s ! i) s1), (i, s)) \<in> measure (\<lambda>(i, s). budget s - i)"
    by (simp add: diff_less_mono2 le_diff_conv)
qed simp

declare publish_loop.simps [simp del]

lemma publish_loop_budget: "budget (snd (publish_loop i s)) \<le> budget s"
proof (induction i s rule: publish_loop.induct)
  case (1 i s)
  show ?case
  proof (cases "i < length (rt_journal s)")
    case True
    let ?e = "rt_journal s ! i"
    have "budget (snd (and_then (observe [?e] s) (\<lambda>_ s1. publish_loop (Suc i) (publish ?e s1)))) \<le> budget s"
    proof (rule and_then_rel[where R = "\<lambda>a b. budget b \<le> budget a", OF observe_budget])
      fix u s1 assume o: "observe [?e] s = (Inr u, s1)"
      have "budget (publish ?e s1) = budget s1" by (simp add: budget_def publish_def)
      with "1.IH"[OF True o] show "budget (snd (publish_loop (Suc i) (publish ?e s1))) \<le> budget s1"
        by simp
    qed simp
    then show ?thesis using True by (simp add: publish_loop.simps[of i s])
  next
    case False
    then show ?thesis by (simp add: publish_loop.simps)
  qed
qed

definition publish_since :: "nat \<Rightarrow> 'a service_scheme \<Rightarrow> unit result \<times> 'a service_scheme" where
  "publish_since start s =
     and_then (publish_loop start s)
       (\<lambda>_ s1. (Inr (), s1\<lparr>sv_published := length (rt_journal s1)\<rparr>))"

definition publish_new :: "'a service_scheme \<Rightarrow> unit result \<times> 'a service_scheme" where
  "publish_new s = publish_since (sv_published s) s"

lemma service_more:
  assumes "evaluator.more s' = evaluator.more (s :: 'a service_scheme)"
  shows "sv_bus s' = sv_bus s" "sv_published s' = sv_published s" "sv_name s' = sv_name s"
    "sv_stop s' = sv_stop s" "sv_seed s' = sv_seed s" "sv_speed s' = sv_speed s"
    "service.more s' = service.more s"
  using assms by (cases s; cases s'; simp)+

lemma observe_world: "world_safe s (snd (observe evs s))" "evaluator.more (snd (observe evs s)) = evaluator.more s"
  using observe_ev_step[of s evs] by (simp_all add: observe_safe ev_step_def keeps_world_def)

lemmas observe_service = service_more[OF observe_world(2)]

lemma world_safe_cong:
  assumes "rt_journal s' = rt_journal s" "rt_seq s' = rt_seq s" "rt_now s' = rt_now s"
    and "world_tables s' = world_tables s"
  shows "world_safe s s'"
proof -
  note t = world_tablesD[OF assms(4)]
  have "om_inv s' = om_inv s" by (rule om_inv_cong) (simp_all add: t)
  moreover have "verdicts_ok s \<Longrightarrow> verdicts_ok s'"
    by (erule verdicts_ok_frame) (simp_all add: t)
  moreover have "journal_ok s' = journal_ok s" by (rule journal_ok_cong) (simp_all add: assms)
  ultimately show ?thesis using assms by (simp add: world_safe_def extends_cong)
qed

lemma publish_world: "world_safe s (publish e s)"
  by (rule world_safe_cong) (simp_all add: publish_def world_tables_def)

lemma publish_loop_safe: "world_safe s (snd (publish_loop i s))"
proof (induction i s rule: publish_loop.induct)
  case (1 i s)
  show ?case
  proof (cases "i < length (rt_journal s)")
    case True
    then show ?thesis
      unfolding publish_loop.simps[of i s]
      by (simp, intro and_then_rel[where R = world_safe, OF observe_world(1) _ world_safe_trans])
         (auto intro: 1 world_safe_trans[OF publish_world])
  next
    case False
    then show ?thesis by (simp add: publish_loop.simps)
  qed
qed

lemma world_safe_extends: "world_safe s s' \<Longrightarrow> extends s s'"
  by (simp add: world_safe_def)

text \<open>What has been put on the bus when the loop comes to its end: every journal entry from the
  start index on, once, in journal order.\<close>

lemma publish_loop_bus:
  "publish_loop i s = (Inr u, s') \<Longrightarrow> i \<le> length (rt_journal s) \<Longrightarrow>
     sv_bus s' = sv_bus s @ map world_event (drop i (rt_journal s')) \<and>
     sv_published s' = sv_published s \<and> service.more s' = service.more s"
proof (induction i s arbitrary: s' rule: publish_loop.induct)
  case (1 i s)
  show ?case
  proof (cases "i < length (rt_journal s)")
    case True
    let ?e = "rt_journal s ! i"
    obtain u1 s1 where o: "observe [?e] s = (Inr u1, s1)"
      and rest: "publish_loop (Suc i) (publish ?e s1) = (Inr u, s')"
      using 1(2) True by (auto simp: publish_loop.simps[of i s] and_then_Inr_iff)
    have ext: "extends s (publish ?e s1)"
      using observe_extends[of s "[?e]"] o by (simp add: extends_def publish_def)
    have more: "sv_bus s1 = sv_bus s" "sv_published s1 = sv_published s"
        "service.more s1 = service.more s"
      using observe_service[of "[?e]" s] o by simp_all
    have "extends (publish ?e s1) s'"
      using publish_loop_safe[of "publish ?e s1" "Suc i"] rest by (auto dest: world_safe_extends)
    with ext have "extends s s'" by (rule extends_trans)
    with True have i: "i < length (rt_journal s')" "rt_journal s' ! i = ?e"
      by (auto simp: extends_def nth_append)
    have "Suc i \<le> length (rt_journal (publish ?e s1))"
      using True extends_length[OF ext] by simp
    from "1.IH"[OF True o rest this]
    have "sv_bus s' = sv_bus (publish ?e s1) @ map world_event (drop (Suc i) (rt_journal s'))"
      and "sv_published s' = sv_published (publish ?e s1)"
      and "service.more s' = service.more (publish ?e s1)"
      by auto
    then show ?thesis
      using i by (simp add: more publish_def Cons_nth_drop_Suc[symmetric])
  next
    case False
    with 1(2,3) show ?thesis by (auto simp: publish_loop.simps)
  qed
qed

lemma publish_since_bus:
  assumes "publish_since i s = (Inr u, s')" and "i \<le> length (rt_journal s)"
  shows "sv_bus s' = sv_bus s @ map world_event (drop i (rt_journal s'))"
    and "sv_published s' = length (rt_journal s')"
    and "service.more s' = service.more s"
  using assms by (auto simp: publish_since_def and_then_Inr_iff dest: publish_loop_bus)

lemma publish_since_safe: "world_safe s (snd (publish_since i s))"
  unfolding publish_since_def
  by (rule and_then_rel[where R = world_safe, OF publish_loop_safe _ world_safe_trans])
     (auto intro!: world_safe_cong simp: world_tables_def)

section \<open>Write surfaces\<close>

text \<open>The common shape: remember the length of the journal, act, publish what is new.\<close>

definition published ::
  "('a service_scheme \<Rightarrow> 'r result \<times> 'a service_scheme) \<Rightarrow>
   'a service_scheme \<Rightarrow> 'r result \<times> 'a service_scheme" where
  "published act s =
     (let start = length (rt_journal s) in
      and_then (act s) (\<lambda>r s1. and_then (publish_since start s1) (\<lambda>_ s2. (Inr r, s2))))"

definition sv_apply_command ::
  "(sim_command \<Rightarrow> 'a service_scheme \<Rightarrow> sim_event result \<times> 'a service_scheme) \<Rightarrow> sim_command \<Rightarrow>
   'a service_scheme \<Rightarrow> sim_event result \<times> 'a service_scheme" where
  "sv_apply_command ap c = published (ap c)"

definition sv_apply_typed ::
  "(sim_command \<Rightarrow> 'a service_scheme \<Rightarrow> sim_event result \<times> 'a service_scheme) \<Rightarrow> objective \<Rightarrow>
   sim_command \<Rightarrow> 'a service_scheme \<Rightarrow> sim_event result \<times> 'a service_scheme" where
  "sv_apply_typed ap ob c = published (gateway_apply ap ob c)"

definition sv_record_external ::
  "string \<Rightarrow> string \<Rightarrow> string option \<Rightarrow> pydict \<Rightarrow>
   'a service_scheme \<Rightarrow> sim_event result \<times> 'a service_scheme" where
  "sv_record_external ty trace cause payload =
     published (\<lambda>s. case emit ty None None cause (Some trace) payload s of (e, s1) \<Rightarrow> (Inr e, s1))"

definition sv_open_objective ::
  "pydict \<Rightarrow> route \<Rightarrow> string \<Rightarrow> int \<Rightarrow> rat option \<Rightarrow>
   'a service_scheme \<Rightarrow> objective result \<times> 'a service_scheme" where
  "sv_open_objective ev r owner prio dl = published (om_open ev r owner prio dl)"

definition sv_transition ::
  "string \<Rightarrow> ostatus \<Rightarrow> string option \<Rightarrow> string option \<Rightarrow> string option \<Rightarrow> pydict \<Rightarrow>
   'a service_scheme \<Rightarrow> objective result \<times> 'a service_scheme" where
  "sv_transition oid to claimer cause evidence payload =
     published (om_transition oid to claimer cause evidence payload)"

definition sv_fail_objective ::
  "string \<Rightarrow> string option \<Rightarrow> string option \<Rightarrow> string option \<Rightarrow> pydict \<Rightarrow>
   'a service_scheme \<Rightarrow> objective option result \<times> 'a service_scheme" where
  "sv_fail_objective oid claimer cause evidence payload s =
     (case om_get s oid of
        None \<Rightarrow> (Inr None, s)
      | Some ob \<Rightarrow>
          if o_status ob \<in> terminal then (Inr (Some ob), s)
          else and_then (sv_transition oid Failed claimer cause evidence payload s)
                 (\<lambda>ob' s1. (Inr (Some ob'), s1)))"

text \<open>Scenario methods found by name; a missing one is a ValueError.\<close>

definition require_scenario_method ::
  "string \<Rightarrow> ('a service_scheme \<Rightarrow> 'r result \<times> 'a service_scheme) option \<Rightarrow> 'a service_scheme \<Rightarrow>
   ('a service_scheme \<Rightarrow> 'r result \<times> 'a service_scheme) result" where
  "require_scenario_method name m s =
     (case m of
        None \<Rightarrow> Inl (ValueError (Msg ''scenario {!r} has no {}'' [VStr (sv_name s), VStr name]))
      | Some f \<Rightarrow> Inr f)"

definition sv_call_scenario ::
  "string \<Rightarrow> ('a service_scheme \<Rightarrow> 'r result \<times> 'a service_scheme) option \<Rightarrow>
   'a service_scheme \<Rightarrow> 'r result \<times> 'a service_scheme" where
  "sv_call_scenario name m s =
     (case require_scenario_method name m s of
        Inl x \<Rightarrow> (Inl x, s)
      | Inr f \<Rightarrow> and_then (f s) (\<lambda>r s1. and_then (publish_new s1) (\<lambda>_ s2. (Inr r, s2))))"

text \<open>The surge injector validates its inputs and leaves publication to the next step.\<close>

definition sv_inject_demand_surge ::
  "(rat \<Rightarrow> rat \<Rightarrow> rat \<Rightarrow> 'a service_scheme \<Rightarrow> unit result \<times> 'a service_scheme) \<Rightarrow>
   pyval \<Rightarrow> pyval \<Rightarrow> 'a service_scheme \<Rightarrow> unit result \<times> 'a service_scheme" where
  "sv_inject_demand_surge schedule mult dur s =
     (case require_finite_positive mult ''multiplier'' 1 of
        Inl x \<Rightarrow> (Inl x, s)
      | Inr m \<Rightarrow>
          (case require_finite_positive dur ''duration_minutes'' 0 of
             Inl x \<Rightarrow> (Inl x, s)
           | Inr d \<Rightarrow> schedule (rt_now s) m d s))"

definition sv_step_once ::
  "('a service_scheme \<Rightarrow> rat option) \<Rightarrow> ('a service_scheme \<Rightarrow> 'a service_scheme) \<Rightarrow>
   'a service_scheme \<Rightarrow> unit result \<times> 'a service_scheme" where
  "sv_step_once peek estep s = publish_new (snd (rt_step peek estep s))"

text \<open>
  One iteration of \<^verbatim>\<open>run\<close>: \<^const>\<open>None\<close> when the loop ends, otherwise the wall-clock delay to
  sleep.  The loop runs until another task sets the stop flag or the simulation completes.
\<close>

definition sv_run_iteration ::
  "('a service_scheme \<Rightarrow> rat option) \<Rightarrow> ('a service_scheme \<Rightarrow> 'a service_scheme) \<Rightarrow> rat \<Rightarrow>
   'a service_scheme \<Rightarrow> rat option result \<times> 'a service_scheme" where
  "sv_run_iteration peek estep min_delay s =
     (if sv_stop s \<or> rt_status s = RCompleted then (Inr None, s)
      else and_then (sv_step_once peek estep s)
        (\<lambda>_ s1. (Inr (Some (max min_delay ((rt_now s1 - rt_now s) / sv_speed s1))), s1)))"

definition sv_request_stop :: "'a service_scheme \<Rightarrow> 'a service_scheme" where
  "sv_request_stop s = s\<lparr>sv_stop := True\<rparr>"

section \<open>Installation, reset and reading\<close>

text \<open>A world before its scenario is built: a new runtime, manager and evaluator.\<close>

definition blank_world :: "int \<Rightarrow> 'a service_scheme \<Rightarrow> 'a service_scheme" where
  "blank_world seed s =
     s\<lparr>rt_seed := seed, rt_now := 0, rt_journal := [], rt_status := RPaused, rt_seq := 0,
       om_objectives := Map.empty, om_order := [], om_active := Map.empty, om_target := Map.empty,
       om_baseline := Map.empty, om_route := Map.empty, om_last := Map.empty,
       ev_list := [], ev_route := Map.empty\<rparr>"

text \<open>
  \<^verbatim>\<open>build\<close> constructs, installs and activates the scenario on the blank world.  When it raises,
  the objects of the previous world are still the service's.
\<close>

definition sv_install ::
  "('a service_scheme \<Rightarrow> unit result \<times> 'a service_scheme) \<Rightarrow> int \<Rightarrow>
   'a service_scheme \<Rightarrow> unit result \<times> 'a service_scheme" where
  "sv_install build seed s =
     (case build (blank_world seed s) of
        (Inl x, _) \<Rightarrow> (Inl x, s)
      | (Inr _, s1) \<Rightarrow> (Inr (), s1\<lparr>sv_published := length (rt_journal s1)\<rparr>))"

text \<open>The activation hooks of a scenario act outside the simulation world (they register and
  unregister callbacks), so they do not appear.\<close>

definition sv_reset ::
  "('a service_scheme \<Rightarrow> unit result \<times> 'a service_scheme) \<Rightarrow> int option \<Rightarrow>
   'a service_scheme \<Rightarrow> unit result \<times> 'a service_scheme" where
  "sv_reset build seed s =
     (let s1 = s\<lparr>sv_seed := (case seed of None \<Rightarrow> sv_seed s | Some n \<Rightarrow> n)\<rparr>
      in and_then (sv_install build (sv_seed s1) s1)
           (\<lambda>_ s2. (Inr (), s2\<lparr>sv_stop := False\<rparr>)))"

definition sv_snapshot :: "('a service_scheme \<Rightarrow> pydict) \<Rightarrow> 'a service_scheme \<Rightarrow> pydict" where
  "sv_snapshot render s =
     dict_merge
       [(''enabled'', VBool True), (''scenario'', VStr (sv_name s)), (''seed'', VInt (sv_seed s)),
        (''status'', VStr (service_status s)), (''sim_time'', VFloat (Fin (rt_now s))),
        (''speed'', VFloat (Fin (sv_speed s))),
        (''latest_seq'', VInt (int (length (rt_journal s)))),
        (''objectives'', VList (map (\<lambda>ob. VDict (objective_to_dict ob)) (om_all s))),
        (''evaluations'', VList (map (\<lambda>e. VDict (evaluation_to_dict e)) (ev_list s)))]
       (render s)"

section \<open>Publication is exact while operations return\<close>

text \<open>
  \<^verbatim>\<open>in_sync b n s\<close>: the bus carried \<^verbatim>\<open>b\<close> when the world was installed (nothing at the start, the
  events of the previous world after a reset); everything journalled after the first \<^verbatim>\<open>n\<close> entries
  (those of the installation) follows on it, once, in journal order, and the cursor is at the end.
\<close>

definition in_sync :: "fleet_event list \<Rightarrow> nat \<Rightarrow> 'a service_scheme \<Rightarrow> bool" where
  "in_sync b n s \<longleftrightarrow> n \<le> length (rt_journal s) \<and> sv_published s = length (rt_journal s) \<and>
     sv_bus s = b @ map world_event (drop n (rt_journal s))"

text \<open>What a journalling operation may do to the service's own fields: nothing.\<close>

definition keeps_bus :: "'a service_scheme \<Rightarrow> 'a service_scheme \<Rightarrow> bool" where
  "keeps_bus s s' \<longleftrightarrow> sv_bus s' = sv_bus s \<and> sv_published s' = sv_published s"

lemma keeps_bus_refl [simp]: "keeps_bus s s"
  by (simp add: keeps_bus_def)

lemma keeps_bus_trans: "keeps_bus a b \<Longrightarrow> keeps_bus b c \<Longrightarrow> keeps_bus a c"
  by (simp add: keeps_bus_def)

lemma more_keeps_bus: "evaluator.more s' = evaluator.more s \<Longrightarrow> keeps_bus s s'"
  unfolding keeps_bus_def using service_more(1,2)[of s' s] by blast

lemma publish_since_sync:
  assumes "in_sync b n s" and "extends s s1" and "keeps_bus s s1"
    and "publish_since (length (rt_journal s)) s1 = (Inr u, s2)"
  shows "in_sync b n s2"
proof -
  have "world_safe s1 s2"
    using publish_since_safe[of s1 "length (rt_journal s)"] unfolding assms(4) by simp
  then have "extends s1 s2" by (rule world_safe_extends)
  then obtain fs where fs: "rt_journal s2 = rt_journal s1 @ fs" unfolding extends_def ..
  obtain es where es: "rt_journal s1 = rt_journal s @ es" using assms(2) unfolding extends_def ..
  note j = es fs
  have "length (rt_journal s) \<le> length (rt_journal s1)" by (simp add: j)
  from publish_since_bus(1,2)[OF assms(4) this] show ?thesis
    using assms(1,3) j by (simp add: in_sync_def keeps_bus_def)
qed

lemma published_sync:
  assumes "in_sync b n s" and "extends s (snd (act s))" and "keeps_bus s (snd (act s))"
    and "published act s = (Inr r, s')"
  shows "in_sync b n s'"
proof -
  obtain s1 u where "act s = (Inr r, s1)" "publish_since (length (rt_journal s)) s1 = (Inr u, s')"
    using assms(4) by (auto simp: published_def Let_def and_then_Inr_iff)
  with assms(1-3) show ?thesis by (auto intro: publish_since_sync)
qed

lemma published_safe:
  fixes act :: "'a service_scheme \<Rightarrow> 'r result \<times> 'a service_scheme"
  assumes "world_safe s (snd (act s))"
  shows "world_safe s (snd (published act s))"
proof -
  note bind = and_then_rel[where R = world_safe, OF _ _ world_safe_trans]
  have "world_safe s1 (snd (and_then (publish_since i s1) (\<lambda>_ s2. (Inr r, s2))))"
    for i s1 and r :: 'r
    by (rule bind[OF publish_since_safe]) simp
  then show ?thesis
    unfolding published_def Let_def by (rule bind[OF assms])
qed

text \<open>A scenario of the service adds one law: it has no access to the bus or its cursor.\<close>

locale world_scenario = command_scenario apply_cmd
  for apply_cmd :: "sim_command \<Rightarrow> 'b service_scheme \<Rightarrow> sim_event result \<times> 'b service_scheme" +
  assumes scenario_bus: "keeps_bus s (snd (apply_cmd c s))"
begin

lemma gateway_bus: "keeps_bus s (snd (gateway_apply apply_cmd ob0 c s))"
proof (rule gateway_rel[where R = keeps_bus])
  show "keeps_bus a a" for a :: "'b service_scheme" by simp
  show "keeps_bus a b \<Longrightarrow> keeps_bus b c \<Longrightarrow> keeps_bus a c" for a b c :: "'b service_scheme"
    by (rule keeps_bus_trans)
  show "keeps_bus s (snd (apply_cmd c s))" for c s by (rule scenario_bus)
  show "keeps_bus s (snd (emit ty a t c tr p s))" for ty a t c tr p and s :: "'b service_scheme"
    by (rule more_keeps_bus) (simp add: world_frame)
  show "keeps_bus s (snd (om_transition oid to cl c ev p s))"
    for oid to cl c ev p and s :: "'b service_scheme"
    by (rule more_keeps_bus[OF om_transition_evaluator(3)])
  show "keeps_bus s (snd (eval_start ob c r cause s))" for ob c r cause and s :: "'b service_scheme"
    using eval_start_keeps_world[of s ob c r cause]
    by (intro more_keeps_bus) (simp add: keeps_world_def)
  show "keeps_bus s (snd (observe evs s))" for evs and s :: "'b service_scheme"
    by (rule more_keeps_bus[OF observe_world(2)])
qed

lemma typed_sync:
  assumes "in_sync b n s" and "sv_apply_typed apply_cmd ob0 c s = (Inr r, s')"
  shows "in_sync b n s'"
  using published_sync[where act = "gateway_apply apply_cmd ob0 c",
      OF assms(1) world_safe_extends[OF gateway_safe] gateway_bus] assms(2)
  by (simp add: sv_apply_typed_def)

lemma command_sync:
  assumes "in_sync b n s" and "sv_apply_command apply_cmd c s = (Inr r, s')"
  shows "in_sync b n s'"
  using published_sync[where act = "apply_cmd c", OF assms(1) scenario_extends scenario_bus] assms(2)
  by (simp add: sv_apply_command_def)

lemma typed_safe: "world_safe s (snd (sv_apply_typed apply_cmd ob0 c s))"
  unfolding sv_apply_typed_def by (rule published_safe[OF gateway_safe])

lemma command_safe: "world_safe s (snd (sv_apply_command apply_cmd c s))"
  unfolding sv_apply_command_def by (rule published_safe[OF scenario_safe])

end

section \<open>The other surfaces\<close>

text \<open>A sensor event that was never used to open an objective before, unless its key is live.\<close>

definition new_event :: "pydict \<Rightarrow> route \<Rightarrow> 'a service_scheme \<Rightarrow> bool" where
  "new_event ev r s \<longleftrightarrow>
     om_active s (r_type r, get_str ev ''target_id'') = None \<longrightarrow>
     (\<forall>sid. item_str ev ''event_id'' = Inr sid \<longrightarrow> om_objectives s (objective_id sid) = None)"

lemma om_open_safe:
  assumes "new_event ev r s"
  shows "world_safe s (snd (om_open ev r owner prio dl s))"
proof (cases rule: om_open_cases[of s r ev owner prio dl])
  case (existing oid ob)
  then show ?thesis by simp
next
  case (failed e)
  then show ?thesis by simp
next
  case (fresh sid trace)
  note fr = om_open_fresh[OF fresh, of owner prio dl]
  have none: "om_objectives s (objective_id sid) = None"
    using assms fresh(1,2) by (simp add: new_event_def)
  then have same: "same_key ev r s" using fresh(2) by (simp add: same_key_def)
  have "verdicts_ok (snd (om_open ev r owner prio dl s))" if "verdicts_ok s"
    by (rule verdicts_ok_frame[OF that om_open_evaluator(1)]) (use none in \<open>auto simp: fr(1)\<close>)
  then show ?thesis
    by (simp add: world_safe_def fr(6-8) om_open_inv[OF _ same])
qed

lemma om_open_bus: "keeps_bus s (snd (om_open ev r owner prio dl s))"
  by (rule more_keeps_bus[OF om_open_evaluator(3)])

lemma om_transition_bus: "keeps_bus s (snd (om_transition oid to cl c ev p s))"
  by (rule more_keeps_bus[OF om_transition_evaluator(3)])

lemma emit_bus: "keeps_bus s (snd (emit ty a t c tr p s))"
  by (rule more_keeps_bus) (simp add: world_frame)

lemma external_act:
  "snd (case emit ty a t c tr p s of (e, s1) \<Rightarrow> (Inr e, s1)) = snd (emit ty a t c tr p s)"
  by (simp add: split_beta)

lemma external_sync:
  "in_sync b n s \<Longrightarrow> sv_record_external ty tr c p s = (Inr e, s') \<Longrightarrow> in_sync b n s'"
  unfolding sv_record_external_def
  by (erule published_sync[rotated 3]) (simp_all add: external_act emit_extends emit_bus)

lemma external_safe: "world_safe s (snd (sv_record_external ty tr c p s))"
  unfolding sv_record_external_def
  by (rule published_safe) (simp add: external_act emit_safe)

lemma open_sync:
  "in_sync b n s \<Longrightarrow> sv_open_objective ev r owner prio dl s = (Inr ob, s') \<Longrightarrow> in_sync b n s'"
  unfolding sv_open_objective_def
  by (erule published_sync[rotated 3]) (simp_all add: om_open_extends om_open_bus)

lemma open_safe:
  "new_event ev r s \<Longrightarrow> world_safe s (snd (sv_open_objective ev r owner prio dl s))"
  unfolding sv_open_objective_def by (rule published_safe[OF om_open_safe])

lemma transition_sync:
  "in_sync b n s \<Longrightarrow> sv_transition oid to cl c ev p s = (Inr ob, s') \<Longrightarrow> in_sync b n s'"
  unfolding sv_transition_def
  by (erule published_sync[rotated 3]) (simp_all add: om_transition_extends om_transition_bus)

lemma transition_service_safe: "world_safe s (snd (sv_transition oid to cl c ev p s))"
  unfolding sv_transition_def by (rule published_safe[OF transition_safe])

lemma fail_objective_sync:
  "in_sync b n s \<Longrightarrow> sv_fail_objective oid cl c ev p s = (Inr ob, s') \<Longrightarrow> in_sync b n s'"
  by (auto simp: sv_fail_objective_def and_then_Inr_iff intro: transition_sync
      split: option.splits if_splits)

text \<open>One SimPy step, when the environment appends to the journal and knows nothing of the bus.\<close>

lemma publish_new_sync:
  assumes "in_sync b n s" and "extends s s1" and "keeps_bus s s1"
    and "publish_new s1 = (Inr u, s2)"
  shows "in_sync b n s2"
proof -
  have "sv_published s1 = length (rt_journal s)"
    using assms(1,3) by (simp add: in_sync_def keeps_bus_def)
  with assms show ?thesis by (auto simp: publish_new_def intro: publish_since_sync)
qed

section \<open>An exception loses events for the bus\<close>

text \<open>
  The surfaces publish from the journal length they saw at their start and then move the cursor to
  the end.  Whatever an operation journalled before it raised lies before the start of the next
  one, so it is never published.
\<close>

lemma world_event_id: "world_event a = world_event b \<Longrightarrow> ev_id a = ev_id b"
  by (simp add: world_event_def event_to_dict_def)

lemma published_skips:
  assumes ok: "journal_ok s" and e: "e \<in> set (rt_journal s)"
    and act: "extends s (snd (act s))" "keeps_bus s (snd (act s))"
      "journal_ok (snd (act s))"
    and run: "published act s = (Inr r, s')"
  shows "sv_published s' = length (rt_journal s')"
    and "\<exists>es. sv_bus s' = sv_bus s @ map world_event es \<and> world_event e \<notin> world_event ` set es"
proof -
  obtain s1 u where a: "act s = (Inr r, s1)" "publish_since (length (rt_journal s)) s1 = (Inr u, s')"
    using run by (auto simp: published_def Let_def and_then_Inr_iff)
  have len: "length (rt_journal s) \<le> length (rt_journal s1)"
    using extends_length[OF act(1)] a(1) by simp
  note p = publish_since_bus[OF a(2) len]
  show "sv_published s' = length (rt_journal s')" by (rule p(2))
  have safe: "world_safe s1 s'" using publish_since_safe[of s1] a(2) by (metis snd_conv)
  then have "extends s s'"
    using act(1) a(1) by (auto simp: world_safe_def intro: extends_trans)
  then obtain es where es: "rt_journal s' = rt_journal s @ es" by (auto simp: extends_def)
  have "journal_ok s'" using safe act(3) a(1) by (simp add: world_safe_def)
  then have "distinct (map ev_id (rt_journal s @ es))" using journal_ids_distinct es by metis
  with e have "world_event e \<notin> world_event ` set es"
    by (auto dest!: world_event_id)
  moreover have "sv_bus s' = sv_bus s @ map world_event es"
    using p(1) act(2) a(1) es by (simp add: keeps_bus_def)
  ultimately show "\<exists>es. sv_bus s' = sv_bus s @ map world_event es \<and>
      world_event e \<notin> world_event ` set es" by blast
qed

lemma rejection_lost:
  assumes sync: "in_sync b n s" and ok: "journal_ok s"
    and ob: "om_objectives s (o_id ob0) = Some ob" "o_id ob = o_id ob0" "o_status ob \<in> terminal"
  shows "\<exists>m rej s1. sv_apply_typed ap ob0 c s = (Inl (ValueError m), s1) \<and>
     rt_journal s1 = rt_journal s @ [rej] \<and> ev_type rej = ''command.rejected'' \<and>
     sv_bus s1 = sv_bus s \<and> journal_ok s1"
proof -
  obtain m rej s1 where g: "gateway_apply ap ob0 c s = (Inl (ValueError m), s1)"
      "rt_journal s1 = rt_journal s @ [rej]" "ev_type rej = ''command.rejected''"
    using gateway_raises_terminal[OF ob, of ap c] by blast
  have nos: "\<not> in_scope ob c" using ob(3) by (auto simp: in_scope_def terminal_def)
  then obtain reason where r: "reject_reason ob c = Some reason"
    using reject_reason_None by (cases "reject_reason ob c") auto
  have "Failed \<notin> allowed_transitions (o_status ob)" using ob(3) terminal_no_transitions by auto
  then have s1: "s1 = snd (rejection ob c reason s)"
    using gateway_reject_eq[OF ob(1,2) r, of ap] g(1) ob(1,2)
    by (simp add: om_transition_def split_beta Let_def)
  have "keeps_bus s s1" unfolding s1 rejection_def by (rule emit_bus)
  moreover have "journal_ok s1" unfolding s1 rejection_def by (rule emit_journal_ok[OF ok])
  moreover have "sv_apply_typed ap ob0 c s = (Inl (ValueError m), s1)"
    using g(1) by (simp add: sv_apply_typed_def published_def)
  ultimately show ?thesis using g(2,3) by (auto simp: keeps_bus_def)
qed

text \<open>A failed reset has changed the seed the service reports, and nothing else.\<close>

lemma reset_failure:
  assumes "sv_reset build (Some seed) s = (Inl x, s')"
  shows "s' = s\<lparr>sv_seed := seed\<rparr>"
  using assms by (auto simp: sv_reset_def sv_install_def Let_def and_then_def split: prod.splits sum.splits)

end
