(* ===== verification/Support.thy ===== *)
theory Support imports World_Service begin

text \<open>
  The support world (\<^verbatim>\<open>api/server/world/packs/support.py\<close>) and its projection
  (\<^verbatim>\<open>api/server/world/projection.py\<close>): customers, tickets, workers and teams on the shared
  runtime, the \<^verbatim>\<open>reallocate_workers\<close> command with its validation, and the SimPy processes
  cut into the segments that run between two \<^verbatim>\<open>yield\<close>s.

  SimPy itself is not part of the repository.  Starting a process is an entry of
  \<^verbatim>\<open>su_spawned\<close>; which segment the kernel resumes, and when, is left open: the theorems hold
  for every order.  What a segment draws from the random generator is an argument of it.
\<close>

section \<open>Data\<close>

record customer =
  cu_id :: string
  cu_segment :: string
  cu_value :: string
  cu_patience :: rat
  cu_sentiment :: rat
  cu_churn :: rat
  cu_active :: "string set"

datatype tstatus = Queued | InService | TResolved | Abandoned

fun tstatus_str :: "tstatus \<Rightarrow> string" where
  "tstatus_str Queued = ''queued''"
| "tstatus_str InService = ''in_service''"
| "tstatus_str TResolved = ''resolved''"
| "tstatus_str Abandoned = ''abandoned''"

record ticket =
  t_id :: string
  t_customer :: string
  t_severity :: string
  t_skill :: string
  t_created :: rat
  t_queued :: rat
  t_deadline :: rat
  t_trace :: string
  t_status :: tstatus
  t_worker :: "string option"
  t_assigned :: "rat option"
  t_resolved :: "rat option"
  t_abandoned :: "rat option"
  t_breached :: bool
  t_last :: "string option"

record worker =
  w_id :: string
  w_team :: string
  w_skills :: "string list"
  w_rate :: rat
  w_status :: string
  w_ticket :: "string option"
  w_available :: rat

record team =
  tm_id :: string
  tm_name :: string
  tm_workers :: "string list"

record support_config =
  cf_customers :: nat
  cf_workers :: nat
  cf_reserve :: nat
  cf_arrival_rate :: rat
  cf_minutes :: rat
  cf_sla :: rat
  cf_backlog :: nat
  cf_recovery :: nat

datatype proc =
    ArrivalLoop
  | SensorLoop
  | WorkerLoop string
  | SlaWatch string
  | AbandonWatch string
  | SurgeProc rat rat rat
  | ReturnAfter string pyval sim_event

record support = service +
  su_config :: support_config
  su_customers :: "(string \<times> customer) list"
  su_tickets :: "(string \<times> ticket) list"
  su_workers :: "(string \<times> worker) list"
  su_teams :: "(string \<times> team) list"
  su_store :: "string list"
  su_multiplier :: rat
  su_seq :: nat
  su_ids :: "string list"
  su_latched :: bool
  su_queued :: "string list"
  su_alive :: "string set"
  su_spawned :: "proc list"
  su_applied :: "(string \<times> sim_event) list"

definition skills :: "string list" where
  "skills = [''billing'', ''technical'', ''account'']"

text \<open>A dictionary lookup \<^verbatim>\<open>d[k]\<close>; a missing key is a KeyError.\<close>

definition item :: "(string \<times> 'v) list \<Rightarrow> string \<Rightarrow> 'v result" where
  "item d k = (case map_of d k of None \<Rightarrow> Inl (KeyError (VStr k)) | Some v \<Rightarrow> Inr v)"

definition spawn :: "proc \<Rightarrow> 'a support_scheme \<Rightarrow> 'a support_scheme" where
  "spawn p s = s\<lparr>su_spawned := su_spawned s @ [p]\<rparr>"

text \<open>\<^verbatim>\<open>_start_worker\<close>: nothing when the worker's process is still alive.\<close>

definition start_worker :: "string \<Rightarrow> 'a support_scheme \<Rightarrow> 'a support_scheme" where
  "start_worker wid s =
     (if wid \<in> su_alive s then s
      else spawn (WorkerLoop wid) (s\<lparr>su_alive := insert wid (su_alive s)\<rparr>))"

definition put_ticket :: "ticket \<Rightarrow> 'a support_scheme \<Rightarrow> 'a support_scheme" where
  "put_ticket t s = s\<lparr>su_tickets := dict_set (t_id t) t (su_tickets s)\<rparr>"

definition put_worker :: "worker \<Rightarrow> 'a support_scheme \<Rightarrow> 'a support_scheme" where
  "put_worker w s = s\<lparr>su_workers := dict_set (w_id w) w (su_workers s)\<rparr>"

definition put_customer :: "customer \<Rightarrow> 'a support_scheme \<Rightarrow> 'a support_scheme" where
  "put_customer c s = s\<lparr>su_customers := dict_set (cu_id c) c (su_customers s)\<rparr>"

definition put_team :: "team \<Rightarrow> 'a support_scheme \<Rightarrow> 'a support_scheme" where
  "put_team t s = s\<lparr>su_teams := dict_set (tm_id t) t (su_teams s)\<rparr>"

section \<open>The reallocation command\<close>

text \<open>The strings of a list value, when all its elements are strings.\<close>

fun all_strings :: "pyval list \<Rightarrow> string list option" where
  "all_strings [] = Some []"
| "all_strings (VStr s # xs) = (case all_strings xs of None \<Rightarrow> None | Some ys \<Rightarrow> Some (s # ys))"
| "all_strings (_ # xs) = None"

text \<open>The per-worker checks, in the order of the list.\<close>

fun check_workers :: "(string \<times> worker) list \<Rightarrow> string list \<Rightarrow> string option" where
  "check_workers ws [] = None"
| "check_workers ws (i # is) =
     (case map_of ws i of
        None \<Rightarrow> Some (''unknown worker_id: '' @ i)
      | Some w \<Rightarrow>
          if w_team w \<noteq> ''TEAM-RESERVE'' then Some (''worker '' @ i @ '' is not in TEAM-RESERVE'')
          else if w_status w \<noteq> ''reserve'' then Some (''worker '' @ i @ '' is not reserve status'')
          else check_workers ws is)"

text \<open>The objection to a payload, if any; an exception when the duration is an int that no float holds.\<close>

definition validate_reallocate :: "(string \<times> worker) list \<Rightarrow> pydict \<Rightarrow> string option result" where
  "validate_reallocate ws payload =
     (case dict_get payload ''worker_ids'' of
        VList (v # vs) \<Rightarrow>
          (case all_strings (v # vs) of
             None \<Rightarrow> Inr (Some ''worker_ids must contain only string worker IDs'')
           | Some ids \<Rightarrow>
               if length (remdups ids) \<noteq> length ids then Inr (Some ''worker_ids must be unique'')
               else if dict_get payload ''from_team_id'' \<noteq> VStr ''TEAM-RESERVE''
               then Inr (Some ''from_team_id must be TEAM-RESERVE'')
               else if dict_get payload ''to_team_id'' \<noteq> VStr ''TEAM-SUPPORT''
               then Inr (Some ''to_team_id must be TEAM-SUPPORT'')
               else
                 let d = dict_get payload ''duration_minutes'' in
                 if is_bool d \<or> \<not> is_num d then Inr (Some ''duration_minutes must be numeric'')
                 else bind_result (isfinite d) (\<lambda>fin.
                   if \<not> fin then Inr (Some ''duration_minutes must be finite'')
                   else if pf_le (num_of d) (Fin 0)
                   then Inr (Some ''duration_minutes must be greater than zero'')
                   else Inr (check_workers ws ids)))
      | _ \<Rightarrow> Inr (Some ''worker_ids must be a non-empty list''))"

definition reject_command ::
  "sim_command \<Rightarrow> string \<Rightarrow> 'a support_scheme \<Rightarrow> sim_event \<times> 'a support_scheme" where
  "reject_command c reason s =
     (let (e, s1) = emit ''command.rejected'' (Some (cmd_issuer c)) (Some ''TEAM-SUPPORT'') None
                      (Some (cmd_trace c))
                      [(''command'', VDict (command_to_dict c)), (''reason'', VStr reason)] s
      in (e, s1\<lparr>su_applied := dict_set (cmd_id c) e (su_applied s1)\<rparr>))"

text \<open>The body of the loop over the workers of an accepted command.\<close>

definition reallocate_one ::
  "sim_command \<Rightarrow> sim_event \<Rightarrow> string \<Rightarrow> string \<Rightarrow> pyval \<Rightarrow> string \<Rightarrow>
   'a support_scheme \<Rightarrow> unit result \<times> 'a support_scheme" where
  "reallocate_one c accepted from_id to_id dur wid s =
     and_then (item (su_workers s) wid, s) (\<lambda>w s.
     and_then (item (su_teams s) from_id, s) (\<lambda>ft s.
       let s1 = (if wid \<in> set (tm_workers ft)
                 then put_team (ft\<lparr>tm_workers := remove1 wid (tm_workers ft)\<rparr>) s else s)
       in and_then (item (su_teams s1) to_id, s1) (\<lambda>tt s1.
       let s2 = put_team (tt\<lparr>tm_workers := tm_workers tt @ [wid]\<rparr>) s1;
           s3 = put_worker (w\<lparr>w_team := to_id, w_status := ''idle''\<rparr>) s2;
           (e, s4) = emit ''worker.reallocated'' (Some wid) (Some to_id) (Some (ev_id accepted))
                       (Some (cmd_trace c))
                       [(''command_id'', VStr (cmd_id c)), (''from_team_id'', VStr from_id),
                        (''to_team_id'', VStr to_id), (''duration_minutes'', dur)] s3
       in (Inr (), spawn (ReturnAfter wid dur e) (start_worker wid s4)))))"

fun reallocate_all ::
  "sim_command \<Rightarrow> sim_event \<Rightarrow> string \<Rightarrow> string \<Rightarrow> pyval \<Rightarrow> string list \<Rightarrow>
   'a support_scheme \<Rightarrow> unit result \<times> 'a support_scheme" where
  "reallocate_all c accepted from_id to_id dur [] s = (Inr (), s)"
| "reallocate_all c accepted from_id to_id dur (w # ws) s =
     and_then (reallocate_one c accepted from_id to_id dur w s)
       (\<lambda>_ s1. reallocate_all c accepted from_id to_id dur ws s1)"

text \<open>\<^verbatim>\<open>payload\<close> has passed validation: its worker ids are strings and its teams are the
  two team ids.\<close>

definition accept_reallocate ::
  "sim_command \<Rightarrow> 'a support_scheme \<Rightarrow> sim_event result \<times> 'a support_scheme" where
  "accept_reallocate c s =
     (let p = cmd_payload c;
          ids = (case dict_get p ''worker_ids'' of
                   VList vs \<Rightarrow> (case all_strings vs of None \<Rightarrow> [] | Some xs \<Rightarrow> xs) | _ \<Rightarrow> [])
      in and_then (item_str p ''from_team_id'', s) (\<lambda>from_id s.
         and_then (item_str p ''to_team_id'', s) (\<lambda>to_id s.
           let dur = dict_get p ''duration_minutes'';
               (e, s1) = emit ''command.accepted'' (Some (cmd_issuer c)) (Some ''TEAM-SUPPORT'') None
                           (Some (cmd_trace c)) [(''command'', VDict (command_to_dict c))] s;
               s2 = s1\<lparr>su_applied := dict_set (cmd_id c) e (su_applied s1)\<rparr>
           in and_then (item (su_teams s2) from_id, s2) (\<lambda>_ s2.
              and_then (item (su_teams s2) to_id, s2) (\<lambda>_ s2.
              and_then (reallocate_all c e from_id to_id dur ids s2) (\<lambda>_ s3. (Inr e, s3)))))))"

definition support_apply ::
  "sim_command \<Rightarrow> 'a support_scheme \<Rightarrow> sim_event result \<times> 'a support_scheme" where
  "support_apply c s =
     (case map_of (su_applied s) (cmd_id c) of
        Some e \<Rightarrow> (Inr e, s)
      | None \<Rightarrow>
          if cmd_type c \<noteq> ''reallocate_workers'' then
            (case reject_command c (''unsupported command type: '' @ py_repr (cmd_type c)) s of
               (e, s1) \<Rightarrow> (Inr e, s1))
          else (case validate_reallocate (su_workers s) (cmd_payload c) of
                  Inl x \<Rightarrow> (Inl x, s)
                | Inr (Some reason) \<Rightarrow> (case reject_command c reason s of (e, s1) \<Rightarrow> (Inr e, s1))
                | Inr None \<Rightarrow> accept_reallocate c s))"

section \<open>Installation\<close>

text \<open>\<^verbatim>\<open>int(x)\<close> of a simulation time, which is never negative, in decimal.\<close>

definition int_str :: "rat \<Rightarrow> string" where
  "int_str q = (if q < 0 then ''-'' @ dec (nat (- \<lceil>q\<rceil>)) else dec (nat \<lfloor>q\<rfloor>))"

definition patience :: "string \<Rightarrow> rat" where
  "patience seg = (if seg = ''standard'' then 60 else if seg = ''premium'' then 90 else 30)"

definition value_band :: "string \<Rightarrow> string" where
  "value_band seg = (if seg = ''premium'' then ''high'' else ''medium'')"

text \<open>Customer number \<^verbatim>\<open>i\<close> with the segment drawn for it.\<close>

definition create_customer :: "nat \<Rightarrow> string \<Rightarrow> 'a support_scheme \<Rightarrow> 'a support_scheme" where
  "create_customer i seg s =
     (let cid = ''CUS-'' @ pad 5 (dec i);
          c = \<lparr>cu_id = cid, cu_segment = seg, cu_value = value_band seg, cu_patience = patience seg,
               cu_sentiment = 1, cu_churn = 0, cu_active = {}\<rparr>;
          s1 = (put_customer c s)\<lparr>su_ids := su_ids s @ [cid]\<rparr>
      in snd (emit ''customer.created'' (Some cid) None None (Some (''customer-'' @ cid))
               [(''segment'', VStr seg), (''value_band'', VStr (value_band seg))] s1))"

text \<open>Worker number \<^verbatim>\<open>i\<close> (from 1) with the service rate drawn for it: the last ones are
  the reserve, every fifth has all skills.\<close>

definition worker_name :: "nat \<Rightarrow> string" where
  "worker_name i = ''WRK-'' @ pad 4 (dec i)"

definition home_team :: "support_config \<Rightarrow> nat \<Rightarrow> string" where
  "home_team cfg i = (if cf_workers cfg - cf_reserve cfg < i then ''TEAM-RESERVE'' else ''TEAM-SUPPORT'')"

definition new_worker :: "support_config \<Rightarrow> nat \<Rightarrow> rat \<Rightarrow> worker" where
  "new_worker cfg i rate =
     \<lparr>w_id = worker_name i, w_team = home_team cfg i,
      w_skills = (if i mod 5 = 0 then skills else [skills ! ((i - 1) mod 3)]), w_rate = rate,
      w_status = (if cf_workers cfg - cf_reserve cfg < i then ''reserve'' else ''idle''),
      w_ticket = None, w_available = 0\<rparr>"

definition create_worker :: "nat \<Rightarrow> rat \<Rightarrow> 'a support_scheme \<Rightarrow> 'a support_scheme" where
  "create_worker i rate s =
     (let w = new_worker (su_config s) i rate;
          s1 = put_worker w s;
          s2 = (case map_of (su_teams s1) (w_team w) of
                  None \<Rightarrow> s1
                | Some tm \<Rightarrow> put_team (tm\<lparr>tm_workers := tm_workers tm @ [w_id w]\<rparr>) s1)
      in snd (emit ''worker.created'' (Some (w_id w)) (Some (w_team w)) None
               (Some (''worker-'' @ w_id w))
               [(''skills'', VList (map VStr (w_skills w))), (''service_rate'', VFloat (Fin rate))] s2))"

definition create_teams :: "'a support_scheme \<Rightarrow> 'a support_scheme" where
  "create_teams s =
     put_team \<lparr>tm_id = ''TEAM-RESERVE'', tm_name = ''Reserve'', tm_workers = []\<rparr>
       (put_team \<lparr>tm_id = ''TEAM-SUPPORT'', tm_name = ''Customer Support'', tm_workers = []\<rparr> s)"

definition config_to_dict :: "support_config \<Rightarrow> pydict" where
  "config_to_dict c =
     [(''customer_count'', VInt (int (cf_customers c))), (''worker_count'', VInt (int (cf_workers c))),
      (''reserve_worker_count'', VInt (int (cf_reserve c))),
      (''arrival_rate_per_hour'', VFloat (Fin (cf_arrival_rate c))),
      (''simulation_minutes'', VFloat (Fin (cf_minutes c))), (''sla_minutes'', VFloat (Fin (cf_sla c))),
      (''sensor_backlog_threshold'', VInt (int (cf_backlog c))),
      (''sensor_recovery_threshold'', VInt (int (cf_recovery c)))]"

text \<open>\<^verbatim>\<open>segs\<close> and \<^verbatim>\<open>rates\<close> are what the random generator yields for the customers and
  the workers.\<close>

definition support_install ::
  "(nat \<Rightarrow> string) \<Rightarrow> (nat \<Rightarrow> rat) \<Rightarrow> 'a support_scheme \<Rightarrow> 'a support_scheme" where
  "support_install segs rates s =
     (let s1 = snd (emit ''simulation.started'' (Some ''scenario:support'') None None None
                      [(''seed'', VInt (rt_seed s)), (''config'', VDict (config_to_dict (su_config s)))] s);
          s2 = fold (\<lambda>i. create_customer i (segs i)) [1..<Suc (cf_customers (su_config s))] s1;
          s3 = fold (\<lambda>i. create_worker i (rates i)) [1..<Suc (cf_workers (su_config s))]
                 (create_teams s2);
          s4 = fold (\<lambda>(wid, w). if w_team w = ''TEAM-SUPPORT'' then start_worker wid else id)
                 (su_workers s3) s3
      in spawn SensorLoop (spawn ArrivalLoop s4))"

text \<open>The constructor refuses a reserve that is not smaller than the work force.\<close>

definition support_init ::
  "support_config \<Rightarrow> 'a support_scheme \<Rightarrow> 'a support_scheme result" where
  "support_init cfg s =
     (if cf_reserve cfg < cf_workers cfg then
        Inr (s\<lparr>su_config := cfg, su_customers := [], su_tickets := [], su_workers := [],
               su_teams := [], su_store := [], su_multiplier := 1, su_seq := 0, su_ids := [],
               su_latched := False, su_queued := [], su_alive := {}, su_spawned := [],
               su_applied := []\<rparr>)
      else Inl (ValueError (Msg
        ''reserve_worker_count must satisfy 0 <= reserve_worker_count < worker_count'' [])))"

section \<open>The processes, segment by segment\<close>

definition ticket_name :: "nat \<Rightarrow> string" where
  "ticket_name n = ''TKT-'' @ pad 6 (dec n)"

definition new_ticket :: "string \<Rightarrow> string \<Rightarrow> string \<Rightarrow> 'a support_scheme \<Rightarrow> ticket" where
  "new_ticket cid severity skill s =
     \<lparr>t_id = ticket_name (su_seq s), t_customer = cid, t_severity = severity, t_skill = skill,
      t_created = rt_now s, t_queued = rt_now s, t_deadline = rt_now s + cf_sla (su_config s),
      t_trace = ''ticket-'' @ ticket_name (su_seq s), t_status = Queued, t_worker = None,
      t_assigned = None, t_resolved = None, t_abandoned = None, t_breached = False,
      t_last = None\<rparr>"

text \<open>\<^verbatim>\<open>_create_ticket\<close>, run by the arrival loop after each delay; the customer, severity and
  skill drawn are arguments.\<close>

definition create_ticket ::
  "string \<Rightarrow> string \<Rightarrow> string \<Rightarrow> 'a support_scheme \<Rightarrow> unit result \<times> 'a support_scheme" where
  "create_ticket cid severity skill s0 =
     (let s = s0\<lparr>su_seq := Suc (su_seq s0)\<rparr> in
      and_then (item (su_customers s) cid, s) (\<lambda>cu s.
        let t = new_ticket (cu_id cu) severity skill s;
            tid = t_id t;
            s1 = put_customer (cu\<lparr>cu_active := insert tid (cu_active cu)\<rparr>) (put_ticket t s);
            (arrived, s2) = emit ''ticket.arrived'' (Some tid) (Some (cu_id cu)) None
                (Some (t_trace t))
                [(''customer_id'', VStr (cu_id cu)), (''severity'', VStr severity),
                 (''required_skill'', VStr skill),
                 (''arrival_multiplier'', VFloat (Fin (su_multiplier s)))] s1;
            (queued, s3) = emit ''ticket.queued'' (Some tid) (Some ''queue:support'')
                (Some (ev_id arrived)) (Some (t_trace t)) [(''required_skill'', VStr skill)] s2;
            s4 = put_ticket (t\<lparr>t_last := Some (ev_id queued)\<rparr>) s3;
            s5 = s4\<lparr>su_queued := (if tid \<in> set (su_queued s4) then su_queued s4
                                  else su_queued s4 @ [tid]),
                    su_store := su_store s4 @ [tid]\<rparr>
        in (Inr (), spawn (AbandonWatch tid) (spawn (SlaWatch tid) s5))))"

text \<open>
  A worker gets a ticket out of the store.  \<^verbatim>\<open>u\<close> is the uniform draw in [0.8, 1.2]; the result
  is the service time, or \<^const>\<open>None\<close> when the ticket is no longer queued and the loop goes
  round.
\<close>

definition base_minutes :: "string \<Rightarrow> rat result" where
  "base_minutes sev =
     (if sev = ''low'' then Inr 10 else if sev = ''medium'' then Inr 20
      else if sev = ''high'' then Inr 35 else Inl (KeyError (VStr sev)))"

definition worker_take ::
  "string \<Rightarrow> string \<Rightarrow> rat \<Rightarrow> 'a support_scheme \<Rightarrow> rat option result \<times> 'a support_scheme" where
  "worker_take wid tid u s0 =
     (let s = s0\<lparr>su_store := remove1 tid (su_store s0)\<rparr> in
      and_then (item (su_tickets s) tid, s) (\<lambda>t s.
      and_then (item (su_workers s) wid, s) (\<lambda>w s.
        if t_status t \<noteq> Queued then (Inr None, s)
        else
          let s1 = s\<lparr>su_queued := filter (\<lambda>x. x \<noteq> tid) (su_queued s)\<rparr>;
              w1 = w\<lparr>w_status := ''busy'', w_ticket := Some tid\<rparr>;
              t1 = t\<lparr>t_status := InService, t_worker := Some wid, t_assigned := Some (rt_now s)\<rparr>;
              s2 = put_ticket t1 (put_worker w1 s1);
              (assigned, s3) = emit ''ticket.assigned'' (Some tid) (Some wid) (t_last t)
                  (Some (t_trace t))
                  [(''worker_id'', VStr wid), (''required_skill'', VStr (t_skill t))] s2;
              (started, s4) = emit ''ticket.service_started'' (Some tid) (Some wid)
                  (Some (ev_id assigned)) (Some (t_trace t)) [(''worker_id'', VStr wid)] s3;
              s5 = put_ticket (t1\<lparr>t_last := Some (ev_id started)\<rparr>) s4
          in and_then (base_minutes (t_severity t), s5) (\<lambda>base s5.
               let duration = (base * u) / w_rate w in
               (Inr (Some duration),
                put_worker (w1\<lparr>w_available := rt_now s + duration\<rparr>) s5)))))"

text \<open>The service time is over.\<close>

definition resolve_ticket ::
  "string \<Rightarrow> string \<Rightarrow> 'a support_scheme \<Rightarrow> unit result \<times> 'a support_scheme" where
  "resolve_ticket tid wid s =
     and_then (item (su_tickets s) tid, s) (\<lambda>t s.
     and_then (item (su_workers s) wid, s) (\<lambda>w s.
       if t_status t \<noteq> InService then (Inr (), s)
       else
         let t1 = t\<lparr>t_status := TResolved, t_resolved := Some (rt_now s)\<rparr>;
             s1 = put_ticket t1 s
         in and_then (item (su_customers s1) (t_customer t), s1) (\<lambda>cu s1.
           let cu1 = cu\<lparr>cu_active := cu_active cu - {tid},
                        cu_sentiment := min 1 (cu_sentiment cu + 2/100),
                        cu_churn := max 0 (cu_churn cu - 2/100)\<rparr>;
               s2 = put_customer cu1 s1;
               (resolved, s3) = emit ''ticket.resolved'' (Some tid) (Some (cu_id cu)) (t_last t)
                   (Some (t_trace t))
                   [(''worker_id'', VStr wid), (''customer_id'', VStr (cu_id cu))] s2;
               s4 = put_ticket (t1\<lparr>t_last := Some (ev_id resolved)\<rparr>) s3;
               s5 = put_worker (w\<lparr>w_status := ''idle'', w_ticket := None,
                                   w_available := rt_now s\<rparr>) s4;
               (_, s6) = emit ''worker.available'' (Some wid) None (Some (ev_id resolved))
                   (Some (t_trace t)) [(''ticket_id'', VStr tid)] s5
           in (Inr (), s6))))"

text \<open>The SLA timer of a ticket fires.\<close>

definition sla_fired :: "string \<Rightarrow> 'a support_scheme \<Rightarrow> unit result \<times> 'a support_scheme" where
  "sla_fired tid s =
     and_then (item (su_tickets s) tid, s) (\<lambda>t s.
       if t_status t \<notin> {Queued, InService} then (Inr (), s)
       else
         let s1 = put_ticket (t\<lparr>t_breached := True\<rparr>) s in
         and_then (item (su_customers s1) (t_customer t), s1) (\<lambda>cu s1.
           let s2 = put_customer (cu\<lparr>cu_sentiment := max 0 (cu_sentiment cu - 15/100),
                                      cu_churn := min 1 (cu_churn cu + 10/100)\<rparr>) s1;
               (_, s3) = emit ''ticket.sla_breached'' (Some tid) (Some (cu_id cu)) (t_last t)
                   (Some (t_trace t))
                   [(''status'', VStr (tstatus_str (t_status t))), (''customer_id'', VStr (cu_id cu))] s2
           in (Inr (), s3)))"

text \<open>
  The patience of a customer runs out: the first segment decides whether to take the ticket out of
  the store, the second runs when the store has handed it over.
\<close>

definition abandon_wanted :: "string \<Rightarrow> 'a support_scheme \<Rightarrow> bool result" where
  "abandon_wanted tid s =
     bind_result (item (su_tickets s) tid) (\<lambda>t. Inr (t_status t = Queued))"

definition abandon_taken :: "string \<Rightarrow> 'a support_scheme \<Rightarrow> unit result \<times> 'a support_scheme" where
  "abandon_taken tid s0 =
     (let s = s0\<lparr>su_store := remove1 tid (su_store s0)\<rparr> in
      and_then (item (su_tickets s) tid, s) (\<lambda>t s.
      and_then (item (su_customers s) (t_customer t), s) (\<lambda>cu s.
        let s1 = s\<lparr>su_queued := filter (\<lambda>x. x \<noteq> tid) (su_queued s)\<rparr>;
            t1 = t\<lparr>t_status := Abandoned, t_abandoned := Some (rt_now s)\<rparr>;
            cu1 = cu\<lparr>cu_active := cu_active cu - {tid},
                     cu_sentiment := max 0 (cu_sentiment cu - 40/100),
                     cu_churn := min 1 (cu_churn cu + 30/100)\<rparr>;
            s2 = put_customer cu1 (put_ticket t1 s1);
            (e, s3) = emit ''ticket.abandoned'' (Some tid) (Some (cu_id cu)) (t_last t)
                (Some (t_trace t)) [(''customer_id'', VStr (cu_id cu))] s2
        in (Inr (), put_ticket (t1\<lparr>t_last := Some (ev_id e)\<rparr>) s3))))"

section \<open>Projection\<close>

record projection =
  pr_backlog :: nat
  pr_in_service :: nat
  pr_resolved :: nat
  pr_abandoned :: nat
  pr_opened :: nat
  pr_idle :: nat
  pr_busy :: nat
  pr_breach :: rat
  pr_wait :: rat
  pr_sentiment :: rat
  pr_churn :: rat

definition count :: "('b \<Rightarrow> bool) \<Rightarrow> 'b list \<Rightarrow> nat" where
  "count p xs = length (filter p xs)"

definition mean :: "rat list \<Rightarrow> rat" where
  "mean xs = (if xs = [] then 0 else sum_list xs / of_nat (length xs))"

definition project_support :: "'a support_scheme \<Rightarrow> projection" where
  "project_support s =
     (let ts = map snd (su_tickets s); ws = map snd (su_workers s); cs = map snd (su_customers s);
          waits = List.map_filter (\<lambda>t. map_option (\<lambda>a. a - t_queued t) (t_assigned t)) ts
      in \<lparr>pr_backlog = count (\<lambda>t. t_status t = Queued) ts,
          pr_in_service = count (\<lambda>t. t_status t = InService) ts,
          pr_resolved = count (\<lambda>t. t_status t = TResolved) ts,
          pr_abandoned = count (\<lambda>t. t_status t = Abandoned) ts,
          pr_opened = length ts,
          pr_idle = count (\<lambda>w. w_status w = ''idle'') ws,
          pr_busy = count (\<lambda>w. w_status w = ''busy'') ws,
          pr_breach = (if ts = [] then 0
                       else of_nat (count t_breached ts) / of_nat (length ts)),
          pr_wait = mean waits,
          pr_sentiment = mean (map cu_sentiment cs),
          pr_churn = mean (map cu_churn cs)\<rparr>)"

section \<open>Sensor, surge and return\<close>

text \<open>
  One minute of the sensor loop, with the loop's own latch (the local \<^verbatim>\<open>latched\<close>, which the
  scenario mirrors in \<^verbatim>\<open>_sensor_latched\<close>).
\<close>

definition sensor_tick :: "'a support_scheme \<Rightarrow> 'a support_scheme" where
  "sensor_tick s =
     (let backlog = length (su_queued s) in
      if cf_backlog (su_config s) \<le> backlog \<and> \<not> su_latched s then
        let p = project_support s;
            cause = map_option ev_id
              (first_match (\<lambda>e. ev_type e = ''ticket.queued'') (rev (rt_journal s)))
        in (snd (emit ''sensor.tripped'' (Some ''sensor:support_pressure'') (Some ''queue:support'')
              cause (Some (''support-pressure-'' @ int_str (rt_now s)))
              [(''actor_ids'', VList (map VStr (take 20 (su_queued s)))),
               (''measurements'', VDict
                  [(''support_backlog'', VInt (int (pr_backlog p))),
                   (''sla_breach_pct'', VFloat (Fin (pr_breach p))),
                   (''average_wait_minutes'', VFloat (Fin (pr_wait p)))])] s))
             \<lparr>su_latched := True\<rparr>
      else if backlog \<le> cf_recovery (su_config s) \<and> su_latched s then
        (snd (emit ''sensor.recovered'' (Some ''sensor:support_pressure'') (Some ''queue:support'')
            None (Some (''support-pressure-recovery-'' @ int_str (rt_now s)))
            [(''support_backlog'', VInt (int backlog))] s))\<lparr>su_latched := False\<rparr>
      else s)"

text \<open>The demand surge: scheduling starts the process; its first segment refuses a start in the
  past and asks for the delay.\<close>

definition schedule_surge :: "rat \<Rightarrow> rat \<Rightarrow> rat \<Rightarrow> 'a support_scheme \<Rightarrow> unit result \<times> 'a support_scheme" where
  "schedule_surge start mult dur s = (Inr (), spawn (SurgeProc start mult dur) s)"

definition surge_delay :: "rat \<Rightarrow> 'a support_scheme \<Rightarrow> rat result" where
  "surge_delay start s =
     (if start < rt_now s then Inl (ValueError (Msg ''surge cannot start in the past'' []))
      else Inr (start - rt_now s))"

definition surge_start :: "rat \<Rightarrow> rat \<Rightarrow> rat \<Rightarrow> 'a support_scheme \<Rightarrow> sim_event \<times> 'a support_scheme" where
  "surge_start start mult dur s =
     (let (e, s1) = emit ''perturbation.started'' (Some ''perturbation:demand_surge'')
                      (Some ''queue:support'') None (Some (''surge-'' @ int_str start))
                      [(''multiplier'', VFloat (Fin mult)), (''duration_minutes'', VFloat (Fin dur))] s
      in (e, s1\<lparr>su_multiplier := su_multiplier s1 * mult\<rparr>))"

definition surge_end :: "sim_event \<Rightarrow> rat \<Rightarrow> 'a support_scheme \<Rightarrow> 'a support_scheme" where
  "surge_end started mult s =
     snd (emit ''perturbation.ended'' (Some ''perturbation:demand_surge'') (Some ''queue:support'')
            (Some (ev_id started)) (Some (ev_trace started)) [(''multiplier'', VFloat (Fin mult))]
            (s\<lparr>su_multiplier := su_multiplier s / mult\<rparr>))"

text \<open>
  The return of a lent worker: wait while it is busy (\<^verbatim>\<open>return_ready\<close>), interrupt its loop,
  and, after the interrupt was delivered, move it back.
\<close>

definition return_ready :: "string \<Rightarrow> 'a support_scheme \<Rightarrow> bool result" where
  "return_ready wid s =
     bind_result (item (su_workers s) wid) (\<lambda>w. Inr (w_status w \<noteq> ''busy''))"

definition interrupt_worker :: "string \<Rightarrow> 'a support_scheme \<Rightarrow> 'a support_scheme" where
  "interrupt_worker wid s = s\<lparr>su_alive := su_alive s - {wid}\<rparr>"

definition return_worker ::
  "string \<Rightarrow> sim_event \<Rightarrow> 'a support_scheme \<Rightarrow> unit result \<times> 'a support_scheme" where
  "return_worker wid e s =
     and_then (item (su_workers s) wid, s) (\<lambda>w s.
     and_then (item (su_teams s) ''TEAM-SUPPORT'', s) (\<lambda>st s.
     and_then (item (su_teams s) ''TEAM-RESERVE'', s) (\<lambda>rt s.
       let s1 = (if wid \<in> set (tm_workers st)
                 then put_team (st\<lparr>tm_workers := remove1 wid (tm_workers st)\<rparr>) s else s);
           s2 = (if wid \<notin> set (tm_workers rt)
                 then put_team (rt\<lparr>tm_workers := tm_workers rt @ [wid]\<rparr>) s1 else s1);
           s3 = put_worker (w\<lparr>w_team := tm_id rt, w_status := ''reserve'', w_ticket := None,
                               w_available := rt_now s2\<rparr>) s2;
           p = ev_payload e
       in (Inr (), snd (emit ''worker.returned'' (Some wid) (Some (tm_id rt)) (Some (ev_id e))
             (Some (ev_trace e))
             [(''command_id'', dict_get p ''command_id''),
              (''from_team_id'', dict_get p ''from_team_id''),
              (''to_team_id'', dict_get p ''to_team_id'')] s3)))))"

section \<open>Reading\<close>

definition projection_to_dict :: "projection \<Rightarrow> pydict" where
  "projection_to_dict p =
     [(''support_backlog'', VInt (int (pr_backlog p))),
      (''tickets_in_service'', VInt (int (pr_in_service p))),
      (''tickets_resolved'', VInt (int (pr_resolved p))),
      (''tickets_abandoned'', VInt (int (pr_abandoned p))),
      (''tickets_opened'', VInt (int (pr_opened p))),
      (''workers_idle'', VInt (int (pr_idle p))),
      (''workers_busy'', VInt (int (pr_busy p))),
      (''sla_breach_pct'', VFloat (Fin (pr_breach p))),
      (''average_wait_minutes'', VFloat (Fin (pr_wait p))),
      (''customer_sentiment'', VFloat (Fin (pr_sentiment p))),
      (''customer_churn_risk'', VFloat (Fin (pr_churn p)))]"

definition observed_ticket :: "rat \<Rightarrow> ticket \<Rightarrow> pyval" where
  "observed_ticket now t =
     VDict [(''id'', VStr (t_id t)), (''customer_id'', VStr (t_customer t)),
       (''severity'', VStr (t_severity t)), (''required_skill'', VStr (t_skill t)),
       (''status'', VStr (tstatus_str (t_status t))), (''queued_at'', VFloat (Fin (t_queued t))),
       (''sla_deadline'', VFloat (Fin (t_deadline t))),
       (''wait_minutes'', VFloat (Fin (now - t_queued t)))]"

definition worker_view :: "worker \<Rightarrow> pyval" where
  "worker_view w =
     VDict [(''id'', VStr (w_id w)), (''skills'', VList (map VStr (w_skills w))),
       (''status'', VStr (w_status w)), (''team_id'', VStr (w_team w)),
       (''current_ticket_id'', opt_str (w_ticket w))]"

text \<open>The \<^verbatim>\<open>actor_ids\<close> of a sensor event, as the loop over them takes them to look them up: a
  payload that is no dictionary, ids that cannot be iterated over or an unhashable id raise.\<close>

definition observed_ids :: "pydict \<Rightarrow> pyval list result" where
  "observed_ids ev =
     bind_result (dict_of_val (py_or (dict_get ev ''payload'') (VDict []))) (\<lambda>payload.
     bind_result (py_list (py_or (dict_get payload ''actor_ids'') (VList []))) (\<lambda>ids.
     all_ok (map hashed ids)))"

text \<open>Ids that name no ticket are skipped.\<close>

definition observed_tickets :: "pyval list \<Rightarrow> 'a support_scheme \<Rightarrow> ticket list" where
  "observed_tickets ids s =
     List.map_filter (\<lambda>v. case v of VStr i \<Rightarrow> map_of (su_tickets s) i | _ \<Rightarrow> None) ids"

text \<open>The observation handed to a responder.\<close>

definition support_observation :: "pydict \<Rightarrow> rat \<Rightarrow> 'a support_scheme \<Rightarrow> pydict result" where
  "support_observation ev now s =
     bind_result (observed_ids ev) (\<lambda>ids.
     let ws = map snd (su_workers s) in
     Inr [(''trace_id'', dict_get ev ''trace_id''),
          (''sensor_event_id'', dict_get ev ''event_id''),
          (''queued_tickets'', VList (map (observed_ticket now) (observed_tickets ids s))),
          (''support_workers'',
             VList (map worker_view (filter (\<lambda>w. w_team w = ''TEAM-SUPPORT'') ws))),
          (''reserve_workers'',
             VList (map worker_view (filter (\<lambda>w. w_team w = ''TEAM-RESERVE'') ws))),
          (''projection'', VDict (projection_to_dict (project_support s))),
          (''allowed_commands'', VList [VStr ''reallocate_workers''])])"

text \<open>The delay of the arrival loop, from the exponential draw for the given rate;
  \<^const>\<open>None\<close> when the loop ends.\<close>

definition arrival_delay :: "(rat \<Rightarrow> rat) \<Rightarrow> 'a support_scheme \<Rightarrow> rat option" where
  "arrival_delay expovariate s =
     (if rt_now s < cf_minutes (su_config s) then
        let delay = expovariate (cf_arrival_rate (su_config s) * su_multiplier s / 60) in
        if cf_minutes (su_config s) < rt_now s + delay then None else Some delay
      else None)"

end
