(* ===== verification/Support_Facts.thy ===== *)
theory Support_Facts imports Support begin

text \<open>
  What holds of the support world: its command handler is a scenario in the sense of the gateway
  and the service; the queued-ticket index is exactly the set of queued tickets, so the sensor's
  backlog is the projection's; team rosters and the workers' team field agree; sentiment and churn
  risk stay in the unit interval; commands are applied at most once.
\<close>

section \<open>The frame\<close>

text \<open>Nothing in the scenario touches the objective or evaluation tables, the bus or the clock.\<close>

definition sup_frame :: "'a support_scheme \<Rightarrow> 'a support_scheme \<Rightarrow> bool" where
  "sup_frame s s' \<longleftrightarrow>
     extends s s' \<and> (journal_ok s \<longrightarrow> journal_ok s') \<and> world_tables s' = world_tables s \<and>
     rt_now s' = rt_now s \<and> keeps_bus s s'"

lemma sup_frame_refl [simp]: "sup_frame s s"
  by (simp add: sup_frame_def)

lemma sup_frame_trans: "sup_frame a b \<Longrightarrow> sup_frame b c \<Longrightarrow> sup_frame a c"
  by (auto simp: sup_frame_def intro: extends_trans keeps_bus_trans)

lemma emit_sup_frame: "sup_frame s (snd (emit ty a t c tr p s))"
  by (simp add: sup_frame_def emit_extends emit_journal_ok world_frame emit_state(3) emit_bus)

lemma sup_frame_same:
  assumes "rt_journal s' = rt_journal s" "rt_seq s' = rt_seq s" "rt_now s' = rt_now s"
    and "world_tables s' = world_tables s" "sv_bus s' = sv_bus s" "sv_published s' = sv_published s"
  shows "sup_frame s s'"
proof -
  have "journal_ok s' = journal_ok s" by (rule journal_ok_cong) (simp_all add: assms)
  with assms show ?thesis by (simp add: sup_frame_def extends_cong keeps_bus_def)
qed

lemma put_sup_frame:
  "sup_frame s (put_ticket t s)" "sup_frame s (put_worker w s)" "sup_frame s (put_customer cu s)"
  "sup_frame s (put_team tm s)" "sup_frame s (spawn p s)" "sup_frame s (start_worker wid s)"
  by (rule sup_frame_same; simp add: put_ticket_def put_worker_def put_customer_def put_team_def
        spawn_def start_worker_def world_tables_def)+

lemma field_sup_frame:
  "sup_frame s (s\<lparr>su_applied := x1\<rparr>)" "sup_frame s (s\<lparr>su_queued := x2\<rparr>)"
  "sup_frame s (s\<lparr>su_store := x3\<rparr>)" "sup_frame s (s\<lparr>su_seq := x4\<rparr>)"
  "sup_frame s (s\<lparr>su_queued := x2, su_store := x3\<rparr>)" "sup_frame s (s\<lparr>su_alive := x5\<rparr>)"
  "sup_frame s (s\<lparr>su_multiplier := x6\<rparr>)" "sup_frame s (s\<lparr>su_latched := x7\<rparr>)"
  by (rule sup_frame_same; simp add: world_tables_def)+

lemmas sup_bind = and_then_rel[where R = sup_frame, OF _ _ sup_frame_trans]

section \<open>The command handler is a scenario\<close>

lemma reject_command_frame: "sup_frame s (snd (reject_command c reason s))"
  unfolding reject_command_def Let_def split_beta snd_conv
  by (rule sup_frame_trans[OF emit_sup_frame field_sup_frame(1)])

lemma reallocate_one_frame: "sup_frame s (snd (reallocate_one c e f t d w s))"
proof -
  have tail: "sup_frame s (spawn (ReturnAfter w d (fst x)) (start_worker w (snd x)))"
    if "x = emit ty a g ca tr p (put_worker v (put_team tt s))"
    for x ty a g ca tr p v tt and s :: "'a support_scheme"
    unfolding that
    by (intro sup_frame_trans[OF _ put_sup_frame(5)] sup_frame_trans[OF _ put_sup_frame(6)]
          sup_frame_trans[OF _ emit_sup_frame] sup_frame_trans[OF _ put_sup_frame(2)] put_sup_frame(4))
  show ?thesis
    unfolding reallocate_one_def Let_def split_beta
    by (intro sup_bind) (auto simp: put_sup_frame intro: tail[OF refl])
qed

lemma reallocate_all_frame: "sup_frame s (snd (reallocate_all c e f t d ws s))"
proof (induction ws arbitrary: s)
  case (Cons w ws)
  show ?case
    unfolding reallocate_all.simps by (rule sup_bind[OF reallocate_one_frame Cons])
qed simp

lemma accept_reallocate_frame: "sup_frame s (snd (accept_reallocate c s))"
  unfolding accept_reallocate_def Let_def split_beta
  by (intro sup_bind)
     (auto intro: sup_frame_trans[OF emit_sup_frame field_sup_frame(1)] reallocate_all_frame)

lemma support_apply_frame: "sup_frame s (snd (support_apply c s))"
  by (simp add: support_apply_def split_beta reject_command_frame accept_reallocate_frame
      split: option.split sum.split)

interpretation support: world_scenario support_apply
  by unfold_locales (simp_all add: support_apply_frame[unfolded sup_frame_def])

section \<open>The queue index\<close>

lemma item_Inr [simp]: "item d k = Inr v \<longleftrightarrow> map_of d k = Some v"
  by (auto simp: item_def split: option.splits)

lemma emit_support_frame [world_frame]:
  "su_config (snd (emit ty a t c tr p (s :: 'a support_scheme))) = su_config s"
  "su_customers (snd (emit ty a t c tr p (s :: 'a support_scheme))) = su_customers s"
  "su_tickets (snd (emit ty a t c tr p (s :: 'a support_scheme))) = su_tickets s"
  "su_workers (snd (emit ty a t c tr p (s :: 'a support_scheme))) = su_workers s"
  "su_teams (snd (emit ty a t c tr p (s :: 'a support_scheme))) = su_teams s"
  "su_store (snd (emit ty a t c tr p (s :: 'a support_scheme))) = su_store s"
  "su_multiplier (snd (emit ty a t c tr p (s :: 'a support_scheme))) = su_multiplier s"
  "su_seq (snd (emit ty a t c tr p (s :: 'a support_scheme))) = su_seq s"
  "su_latched (snd (emit ty a t c tr p (s :: 'a support_scheme))) = su_latched s"
  "su_queued (snd (emit ty a t c tr p (s :: 'a support_scheme))) = su_queued s"
  "su_alive (snd (emit ty a t c tr p (s :: 'a support_scheme))) = su_alive s"
  "su_applied (snd (emit ty a t c tr p (s :: 'a support_scheme))) = su_applied s"
  by (simp_all add: emit_def Let_def)

lemmas puts = put_ticket_def put_worker_def put_customer_def put_team_def spawn_def

lemma start_worker_frame [world_frame]:
  "su_config (start_worker w s) = su_config s" "su_customers (start_worker w s) = su_customers s"
  "su_tickets (start_worker w s) = su_tickets s" "su_workers (start_worker w s) = su_workers s"
  "su_teams (start_worker w s) = su_teams s" "su_seq (start_worker w s) = su_seq s"
  "su_queued (start_worker w s) = su_queued s" "su_applied (start_worker w s) = su_applied s"
  "su_alive (start_worker w s) = insert w (su_alive s)"
  by (auto simp: start_worker_def spawn_def)

declare map_of_eq_Some_iff [simp del]

lemma ticket_name_inject [simp]: "ticket_name m = ticket_name n \<longleftrightarrow> m = n"
  by (simp add: ticket_name_def pad_dec_inject)

text \<open>The index of queued tickets is the set of tickets whose status is queued; every ticket is
  filed under its own id, which was numbered by the counter.\<close>

definition tickets_ok :: "nat \<Rightarrow> (string \<times> ticket) list \<Rightarrow> string list \<Rightarrow> bool" where
  "tickets_ok n ts q \<longleftrightarrow>
     distinct (map fst ts) \<and> distinct q \<and>
     (\<forall>tid t. map_of ts tid = Some t \<longrightarrow> t_id t = tid \<and> (\<exists>k \<le> n. tid = ticket_name k)) \<and>
     (\<forall>tid. tid \<in> set q \<longleftrightarrow> (\<exists>t. map_of ts tid = Some t \<and> t_status t = Queued))"

abbreviation queue_ok :: "'a support_scheme \<Rightarrow> bool" where
  "queue_ok s \<equiv> tickets_ok (su_seq s) (su_tickets s) (su_queued s)"

text \<open>The three ways a ticket table changes.\<close>

lemma tickets_ok_new:
  assumes "tickets_ok n ts q" and "t_id t = ticket_name (Suc n)" "t_status t = Queued"
  shows "tickets_ok (Suc n) (dict_set (ticket_name (Suc n)) t ts)
     (if ticket_name (Suc n) \<in> set q then q else q @ [ticket_name (Suc n)])"
proof -
  have "map_of ts (ticket_name (Suc n)) = None"
  proof (rule ccontr)
    assume "\<not> ?thesis"
    then obtain t' where "map_of ts (ticket_name (Suc n)) = Some t'" by auto
    with assms(1) obtain k where "k \<le> n" "ticket_name (Suc n) = ticket_name k"
      unfolding tickets_ok_def by blast
    then show False by simp
  qed
  moreover have "\<exists>k \<le> Suc n. tid = ticket_name k" if "map_of ts tid = Some t'" for tid t'
    using assms(1) that unfolding tickets_ok_def by (meson le_SucI)
  ultimately show ?thesis
    using assms by (auto simp: tickets_ok_def distinct_dict_set)
qed

lemma tickets_ok_leave:
  assumes "tickets_ok n ts q" and "map_of ts tid = Some t0" and "t_id t = t_id t0"
    and "t_status t \<noteq> Queued"
  shows "tickets_ok n (dict_set (t_id t0) t ts) (filter (\<lambda>x. x \<noteq> tid) q)"
  using assms by (auto simp: tickets_ok_def distinct_dict_set)

lemma tickets_ok_same:
  assumes "tickets_ok n ts q" and "map_of ts tid = Some t0" and "t_id t = t_id t0"
    and "t_status t = Queued \<longleftrightarrow> t_status t0 = Queued"
  shows "tickets_ok n (dict_set (t_id t0) t ts) q"
  using assms by (auto simp: tickets_ok_def distinct_dict_set)

lemma dict_set_twice: "dict_set k w (dict_set k v d) = dict_set k w d"
  by (induction d) auto

lemma new_ticket_simps [simp]:
  "t_id (new_ticket cid sev sk s) = ticket_name (su_seq s)"
  "t_status (new_ticket cid sev sk s) = Queued"
  "t_customer (new_ticket cid sev sk s) = cid"
  "t_queued (new_ticket cid sev sk s) = rt_now s"
  by (simp_all add: new_ticket_def)

lemma create_ticket_effect:
  assumes "map_of (su_customers s) cid = Some cu"
  shows "\<exists>t. t_id t = ticket_name (Suc (su_seq s)) \<and> t_status t = Queued \<and>
     t_customer t = cu_id cu \<and> t_queued t = rt_now s \<and>
     su_tickets (snd (create_ticket cid sev sk s)) = dict_set (t_id t) t (su_tickets s)"
    and "su_queued (snd (create_ticket cid sev sk s)) =
      (if ticket_name (Suc (su_seq s)) \<in> set (su_queued s) then su_queued s
       else su_queued s @ [ticket_name (Suc (su_seq s))])"
    and "su_seq (snd (create_ticket cid sev sk s)) = Suc (su_seq s)"
proof -
  show "\<exists>t. t_id t = ticket_name (Suc (su_seq s)) \<and> t_status t = Queued \<and>
     t_customer t = cu_id cu \<and> t_queued t = rt_now s \<and>
     su_tickets (snd (create_ticket cid sev sk s)) = dict_set (t_id t) t (su_tickets s)"
    using assms
    by (simp add: create_ticket_def Let_def split_beta puts world_frame item_def dict_set_twice)
       (rule exI[where x = "new_ticket (cu_id cu) sev sk (s\<lparr>su_seq := Suc (su_seq s)\<rparr>)\<lparr>t_last := y\<rparr>" for y],
        simp)
qed (use assms in \<open>simp_all add: create_ticket_def Let_def split_beta puts world_frame item_def\<close>)

lemma tickets_ok_mono: "tickets_ok n ts q \<Longrightarrow> n \<le> m \<Longrightarrow> tickets_ok m ts q"
  by (fastforce simp: tickets_ok_def)

lemma queue_ok_create:
  assumes "queue_ok s"
  shows "queue_ok (snd (create_ticket cid sev sk s))"
proof (cases "map_of (su_customers s) cid")
  case None
  then show ?thesis
    using tickets_ok_mono[OF assms] by (simp add: create_ticket_def Let_def item_def)
next
  case (Some cu)
  obtain t where t: "t_id t = ticket_name (Suc (su_seq s))" "t_status t = Queued"
      "su_tickets (snd (create_ticket cid sev sk s)) = dict_set (t_id t) t (su_tickets s)"
    using create_ticket_effect(1)[OF Some] by blast
  show ?thesis
    using tickets_ok_new[OF assms t(1,2)] t create_ticket_effect(2,3)[OF Some] by simp
qed

text \<open>The segments that touch a ticket keep its id and move its status along the life of a ticket:
  queued, in service, resolved; or queued, abandoned.\<close>

lemma queue_ok_take:
  assumes "queue_ok s"
  shows "queue_ok (snd (worker_take wid tid u s))"
  using assms
  by (cases "map_of (su_tickets s) tid"; cases "map_of (su_workers s) wid";
      cases "base_minutes (t_severity (the (map_of (su_tickets s) tid)))")
     (auto simp: worker_take_def Let_def split_beta puts world_frame item_def dict_set_twice
        intro: tickets_ok_leave)

lemma queue_ok_resolve:
  assumes "queue_ok s"
  shows "queue_ok (snd (resolve_ticket tid wid s))"
  using assms
  by (cases "map_of (su_tickets s) tid"; cases "map_of (su_workers s) wid";
      cases "map_of (su_customers s) (t_customer (the (map_of (su_tickets s) tid)))")
     (auto simp: resolve_ticket_def Let_def split_beta puts world_frame item_def dict_set_twice
        intro: tickets_ok_same)

lemma queue_ok_sla:
  assumes "queue_ok s"
  shows "queue_ok (snd (sla_fired tid s))"
  using assms
  by (cases "map_of (su_tickets s) tid";
      cases "map_of (su_customers s) (t_customer (the (map_of (su_tickets s) tid)))")
     (auto simp: sla_fired_def Let_def split_beta puts world_frame item_def dict_set_twice
        intro: tickets_ok_same)

lemma queue_ok_abandon:
  assumes "queue_ok s" and "abandon_wanted tid s = Inr True"
  shows "queue_ok (snd (abandon_taken tid s))"
  using assms
  by (cases "map_of (su_tickets s) tid";
      cases "map_of (su_customers s) (t_customer (the (map_of (su_tickets s) tid)))")
     (auto simp: abandon_taken_def Let_def split_beta puts world_frame item_def dict_set_twice
        intro: tickets_ok_leave)

text \<open>The projection recounts the tickets; the sensor reads the length of the index.\<close>

lemma length_filter_map_of:
  assumes "distinct (map fst d)"
  shows "length (filter p (map snd d)) = card {k. \<exists>v. map_of d k = Some v \<and> p v}"
  using assms
proof (induction d)
  case (Cons kv d)
  obtain k v where kv: "kv = (k, v)" by (cases kv)
  have new: "map_of d k = None" using Cons.prems by (simp add: kv map_of_eq_None_iff)
  have fin: "finite {k. \<exists>v. map_of d k = Some v \<and> p v}"
    by (rule finite_subset[of _ "fst ` set d"]) (auto dest: map_of_SomeD intro: rev_image_eqI)
  have "{k'. \<exists>v'. map_of (kv # d) k' = Some v' \<and> p v'} =
      (if p v then insert k {k. \<exists>v. map_of d k = Some v \<and> p v}
       else {k. \<exists>v. map_of d k = Some v \<and> p v})"
    using new by (auto simp: kv split: if_splits)
  with Cons fin new show ?case by (simp add: kv)
qed simp

lemma backlog_projection:
  assumes "queue_ok s"
  shows "pr_backlog (project_support s) = length (su_queued s)"
proof -
  have "pr_backlog (project_support s) =
      card {tid. \<exists>t. map_of (su_tickets s) tid = Some t \<and> t_status t = Queued}"
    using assms length_filter_map_of[of "su_tickets s" "\<lambda>t. t_status t = Queued"]
    by (simp add: project_support_def count_def tickets_ok_def Let_def)
  also have "{tid. \<exists>t. map_of (su_tickets s) tid = Some t \<and> t_status t = Queued} = set (su_queued s)"
    using assms by (auto simp: tickets_ok_def)
  also have "card (set (su_queued s)) = length (su_queued s)"
    using assms by (simp add: tickets_ok_def distinct_card)
  finally show ?thesis .
qed

section \<open>Teams and reallocation\<close>

abbreviation (input) reserve_team :: string where
  "reserve_team \<equiv> ''TEAM-RESERVE''"

abbreviation (input) support_team :: string where
  "support_team \<equiv> ''TEAM-SUPPORT''"

text \<open>Both teams exist, and each roster lists exactly the workers whose team it is, once.\<close>

definition roster_ok :: "(string \<times> worker) list \<Rightarrow> (string \<times> team) list \<Rightarrow> string \<Rightarrow> bool" where
  "roster_ok ws ts tid \<longleftrightarrow>
     (\<exists>tm. map_of ts tid = Some tm \<and> tm_id tm = tid \<and> distinct (tm_workers tm) \<and>
        (\<forall>wid. wid \<in> set (tm_workers tm) \<longleftrightarrow> (\<exists>w. map_of ws wid = Some w \<and> w_team w = tid)))"

definition teams_ok :: "(string \<times> worker) list \<Rightarrow> (string \<times> team) list \<Rightarrow> bool" where
  "teams_ok ws ts \<longleftrightarrow>
     (\<forall>wid w. map_of ws wid = Some w \<longrightarrow>
        w_id w = wid \<and> (w_team w = reserve_team \<or> w_team w = support_team)) \<and>
     roster_ok ws ts reserve_team \<and> roster_ok ws ts support_team"

lemma roster_move:
  assumes w: "map_of ws wid = Some w" "w_team w = a" and ab: "a \<noteq> b"
    and fa: "map_of ts a = Some fa" and fb: "map_of ts b = Some fb"
    and ok: "roster_ok ws ts a" "roster_ok ws ts b"
    and w': "w_team w' = b"
  shows "wid \<in> set (tm_workers fa)"
    and "roster_ok (dict_set wid w' ws)
       (dict_set b (fb\<lparr>tm_workers := tm_workers fb @ [wid]\<rparr>)
         (dict_set a (fa\<lparr>tm_workers := remove1 wid (tm_workers fa)\<rparr>) ts)) a"
    and "roster_ok (dict_set wid w' ws)
       (dict_set b (fb\<lparr>tm_workers := tm_workers fb @ [wid]\<rparr>)
         (dict_set a (fa\<lparr>tm_workers := remove1 wid (tm_workers fa)\<rparr>) ts)) b"
  using assms by (auto simp: roster_ok_def)

definition moved_worker :: "worker \<Rightarrow> worker" where
  "moved_worker w = w\<lparr>w_team := support_team, w_status := ''idle''\<rparr>"

lemma moved_worker_simps [simp]:
  "w_id (moved_worker w) = w_id w" "w_team (moved_worker w) = support_team"
  "w_status (moved_worker w) = ''idle''" "w_ticket (moved_worker w) = w_ticket w"
  by (simp_all add: moved_worker_def)

lemma reallocate_one_effect:
  assumes ok: "teams_ok (su_workers s) (su_teams s)"
    and w: "map_of (su_workers s) wid = Some w" "w_team w = reserve_team"
  shows "\<exists>s'. reallocate_one c e reserve_team support_team d wid s = (Inr (), s') \<and>
     teams_ok (su_workers s') (su_teams s') \<and>
     su_workers s' = dict_set wid (moved_worker w) (su_workers s) \<and>
     su_applied s' = su_applied s \<and> su_alive s' = insert wid (su_alive s)"
proof -
  obtain fa fb where fa: "map_of (su_teams s) reserve_team = Some fa" "tm_id fa = reserve_team"
    and fb: "map_of (su_teams s) support_team = Some fb" "tm_id fb = support_team"
    using ok by (auto simp: teams_ok_def roster_ok_def)
  have id: "w_id w = wid" using ok w(1) by (auto simp: teams_ok_def)
  have ab: "reserve_team \<noteq> support_team" by simp
  have rost: "roster_ok (su_workers s) (su_teams s) reserve_team"
      "roster_ok (su_workers s) (su_teams s) support_team"
    using ok by (simp_all add: teams_ok_def)
  note mv = roster_move[OF w ab fa(1) fb(1) rost, of "moved_worker w"]
  let ?ts = "dict_set support_team (fb\<lparr>tm_workers := tm_workers fb @ [wid]\<rparr>)
         (dict_set reserve_team (fa\<lparr>tm_workers := remove1 wid (tm_workers fa)\<rparr>) (su_teams s))"
  have "teams_ok (dict_set wid (moved_worker w) (su_workers s)) ?ts"
    using mv ok id by (simp add: teams_ok_def)
  moreover have "\<exists>s'. reallocate_one c e reserve_team support_team d wid s = (Inr (), s') \<and>
      su_workers s' = dict_set wid (moved_worker w) (su_workers s) \<and> su_teams s' = ?ts \<and>
      su_applied s' = su_applied s \<and> su_alive s' = insert wid (su_alive s)"
    using w(1) fa fb mv(1) id
    by (simp add: reallocate_one_def item_def Let_def split_beta puts world_frame moved_worker_def)
  ultimately show ?thesis by auto
qed

lemma reallocate_all_effect:
  assumes "teams_ok (su_workers s) (su_teams s)" and "distinct ids"
    and "\<forall>i \<in> set ids. \<exists>w. map_of (su_workers s) i = Some w \<and> w_team w = reserve_team"
  shows "\<exists>s'. reallocate_all c e reserve_team support_team d ids s = (Inr (), s') \<and>
     teams_ok (su_workers s') (su_teams s') \<and> su_applied s' = su_applied s \<and>
     su_alive s' = set ids \<union> su_alive s \<and>
     (distinct (map fst (su_workers s)) \<longrightarrow> distinct (map fst (su_workers s'))) \<and>
     map_of (su_workers s') =
       (\<lambda>i. if i \<in> set ids then map_option moved_worker (map_of (su_workers s) i)
            else map_of (su_workers s) i)"
  using assms
proof (induction ids arbitrary: s)
  case (Cons i ids)
  from Cons.prems(3) obtain w where w: "map_of (su_workers s) i = Some w" "w_team w = reserve_team"
    by auto
  obtain s1 where s1: "reallocate_one c e reserve_team support_team d i s = (Inr (), s1)"
      "teams_ok (su_workers s1) (su_teams s1)"
      "su_workers s1 = dict_set i (moved_worker w) (su_workers s)" "su_applied s1 = su_applied s"
      "su_alive s1 = insert i (su_alive s)"
    using reallocate_one_effect[OF Cons.prems(1) w] by blast
  have "\<forall>j \<in> set ids. \<exists>w. map_of (su_workers s1) j = Some w \<and> w_team w = reserve_team"
    using Cons.prems(2,3) by (auto simp: s1(3))
  with Cons.IH[of s1] s1(2) Cons.prems(2) obtain s2 where
    "reallocate_all c e reserve_team support_team d ids s1 = (Inr (), s2)"
    "teams_ok (su_workers s2) (su_teams s2)" "su_applied s2 = su_applied s1"
    "su_alive s2 = set ids \<union> su_alive s1"
    "distinct (map fst (su_workers s1)) \<longrightarrow> distinct (map fst (su_workers s2))"
    "map_of (su_workers s2) =
       (\<lambda>i. if i \<in> set ids then map_option moved_worker (map_of (su_workers s1) i)
            else map_of (su_workers s1) i)"
    by auto
  with s1 w Cons.prems(2) show ?case by (auto simp: fun_eq_iff distinct_dict_set)
qed auto

lemma check_workers_None:
  "check_workers ws ids = None \<longleftrightarrow>
     (\<forall>i \<in> set ids. \<exists>w. map_of ws i = Some w \<and> w_team w = reserve_team \<and> w_status w = ''reserve'')"
  by (induction ids) (auto split: option.splits)

text \<open>What a payload that passes validation looks like.\<close>

definition valid_reallocation :: "(string \<times> worker) list \<Rightarrow> pydict \<Rightarrow> string list \<Rightarrow> bool" where
  "valid_reallocation ws p ids \<longleftrightarrow>
     ids \<noteq> [] \<and> distinct ids \<and>
     (\<exists>vs. dict_get p ''worker_ids'' = VList vs \<and> all_strings vs = Some ids) \<and>
     dict_get p ''from_team_id'' = VStr reserve_team \<and>
     dict_get p ''to_team_id'' = VStr support_team \<and>
     \<not> is_bool (dict_get p ''duration_minutes'') \<and>
     \<not> too_large (dict_get p ''duration_minutes'') \<and>
     (\<exists>q > 0. num_of (dict_get p ''duration_minutes'') = Fin q) \<and>
     (\<forall>i \<in> set ids. \<exists>w. map_of ws i = Some w \<and> w_team w = reserve_team \<and> w_status w = ''reserve'')"

lemma all_strings_length: "all_strings vs = Some ids \<Longrightarrow> length ids = length vs"
  by (induction vs arbitrary: ids rule: all_strings.induct) (auto split: option.splits)

lemma num_of_finite: "num_of v = Fin q \<Longrightarrow> is_num v"
  by (cases v) auto

text \<open>A payload on which validation raises: every check before the one of the duration passes, and the
  duration is an int that no float holds.\<close>

definition overflowing_duration :: "pydict \<Rightarrow> bool" where
  "overflowing_duration p \<longleftrightarrow>
     (\<exists>v vs ids. dict_get p ''worker_ids'' = VList (v # vs) \<and> all_strings (v # vs) = Some ids \<and> distinct ids) \<and>
     dict_get p ''from_team_id'' = VStr reserve_team \<and>
     dict_get p ''to_team_id'' = VStr support_team \<and> too_large (dict_get p ''duration_minutes'')"

lemma validate_reallocate_cases:
  "(validate_reallocate ws p = Inr None \<longleftrightarrow> (\<exists>ids. valid_reallocation ws p ids)) \<and>
   (\<forall>x. validate_reallocate ws p = Inl x \<longleftrightarrow> overflowing_duration p \<and>
     x = Raised ''OverflowError'' [VStr ''int too large to convert to float''])"
proof (cases "dict_get p ''worker_ids''")
  case (VList vs)
  show ?thesis
  proof (cases vs)
    case Nil
    with VList show ?thesis
      by (auto simp: validate_reallocate_def valid_reallocation_def overflowing_duration_def)
  next
    case (Cons v vs')
    show ?thesis
    proof (cases "all_strings vs")
      case None
      with VList Cons show ?thesis
        by (simp add: validate_reallocate_def valid_reallocation_def overflowing_duration_def)
    next
      case (Some ids)
      have ne: "ids \<noteq> []" using all_strings_length[OF Some] Cons by auto
      have dist: "length (remdups ids) = length ids \<longleftrightarrow> distinct ids"
        by (metis length_remdups_card_conv card_distinct distinct_card)
      have num: "(\<exists>q > 0. num_of d = Fin q) \<longleftrightarrow>
          is_num d \<and> is_finite (num_of d) \<and> \<not> pf_le (num_of d) (Fin 0)" for d
        using num_of_finite[of d] by (cases "num_of d") auto
      have large: "too_large d \<Longrightarrow> \<not> is_bool d \<and> is_num d" for d by (auto simp: too_large_def)
      show ?thesis
        using VList Cons Some ne large[of "dict_get p ''duration_minutes''"]
        by (simp add: validate_reallocate_def valid_reallocation_def overflowing_duration_def dist num
              check_workers_None Let_def isfinite_eq) auto
    qed
  qed
qed (simp_all add: validate_reallocate_def valid_reallocation_def overflowing_duration_def)

lemmas validate_reallocate_None = validate_reallocate_cases[THEN conjunct1]

lemmas validate_reallocate_Inl = validate_reallocate_cases[THEN conjunct2, rule_format]

lemma item_str_dict_get: "dict_get p k = VStr v \<Longrightarrow> item_str p k = Inr v"
  by (auto simp: dict_get_def item_str_def split: option.splits)

text \<open>A valid command never raises: it moves exactly the listed workers, once.\<close>

lemma accept_effect:
  assumes ok: "teams_ok (su_workers s) (su_teams s)"
    and new: "map_of (su_applied s) (cmd_id c) = None"
    and ty: "cmd_type c = ''reallocate_workers''"
    and val: "valid_reallocation (su_workers s) (cmd_payload c) ids"
  shows "\<exists>e s'. support_apply c s = (Inr e, s') \<and> ev_type e = ''command.accepted'' \<and>
     map_of (su_applied s') (cmd_id c) = Some e \<and> teams_ok (su_workers s') (su_teams s') \<and>
     map_of (su_workers s') =
       (\<lambda>i. if i \<in> set ids then map_option moved_worker (map_of (su_workers s) i)
            else map_of (su_workers s) i) \<and>
     su_alive s' = set ids \<union> su_alive s \<and>
     (distinct (map fst (su_workers s)) \<longrightarrow> distinct (map fst (su_workers s')))"
proof -
  let ?p = "cmd_payload c"
  have none: "validate_reallocate (su_workers s) ?p = Inr None"
    using val validate_reallocate_None by blast
  obtain vs where vs: "dict_get ?p ''worker_ids'' = VList vs" "all_strings vs = Some ids"
    using val by (auto simp: valid_reallocation_def)
  have ft: "item_str ?p ''from_team_id'' = Inr reserve_team"
      "item_str ?p ''to_team_id'' = Inr support_team"
    using val by (auto simp: valid_reallocation_def intro: item_str_dict_get)
  let ?em = "emit ''command.accepted'' (Some (cmd_issuer c)) (Some ''TEAM-SUPPORT'') None
       (Some (cmd_trace c)) [(''command'', VDict (command_to_dict c))] s"
  let ?s2 = "(snd ?em)\<lparr>su_applied := dict_set (cmd_id c) (fst ?em) (su_applied (snd ?em))\<rparr>"
  have t2: "teams_ok (su_workers ?s2) (su_teams ?s2)" using ok by (simp add: world_frame)
  have d: "distinct ids" using val by (simp add: valid_reallocation_def)
  have r: "\<forall>i \<in> set ids. \<exists>w. map_of (su_workers ?s2) i = Some w \<and> w_team w = reserve_team"
    using val by (auto simp: valid_reallocation_def world_frame)
  obtain fa fb where teams: "map_of (su_teams s) reserve_team = Some fa"
      "map_of (su_teams s) support_team = Some fb"
    using ok by (auto simp: teams_ok_def roster_ok_def)
  obtain s' where s': "reallocate_all c (fst ?em) reserve_team support_team
        (dict_get ?p ''duration_minutes'') ids ?s2 = (Inr (), s')"
      "teams_ok (su_workers s') (su_teams s')" "su_applied s' = su_applied ?s2"
      "map_of (su_workers s') =
        (\<lambda>i. if i \<in> set ids then map_option moved_worker (map_of (su_workers ?s2) i)
             else map_of (su_workers ?s2) i)"
      "su_alive s' = set ids \<union> su_alive ?s2"
      "distinct (map fst (su_workers ?s2)) \<longrightarrow> distinct (map fst (su_workers s'))"
    using reallocate_all_effect[OF t2 d r] by blast
  have "support_apply c s = (Inr (fst ?em), s')"
    using new ty none vs ft teams s'(1)
    by (simp add: support_apply_def accept_reallocate_def Let_def split_beta item_def world_frame)
  moreover have same: "su_workers ?s2 = su_workers s" "su_alive ?s2 = su_alive s"
    by (simp_all add: world_frame)
  note s'(4-6)[unfolded same]
  moreover have "map_of (su_applied s') (cmd_id c) = Some (fst ?em)" by (simp add: s'(3))
  ultimately show ?thesis
    using s'(2) emit_event(1) by blast
qed

lemma reject_effect:
  assumes "map_of (su_applied s) (cmd_id c) = None"
    and "cmd_type c \<noteq> ''reallocate_workers'' \<or>
      (\<nexists>ids. valid_reallocation (su_workers s) (cmd_payload c) ids) \<and>
      \<not> overflowing_duration (cmd_payload c)"
  shows "\<exists>e s'. support_apply c s = (Inr e, s') \<and> ev_type e = ''command.rejected'' \<and>
     map_of (su_applied s') (cmd_id c) = Some e \<and>
     su_workers s' = su_workers s \<and> su_teams s' = su_teams s \<and> su_alive s' = su_alive s"
proof -
  have "\<exists>reason. support_apply c s =
      (Inr (fst (reject_command c reason s)), snd (reject_command c reason s))"
  proof (cases "cmd_type c = ''reallocate_workers''")
    case False
    with assms(1) show ?thesis
      unfolding support_apply_def by (simp only: option.case split_beta if_True not_False_eq_True) blast
  next
    case True
    with assms(2) obtain reason where
      "validate_reallocate (su_workers s) (cmd_payload c) = Inr (Some reason)"
      using validate_reallocate_cases by (metis option.exhaust sum.exhaust)
    with assms(1) True show ?thesis by (auto simp: support_apply_def split_beta)
  qed
  then show ?thesis
    by (auto simp: reject_command_def Let_def split_beta world_frame journal_simps)
qed

text \<open>The exception leaves no trace: the command is neither recorded nor answered.\<close>

lemma overflow_effect:
  assumes "map_of (su_applied s) (cmd_id c) = None" and "cmd_type c = ''reallocate_workers''"
    and "overflowing_duration (cmd_payload c)"
  shows "support_apply c s =
    (Inl (Raised ''OverflowError'' [VStr ''int too large to convert to float'']), s)"
proof -
  have "validate_reallocate (su_workers s) (cmd_payload c) =
      Inl (Raised ''OverflowError'' [VStr ''int too large to convert to float''])"
    using assms(3) by (simp add: validate_reallocate_Inl)
  with assms(1,2) show ?thesis by (simp add: support_apply_def)
qed

lemma valid_not_overflowing: "valid_reallocation ws p ids \<Longrightarrow> \<not> overflowing_duration p"
  by (auto simp: valid_reallocation_def overflowing_duration_def)

text \<open>The three outcomes of a command that was not applied before.\<close>

lemma apply_outcomes [consumes 1, case_names valid overflow rejected]:
  assumes "map_of (su_applied s) (cmd_id c) = None"
  obtains ids where "cmd_type c = ''reallocate_workers''" "valid_reallocation (su_workers s) (cmd_payload c) ids"
  | "cmd_type c = ''reallocate_workers''" "overflowing_duration (cmd_payload c)"
  | "cmd_type c \<noteq> ''reallocate_workers'' \<or>
      (\<nexists>ids. valid_reallocation (su_workers s) (cmd_payload c) ids) \<and>
      \<not> overflowing_duration (cmd_payload c)"
  by blast

text \<open>A command id is used once: the second application returns the first event and changes
  nothing.\<close>

lemma apply_idempotent:
  assumes "support_apply c s = (Inr e, s1)" and "teams_ok (su_workers s) (su_teams s)"
    and "cmd_id c' = cmd_id c"
  shows "support_apply c' s1 = (Inr e, s1)"
proof (cases "map_of (su_applied s) (cmd_id c)")
  case (Some e')
  with assms show ?thesis by (auto simp: support_apply_def)
next
  case None
  from None have "map_of (su_applied s1) (cmd_id c) = Some e"
  proof (cases rule: apply_outcomes)
    case (valid ids)
    then show ?thesis using accept_effect[OF assms(2) None] assms(1) by fastforce
  next
    case overflow
    then show ?thesis using overflow_effect[OF None] assms(1) by simp
  next
    case rejected
    then show ?thesis using reject_effect[OF None] assms(1) by fastforce
  qed
  with assms(3) show ?thesis by (simp add: support_apply_def)
qed

lemma return_effect:
  assumes ok: "teams_ok (su_workers s) (su_teams s)"
    and w: "map_of (su_workers s) wid = Some w"
  shows "\<exists>s'. return_worker wid e s = (Inr (), s') \<and> teams_ok (su_workers s') (su_teams s') \<and>
     (\<exists>w'. map_of (su_workers s') wid = Some w' \<and> w_team w' = reserve_team \<and>
        w_status w' = ''reserve'' \<and> w_ticket w' = None) \<and>
     (\<forall>i. i \<noteq> wid \<longrightarrow> map_of (su_workers s') i = map_of (su_workers s) i)"
proof -
  obtain fa fb where fa: "map_of (su_teams s) reserve_team = Some fa" "tm_id fa = reserve_team"
    and fb: "map_of (su_teams s) support_team = Some fb" "tm_id fb = support_team"
    using ok by (auto simp: teams_ok_def roster_ok_def)
  have id: "w_id w = wid" using ok w by (auto simp: teams_ok_def)
  have rost: "roster_ok (su_workers s) (su_teams s) support_team"
      "roster_ok (su_workers s) (su_teams s) reserve_team"
    using ok by (simp_all add: teams_ok_def)
  let ?w = "w\<lparr>w_team := reserve_team, w_status := ''reserve'', w_ticket := None,
              w_available := rt_now s\<rparr>"
  show ?thesis
  proof (cases "w_team w = support_team")
    case True
    have ab: "support_team \<noteq> reserve_team" by simp
    note mv = roster_move[OF w True ab fb(1) fa(1) rost, of ?w]
    have "wid \<notin> set (tm_workers fa)" using rost(2) fa(1) w True by (auto simp: roster_ok_def)
    then show ?thesis
      using w fa fb mv id ok
      by (simp add: return_worker_def item_def Let_def split_beta puts world_frame teams_ok_def)
  next
    case False
    then have r: "w_team w = reserve_team" using ok w by (auto simp: teams_ok_def)
    have "wid \<notin> set (tm_workers fb)" "wid \<in> set (tm_workers fa)"
      using rost fa(1) fb(1) w r by (auto simp: roster_ok_def)
    moreover have "teams_ok (dict_set wid ?w (su_workers s)) (su_teams s)"
      using ok w r id by (auto simp: teams_ok_def roster_ok_def)
    ultimately show ?thesis
      using w fa fb id
      by (simp add: return_worker_def item_def Let_def split_beta puts world_frame)
  qed
qed

section \<open>Sentiment and churn risk\<close>

definition mood_ok :: "(string \<times> customer) list \<Rightarrow> bool" where
  "mood_ok cs \<longleftrightarrow>
     (\<forall>(k, c) \<in> set cs. 0 \<le> cu_sentiment c \<and> cu_sentiment c \<le> 1 \<and> 0 \<le> cu_churn c \<and> cu_churn c \<le> 1)"

lemma mood_ok_set:
  "mood_ok cs \<Longrightarrow> 0 \<le> cu_sentiment c \<Longrightarrow> cu_sentiment c \<le> 1 \<Longrightarrow> 0 \<le> cu_churn c \<Longrightarrow>
     cu_churn c \<le> 1 \<Longrightarrow> mood_ok (dict_set k c cs)"
  using set_dict_set[of k c cs] by (auto simp: mood_ok_def)

lemma mood_okD: "mood_ok cs \<Longrightarrow> map_of cs k = Some c \<Longrightarrow>
    0 \<le> cu_sentiment c \<and> cu_sentiment c \<le> 1 \<and> 0 \<le> cu_churn c \<and> cu_churn c \<le> 1"
  by (auto simp: mood_ok_def dest: map_of_SomeD)

lemma mood_ok_create:
  "mood_ok (su_customers s) \<Longrightarrow> mood_ok (su_customers (snd (create_ticket cid sev sk s)))"
  by (cases "map_of (su_customers s) cid")
     (auto simp: create_ticket_def Let_def split_beta puts world_frame item_def
        intro!: mood_ok_set dest: mood_okD)

lemma mood_ok_take:
  "su_customers (snd (worker_take wid tid u s)) = su_customers s"
  by (cases "map_of (su_tickets s) tid"; cases "map_of (su_workers s) wid";
      cases "base_minutes (t_severity (the (map_of (su_tickets s) tid)))")
     (auto simp: worker_take_def Let_def split_beta puts world_frame item_def)

lemma mood_ok_resolve:
  "mood_ok (su_customers s) \<Longrightarrow> mood_ok (su_customers (snd (resolve_ticket tid wid s)))"
  by (cases "map_of (su_tickets s) tid"; cases "map_of (su_workers s) wid";
      cases "map_of (su_customers s) (t_customer (the (map_of (su_tickets s) tid)))")
     (auto simp: resolve_ticket_def Let_def split_beta puts world_frame item_def
        intro!: mood_ok_set dest: mood_okD)

lemma mood_ok_sla:
  "mood_ok (su_customers s) \<Longrightarrow> mood_ok (su_customers (snd (sla_fired tid s)))"
  by (cases "map_of (su_tickets s) tid";
      cases "map_of (su_customers s) (t_customer (the (map_of (su_tickets s) tid)))")
     (auto simp: sla_fired_def Let_def split_beta puts world_frame item_def
        intro!: mood_ok_set dest: mood_okD)

lemma mood_ok_abandon:
  "mood_ok (su_customers s) \<Longrightarrow> mood_ok (su_customers (snd (abandon_taken tid s)))"
  by (cases "map_of (su_tickets s) tid";
      cases "map_of (su_customers s) (t_customer (the (map_of (su_tickets s) tid)))")
     (auto simp: abandon_taken_def Let_def split_beta puts world_frame item_def
        intro!: mood_ok_set dest: mood_okD)

section \<open>Runs of the support world\<close>

text \<open>
  Every segment of a process, every command and every surge, in any order, with the clock moving on
  between them and the rest of the program writing what is not the support world's (the journal,
  objectives, evaluations, the bus).  The second segment of the abandon watch runs when the store
  hands the ticket over, which it does only while the ticket is queued.
\<close>

definition same_support :: "'a support_scheme \<Rightarrow> 'a support_scheme \<Rightarrow> bool" where
  "same_support s s' \<longleftrightarrow>
     su_config s' = su_config s \<and> su_customers s' = su_customers s \<and> su_tickets s' = su_tickets s \<and>
     su_workers s' = su_workers s \<and> su_teams s' = su_teams s \<and> su_store s' = su_store s \<and>
     su_multiplier s' = su_multiplier s \<and> su_seq s' = su_seq s \<and> su_ids s' = su_ids s \<and>
     su_latched s' = su_latched s \<and> su_queued s' = su_queued s \<and> su_alive s' = su_alive s \<and>
     su_spawned s' = su_spawned s \<and> su_applied s' = su_applied s"

inductive support_step :: "'a support_scheme \<Rightarrow> 'a support_scheme \<Rightarrow> bool" where
  commanded: "support_step s (snd (support_apply c s))"
| arrived: "support_step s (snd (create_ticket cid sev sk s))"
| taken: "support_step s (snd (worker_take wid tid u s))"
| resolved: "support_step s (snd (resolve_ticket tid wid s))"
| sla: "support_step s (snd (sla_fired tid s))"
| gave_up: "abandon_wanted tid s = Inr True \<Longrightarrow> support_step s (snd (abandon_taken tid s))"
| sensed: "support_step s (sensor_tick s)"
| scheduled: "support_step s (snd (schedule_surge start m d s))"
| surged: "support_step s (snd (surge_start start m d s))"
| calmed: "support_step s (surge_end e m s)"
| interrupted: "support_step s (interrupt_worker wid s)"
| returned: "support_step s (snd (return_worker wid e s))"
| clocked: "rt_now s \<le> t \<Longrightarrow> support_step s (s\<lparr>rt_now := t\<rparr>)"
| elsewhere: "same_support s s' \<Longrightarrow> support_step s s'"

inductive_cases support_stepE: "support_step s s'"

definition support_inv :: "'a support_scheme \<Rightarrow> bool" where
  "support_inv s \<longleftrightarrow> queue_ok s \<and> teams_ok (su_workers s) (su_teams s) \<and> mood_ok (su_customers s)"

lemma teams_ok_update:
  assumes "teams_ok ws ts" and "map_of ws wid = Some w" and "w_id w' = w_id w"
    and "w_team w' = w_team w"
  shows "teams_ok (dict_set (w_id w) w' ws) ts"
proof -
  have id: "w_id w = wid" using assms(1,2) by (simp add: teams_ok_def)
  have r: "roster_ok (dict_set wid w' ws) ts tid" if "roster_ok ws ts tid" for tid
    using that assms(2,4) unfolding roster_ok_def map_of_dict_set by fastforce
  show ?thesis
    using assms id r by (auto simp: teams_ok_def)
qed

lemma create_ticket_teams:
  "su_workers (snd (create_ticket cid sev sk s)) = su_workers s"
  "su_teams (snd (create_ticket cid sev sk s)) = su_teams s"
  by (cases "map_of (su_customers s) cid";
      simp add: create_ticket_def Let_def split_beta puts world_frame item_def)+

lemma take_teams:
  assumes "teams_ok (su_workers s) (su_teams s)"
  shows "teams_ok (su_workers (snd (worker_take wid tid u s))) (su_teams (snd (worker_take wid tid u s)))"
  using assms
  by (cases "map_of (su_tickets s) tid"; cases "map_of (su_workers s) wid";
      cases "base_minutes (t_severity (the (map_of (su_tickets s) tid)))")
     (auto simp: worker_take_def Let_def split_beta puts world_frame item_def dict_set_twice
        intro: teams_ok_update)

lemma resolve_teams:
  assumes "teams_ok (su_workers s) (su_teams s)"
  shows "teams_ok (su_workers (snd (resolve_ticket tid wid s))) (su_teams (snd (resolve_ticket tid wid s)))"
  using assms
  by (cases "map_of (su_tickets s) tid"; cases "map_of (su_workers s) wid";
      cases "map_of (su_customers s) (t_customer (the (map_of (su_tickets s) tid)))")
     (auto simp: resolve_ticket_def Let_def split_beta puts world_frame item_def
        intro: teams_ok_update)

lemma watch_teams:
  "su_workers (snd (sla_fired tid s)) = su_workers s" "su_teams (snd (sla_fired tid s)) = su_teams s"
  "su_workers (snd (abandon_taken tid s)) = su_workers s"
  "su_teams (snd (abandon_taken tid s)) = su_teams s"
  by (cases "map_of (su_tickets s) tid";
      cases "map_of (su_customers s) (t_customer (the (map_of (su_tickets s) tid)))";
      simp add: sla_fired_def abandon_taken_def Let_def split_beta puts world_frame item_def)+

text \<open>Commands, returns, sensors and surges leave tickets and customers alone.\<close>

definition same_demand :: "'a support_scheme \<Rightarrow> 'a support_scheme \<Rightarrow> bool" where
  "same_demand s s' \<longleftrightarrow> su_tickets s' = su_tickets s \<and> su_queued s' = su_queued s \<and>
     su_seq s' = su_seq s \<and> su_customers s' = su_customers s"

lemma same_demand_refl [simp]: "same_demand s s"
  by (simp add: same_demand_def)

lemma same_demand_trans: "same_demand a b \<Longrightarrow> same_demand b c \<Longrightarrow> same_demand a c"
  by (simp add: same_demand_def)

lemmas demand_bind = and_then_rel[where R = same_demand, OF _ _ same_demand_trans]

lemma reallocate_one_demand: "same_demand s (snd (reallocate_one c e f t d w s))"
  unfolding reallocate_one_def Let_def split_beta
  by (intro demand_bind)
     (auto simp: same_demand_def puts world_frame)

lemma reallocate_all_demand: "same_demand s (snd (reallocate_all c e f t d ws s))"
proof (induction ws arbitrary: s)
  case (Cons w ws)
  show ?case
    unfolding reallocate_all.simps by (rule demand_bind[OF reallocate_one_demand Cons])
qed simp

lemma accept_demand: "same_demand s (snd (accept_reallocate c s))"
  unfolding accept_reallocate_def Let_def split_beta
  by (intro demand_bind) (auto simp: same_demand_def world_frame
        reallocate_all_demand[unfolded same_demand_def])

lemma reject_demand: "same_demand s (snd (reject_command c r s))"
  by (simp add: reject_command_def Let_def split_beta same_demand_def world_frame)

lemma apply_demand: "same_demand s (snd (support_apply c s))"
  by (simp add: support_apply_def split_beta accept_demand reject_demand split: option.split sum.split)

lemma return_demand: "same_demand s (snd (return_worker wid e s))"
  unfolding return_worker_def Let_def split_beta
  by (intro demand_bind) (auto simp: same_demand_def puts world_frame)

lemma apply_teams:
  assumes "teams_ok (su_workers s) (su_teams s)"
  shows "teams_ok (su_workers (snd (support_apply c s))) (su_teams (snd (support_apply c s)))"
proof (cases "map_of (su_applied s) (cmd_id c)")
  case (Some e)
  with assms show ?thesis by (simp add: support_apply_def)
next
  case None
  then show ?thesis
  proof (cases rule: apply_outcomes)
    case (valid ids)
    then show ?thesis using accept_effect[OF assms None] by fastforce
  next
    case overflow
    then show ?thesis using overflow_effect[OF None] assms by simp
  next
    case rejected
    then show ?thesis using reject_effect[OF None] assms by fastforce
  qed
qed

lemma return_teams:
  assumes "teams_ok (su_workers s) (su_teams s)"
  shows "teams_ok (su_workers (snd (return_worker wid e s))) (su_teams (snd (return_worker wid e s)))"
proof (cases "map_of (su_workers s) wid")
  case None
  with assms show ?thesis by (simp add: return_worker_def item_def)
next
  case (Some w)
  then show ?thesis using return_effect[OF assms Some, of e] by auto
qed

lemma same_demand_inv:
  "same_demand s s' \<Longrightarrow> teams_ok (su_workers s') (su_teams s') \<Longrightarrow> support_inv s \<Longrightarrow> support_inv s'"
  by (simp add: same_demand_def support_inv_def)

lemma support_step_inv: "support_step s s' \<Longrightarrow> support_inv s \<Longrightarrow> support_inv s'"
proof (induction rule: support_step.induct)
  case (commanded s c)
  then show ?case
    by (intro same_demand_inv[OF apply_demand apply_teams]) (simp_all add: support_inv_def)
next
  case (returned s wid e)
  then show ?case
    by (intro same_demand_inv[OF return_demand return_teams]) (simp_all add: support_inv_def)
next
  case (arrived s cid sev sk)
  then show ?case
    by (simp add: support_inv_def queue_ok_create create_ticket_teams mood_ok_create)
next
  case (taken s wid tid u)
  then show ?case by (simp add: support_inv_def queue_ok_take take_teams mood_ok_take)
next
  case (resolved s tid wid)
  then show ?case by (simp add: support_inv_def queue_ok_resolve resolve_teams mood_ok_resolve)
next
  case (sla s tid)
  then show ?case by (simp add: support_inv_def queue_ok_sla watch_teams mood_ok_sla)
next
  case (gave_up tid s)
  then show ?case by (simp add: support_inv_def queue_ok_abandon watch_teams mood_ok_abandon)
next
  case (elsewhere s s')
  then show ?case by (simp add: support_inv_def same_support_def)
qed (simp_all add: support_inv_def sensor_tick_def schedule_surge_def spawn_def surge_start_def
       surge_end_def interrupt_worker_def Let_def split_beta world_frame)

section \<open>Installation establishes the invariant\<close>

lemma worker_name_inject [simp]: "worker_name m = worker_name n \<longleftrightarrow> m = n"
  by (simp add: worker_name_def pad_dec_inject)

lemma roster_add:
  assumes "map_of ws wid = None" and "map_of ts a = Some fa" and "roster_ok ws ts a"
    and "w_team w = a"
  shows "roster_ok (dict_set wid w ws) (dict_set a (fa\<lparr>tm_workers := tm_workers fa @ [wid]\<rparr>) ts) a"
    and "roster_ok ws ts b \<Longrightarrow> a \<noteq> b \<Longrightarrow>
      roster_ok (dict_set wid w ws) (dict_set a (fa\<lparr>tm_workers := tm_workers fa @ [wid]\<rparr>) ts) b"
  using assms by (auto simp: roster_ok_def)

lemma new_worker_simps [simp]:
  "w_id (new_worker cfg i rate) = worker_name i" "w_team (new_worker cfg i rate) = home_team cfg i"
  by (simp_all add: new_worker_def)

lemma create_worker_effect:
  assumes ok: "teams_ok (su_workers s) (su_teams s)"
    and new: "map_of (su_workers s) (worker_name i) = None"
  shows "teams_ok (su_workers (create_worker i rate s)) (su_teams (create_worker i rate s)) \<and>
    dom (map_of (su_workers (create_worker i rate s))) =
      insert (worker_name i) (dom (map_of (su_workers s))) \<and>
    same_demand s (create_worker i rate s)"
proof -
  define tid where "tid = home_team (su_config s) i"
  have t: "tid = reserve_team \<or> tid = support_team" by (simp add: tid_def home_team_def)
  then have rost: "roster_ok (su_workers s) (su_teams s) tid"
    using ok by (auto simp: teams_ok_def)
  then obtain fa where fa: "map_of (su_teams s) tid = Some fa" "tm_id fa = tid"
    unfolding roster_ok_def by blast
  let ?w = "new_worker (su_config s) i rate"
  have w: "w_team ?w = tid"
      "su_workers (create_worker i rate s) = dict_set (worker_name i) ?w (su_workers s)"
      "su_teams (create_worker i rate s) =
        dict_set tid (fa\<lparr>tm_workers := tm_workers fa @ [worker_name i]\<rparr>) (su_teams s)"
      "same_demand s (create_worker i rate s)"
    using fa
    by (simp_all add: create_worker_def Let_def world_frame puts same_demand_def tid_def)
  note r = roster_add[OF new fa(1) rost w(1)]
  have "teams_ok (su_workers (create_worker i rate s)) (su_teams (create_worker i rate s))"
    using ok r w(1-3) t by (auto simp: teams_ok_def)
  with w show ?thesis by simp
qed

lemma create_workers_effect:
  assumes "teams_ok (su_workers s) (su_teams s)"
    and "\<forall>i \<in> set is. map_of (su_workers s) (worker_name i) = None" and "distinct is"
  shows "teams_ok (su_workers (fold (\<lambda>i. create_worker i (rates i)) is s))
           (su_teams (fold (\<lambda>i. create_worker i (rates i)) is s)) \<and>
         same_demand s (fold (\<lambda>i. create_worker i (rates i)) is s)"
  using assms
proof (induction "is" arbitrary: s)
  case (Cons i "is")
  let ?s = "create_worker i (rates i) s"
  have e: "teams_ok (su_workers ?s) (su_teams ?s)" "same_demand s ?s"
      "dom (map_of (su_workers ?s)) = insert (worker_name i) (dom (map_of (su_workers s)))"
    using create_worker_effect[of s i "rates i"] Cons.prems by auto
  have "map_of (su_workers ?s) (worker_name j) = None" if "j \<in> set is" for j
  proof -
    have "worker_name j \<notin> dom (map_of (su_workers ?s))"
      using that e(3) Cons.prems(2,3) by auto
    then show ?thesis by auto
  qed
  with Cons.IH[of ?s] e Cons.prems(3) show ?case by (auto intro: same_demand_trans)
qed simp

lemma create_customer_effect:
  "su_workers (create_customer i seg s) = su_workers s"
  "su_teams (create_customer i seg s) = su_teams s"
  "su_config (create_customer i seg s) = su_config s"
  "su_tickets (create_customer i seg s) = su_tickets s"
  "su_queued (create_customer i seg s) = su_queued s"
  "su_seq (create_customer i seg s) = su_seq s"
  "mood_ok (su_customers s) \<Longrightarrow> mood_ok (su_customers (create_customer i seg s))"
  by (auto simp: create_customer_def Let_def world_frame puts intro!: mood_ok_set)

lemma create_customers_effect:
  "su_workers (fold (\<lambda>i. create_customer i (segs i)) is s) = su_workers s \<and>
   su_teams (fold (\<lambda>i. create_customer i (segs i)) is s) = su_teams s \<and>
   su_config (fold (\<lambda>i. create_customer i (segs i)) is s) = su_config s \<and>
   su_tickets (fold (\<lambda>i. create_customer i (segs i)) is s) = su_tickets s \<and>
   su_queued (fold (\<lambda>i. create_customer i (segs i)) is s) = su_queued s \<and>
   su_seq (fold (\<lambda>i. create_customer i (segs i)) is s) = su_seq s \<and>
   (mood_ok (su_customers s) \<longrightarrow>
     mood_ok (su_customers (fold (\<lambda>i. create_customer i (segs i)) is s)))"
  by (induction "is" arbitrary: s) (auto simp: create_customer_effect)

lemma start_workers_frame:
  fixes s :: "'a support_scheme"
  defines "st \<equiv> \<lambda>(wid, w). if w_team w = ''TEAM-SUPPORT'' then start_worker wid else id"
  shows "su_workers (fold st ws s) = su_workers s \<and> su_teams (fold st ws s) = su_teams s \<and>
    same_demand s (fold st ws s)"
  by (induction ws arbitrary: s)
     (auto simp: st_def world_frame same_demand_def split: if_splits prod.splits)

lemma support_install_inv:
  assumes "support_init cfg s0 = Inr s"
  shows "support_inv (support_install segs rates s)"
proof -
  define s1 where "s1 = snd (emit ''simulation.started'' (Some ''scenario:support'') None None None
      [(''seed'', VInt (rt_seed s)), (''config'', VDict (config_to_dict (su_config s)))] s)"
  define s2 where "s2 = fold (\<lambda>i. create_customer i (segs i)) [1..<Suc (cf_customers (su_config s))] s1"
  define t where "t = create_teams s2"
  define s3 where "s3 = fold (\<lambda>i. create_worker i (rates i)) [1..<Suc (cf_workers (su_config s))] t"
  have blank: "su_workers s1 = []" "su_teams s1 = []" "su_tickets s1 = []" "su_queued s1 = []"
      "su_customers s1 = []"
    using assms by (auto simp: support_init_def s1_def world_frame split: if_splits)
  note c = create_customers_effect[of segs "[1..<Suc (cf_customers (su_config s))]" s1, folded s2_def]
  have t: "su_workers t = []" "su_tickets t = []" "su_queued t = []" "mood_ok (su_customers t)"
      "teams_ok (su_workers t) (su_teams t)"
    using c by (simp_all add: t_def create_teams_def puts blank teams_ok_def roster_ok_def mood_ok_def)
  have w: "teams_ok (su_workers s3) (su_teams s3)" "same_demand t s3"
    using create_workers_effect[OF t(5), of "[1..<Suc (cf_workers (su_config s))]" rates, folded s3_def]
    by (simp_all add: t(1) del: upt_Suc)
  have inv: "support_inv s3"
    using w t by (simp add: support_inv_def same_demand_def tickets_ok_def)
  define s4 where "s4 = fold (\<lambda>(wid, w). if w_team w = ''TEAM-SUPPORT'' then start_worker wid else id)
      (su_workers s3) s3"
  have "support_install segs rates s = spawn SensorLoop (spawn ArrivalLoop s4)"
    by (simp only: support_install_def Let_def s1_def s2_def t_def s3_def s4_def)
  then show ?thesis
    using start_workers_frame[of "su_workers s3" s3, folded s4_def] inv
    by (simp add: support_inv_def same_demand_def spawn_def)
qed

end
