(* ===== verification/World_Calls.thy ===== *)
theory World_Calls imports Support_Facts begin

text \<open>
  The support world behind its service, as a client sees it between one installation and the next:
  the calls that return, in any order, interleaved with steps of the simulation.  The books of the
  world (journal, bus, objectives, verdicts) stay consistent through all of them, and a reset starts
  them anew.
\<close>

section \<open>Calls\<close>

text \<open>What a segment of a scenario process may do: append to the journal, leave the tables of
  objectives and evaluations and the bus alone.\<close>

definition scenario_segment :: "('a service_scheme \<Rightarrow> 'a service_scheme) \<Rightarrow> bool" where
  "scenario_segment f \<longleftrightarrow>
     env_appends f \<and> (\<forall>s. world_tables (f s) = world_tables s \<and> keeps_bus s (f s))"

text \<open>
  Every call of the service that changes its state, except \<^verbatim>\<open>reset\<close>.  Steps and scenario methods
  (\<^verbatim>\<open>call_scenario\<close>, \<^verbatim>\<open>run_scenario\<close> and the injectors that go the same way) run any code of the
  scenario that journals through the runtime; it may move the clock.  The one condition on a caller:
  an objective is not opened again for a sensor event that opened one which is no longer live.
\<close>

inductive world_call :: "'a support_scheme \<Rightarrow> 'a support_scheme \<Rightarrow> bool" where
  opened: "new_event ev r s \<Longrightarrow> sv_open_objective ev r owner prio dl s = (Inr ob, s') \<Longrightarrow> world_call s s'"
| moved: "sv_transition oid to cl c ev p s = (Inr ob, s') \<Longrightarrow> world_call s s'"
| failed: "sv_fail_objective oid cl c ev p s = (Inr r, s') \<Longrightarrow> world_call s s'"
| typed: "sv_apply_typed support_apply ob cm s = (Inr e, s') \<Longrightarrow> world_call s s'"
| commanded: "sv_apply_command support_apply cm s = (Inr e, s') \<Longrightarrow> world_call s s'"
| noted: "sv_record_external ty tr c p s = (Inr e, s') \<Longrightarrow> world_call s s'"
| stepped: "scenario_segment estep \<Longrightarrow> sv_step_once peek estep s = (Inr u, s') \<Longrightarrow> world_call s s'"
| iterated: "scenario_segment estep \<Longrightarrow> sv_run_iteration peek estep d s = (Inr w, s') \<Longrightarrow> world_call s s'"
| scenario: "scenario_segment (\<lambda>x. snd (act x)) \<Longrightarrow>
    sv_call_scenario name (Some act) s = (Inr (v :: pyval), s') \<Longrightarrow> world_call s s'"
| surged: "sv_inject_demand_surge schedule_surge m d s = (Inr u, s') \<Longrightarrow> world_call s s'"
| stopped: "world_call s (sv_request_stop s)"

inductive_cases world_callE: "world_call s s'"

section \<open>The books\<close>

definition books_ok :: "fleet_event list \<Rightarrow> nat \<Rightarrow> 'a support_scheme \<Rightarrow> bool" where
  "books_ok b n s \<longleftrightarrow> in_sync b n s \<and> journal_ok s \<and> om_inv s \<and> verdicts_ok s"

lemma books_ok_safe:
  "books_ok b n s \<Longrightarrow> in_sync b n s' \<Longrightarrow> world_safe s s' \<Longrightarrow> books_ok b n s'"
  by (simp add: books_ok_def world_safe_def)

lemma fail_objective_safe: "world_safe s (snd (sv_fail_objective oid cl c ev p s))"
proof -
  have "world_safe s (snd (and_then (sv_transition oid Failed cl c ev p s) (\<lambda>ob s1. (Inr (Some ob), s1))))"
    by (rule and_then_rel[where R = world_safe, OF transition_service_safe _ world_safe_trans]) simp_all
  then show ?thesis by (simp add: sv_fail_objective_def split: option.split)
qed

text \<open>A piece of the scenario runs, and what it journalled is published.\<close>

lemma segment_books:
  assumes ok: "books_ok b n s" and j: "journal_ok s1" and x: "extends s s1"
    and t: "world_tables s1 = world_tables s" and k: "keeps_bus s s1"
    and p: "publish_new s1 = (Inr u, s')"
  shows "books_ok b n s'"
proof -
  note d = world_tablesD[OF t]
  have "om_inv s1 = om_inv s" by (rule om_inv_cong) (simp_all add: d)
  then have inv: "om_inv s1" using ok by (simp add: books_ok_def)
  from ok have "verdicts_ok s" by (simp add: books_ok_def)
  then have ver: "verdicts_ok s1" by (rule verdicts_ok_frame) (simp_all add: d)
  have sync: "in_sync b n s'"
    by (rule publish_new_sync[OF _ x k p]) (use ok in \<open>simp add: books_ok_def\<close>)
  have "world_safe s1 s'"
    using publish_since_safe[of s1 "sv_published s1"] p by (simp add: publish_new_def)
  with sync j inv ver show ?thesis by (simp add: books_ok_def world_safe_def)
qed

lemma stepped_books:
  assumes ok: "books_ok b n s" and seg: "scenario_segment estep"
    and run: "sv_step_once peek estep s = (Inr u, s')"
  shows "books_ok b n s'"
proof -
  let ?s1 = "snd (rt_step peek estep s)"
  note env = seg[unfolded scenario_segment_def, THEN conjunct1]
  have tables: "world_tables (estep x) = world_tables x" and bus: "keeps_bus x (estep x)" for x
    using seg by (auto simp: scenario_segment_def)
  have t: "world_tables ?s1 = world_tables s"
    using tables[of "s\<lparr>rt_status := RRunning\<rparr>"] by (auto simp: rt_step_def Let_def world_tables_def)
  have k: "keeps_bus s ?s1"
    using bus[of "s\<lparr>rt_status := RRunning\<rparr>"] by (auto simp: rt_step_def Let_def keeps_bus_def)
  have j: "journal_ok ?s1" and x: "extends s ?s1"
    using rt_step_ok[OF env, of s peek] ok by (auto simp: books_ok_def extends_def)
  have p: "publish_new ?s1 = (Inr u, s')" using run by (simp add: sv_step_once_def)
  show ?thesis by (rule segment_books[OF ok j x t k p])
qed

lemma scenario_books:
  assumes ok: "books_ok b n s" and seg: "scenario_segment (\<lambda>x. snd (act x))"
    and run: "sv_call_scenario name (Some act) s = (Inr v, s')"
  shows "books_ok b n s'"
proof -
  obtain s1 u where act: "act s = (Inr v, s1)" and p: "publish_new s1 = (Inr u, s')"
    using run by (auto simp: sv_call_scenario_def require_scenario_method_def and_then_Inr_iff)
  have "journal_ok s" using ok by (simp add: books_ok_def)
  with seg have "journal_ok (snd (act s)) \<and> extends s (snd (act s)) \<and>
      world_tables (snd (act s)) = world_tables s \<and> keeps_bus s (snd (act s))"
    by (simp add: scenario_segment_def env_appends_def)
  then show ?thesis using act by (intro segment_books[OF ok _ _ _ _ p]) simp_all
qed

text \<open>Changes that reach neither the journal, nor the tables, nor the bus.\<close>

lemma books_ok_frame:
  assumes "books_ok b n s" and "rt_journal s' = rt_journal s" "rt_seq s' = rt_seq s" "rt_now s' = rt_now s"
    and "world_tables s' = world_tables s" "keeps_bus s s'"
  shows "books_ok b n s'"
proof -
  have "in_sync b n s'" using assms by (simp add: books_ok_def in_sync_def keeps_bus_def)
  then show ?thesis by (rule books_ok_safe[OF assms(1) _ world_safe_cong[OF assms(2-5)]])
qed

lemma world_call_books:
  assumes call: "world_call s s'" and ok: "books_ok b n s"
  shows "books_ok b n s'"
proof -
  have sync: "in_sync b n s" using ok by (simp add: books_ok_def)
  from call show ?thesis
  proof cases
    case (opened ev r owner prio dl ob)
    have "world_safe s s'" using open_safe[OF opened(1), of owner prio dl] opened(2) by simp
    then show ?thesis by (rule books_ok_safe[OF ok open_sync[OF sync opened(2)]])
  next
    case (moved oid to cl c ev p ob)
    have "world_safe s s'" using transition_service_safe[of s oid to cl c ev p] moved by simp
    then show ?thesis by (rule books_ok_safe[OF ok transition_sync[OF sync moved]])
  next
    case (failed oid cl c ev p r)
    have "world_safe s s'" using fail_objective_safe[of s oid cl c ev p] failed by simp
    then show ?thesis by (rule books_ok_safe[OF ok fail_objective_sync[OF sync failed]])
  next
    case (typed ob cm e)
    have "world_safe s s'" using support.typed_safe[of s ob cm] typed by simp
    then show ?thesis by (rule books_ok_safe[OF ok support.typed_sync[OF sync typed]])
  next
    case (commanded cm e)
    have "world_safe s s'" using support.command_safe[of s cm] commanded by simp
    then show ?thesis by (rule books_ok_safe[OF ok support.command_sync[OF sync commanded]])
  next
    case (noted ty tr c p e)
    have "world_safe s s'" using external_safe[of s ty tr c p] noted by simp
    then show ?thesis by (rule books_ok_safe[OF ok external_sync[OF sync noted]])
  next
    case (stepped estep peek u)
    then show ?thesis by (rule stepped_books[OF ok])
  next
    case (iterated estep peek d w)
    then show ?thesis
      using ok by (auto simp: sv_run_iteration_def and_then_Inr_iff intro: stepped_books[OF ok]
          split: if_splits)
  next
    case (scenario act name v)
    then show ?thesis by (rule scenario_books[OF ok])
  next
    case (surged m d u)
    then have "\<exists>x y z. s' = spawn (SurgeProc x y z) s"
      by (auto simp: sv_inject_demand_surge_def schedule_surge_def split: sum.splits)
    then show ?thesis
      by (auto intro!: books_ok_frame[OF ok] simp: spawn_def world_tables_def keeps_bus_def)
  next
    case stopped
    then show ?thesis
      by (auto intro!: books_ok_frame[OF ok] simp: sv_request_stop_def world_tables_def keeps_bus_def)
  qed
qed

lemma world_calls_books: "world_call\<^sup>*\<^sup>* s s' \<Longrightarrow> books_ok b n s \<Longrightarrow> books_ok b n s'"
  by (induction rule: rtranclp_induct) (auto intro: world_call_books)

text \<open>An event of the installed world is on the bus at most once.\<close>

lemma books_bus_distinct:
  assumes "books_ok b n s"
  shows "distinct (drop (length b) (sv_bus s))"
proof -
  have "distinct (map ev_id (rt_journal s))"
    using assms by (intro journal_ids_distinct) (simp add: books_ok_def)
  then have "distinct (map ev_id (drop n (rt_journal s)))" by (simp add: drop_map[symmetric])
  then have "inj_on ev_id (set (drop n (rt_journal s)))" "distinct (drop n (rt_journal s))"
    by (simp_all add: distinct_map)
  then show ?thesis
    using assms world_event_id
    by (auto simp: books_ok_def in_sync_def distinct_map intro!: inj_onI dest: inj_onD)
qed

section \<open>The installation of the support world\<close>

text \<open>What the service builds at its construction and at a reset: the scenario, and its installation.\<close>

definition support_build ::
  "support_config \<Rightarrow> (nat \<Rightarrow> string) \<Rightarrow> (nat \<Rightarrow> rat) \<Rightarrow> 'a support_scheme \<Rightarrow>
   unit result \<times> 'a support_scheme" where
  "support_build cfg segs rates s =
     (case support_init cfg s of
        Inl x \<Rightarrow> (Inl x, s)
      | Inr s1 \<Rightarrow> (Inr (), support_install segs rates s1))"

lemma fold_sup_frame: "(\<And>x s. sup_frame s (f x s)) \<Longrightarrow> sup_frame s (fold f xs s)"
  by (induction xs arbitrary: s) (simp, metis fold_simps(2) sup_frame_trans)

lemma ids_sup_frame: "sup_frame s (s\<lparr>su_ids := x\<rparr>)"
  by (rule sup_frame_same) (simp_all add: world_tables_def)

lemma create_customer_frame: "sup_frame s (create_customer i seg s)"
  unfolding create_customer_def Let_def
  by (intro sup_frame_trans[OF _ emit_sup_frame] sup_frame_trans[OF _ ids_sup_frame] put_sup_frame(3))

lemma create_worker_frame: "sup_frame s (create_worker i rate s)"
proof -
  have team: "sup_frame t (case tm of None \<Rightarrow> t | Some tm \<Rightarrow> put_team (f tm) t)"
    for t :: "'a support_scheme" and tm f
    by (cases tm) (simp_all add: put_sup_frame)
  show ?thesis
    unfolding create_worker_def Let_def
    by (intro sup_frame_trans[OF _ emit_sup_frame] sup_frame_trans[OF _ team] put_sup_frame(2))
qed

lemma support_install_frame: "sup_frame s (support_install segs rates s)"
proof -
  have start: "sup_frame t ((case x of (wid, w) \<Rightarrow> if w_team w = ''TEAM-SUPPORT'' then start_worker wid else id) t)"
    for x and t :: "'a support_scheme"
    by (simp add: put_sup_frame split: prod.split)
  show ?thesis
    unfolding support_install_def Let_def create_teams_def
    by (intro sup_frame_trans[OF _ put_sup_frame(5)] sup_frame_trans[OF _ fold_sup_frame]
          sup_frame_trans[OF _ put_sup_frame(4)] emit_sup_frame create_customer_frame create_worker_frame start)
qed

lemma support_build_segment: "scenario_segment (\<lambda>x. snd (support_build cfg segs rates x))"
proof -
  have "sup_frame s (snd (support_build cfg segs rates s))" for s :: "'a support_scheme"
  proof (cases "support_init cfg s")
    case (Inl x)
    then show ?thesis by (simp add: support_build_def)
  next
    case (Inr s1)
    then have "sup_frame s s1"
      by (auto simp: support_init_def split: if_splits intro!: sup_frame_same simp: world_tables_def)
    from sup_frame_trans[OF this support_install_frame] Inr show ?thesis by (simp add: support_build_def)
  qed
  then show ?thesis by (simp add: scenario_segment_def env_appends_def sup_frame_def)
qed

section \<open>A reset\<close>

text \<open>A reset that returns leaves the bus as it is and starts the books of the new world: the events of
  its installation are never published.\<close>

lemma reset_books:
  assumes run: "sv_reset build seed s = (Inr u, s')" and build: "scenario_segment (\<lambda>x. snd (build x))"
  shows "books_ok (sv_bus s) (length (rt_journal s')) s'"
proof -
  let ?s0 = "s\<lparr>sv_seed := (case seed of None \<Rightarrow> sv_seed s | Some n \<Rightarrow> n)\<rparr>"
  let ?w = "blank_world (sv_seed ?s0) ?s0"
  obtain u1 where s': "s' = (snd (build ?w))\<lparr>sv_published := length (rt_journal (snd (build ?w))), sv_stop := False\<rparr>"
    and "fst (build ?w) = Inr u1"
    using run by (auto simp: sv_reset_def sv_install_def Let_def and_then_def split: prod.splits sum.splits)
  have blank: "journal_ok ?w" "om_inv ?w" "verdicts_ok ?w" "sv_bus ?w = sv_bus s"
    by (simp_all add: blank_world_def journal_ok_def verdicts_ok_def om_init_inv om_init_def)
  have seg: "journal_ok (snd (build ?w))" "world_tables (snd (build ?w)) = world_tables ?w"
      "keeps_bus ?w (snd (build ?w))"
    using build blank(1) by (auto simp: scenario_segment_def env_appends_def)
  have bus: "sv_bus (snd (build ?w)) = sv_bus s"
    using seg(3) blank(4) unfolding keeps_bus_def by (elim conjE) (rule trans)
  have t: "world_tables s' = world_tables ?w" using seg(2) by (simp add: s' world_tables_def)
  note d = world_tablesD[OF t]
  have "om_inv s' = om_inv ?w" by (rule om_inv_cong) (simp_all add: d)
  moreover have "verdicts_ok s'" using blank(3) by (rule verdicts_ok_frame) (simp_all add: d)
  moreover have "journal_ok s' = journal_ok (snd (build ?w))" by (rule journal_ok_cong) (simp_all add: s')
  moreover have "in_sync (sv_bus s) (length (rt_journal s')) s'" using bus by (simp add: in_sync_def s')
  ultimately show ?thesis using blank seg(1) by (simp add: books_ok_def)
qed

section \<open>A call that raised\<close>

text \<open>What a rejection of a finished objective journals is published by no later call.\<close>

lemma rejection_stays_lost:
  assumes ok: "books_ok [] n s"
    and ob: "om_objectives s (o_id ob0) = Some ob" "o_id ob = o_id ob0" "o_status ob \<in> terminal"
  shows "\<exists>m rej s1. sv_apply_typed support_apply ob0 c s = (Inl (ValueError m), s1) \<and>
    rt_journal s1 = rt_journal s @ [rej] \<and> ev_type rej = ''command.rejected'' \<and>
    (\<forall>ty tr ca p e s2. sv_record_external ty tr ca p s1 = (Inr e, s2) \<longrightarrow>
       world_event rej \<notin> set (sv_bus s2))"
proof -
  have ok': "in_sync [] n s" "journal_ok s" using ok by (auto simp: books_ok_def)
  obtain m rej s1 where r: "sv_apply_typed support_apply ob0 c s = (Inl (ValueError m), s1)"
    and j: "rt_journal s1 = rt_journal s @ [rej]" "ev_type rej = ''command.rejected''"
      "sv_bus s1 = sv_bus s" "journal_ok s1"
    using rejection_lost[OF ok' ob, of support_apply c] by auto
  have old: "world_event rej \<notin> set (sv_bus s1)"
  proof
    assume "world_event rej \<in> set (sv_bus s1)"
    then obtain e where e: "e \<in> set (rt_journal s)" "world_event e = world_event rej"
      using ok' j(3) by (auto simp: in_sync_def dest: in_set_dropD)
    have "distinct (map ev_id (rt_journal s @ [rej]))"
      using journal_ids_distinct[OF j(4)] j(1) by simp
    then show False using e(1) world_event_id[OF e(2)] by (auto simp: image_iff)
  qed
  have "world_event rej \<notin> set (sv_bus s2)"
    if "sv_record_external ty tr ca p s1 = (Inr e, s2)" for ty tr ca p e s2
  proof -
    let ?act = "\<lambda>s. case emit ty None None ca (Some tr) p s of (e, s1) \<Rightarrow> (Inr e, s1)"
    have s: "snd (?act s1) = snd (emit ty None None ca (Some tr) p s1)" by (simp add: split_beta)
    have in_j: "rej \<in> set (rt_journal s1)" by (simp add: j(1))
    have x: "extends s1 (snd (?act s1))" "keeps_bus s1 (snd (?act s1))" "journal_ok (snd (?act s1))"
      unfolding s by (rule emit_extends, rule emit_bus, rule emit_journal_ok[OF j(4)])
    have "published ?act s1 = (Inr e, s2)" using that by (simp add: sv_record_external_def)
    from published_skips(2)[OF j(4) in_j x this] old show ?thesis by auto
  qed
  with r j show ?thesis by blast
qed

end
