(* ===== verification/World_Properties.thy ===== *)
theory World_Properties imports World_Calls begin

text \<open>
  The properties of the simulated world and of the event plumbing around it: objectives and their
  commands (\<^verbatim>\<open>world/objectives.py\<close>, \<^verbatim>\<open>world/commands.py\<close>,
  \<^verbatim>\<open>world/evaluations.py\<close>), the service and its bus (\<^verbatim>\<open>world/service.py\<close>), the
  support world (\<^verbatim>\<open>world/packs/support.py\<close>), triage,
  the fleet manager's queue and the pending gates (\<^verbatim>\<open>services/\<close>), all under
  \<^verbatim>\<open>src/api/server/\<close>.  Each is followed by an instance on a small concrete world.
\<close>

section \<open>A concrete world for the witnesses\<close>

definition demo_config :: support_config where
  "demo_config = \<lparr>cf_customers = 1, cf_workers = 3, cf_reserve = 1, cf_arrival_rate = 60,
     cf_minutes = 480, cf_sla = 30, cf_backlog = 1, cf_recovery = 0\<rparr>"

definition demo_base :: support where
  "demo_base =
     \<lparr>rt_seed = 7, rt_now = 0, rt_journal = [], rt_status = RPaused, rt_seq = 0,
      om_objectives = Map.empty, om_order = [], om_active = Map.empty, om_target = Map.empty,
      om_baseline = Map.empty, om_route = Map.empty, om_last = Map.empty,
      ev_list = [], ev_route = Map.empty,
      sv_name = ''support'', sv_seed = 7, sv_published = 0, sv_bus = [], sv_stop = False,
      sv_speed = 10,
      su_config = demo_config, su_customers = [], su_tickets = [], su_workers = [], su_teams = [],
      su_store = [], su_multiplier = 1, su_seq = 0, su_ids = [], su_latched = False,
      su_queued = [], su_alive = {}, su_spawned = [], su_applied = []\<rparr>"

definition demo_world :: support where
  "demo_world = support_install (\<lambda>_. ''standard'') (\<lambda>_. 1) demo_base"

definition demo_route :: route where
  "demo_route = \<lparr>r_sensor = ''sensor:support_pressure'', r_type = ''support_recovery'',
     r_allowed = {''reallocate_workers''}, r_success = {''sensor.recovered''},
     r_failure = {''ticket.abandoned''}, r_timeout = 30\<rparr>"

definition demo_sensor :: pydict where
  "demo_sensor = [(''event_id'', VStr ''evt-00000001''), (''trace_id'', VStr ''trace-1''),
     (''target_id'', VStr ''queue:support''), (''payload'', VDict [])]"

definition demo_open :: support where
  "demo_open = snd (om_open demo_sensor demo_route ''operations'' 1 None demo_base)"

definition demo_oid :: string where
  "demo_oid = objective_id ''evt-00000001''"

definition demo_objective :: objective where
  "demo_objective = fresh_objective demo_sensor demo_route ''operations'' 1 None ''evt-00000001''
     ''trace-1'' 0"

definition demo_command :: sim_command where
  "demo_command = \<lparr>cmd_id = ''cmd-1'', cmd_trace = ''trace-1'', cmd_issuer = ''agent'',
     cmd_type = ''reallocate_workers'',
     cmd_payload = [(''worker_ids'', VList [VStr ''WRK-0003'']),
       (''from_team_id'', VStr ''TEAM-RESERVE''), (''to_team_id'', VStr ''TEAM-SUPPORT''),
       (''duration_minutes'', VInt 30)]\<rparr>"

lemma demo_base_simps [simp]:
  "rt_now demo_base = 0" "rt_journal demo_base = []" "rt_seq demo_base = 0"
  "om_objectives demo_base = Map.empty" "om_order demo_base = []" "om_active demo_base = Map.empty"
  "om_target demo_base = Map.empty" "om_last demo_base = Map.empty" "ev_list demo_base = []"
  "sv_published demo_base = 0" "sv_bus demo_base = []"
  by (simp_all add: demo_base_def)

lemma demo_sensor_reads:
  "item_str demo_sensor ''event_id'' = Inr ''evt-00000001''"
  "item_str demo_sensor ''trace_id'' = Inr ''trace-1''"
  "get_str demo_sensor ''target_id'' = Some ''queue:support''"
  by (simp_all add: demo_sensor_def item_str_def get_str_def dict_get_def)

lemma demo_fresh: "om_active demo_base (r_type demo_route, get_str demo_sensor ''target_id'') = None"
  by simp

lemmas demo_opened = om_open_fresh[OF demo_fresh demo_sensor_reads(1,2), of "''operations''" "1" None,
  folded demo_open_def]

lemma demo_open_objective: "om_objectives demo_open demo_oid = Some demo_objective"
  using demo_opened(1) by (simp add: demo_oid_def demo_objective_def)

lemma demo_open_reachable: "om_reachable demo_open"
proof -
  have "om_reachable demo_base"
    by (rule om_reachable.start) (simp_all add: om_init_def journal_ok_def)
  moreover have "om_step demo_base demo_open"
    unfolding demo_open_def by (rule om_step.opened) (simp add: same_key_def)
  ultimately show ?thesis by (rule om_reachable.step)
qed

section \<open>Objectives\<close>

text \<open>The same world half an hour later.\<close>

definition demo_half :: support where
  "demo_half = demo_open\<lparr>rt_now := 30\<rparr>"

lemma demo_half_reachable: "om_reachable demo_half"
proof -
  have "rt_now demo_open = 0" by code_simp
  then have "om_step demo_open demo_half" unfolding demo_half_def by (intro om_step.clocked) simp
  with demo_open_reachable show ?thesis by (rule om_reachable.step)
qed

text \<open>C1: In every state the program can reach, whatever was opened, moved and journalled and however the clock
  moved on, at most one objective is live for a given objective type and target: two live objectives that agree
  on both are the same one.  Reaching assumes that a sensor event's id is not used again with another type or
  target.\<close>
theorem one_live_objective:
  assumes "om_reachable s"
    and "om_objectives s i = Some a" "live a" and "om_objectives s j = Some b" "live b"
    and "o_type a = o_type b" "target_of s i = target_of s j"
  shows "i = j"
  using live_key_unique[OF conjunct1[OF om_reachable_ok[OF assms(1)]] assms(2-7)] .

theorem one_live_objective_witness:
  "demo_oid = ''obj-evt-00000001'' \<and> om_objectives demo_half demo_oid = Some demo_objective \<and>
   o_created demo_objective < rt_now demo_half"
proof -
  have at: "om_objectives demo_half demo_oid = Some demo_objective"
    using demo_open_objective by (simp add: demo_half_def)
  have "om_objectives demo_half ''obj-evt-00000001'' = Some demo_objective"
    using at by (simp add: demo_oid_def objective_id_def)
  moreover have "live demo_objective" by (simp add: live_def terminal_def demo_objective_def)
  moreover have "target_of demo_half demo_oid = target_of demo_half ''obj-evt-00000001''"
    by (simp add: demo_oid_def objective_id_def)
  ultimately have "demo_oid = ''obj-evt-00000001''"
    using one_live_objective[OF demo_half_reachable at] by blast
  with at show ?thesis by (simp add: demo_half_def demo_objective_def fresh_objective_def)
qed

text \<open>C9: Whatever step the program takes in a reachable state (opening, transition, any emission, the clock
  moving on, writes elsewhere), an objective never disappears, and its status stays or moves along the
  transition table; the one exception is a new objective opened under the id of a finished one, which takes
  its place with status open.\<close>
theorem status_follows_table:
  assumes "om_reachable s" and "om_step s s'" and "om_objectives s i = Some ob"
  shows "\<exists>ob'. om_objectives s' i = Some ob' \<and>
    (o_status ob' = o_status ob \<or> o_status ob' \<in> allowed_transitions (o_status ob) \<or>
     o_status ob \<in> terminal \<and> o_status ob' = Open)"
proof -
  from om_step_status[OF assms(2) conjunct1[OF om_reachable_ok[OF assms(1)]] assms(3)]
  obtain ob' where "om_objectives s' i = Some ob'"
      "status_step (o_status ob) (o_status ob') \<or> \<not> live ob \<and> o_status ob' = Open"
    by blast
  then show ?thesis by (auto simp: status_step_def live_def)
qed

theorem status_follows_table_witness:
  "\<exists>ob'. om_objectives (snd (om_transition demo_oid Claimed (Some ''agent'') None None [] demo_half))
      demo_oid = Some ob' \<and>
    (o_status ob' = Open \<or> o_status ob' \<in> {Claimed, Superseded, Failed} \<or>
     Open \<in> terminal \<and> o_status ob' = Open)"
proof -
  have "om_objectives demo_half demo_oid = Some demo_objective"
    using demo_open_objective by (simp add: demo_half_def)
  from status_follows_table[OF demo_half_reachable om_step.moved this]
  show ?thesis by (simp add: demo_objective_def)
qed

section \<open>Commands\<close>

text \<open>C10: A command that is out of scope of a live objective is rejected: exactly a rejection and
  the objective's failure, caused by it, are journalled, the objective is failed, and nothing else
  changes but the entries of that objective in the manager's index: not the clock, the other
  objectives, the evaluations, nor anything of the service, its bus and the support world
  (\<^term>\<open>evaluator.more s\<close>, which holds every field of both), the record of applied commands included.\<close>
theorem out_of_scope_rejected:
  assumes "om_objectives s (o_id ob0) = Some ob" and "o_id ob = o_id ob0"
    and "\<not> in_scope ob c" and "live ob"
  shows "\<exists>rej failed s'. gateway_apply support_apply ob0 c s = (Inr rej, s') \<and>
     rt_journal s' = rt_journal s @ [rej, failed] \<and>
     ev_type rej = ''command.rejected'' \<and> ev_type failed = ''objective.failed'' \<and>
     ev_cause failed = Some (ev_id rej) \<and>
     om_objectives s' = (om_objectives s)(o_id ob \<mapsto> ob\<lparr>o_status := Failed\<rparr>) \<and>
     rt_now s' = rt_now s \<and> ev_list s' = ev_list s \<and> ev_route s' = ev_route s \<and>
     evaluator.more s' = evaluator.more s \<and>
     su_workers s' = su_workers s \<and> su_teams s' = su_teams s \<and> su_tickets s' = su_tickets s \<and>
     su_customers s' = su_customers s \<and> su_applied s' = su_applied s \<and> sv_bus s' = sv_bus s"
proof -
  have "o_status ob \<notin> terminal" using assms(4) by (simp add: live_def)
  from gateway_rejects_live[OF assms(1-3) this, of support_apply]
  obtain rej failed s' where r: "gateway_apply support_apply ob0 c s = (Inr rej, s')"
     "rt_journal s' = rt_journal s @ [rej, failed]"
     "ev_type rej = ''command.rejected''" "ev_type failed = ''objective.failed''"
     "ev_cause failed = Some (ev_id rej)"
     "om_objectives s' = (om_objectives s)(o_id ob \<mapsto> ob\<lparr>o_status := Failed\<rparr>)"
     "rt_now s' = rt_now s" "ev_list s' = ev_list s" "ev_route s' = ev_route s"
     "evaluator.more s' = evaluator.more s" by blast
  have "su_workers s' = su_workers s" "su_teams s' = su_teams s" "su_tickets s' = su_tickets s"
      "su_customers s' = su_customers s" "su_applied s' = su_applied s" "sv_bus s' = sv_bus s"
    using r(10) by (cases s; cases s'; simp)+
  with r show ?thesis by blast
qed

theorem out_of_scope_rejected_witness:
  "\<exists>rej failed s'. gateway_apply support_apply demo_objective demo_command demo_open = (Inr rej, s') \<and>
     rt_journal s' = rt_journal demo_open @ [rej, failed] \<and> ev_type rej = ''command.rejected'' \<and>
     ev_cause failed = Some (ev_id rej)"
proof -
  have "o_id demo_objective = demo_oid" by (simp add: demo_objective_def demo_oid_def)
  then show ?thesis
    using out_of_scope_rejected[of demo_open demo_objective demo_objective demo_command]
      demo_open_objective
    by (auto simp: in_scope_def live_def terminal_def demo_objective_def)
qed

text \<open>C11: The gateway moves workers, changes the teams, records an applied command or publishes only for
  a command that is in scope of the objective as it stands: acting, same trace, an allowed type, issued by its claimant.\<close>
theorem scenario_untouched_out_of_scope:
  assumes "om_objectives s (o_id ob0) = Some ob" and "\<not> in_scope ob c"
  shows "su_workers (snd (gateway_apply support_apply ob0 c s)) = su_workers s \<and>
    su_teams (snd (gateway_apply support_apply ob0 c s)) = su_teams s \<and>
    su_applied (snd (gateway_apply support_apply ob0 c s)) = su_applied s \<and>
    sv_bus (snd (gateway_apply support_apply ob0 c s)) = sv_bus s"
proof -
  have "evaluator.more (snd (gateway_apply support_apply ob0 c s)) = evaluator.more s"
    using gateway_guards[of support_apply ob0 c s] assms by (auto split: option.splits)
  then show ?thesis
    by (cases s; cases "snd (gateway_apply support_apply ob0 c s)") simp
qed

theorem scenario_untouched_out_of_scope_witness:
  "su_workers (snd (gateway_apply support_apply demo_objective demo_command demo_open)) =
   su_workers demo_open"
proof -
  have "o_id demo_objective = demo_oid" by (simp add: demo_objective_def demo_oid_def)
  then show ?thesis
    using scenario_untouched_out_of_scope[of demo_open demo_objective demo_objective demo_command]
      demo_open_objective
    by (simp add: in_scope_def demo_objective_def)
qed

text \<open>C20: Observing events leaves every finished evaluation as it is, in place; an evaluation
  that changes was started and becomes finished, stamped with the current time.\<close>
theorem finished_verdicts_final:
  "list_all2 (eval_moves (rt_now s)) (ev_list s) (ev_list (snd (observe evs s)))"
  using observe_ev_step[of s evs] by (simp add: ev_step_def)

section \<open>The service\<close>

text \<open>C4: Between the installation of a support world (at a reset, or at the construction of the service) and
  the next reset, through any sequence of calls of the service that return (opening, moving and failing
  objectives, commands with and without an objective, recorded events, steps of the simulation and of its run
  loop, scenario methods, demand surges, a stop), the bus gets exactly the events the world journals after its
  installation, in order and none twice; journal ids stay consecutive, and every finished evaluation agrees with
  the status of its objective.  Two conditions: no objective is opened again for a sensor event whose objective
  is finished, and code of the scenario journals through the runtime only.  A call that raises is not covered: it
  may leave events unpublished.\<close>
theorem service_keeps_books:
  assumes "sv_reset (support_build cfg segs rates) seed s0 = (Inr u, s)" and "world_call\<^sup>*\<^sup>* s s'"
  shows "sv_bus s' = sv_bus s0 @ map world_event (drop (length (rt_journal s)) (rt_journal s')) \<and>
    distinct (drop (length (sv_bus s0)) (sv_bus s')) \<and>
    map ev_id (rt_journal s') = map (\<lambda>i. event_name (Suc i)) [0..<length (rt_journal s')] \<and>
    (\<forall>e\<in>set (filter is_finished (ev_list s')).
       map_option o_status (om_objectives s' (e_objective e)) = Some (outcome_of (e_status e)))"
proof -
  have ok: "books_ok (sv_bus s0) (length (rt_journal s)) s'"
    by (rule world_calls_books[OF assms(2) reset_books[OF assms(1) support_build_segment]])
  then have j: "journal_ok s'" by (simp add: books_ok_def)
  have "map ev_id (rt_journal s') = map (\<lambda>i. event_name (Suc i)) [0..<length (rt_journal s')]"
    using j by (auto simp: journal_ok_def intro!: nth_equalityI)
  with ok books_bus_distinct[OF ok] show ?thesis
    by (simp add: books_ok_def in_sync_def verdicts_ok_def)
qed

text \<open>A reset of the demo world, then five minutes pass in the scenario and an event is recorded.\<close>

definition demo_reset :: support where
  "demo_reset = snd (sv_reset (support_build demo_config (\<lambda>_. ''standard'') (\<lambda>_. 1)) (Some 8) demo_base)"

definition demo_pass :: "support \<Rightarrow> pyval result \<times> support" where
  "demo_pass s = (Inr VNone, snd (emit ''minute.passed'' None None None None [] (s\<lparr>rt_now := rt_now s + 5\<rparr>)))"

definition demo_later :: support where
  "demo_later = snd (sv_call_scenario ''wait'' (Some demo_pass) demo_reset)"

lemma demo_pass_segment: "scenario_segment (\<lambda>x. snd (demo_pass x))"
proof -
  have "journal_ok (s\<lparr>rt_now := t\<rparr>) = journal_ok s" "extends s (s\<lparr>rt_now := t\<rparr>)" for s :: support and t
    by (simp_all add: journal_ok_def extends_def)
  then have "env_appends (\<lambda>x. snd (demo_pass x))"
    unfolding env_appends_def demo_pass_def by (auto intro: emit_journal_ok extends_trans[OF _ emit_extends])
  moreover have "keeps_bus s (snd (demo_pass s))" for s
    using emit_bus[of "s\<lparr>rt_now := rt_now s + 5\<rparr>" "''minute.passed''" None None None None "[]"]
    by (simp add: demo_pass_def keeps_bus_def)
  ultimately show ?thesis
    by (simp add: scenario_segment_def demo_pass_def world_tables_def world_frame)
qed

theorem service_keeps_books_witness:
  "sv_bus demo_later = map world_event (drop (length (rt_journal demo_reset)) (rt_journal demo_later)) \<and>
   rt_now demo_later = 5 \<and> sv_bus demo_later \<noteq> []"
proof -
  have "sv_reset (support_build demo_config (\<lambda>_. ''standard'') (\<lambda>_. 1)) (Some 8) demo_base = (Inr (), demo_reset)"
    by (simp add: demo_reset_def sv_reset_def sv_install_def support_build_def support_init_def demo_config_def Let_def)
  note reset = this
  have run: "(case fst (sv_call_scenario ''wait'' (Some demo_pass) demo_reset) of Inr _ \<Rightarrow> True | _ \<Rightarrow> False)"
     and later: "rt_now demo_later = 5" "sv_bus demo_later \<noteq> []"
    by code_simp+
  then obtain v where "sv_call_scenario ''wait'' (Some demo_pass) demo_reset = (Inr v, demo_later)"
    unfolding demo_later_def
    by (cases "sv_call_scenario ''wait'' (Some demo_pass) demo_reset") (auto split: sum.splits)
  then have "world_call\<^sup>*\<^sup>* demo_reset demo_later"
    by (intro r_into_rtranclp world_call.scenario[OF demo_pass_segment])
  from service_keeps_books[OF reset this] later show ?thesis by simp
qed

definition demo_served :: support where
  "demo_served = snd (sv_open_objective demo_sensor demo_route ''operations'' 1 None demo_base)"

lemma demo_base_books: "books_ok [] 0 demo_base"
  by (simp add: books_ok_def in_sync_def journal_ok_def verdicts_ok_def om_init_inv om_init_def)

lemma demo_served_call: "world_call demo_base demo_served"
proof -
  have "case fst (sv_open_objective demo_sensor demo_route ''operations'' 1 None demo_base) of
      Inr _ \<Rightarrow> True | _ \<Rightarrow> False"
    by code_simp
  then obtain ob where
    "sv_open_objective demo_sensor demo_route ''operations'' 1 None demo_base = (Inr ob, demo_served)"
    unfolding demo_served_def
    by (cases "sv_open_objective demo_sensor demo_route ''operations'' 1 None demo_base")
      (auto split: sum.splits)
  then show ?thesis by (rule world_call.opened[rotated]) (simp add: new_event_def)
qed

text \<open>C29: Publishing the journal from any index on comes to an end, although observing an event may journal
  further events that are published in turn: it adds at most two events for every evaluation that was started
  and not yet finished.\<close>
theorem publication_ends:
  "length (rt_journal (snd (publish_since i s))) \<le>
     length (rt_journal s) + 2 * length (filter (\<lambda>e. e_status e = Started) (ev_list s))"
proof -
  have "rt_journal (snd (publish_since i s)) = rt_journal (snd (publish_loop i s))"
    by (auto simp: publish_since_def and_then_def split: prod.split sum.split)
  then show ?thesis using publish_loop_budget[of i s] by (simp add: budget_def)
qed

text \<open>A command for a finished objective makes the service raise, with its rejection already
  journalled but not published; the next recorded action publishes only what it adds itself, so
  the rejection does not reach the bus with it either.\<close>
theorem rejection_never_published:
  assumes "in_sync [] n s" "journal_ok s" "om_inv s" "verdicts_ok s"
    and "om_objectives s (o_id ob0) = Some ob" "o_id ob = o_id ob0" "o_status ob \<in> terminal"
  shows "\<exists>m rej s1. sv_apply_typed support_apply ob0 c s = (Inl (ValueError m), s1) \<and>
    rt_journal s1 = rt_journal s @ [rej] \<and> ev_type rej = ''command.rejected'' \<and>
    (\<forall>ty tr ca p e s2. sv_record_external ty tr ca p s1 = (Inr e, s2) \<longrightarrow>
       world_event rej \<notin> set (sv_bus s2))"
  using rejection_stays_lost[of n s ob0 ob c] assms by (simp add: books_ok_def)

definition demo_closed :: support where
  "demo_closed = snd (sv_transition demo_oid Superseded None None None [] demo_served)"

definition is_superseded :: "objective option \<Rightarrow> bool" where
  "is_superseded ob = (case ob of None \<Rightarrow> False | Some x \<Rightarrow> o_status x = Superseded \<and> o_id x = demo_oid)"

lemma demo_closed_call: "world_call demo_served demo_closed"
proof -
  have "case fst (sv_transition demo_oid Superseded None None None [] demo_served) of
      Inr _ \<Rightarrow> True | _ \<Rightarrow> False"
    by code_simp
  then show ?thesis
    unfolding demo_closed_def
    by (cases "sv_transition demo_oid Superseded None None None [] demo_served")
      (auto split: sum.splits intro: world_call.moved)
qed

theorem rejection_never_published_witness:
  "\<exists>ob m rej s1. sv_apply_typed support_apply ob demo_command demo_closed = (Inl (ValueError m), s1) \<and>
    rt_journal s1 = rt_journal demo_closed @ [rej]"
proof -
  have "is_superseded (om_objectives demo_closed demo_oid)" by code_simp
  then obtain ob where "om_objectives demo_closed demo_oid = Some ob" "o_id ob = demo_oid"
      "o_status ob \<in> terminal"
    by (auto simp: is_superseded_def terminal_def split: option.splits)
  moreover have "books_ok [] 0 demo_closed"
    using world_call_books[OF demo_closed_call world_call_books[OF demo_served_call demo_base_books]] .
  ultimately show ?thesis
    using rejection_never_published[of 0 demo_closed ob ob demo_command]
    by (auto simp: books_ok_def)
qed
text \<open>A reset whose scenario cannot be built leaves the running world as it was, except that
  the service already carries the new seed.\<close>
theorem failed_reset_keeps_seed:
  assumes "sv_reset build (Some seed) s = (Inl x, s')"
  shows "s' = s\<lparr>sv_seed := seed\<rparr>"
  by (rule reset_failure[OF assms])

theorem failed_reset_keeps_seed_witness:
  "snd (sv_reset (\<lambda>s. (Inl (ValueError (Msg ''bad config'' [])), s)) (Some 8) demo_base) =
   demo_base\<lparr>sv_seed := 8\<rparr>"
proof -
  have "sv_reset (\<lambda>s. (Inl (ValueError (Msg ''bad config'' [])), s)) (Some 8) demo_base =
     (Inl (ValueError (Msg ''bad config'' [])),
      snd (sv_reset (\<lambda>s. (Inl (ValueError (Msg ''bad config'' [])), s)) (Some 8) demo_base))"
    by (simp add: sv_reset_def sv_install_def Let_def and_then_def)
  from failed_reset_keeps_seed[OF this] show ?thesis .
qed

section \<open>The support world\<close>

text \<open>C22: From its installation on, through any commands, arrivals, takings, resolutions, breaches, departures,
  surges and returns, with time passing between them and the rest of the program writing its own state, the
  support world's backlog figure is the length of its queue, the two teams split the workers, and moods stay
  between 0 and 1.\<close>
theorem support_stays_consistent:
  assumes "support_init cfg s0 = Inr s" and "support_step\<^sup>*\<^sup>* (support_install segs rates s) s'"
  shows "pr_backlog (project_support s') = length (su_queued s') \<and>
    teams_ok (su_workers s') (su_teams s') \<and> mood_ok (su_customers s')"
proof -
  have "support_inv s'"
    using assms(2)
    by (induction rule: rtranclp_induct)
      (auto intro: support_install_inv[OF assms(1)] support_step_inv)
  then show ?thesis by (simp add: support_inv_def backlog_projection)
qed

lemma demo_init: "support_init demo_config demo_base = Inr demo_base"
  by (simp add: support_init_def demo_base_def demo_config_def)

text \<open>A ticket arrives, and its service level is breached half an hour later.\<close>

definition demo_arrived :: support where
  "demo_arrived = snd (create_ticket ''CUS-00001'' ''high'' ''billing'' demo_world)"

definition demo_breached :: support where
  "demo_breached = snd (sla_fired ''TKT-000001'' (demo_arrived\<lparr>rt_now := 31\<rparr>))"

lemma create_ticket_now: "rt_now (snd (create_ticket cid sev sk s)) = rt_now s"
  by (cases "map_of (su_customers s) cid";
      simp add: create_ticket_def Let_def split_beta puts journal_simps item_def)

lemma demo_arrived_now: "rt_now demo_arrived = 0"
proof -
  have "rt_now demo_world = 0"
    using support_install_frame[of demo_base] by (simp add: demo_world_def sup_frame_def)
  then show ?thesis by (simp add: demo_arrived_def create_ticket_now)
qed

lemma demo_breached_run: "support_step\<^sup>*\<^sup>* demo_world demo_breached"
proof -
  have "support_step demo_world demo_arrived" unfolding demo_arrived_def by (rule support_step.arrived)
  moreover have "support_step demo_arrived (demo_arrived\<lparr>rt_now := 31\<rparr>)"
    by (rule support_step.clocked) (simp add: demo_arrived_now)
  moreover have "support_step (demo_arrived\<lparr>rt_now := 31\<rparr>) demo_breached"
    unfolding demo_breached_def by (rule support_step.sla)
  ultimately show ?thesis by (meson rtranclp.rtrancl_into_rtrancl rtranclp.rtrancl_refl)
qed

theorem support_stays_consistent_witness:
  "pr_backlog (project_support demo_breached) = length (su_queued demo_breached) \<and>
   teams_ok (su_workers demo_breached) (su_teams demo_breached) \<and> mood_ok (su_customers demo_breached)"
  by (rule support_stays_consistent[OF demo_init demo_breached_run[unfolded demo_world_def]])

lemma demo_world_inv: "support_inv demo_world"
  unfolding demo_world_def by (rule support_install_inv[OF demo_init])

lemma demo_world_applied: "map_of (su_applied demo_world) ''cmd-1'' = None"
  by code_simp

text \<open>C26: A new, valid reallocation (its duration a positive finite number that a float can hold) is
  accepted: every listed worker, and nobody else, is moved to the support team, and the answer is
  remembered under the command's id.\<close>
theorem valid_command_accepted:
  assumes "teams_ok (su_workers s) (su_teams s)" and "map_of (su_applied s) (cmd_id c) = None"
    and "cmd_type c = ''reallocate_workers''"
    and "valid_reallocation (su_workers s) (cmd_payload c) ids"
  shows "\<exists>e s'. support_apply c s = (Inr e, s') \<and> ev_type e = ''command.accepted'' \<and>
     map_of (su_applied s') (cmd_id c) = Some e \<and> teams_ok (su_workers s') (su_teams s') \<and>
     map_of (su_workers s') =
       (\<lambda>i. if i \<in> set ids then map_option moved_worker (map_of (su_workers s) i)
            else map_of (su_workers s) i)"
  using accept_effect[OF assms] by blast

lemma demo_valid_ids: "valid_reallocation (su_workers demo_world) (cmd_payload demo_command) [''WRK-0003'']"
proof -
  have "validate_reallocate (su_workers demo_world) (cmd_payload demo_command) = Inr None"
    by code_simp
  then obtain ids where v: "valid_reallocation (su_workers demo_world) (cmd_payload demo_command) ids"
    using validate_reallocate_None by blast
  have "ids = [''WRK-0003'']"
    using v by (auto simp: valid_reallocation_def demo_command_def dict_get_def)
  with v show ?thesis by simp
qed

theorem valid_command_accepted_witness:
  "\<exists>e s'. support_apply demo_command demo_world = (Inr e, s') \<and> ev_type e = ''command.accepted'' \<and>
     map_of (su_workers s') ''WRK-0003'' =
       map_option moved_worker (map_of (su_workers demo_world) ''WRK-0003'')"
  using valid_command_accepted[of demo_world demo_command "[''WRK-0003'']"]
    demo_world_inv demo_world_applied demo_valid_ids
  by (auto simp: support_inv_def demo_command_def)

text \<open>C27: Applying a command twice is applying it once: a second command with the same id gets the
  same answer and changes nothing.\<close>
theorem command_idempotent:
  assumes "support_apply c s = (Inr e, s1)" and "teams_ok (su_workers s) (su_teams s)"
    and "cmd_id c' = cmd_id c"
  shows "support_apply c' s1 = (Inr e, s1)"
  by (rule apply_idempotent[OF assms])

theorem command_idempotent_witness:
  "\<exists>e s1. support_apply demo_command demo_world = (Inr e, s1) \<and>
     support_apply demo_command s1 = (Inr e, s1)"
proof -
  have ok: "teams_ok (su_workers demo_world) (su_teams demo_world)"
    using demo_world_inv by (simp add: support_inv_def)
  obtain e s1 where r: "support_apply demo_command demo_world = (Inr e, s1)"
    using accept_effect[OF ok _ _ demo_valid_ids] demo_world_applied by (auto simp: demo_command_def)
  from command_idempotent[OF r ok refl] r show ?thesis by blast
qed

text \<open>C28: Any other new command is rejected without moving a worker, and the rejection is remembered under the
  command's id; the one exception is a reallocation whose payload passes every check before that of its duration
  and whose duration is an int too large for a float: then the handler raises OverflowError, and the world is left
  as it was, with no answer recorded.\<close>
theorem invalid_command_rejected:
  assumes "map_of (su_applied s) (cmd_id c) = None"
    and "cmd_type c \<noteq> ''reallocate_workers'' \<or>
      (\<nexists>ids. valid_reallocation (su_workers s) (cmd_payload c) ids)"
  shows "if cmd_type c = ''reallocate_workers'' \<and> overflowing_duration (cmd_payload c)
    then support_apply c s = (Inl (Raised ''OverflowError'' [VStr ''int too large to convert to float'']), s)
    else \<exists>e s'. support_apply c s = (Inr e, s') \<and> ev_type e = ''command.rejected'' \<and>
      map_of (su_applied s') (cmd_id c) = Some e \<and>
      su_workers s' = su_workers s \<and> su_teams s' = su_teams s"
proof (cases "cmd_type c = ''reallocate_workers'' \<and> overflowing_duration (cmd_payload c)")
  case True
  with overflow_effect[OF assms(1)] show ?thesis by simp
next
  case False
  with assms(2) have "cmd_type c \<noteq> ''reallocate_workers'' \<or>
      (\<nexists>ids. valid_reallocation (su_workers s) (cmd_payload c) ids) \<and> \<not> overflowing_duration (cmd_payload c)"
    by blast
  from reject_effect[OF assms(1) this] False show ?thesis by auto
qed

theorem invalid_command_rejected_witness:
  "\<exists>e s'. support_apply (demo_command\<lparr>cmd_type := ''hire''\<rparr>) demo_world = (Inr e, s') \<and>
     ev_type e = ''command.rejected'' \<and> su_workers s' = su_workers demo_world"
  using invalid_command_rejected[of demo_world "demo_command\<lparr>cmd_type := ''hire''\<rparr>"] demo_world_applied
  by (auto simp: demo_command_def)

text \<open>A duration of \<open>10 ^ 400\<close> minutes is such a duration.\<close>

definition huge_command :: sim_command where
  "huge_command = demo_command\<lparr>cmd_payload :=
     [(''worker_ids'', VList [VStr ''WRK-0003'']), (''from_team_id'', VStr ''TEAM-RESERVE''),
      (''to_team_id'', VStr ''TEAM-SUPPORT''), (''duration_minutes'', VInt (10 ^ 400))]\<rparr>"

lemma huge_duration_raises:
  "support_apply huge_command demo_world =
     (Inl (Raised ''OverflowError'' [VStr ''int too large to convert to float'']), demo_world)"
proof (rule overflow_effect)
  show "map_of (su_applied demo_world) (cmd_id huge_command) = None"
    using demo_world_applied by (simp add: huge_command_def demo_command_def)
  show "cmd_type huge_command = ''reallocate_workers''" by (simp add: huge_command_def demo_command_def)
  have "too_large (VInt (10 ^ 400))" by (simp add: too_large_def)
  then show "overflowing_duration (cmd_payload huge_command)"
    by (simp add: overflowing_duration_def huge_command_def)
qed

text \<open>When the shift of a moved worker ends, the worker goes back to the reserve team, idle
  of any ticket, the teams stay split, and no other worker changes.\<close>
theorem worker_returns:
  assumes "teams_ok (su_workers s) (su_teams s)" and "map_of (su_workers s) wid = Some w"
  shows "\<exists>s'. return_worker wid e s = (Inr (), s') \<and> teams_ok (su_workers s') (su_teams s') \<and>
     (\<exists>w'. map_of (su_workers s') wid = Some w' \<and> w_team w' = reserve_team \<and>
        w_status w' = ''reserve'' \<and> w_ticket w' = None) \<and>
     (\<forall>i\<in>- {wid}. map_of (su_workers s') i = map_of (su_workers s) i)"
  using return_effect[OF assms, of e] by auto

definition demo_event :: sim_event where
  "demo_event = fst (emit ''command.accepted'' None None None None [] demo_base)"

theorem worker_returns_witness:
  "\<exists>s'. return_worker ''WRK-0001'' demo_event demo_world = (Inr (), s') \<and>
     teams_ok (su_workers s') (su_teams s') \<and>
     (\<exists>w'. map_of (su_workers s') ''WRK-0001'' = Some w' \<and> w_team w' = reserve_team)"
proof -
  have "map_of (su_workers demo_world) ''WRK-0001'' \<noteq> None" by code_simp
  then obtain w where "map_of (su_workers demo_world) ''WRK-0001'' = Some w" by blast
  from worker_returns[OF _ this, of demo_event] demo_world_inv show ?thesis
    by (auto simp: support_inv_def)
qed

section \<open>Event plumbing\<close>

text \<open>C33: Pruning old duplicates as events arrive does not change what is detected: while the
  clock does not run backwards, an anomaly is reported exactly when three duplicate invoices of
  the last minute were seen, over the whole history.\<close>
theorem anomaly_over_history:
  assumes "\<forall>(e, t) \<in> set es. t \<le> now"
  shows "detect_anomaly now (observe_all es []) =
    (let recent = filter (\<lambda>(w, t). now - t \<le> 60) (seen_duplicates es)
     in if 3 \<le> length recent then Some (map fst recent) else None)"
  using detect_anomaly_spec[OF assms] by (simp add: detect_anomaly_def)

definition demo_duplicate :: "string \<Rightarrow> fleet_event" where
  "demo_duplicate wid =
     \<lparr>fe_type = ''workflow.exception.detected'', fe_workflow = Some wid,
      fe_extra = [(''category'', VStr ''duplicate-invoice'')]\<rparr>"

theorem anomaly_over_history_witness:
  "detect_anomaly 100 (observe_all
     [(demo_duplicate ''W1'', 10), (demo_duplicate ''W2'', 50), (demo_duplicate ''W3'', 70),
      (demo_duplicate ''W4'', 90)] []) = Some [''W2'', ''W3'', ''W4'']"
  by (subst anomaly_over_history)
     (simp_all add: seen_duplicates_def is_duplicate_invoice_def demo_duplicate_def dict_get_def
        str_or_def)

text \<open>C34: In every reachable state of the fleet manager's queue, as long as the processor does not
  raise, pending entries have a task that will flush them, are filed under distinct keys, and no
  batch handed out was empty or named a key twice.\<close>
theorem pending_never_stranded:
  assumes "queue_reachable s"
  shows "(fq_pending s = [] \<or> fq_task s \<noteq> Idle) \<and> distinct (map fst (fq_pending s)) \<and>
    (\<forall>b \<in> set (fq_batches s). b \<noteq> [] \<and> distinct (map queue_key b))"
  using queue_reachable_inv[OF assms] by (auto simp: queue_inv_def)

definition demo_entry :: queue_entry where
  "demo_entry = \<lparr>qe_workflow = Some ''W1'', qe_reason = ''wake''\<rparr>"

theorem pending_never_stranded_witness:
  "fq_task (enqueue demo_entry new_queue) \<noteq> Idle"
proof -
  have "queue_reachable (enqueue demo_entry new_queue)"
    by (rule queue_reachable.step[OF queue_reachable.new queue_step.enqueued])
  from pending_never_stranded[OF this] show ?thesis by (simp add: enqueue_def new_queue_def)
qed

text \<open>When the processor does raise, what arrived while it ran stays pending without a task.\<close>

lemma raising_processor_strands:
  assumes "fq_task s = Processing"
  shows "map_of (fq_pending (flush_failed (enqueue q s))) (queue_key q) = Some q \<and>
    fq_task (flush_failed (enqueue q s)) = Idle"
  using assms by (simp add: flush_failed_def enqueue_def Let_def)

datatype gate_write = Recorded string "string option" "string option" | Cleared string

definition gate_do :: "gate_write \<Rightarrow> gates \<Rightarrow> gates" where
  "gate_do w = (case w of Recorded wid ph ev \<Rightarrow> gates_record wid ph ev | Cleared wid \<Rightarrow> gates_clear wid)"

definition gate_effect :: "gate_write \<Rightarrow> (string \<times> gate option) option" where
  "gate_effect w = (case w of
      Recorded wid ph ev \<Rightarrow>
        if wid = '''' \<or> str_or ph '''' = '''' \<or> str_or ev '''' = '''' then None
        else Some (wid, Some \<lparr>g_phase = the ph, g_event = the ev\<rparr>)
    | Cleared wid \<Rightarrow> Some (wid, None))"

lemma gate_do_effect:
  "gate_do w g = (case gate_effect w of None \<Rightarrow> g | Some e \<Rightarrow> gate_store.step e g)"
  by (cases w) (auto simp: gate_do_def gate_effect_def gates_record_def gate_store.step_def gates_put_def)

lemma gate_runs: "fold gate_do ws g = fold gate_store.step (List.map_filter gate_effect ws) g"
  by (induction ws arbitrary: g) (auto simp: gate_do_effect List.map_filter_simps split: option.split)

text \<open>What is pending for a workflow is what the last complete recording or clearing of that
  workflow left; recordings with an empty part change nothing.\<close>
theorem last_gate_wins:
  "gates_get wid (fold gate_do ws g) =
    (case map_of (rev (List.map_filter gate_effect ws)) wid of
       None \<Rightarrow> gates_get wid g | Some v \<Rightarrow> v)"
  unfolding gate_runs by (rule gate_store.last_write)

end
