(* ===== verification/Governance.thy ===== *)
theory Governance imports Prelude begin

text \<open>
  The operator kill switch (\<^verbatim>\<open>governance/kill_switch.py\<close>), the in-process authority
  resolver (\<^verbatim>\<open>governance/authority.py\<close>) and the role matrix
  (\<^verbatim>\<open>api/shared/authority.py\<close>); the first two are under
  \<^verbatim>\<open>api/server/services/\<close>.  Clock readings and fresh ids are arguments; a lock of the code
  makes each operation atomic, as it is here.
\<close>

section \<open>Shell patterns\<close>

text \<open>
  \<^verbatim>\<open>fnmatch.fnmatchcase\<close>: a star matches any string, a question mark one character,
  brackets a set of characters with ranges, negated by an exclamation mark.  A bracket that is
  never closed is an ordinary character.
\<close>

fun class_has :: "char \<Rightarrow> string \<Rightarrow> bool" where
  "class_has c [] = False"
| "class_has c (lo # h # hi # rest) =
     (if h = CHR ''-'' then lo \<le> c \<and> c \<le> hi \<or> class_has c rest
      else c = lo \<or> class_has c (h # hi # rest))"
| "class_has c (x # rest) = (c = x \<or> class_has c rest)"

text \<open>The text up to the closing bracket and the rest of the pattern; the first character of a
  class is never its end.\<close>

fun until_bracket :: "string \<Rightarrow> (string \<times> string) option" where
  "until_bracket [] = None"
| "until_bracket (c # cs) =
     (if c = CHR '']'' then Some ([], cs)
      else map_option (\<lambda>(a, b). (c # a, b)) (until_bracket cs))"

definition split_class :: "string \<Rightarrow> (bool \<times> string \<times> string) option" where
  "split_class p =
     (let (neg, q) = (case p of c # cs \<Rightarrow> if c = CHR ''!'' then (True, cs) else (False, p)
                      | [] \<Rightarrow> (False, p))
      in case q of
           [] \<Rightarrow> None
         | c # cs \<Rightarrow> map_option (\<lambda>(a, b). (neg, c # a, b)) (until_bracket cs))"

lemma until_bracket_length: "until_bracket p = Some (a, b) \<Longrightarrow> length b < length p"
  by (induction p arbitrary: a) (auto split: if_splits)

lemma split_class_length: "split_class p = Some (n, a, b) \<Longrightarrow> length b < length p"
  by (cases p) (auto simp: split_class_def dest!: until_bracket_length split: if_splits list.splits)

function glob :: "string \<Rightarrow> string \<Rightarrow> bool" where
  "glob [] s = (s = [])"
| "glob (p # ps) s =
     (if p = CHR ''*'' then glob ps s \<or> (if s = [] then False else glob (p # ps) (tl s))
      else if s = [] then False
      else if p = CHR ''?'' then glob ps (tl s)
      else if p = CHR ''['' then
        (case split_class ps of
           None \<Rightarrow> hd s = p \<and> glob ps (tl s)
         | Some (neg, cls, rest) \<Rightarrow> class_has (hd s) cls \<noteq> neg \<and> glob rest (tl s))
      else hd s = p \<and> glob ps (tl s))"
  by pat_completeness auto
termination
proof (relation "measure (\<lambda>(p, s). length p + length s)")
  fix ps s :: string and x :: "bool \<times> string \<times> string" and y neg cls rest
  assume "split_class ps = Some x" "(neg, y) = x" "(cls, rest) = y"
  then have "length rest < length ps" using split_class_length[of ps neg cls rest] by simp
  then show "((rest, tl s), (p # ps, s)) \<in> measure (\<lambda>(p, s). length p + length s)" for p
    by simp
qed auto

declare glob.simps(2) [simp del]

section \<open>Kill switches\<close>

definition is_wild :: "string \<Rightarrow> bool" where
  "is_wild p \<longleftrightarrow> p = ''*'' \<or> CHR ''*'' \<in> set p \<or> CHR ''?'' \<in> set p"

definition pattern_matches :: "string \<Rightarrow> string \<Rightarrow> bool" where
  "pattern_matches p v =
     (if p = ''*'' then True
      else if CHR ''*'' \<in> set p \<or> CHR ''?'' \<in> set p then glob p v
      else p = v)"

record kill =
  k_id :: string
  k_actor :: string
  k_tool :: string
  k_created :: rat
  k_expires :: rat
  k_reason :: string
  k_by :: string

type_synonym kills = "(string \<times> kill) list"

definition kill_matches :: "string \<Rightarrow> string \<Rightarrow> kill \<Rightarrow> bool" where
  "kill_matches actor tool k \<longleftrightarrow>
     pattern_matches (k_actor k) actor \<and> pattern_matches (k_tool k) tool"

definition kill_expired :: "rat \<Rightarrow> kill \<Rightarrow> bool" where
  "kill_expired now k \<longleftrightarrow> k_expires k \<le> now"

definition remaining_seconds :: "rat \<Rightarrow> kill \<Rightarrow> rat" where
  "remaining_seconds now k = max 0 (k_expires k - now)"

text \<open>\<^verbatim>\<open>fresh\<close> is the id drawn for the kill, \<^verbatim>\<open>now\<close> the time.\<close>

definition kills_add ::
  "string \<Rightarrow> rat \<Rightarrow> string \<Rightarrow> string \<Rightarrow> rat \<Rightarrow> string \<Rightarrow> string \<Rightarrow> kills \<Rightarrow> kill result \<times> kills" where
  "kills_add fresh now actor tool ttl reason by_whom ks =
     (if actor = [] \<or> tool = [] then
        (Inl (ValueError (Msg
           ''kill switch: actor and tool are required (use \\'*\\' for wildcard)'' [])), ks)
      else if ttl \<le> 0 then
        (Inl (ValueError (Msg ''kill switch: ttl_seconds must be > 0; got {}'' [VFloat (Fin ttl)])), ks)
      else
        let k = \<lparr>k_id = fresh, k_actor = actor, k_tool = tool, k_created = now,
                 k_expires = now + ttl, k_reason = reason, k_by = by_whom\<rparr>
        in (Inr k, dict_set fresh k ks))"

definition kills_remove :: "string \<Rightarrow> kills \<Rightarrow> bool \<times> kills" where
  "kills_remove kid ks = (dict_has ks kid, dict_del kid ks)"

text \<open>The lazy clean-up both readers do first.\<close>

definition purge :: "rat \<Rightarrow> kills \<Rightarrow> kills" where
  "purge now ks = filter (\<lambda>(_, k). \<not> kill_expired now k) ks"

definition list_active :: "rat \<Rightarrow> kills \<Rightarrow> kill list \<times> kills" where
  "list_active now ks =
     (let ks1 = purge now ks in (sort_key (\<lambda>k. - k_created k) (map snd ks1), ks1))"

definition specificity :: "kill \<Rightarrow> nat \<times> rat" where
  "specificity k =
     ((if is_wild (k_actor k) then 0 else 2) + (if is_wild (k_tool k) then 0 else 1), k_created k)"

definition spec_less :: "nat \<times> rat \<Rightarrow> nat \<times> rat \<Rightarrow> bool" where
  "spec_less a b \<longleftrightarrow> fst a < fst b \<or> fst a = fst b \<and> snd a < snd b"

text \<open>\<^verbatim>\<open>max\<close> with a key: the first of the greatest elements.\<close>

fun max_first :: "kill \<Rightarrow> kill list \<Rightarrow> kill" where
  "max_first best [] = best"
| "max_first best (k # ks) =
     max_first (if spec_less (specificity best) (specificity k) then k else best) ks"

definition is_killed :: "rat \<Rightarrow> string \<Rightarrow> string \<Rightarrow> kills \<Rightarrow> kill option \<times> kills" where
  "is_killed now actor tool ks =
     (let ks1 = purge now ks in
      case filter (kill_matches actor tool) (map snd ks1) of
        [] \<Rightarrow> (None, ks1)
      | k # rest \<Rightarrow> (Some (max_first k rest), ks1))"

lemma spec_less_trans: "spec_less a b \<Longrightarrow> spec_less b c \<Longrightarrow> spec_less a c"
  by (auto simp: spec_less_def)

lemma spec_less_connex: "\<not> spec_less a b \<Longrightarrow> \<not> spec_less b c \<Longrightarrow> \<not> spec_less a c"
  by (auto simp: spec_less_def)

lemma max_first_in: "max_first best ks \<in> insert best (set ks)"
  by (induction ks arbitrary: best) (auto split: if_splits)

lemma max_first_max:
  "k \<in> insert best (set ks) \<Longrightarrow> \<not> spec_less (specificity (max_first best ks)) (specificity k)"
proof (induction ks arbitrary: best k)
  case Nil
  then show ?case by (simp add: spec_less_def)
next
  case (Cons x xs)
  let ?b = "if spec_less (specificity best) (specificity x) then x else best"
  have b: "\<not> spec_less (specificity (max_first ?b xs)) (specificity ?b)"
    using Cons.IH[of ?b ?b] by simp
  have "\<not> spec_less (specificity ?b) (specificity best)" "\<not> spec_less (specificity ?b) (specificity x)"
    by (auto simp: spec_less_def)
  with b have "\<not> spec_less (specificity (max_first ?b xs)) (specificity y)" if "y = best \<or> y = x" for y
    using that spec_less_connex by blast
  with Cons show ?case by auto
qed

lemma is_killed_cases:
  "fst (is_killed now actor tool ks) = None \<longleftrightarrow>
     (\<forall>(i, k) \<in> set ks. kill_expired now k \<or> \<not> kill_matches actor tool k)"
proof -
  have "fst (is_killed now actor tool ks) = None \<longleftrightarrow>
      filter (kill_matches actor tool) (map snd (purge now ks)) = []"
    by (simp add: is_killed_def Let_def split: list.split)
  also have "\<dots> \<longleftrightarrow> (\<forall>(i, k) \<in> set ks. kill_expired now k \<or> \<not> kill_matches actor tool k)"
    by (auto simp: filter_empty_conv purge_def)
  finally show ?thesis .
qed

lemma is_killed_Some:
  assumes "fst (is_killed now actor tool ks) = Some k"
  shows "k \<in> snd ` set ks" "\<not> kill_expired now k" "kill_matches actor tool k"
    and "(i, k') \<in> set ks \<Longrightarrow> \<not> kill_expired now k' \<Longrightarrow> kill_matches actor tool k' \<Longrightarrow>
      \<not> spec_less (specificity k) (specificity k')"
proof -
  let ?c = "filter (kill_matches actor tool) (map snd (purge now ks))"
  obtain x xs where c: "?c = x # xs" and k: "k = max_first x xs"
    using assms by (auto simp: is_killed_def Let_def split: list.splits)
  have set_c: "set ?c = {k. k \<in> snd ` set ks \<and> \<not> kill_expired now k \<and> kill_matches actor tool k}"
    by (force simp: purge_def)
  have "k \<in> set ?c" using max_first_in[of x xs] by (simp add: c k)
  then show "k \<in> snd ` set ks" "\<not> kill_expired now k" "kill_matches actor tool k"
    using set_c by auto
  show "\<not> spec_less (specificity k) (specificity k')"
    if "(i, k') \<in> set ks" "\<not> kill_expired now k'" "kill_matches actor tool k'"
  proof -
    have "k' \<in> set ?c" unfolding set_c using that by force
    then show ?thesis using max_first_max[of k' x xs] by (simp add: c k)
  qed
qed

lemma purge_active: "(i, k) \<in> set (snd (is_killed now actor tool ks)) \<longleftrightarrow>
    (i, k) \<in> set ks \<and> \<not> kill_expired now k"
  by (auto simp: is_killed_def purge_def Let_def split: list.splits)

text \<open>A literal pattern matches exactly itself; a lone star matches everything.\<close>

lemma pattern_literal: "\<not> is_wild p \<Longrightarrow> pattern_matches p v \<longleftrightarrow> p = v"
  by (auto simp: pattern_matches_def is_wild_def)

lemma glob_star: "glob ''*'' s"
proof (induction s)
  case Nil
  show ?case by (subst glob.simps(2)) simp
next
  case (Cons c s)
  then show ?case by (subst glob.simps(2)) simp
qed

lemma glob_prefix_star: "CHR ''*'' \<notin> set p \<Longrightarrow> CHR ''?'' \<notin> set p \<Longrightarrow> CHR ''['' \<notin> set p \<Longrightarrow>
    glob (p @ ''*'') s \<longleftrightarrow> (\<exists>t. s = p @ t)"
proof (induction p arbitrary: s)
  case Nil
  then show ?case by (simp add: glob_star)
next
  case (Cons c p)
  then show ?case by (subst append_Cons, subst glob.simps(2)) (cases s, auto)
qed

end
