(* ===== verification/Authority.thy ===== *)
theory Authority imports Prelude begin

text \<open>
  Delegated authority: the ordered matrix walk of
  \<^verbatim>\<open>api/server/services/governance/authority.py\<close>, the role matrix of
  \<^verbatim>\<open>api/shared/authority.py\<close> and the rules the kernel derives from the active pack
  (\<^verbatim>\<open>_active_pack_authority_rules\<close> in \<^verbatim>\<open>governance/kernel.py\<close>).  Matrix rules are the
  JSON dictionaries they are in the code.
\<close>

section \<open>Values of a rule\<close>

text \<open>\<^verbatim>\<open>a < b\<close> on numbers or on strings; other operands raise.\<close>

definition py_lt :: "pyval \<Rightarrow> pyval \<Rightarrow> bool result" where
  "py_lt a b =
     (if is_num a \<and> is_num b then Inr (pf_lt (num_of a) (num_of b))
      else case (a, b) of
        (VStr s, VStr t) \<Rightarrow> Inr (s < t)
      | _ \<Rightarrow> Inl (TypeError (Msg ''unorderable'' [a, b])))"

text \<open>\<^verbatim>\<open>x.get\<close> on something that is not a dictionary.\<close>

definition get_attr :: "pyval \<Rightarrow> pydict result" where
  "get_attr v = (case v of VDict d \<Rightarrow> Inr d | _ \<Rightarrow> Inl (Raised ''AttributeError'' [v]))"

definition field_matches :: "pyval \<Rightarrow> string option \<Rightarrow> bool" where
  "field_matches rule_value request =
     (if rule_value = VStr ''*'' then True
      else if request = None \<or> request = Some [] then False
      else rule_value = opt_str request)"

text \<open>The band check; \<^verbatim>\<open>value\<close> is the amount after \<^verbatim>\<open>float\<close>.\<close>

definition value_in_band :: "pyval \<Rightarrow> pyfloat option \<Rightarrow> bool result" where
  "value_in_band band value =
     (if \<not> truthy band then Inr True
      else bind_result (get_attr band) (\<lambda>b.
        let bmin = dict_get b ''min''; bmax = dict_get b ''max'' in
        if bmin = VNone \<and> bmax = VNone then Inr True
        else (case value of
            None \<Rightarrow> Inr False
          | Some v \<Rightarrow>
              bind_result (if bmin = VNone then Inr False else py_lt (VFloat v) bmin) (\<lambda>low.
              if low then Inr False
              else bind_result (if bmax = VNone then Inr False else py_lt bmax (VFloat v)) (\<lambda>high.
              Inr (\<not> high))))))"

definition is_malformed :: "pydict \<Rightarrow> bool result" where
  "is_malformed rule =
     (if \<not> truthy (dict_get rule ''rule_id'') \<or> \<not> truthy (dict_get rule ''action'') \<or>
         \<not> truthy (dict_get rule ''approver_role'') then Inr True
      else
        let band = dict_get rule ''value_band_gbp'' in
        if band = VNone then Inr True
        else bind_result (get_attr band) (\<lambda>b.
          let bmin = dict_get b ''min''; bmax = dict_get b ''max'' in
          if bmin \<noteq> VNone \<and> bmax \<noteq> VNone then py_lt bmax bmin else Inr False))"

section \<open>Resolution\<close>

record request =
  rq_action :: string
  rq_value :: "pyfloat option"
  rq_category :: "string option"
  rq_role :: "string option"
  rq_unit :: "string option"
  rq_geo :: "string option"

record resolution =
  rs_matched :: bool
  rs_approver :: pyval
  rs_threshold :: pyval
  rs_chain :: "pyval list"
  rs_rule :: pyval
  rs_basis :: pyval

text \<open>Whether a rule applies to a request; a malformed rule is skipped before anything else.\<close>

definition rule_applies :: "pydict \<Rightarrow> request \<Rightarrow> bool result" where
  "rule_applies rule q =
     bind_result (is_malformed rule) (\<lambda>bad.
       if bad then Inr False
       else if dict_get rule ''action'' \<noteq> VStr (rq_action q) then Inr False
       else if \<not> field_matches (dict_get rule ''category'') (rq_category q) then Inr False
       else if \<not> field_matches (dict_get rule ''business_unit'') (rq_unit q) then Inr False
       else if \<not> field_matches (dict_get rule ''geography'') (rq_geo q) then Inr False
       else if \<not> field_matches (dict_get rule ''requester_role'') (rq_role q) then Inr False
       else value_in_band (dict_get rule ''value_band_gbp'') (rq_value q))"

text \<open>The answer built from a rule.  \<^verbatim>\<open>list(x or [])\<close> of a list; another truthy value is reported
  as a TypeError.\<close>

definition resolution_of :: "pydict \<Rightarrow> resolution result" where
  "resolution_of rule =
     bind_result (get_attr (py_or (dict_get rule ''value_band_gbp'') (VDict []))) (\<lambda>band.
     bind_result (case py_or (dict_get rule ''escalation_chain'') (VList []) of
                    VList xs \<Rightarrow> Inr xs | v \<Rightarrow> Inl (TypeError (Msg ''not a list'' [v]))) (\<lambda>chain.
     Inr \<lparr>rs_matched = True, rs_approver = dict_get rule ''approver_role'',
          rs_threshold = dict_get band ''max'', rs_chain = chain,
          rs_rule = dict_get rule ''rule_id'',
          rs_basis = py_or (dict_get_or rule ''basis'' (VStr [])) (VStr [])\<rparr>))"

definition no_resolution :: resolution where
  "no_resolution = \<lparr>rs_matched = False, rs_approver = VNone, rs_threshold = VNone, rs_chain = [],
     rs_rule = VNone, rs_basis = VNone\<rparr>"

fun resolve :: "pydict list \<Rightarrow> request \<Rightarrow> resolution result" where
  "resolve [] q = Inr no_resolution"
| "resolve (rule # rules) q =
     bind_result (rule_applies rule q) (\<lambda>yes.
       if yes then resolution_of rule else resolve rules q)"

definition check_authority :: "pydict list \<Rightarrow> string \<Rightarrow> request \<Rightarrow> (bool \<times> pyval) result" where
  "check_authority matrix role q =
     bind_result (resolve matrix q) (\<lambda>r.
       Inr (if \<not> rs_matched r then (False, VNone)
            else if rs_approver r = VStr role then (True, rs_rule r)
            else if VStr role \<in> set (rs_chain r) then (True, rs_rule r)
            else (False, rs_rule r)))"

subsection \<open>First match\<close>

lemma resolve_no_match:
  "resolve rules q = Inr r \<Longrightarrow> \<not> rs_matched r \<Longrightarrow> \<forall>x \<in> set rules. rule_applies x q = Inr False"
proof (induction rules)
  case (Cons x xs)
  from Cons.prems(1) obtain yes where y: "rule_applies x q = Inr yes"
      "(if yes then resolution_of x else resolve xs q) = Inr r"
    by (auto simp: bind_result_Inr_iff)
  have "\<not> yes"
    using y(2) Cons.prems(2) by (auto simp: resolution_of_def bind_result_Inr_iff)
  with y Cons show ?case by simp
qed simp

lemma resolve_append:
  assumes "\<forall>x \<in> set before. rule_applies x q = Inr False"
  shows "resolve (before @ rules) q = resolve rules q"
  using assms by (induction before) auto

lemma resolve_first:
  "resolve rules q = Inr r \<Longrightarrow> rs_matched r \<Longrightarrow>
     \<exists>before rule after. rules = before @ rule # after \<and> rule_applies rule q = Inr True \<and>
       (\<forall>x \<in> set before. rule_applies x q = Inr False) \<and> resolution_of rule = Inr r"
proof (induction rules)
  case (Cons x xs)
  from Cons.prems(1) obtain yes where y: "rule_applies x q = Inr yes"
      "(if yes then resolution_of x else resolve xs q) = Inr r"
    by (auto simp: bind_result_Inr_iff)
  show ?case
  proof (cases yes)
    case True
    with y show ?thesis by (intro exI[of _ "[]"] exI[of _ x] exI[of _ xs]) simp
  next
    case False
    with y Cons obtain before rule after where "xs = before @ rule # after"
        "rule_applies rule q = Inr True" "\<forall>z \<in> set before. rule_applies z q = Inr False"
        "resolution_of rule = Inr r"
      by auto
    with y False show ?thesis
      by (intro exI[of _ "x # before"] exI[of _ rule] exI[of _ after]) simp
  qed
qed (auto simp: no_resolution_def)

text \<open>An amount inside a band, on numbers: both bounds inclusive.\<close>

lemma value_in_band_finite:
  assumes "dict_get b ''min'' = VFloat (Fin lo)" "dict_get b ''max'' = VFloat (Fin hi)"
  shows "value_in_band (VDict b) (Some (Fin v)) = Inr (lo \<le> v \<and> v \<le> hi)"
  using assms by (cases b) (auto simp: value_in_band_def get_attr_def py_lt_def Let_def not_less)

text \<open>Every comparison with a NaN is false, so a NaN amount is inside every band.\<close>

lemma value_in_band_nan:
  assumes "dict_get b ''min'' = VFloat lo" "dict_get b ''max'' = VFloat hi"
  shows "value_in_band (VDict b) (Some NaN) = Inr True"
  using assms
  by (cases b; cases lo; cases hi) (auto simp: value_in_band_def get_attr_def py_lt_def Let_def)

section \<open>The role matrix\<close>

record authority_row =
  ar_role :: string
  ar_limit :: pyfloat
  ar_actions :: "string list"
  ar_delegate :: "string option"
  ar_ooo :: bool

text \<open>\<^verbatim>\<open>authority_check\<close>: allowed or not, with the id of the governing rule.\<close>

definition authority_check ::
  "(string \<times> authority_row) list \<Rightarrow> string \<Rightarrow> string \<Rightarrow> pyfloat option \<Rightarrow> bool \<times> string option" where
  "authority_check rows role action value =
     (case map_of rows role of
        None \<Rightarrow> (False, None)
      | Some row \<Rightarrow>
          if action \<notin> set (ar_actions row) then
            (False, Some (''AUTH-'' @ role @ ''-deny-action''))
          else if (case value of None \<Rightarrow> False | Some v \<Rightarrow> pf_lt (ar_limit row) v) then
            (False, Some (''AUTH-'' @ role @ ''-spend-limit''))
          else (True, Some (''AUTH-'' @ role @ ''-'' @ action)))"

definition delegate_for :: "(string \<times> authority_row) list \<Rightarrow> string \<Rightarrow> string option" where
  "delegate_for rows role =
     (case map_of rows role of None \<Rightarrow> None | Some row \<Rightarrow> ar_delegate row)"

definition is_ooo :: "(string \<times> authority_row) list \<Rightarrow> string \<Rightarrow> bool" where
  "is_ooo rows role = (case map_of rows role of None \<Rightarrow> False | Some row \<Rightarrow> ar_ooo row)"

lemma authority_check_allowed:
  "fst (authority_check rows role action value) \<longleftrightarrow>
     (\<exists>row. map_of rows role = Some row \<and> action \<in> set (ar_actions row) \<and>
        (\<forall>v. value = Some v \<longrightarrow> \<not> pf_lt (ar_limit row) v))"
  by (auto simp: authority_check_def split: option.splits)

section \<open>Rules of the active pack\<close>

text \<open>
  Every approval action of a role becomes a rule, unless the matrix already has a rule for the
  action or the action is a human-gate event of the pack (\<^verbatim>\<open>hitl\<close>).  The rules are put in front
  of the matrix.
\<close>

definition pack_rule :: "string \<Rightarrow> string \<Rightarrow> authority_row \<Rightarrow> string \<Rightarrow> pydict" where
  "pack_rule pack role row action =
     [(''rule_id'', VStr (''AUTH-'' @ role @ ''-'' @ action)), (''action'', VStr action),
      (''category'', VStr ''*''), (''business_unit'', VStr ''*''), (''geography'', VStr ''*''),
      (''requester_role'', VStr ''*''),
      (''value_band_gbp'', VDict [(''min'', VFloat (Fin 0)), (''max'', VFloat (ar_limit row))]),
      (''approver_role'', VStr role),
      (''escalation_chain'',
         VList (case ar_delegate row of None \<Rightarrow> [] | Some d \<Rightarrow> [VStr d])),
      (''basis'', VStr (''active vertical '' @ pack @ '' authority declaration''))]"

definition pack_authority_rules ::
  "string \<Rightarrow> string set \<Rightarrow> (string \<times> authority_row) list \<Rightarrow> pydict list \<Rightarrow> pydict list" where
  "pack_authority_rules pack hitl rows matrix =
     (let existing = {a. \<exists>rule \<in> set matrix. dict_get rule ''action'' = VStr a \<and> a \<noteq> []}
      in concat (map (\<lambda>(role, row).
           map (pack_rule pack role row)
             (filter (\<lambda>a. a \<notin> existing \<and> a \<notin> hitl) (ar_actions row))) rows))"

text \<open>Pack rules never shadow a matrix rule: they only have actions no matrix rule has.\<close>

lemma pack_rule_action [simp]: "dict_get (pack_rule pack role row action) ''action'' = VStr action"
  by (simp add: pack_rule_def)

lemma pack_rules_new_actions:
  assumes "rule \<in> set (pack_authority_rules pack hitl rows matrix)"
  shows "\<exists>a. dict_get rule ''action'' = VStr a \<and> a \<notin> hitl \<and>
    (a \<noteq> [] \<longrightarrow> (\<forall>m \<in> set matrix. dict_get m ''action'' \<noteq> VStr a))"
  using assms by (auto simp: pack_authority_rules_def)

lemma pack_rules_skip:
  assumes "\<exists>m \<in> set matrix. dict_get m ''action'' = VStr (rq_action q)"
    and "rule \<in> set (pack_authority_rules pack hitl rows matrix)" and "rule_applies rule q = Inr b"
  shows "\<not> b"
proof
  assume b
  then have "dict_get rule ''action'' = VStr (rq_action q)" "truthy (dict_get rule ''action'')"
    using assms(3)
    by (auto simp: rule_applies_def bind_result_Inr_iff is_malformed_def split: if_splits)
  with pack_rules_new_actions[OF assms(2)] assms(1) show False by auto
qed

end
