(* ===== verification/Identity.thy ===== *)
theory Identity imports Prelude begin

text \<open>
  The agents' key store (\<^verbatim>\<open>governance/identity.py\<close>) and the signed actions of the governance
  kernel (\<^verbatim>\<open>_jws_sign\<close>, \<^verbatim>\<open>_jws_verify\<close>, \<^verbatim>\<open>sign_action\<close> and \<^verbatim>\<open>verify_jws\<close> of
  \<^verbatim>\<open>governance/kernel.py\<close>).

  Ed25519, the key files and the key vault are not part of the repository: they are the fields of
  a record of functions, with base64url over JSON (\<^verbatim>\<open>cr_enc\<close>, \<^verbatim>\<open>cr_dec\<close>), base64url over
  bytes (\<^verbatim>\<open>cr_b64\<close>, \<^verbatim>\<open>cr_unb64\<close>) and the digest of a canonical payload (\<^verbatim>\<open>cr_digest\<close>).
  What is assumed of them is written out as \<^verbatim>\<open>sound_crypto\<close>.
\<close>

section \<open>The primitives\<close>

record ('sk, 'pk) crypto =
  cr_pub :: "'sk \<Rightarrow> 'pk"
  cr_sign :: "'sk \<Rightarrow> string \<Rightarrow> string"
  cr_check :: "'pk \<Rightarrow> string \<Rightarrow> string \<Rightarrow> bool"
  cr_enc :: "pydict \<Rightarrow> string"
  cr_dec :: "string \<Rightarrow> pyval option"
  cr_b64 :: "string \<Rightarrow> string"
  cr_unb64 :: "string \<Rightarrow> string option"
  cr_digest :: "pydict \<Rightarrow> string"

text \<open>Signatures check under the matching public key, encodings decode to the same fields and hold
  no dot.\<close>

definition sound_crypto :: "('sk, 'pk) crypto \<Rightarrow> bool" where
  "sound_crypto cr \<longleftrightarrow>
     (\<forall>k m. cr_check cr (cr_pub cr k) m (cr_sign cr k m)) \<and>
     (\<forall>d. \<exists>d'. cr_dec cr (cr_enc cr d) = Some (VDict d') \<and> map_of d' = map_of d) \<and>
     (\<forall>b. cr_unb64 cr (cr_b64 cr b) = Some b) \<and>
     (\<forall>d. CHR ''.'' \<notin> set (cr_enc cr d)) \<and> (\<forall>b. CHR ''.'' \<notin> set (cr_b64 cr b))"

section \<open>The key store\<close>

record ('sk, 'pk) identity =
  id_private :: "(string \<times> 'sk) list"
  id_public :: "(string \<times> 'pk) list"
  id_prod :: bool

text \<open>\<^verbatim>\<open>_is_prod_mode\<close>: the variable as read from the environment.\<close>

definition is_prod_mode :: "string option \<Rightarrow> bool" where
  "is_prod_mode env \<longleftrightarrow>
     lower (strip (case env of None \<Rightarrow> ''1'' | Some s \<Rightarrow> s)) \<notin> {''1'', ''true'', ''yes''}"

text \<open>Dev mode.  \<^verbatim>\<open>obtain_key\<close> loads the agent's key file, or generates a key and writes it.\<close>

definition dev_keypair ::
  "('sk, 'pk) crypto \<Rightarrow> (string \<Rightarrow> 'sk result) \<Rightarrow> string \<Rightarrow> ('sk, 'pk) identity \<Rightarrow>
   unit result \<times> ('sk, 'pk) identity" where
  "dev_keypair cr obtain_key aid s =
     (if dict_has (id_public s) aid then (Inr (), s)
      else and_then (obtain_key aid, s) (\<lambda>sk s.
        (Inr (), s\<lparr>id_private := dict_set aid sk (id_private s),
                   id_public := dict_set aid (cr_pub cr sk) (id_public s)\<rparr>)))"

fun ensure_dev_keypairs ::
  "('sk, 'pk) crypto \<Rightarrow> (string \<Rightarrow> 'sk result) \<Rightarrow> string list \<Rightarrow> ('sk, 'pk) identity \<Rightarrow>
   unit result \<times> ('sk, 'pk) identity" where
  "ensure_dev_keypairs cr obtain_key [] s = (Inr (), s)"
| "ensure_dev_keypairs cr obtain_key (aid # aids) s =
     and_then (dev_keypair cr obtain_key aid s) (\<lambda>_ s. ensure_dev_keypairs cr obtain_key aids s)"

text \<open>Prod mode.  \<^verbatim>\<open>disk\<close> answers a missing file with None and a file of another key type with
  the error the loader raises.\<close>

fun load_pubkeys ::
  "(string \<Rightarrow> 'pk option result) \<Rightarrow> string list \<Rightarrow> ('sk, 'pk) identity \<Rightarrow>
   unit result \<times> ('sk, 'pk) identity" where
  "load_pubkeys disk [] s = (Inr (), s)"
| "load_pubkeys disk (aid # aids) s =
     (case disk aid of
        Inl x \<Rightarrow> (Inl x, s)
      | Inr None \<Rightarrow> load_pubkeys disk aids s
      | Inr (Some pk) \<Rightarrow> load_pubkeys disk aids (s\<lparr>id_public := dict_set aid pk (id_public s)\<rparr>))"

definition new_identity ::
  "('sk, 'pk) crypto \<Rightarrow> string option \<Rightarrow> (string \<Rightarrow> 'sk result) \<Rightarrow> bool \<Rightarrow>
   (string \<Rightarrow> 'pk option result) \<Rightarrow> string list \<Rightarrow> unit result \<times> ('sk, 'pk) identity" where
  "new_identity cr env obtain_key dir_exists disk aids =
     (let s = \<lparr>id_private = [], id_public = [], id_prod = is_prod_mode env\<rparr> in
      if id_prod s then
        (if dir_exists then load_pubkeys disk aids s
         else (Inl (Raised ''RuntimeError'' [VStr ''identity: prod pubkeys dir not found'']), s))
      else ensure_dev_keypairs cr obtain_key aids s)"

definition id_has :: "('sk, 'pk) identity \<Rightarrow> string \<Rightarrow> bool" where
  "id_has s aid \<longleftrightarrow> dict_has (id_public s) aid"

definition known_agents :: "('sk, 'pk) identity \<Rightarrow> string list" where
  "known_agents s = sort (map fst (id_public s))"

definition public_key :: "('sk, 'pk) identity \<Rightarrow> string \<Rightarrow> 'pk result" where
  "public_key s aid =
     (case map_of (id_public s) aid of
        None \<Rightarrow> Inl (KeyError (VStr (''identity: no public key for agent_id='' @ py_repr aid @
                   ''; add an entry to api.shared.agents.AGENTS'')))
      | Some pk \<Rightarrow> Inr pk)"

text \<open>A private key: held, fetched from the vault in prod mode (and then held), or missing.\<close>

definition private_key ::
  "(string \<Rightarrow> 'sk result) \<Rightarrow> string \<Rightarrow> ('sk, 'pk) identity \<Rightarrow> 'sk result \<times> ('sk, 'pk) identity" where
  "private_key vault aid s =
     (case map_of (id_private s) aid of
        Some sk \<Rightarrow> (Inr sk, s)
      | None \<Rightarrow>
          if id_prod s then
            and_then (vault aid, s) (\<lambda>sk s.
              (Inr sk, s\<lparr>id_private := dict_set aid sk (id_private s)\<rparr>))
          else (Inl (KeyError (VStr (''identity: no private key for agent_id='' @ py_repr aid))), s))"

definition id_sign ::
  "('sk, 'pk) crypto \<Rightarrow> (string \<Rightarrow> 'sk result) \<Rightarrow> string \<Rightarrow> string \<Rightarrow> ('sk, 'pk) identity \<Rightarrow>
   string result \<times> ('sk, 'pk) identity" where
  "id_sign cr vault aid payload s =
     and_then (private_key vault aid s) (\<lambda>sk s. (Inr (cr_sign cr sk payload), s))"

definition id_verify ::
  "('sk, 'pk) crypto \<Rightarrow> ('sk, 'pk) identity \<Rightarrow> string \<Rightarrow> string \<Rightarrow> string \<Rightarrow> bool" where
  "id_verify cr s aid payload signature =
     (case map_of (id_public s) aid of
        None \<Rightarrow> False
      | Some pk \<Rightarrow> cr_check cr pk payload signature)"

section \<open>Signed actions\<close>

text \<open>\<^verbatim>\<open>s.split(".")\<close>.\<close>

fun split_on :: "char \<Rightarrow> string \<Rightarrow> string list" where
  "split_on c [] = [[]]"
| "split_on c (x # xs) =
     (if x = c then [] # split_on c xs
      else case split_on c xs of [] \<Rightarrow> [[x]] | w # ws \<Rightarrow> (x # w) # ws)"

lemma split_on_nosep: "c \<notin> set w \<Longrightarrow> split_on c w = [w]"
  by (induction w) auto

lemma split_on_sep: "c \<notin> set w \<Longrightarrow> split_on c (w @ c # rest) = w # split_on c rest"
  by (induction w) auto

definition jws_header :: "string \<Rightarrow> pydict" where
  "jws_header aid = [(''alg'', VStr ''EdDSA''), (''typ'', VStr ''JWT''), (''kid'', VStr aid)]"

definition jws_sign ::
  "('sk, 'pk) crypto \<Rightarrow> (string \<Rightarrow> 'sk result) \<Rightarrow> string \<Rightarrow> pydict \<Rightarrow> ('sk, 'pk) identity \<Rightarrow>
   string result \<times> ('sk, 'pk) identity" where
  "jws_sign cr vault aid body s =
     (let h = cr_enc cr (jws_header aid); p = cr_enc cr body; signing_input = h @ ''.'' @ p in
      and_then (id_sign cr vault aid signing_input s) (\<lambda>sig s.
        (Inr (signing_input @ ''.'' @ cr_b64 cr sig), s)))"

text \<open>Any malformation answers (False, None), except a header that is valid JSON and not an
  object: reading a field of it raises.\<close>

definition jws_verify ::
  "('sk, 'pk) crypto \<Rightarrow> ('sk, 'pk) identity \<Rightarrow> string \<Rightarrow> (bool \<times> pyval option) result" where
  "jws_verify cr s jws =
     (case split_on (CHR ''.'') jws of
        [h, p, g] \<Rightarrow>
          (case (cr_dec cr h, cr_dec cr p, cr_unb64 cr g) of
             (Some header, Some body, Some signature) \<Rightarrow>
               (case header of
                  VDict hdr \<Rightarrow>
                    if dict_get hdr ''alg'' \<noteq> VStr ''EdDSA'' then Inr (False, None)
                    else (case dict_get hdr ''kid'' of
                        VStr kid \<Rightarrow>
                          if \<not> id_has s kid then Inr (False, None)
                          else if \<not> id_verify cr s kid (h @ ''.'' @ p) signature then Inr (False, None)
                          else Inr (True, Some body)
                      | _ \<Rightarrow> Inr (False, None))
                | v \<Rightarrow> Inl (Raised ''AttributeError'' [v, VStr ''get'']))
           | _ \<Rightarrow> Inr (False, None))
      | _ \<Rightarrow> Inr (False, None))"

text \<open>\<^verbatim>\<open>iat\<close> is the clock in whole seconds.\<close>

definition action_body :: "('sk, 'pk) crypto \<Rightarrow> int \<Rightarrow> string \<Rightarrow> string \<Rightarrow> pydict \<Rightarrow> pydict" where
  "action_body cr iat aid action payload =
     [(''iss'', VStr aid), (''action'', VStr action),
      (''payload_hash'', VStr (cr_digest cr payload)), (''iat'', VInt iat)]"

definition sign_action ::
  "('sk, 'pk) crypto \<Rightarrow> (string \<Rightarrow> 'sk result) \<Rightarrow> int \<Rightarrow> string \<Rightarrow> string \<Rightarrow> pydict \<Rightarrow>
   ('sk, 'pk) identity \<Rightarrow> string result \<times> ('sk, 'pk) identity" where
  "sign_action cr vault iat aid action payload s =
     jws_sign cr vault aid (action_body cr iat aid action payload) s"

definition verify_jws ::
  "('sk, 'pk) crypto \<Rightarrow> ('sk, 'pk) identity \<Rightarrow> string \<Rightarrow> string \<Rightarrow> pydict \<Rightarrow> bool result" where
  "verify_jws cr s aid jws expected =
     bind_result (jws_verify cr s jws) (\<lambda>(ok, body).
       if \<not> ok then Inr False
       else case body of
         None \<Rightarrow> Inr False
       | Some (VDict b) \<Rightarrow>
           Inr (dict_get b ''iss'' = VStr aid \<and>
                dict_get b ''payload_hash'' = VStr (cr_digest cr expected))
       | Some v \<Rightarrow> Inl (Raised ''AttributeError'' [v, VStr ''get'']))"

section \<open>Facts\<close>

text \<open>Every private key held belongs to the public key published for the agent.\<close>

definition keys_match :: "('sk, 'pk) crypto \<Rightarrow> (string \<Rightarrow> 'sk result) \<Rightarrow> ('sk, 'pk) identity \<Rightarrow> bool" where
  "keys_match cr vault s \<longleftrightarrow>
     (\<forall>aid sk. map_of (id_private s) aid = Some sk \<longrightarrow> map_of (id_public s) aid = Some (cr_pub cr sk)) \<and>
     (id_prod s \<longrightarrow> (\<forall>aid sk pk. vault aid = Inr sk \<longrightarrow> map_of (id_public s) aid = Some pk \<longrightarrow>
        pk = cr_pub cr sk))"

lemma ensure_dev_keys:
  assumes "ensure_dev_keypairs cr obtain_key aids s = (Inr (), s')"
    and "keys_match cr vault s" and "\<not> id_prod s"
  shows "keys_match cr vault s' \<and> \<not> id_prod s' \<and>
    (\<forall>aid. id_has s' aid \<longleftrightarrow> id_has s aid \<or> aid \<in> set aids)"
  using assms
proof (induction aids arbitrary: s)
  case (Cons aid aids)
  from Cons.prems(1) obtain s1 where k: "dev_keypair cr obtain_key aid s = (Inr (), s1)"
    and r: "ensure_dev_keypairs cr obtain_key aids s1 = (Inr (), s')"
    by (auto simp: and_then_Inr_iff)
  have m: "keys_match cr vault s1" "\<not> id_prod s1"
    and h: "\<And>a. id_has s1 a \<longleftrightarrow> id_has s a \<or> a = aid"
    using k Cons.prems(2,3)
    by (auto simp: dev_keypair_def and_then_Inr_iff keys_match_def id_has_def dict_has_def
        split: if_splits)
  from Cons.IH[OF r m] h show ?case by auto
qed auto

text \<open>A body signed by one agent with its own key verifies for whatever agent the body names:
  the header's \<^verbatim>\<open>kid\<close> is looked up, and not compared with the agent asked about.\<close>

lemma jws_sign_verifies:
  assumes cr: "sound_crypto cr" and keys: "keys_match cr vault s" and has: "id_has s kid"
    and sig: "jws_sign cr vault kid (action_body cr iat aid action payload) s = (Inr jws, s')"
  shows "verify_jws cr s' aid jws payload = Inr True"
proof -
  let ?h = "cr_enc cr (jws_header kid)" and ?b = "action_body cr iat aid action payload"
  let ?p = "cr_enc cr ?b"
  from sig obtain sk where pk: "private_key vault kid s = (Inr sk, s')"
    and jws: "jws = ?h @ ''.'' @ ?p @ ''.'' @ cr_b64 cr (cr_sign cr sk (?h @ ''.'' @ ?p))"
    by (auto simp: jws_sign_def id_sign_def Let_def and_then_Inr_iff)
  have pub: "map_of (id_public s') kid = Some (cr_pub cr sk)"
    using pk keys has
    by (auto simp: private_key_def keys_match_def id_has_def dict_has_def and_then_Inr_iff
        split: option.splits if_splits)
  obtain hdr bd where hdr: "cr_dec cr ?h = Some (VDict hdr)" "map_of hdr = map_of (jws_header kid)"
    and bd: "cr_dec cr ?p = Some (VDict bd)" "map_of bd = map_of ?b"
    using cr unfolding sound_crypto_def by metis
  have parts: "split_on (CHR ''.'') jws = [?h, ?p, cr_b64 cr (cr_sign cr sk (?h @ ''.'' @ ?p))]"
    using cr by (simp add: jws sound_crypto_def split_on_sep split_on_nosep)
  have "jws_verify cr s' jws = Inr (True, Some (VDict bd))"
    using cr pub parts hdr bd
    by (simp add: jws_verify_def sound_crypto_def dict_get_def jws_header_def id_has_def
        dict_has_def id_verify_def)
  then show ?thesis
    using bd by (simp add: verify_jws_def dict_get_def action_body_def)
qed

text \<open>What an agent signs verifies, for the agent and the payload, with or without the key fetched
  in between.\<close>

lemma sign_action_verifies:
  assumes "sound_crypto cr" and "keys_match cr vault s" and "id_has s aid"
    and "sign_action cr vault iat aid action payload s = (Inr jws, s')"
  shows "verify_jws cr s' aid jws payload = Inr True"
  using jws_sign_verifies[OF assms(1-3)] assms(4) unfolding sign_action_def .

text \<open>What verifies was signed by a key the agent named in its header has published, and names
  the agent and the payload's digest.\<close>

lemma jws_verify_True:
  assumes "jws_verify cr s jws = Inr (True, body)"
  shows "\<exists>h p g signature kid pk b. split_on (CHR ''.'') jws = [h, p, g] \<and>
    cr_unb64 cr g = Some signature \<and> map_of (id_public s) kid = Some pk \<and>
    cr_check cr pk (h @ ''.'' @ p) signature \<and> cr_dec cr p = Some b \<and> body = Some b"
proof -
  obtain h p g where parts: "split_on (CHR ''.'') jws = [h, p, g]"
    using assms unfolding jws_verify_def by (auto split: list.splits)
  obtain header b signature where dec: "cr_dec cr h = Some header" "cr_dec cr p = Some b"
      "cr_unb64 cr g = Some signature"
    using assms unfolding jws_verify_def parts by (auto split: option.splits)
  obtain hdr where hdr: "header = VDict hdr"
    using assms unfolding jws_verify_def parts by (cases header) (auto simp: dec)
  obtain kid where kid: "dict_get hdr ''kid'' = VStr kid"
    using assms unfolding jws_verify_def parts
    by (cases "dict_get hdr ''kid''") (auto simp: dec hdr split: if_splits)
  have "id_verify cr s kid (h @ ''.'' @ p) signature" "body = Some b"
    using assms unfolding jws_verify_def parts by (auto simp: dec hdr kid split: if_splits)
  then show ?thesis
    using parts dec unfolding id_verify_def by (auto split: option.splits)
qed

lemma verify_jws_True:
  assumes "verify_jws cr s aid jws payload = Inr True"
  shows "\<exists>h p g signature kid pk bd. split_on (CHR ''.'') jws = [h, p, g] \<and>
    cr_unb64 cr g = Some signature \<and> map_of (id_public s) kid = Some pk \<and>
    cr_check cr pk (h @ ''.'' @ p) signature \<and> cr_dec cr p = Some (VDict bd) \<and>
    dict_get bd ''iss'' = VStr aid \<and>
    dict_get bd ''payload_hash'' = VStr (cr_digest cr payload)"
proof -
  obtain body where v: "jws_verify cr s jws = Inr (True, body)"
    using assms unfolding verify_jws_def by (auto simp: bind_result_Inr_iff split: if_splits)
  obtain h p g signature kid pk b where c: "split_on (CHR ''.'') jws = [h, p, g]"
      "cr_unb64 cr g = Some signature" "map_of (id_public s) kid = Some pk"
      "cr_check cr pk (h @ ''.'' @ p) signature" "cr_dec cr p = Some b" "body = Some b"
    using jws_verify_True[OF v] by blast
  obtain bd where bd: "b = VDict bd"
    using assms unfolding verify_jws_def v by (cases b) (auto simp: c)
  have "dict_get bd ''iss'' = VStr aid" "dict_get bd ''payload_hash'' = VStr (cr_digest cr payload)"
    using assms unfolding verify_jws_def v by (auto simp: c bd)
  with c bd show ?thesis by blast
qed

text \<open>A compact token with a decodable object for header and body never makes the check raise.\<close>

definition jws_shaped :: "('sk, 'pk) crypto \<Rightarrow> string \<Rightarrow> bool" where
  "jws_shaped cr jws \<longleftrightarrow> (\<exists>hdr body sig. jws = cr_enc cr hdr @ ''.'' @ cr_enc cr body @ ''.'' @ cr_b64 cr sig)"

lemma jws_shaped_checks:
  assumes cr: "sound_crypto cr" and "jws_shaped cr jws"
  shows "\<exists>b. verify_jws cr s aid jws payload = Inr b"
proof -
  obtain hdr body sig where jws: "jws = cr_enc cr hdr @ ''.'' @ cr_enc cr body @ ''.'' @ cr_b64 cr sig"
    using assms(2) by (auto simp: jws_shaped_def)
  obtain h' b' where d: "cr_dec cr (cr_enc cr hdr) = Some (VDict h')" "cr_dec cr (cr_enc cr body) = Some (VDict b')"
    using cr unfolding sound_crypto_def by metis
  have parts: "split_on (CHR ''.'') jws = [cr_enc cr hdr, cr_enc cr body, cr_b64 cr sig]"
    using cr by (simp add: jws sound_crypto_def split_on_sep split_on_nosep)
  have "cr_unb64 cr (cr_b64 cr sig) = Some sig" using cr by (simp add: sound_crypto_def)
  then have "jws_verify cr s jws \<in> {Inr (False, None), Inr (True, Some (VDict b'))}"
    using parts d unfolding jws_verify_def by (simp split: pyval.split)
  then show ?thesis by (auto simp: verify_jws_def)
qed

lemma sign_action_shaped:
  "sign_action cr vault iat aid action payload s = (Inr jws, s') \<Longrightarrow> jws_shaped cr jws"
  by (fastforce simp: sign_action_def jws_sign_def jws_shaped_def Let_def and_then_Inr_iff)

end
