(* ===== verification/Kernel.thy ===== *)
theory Kernel imports Governance Authority Identity "HOL-Library.Multiset" begin

text \<open>
  The governance kernel (\<^verbatim>\<open>api/server/services/governance/kernel.py\<close>): the registry gate,
  the evaluation of a tool call (kill switch, gate, policy bundle, enforcement), the bounded registry
  of decisions and the dotted reads of arguments; the permission handler that fronts it
  (\<^verbatim>\<open>governance/permission_handler.py\<close>); the rule list of the policy compiler
  (\<^verbatim>\<open>governance/policy_compiler.py\<close>).

  The policy evaluator is a third-party package: \<^verbatim>\<open>agt\<close>, an argument, answers whether the
  context is allowed, by which rule, with which action and reason.  Parsing a string as a number,
  which \<^verbatim>\<open>float\<close> does, is the argument \<^verbatim>\<open>parse\<close>.  Clock readings and fresh ids are
  arguments.
\<close>

section \<open>Bounded registries\<close>

text \<open>A cache may forget, but it never answers with anything but the last value put under a key, and
  it answers for the key just put.\<close>

locale lossy_cache =
  fixes look :: "'s \<Rightarrow> 'k \<Rightarrow> 'v option"
    and put :: "'k \<Rightarrow> 'v \<Rightarrow> 's \<Rightarrow> 's"
    and valid :: "'s \<Rightarrow> bool"
  assumes valid_put: "valid s \<Longrightarrow> valid (put k v s)"
    and look_same: "valid s \<Longrightarrow> look (put k v s) k = Some v"
    and look_other: "valid s \<Longrightarrow> j \<noteq> k \<Longrightarrow> look (put k v s) j = None \<or> look (put k v s) j = look s j"
begin

definition puts :: "('k \<times> 'v) list \<Rightarrow> 's \<Rightarrow> 's" where
  "puts ws s = fold (\<lambda>(k, v). put k v) ws s"

lemma valid_puts: "valid s \<Longrightarrow> valid (puts ws s)"
  unfolding puts_def by (induction ws arbitrary: s) (auto simp: valid_put)

lemma never_stale:
  assumes "valid s" and "look (puts ws s) k = Some v"
  shows "map_of (rev ws) k = Some v \<or> map_of (rev ws) k = None \<and> look s k = Some v"
  using assms
proof (induction ws arbitrary: s rule: rev_induct)
  case Nil
  then show ?case by (simp add: puts_def)
next
  case (snoc w ws)
  obtain j u where w: "w = (j, u)" by (cases w)
  have p: "puts (ws @ [w]) s = put j u (puts ws s)" by (simp add: puts_def w)
  have ok: "valid (puts ws s)" by (rule valid_puts[OF snoc.prems(1)])
  show ?case
  proof (cases "k = j")
    case True
    with snoc.prems(2) p look_same[OF ok, of j u] show ?thesis by (simp add: w)
  next
    case False
    with snoc.prems(2) p look_other[OF ok False, of u] have "look (puts ws s) k = Some v" by auto
    from snoc.IH[OF snoc.prems(1) this] False show ?thesis by (simp add: w)
  qed
qed

end

locale bounded_cache = lossy_cache look put valid
  for look :: "'s \<Rightarrow> 'k \<Rightarrow> 'v option" and put :: "'k \<Rightarrow> 'v \<Rightarrow> 's \<Rightarrow> 's" and valid :: "'s \<Rightarrow> bool" +
  fixes count :: "'s \<Rightarrow> nat" and cap :: nat
  assumes count_put: "valid s \<Longrightarrow> count s \<le> cap \<Longrightarrow> count (put k v s) \<le> cap"
begin

lemma count_puts: "valid s \<Longrightarrow> count s \<le> cap \<Longrightarrow> count (puts ws s) \<le> cap"
  unfolding puts_def by (induction ws arbitrary: s) (auto simp: valid_put count_put)

end

text \<open>An \<^verbatim>\<open>OrderedDict\<close> with first-in first-out eviction: assign, move to the end, and pop the
  oldest while there are too many.\<close>

fun drop_oldest :: "nat \<Rightarrow> ('k \<times> 'v) list \<Rightarrow> ('k \<times> 'v) list" where
  "drop_oldest cap d = (if cap < length d then drop_oldest cap (tl d) else d)"

declare drop_oldest.simps [simp del]

definition fifo_put :: "nat \<Rightarrow> 'k \<Rightarrow> 'v \<Rightarrow> ('k \<times> 'v) list \<Rightarrow> ('k \<times> 'v) list" where
  "fifo_put cap k v d = drop_oldest cap (dict_del k d @ [(k, v)])"

lemma drop_oldest_eq: "drop_oldest cap d = drop (length d - cap) d"
proof (induction cap d rule: drop_oldest.induct)
  case (1 cap d)
  show ?case
  proof (cases "cap < length d")
    case True
    then obtain x xs where "d = x # xs" by (cases d) auto
    with 1 True show ?thesis by (subst drop_oldest.simps) (simp add: Suc_diff_le)
  next
    case False
    then show ?thesis by (subst drop_oldest.simps) simp
  qed
qed

lemma map_of_suffix:
  assumes "distinct (map fst (a @ b))"
  shows "map_of b j = None \<or> map_of b j = map_of (a @ b) j"
proof (cases "map_of b j")
  case (Some v)
  then have "j \<in> fst ` set b" by (force dest: map_of_SomeD)
  with assms have "map_of a j = None" by (auto simp: map_of_eq_None_iff)
  with Some show ?thesis by (simp add: map_add_def)
qed simp

lemma distinct_fifo:
  assumes "distinct (map fst d)"
  shows "distinct (map fst (dict_del k d @ [(k, v)]))"
  using distinct_dict_del[OF assms, of k] by (auto simp: dict_del_def)

lemma fifo_put_cache:
  assumes d: "distinct (map fst d)" and cap: "0 < cap"
  shows "distinct (map fst (fifo_put cap k v d))"
    and "map_of (fifo_put cap k v d) k = Some v"
    and "j \<noteq> k \<Longrightarrow> map_of (fifo_put cap k v d) j = None \<or> map_of (fifo_put cap k v d) j = map_of d j"
    and "length (fifo_put cap k v d) \<le> cap"
proof -
  let ?d = "dict_del k d @ [(k, v)]"
  note dist = distinct_fifo[OF d, of k v]
  have eq: "fifo_put cap k v d = drop (length ?d - cap) ?d"
    by (simp only: fifo_put_def drop_oldest_eq)
  have split: "?d = take (length ?d - cap) ?d @ fifo_put cap k v d"
    unfolding eq by (rule append_take_drop_id[symmetric])
  show dist': "distinct (map fst (fifo_put cap k v d))"
    unfolding eq drop_map[symmetric] by (rule distinct_drop[OF dist])
  have "fifo_put cap k v d = drop (length ?d - cap) (dict_del k d) @ [(k, v)]"
    unfolding eq using cap by simp
  then have "(k, v) \<in> set (fifo_put cap k v d)" by simp
  with dist' show "map_of (fifo_put cap k v d) k = Some v" by (rule map_of_is_SomeI)
  show "map_of (fifo_put cap k v d) j = None \<or> map_of (fifo_put cap k v d) j = map_of d j"
    if "j \<noteq> k"
  proof -
    have "map_of ?d j = map_of d j" using that by (simp add: map_add_def split: option.split)
    moreover have "distinct (map fst (take (length ?d - cap) ?d @ fifo_put cap k v d))"
      using dist split by metis
    ultimately show ?thesis using map_of_suffix[of "take (length ?d - cap) ?d" "fifo_put cap k v d" j] split
      by metis
  qed
  show "length (fifo_put cap k v d) \<le> cap" unfolding eq by simp
qed

section \<open>Manifest, agents and decisions\<close>

record tool_entry =
  te_id :: string
  te_reversible :: bool
  te_authority :: bool
  te_value_field :: "string option"
  te_scope :: string

record agent_entry =
  ag_id :: string
  ag_tools :: "string list"
  ag_max :: "pyfloat option"
  ag_reversible_only :: bool
  ag_scope :: string

record decision =
  d_allowed :: bool
  d_id :: string
  d_version :: string
  d_rule :: "string option"
  d_action :: "string option"
  d_reason :: msg
  d_enforced :: bool

datatype evaluation_outcome = Returned decision | Denied decision

record agt_result =
  agt_allowed :: bool
  agt_rule :: "string option"
  agt_action :: string
  agt_reason :: string

record kernel =
  kn_tools :: "(string \<times> tool_entry) list"
  kn_agents :: "(string \<times> agent_entry) list"
  kn_matrix :: "pydict list"
  kn_version :: string
  kn_cap :: nat
  kn_decisions :: "(string \<times> decision) list"
  kn_kills :: kills

definition register_decision :: "decision \<Rightarrow> kernel \<Rightarrow> kernel" where
  "register_decision d k = k\<lparr>kn_decisions := fifo_put (kn_cap k) (d_id d) d (kn_decisions k)\<rparr>"

definition resolve_decision :: "kernel \<Rightarrow> string \<Rightarrow> decision option" where
  "resolve_decision k did = (if did = [] then None else map_of (kn_decisions k) did)"

interpretation decisions: bounded_cache map_of "fifo_put (Suc c)" "\<lambda>d. distinct (map fst d)"
    length "Suc c" for c :: nat
  by unfold_locales (simp_all add: fifo_put_cache)

section \<open>Reading arguments\<close>

fun walk :: "pyval \<Rightarrow> string list \<Rightarrow> pyval" where
  "walk v [] = v"
| "walk v (p # ps) =
     (case v of
        VDict d \<Rightarrow> (case map_of d p of None \<Rightarrow> VNone | Some u \<Rightarrow> walk u ps)
      | _ \<Rightarrow> VNone)"

definition extract_dotted :: "pydict \<Rightarrow> string \<Rightarrow> pyval" where
  "extract_dotted payload path =
     (if path = [] then VNone else walk (VDict payload) (split_on (CHR ''.'') path))"

text \<open>\<^verbatim>\<open>float(value)\<close>; None where it raises TypeError or ValueError.\<close>

definition to_float :: "(string \<Rightarrow> pyfloat option) \<Rightarrow> pyval \<Rightarrow> pyfloat option" where
  "to_float parse v =
     (case v of
        VStr s \<Rightarrow> parse s
      | _ \<Rightarrow> if is_num v then Some (num_of v) else None)"

section \<open>The registry gate\<close>

definition unattributed :: "string list" where
  "unattributed = [[], ''unknown'', ''unknown-agent'']"

definition registry_gate ::
  "(string \<Rightarrow> pyfloat option) \<Rightarrow> kernel \<Rightarrow> string \<Rightarrow> string \<Rightarrow> pyval \<Rightarrow> tool_entry option \<Rightarrow>
   (string \<times> msg) option" where
  "registry_gate parse k actor tool value entry =
     (if actor \<in> set unattributed then None
      else case map_of (kn_agents k) actor of
        None \<Rightarrow> Some (''deny:unknown_agent:'' @ actor,
                  Msg ''actor {!r} not in api.shared.agents.AGENTS registry'' [VStr actor])
      | Some ag \<Rightarrow>
          (case entry of
             None \<Rightarrow> None
           | Some te \<Rightarrow>
               if tool \<notin> set (ag_tools ag) then
                 Some (''deny:capability:'' @ actor @ '':'' @ tool,
                   Msg ''actor {!r} not authorised for tool {!r} (allowed_tools: {!r})''
                     [VStr actor, VStr tool, VList (map VStr (ag_tools ag))])
               else if ag_reversible_only ag \<and> \<not> te_reversible te then
                 Some (''deny:reversibility:'' @ actor @ '':'' @ tool,
                   Msg ''actor {!r} is reversible_only=True but tool {!r} is non-reversible per data/policies/tools.yaml''
                     [VStr actor, VStr tool])
               else
                 (case ag_max ag of
                    None \<Rightarrow> None
                  | Some m \<Rightarrow>
                      if value = VNone then None
                      else (case to_float parse value of
                          None \<Rightarrow> None
                        | Some v \<Rightarrow>
                            if pf_lt m v then
                              Some (''deny:value_ceiling:'' @ actor @ '':'' @ tool,
                                Msg ''value GBP {} exceeds {!r}'s max_value_gbp of {}''
                                  [VFloat v, VStr actor, VFloat m])
                            else None))))"

text \<open>What passing the gate means for an attributed actor and a tool of the manifest.\<close>

lemma registry_gate_None:
  assumes "actor \<notin> set unattributed" and "registry_gate parse k actor tool value (Some te) = None"
  shows "\<exists>ag. map_of (kn_agents k) actor = Some ag \<and> tool \<in> set (ag_tools ag) \<and>
    (ag_reversible_only ag \<longrightarrow> te_reversible te) \<and>
    (\<forall>m v. ag_max ag = Some m \<longrightarrow> value \<noteq> VNone \<longrightarrow> to_float parse value = Some v \<longrightarrow> \<not> pf_lt m v)"
  using assms by (auto simp: registry_gate_def split: option.splits if_splits)

section \<open>Evaluating a tool call\<close>

text \<open>\<^verbatim>\<open>AGT_ENFORCE\<close> as read from the environment.\<close>

definition enforcing :: "string \<Rightarrow> bool" where
  "enforcing env \<longleftrightarrow> strip env \<in> {''1'', ''true'', ''TRUE'', ''yes''}"

definition call_context ::
  "string \<Rightarrow> string \<Rightarrow> pydict \<Rightarrow> string option \<Rightarrow> tool_entry option \<Rightarrow> pydict" where
  "call_context actor tool args wid entry =
     [(''actor'', VStr (if actor = [] then ''unknown'' else actor)), (''tool'', VStr tool),
      (''workflow_id'', opt_str wid), (''args'', VDict args),
      (''reversible'', (case entry of None \<Rightarrow> VNone | Some te \<Rightarrow> VBool (te_reversible te))),
      (''scope_function'', (case entry of None \<Rightarrow> VNone | Some te \<Rightarrow> VStr (te_scope te))),
      (''value'', (case entry of
          None \<Rightarrow> VNone
        | Some te \<Rightarrow> (case te_value_field te of
              None \<Rightarrow> VNone
            | Some path \<Rightarrow> if path = [] then VNone else extract_dotted args path)))]"

text \<open>Register a decision and hand it out: raised when it denies under enforcement.\<close>

definition conclude :: "decision \<Rightarrow> kernel \<Rightarrow> evaluation_outcome result \<times> kernel" where
  "conclude d k =
     (Inr (if d_enforced d \<and> \<not> d_allowed d then Denied d else Returned d), register_decision d k)"

definition evaluate_tool_call ::
  "(pydict \<Rightarrow> agt_result result) \<Rightarrow> (string \<Rightarrow> pyfloat option) \<Rightarrow> string \<Rightarrow> rat \<Rightarrow> string \<Rightarrow>
   string \<Rightarrow> string \<Rightarrow> pydict \<Rightarrow> string option \<Rightarrow> kernel \<Rightarrow> evaluation_outcome result \<times> kernel" where
  "evaluate_tool_call agt parse env now fresh actor tool args wid k =
     (let entry = map_of (kn_tools k) tool;
          ctx = call_context actor tool args wid entry in
      case agt ctx of
        Inl x \<Rightarrow> (Inl x, k)
      | Inr res \<Rightarrow>
          let mode = enforcing env;
              (killed, ks) = is_killed now (if actor = [] then ''unknown'' else actor) tool (kn_kills k);
              k1 = k\<lparr>kn_kills := ks\<rparr>
          in (case killed of
                Some ki \<Rightarrow>
                  conclude \<lparr>d_allowed = False, d_id = fresh, d_version = kn_version k,
                     d_rule = Some (''kill:'' @ k_id ki), d_action = Some ''deny'',
                     d_reason = Msg ''operator kill switch active: actor={!r} tool={!r} reason={!r} expires_in={}s''
                       [VStr (k_actor ki), VStr (k_tool ki), VStr (k_reason ki),
                        VInt \<lfloor>remaining_seconds now ki\<rfloor>],
                     d_enforced = mode\<rparr> k1
              | None \<Rightarrow>
                  (case registry_gate parse k1 actor tool (dict_get ctx ''value'') entry of
                     Some (rule, reason) \<Rightarrow>
                       conclude \<lparr>d_allowed = False, d_id = fresh, d_version = kn_version k,
                          d_rule = Some rule, d_action = Some ''deny'', d_reason = reason,
                          d_enforced = mode\<rparr> k1
                   | None \<Rightarrow>
                       conclude \<lparr>d_allowed = agt_allowed res, d_id = fresh, d_version = kn_version k,
                          d_rule = agt_rule res, d_action = Some (agt_action res),
                          d_reason = Msg (agt_reason res) [], d_enforced = mode\<rparr> k1)))"

lemma register_decision_simps [simp]:
  "kn_agents (register_decision d k) = kn_agents k" "kn_tools (register_decision d k) = kn_tools k"
  "kn_cap (register_decision d k) = kn_cap k" "kn_version (register_decision d k) = kn_version k"
  "kn_kills (register_decision d k) = kn_kills k" "kn_matrix (register_decision d k) = kn_matrix k"
  by (simp_all add: register_decision_def)

text \<open>The decision a call ends with.\<close>

fun decision_of :: "evaluation_outcome \<Rightarrow> decision" where
  "decision_of (Returned d) = d"
| "decision_of (Denied d) = d"

lemma conclude_simps [simp]:
  "snd (conclude d k) = register_decision d k"
  "fst (conclude d k) = Inr r \<longleftrightarrow> r = (if d_enforced d \<and> \<not> d_allowed d then Denied d else Returned d)"
  by (auto simp: conclude_def)

lemma evaluate_decision:
  assumes "evaluate_tool_call agt parse env now fresh actor tool args wid k = (Inr out, k')"
  shows "d_id (decision_of out) = fresh" "d_enforced (decision_of out) = enforcing env"
    "d_version (decision_of out) = kn_version k"
    "out = (if enforcing env \<and> \<not> d_allowed (decision_of out) then Denied (decision_of out)
            else Returned (decision_of out))"
    "k' = register_decision (decision_of out)
       (k\<lparr>kn_kills := snd (is_killed now (if actor = [] then ''unknown'' else actor) tool (kn_kills k))\<rparr>)"
  using assms
  by (auto simp: evaluate_tool_call_def Let_def split_beta conclude_def
      split: sum.splits option.splits if_splits)

text \<open>When a call is allowed: no active kill matches, the gate passes and the bundle allows.\<close>

lemma evaluate_allowed:
  assumes "evaluate_tool_call agt parse env now fresh actor tool args wid k = (Inr out, k')"
    and "d_allowed (decision_of out)"
  defines "entry \<equiv> map_of (kn_tools k) tool"
  defines "ctx \<equiv> call_context actor tool args wid entry"
  shows "fst (is_killed now (if actor = [] then ''unknown'' else actor) tool (kn_kills k)) = None"
    and "registry_gate parse k actor tool (dict_get ctx ''value'') entry = None"
    and "\<exists>res. agt ctx = Inr res \<and> agt_allowed res"
proof -
  have g: "registry_gate parse (k\<lparr>kn_kills := ks\<rparr>) = registry_gate parse k" for ks
    by (simp add: registry_gate_def fun_eq_iff)
  show "fst (is_killed now (if actor = [] then ''unknown'' else actor) tool (kn_kills k)) = None"
    and "registry_gate parse k actor tool (dict_get ctx ''value'') entry = None"
    and "\<exists>res. agt ctx = Inr res \<and> agt_allowed res"
    using assms(1,2) unfolding entry_def ctx_def
    by (auto simp: evaluate_tool_call_def Let_def split_beta conclude_def g
        split: sum.splits option.splits if_splits)
qed

text \<open>An active kill decides, whatever the gate and the bundle say.\<close>

lemma evaluate_killed:
  assumes "agt (call_context actor tool args wid (map_of (kn_tools k) tool)) = Inr res"
    and "fst (is_killed now (if actor = [] then ''unknown'' else actor) tool (kn_kills k)) = Some ki"
  shows "\<exists>out k'. evaluate_tool_call agt parse env now fresh actor tool args wid k = (Inr out, k') \<and>
    \<not> d_allowed (decision_of out) \<and> d_rule (decision_of out) = Some (''kill:'' @ k_id ki)"
  using assms by (auto simp: evaluate_tool_call_def Let_def split_beta conclude_def)

text \<open>The registry: the decision just made can be resolved, and the registry stays bounded.\<close>

definition kernel_ok :: "kernel \<Rightarrow> bool" where
  "kernel_ok k \<longleftrightarrow> 0 < kn_cap k \<and> distinct (map fst (kn_decisions k)) \<and>
     length (kn_decisions k) \<le> kn_cap k \<and>
     (\<forall>(i, d) \<in> set (kn_decisions k). d_id d = i)"

lemma set_fifo_put: "set (fifo_put cap k v d) \<subseteq> insert (k, v) (set d)"
  using set_drop_subset[of "length (dict_del k d @ [(k, v)]) - cap" "dict_del k d @ [(k, v)]"]
  by (auto simp: fifo_put_def drop_oldest_eq dict_del_def)

lemma register_decision_ok: "kernel_ok k \<Longrightarrow> kernel_ok (register_decision d k)"
  using set_fifo_put[of "kn_cap k" "d_id d" d "kn_decisions k"]
  by (auto simp: kernel_ok_def register_decision_def fifo_put_cache)

lemma register_resolves:
  assumes "kernel_ok k" and "d_id d \<noteq> []"
  shows "resolve_decision (register_decision d k) (d_id d) = Some d"
  using assms by (simp add: resolve_decision_def register_decision_def kernel_ok_def fifo_put_cache)

section \<open>The permission handler\<close>

record permission_request =
  pq_kind :: string
  pq_server :: "string option"
  pq_tool :: "string option"
  pq_args :: pyval

datatype permission = Approved | DeniedByRules msg

definition compose_tool_id :: "permission_request \<Rightarrow> string option" where
  "compose_tool_id rq =
     (if pq_kind rq \<notin> {''mcp'', ''custom-tool''} then None
      else
        let server = strip (str_or (pq_server rq) []); name = strip (str_or (pq_tool rq) []) in
        if name \<noteq> [] \<and> server \<noteq> [] then Some (server @ ''.'' @ name)
        else if name \<noteq> [] then Some name else None)"

definition handle_permission ::
  "(pydict \<Rightarrow> agt_result result) \<Rightarrow> (string \<Rightarrow> pyfloat option) \<Rightarrow> string \<Rightarrow> rat \<Rightarrow> string \<Rightarrow>
   string \<Rightarrow> string option \<Rightarrow> permission_request \<Rightarrow> kernel \<Rightarrow> permission result \<times> kernel" where
  "handle_permission agt parse env now fresh actor wid rq k =
     (case compose_tool_id rq of
        None \<Rightarrow> (Inr Approved, k)
      | Some tool \<Rightarrow>
          let args = (case pq_args rq of VDict d \<Rightarrow> d | _ \<Rightarrow> []) in
          and_then (evaluate_tool_call agt parse env now fresh actor tool args wid k)
            (\<lambda>out k1. case out of
               Denied d \<Rightarrow>
                 (Inr (DeniedByRules (if d_reason d = Msg [] [] then Msg ''denied by governance'' []
                                      else d_reason d)), k1)
             | Returned d \<Rightarrow> (Inr Approved, k1)))"

text \<open>Under enforcement the handler approves a tool call exactly when the kernel allows it; in
  log-only mode it approves every call it can evaluate.\<close>

lemma handle_permission_approved:
  assumes "handle_permission agt parse env now fresh actor wid rq k = (Inr p, k')"
    and "compose_tool_id rq = Some tool"
  shows "\<exists>out. evaluate_tool_call agt parse env now fresh actor tool
        (case pq_args rq of VDict d \<Rightarrow> d | _ \<Rightarrow> []) wid k = (Inr out, k') \<and>
      (p = Approved \<longleftrightarrow> \<not> enforcing env \<or> d_allowed (decision_of out))"
proof -
  obtain out k1 where e: "evaluate_tool_call agt parse env now fresh actor tool
        (case pq_args rq of VDict d \<Rightarrow> d | _ \<Rightarrow> []) wid k = (Inr out, k1)"
    using assms by (auto simp: handle_permission_def and_then_Inr_iff Let_def)
  note d = evaluate_decision(4)[OF e]
  show ?thesis
    using assms e d
    by (cases out) (auto simp: handle_permission_def Let_def split: if_splits)
qed

section \<open>The policy compiler\<close>

record policy_rule =
  pl_name :: string
  pl_field :: string
  pl_value :: string
  pl_priority :: nat
  pl_message :: msg

definition tool_rule :: "string \<times> tool_entry \<Rightarrow> policy_rule" where
  "tool_rule it =
     \<lparr>pl_name = ''tool:'' @ fst it, pl_field = ''tool'', pl_value = fst it, pl_priority = 30,
      pl_message = Msg ''tool {} (reversible={}, requires_authority={}, scope={})''
        [VStr (fst it), VBool (te_reversible (snd it)), VBool (te_authority (snd it)),
         VStr (te_scope (snd it))]\<rparr>"

text \<open>\<^verbatim>\<open>str(row.get(k, default))\<close>, where \<^verbatim>\<open>fr\<close> writes a float.\<close>

definition str_field :: "(pyfloat \<Rightarrow> string) \<Rightarrow> pydict \<Rightarrow> string \<Rightarrow> string \<Rightarrow> string" where
  "str_field fr row k dflt = py_str fr (dict_get_or row k (VStr dflt))"

definition matrix_rule :: "(pyfloat \<Rightarrow> string) \<Rightarrow> pydict \<Rightarrow> policy_rule result" where
  "matrix_rule fr row =
     (let rid = str_field fr row ''rule_id'' [];
          action = str_field fr row ''action'' [];
          approver = str_field fr row ''approver_role'' ''?''
      in case py_or (dict_get_or row ''value_band_gbp'' (VDict [])) (VDict []) of
           VDict band \<Rightarrow>
             Inr \<lparr>pl_name = ''matrix:'' @ rid, pl_field = ''action'', pl_value = action,
               pl_priority = 20,
               pl_message = Msg ''matrix:{} action={} approver={} band=({},{}) basis={!r}''
                 [VStr rid, VStr action, VStr approver, dict_get band ''min'', dict_get band ''max'',
                  dict_get_or row ''basis'' (VStr [])]\<rparr>
         | v \<Rightarrow> Inl (Raised ''AttributeError'' [v, VStr ''get'']))"

definition compile_rules ::
  "(pyfloat \<Rightarrow> string) \<Rightarrow> pydict list \<Rightarrow> (string \<times> tool_entry) list \<Rightarrow> policy_rule list result" where
  "compile_rules fr matrix tools =
     bind_result
       (all_ok (map (matrix_rule fr) (sort_key (\<lambda>r. str_field fr r ''rule_id'' []) matrix)))
       (\<lambda>rows. Inr (map tool_rule (sort_key fst tools) @ rows))"

lemma sort_key_perm_eq:
  fixes f :: "'b \<Rightarrow> 'k :: linorder"
  assumes "mset xs = mset ys" and "inj_on f (set xs)"
  shows "sort_key f xs = sort_key f ys"
  by (rule sort_key_inj_key_eq) (simp_all add: assms)

text \<open>The bundle does not depend on the order in which rules and tools were gathered.\<close>

lemma compile_rules_order:
  assumes "mset matrix = mset matrix'" and "mset tools = mset tools'"
    and "inj_on (\<lambda>r. str_field fr r ''rule_id'' []) (set matrix)"
    and "inj_on fst (set tools)"
  shows "compile_rules fr matrix tools = compile_rules fr matrix' tools'"
  using sort_key_perm_eq[OF assms(1,3)] sort_key_perm_eq[OF assms(2,4)]
  by (simp add: compile_rules_def)

text \<open>What an allowed call of an attributed actor on a tool of the manifest means.\<close>

lemma allowed_call:
  assumes "evaluate_tool_call agt parse env now fresh actor tool args wid k = (Inr out, k')"
    and "d_allowed (decision_of out)" and "actor \<notin> set unattributed"
    and "map_of (kn_tools k) tool = Some te"
  shows "\<exists>ag res. map_of (kn_agents k) actor = Some ag \<and> tool \<in> set (ag_tools ag) \<and>
    (ag_reversible_only ag \<longrightarrow> te_reversible te) \<and>
    (\<forall>m v. ag_max ag = Some m \<longrightarrow>
       dict_get (call_context actor tool args wid (Some te)) ''value'' \<noteq> VNone \<longrightarrow>
       to_float parse (dict_get (call_context actor tool args wid (Some te)) ''value'') = Some v \<longrightarrow>
       \<not> pf_lt m v) \<and>
    (\<forall>(i, ki)\<in>set (kn_kills k). kill_expired now ki \<or> \<not> kill_matches actor tool ki) \<and>
    agt (call_context actor tool args wid (Some te)) = Inr res \<and> agt_allowed res"
proof -
  let ?v = "dict_get (call_context actor tool args wid (Some te)) ''value''"
  have ne: "actor \<noteq> []" using assms(3) by (auto simp: unattributed_def)
  note a = evaluate_allowed[OF assms(1,2)]
  have "registry_gate parse k actor tool ?v (Some te) = None" using a(2) assms(4) by simp
  from registry_gate_None[OF assms(3) this] obtain ag where
    "map_of (kn_agents k) actor = Some ag" "tool \<in> set (ag_tools ag)"
    "ag_reversible_only ag \<longrightarrow> te_reversible te"
    "\<forall>m v. ag_max ag = Some m \<longrightarrow> ?v \<noteq> VNone \<longrightarrow> to_float parse ?v = Some v \<longrightarrow> \<not> pf_lt m v"
    by blast
  moreover have "\<forall>(i, ki)\<in>set (kn_kills k). kill_expired now ki \<or> \<not> kill_matches actor tool ki"
    using a(1) ne by (simp add: is_killed_cases)
  moreover obtain res where "agt (call_context actor tool args wid (Some te)) = Inr res" "agt_allowed res"
    using a(3) assms(4) by auto
  ultimately show ?thesis by blast
qed

lemma evaluated_decision_resolves:
  assumes "kernel_ok k" and "fresh \<noteq> []"
    and "evaluate_tool_call agt parse env now fresh actor tool args wid k = (Inr out, k')"
  shows "kernel_ok k' \<and> resolve_decision k' fresh = Some (decision_of out)"
proof -
  note d = evaluate_decision[OF assms(3)]
  have ok: "kernel_ok (k\<lparr>kn_kills := ks\<rparr>)" for ks using assms(1) by (simp add: kernel_ok_def)
  have "decision_of out = decision_of out \<and> d_id (decision_of out) \<noteq> []" using d(1) assms(2) by simp
  then show ?thesis
    unfolding d(5) using register_decision_ok[OF ok] register_resolves[OF ok, of "decision_of out"] d(1) by simp
qed

end
