(* ===== verification/Audit_Ledger.thy ===== *)
theory Audit_Ledger imports Kernel begin

text \<open>
  The audit ledger (\<^verbatim>\<open>api/server/services/audit_logger.py\<close>): one hash chain per workflow,
  signed entries, the bounded caches beside the entry list, the sweep that verifies a chain, and
  the timeline query.

  Entries are dictionaries, as in the code.  The digest is \<^verbatim>\<open>cr_digest\<close>; how a float is written
  is \<^verbatim>\<open>fr\<close>.  The blob service is not part of the repository: whether a client opens and
  whether an append succeeds are arguments.  Clock readings are arguments.  A caller that mutates the
  details it passed after the call is not modelled: values do not change.
\<close>

section \<open>Reading an entry\<close>

definition genesis_hash :: string where
  "genesis_hash = replicate 64 (CHR ''0'')"

definition canonical_entry_hash :: "('sk, 'pk) crypto \<Rightarrow> pydict \<Rightarrow> string" where
  "canonical_entry_hash cr entry = cr_digest cr (dict_del ''entry_hash'' entry)"

text \<open>The workflow of an entry with the given details.\<close>

definition workflow_of :: "(pyfloat \<Rightarrow> string) \<Rightarrow> pyval \<Rightarrow> string" where
  "workflow_of fr details =
     (case details of
        VDict d \<Rightarrow>
          (case first_match truthy [dict_get d ''workflow_id'', dict_get d ''workflowId''] of
             None \<Rightarrow> ''_unknown''
           | Some v \<Rightarrow> py_str fr v)
      | _ \<Rightarrow> ''_unknown'')"

definition extract_workflow_id :: "(pyfloat \<Rightarrow> string) \<Rightarrow> pydict \<Rightarrow> string" where
  "extract_workflow_id fr entry = workflow_of fr (dict_get entry ''details'')"

definition stripped_str :: "pyval \<Rightarrow> string option" where
  "stripped_str v = (case v of VStr s \<Rightarrow> if strip s = [] then None else Some (strip s) | _ \<Rightarrow> None)"

definition extract_agent_id :: "pyval \<Rightarrow> string option" where
  "extract_agent_id details =
     (case details of
        VDict d \<Rightarrow>
          (case stripped_str (dict_get d ''agent_id'') of
             Some a \<Rightarrow> Some a
           | None \<Rightarrow> stripped_str (dict_get d ''agent_label''))
      | _ \<Rightarrow> None)"

text \<open>The decision a dictionary refers to, with the policy version recorded beside it.\<close>

definition decision_ref :: "pydict \<Rightarrow> (string \<times> string option) list" where
  "decision_ref d =
     (case dict_get d ''decision_id'' of
        VStr i \<Rightarrow> if i = [] then [] else [(i, get_str d ''policy_version'')]
      | _ \<Rightarrow> [])"

definition extract_decision_refs :: "pyval \<Rightarrow> (string \<times> string option) list" where
  "extract_decision_refs details =
     (case details of
        VDict d \<Rightarrow> (case dict_get d ''governance'' of VDict g \<Rightarrow> decision_ref g | _ \<Rightarrow> []) @ decision_ref d
      | _ \<Rightarrow> [])"

section \<open>The ledger\<close>

record ('sk, 'pk) ledger =
  lg_entries :: "pydict list"
  lg_tails :: "(string \<times> string) list"
  lg_locks :: "(string \<times> nat) list"
  lg_next_lock :: nat
  lg_service :: bool
  lg_clients :: "string list"
  lg_blobs :: "(string \<times> pydict) list"
  lg_kernel :: kernel
  lg_identity :: "('sk, 'pk) identity"

definition new_ledger :: "bool \<Rightarrow> kernel \<Rightarrow> ('sk, 'pk) identity \<Rightarrow> ('sk, 'pk) ledger" where
  "new_ledger service k idn =
     \<lparr>lg_entries = [], lg_tails = [], lg_locks = [], lg_next_lock = 0, lg_service = service,
      lg_clients = [], lg_blobs = [], lg_kernel = k, lg_identity = idn\<rparr>"

text \<open>A first-in first-out cache whose existing keys keep their place: the oldest entry leaves when
  a new key finds the cache full.\<close>

definition cache_put :: "nat \<Rightarrow> 'k \<Rightarrow> 'v \<Rightarrow> ('k \<times> 'v) list \<Rightarrow> ('k \<times> 'v) list" where
  "cache_put cap k v d = dict_set k v (if map_of d k = None \<and> cap \<le> length d then tl d else d)"

lemma cache_put_cache:
  assumes d: "distinct (map fst d)"
  shows "distinct (map fst (cache_put cap k v d))"
    and "map_of (cache_put cap k v d) k = Some v"
    and "j \<noteq> k \<Longrightarrow> map_of (cache_put cap k v d) j = None \<or> map_of (cache_put cap k v d) j = map_of d j"
proof -
  have tl: "distinct (map fst (tl d))" using d by (simp add: map_tl distinct_tl)
  show "distinct (map fst (cache_put cap k v d))"
    unfolding cache_put_def using d tl by (auto intro: distinct_dict_set)
  show "map_of (cache_put cap k v d) k = Some v" by (simp add: cache_put_def)
  have "map_of (tl d) j = None \<or> map_of (tl d) j = map_of d j"
    using d by (cases d) (auto simp: map_of_eq_None_iff)
  then show "map_of (cache_put cap k v d) j = None \<or> map_of (cache_put cap k v d) j = map_of d j"
    if "j \<noteq> k" using that by (auto simp: cache_put_def)
qed

lemma cache_put_bounded:
  assumes "length d \<le> Suc c"
  shows "length (cache_put (Suc c) k v d) \<le> Suc c"
proof (cases "map_of d k = None \<and> Suc c \<le> length d")
  case True
  then show ?thesis using assms by (auto simp: cache_put_def length_dict_set split: if_splits)
next
  case False
  then show ?thesis using assms by (auto simp: cache_put_def length_dict_set split: if_splits)
qed

interpretation tails: bounded_cache map_of "cache_put (Suc c)" "\<lambda>d. distinct (map fst d)"
    length "Suc c" for c :: nat
  by unfold_locales (simp_all add: cache_put_cache cache_put_bounded)

definition tail_cache_max :: nat where "tail_cache_max = 10000"
definition lock_cache_max :: nat where "lock_cache_max = 10000"
definition blob_clients_max :: nat where "blob_clients_max = 200"

text \<open>The lock of a workflow: the cached one, or a fresh one.\<close>

definition chain_lock_for :: "string \<Rightarrow> ('sk, 'pk) ledger \<Rightarrow> nat \<times> ('sk, 'pk) ledger" where
  "chain_lock_for wid s =
     (case map_of (lg_locks s) wid of
        Some l \<Rightarrow> (l, s)
      | None \<Rightarrow>
          (lg_next_lock s,
           s\<lparr>lg_locks := cache_put lock_cache_max wid (lg_next_lock s) (lg_locks s),
             lg_next_lock := Suc (lg_next_lock s)\<rparr>))"

text \<open>\<^verbatim>\<open>_derive_tail_hash\<close>: the hash of the workflow's last entry.\<close>

definition derive_tail_hash :: "(pyfloat \<Rightarrow> string) \<Rightarrow> pydict list \<Rightarrow> string \<Rightarrow> string" where
  "derive_tail_hash fr entries wid =
     (case first_match (\<lambda>e. extract_workflow_id fr e = wid) (rev entries) of
        None \<Rightarrow> genesis_hash
      | Some e \<Rightarrow>
          (case dict_get e ''entry_hash'' of
             VStr h \<Rightarrow> if h = [] then genesis_hash else h
           | _ \<Rightarrow> genesis_hash))"

text \<open>Signing never raises into the caller.\<close>

definition try_sign ::
  "('sk, 'pk) crypto \<Rightarrow> (string \<Rightarrow> 'sk result) \<Rightarrow> int \<Rightarrow> string \<Rightarrow> string \<Rightarrow> pyval \<Rightarrow>
   ('sk, 'pk) identity \<Rightarrow> string option \<times> ('sk, 'pk) identity" where
  "try_sign cr vault iat aid action payload idn =
     (if \<not> id_has idn aid then (None, idn)
      else
        let body = (case payload of VDict d \<Rightarrow> d | v \<Rightarrow> [(''value'', v)]) in
        (case sign_action cr vault iat aid action body idn of
           (Inl x, idn') \<Rightarrow> (None, idn')
         | (Inr jws, idn') \<Rightarrow> (Some jws, idn')))"

definition heal_one :: "string \<times> string option \<Rightarrow> kernel \<Rightarrow> kernel" where
  "heal_one r k =
     (if resolve_decision k (fst r) \<noteq> None then k
      else register_decision
        \<lparr>d_allowed = True, d_id = fst r, d_version = str_or (snd r) ''phase1-noop'', d_rule = None,
         d_action = None, d_reason = Msg ''self-healed from audit.log'' [], d_enforced = False\<rparr> k)"

definition self_heal :: "bool \<Rightarrow> pyval \<Rightarrow> kernel \<Rightarrow> kernel" where
  "self_heal replay details k = (if replay then fold heal_one (extract_decision_refs details) k else k)"

text \<open>The blob side: the open clients in least-recently-used order, and what was appended.\<close>

fun evict_clients :: "string list \<Rightarrow> string list" where
  "evict_clients [] = []"
| "evict_clients (c # cs) = (if blob_clients_max \<le> length (c # cs) then evict_clients cs else c # cs)"

definition get_append_client :: "bool \<Rightarrow> string \<Rightarrow> ('sk, 'pk) ledger \<Rightarrow> bool \<times> ('sk, 'pk) ledger" where
  "get_append_client opens wid s =
     (if \<not> lg_service s then (False, s)
      else if wid \<in> set (lg_clients s) then
        (True, s\<lparr>lg_clients := remove1 wid (lg_clients s) @ [wid]\<rparr>)
      else if opens then (True, s\<lparr>lg_clients := evict_clients (lg_clients s) @ [wid]\<rparr>)
      else (False, s))"

definition append_to_blob ::
  "(pyfloat \<Rightarrow> string) \<Rightarrow> bool \<Rightarrow> bool \<Rightarrow> pydict \<Rightarrow> ('sk, 'pk) ledger \<Rightarrow> ('sk, 'pk) ledger" where
  "append_to_blob fr opens appends entry s =
     (let wid = extract_workflow_id fr entry; (ok, s1) = get_append_client opens wid s in
      if ok \<and> appends then s1\<lparr>lg_blobs := lg_blobs s1 @ [(wid, entry)]\<rparr> else s1)"

definition lg_close :: "('sk, 'pk) ledger \<Rightarrow> ('sk, 'pk) ledger" where
  "lg_close s = s\<lparr>lg_clients := [], lg_service := False\<rparr>"

definition blob_url_for :: "string \<Rightarrow> string \<Rightarrow> string \<Rightarrow> ('sk, 'pk) ledger \<Rightarrow> string option" where
  "blob_url_for account container wid s =
     (if \<not> lg_service s \<or> strip account = [] then None
      else Some (''https://'' @ strip account @ ''.blob.core.windows.net/'' @ container @ ''/'' @
                 wid @ ''.jsonl''))"

section \<open>Appending\<close>

definition entry_base :: "string \<Rightarrow> pyval \<Rightarrow> rat \<Rightarrow> string \<Rightarrow> string option \<Rightarrow> pydict" where
  "entry_base action details now prev jws =
     [(''action'', VStr action), (''details'', details), (''timestamp'', VFloat (Fin now)),
      (''prev_hash'', VStr prev)] @
     (case jws of None \<Rightarrow> [] | Some j \<Rightarrow> [(''actor_jws'', VStr j)])"

definition seal :: "('sk, 'pk) crypto \<Rightarrow> pydict \<Rightarrow> pydict" where
  "seal cr e = e @ [(''entry_hash'', VStr (canonical_entry_hash cr e))]"

definition prev_hash_for :: "(pyfloat \<Rightarrow> string) \<Rightarrow> string \<Rightarrow> ('sk, 'pk) ledger \<Rightarrow> string" where
  "prev_hash_for fr wid s =
     (case map_of (lg_tails s) wid of
        Some h \<Rightarrow> h
      | None \<Rightarrow> derive_tail_hash fr (lg_entries s) wid)"

record log_call =
  lc_action :: string
  lc_details :: pyval
  lc_now :: rat
  lc_iat :: int
  lc_replay :: bool
  lc_opens :: bool
  lc_appends :: bool

text \<open>Entries whose details name an agent are signed.\<close>

definition entry_signature ::
  "('sk, 'pk) crypto \<Rightarrow> (string \<Rightarrow> 'sk result) \<Rightarrow> log_call \<Rightarrow> ('sk, 'pk) identity \<Rightarrow>
   string option \<times> ('sk, 'pk) identity" where
  "entry_signature cr vault c idn =
     (case extract_agent_id (lc_details c) of
        None \<Rightarrow> (None, idn)
      | Some aid \<Rightarrow> try_sign cr vault (lc_iat c) aid (lc_action c) (lc_details c) idn)"

definition audit_log ::
  "('sk, 'pk) crypto \<Rightarrow> (string \<Rightarrow> 'sk result) \<Rightarrow> (pyfloat \<Rightarrow> string) \<Rightarrow> log_call \<Rightarrow>
   ('sk, 'pk) ledger \<Rightarrow> ('sk, 'pk) ledger" where
  "audit_log cr vault fr c s =
     (let wid = workflow_of fr (lc_details c);
          (lock, s0) = chain_lock_for wid s;
          prev = prev_hash_for fr wid s0;
          (jws, idn) = entry_signature cr vault c (lg_identity s0);
          kern = self_heal (lc_replay c) (lc_details c) (lg_kernel s0);
          entry = seal cr (entry_base (lc_action c) (lc_details c) (lc_now c) prev jws);
          tails = (case dict_get entry ''entry_hash'' of
              VStr h \<Rightarrow> cache_put tail_cache_max wid h (lg_tails s0) | _ \<Rightarrow> lg_tails s0)
      in append_to_blob fr (lc_opens c) (lc_appends c) entry
           (s0\<lparr>lg_identity := idn, lg_kernel := kern, lg_tails := tails,
              lg_entries := lg_entries s0 @ [entry]\<rparr>))"

section \<open>Reading the ledger\<close>

definition entries_for :: "(pyfloat \<Rightarrow> string) \<Rightarrow> string \<Rightarrow> ('sk, 'pk) ledger \<Rightarrow> pydict list" where
  "entries_for fr wid s = filter (\<lambda>e. extract_workflow_id fr e = wid) (lg_entries s)"

definition entry_mentions :: "string \<Rightarrow> pydict \<Rightarrow> bool" where
  "entry_mentions target entry =
     (case dict_get entry ''details'' of
        VDict d \<Rightarrow>
          (\<exists>k\<in>set [''id'', ''entity_id'', ''workflow_id'', ''workflowId'', ''decision_id''].
             dict_get d k = VStr target) \<or>
          (case dict_get d ''governance'' of
             VDict g \<Rightarrow> dict_get g ''decision_id'' = VStr target
           | _ \<Rightarrow> False)
      | _ \<Rightarrow> False)"

definition entry_time :: "pydict \<Rightarrow> rat" where
  "entry_time e = (case num_of (dict_get e ''timestamp'') of Fin q \<Rightarrow> q | _ \<Rightarrow> 0)"

definition entries_for_id :: "string \<Rightarrow> nat \<Rightarrow> rat option \<Rightarrow> ('sk, 'pk) ledger \<Rightarrow> pydict list" where
  "entries_for_id target limit before s =
     (if target = [] then []
      else take limit (sort_key (\<lambda>e. - entry_time e)
        (filter (\<lambda>e. (case before of
              None \<Rightarrow> True
            | Some b \<Rightarrow> \<not> is_num (dict_get e ''timestamp'') \<or>
                        pf_lt (num_of (dict_get e ''timestamp'')) (Fin b)) \<and> entry_mentions target e)
          (lg_entries s))))"

text \<open>The first broken link of a chain that should start after the given hash, with the reason.\<close>

fun chain_break :: "('sk, 'pk) crypto \<Rightarrow> string \<Rightarrow> nat \<Rightarrow> pydict list \<Rightarrow> (nat \<times> msg) option" where
  "chain_break cr expected i [] = None"
| "chain_break cr expected i (e # es) =
     (if dict_get e ''prev_hash'' \<noteq> VStr expected then
        Some (i, Msg ''prev_hash mismatch at index {}: stored={!r} expected={!r}''
                [VInt (int i), dict_get e ''prev_hash'', VStr expected])
      else
        let recomputed = canonical_entry_hash cr (dict_set ''entry_hash'' VNone e) in
        if dict_get e ''entry_hash'' \<noteq> VStr recomputed then
          Some (i, Msg ''entry_hash mismatch at index {}: stored={!r} recomputed={!r}''
                  [VInt (int i), dict_get e ''entry_hash'', VStr recomputed])
        else chain_break cr recomputed (Suc i) es)"

definition signature_bad ::
  "('sk, 'pk) crypto \<Rightarrow> ('sk, 'pk) identity \<Rightarrow> pydict \<Rightarrow> bool result" where
  "signature_bad cr idn entry =
     (case extract_agent_id (dict_get entry ''details'') of
        None \<Rightarrow> Inr False
      | Some aid \<Rightarrow>
          if \<not> id_has idn aid then Inr False
          else (case dict_get entry ''actor_jws'' of
              VStr jws \<Rightarrow>
                if jws = [] then Inr True
                else
                  let payload = (case dict_get entry ''details'' of VDict d \<Rightarrow> d | v \<Rightarrow> [(''value'', v)])
                  in bind_result (verify_jws cr idn aid jws payload) (\<lambda>ok. Inr (\<not> ok))
            | _ \<Rightarrow> Inr True))"

fun verify_signatures ::
  "('sk, 'pk) crypto \<Rightarrow> ('sk, 'pk) identity \<Rightarrow> nat \<Rightarrow> pydict list \<Rightarrow> nat list result" where
  "verify_signatures cr idn i [] = Inr []"
| "verify_signatures cr idn i (e # es) =
     bind_result (signature_bad cr idn e) (\<lambda>bad.
     bind_result (verify_signatures cr idn (Suc i) es) (\<lambda>rest.
       Inr (if bad then i # rest else rest)))"

definition unresolved :: "kernel \<Rightarrow> pydict \<Rightarrow> bool" where
  "unresolved k entry \<longleftrightarrow>
     list_ex (\<lambda>(i, pv). case resolve_decision k i of
          None \<Rightarrow> True
        | Some d \<Rightarrow> pv \<noteq> None \<and> pv \<noteq> Some (d_version d))
       (extract_decision_refs (dict_get entry ''details''))"

definition verify_decisions :: "kernel \<Rightarrow> pydict list \<Rightarrow> nat list" where
  "verify_decisions k chain = filter (\<lambda>i. unresolved k (chain ! i)) [0..<length chain]"

record verify_report =
  vr_workflow :: string
  vr_intact :: bool
  vr_signatures :: bool
  vr_decisions :: bool
  vr_total :: nat
  vr_broken :: "nat option"
  vr_bad :: "nat list option"
  vr_unresolved :: "nat list option"
  vr_reason :: "msg option"

definition nonempty :: "'a list \<Rightarrow> 'a list option" where
  "nonempty xs = (if xs = [] then None else Some xs)"

definition verify_chain ::
  "('sk, 'pk) crypto \<Rightarrow> (pyfloat \<Rightarrow> string) \<Rightarrow> string \<Rightarrow> ('sk, 'pk) ledger \<Rightarrow> verify_report result" where
  "verify_chain cr fr wid s =
     (let chain = entries_for fr wid s in
      if chain = [] then
        Inr \<lparr>vr_workflow = wid, vr_intact = True, vr_signatures = True, vr_decisions = True,
             vr_total = 0, vr_broken = None, vr_bad = None, vr_unresolved = None, vr_reason = None\<rparr>
      else case chain_break cr genesis_hash 0 chain of
        Some (i, reason) \<Rightarrow>
          Inr \<lparr>vr_workflow = wid, vr_intact = False, vr_signatures = True, vr_decisions = True,
               vr_total = length chain, vr_broken = Some i, vr_bad = None, vr_unresolved = None,
               vr_reason = Some reason\<rparr>
      | None \<Rightarrow>
          bind_result (verify_signatures cr (lg_identity s) 0 chain) (\<lambda>bad.
            let un = verify_decisions (lg_kernel s) chain in
            Inr \<lparr>vr_workflow = wid, vr_intact = True, vr_signatures = (bad = []),
                 vr_decisions = (un = []), vr_total = length chain, vr_broken = None,
                 vr_bad = nonempty bad, vr_unresolved = nonempty un, vr_reason = None\<rparr>))"

section \<open>Chains\<close>

text \<open>The hash a chain ends with.\<close>

fun chain_end :: "('sk, 'pk) crypto \<Rightarrow> string \<Rightarrow> pydict list \<Rightarrow> string" where
  "chain_end cr c [] = c"
| "chain_end cr c (e # es) = chain_end cr (canonical_entry_hash cr e) es"

lemma hash_unset [simp]:
  "canonical_entry_hash cr (dict_set ''entry_hash'' v e) = canonical_entry_hash cr e"
proof -
  have "dict_del k (dict_set k v e) = dict_del k e" for k
    by (induction e) (auto simp: dict_del_def)
  then show ?thesis by (simp add: canonical_entry_hash_def)
qed

lemma chain_break_Cons:
  "chain_break cr c i (e # es) = None \<longleftrightarrow>
     dict_get e ''prev_hash'' = VStr c \<and> dict_get e ''entry_hash'' = VStr (canonical_entry_hash cr e) \<and>
     chain_break cr (canonical_entry_hash cr e) (Suc i) es = None"
  by (simp add: Let_def)

lemma chain_break_append:
  "chain_break cr c i (xs @ ys) =
     (case chain_break cr c i xs of
        None \<Rightarrow> chain_break cr (chain_end cr c xs) (i + length xs) ys
      | Some b \<Rightarrow> Some b)"
  by (induction xs arbitrary: c i) (simp_all add: Let_def split: option.split)

lemma chain_break_shift: "chain_break cr c i es = None \<longleftrightarrow> chain_break cr c j es = None"
proof (induction es arbitrary: c i j)
  case (Cons e es)
  show ?case unfolding chain_break_Cons using Cons.IH by blast
qed simp

lemma chain_end_last: "es \<noteq> [] \<Longrightarrow> chain_end cr c es = canonical_entry_hash cr (last es)"
  by (induction es arbitrary: c) auto

lemma chain_break_last:
  assumes "chain_break cr c i es = None" and "es \<noteq> []"
  shows "dict_get (last es) ''entry_hash'' = VStr (canonical_entry_hash cr (last es))"
  using assms
proof (induction es arbitrary: c i)
  case (Cons e es)
  then show ?case using chain_break_Cons[of cr c i e es] by (cases es) auto
qed simp

text \<open>The entry that \<^verbatim>\<open>log\<close> writes.\<close>

lemma sealed:
  shows "dict_get (seal cr (entry_base a d now prev jws)) ''details'' = d"
    and "dict_get (seal cr (entry_base a d now prev jws)) ''prev_hash'' = VStr prev"
    and "dict_get (seal cr (entry_base a d now prev jws)) ''action'' = VStr a"
    and "dict_get (seal cr (entry_base a d now prev jws)) ''timestamp'' = VFloat (Fin now)"
    and "dict_get (seal cr (entry_base a d now prev jws)) ''entry_hash'' =
      VStr (canonical_entry_hash cr (seal cr (entry_base a d now prev jws)))"
  by (simp_all add: seal_def entry_base_def canonical_entry_hash_def dict_del_def
      dict_get_def map_add_def split: option.split)

lemma log_blob_simps [simp]:
  "lg_entries (append_to_blob fr o1 o2 e s) = lg_entries s"
  "lg_tails (append_to_blob fr o1 o2 e s) = lg_tails s"
  "lg_identity (append_to_blob fr o1 o2 e s) = lg_identity s"
  "lg_kernel (append_to_blob fr o1 o2 e s) = lg_kernel s"
  by (auto simp: append_to_blob_def get_append_client_def Let_def split_beta)

lemma chain_lock_simps [simp]:
  "lg_entries (snd (chain_lock_for w s)) = lg_entries s"
  "lg_tails (snd (chain_lock_for w s)) = lg_tails s"
  "lg_identity (snd (chain_lock_for w s)) = lg_identity s"
  "lg_kernel (snd (chain_lock_for w s)) = lg_kernel s"
  by (auto simp: chain_lock_for_def split: option.split)

lemma audit_log_effect:
  fixes s :: "('sk, 'pk) ledger"
  shows "\<exists>jws. let e = seal cr (entry_base (lc_action c) (lc_details c) (lc_now c)
          (prev_hash_for fr (workflow_of fr (lc_details c)) s) jws) in
      lg_entries (audit_log cr vault fr c s) = lg_entries s @ [e] \<and>
      lg_tails (audit_log cr vault fr c s) =
        cache_put tail_cache_max (workflow_of fr (lc_details c)) (canonical_entry_hash cr e) (lg_tails s)"
proof -
  obtain l s0 where l: "chain_lock_for (workflow_of fr (lc_details c)) s = (l, s0)"
    by (cases "chain_lock_for (workflow_of fr (lc_details c)) s")
  have s0: "lg_entries s0 = lg_entries s" "lg_tails s0 = lg_tails s" "lg_identity s0 = lg_identity s"
    using chain_lock_simps[of "workflow_of fr (lc_details c)" s] unfolding l by simp_all
  have p: "prev_hash_for fr w s0 = prev_hash_for fr w s" for w
    by (simp add: prev_hash_for_def s0 split: option.split)
  show ?thesis
    by (rule exI[of _ "fst (entry_signature cr vault c (lg_identity s))"])
      (simp add: audit_log_def l s0 p Let_def split_beta sealed)
qed

section \<open>Every chain the logger writes is intact\<close>

definition ledger_ok :: "('sk, 'pk) crypto \<Rightarrow> (pyfloat \<Rightarrow> string) \<Rightarrow> ('sk, 'pk) ledger \<Rightarrow> bool" where
  "ledger_ok cr fr s \<longleftrightarrow>
     (\<forall>wid. chain_break cr genesis_hash 0 (entries_for fr wid s) = None) \<and>
     distinct (map fst (lg_tails s)) \<and>
     (\<forall>wid h. map_of (lg_tails s) wid = Some h \<longrightarrow> h = chain_end cr genesis_hash (entries_for fr wid s))"

lemma first_match_rev: "first_match p (rev xs) = (if filter p xs = [] then None else Some (last (filter p xs)))"
  by (induction xs rule: rev_induct) auto

lemma derive_tail:
  assumes "chain_break cr genesis_hash 0 (filter (\<lambda>e. extract_workflow_id fr e = wid) es) = None"
    and "\<And>d. cr_digest cr d \<noteq> []"
  shows "derive_tail_hash fr es wid =
    chain_end cr genesis_hash (filter (\<lambda>e. extract_workflow_id fr e = wid) es)"
proof (cases "filter (\<lambda>e. extract_workflow_id fr e = wid) es = []")
  case True
  then show ?thesis by (simp only: derive_tail_hash_def first_match_rev) simp
next
  case False
  have "canonical_entry_hash cr e \<noteq> []" for e by (simp add: canonical_entry_hash_def assms(2))
  with False chain_break_last[OF assms(1) False] show ?thesis
    by (simp add: derive_tail_hash_def first_match_rev chain_end_last)
qed

lemma prev_hash_chain_end:
  assumes "ledger_ok cr fr s" and "\<And>d. cr_digest cr d \<noteq> []"
  shows "prev_hash_for fr wid s = chain_end cr genesis_hash (entries_for fr wid s)"
  using assms derive_tail[OF _ assms(2), where fr = fr and wid = wid and es = "lg_entries s"]
  by (auto simp: prev_hash_for_def ledger_ok_def entries_for_def split: option.splits)

lemma new_ledger_ok: "ledger_ok cr fr (new_ledger service k idn)"
  by (simp add: ledger_ok_def new_ledger_def entries_for_def)

lemma audit_log_entries:
  fixes s :: "('sk, 'pk) ledger"
  assumes "ledger_ok cr fr s" and "\<And>d. cr_digest cr d \<noteq> []"
  shows "ledger_ok cr fr (audit_log cr vault fr c s)"
proof -
  let ?w = "workflow_of fr (lc_details c)" and ?s = "audit_log cr vault fr c s"
  obtain jws e where e: "e = seal cr (entry_base (lc_action c) (lc_details c) (lc_now c)
          (prev_hash_for fr ?w s) jws)"
    and es: "lg_entries ?s = lg_entries s @ [e]"
    and ts: "lg_tails ?s = cache_put tail_cache_max ?w (canonical_entry_hash cr e) (lg_tails s)"
    using audit_log_effect[of cr c fr s vault] by (metis (no_types))
  have w: "extract_workflow_id fr e = ?w" by (simp add: extract_workflow_id_def e sealed)
  have for_w: "entries_for fr ?w ?s = entries_for fr ?w s @ [e]"
    by (simp add: entries_for_def es w)
  have for_v: "v \<noteq> ?w \<Longrightarrow> entries_for fr v ?s = entries_for fr v s" for v
    using w by (auto simp: entries_for_def es)
  have link: "dict_get e ''prev_hash'' = VStr (chain_end cr genesis_hash (entries_for fr ?w s))"
    by (simp add: e sealed prev_hash_chain_end[OF assms])
  have hash: "dict_get e ''entry_hash'' = VStr (canonical_entry_hash cr e)" by (simp add: e sealed)
  have new_end: "chain_end cr genesis_hash (entries_for fr ?w s @ [e]) = canonical_entry_hash cr e"
    by (simp add: chain_end_last)
  have chains: "chain_break cr genesis_hash 0 (entries_for fr v ?s) = None" for v
    using assms(1) for_v[of v] link hash
    by (cases "v = ?w") (simp_all add: ledger_ok_def for_w chain_break_append Let_def)
  have dist: "distinct (map fst (lg_tails s))" using assms(1) by (simp add: ledger_ok_def)
  have tails: "h = chain_end cr genesis_hash (entries_for fr v ?s)"
    if h: "map_of (lg_tails ?s) v = Some h" for v h
  proof (cases "v = ?w")
    case True
    with h show ?thesis by (simp add: ts cache_put_cache[OF dist] for_w new_end)
  next
    case False
    with h have "map_of (lg_tails s) v = Some h"
      using cache_put_cache(3)[OF dist False, of tail_cache_max "canonical_entry_hash cr e"]
      by (auto simp: ts)
    with assms(1) False show ?thesis by (simp add: ledger_ok_def for_v)
  qed
  show ?thesis
    unfolding ledger_ok_def using chains tails cache_put_cache(1)[OF dist] by (simp add: ts)
qed

lemma audit_logs_ok:
  fixes s :: "('sk, 'pk) ledger"
  assumes "ledger_ok cr fr s" and "\<And>d. cr_digest cr d \<noteq> []"
  shows "ledger_ok cr fr (fold (audit_log cr vault fr) cs s)"
  using assms(1)
proof (induction cs arbitrary: s)
  case (Cons c cs)
  then show ?case using audit_log_entries[OF Cons.prems assms(2)] by simp
qed simp

lemma verify_chain_ok:
  assumes "ledger_ok cr fr s" and "verify_chain cr fr wid s = Inr r"
  shows "vr_intact r \<and> vr_broken r = None \<and> vr_total r = length (entries_for fr wid s)"
  using assms
  by (auto simp: verify_chain_def ledger_ok_def Let_def bind_result_Inr_iff split: if_splits)

section \<open>Tampering\<close>

text \<open>Replacing an entry that has a successor breaks the chain there or at the successor, when the
  digest tells the two apart.\<close>

lemma tampered_link:
  assumes "chain_break cr c i (xs @ e # n # ys) = None"
    and "canonical_entry_hash cr e' \<noteq> canonical_entry_hash cr e"
  shows "\<exists>j reason. chain_break cr c i (xs @ e' # n # ys) = Some (j, reason) \<and>
    (j = i + length xs \<or> j = Suc (i + length xs))"
proof -
  have x: "chain_break cr c i xs = None"
    and n: "dict_get n ''prev_hash'' = VStr (canonical_entry_hash cr e)"
    using assms(1) by (auto simp: chain_break_append chain_break_Cons simp del: chain_break.simps
        split: option.splits)
  show ?thesis
    using x n assms(2) by (simp add: chain_break_append Let_def)
qed

lemma tampering_detected:
  assumes ok: "ledger_ok cr fr s"
    and i: "Suc i < length (entries_for fr wid s)"
    and s': "entries_for fr wid s' = (entries_for fr wid s)[i := e']"
    and h: "canonical_entry_hash cr e' \<noteq> canonical_entry_hash cr (entries_for fr wid s ! i)"
  shows "\<exists>r. verify_chain cr fr wid s' = Inr r \<and> \<not> vr_intact r \<and>
    (vr_broken r = Some i \<or> vr_broken r = Some (Suc i))"
proof -
  let ?es = "entries_for fr wid s"
  have split: "?es = take i ?es @ ?es ! i # ?es ! Suc i # drop (Suc (Suc i)) ?es"
    using i by (metis Cons_nth_drop_Suc Suc_lessD append_take_drop_id)
  have upd: "?es[i := e'] = take i ?es @ e' # ?es ! Suc i # drop (Suc (Suc i)) ?es"
    using i by (metis Cons_nth_drop_Suc Suc_lessD upd_conv_take_nth_drop)
  have "chain_break cr genesis_hash 0 ?es = None" using ok by (simp add: ledger_ok_def)
  with split have "chain_break cr genesis_hash 0
      (take i ?es @ ?es ! i # ?es ! Suc i # drop (Suc (Suc i)) ?es) = None" by metis
  from tampered_link[OF this h] i obtain j reason where
    b: "chain_break cr genesis_hash 0 (?es[i := e']) = Some (j, reason)" and j: "j = i \<or> j = Suc i"
    unfolding upd by auto
  have ne: "?es[i := e'] \<noteq> []" using i by auto
  show ?thesis
    using b j ne unfolding verify_chain_def s' Let_def by auto
qed

section \<open>Verifying what was logged returns\<close>

definition entry_shaped :: "('sk, 'pk) crypto \<Rightarrow> pydict \<Rightarrow> bool" where
  "entry_shaped cr e \<longleftrightarrow> (\<forall>jws. dict_get e ''actor_jws'' = VStr jws \<longrightarrow> jws_shaped cr jws)"

lemma try_sign_shaped: "fst (try_sign cr vault iat aid action d idn) = Some jws \<Longrightarrow> jws_shaped cr jws"
  by (auto simp: try_sign_def Let_def dest: sign_action_shaped split: prod.splits sum.splits if_splits)

lemma entry_signature_shaped: "fst (entry_signature cr vault c idn) = Some jws \<Longrightarrow> jws_shaped cr jws"
  by (auto simp: entry_signature_def dest: try_sign_shaped split: option.splits)

lemma sealed_jws:
  "dict_get (seal cr (entry_base a d now prev jws)) ''actor_jws'' = opt_str jws"
  by (simp add: seal_def entry_base_def dict_get_def map_add_def split: option.split)

lemma audit_log_entry:
  fixes s :: "('sk, 'pk) ledger"
  shows "\<exists>prev jws. (\<forall>j. jws = Some j \<longrightarrow> jws_shaped cr j) \<and>
    lg_entries (audit_log cr vault fr c s) =
      lg_entries s @ [seal cr (entry_base (lc_action c) (lc_details c) (lc_now c) prev jws)]"
proof -
  obtain l s0 where l: "chain_lock_for (workflow_of fr (lc_details c)) s = (l, s0)"
    by (cases "chain_lock_for (workflow_of fr (lc_details c)) s")
  have s0: "lg_entries s0 = lg_entries s" "lg_identity s0 = lg_identity s"
    using chain_lock_simps[of "workflow_of fr (lc_details c)" s] unfolding l by simp_all
  show ?thesis
    by (intro exI[of _ "prev_hash_for fr (workflow_of fr (lc_details c)) s0"]
        exI[of _ "fst (entry_signature cr vault c (lg_identity s0))"])
      (simp add: entry_signature_shaped audit_log_def l s0 Let_def split_beta)
qed

lemma audit_logs_shaped:
  fixes s :: "('sk, 'pk) ledger"
  assumes "\<forall>e\<in>set (lg_entries s). entry_shaped cr e"
  shows "\<forall>e\<in>set (lg_entries (fold (audit_log cr vault fr) cs s)). entry_shaped cr e"
  using assms
proof (induction cs arbitrary: s)
  case (Cons c cs)
  obtain prev jws where j: "\<forall>j. jws = Some j \<longrightarrow> jws_shaped cr j"
    and es: "lg_entries (audit_log cr vault fr c s) =
      lg_entries s @ [seal cr (entry_base (lc_action c) (lc_details c) (lc_now c) prev jws)]"
    using audit_log_entry[of cr vault fr c s] by blast
  have "entry_shaped cr (seal cr (entry_base (lc_action c) (lc_details c) (lc_now c) prev jws))"
    using j by (cases jws) (simp_all add: entry_shaped_def sealed_jws)
  with Cons.prems es have "\<forall>e\<in>set (lg_entries (audit_log cr vault fr c s)). entry_shaped cr e" by simp
  from Cons.IH[OF this] show ?case by simp
qed simp

lemma signature_bad_returns:
  fixes idn :: "('sk, 'pk) identity"
  assumes "sound_crypto cr" and "entry_shaped cr e"
  shows "\<exists>b. signature_bad cr idn e = Inr b"
proof (cases "dict_get e ''actor_jws''")
  case (VStr jws)
  with assms(2) have "jws_shaped cr jws" by (simp add: entry_shaped_def)
  then have v: "\<exists>b. verify_jws cr idn aid jws p = Inr b" for aid p
    by (rule jws_shaped_checks[OF assms(1)])
  have "\<exists>b. bind_result (verify_jws cr idn aid jws p) (\<lambda>ok. Inr (\<not> ok)) = Inr b" for aid p
    using v[of aid p] by (elim exE) simp
  then show ?thesis
    unfolding signature_bad_def VStr Let_def by (auto split: option.split)
qed (auto simp: signature_bad_def split: option.split)

lemma verify_signatures_returns:
  fixes idn :: "('sk, 'pk) identity"
  assumes "sound_crypto cr" and "\<forall>e\<in>set es. entry_shaped cr e"
  shows "\<exists>bad. verify_signatures cr idn i es = Inr bad"
  using assms(2)
proof (induction es arbitrary: i)
  case (Cons e es)
  have "\<exists>b. signature_bad cr idn e = Inr b"
    using signature_bad_returns[OF assms(1)] Cons.prems by simp
  moreover have "\<exists>bad. verify_signatures cr idn (Suc i) es = Inr bad" using Cons by simp
  ultimately show ?case by auto
qed simp

lemma logged_chain_verifies:
  fixes idn :: "('sk, 'pk) identity"
  assumes "sound_crypto cr" and "\<And>d. cr_digest cr d \<noteq> []"
    and s_def: "s = fold (audit_log cr vault fr) cs (new_ledger service k idn)"
  shows "\<exists>r. verify_chain cr fr wid s = Inr r \<and> vr_intact r \<and> vr_broken r = None \<and>
    vr_total r = length (entries_for fr wid s)"
proof -
  have ok: "ledger_ok cr fr s"
    unfolding s_def by (rule audit_logs_ok[OF new_ledger_ok assms(2)])
  have "\<forall>e\<in>set (lg_entries s). entry_shaped cr e"
    unfolding s_def by (rule audit_logs_shaped) (simp add: new_ledger_def)
  then have "\<forall>e\<in>set (entries_for fr wid s). entry_shaped cr e" by (simp add: entries_for_def)
  from verify_signatures_returns[OF assms(1) this]
  obtain bad where bad: "verify_signatures cr (lg_identity s) 0 (entries_for fr wid s) = Inr bad" by blast
  have nb: "chain_break cr genesis_hash 0 (entries_for fr wid s) = None"
    using ok by (simp add: ledger_ok_def)
  have "\<exists>r. verify_chain cr fr wid s = Inr r"
    by (simp add: verify_chain_def Let_def nb bad)
  with verify_chain_ok[OF ok] show ?thesis by blast
qed

end
