(* ===== verification/Governance_Properties.thy ===== *)
theory Governance_Properties imports Audit_Ledger "HOL-Library.Countable" begin

text \<open>
  The properties of the governance services (\<^verbatim>\<open>src/api/server/services/governance/\<close>,
  \<^verbatim>\<open>src/api/shared/authority.py\<close>) and of the audit ledger
  (\<^verbatim>\<open>src/api/server/services/audit_logger.py\<close>), with instances on a small registry, key store
  and ledger.
\<close>

section \<open>Concrete primitives for the witnesses\<close>

text \<open>Dictionaries are countable, so numbering them gives an encoding that decodes; signing appends
  the key, and the digest is injective.\<close>

instance pyfloat :: countable by countable_datatype
instance pyval :: countable by countable_datatype

definition marks :: "'a :: countable \<Rightarrow> string" where
  "marks x = replicate (to_nat x) (CHR ''a'')"

definition demo_crypto :: "(string, string) crypto" where
  "demo_crypto =
     \<lparr>cr_pub = (\<lambda>k. k), cr_sign = (\<lambda>k m. m @ k), cr_check = (\<lambda>k m g. g = m @ k),
      cr_enc = marks, cr_dec = (\<lambda>s. Some (VDict (from_nat (length s)))),
      cr_b64 = marks, cr_unb64 = (\<lambda>s. Some (from_nat (length s))),
      cr_digest = (\<lambda>d. CHR ''h'' # marks d)\<rparr>"

lemma demo_crypto_sound: "sound_crypto demo_crypto"
  by (simp add: sound_crypto_def demo_crypto_def marks_def)

lemma demo_digest_nonempty: "cr_digest demo_crypto d \<noteq> []"
  by (simp add: demo_crypto_def)

definition demo_keys :: "string \<Rightarrow> string result" where
  "demo_keys aid = Inr (aid @ ''-key'')"

definition demo_identity :: "(string, string) identity" where
  "demo_identity = snd (new_identity demo_crypto None demo_keys False (\<lambda>_. Inr None)
     [''agent-a'', ''agent-b''])"

lemma demo_dev: "\<not> is_prod_mode None"
  by code_simp

lemma demo_identity: "new_identity demo_crypto None demo_keys False (\<lambda>_. Inr None)
    [''agent-a'', ''agent-b''] = (Inr (), demo_identity)"
proof -
  have "fst (new_identity demo_crypto None demo_keys False (\<lambda>_. Inr None)
      [''agent-a'', ''agent-b'']) = Inr ()"
    by (simp add: new_identity_def demo_dev dev_keypair_def demo_keys_def and_then_def Let_def)
  then show ?thesis unfolding demo_identity_def by (metis prod.collapse)
qed

section \<open>Signed actions\<close>

lemma dev_identity_keys:
  assumes "new_identity cr env keys dir disk aids = (Inr (), s)" and "\<not> is_prod_mode env"
  shows "keys_match cr vault s \<and> (\<forall>aid. id_has s aid \<longleftrightarrow> aid \<in> set aids)"
proof -
  let ?s0 = "\<lparr>id_private = [], id_public = [], id_prod = False\<rparr>"
  have run: "ensure_dev_keypairs cr keys aids ?s0 = (Inr (), s)"
    using assms by (simp add: new_identity_def Let_def)
  have "keys_match cr vault ?s0" "\<not> id_prod ?s0" "\<not> id_has ?s0 aid" for aid
    by (simp_all add: keys_match_def id_has_def dict_has_def)
  from ensure_dev_keys[OF run this(1,2)] this(3) show ?thesis by blast
qed

text \<open>C30: In dev mode, what an agent of the registry signs verifies for that agent and payload.\<close>
theorem signed_action_verifies:
  assumes "sound_crypto cr" and "\<not> is_prod_mode env"
    and "new_identity cr env keys dir disk aids = (Inr (), s)" and "aid \<in> set aids"
    and "sign_action cr vault iat aid action payload s = (Inr jws, s')"
  shows "verify_jws cr s' aid jws payload = Inr True"
  using sign_action_verifies[OF assms(1) _ _ assms(5)] dev_identity_keys[OF assms(3,2)] assms(4) by blast

lemma demo_signs:
  assumes "aid \<in> {''agent-a'', ''agent-b''}"
  shows "\<exists>jws. jws_sign demo_crypto demo_keys aid body demo_identity = (Inr jws, demo_identity)"
proof -
  have "map_of (id_private demo_identity) aid \<noteq> None"
    using assms by (auto simp: demo_identity_def new_identity_def demo_dev dev_keypair_def
        demo_keys_def and_then_def Let_def dict_has_def)
  then obtain sk where "map_of (id_private demo_identity) aid = Some sk" by blast
  then show ?thesis by (simp add: jws_sign_def id_sign_def private_key_def and_then_def Let_def)
qed

theorem signed_action_verifies_witness:
  "\<exists>jws. sign_action demo_crypto demo_keys 5 ''agent-a'' ''pay'' [] demo_identity = (Inr jws, demo_identity) \<and>
     verify_jws demo_crypto demo_identity ''agent-a'' jws [] = Inr True"
proof -
  obtain jws where j: "sign_action demo_crypto demo_keys 5 ''agent-a'' ''pay'' [] demo_identity =
      (Inr jws, demo_identity)"
    using demo_signs[of "''agent-a''"] by (auto simp: sign_action_def)
  from signed_action_verifies[OF demo_crypto_sound demo_dev demo_identity _ j] j show ?thesis by simp
qed

text \<open>Verification for an agent does not ask whose key signed: a body naming one agent, signed
  with the key of any other agent of the registry, verifies for the agent named.\<close>
theorem foreign_signature_verifies:
  assumes "sound_crypto cr" and "\<not> is_prod_mode env"
    and "new_identity cr env keys dir disk aids = (Inr (), s)" and "signer \<in> set aids"
    and "signer \<noteq> aid"
    and "jws_sign cr vault signer (action_body cr iat aid action payload) s = (Inr jws, s')"
  shows "verify_jws cr s' aid jws payload = Inr True"
  using jws_sign_verifies[OF assms(1) _ _ assms(6)] dev_identity_keys[OF assms(3,2)] assms(4) by blast

theorem foreign_signature_verifies_witness:
  "\<exists>jws. jws_sign demo_crypto demo_keys ''agent-b'' (action_body demo_crypto 5 ''agent-a'' ''pay'' [])
       demo_identity = (Inr jws, demo_identity) \<and>
     verify_jws demo_crypto demo_identity ''agent-a'' jws [] = Inr True"
proof -
  obtain jws where j: "jws_sign demo_crypto demo_keys ''agent-b''
      (action_body demo_crypto 5 ''agent-a'' ''pay'' []) demo_identity = (Inr jws, demo_identity)"
    using demo_signs[of "''agent-b''"] by auto
  from foreign_signature_verifies[OF demo_crypto_sound demo_dev demo_identity _ _ j] j show ?thesis by simp
qed

section \<open>The audit ledger\<close>

text \<open>C8: Whatever was logged to a fresh ledger, verifying any workflow's chain returns and finds
  it unbroken, all entries counted.\<close>
theorem logged_chain_intact:
  assumes "sound_crypto cr" and "\<forall>d. cr_digest cr d \<noteq> []"
    and "s = fold (audit_log cr vault fr) cs (new_ledger service k idn)"
  shows "\<exists>r. verify_chain cr fr wid s = Inr r \<and> vr_intact r \<and> vr_broken r = None \<and>
    vr_total r = length (entries_for fr wid s)"
  using logged_chain_verifies[OF assms(1) _ assms(3)] assms(2) by blast

definition demo_call :: "string \<Rightarrow> log_call" where
  "demo_call action = \<lparr>lc_action = action,
     lc_details = VDict [(''workflow_id'', VStr ''W1''), (''agent_id'', VStr ''agent-a'')],
     lc_now = 1, lc_iat = 1, lc_replay = False, lc_opens = True, lc_appends = True\<rparr>"

definition demo_kernel :: kernel where
  "demo_kernel =
     \<lparr>kn_tools = [(''refund'', \<lparr>te_id = ''refund'', te_reversible = True, te_authority = False,
          te_value_field = Some ''amount'', te_scope = ''finance''\<rparr>)],
      kn_agents = [(''agent-a'', \<lparr>ag_id = ''agent-a'', ag_tools = [''refund''], ag_max = Some (Fin 100),
          ag_reversible_only = True, ag_scope = ''finance''\<rparr>)],
      kn_matrix = [], kn_version = ''v1'', kn_cap = 5000, kn_decisions = [], kn_kills = []\<rparr>"

definition demo_ledger :: "(string, string) ledger" where
  "demo_ledger = fold (audit_log demo_crypto demo_keys (\<lambda>_. [])) [demo_call ''opened'', demo_call ''paid'']
     (new_ledger True demo_kernel demo_identity)"

theorem logged_chain_intact_witness:
  "\<exists>r. verify_chain demo_crypto (\<lambda>_. []) ''W1'' demo_ledger = Inr r \<and> vr_intact r"
  using logged_chain_intact[OF demo_crypto_sound _ demo_ledger_def, of "''W1''"] demo_digest_nonempty
  by blast

text \<open>C21: Replacing any entry but the last of a logged chain by one with another digest is found,
  at that entry or the next.\<close>
theorem tampering_found:
  assumes "\<forall>d. cr_digest cr d \<noteq> []"
    and "s = fold (audit_log cr vault fr) cs (new_ledger service k idn)"
    and "Suc i < length (entries_for fr wid s)"
    and "entries_for fr wid s' = (entries_for fr wid s)[i := e']"
    and "canonical_entry_hash cr e' \<noteq> canonical_entry_hash cr (entries_for fr wid s ! i)"
  shows "\<exists>r. verify_chain cr fr wid s' = Inr r \<and> \<not> vr_intact r \<and>
    (vr_broken r = Some i \<or> vr_broken r = Some (Suc i))"
proof -
  have "ledger_ok cr fr s"
    unfolding assms(2) using assms(1) by (intro audit_logs_ok[OF new_ledger_ok]) simp
  from tampering_detected[OF this assms(3-5)] show ?thesis .
qed

text \<open>An executable stand-in for the witness: the digest is the entry's action.\<close>

definition plain_crypto :: "(string, string) crypto" where
  "plain_crypto =
     \<lparr>cr_pub = (\<lambda>k. k), cr_sign = (\<lambda>k m. m @ k), cr_check = (\<lambda>k m g. g = m @ k),
      cr_enc = (\<lambda>_. ''e''), cr_dec = (\<lambda>_. None), cr_b64 = (\<lambda>s. s), cr_unb64 = (\<lambda>s. Some s),
      cr_digest = (\<lambda>d. CHR ''h'' # (case dict_get d ''action'' of VStr a \<Rightarrow> a | _ \<Rightarrow> []))\<rparr>"

definition plain_ledger :: "(string, string) ledger" where
  "plain_ledger = fold (audit_log plain_crypto demo_keys (\<lambda>_. []))
     [(demo_call ''opened'')\<lparr>lc_details := VDict [(''workflow_id'', VStr ''W1'')]\<rparr>,
      (demo_call ''paid'')\<lparr>lc_details := VDict [(''workflow_id'', VStr ''W1'')]\<rparr>]
     (new_ledger True demo_kernel \<lparr>id_private = [], id_public = [], id_prod = False\<rparr>)"

definition forged_entry :: pydict where
  "forged_entry = seal plain_crypto
     (entry_base ''cancelled'' (VDict [(''workflow_id'', VStr ''W1'')]) 1 genesis_hash None)"

definition forged_ledger :: "(string, string) ledger" where
  "forged_ledger = plain_ledger\<lparr>lg_entries := (lg_entries plain_ledger)[0 := forged_entry]\<rparr>"

lemmas plain_run = plain_ledger_def audit_log_def new_ledger_def demo_call_def workflow_of_def
  chain_lock_for_def entry_signature_def extract_agent_id_def stripped_str_def dict_get_def
  self_heal_def prev_hash_for_def derive_tail_hash_def append_to_blob_def get_append_client_def
  cache_put_def Let_def seal_def entry_base_def canonical_entry_hash_def plain_crypto_def
  dict_del_def extract_workflow_id_def

lemma plain_entries:
  "\<exists>e1 e2. lg_entries plain_ledger = [e1, e2] \<and> extract_workflow_id (\<lambda>_. []) e1 = ''W1'' \<and>
     extract_workflow_id (\<lambda>_. []) e2 = ''W1'' \<and> canonical_entry_hash plain_crypto e1 = ''hopened''"
  by (simp add: plain_run py_str_def)

lemma forged_reads:
  "extract_workflow_id (\<lambda>_. []) forged_entry = ''W1''"
  "canonical_entry_hash plain_crypto forged_entry = ''hcancelled''"
  by (simp_all add: forged_entry_def plain_run py_str_def)

theorem tampering_found_witness:
  "\<exists>r. verify_chain plain_crypto (\<lambda>_. []) ''W1'' forged_ledger = Inr r \<and> \<not> vr_intact r"
proof -
  obtain e1 e2 where es: "lg_entries plain_ledger = [e1, e2]"
      "extract_workflow_id (\<lambda>_. []) e1 = ''W1''" "extract_workflow_id (\<lambda>_. []) e2 = ''W1''"
      "canonical_entry_hash plain_crypto e1 = ''hopened''"
    using plain_entries by blast
  have p: "entries_for (\<lambda>_. []) ''W1'' plain_ledger = [e1, e2]"
    and f: "entries_for (\<lambda>_. []) ''W1'' forged_ledger = [e1, e2][0 := forged_entry]"
    using es forged_reads by (simp_all add: entries_for_def forged_ledger_def)
  have d: "\<forall>d. cr_digest plain_crypto d \<noteq> []" by (simp add: plain_crypto_def)
  from tampering_found[OF d plain_ledger_def, of 0 "''W1''" forged_ledger forged_entry] p f es
    forged_reads
  show ?thesis by auto
qed

section \<open>Tool calls\<close>

text \<open>C16: A tool call the kernel allows, for an attributed actor and a tool of the manifest, is one
  by a registered agent that has the tool, keeps to reversible tools where it must, stays under its
  ceiling where the amount is a number, is under no active kill, and is allowed by the bundle.\<close>
theorem allowed_calls_are_authorised:
  assumes "evaluate_tool_call agt parse env now fresh actor tool args wid k = (Inr out, k')"
    and "d_allowed (decision_of out)" and "actor \<notin> set unattributed"
    and "map_of (kn_tools k) tool = Some te"
  shows "\<exists>ag res. map_of (kn_agents k) actor = Some ag \<and> tool \<in> set (ag_tools ag) \<and>
    (ag_reversible_only ag \<longrightarrow> te_reversible te) \<and>
    (\<forall>m v. ag_max ag = Some m \<longrightarrow>
       dict_get (call_context actor tool args wid (Some te)) ''value'' \<noteq> VNone \<longrightarrow>
       to_float parse (dict_get (call_context actor tool args wid (Some te)) ''value'') = Some v \<longrightarrow>
       \<not> pf_lt m v) \<and>
    (\<forall>(i, ki)\<in>set (kn_kills k). kill_expired now ki \<or> \<not> kill_matches actor tool ki) \<and>
    agt (call_context actor tool args wid (Some te)) = Inr res \<and> agt_allowed res"
  by (rule allowed_call[OF assms])

definition demo_agt :: "pydict \<Rightarrow> agt_result result" where
  "demo_agt ctx = Inr \<lparr>agt_allowed = True, agt_rule = None, agt_action = ''allow'', agt_reason = []\<rparr>"

definition demo_evaluate :: "string \<Rightarrow> kernel \<Rightarrow> evaluation_outcome result \<times> kernel" where
  "demo_evaluate actor k =
     evaluate_tool_call demo_agt (\<lambda>_. None) ''1'' 0 ''dec-1'' actor ''refund'' [(''amount'', VInt 40)] None k"

lemma demo_evaluate: "\<exists>out k'. demo_evaluate ''agent-a'' demo_kernel = (Inr out, k') \<and> d_allowed (decision_of out)"
  by (simp add: demo_evaluate_def evaluate_tool_call_def demo_agt_def demo_kernel_def is_killed_def
      purge_def registry_gate_def unattributed_def call_context_def extract_dotted_def dict_get_def
      to_float_def conclude_def Let_def)

theorem allowed_calls_are_authorised_witness:
  "\<exists>ag. map_of (kn_agents demo_kernel) ''agent-a'' = Some ag \<and> ''refund'' \<in> set (ag_tools ag)"
proof -
  obtain out k' where e: "demo_evaluate ''agent-a'' demo_kernel = (Inr out, k')" "d_allowed (decision_of out)"
    using demo_evaluate by blast
  have "\<exists>te. map_of (kn_tools demo_kernel) ''refund'' = Some te" by (simp add: demo_kernel_def)
  then show ?thesis
    using allowed_calls_are_authorised[OF e[unfolded demo_evaluate_def]] by (auto simp: unattributed_def)
qed

text \<open>C23: An active kill that matches the call decides it: the call is denied, by the most specific
  of the active kills that match, whatever registry and bundle say.\<close>
theorem killed_calls_denied:
  assumes "agt (call_context actor tool args wid (map_of (kn_tools k) tool)) = Inr res"
    and "actor \<noteq> []" and "(i, ki) \<in> set (kn_kills k)"
    and "\<not> kill_expired now ki" and "kill_matches actor tool ki"
  shows "\<exists>out k' top. evaluate_tool_call agt parse env now fresh actor tool args wid k = (Inr out, k') \<and>
    \<not> d_allowed (decision_of out) \<and> d_rule (decision_of out) = Some (''kill:'' @ k_id top) \<and>
    top \<in> snd ` set (kn_kills k) \<and> \<not> kill_expired now top \<and> kill_matches actor tool top \<and>
    \<not> spec_less (specificity top) (specificity ki)"
proof -
  have "fst (is_killed now actor tool (kn_kills k)) \<noteq> None"
    using assms(3-5) is_killed_cases[of now actor tool "kn_kills k"] by auto
  then obtain top where t: "fst (is_killed now actor tool (kn_kills k)) = Some top" by blast
  note k = is_killed_Some[OF t]
  have "fst (is_killed now (if actor = [] then ''unknown'' else actor) tool (kn_kills k)) = Some top"
    using t assms(2) by simp
  from evaluate_killed[where agt = agt and args = args and wid = wid, OF assms(1) this]
  show ?thesis using k(1-3) k(4)[OF assms(3-5)] by blast
qed

definition demo_kill :: kill where
  "demo_kill = \<lparr>k_id = ''k1'', k_actor = ''agent-a'', k_tool = ''*'', k_created = 0, k_expires = 60,
     k_reason = ''incident'', k_by = ''ops''\<rparr>"

theorem killed_calls_denied_witness:
  "\<exists>out k'. demo_evaluate ''agent-a'' (demo_kernel\<lparr>kn_kills := [(''k1'', demo_kill)]\<rparr>) = (Inr out, k') \<and>
     \<not> d_allowed (decision_of out)"
proof -
  let ?k = "demo_kernel\<lparr>kn_kills := [(''k1'', demo_kill)]\<rparr>"
  have "\<not> kill_expired 0 demo_kill" "kill_matches ''agent-a'' ''refund'' demo_kill"
    by (simp add: kill_expired_def demo_kill_def)
       (code_simp)
  moreover have "demo_agt c = Inr \<lparr>agt_allowed = True, agt_rule = None, agt_action = ''allow'', agt_reason = []\<rparr>" for c
    by (simp add: demo_agt_def)
  ultimately show ?thesis
    unfolding demo_evaluate_def using killed_calls_denied[where k = ?k and i = "''k1''"] by fastforce
qed

text \<open>C25: The decision a call ends with can be looked up by its id afterwards, and the bounded
  registry keeps its invariant.\<close>
theorem decisions_resolve:
  assumes "kernel_ok k" and "fresh \<noteq> []"
    and "evaluate_tool_call agt parse env now fresh actor tool args wid k = (Inr out, k')"
  shows "kernel_ok k' \<and> resolve_decision k' fresh = Some (decision_of out)"
  by (rule evaluated_decision_resolves[OF assms])

theorem decisions_resolve_witness:
  "\<exists>out k'. demo_evaluate ''agent-a'' demo_kernel = (Inr out, k') \<and>
     resolve_decision k' ''dec-1'' = Some (decision_of out)"
proof -
  obtain out k' where e: "demo_evaluate ''agent-a'' demo_kernel = (Inr out, k')"
    using demo_evaluate by blast
  have "kernel_ok demo_kernel" by (simp add: kernel_ok_def demo_kernel_def)
  from decisions_resolve[OF this _ e[unfolded demo_evaluate_def]] e show ?thesis by auto
qed

text \<open>C24: The permission handler, under enforcement, approves a tool call exactly when the kernel
  allows it; otherwise it approves every call it can evaluate.\<close>
theorem permission_follows_kernel:
  assumes "handle_permission agt parse env now fresh actor wid rq k = (Inr p, k')"
    and "compose_tool_id rq = Some tool"
  shows "\<exists>out. evaluate_tool_call agt parse env now fresh actor tool
        (case pq_args rq of VDict d \<Rightarrow> d | _ \<Rightarrow> []) wid k = (Inr out, k') \<and>
      (p = Approved \<longleftrightarrow> \<not> enforcing env \<or> d_allowed (decision_of out))"
  by (rule handle_permission_approved[OF assms])

theorem permission_follows_kernel_witness:
  "\<exists>p k'. handle_permission demo_agt (\<lambda>_. None) ''1'' 0 ''dec-1'' ''agent-x'' None
       \<lparr>pq_kind = ''custom-tool'', pq_server = None, pq_tool = Some ''refund'', pq_args = VDict []\<rparr>
       demo_kernel = (Inr p, k') \<and> p \<noteq> Approved"
proof -
  let ?rq = "\<lparr>pq_kind = ''custom-tool'', pq_server = None, pq_tool = Some ''refund'', pq_args = VDict []\<rparr>"
  have c: "compose_tool_id ?rq = Some ''refund''" by code_simp
  have e: "enforcing ''1''" by code_simp
  obtain out k' where ev: "evaluate_tool_call demo_agt (\<lambda>_. None) ''1'' 0 ''dec-1'' ''agent-x'' ''refund''
      [] None demo_kernel = (Inr out, k')" "\<not> d_allowed (decision_of out)"
    by (simp add: evaluate_tool_call_def demo_agt_def demo_kernel_def is_killed_def
      purge_def registry_gate_def unattributed_def call_context_def extract_dotted_def dict_get_def
      to_float_def conclude_def Let_def)
  have "\<exists>p k'. handle_permission demo_agt (\<lambda>_. None) ''1'' 0 ''dec-1'' ''agent-x'' None ?rq demo_kernel = (Inr p, k')"
    using ev by (cases out) (auto simp: handle_permission_def c and_then_def)
  then obtain p k1 where h: "handle_permission demo_agt (\<lambda>_. None) ''1'' 0 ''dec-1'' ''agent-x'' None
      ?rq demo_kernel = (Inr p, k1)" by blast
  from permission_follows_kernel[OF h c] ev e h show ?thesis by auto
qed

section \<open>The authority matrix\<close>

text \<open>An approval is granted only by the first rule that applies, to its approver or a member
  of its escalation chain, and names that rule.\<close>
theorem approval_by_first_rule:
  assumes "check_authority matrix role q = Inr (True, rid)"
  shows "\<exists>before rule after. matrix = before @ rule # after \<and> rule_applies rule q = Inr True \<and>
    (\<forall>x \<in> set before. rule_applies x q = Inr False) \<and> rid = dict_get rule ''rule_id'' \<and>
    (dict_get rule ''approver_role'' = VStr role \<or>
     (\<exists>xs. dict_get rule ''escalation_chain'' = VList xs \<and> VStr role \<in> set xs))"
proof -
  obtain r where r: "resolve matrix q = Inr r" "rs_matched r" "rid = rs_rule r"
      "rs_approver r = VStr role \<or> VStr role \<in> set (rs_chain r)"
    using assms by (auto simp: check_authority_def bind_result_Inr_iff split: if_splits)
  from resolve_first[OF r(1,2)] obtain before rule after where
    m: "matrix = before @ rule # after" "rule_applies rule q = Inr True"
      "\<forall>x \<in> set before. rule_applies x q = Inr False" "resolution_of rule = Inr r" by blast
  have "rs_rule r = dict_get rule ''rule_id''" "rs_approver r = dict_get rule ''approver_role''"
      "rs_chain r \<noteq> [] \<Longrightarrow> dict_get rule ''escalation_chain'' = VList (rs_chain r)"
    using m(4) by (auto simp: resolution_of_def bind_result_Inr_iff py_or_def split: pyval.splits if_splits)
  with m r show ?thesis by (metis empty_iff list.set(1))
qed

definition demo_rule :: pydict where
  "demo_rule = [(''rule_id'', VStr ''R1''), (''action'', VStr ''pay''), (''category'', VStr ''*''),
     (''business_unit'', VStr ''*''), (''geography'', VStr ''*''), (''requester_role'', VStr ''*''),
     (''value_band_gbp'', VDict [(''min'', VFloat (Fin 0)), (''max'', VFloat (Fin 500))]),
     (''approver_role'', VStr ''manager''), (''escalation_chain'', VList [VStr ''director''])]"

definition demo_request :: "pyfloat \<Rightarrow> request" where
  "demo_request v = \<lparr>rq_action = ''pay'', rq_value = Some v, rq_category = None, rq_role = None,
     rq_unit = None, rq_geo = None\<rparr>"

lemmas demo_check = check_authority_def demo_rule_def demo_request_def rule_applies_def is_malformed_def
  resolution_of_def field_matches_def get_attr_def py_lt_def py_or_def dict_get_def
  dict_get_or_def Let_def

lemma demo_approves: "check_authority [demo_rule] ''director'' (demo_request (Fin 40)) = Inr (True, VStr ''R1'')"
  by (simp add: demo_check value_in_band_def)

theorem approval_by_first_rule_witness:
  "\<exists>rule \<in> set [demo_rule]. rule_applies rule (demo_request (Fin 40)) = Inr True"
  using approval_by_first_rule[OF demo_approves]
  by (metis in_set_conv_decomp)

text \<open>A request whose amount is not a number is inside every band with numeric bounds: the
  rule with the lowest ceiling that matches its other fields decides it.\<close>
theorem nan_amount_in_every_band:
  assumes "dict_get b ''min'' = VFloat lo" "dict_get b ''max'' = VFloat hi"
  shows "value_in_band (VDict b) (Some NaN) = Inr True"
  by (rule value_in_band_nan[OF assms])

theorem nan_amount_in_every_band_witness:
  "check_authority [demo_rule] ''manager'' (demo_request NaN) = Inr (True, VStr ''R1'')"
proof -
  have "value_in_band (VDict [(''min'', VFloat (Fin 0)), (''max'', VFloat (Fin 500))]) (Some NaN) = Inr True"
    by (rule nan_amount_in_every_band) (simp_all add: dict_get_def)
  then show ?thesis by (simp add: demo_check)
qed

section \<open>The policy bundle\<close>

text \<open>C35: The compiled rules do not depend on the order in which rules and tools were gathered, as
  long as their ids are distinct.\<close>
theorem bundle_order_independent:
  assumes "mset matrix = mset matrix'" and "mset tools = mset tools'"
    and "inj_on (\<lambda>r. str_field fr r ''rule_id'' []) (set matrix)" and "inj_on fst (set tools)"
  shows "compile_rules fr matrix tools = compile_rules fr matrix' tools'"
  by (rule compile_rules_order[OF assms])

definition other_rule :: pydict where
  "other_rule = dict_set ''rule_id'' (VStr ''R0'') demo_rule"

theorem bundle_order_independent_witness:
  "compile_rules (\<lambda>_. []) [demo_rule, other_rule] (kn_tools demo_kernel) =
   compile_rules (\<lambda>_. []) [other_rule, demo_rule] (kn_tools demo_kernel)"
  by (rule bundle_order_independent)
     (simp_all add: other_rule_def demo_rule_def demo_kernel_def str_field_def py_str_def
        dict_get_or_def inj_on_def)

end
