(* ===== verification/Validators.thy ===== *)
theory Validators imports Prelude begin

text \<open>
  The guardrail nodes of the phase graphs (\<^verbatim>\<open>api/functions/graphs/executors/validators\<close>): each
  reads the output an agent left under a key and answers a dictionary with \<^verbatim>\<open>ok\<close>, the reason
  when it blocks, and the payload.  A validator is a list of checks run in the code's order; the
  first one that objects decides.  \<^verbatim>\<open>fr\<close> writes a float.
\<close>

section \<open>Checks\<close>

type_synonym check = "pydict \<Rightarrow> pyval option result"

fun run_checks :: "check list \<Rightarrow> check" where
  "run_checks [] d = Inr None"
| "run_checks (c # cs) d =
     (case c d of
        Inl x \<Rightarrow> Inl x
      | Inr (Some m) \<Rightarrow> Inr (Some m)
      | Inr None \<Rightarrow> run_checks cs d)"

lemma run_checks_None: "run_checks cs d = Inr None \<longleftrightarrow> list_all (\<lambda>c. c d = Inr None) cs"
  by (induction cs) (auto split: sum.split option.split)

definition need :: "bool \<Rightarrow> pyval \<Rightarrow> pyval option result" where
  "need b m = Inr (if b then None else Some m)"

lemma need_simps [simp]: "need True m = Inr None" "need False m = Inr (Some m)"
  "need b m = Inr None \<longleftrightarrow> b"
  by (simp_all add: need_def)

definition says :: "(pyfloat \<Rightarrow> string) \<Rightarrow> string \<Rightarrow> pyval list \<Rightarrow> pyval" where
  "says fr t vs = VStr (fill fr t vs)"

text \<open>\<^verbatim>\<open>x not in {...}\<close>: the value is hashed.\<close>

definition one_of :: "(pyfloat \<Rightarrow> string) \<Rightarrow> string \<Rightarrow> string list \<Rightarrow> check" where
  "one_of fr key allowed d =
     bind_result (in_strs (dict_get d key) allowed) (\<lambda>b.
       need b (says fr ''{} must be one of {}; got {!r}''
         [VStr key, VList (map VStr (sort allowed)), dict_get d key]))"

lemma one_of_None: "one_of fr key allowed d = Inr None \<longleftrightarrow> (\<exists>s\<in>set allowed. dict_get d key = VStr s)"
  by (auto simp: one_of_def bind_result_Inr_iff in_strs_True need_def split: if_splits)

text \<open>\<^verbatim>\<open>x not in (...)\<close>: the value is compared.\<close>

definition str_in :: "pyval \<Rightarrow> string list \<Rightarrow> bool" where
  "str_in v allowed \<longleftrightarrow> list_ex (\<lambda>s. v = VStr s) allowed"

definition int_at_least :: "int \<Rightarrow> pyval \<Rightarrow> bool" where
  "int_at_least n v \<longleftrightarrow> is_int v \<and> \<not> pf_lt (num_of v) (Fin (of_int n))"

definition nonneg :: "pyval \<Rightarrow> bool" where
  "nonneg v \<longleftrightarrow> is_num v \<and> \<not> pf_lt (num_of v) (Fin 0)"

definition is_list_of :: "(pydict \<Rightarrow> bool) \<Rightarrow> pyval \<Rightarrow> bool" where
  "is_list_of p v =
     (case v of
        VList xs \<Rightarrow> list_all (\<lambda>e. case e of VDict d \<Rightarrow> p d | _ \<Rightarrow> False) xs
      | _ \<Rightarrow> False)"

definition carries :: "string list \<Rightarrow> pydict \<Rightarrow> bool" where
  "carries keys d \<longleftrightarrow> list_all (\<lambda>k. truthy (dict_get d k)) keys"

fun list_len :: "pyval \<Rightarrow> nat" where
  "list_len (VList xs) = length xs"
| "list_len _ = 0"

definition len_val :: "pyval \<Rightarrow> pyval" where
  "len_val v = VInt (int (list_len v))"

definition filled_str :: "pyval \<Rightarrow> bool" where
  "filled_str v = (case v of VStr s \<Rightarrow> strip s \<noteq> [] | _ \<Rightarrow> False)"

section \<open>The node\<close>

text \<open>\<^verbatim>\<open>input.get(key) or {}\<close>, whose \<^verbatim>\<open>get\<close> is called next.\<close>

definition payload_of :: "string \<Rightarrow> pydict \<Rightarrow> pydict result" where
  "payload_of key input =
     (case py_or (dict_get input key) (VDict []) of
        VDict d \<Rightarrow> Inr d
      | v \<Rightarrow> Inl (Raised ''AttributeError'' [v, VStr ''get'']))"

definition blocked :: "string \<Rightarrow> pydict \<Rightarrow> pyval \<Rightarrow> pydict" where
  "blocked key payload m = [(''ok'', VBool False), (''blocked_reason'', m), (key, VDict payload)]"

text \<open>Run the checks on the payload; a pass copies the named fields beside it.\<close>

definition guardrail :: "string \<Rightarrow> check list \<Rightarrow> string list \<Rightarrow> pydict \<Rightarrow> pydict result" where
  "guardrail key checks copied payload =
     bind_result (run_checks checks payload) (\<lambda>r. Inr
       (case r of
          Some m \<Rightarrow> blocked key payload m
        | None \<Rightarrow> [(''ok'', VBool True), (key, VDict payload)] @
                  map (\<lambda>k. (k, dict_get payload k)) copied))"

definition guard_node :: "string \<Rightarrow> check list \<Rightarrow> string list \<Rightarrow> pydict \<Rightarrow> pydict result" where
  "guard_node key checks copied input = bind_result (payload_of key input) (guardrail key checks copied)"

lemma guardrail_cases:
  assumes "guardrail key checks copied payload = Inr out"
  obtains (pass) "list_all (\<lambda>c. c payload = Inr None) checks" "dict_get out ''ok'' = VBool True"
      "out = [(''ok'', VBool True), (key, VDict payload)] @ map (\<lambda>k. (k, dict_get payload k)) copied"
    | (block) m where "run_checks checks payload = Inr (Some m)" "dict_get out ''ok'' = VBool False"
      "\<not> list_all (\<lambda>c. c payload = Inr None) checks" "out = blocked key payload m"
proof -
  obtain r where r: "run_checks checks payload = Inr r"
    using assms by (auto simp: guardrail_def bind_result_Inr_iff)
  show ?thesis
  proof (cases r)
    case None
    with r assms run_checks_None[of checks payload] show ?thesis
      by (intro pass) (auto simp: guardrail_def)
  next
    case (Some m)
    with r run_checks_None[of checks payload] have "\<not> list_all (\<lambda>c. c payload = Inr None) checks" by simp
    with Some r assms show ?thesis
      by (intro block[of m]) (auto simp: guardrail_def blocked_def)
  qed
qed

lemma guardrail_ok:
  assumes "guardrail key checks copied payload = Inr out"
  shows "dict_get out ''ok'' = VBool True \<longleftrightarrow> list_all (\<lambda>c. c payload = Inr None) checks"
  using assms by (cases rule: guardrail_cases) simp_all

lemma guard_node_ok:
  assumes "guard_node key checks copied input = Inr out"
  shows "dict_get out ''ok'' = VBool True \<longleftrightarrow>
      (\<exists>p. payload_of key input = Inr p \<and> list_all (\<lambda>c. c p = Inr None) checks)"
proof -
  obtain p where "payload_of key input = Inr p" "guardrail key checks copied p = Inr out"
    using assms by (auto simp: guard_node_def bind_result_Inr_iff)
  with guardrail_ok[of key checks copied p out] show ?thesis by simp
qed

section \<open>The phase validators\<close>

text \<open>The phase's own \<^verbatim>\<open>ok\<close> must be True.\<close>

definition phase_ok :: "string \<Rightarrow> check" where
  "phase_ok msg d = need (dict_get d ''ok'' = VBool True) (VStr msg)"

text \<open>\<^verbatim>\<open>validate_fleet_ap_invoice_three_way_match_schema\<close>.\<close>

definition flag_check :: "(pyfloat \<Rightarrow> string) \<Rightarrow> string \<Rightarrow> check" where
  "flag_check fr flag d =
     need (is_bool (dict_get d flag)) (says fr ''{} must be bool; got {!r}'' [VStr flag, dict_get d flag])"

definition all_three :: "pydict \<Rightarrow> bool" where
  "all_three d \<longleftrightarrow> dict_get d ''po_present'' = VBool True \<and> dict_get d ''grn_present'' = VBool True \<and>
     dict_get d ''amount_within_tolerance'' = VBool True"

definition three_way_checks :: "(pyfloat \<Rightarrow> string) \<Rightarrow> check list" where
  "three_way_checks fr =
     [\<lambda>d. need (dict_get d ''ok'' = VBool True)
        (py_or (dict_get d ''blocked_reason'') (VStr ''three_way_match phase did not return ok=True'')),
      flag_check fr ''matched'',
      \<lambda>d. need (is_str (dict_get d ''invoice_id'') \<and> dict_get d ''invoice_id'' \<noteq> VStr [])
        (VStr ''invoice_id must be a non-empty string''),
      flag_check fr ''po_present'', flag_check fr ''grn_present'',
      flag_check fr ''amount_within_tolerance'',
      \<lambda>d. need (dict_get d ''matched'' = VBool (all_three d))
        (says fr ''matched={} disagrees with po_present={} AND grn_present={} AND amount_within_tolerance={}''
          [dict_get d ''matched'', dict_get d ''po_present'', dict_get d ''grn_present'',
           dict_get d ''amount_within_tolerance'']),
      \<lambda>d. need (is_list (dict_get d ''discrepancies'')) (VStr ''discrepancies must be a list''),
      \<lambda>d. need (\<not> (truthy (dict_get d ''matched'') \<and> truthy (dict_get d ''discrepancies'')))
        (VStr ''matched=True but discrepancies is non-empty'')]"

definition three_way_match :: "(pyfloat \<Rightarrow> string) \<Rightarrow> pydict \<Rightarrow> pydict result" where
  "three_way_match fr input = guardrail ''three_way_match'' (three_way_checks fr) [''matched''] input"

text \<open>\<^verbatim>\<open>validate_fleet_contract_renewal_market_benchmarker_schema\<close>.\<close>

definition benchmarker_checks :: "(pyfloat \<Rightarrow> string) \<Rightarrow> check list" where
  "benchmarker_checks fr =
     [one_of fr ''verdict'' [''benchmarked'', ''blocked''],
      \<lambda>d. need (is_list (dict_get d ''comparable_contracts''))
        (VStr ''comparable_contracts must be a list of {contract_id, annual_value_usd, term_years} objects''),
      \<lambda>d. need (is_list_of (carries [''contract_id'']) (dict_get d ''comparable_contracts''))
        (VStr ''comparable_contracts entries must be objects carrying a contract_id''),
      \<lambda>d. need (is_list (dict_get d ''market_quotes''))
        (VStr ''market_quotes must be a list of {vendor, annual_value_usd} objects''),
      \<lambda>d. need (is_list_of (carries [''vendor'']) (dict_get d ''market_quotes''))
        (VStr ''market_quotes entries must be objects carrying a vendor''),
      \<lambda>d. case dict_get d ''amendment_summary'' of
          VDict a \<Rightarrow> need (is_int (dict_get a ''amendment_count''))
            (VStr ''amendment_summary.amendment_count must be an integer'')
        | _ \<Rightarrow> need False
            (VStr ''amendment_summary must be an object with amendment_count + scope_creep_detected''),
      \<lambda>d. need (nonneg (dict_get d ''benchmark_band_low_usd''))
        (VStr ''benchmark_band_low_usd must be a non-negative number''),
      \<lambda>d. need (nonneg (dict_get d ''benchmark_band_high_usd''))
        (VStr ''benchmark_band_high_usd must be a non-negative number''),
      \<lambda>d. need (\<not> pf_lt (num_of (dict_get d ''benchmark_band_high_usd''))
                    (num_of (dict_get d ''benchmark_band_low_usd'')))
        (says fr ''benchmark band inverted: low={!r} > high={!r}''
          [dict_get d ''benchmark_band_low_usd'', dict_get d ''benchmark_band_high_usd'']),
      \<lambda>d. need ((dict_get d ''verdict'' = VStr ''benchmarked'') =
               (truthy (dict_get d ''comparable_contracts'') \<and> truthy (dict_get d ''market_quotes'') \<and>
                pf_lt (Fin 0) (num_of (dict_get d ''benchmark_band_high_usd''))))
        (says fr (''verdict/evidence inconsistent: verdict={!r} but comparable_contracts={}, '' @
                  ''market_quotes={}, benchmark_band_high_usd={!r}'')
          [dict_get d ''verdict'', len_val (dict_get d ''comparable_contracts''),
           len_val (dict_get d ''market_quotes''), dict_get d ''benchmark_band_high_usd''])]"

definition market_benchmarker :: "(pyfloat \<Rightarrow> string) \<Rightarrow> pydict \<Rightarrow> pydict result" where
  "market_benchmarker fr = guard_node ''market_benchmarker'' (benchmarker_checks fr)
     [''verdict'', ''benchmark_band_low_usd'', ''benchmark_band_high_usd'']"

text \<open>\<^verbatim>\<open>validate_fleet_contract_renewal_renewal_terms_drafter_schema\<close>.\<close>

definition derived_pct :: "pydict \<Rightarrow> pyfloat" where
  "derived_pct d =
     (let p = num_of (dict_get d ''proposed_annual_value_usd'');
          c = num_of (dict_get d ''current_annual_value_usd'')
      in pf_scale 100 (pf_div (pf_sub p c) c))"

text \<open>\<^verbatim>\<open>round(x, 2)\<close>: to the nearest hundredth, a tie to the even one.\<close>

definition round2 :: "pyfloat \<Rightarrow> pyfloat" where
  "round2 f = (case f of
      Fin q \<Rightarrow>
        (let lo = \<lfloor>100 * q\<rfloor>; r = 100 * q - of_int lo;
             n = (if r < 1 / 2 then lo else if 1 / 2 < r then lo + 1
                  else if lo mod 2 = 0 then lo else lo + 1)
         in Fin (of_int n / 100))
    | g \<Rightarrow> g)"

definition is_number :: "pyval \<Rightarrow> bool" where
  "is_number v \<longleftrightarrow> is_num v \<and> \<not> is_bool v"

definition terms_checks :: "(pyfloat \<Rightarrow> string) \<Rightarrow> check list" where
  "terms_checks fr =
     [one_of fr ''verdict'' [''drafted'', ''blocked''],
      \<lambda>d. need (is_number (dict_get d ''cost_change_pct''))
        (says fr ''cost_change_pct must be a number; got {!r}'' [dict_get d ''cost_change_pct'']),
      \<lambda>d. need (is_list (dict_get d ''proposed_terms''))
        (VStr ''proposed_terms must be a list of {line_item, current, proposed} objects''),
      \<lambda>d. need (is_list_of (carries [''line_item'']) (dict_get d ''proposed_terms''))
        (VStr ''proposed_terms entries must be objects carrying a line_item''),
      \<lambda>d. need (is_list (dict_get d ''cited_clauses''))
        (VStr ''cited_clauses must be a list of {section, quote} objects''),
      \<lambda>d. need (is_list_of (carries [''section'', ''quote'']) (dict_get d ''cited_clauses''))
        (VStr ''cited_clauses entries must be objects carrying section + quote''),
      \<lambda>d. need (is_number (dict_get d ''proposed_annual_value_usd'') \<and>
               \<not> pf_lt (num_of (dict_get d ''proposed_annual_value_usd'')) (Fin 0))
        (VStr ''proposed_annual_value_usd must be a non-negative number''),
      \<lambda>d. need (is_number (dict_get d ''current_annual_value_usd'') \<and>
               \<not> pf_le (num_of (dict_get d ''current_annual_value_usd'')) (Fin 0))
        (VStr ''current_annual_value_usd must be a positive number''),
      \<lambda>d. need (\<not> pf_lt (Fin (1 / 2))
                    (pf_abs (pf_sub (derived_pct d) (num_of (dict_get d ''cost_change_pct'')))))
        (says fr (''cost_change_pct={!r} disagrees with derived ({}/{}-1)*100={} '' @
                  ''by more than 0.5%'')
          [dict_get d ''cost_change_pct'', dict_get d ''proposed_annual_value_usd'',
           dict_get d ''current_annual_value_usd'', VFloat (round2 (derived_pct d))]),
      \<lambda>d. need ((dict_get d ''verdict'' = VStr ''drafted'') =
               (truthy (dict_get d ''proposed_terms'') \<and> truthy (dict_get d ''cited_clauses'') \<and>
                pf_lt (Fin 0) (num_of (dict_get d ''proposed_annual_value_usd''))))
        (says fr (''verdict/draft inconsistent: verdict={!r} but proposed_terms={}, '' @
                  ''cited_clauses={}, proposed_annual_value_usd={!r}'')
          [dict_get d ''verdict'', len_val (dict_get d ''proposed_terms''),
           len_val (dict_get d ''cited_clauses''), dict_get d ''proposed_annual_value_usd''])]"

definition renewal_terms :: "(pyfloat \<Rightarrow> string) \<Rightarrow> pydict \<Rightarrow> pydict result" where
  "renewal_terms fr = guard_node ''renewal_terms_drafter'' (terms_checks fr)
     [''verdict'', ''cost_change_pct'']"

text \<open>\<^verbatim>\<open>validate_fleet_contract_review_risk_classify_schema\<close> and
  \<^verbatim>\<open>validate_fleet_privacy_dpia_risk_classify_schema\<close>.\<close>

definition review_checks :: "(pyfloat \<Rightarrow> string) \<Rightarrow> check list" where
  "review_checks fr =
     [phase_ok ''risk_classify phase did not return ok=True'',
      \<lambda>d. need (str_in (dict_get d ''contract_type'') [''nda'', ''msa'', ''sow''])
        (says fr ''contract_type must be nda|msa|sow; got {!r}'' [dict_get d ''contract_type'']),
      \<lambda>d. need (is_bool (dict_get d ''deviates_from_template''))
        (VStr ''deviates_from_template must be bool''),
      \<lambda>d. need (nonneg (dict_get d ''amount_gbp'')) (VStr ''amount_gbp must be non-negative''),
      \<lambda>d. need (is_list (dict_get d ''flags'')) (VStr ''flags must be a list'')]"

definition contract_review :: "(pyfloat \<Rightarrow> string) \<Rightarrow> pydict \<Rightarrow> pydict result" where
  "contract_review fr = guardrail ''risk_classify'' (review_checks fr) []"

definition dpia_checks :: "(pyfloat \<Rightarrow> string) \<Rightarrow> check list" where
  "dpia_checks fr =
     [phase_ok ''risk_classify did not return ok=True'',
      \<lambda>d. need (str_in (dict_get d ''risk_tier'') [''low_risk'', ''high_risk''])
        (says fr ''risk_tier must be low_risk|high_risk; got {!r}'' [dict_get d ''risk_tier'']),
      \<lambda>d. need (str_in (dict_get d ''geography'') [''EMEA'', ''AMER'', ''APAC'', ''*''])
        (says fr ''geography must be EMEA|AMER|APAC; got {!r}'' [dict_get d ''geography'']),
      \<lambda>d. need (is_list (dict_get d ''flags'')) (VStr ''flags must be a list'')]"

definition privacy_dpia :: "(pyfloat \<Rightarrow> string) \<Rightarrow> pydict \<Rightarrow> pydict result" where
  "privacy_dpia fr = guardrail ''risk_classify'' (dpia_checks fr) []"

text \<open>\<^verbatim>\<open>validate_fleet_purchase_order_supplier_check_schema\<close>.\<close>

definition supplier_checks :: "check list" where
  "supplier_checks =
     [phase_ok ''supplier_check phase did not return ok=True'',
      \<lambda>d. need (is_bool (dict_get d ''supplier_on_approved_list''))
        (VStr ''supplier_on_approved_list must be bool''),
      \<lambda>d. need (is_list (dict_get d ''flags'')) (VStr ''flags must be a list''),
      \<lambda>d. need (nonneg (dict_get d ''amount_gbp'')) (VStr ''amount_gbp must be non-negative'')]"

definition supplier_check :: "pydict \<Rightarrow> pydict result" where
  "supplier_check = guardrail ''supplier_check'' supplier_checks []"

text \<open>\<^verbatim>\<open>validate_fleet_treasury_fx_position_check_schema\<close>.\<close>

definition fx_checks :: "(pyfloat \<Rightarrow> string) \<Rightarrow> check list" where
  "fx_checks fr =
     [phase_ok ''position_check did not return ok=True'',
      \<lambda>d. need (is_bool (dict_get d ''within_limit'')) (VStr ''within_limit must be bool''),
      \<lambda>d. need (nonneg (dict_get d ''notional_gbp'')) (VStr ''notional_gbp must be non-negative''),
      \<lambda>d. need (is_num (dict_get d ''pair_limit_gbp'') \<and>
               \<not> pf_le (num_of (dict_get d ''pair_limit_gbp'')) (Fin 0))
        (VStr ''pair_limit_gbp must be > 0''),
      \<lambda>d. need (dict_get d ''within_limit'' =
               VBool (pf_le (num_of (dict_get d ''notional_gbp'')) (num_of (dict_get d ''pair_limit_gbp''))))
        (says fr ''within_limit={} disagrees with notional={}/limit={}''
          [dict_get d ''within_limit'', dict_get d ''notional_gbp'', dict_get d ''pair_limit_gbp'']),
      \<lambda>d. need (is_list (dict_get d ''flags'')) (VStr ''flags must be a list'')]"

definition fx_position :: "(pyfloat \<Rightarrow> string) \<Rightarrow> pydict \<Rightarrow> pydict result" where
  "fx_position fr = guardrail ''position_check'' (fx_checks fr) []"

text \<open>\<^verbatim>\<open>validate_fleet_employee_onboarding_access_drafter_schema\<close> and
  \<^verbatim>\<open>validate_fleet_it_access_request_rbac_resolver_schema\<close>.\<close>

definition bundle_consistent :: "string \<Rightarrow> pydict \<Rightarrow> bool" where
  "bundle_consistent positive d \<longleftrightarrow>
     (dict_get d ''verdict'' = VStr positive) =
     (truthy (dict_get d ''selected_templates'') \<and> truthy (dict_get d ''proposed_bundle''))"

definition bundle_says :: "(pyfloat \<Rightarrow> string) \<Rightarrow> pydict \<Rightarrow> pyval" where
  "bundle_says fr d =
     says fr ''verdict/bundle inconsistent: verdict={!r} but selected_templates={} and proposed_bundle={}''
       [dict_get d ''verdict'', len_val (dict_get d ''selected_templates''),
        len_val (dict_get d ''proposed_bundle'')]"

definition access_checks :: "(pyfloat \<Rightarrow> string) \<Rightarrow> check list" where
  "access_checks fr =
     [one_of fr ''verdict'' [''draft-ready'', ''draft-blocked''],
      \<lambda>d. need (is_list (dict_get d ''proposed_bundle''))
        (VStr ''proposed_bundle must be a list of permission strings''),
      \<lambda>d. need (is_list (dict_get d ''sod_conflicts''))
        (VStr ''sod_conflicts must be a list (empty if none)''),
      \<lambda>d. need (is_int (dict_get d ''template_default_size''))
        (VStr ''template_default_size must be an integer''),
      \<lambda>d. need (is_list (dict_get d ''selected_templates''))
        (VStr ''selected_templates must be a list of template_id strings''),
      \<lambda>d. need (bundle_consistent ''draft-ready'' d) (bundle_says fr d)]"

definition access_drafter :: "(pyfloat \<Rightarrow> string) \<Rightarrow> pydict \<Rightarrow> pydict result" where
  "access_drafter fr = guard_node ''access_drafter'' (access_checks fr) [''verdict'']"

definition rbac_checks :: "(pyfloat \<Rightarrow> string) \<Rightarrow> check list" where
  "rbac_checks fr =
     [one_of fr ''verdict'' [''resolved'', ''blocked''],
      \<lambda>d. need (is_list (dict_get d ''proposed_bundle''))
        (VStr ''proposed_bundle must be a list of permission strings''),
      \<lambda>d. need (is_list (dict_get d ''sod_conflicts''))
        (VStr ''sod_conflicts must be a list (empty if none)''),
      \<lambda>d. need (is_list (dict_get d ''selected_templates''))
        (VStr ''selected_templates must be a list of template_id strings''),
      \<lambda>d. need (is_int (dict_get d ''template_default_size''))
        (VStr ''template_default_size must be an integer''),
      \<lambda>d. need (bundle_consistent ''resolved'' d) (bundle_says fr d)]"

definition rbac_resolver :: "(pyfloat \<Rightarrow> string) \<Rightarrow> pydict \<Rightarrow> pydict result" where
  "rbac_resolver fr = guard_node ''rbac_resolver'' (rbac_checks fr) [''verdict'', ''sod_conflicts'']"

text \<open>\<^verbatim>\<open>validate_fleet_employee_onboarding_induction_planner_schema\<close>.\<close>

definition induction_checks :: "(pyfloat \<Rightarrow> string) \<Rightarrow> check list" where
  "induction_checks fr =
     [one_of fr ''verdict'' [''booked'', ''unbookable''],
      \<lambda>d. need (is_dict (dict_get d ''slot''))
        (VStr ''slot must be a dict with start + end ISO timestamps''),
      \<lambda>d. need (case dict_get d ''slot'' of
               VDict s \<Rightarrow> is_str (dict_get s ''start'') \<and> is_str (dict_get s ''end'') | _ \<Rightarrow> False)
        (VStr ''slot.start and slot.end must be ISO-8601 strings''),
      \<lambda>d. need (is_list (dict_get d ''attendees'') \<and> 1 \<le> list_len (dict_get d ''attendees''))
        (VStr ''attendees must be a non-empty list of employee_id strings''),
      \<lambda>d. need ((dict_get d ''verdict'' = VStr ''booked'') =
               (truthy (dict_get d ''event_id'') \<and> truthy (dict_get d ''room_id'')))
        (says fr ''verdict/event_id inconsistent: verdict={!r} but room_id={!r} event_id={!r}''
          [dict_get d ''verdict'', dict_get d ''room_id'', dict_get d ''event_id''])]"

definition induction_planner :: "(pyfloat \<Rightarrow> string) \<Rightarrow> pydict \<Rightarrow> pydict result" where
  "induction_planner fr = guard_node ''induction_planner'' (induction_checks fr) [''verdict'']"

text \<open>\<^verbatim>\<open>validate_fleet_travel_preapproval_policy_fit_check\<close>.\<close>

definition travel_checks :: "(pyfloat \<Rightarrow> string) \<Rightarrow> check list" where
  "travel_checks fr =
     [one_of fr ''policy_fit'' [''in-policy'', ''out-of-policy''],
      one_of fr ''band'' [''low'', ''mid'', ''high''],
      \<lambda>d. need (is_list (dict_get d ''violated_clauses''))
        (VStr ''violated_clauses must be a list (empty if in-policy)''),
      \<lambda>d. need ((dict_get d ''policy_fit'' = VStr ''in-policy'') =
               (list_len (dict_get d ''violated_clauses'') = 0))
        (says fr ''policy_fit/violated_clauses inconsistent: fit={!r} but violated_clauses={!r}''
          [dict_get d ''policy_fit'', dict_get d ''violated_clauses''])]"

definition policy_fit_check :: "(pyfloat \<Rightarrow> string) \<Rightarrow> pydict \<Rightarrow> pydict result" where
  "policy_fit_check fr = guard_node ''policy_fit_check'' (travel_checks fr) [''policy_fit'', ''band'']"

text \<open>\<^verbatim>\<open>validate_fleet_vendor_kyc_kyc_diligence_schema\<close> and
  \<^verbatim>\<open>validate_fleet_vendor_kyc_ubo_resolver_schema\<close>.\<close>

definition kyc_checks :: "(pyfloat \<Rightarrow> string) \<Rightarrow> check list" where
  "kyc_checks fr =
     [\<lambda>d. need (is_str (dict_get d ''registry_id'') \<and> dict_get d ''registry_id'' \<noteq> VStr [])
        (says fr ''registry_id must be a non-empty string; got {!r}'' [dict_get d ''registry_id'']),
      \<lambda>d. need (is_list (dict_get d ''countries_screened'') \<and> list_len (dict_get d ''countries_screened'') \<noteq> 0)
        (VStr ''countries_screened must be a non-empty list (at least the country of incorporation)''),
      \<lambda>d. need (is_list (dict_get d ''entity_sanctions_hits''))
        (VStr ''entity_sanctions_hits must be a list (empty if clean)''),
      \<lambda>d. need (int_at_least 0 (dict_get d ''filings_24m_count''))
        (says fr ''filings_24m_count must be a non-negative int; got {!r}'' [dict_get d ''filings_24m_count''])]"

definition kyc_diligence :: "(pyfloat \<Rightarrow> string) \<Rightarrow> pydict \<Rightarrow> pydict result" where
  "kyc_diligence fr = guard_node ''kyc_diligence'' (kyc_checks fr)
     [''registry_id'', ''entity_sanctions_hits'']"

text \<open>The integer of a value that passed \<^verbatim>\<open>isinstance(v, int)\<close>.\<close>

fun int_val :: "pyval \<Rightarrow> int" where
  "int_val (VInt i) = i"
| "int_val (VBool b) = (if b then 1 else 0)"
| "int_val _ = 0"

definition ubo_checks :: "(pyfloat \<Rightarrow> string) \<Rightarrow> check list" where
  "ubo_checks fr =
     [\<lambda>d. need (int_at_least 0 (dict_get d ''ubos_count''))
        (says fr ''ubos_count must be a non-negative int; got {!r}'' [dict_get d ''ubos_count'']),
      \<lambda>d. need (is_list (dict_get d ''top_three_by_ownership''))
        (VStr ''top_three_by_ownership must be a list''),
      \<lambda>d. need (int (list_len (dict_get d ''top_three_by_ownership'')) = min 3 (int_val (dict_get d ''ubos_count'')))
        (says fr ''top_three_by_ownership length must be min(3, ubos_count)={}; got {}''
          [if int_val (dict_get d ''ubos_count'') < 3 then dict_get d ''ubos_count'' else VInt 3,
           len_val (dict_get d ''top_three_by_ownership'')]),
      \<lambda>d. need (is_list (dict_get d ''ubo_sanctions_hits''))
        (VStr ''ubo_sanctions_hits must be a list (empty if clean)''),
      \<lambda>d. need (is_list (dict_get d ''adverse_media_hits''))
        (VStr ''adverse_media_hits must be a list (empty if clean)'')]"

definition ubo_resolver :: "(pyfloat \<Rightarrow> string) \<Rightarrow> pydict \<Rightarrow> pydict result" where
  "ubo_resolver fr = guard_node ''ubo_resolver'' (ubo_checks fr)
     [''ubo_sanctions_hits'', ''adverse_media_hits'']"

section \<open>Risk levels\<close>

datatype risk = Low | Medium | High

fun risk_rank :: "risk \<Rightarrow> nat" where
  "risk_rank Low = 0"
| "risk_rank Medium = 1"
| "risk_rank High = 2"

lemma risk_rank_inject: "risk_rank a = risk_rank b \<longleftrightarrow> a = b"
  by (cases a; cases b) auto

instantiation risk :: linorder
begin

definition less_eq_risk :: "risk \<Rightarrow> risk \<Rightarrow> bool" where
  "less_eq_risk a b \<longleftrightarrow> risk_rank a \<le> risk_rank b"

definition less_risk :: "risk \<Rightarrow> risk \<Rightarrow> bool" where
  "less_risk a b \<longleftrightarrow> risk_rank a < risk_rank b"

instance
  by standard (auto simp: less_eq_risk_def less_risk_def risk_rank_inject)

end

fun risk_str :: "risk \<Rightarrow> string" where
  "risk_str Low = ''low''"
| "risk_str Medium = ''medium''"
| "risk_str High = ''high''"

definition risk_of :: "pyval \<Rightarrow> risk option" where
  "risk_of v = first_match (\<lambda>r. v = VStr (risk_str r)) [Low, Medium, High]"

lemma risk_of_str [simp]: "risk_of (VStr (risk_str r)) = Some r"
  by (cases r) (simp_all add: risk_of_def)

lemma risk_of_Some: "risk_of v = Some r \<longleftrightarrow> v = VStr (risk_str r)"
  by (cases r) (auto simp: risk_of_def split: if_splits)

definition risk_words :: "string list" where
  "risk_words = [''low'', ''medium'', ''high'']"

lemma in_risk_words: "in_strs v risk_words = Inr True \<longleftrightarrow> risk_of v \<noteq> None"
  by (auto simp: in_strs_True risk_of_def risk_words_def split: if_splits)

text \<open>\<^verbatim>\<open>validate_fleet_it_access_request_risk_assessor_schema\<close>.\<close>

fun score_entries :: "(pyfloat \<Rightarrow> string) \<Rightarrow> pyval list \<Rightarrow> pyval option result" where
  "score_entries fr [] = Inr None"
| "score_entries fr (e # es) =
     (case e of
        VDict r \<Rightarrow>
          bind_result (in_strs (dict_get r ''risk'') risk_words) (\<lambda>b.
            if b then score_entries fr es
            else Inr (Some (says fr
              ''per_role_scores entry risk must be one of {}; got {!r} for template_id={!r}''
              [VList (map VStr (sort risk_words)), dict_get r ''risk'', dict_get r ''template_id''])))
      | _ \<Rightarrow> Inr (Some (VStr ''per_role_scores entries must be objects'')))"

fun list_items :: "pyval \<Rightarrow> pyval list" where
  "list_items (VList xs) = xs"
| "list_items _ = []"

definition entry_risk :: "pyval \<Rightarrow> risk" where
  "entry_risk e =
     (case e of VDict r \<Rightarrow> (case risk_of (dict_get r ''risk'') of Some k \<Rightarrow> k | None \<Rightarrow> Low) | _ \<Rightarrow> Low)"

definition max_risk :: "pyval list \<Rightarrow> risk" where
  "max_risk es = fold (\<lambda>e k. max (entry_risk e) k) es Low"

definition overall_check :: "(pyfloat \<Rightarrow> string) \<Rightarrow> check" where
  "overall_check fr d =
     (let es = list_items (dict_get d ''per_role_scores'') in
      case risk_of (dict_get d ''overall_risk'') of
        Some k \<Rightarrow>
          need (es = [] \<or> max_risk es \<le> k)
            (says fr (''overall_risk={!r} is below the maximum per_role_scores risk; '' @
                      ''per-role scores require at least {!r}'')
              [dict_get d ''overall_risk'', VStr (risk_str (max_risk es))])
      | None \<Rightarrow> Inl (KeyError (dict_get d ''overall_risk'')))"

definition risk_checks :: "(pyfloat \<Rightarrow> string) \<Rightarrow> check list" where
  "risk_checks fr =
     [one_of fr ''overall_risk'' risk_words,
      \<lambda>d. need (is_list (dict_get d ''per_role_scores''))
        (VStr ''per_role_scores must be a list of {template_id, risk} objects''),
      \<lambda>d. score_entries fr (list_items (dict_get d ''per_role_scores'')),
      \<lambda>d. need (int_at_least 0 (dict_get d ''breach_count''))
        (VStr ''breach_count must be a non-negative integer''),
      \<lambda>d. need (int_at_least 0 (dict_get d ''recent_grant_volume''))
        (VStr ''recent_grant_volume must be a non-negative integer''),
      overall_check fr]"

definition risk_assessor :: "(pyfloat \<Rightarrow> string) \<Rightarrow> pydict \<Rightarrow> pydict result" where
  "risk_assessor fr = guard_node ''risk_assessor'' (risk_checks fr) [''overall_risk'']"

section \<open>Performance reviews\<close>

definition ratings :: "string list" where
  "ratings = [''below-expectations'', ''meets-expectations'', ''exceeds-expectations'', ''outstanding'']"

definition distribution_fits :: "string list" where
  "distribution_fits = [''fits'', ''over-cluster'', ''under-cluster'']"

definition plain_int_at_least :: "int \<Rightarrow> pyval \<Rightarrow> bool" where
  "plain_int_at_least n v \<longleftrightarrow> (case v of VInt i \<Rightarrow> n \<le> i | _ \<Rightarrow> False)"

text \<open>\<^verbatim>\<open>validate_fleet_perf_review_calibration_drafter_schema\<close>.\<close>

definition is_drafted :: "pydict \<Rightarrow> bool" where
  "is_drafted d \<longleftrightarrow> str_in (dict_get d ''proposed_rating'') ratings \<and>
     str_in (dict_get d ''distribution_fit'') distribution_fits \<and> filled_str (dict_get d ''narrative'')"

definition calibration_checks :: "(pyfloat \<Rightarrow> string) \<Rightarrow> check list" where
  "calibration_checks fr =
     [one_of fr ''verdict'' [''drafted'', ''blocked''],
      one_of fr ''proposed_rating'' ratings,
      one_of fr ''distribution_fit'' distribution_fits,
      \<lambda>d. need (filled_str (dict_get d ''narrative'')) (VStr ''narrative must be a non-empty string''),
      \<lambda>d. need (is_dict (dict_get d ''grade_distribution_summary''))
        (VStr ''grade_distribution_summary must be an object with grade + headroom_proposed_rating''),
      \<lambda>d. need (case dict_get d ''grade_distribution_summary'' of
               VDict g \<Rightarrow> plain_int_at_least 0 (dict_get g ''headroom_proposed_rating'') | _ \<Rightarrow> False)
        (VStr ''grade_distribution_summary.headroom_proposed_rating must be a non-negative integer''),
      \<lambda>d. need (is_list (dict_get d ''calibration_history_summary''))
        (VStr ''calibration_history_summary must be a list of {cycle, rating} objects''),
      \<lambda>d. need (is_list_of (carries [''cycle'', ''rating'']) (dict_get d ''calibration_history_summary''))
        (VStr ''calibration_history_summary entries must be objects carrying cycle + rating''),
      \<lambda>d. need ((dict_get d ''verdict'' = VStr ''drafted'') = is_drafted d)
        (says fr (''verdict/draft inconsistent: verdict={!r} but proposed_rating={!r}, '' @
                  ''distribution_fit={!r}, narrative_present={!r}'')
          [dict_get d ''verdict'', dict_get d ''proposed_rating'', dict_get d ''distribution_fit'',
           VBool (filled_str (dict_get d ''narrative''))]),
      \<lambda>d. need (\<not> (dict_get d ''distribution_fit'' = VStr ''over-cluster'' \<and>
                \<not> str_in (dict_get d ''proposed_rating'') [''exceeds-expectations'', ''outstanding'']))
        (says fr (''distribution_fit/proposed_rating inconsistent: over-cluster only applies to '' @
                  ''top ratings; got proposed_rating={!r}'') [dict_get d ''proposed_rating'']),
      \<lambda>d. need (\<not> (dict_get d ''distribution_fit'' = VStr ''under-cluster'' \<and>
                \<not> str_in (dict_get d ''proposed_rating'') [''below-expectations'', ''meets-expectations'']))
        (says fr (''distribution_fit/proposed_rating inconsistent: under-cluster only applies to '' @
                  ''bottom ratings; got proposed_rating={!r}'') [dict_get d ''proposed_rating''])]"

definition calibration_drafter :: "(pyfloat \<Rightarrow> string) \<Rightarrow> pydict \<Rightarrow> pydict result" where
  "calibration_drafter fr = guard_node ''calibration_drafter'' (calibration_checks fr)
     [''verdict'', ''proposed_rating'', ''distribution_fit'']"

text \<open>\<^verbatim>\<open>validate_fleet_perf_review_peer_feedback_aggregator_schema\<close>.\<close>

fun sub_dict :: "pyval \<Rightarrow> pydict" where
  "sub_dict (VDict d) = d"
| "sub_dict _ = []"

definition feedback_checks :: "(pyfloat \<Rightarrow> string) \<Rightarrow> check list" where
  "feedback_checks fr =
     [one_of fr ''verdict'' [''aggregated'', ''blocked''],
      \<lambda>d. need (plain_int_at_least 0 (dict_get d ''peer_review_count''))
        (says fr ''peer_review_count must be a non-negative integer; got {!r}''
          [dict_get d ''peer_review_count'']),
      \<lambda>d. need (is_list (dict_get d ''peer_reviews''))
        (VStr (''peer_reviews must be a list of {review_id, reviewer_id, relationship, sentiment, '' @
               ''score_out_of_5} objects'')),
      \<lambda>d. need (is_list_of (carries [''review_id'']) (dict_get d ''peer_reviews''))
        (VStr ''peer_reviews entries must be objects carrying a review_id''),
      \<lambda>d. need (case dict_get d ''reporting_line'' of
               VDict r \<Rightarrow> truthy (dict_get r ''manager_id'') | _ \<Rightarrow> False)
        (VStr ''reporting_line must be an object carrying manager_id''),
      \<lambda>d. need (is_dict (dict_get d ''okr_results''))
        (VStr ''okr_results must be an object with objective_count + overall_achievement_pct''),
      \<lambda>d. need (plain_int_at_least 0 (dict_get (sub_dict (dict_get d ''okr_results'')) ''objective_count''))
        (VStr ''okr_results.objective_count must be a non-negative integer''),
      \<lambda>d. need (is_number (dict_get (sub_dict (dict_get d ''okr_results'')) ''overall_achievement_pct''))
        (VStr ''okr_results.overall_achievement_pct must be a number''),
      \<lambda>d. need (int_val (dict_get d ''peer_review_count'') = int (list_len (dict_get d ''peer_reviews'')))
        (says fr ''peer_review_count={!r} disagrees with len(peer_reviews)={}''
          [dict_get d ''peer_review_count'', len_val (dict_get d ''peer_reviews'')]),
      \<lambda>d. need ((dict_get d ''verdict'' = VStr ''aggregated'') =
               (1 \<le> int_val (dict_get d ''peer_review_count'') \<and>
                1 \<le> int_val (dict_get (sub_dict (dict_get d ''okr_results'')) ''objective_count'') \<and>
                truthy (dict_get (sub_dict (dict_get d ''reporting_line'')) ''manager_id'')))
        (says fr (''verdict/evidence inconsistent: verdict={!r} but peer_review_count={!r}, '' @
                  ''objective_count={!r}, reporting_line.manager_id={!r}'')
          [dict_get d ''verdict'', dict_get d ''peer_review_count'',
           dict_get (sub_dict (dict_get d ''okr_results'')) ''objective_count'',
           dict_get (sub_dict (dict_get d ''reporting_line'')) ''manager_id''])]"

definition peer_feedback :: "(pyfloat \<Rightarrow> string) \<Rightarrow> pydict \<Rightarrow> pydict result" where
  "peer_feedback fr = guard_node ''peer_feedback_aggregator'' (feedback_checks fr)
     [''verdict'', ''peer_review_count'']"

end
