(* ===== verification/Claim_Graphs.thy ===== *)
theory Claim_Graphs imports Validators begin

text \<open>
  The expense-claim guardrails (\<^verbatim>\<open>validate_arbitration_schema\<close>,
  \<^verbatim>\<open>validate_classification_schema\<close> with its node, \<^verbatim>\<open>validate_receipt_schema\<close>), the
  required-fields and creative stubs, the deterministic routers
  (\<^verbatim>\<open>executors/deterministic\<close>), and the graph that runs nodes in a line
  (\<^verbatim>\<open>api/functions/graphs/_tracked_executor.py\<close>).

  The agent framework only passes the message along; the webhook is the list of emitted events.
  The invocation ids and durations a node reports are arguments.
\<close>

section \<open>Validators that raise\<close>

text \<open>\<^verbatim>\<open>v[:200]\<close>.\<close>

fun slice200 :: "pyval \<Rightarrow> pyval result" where
  "slice200 (VStr s) = Inr (VStr (take 200 s))"
| "slice200 (VList xs) = Inr (VList (take 200 xs))"
| "slice200 v = Inl (TypeError (Msg ''object is not subscriptable'' [v]))"

definition parse_check :: "(pyfloat \<Rightarrow> string) \<Rightarrow> string \<Rightarrow> (pydict \<Rightarrow> pyval) \<Rightarrow> check" where
  "parse_check fr text raw d =
     (if truthy (dict_get d ''parse_error'')
      then bind_result (slice200 (raw d)) (\<lambda>v. Inr (Some (says fr (text @ '': {}'') [v])))
      else Inr None)"

definition fields_check :: "string list \<Rightarrow> check" where
  "fields_check required d =
     Inr (map_option (\<lambda>k. VStr (''missing field: '' @ k)) (first_match (\<lambda>k. \<not> dict_has d k) required))"

text \<open>\<^verbatim>\<open>validate(payload)\<close>: the first objection is raised.\<close>

definition validate_with :: "string \<Rightarrow> check list \<Rightarrow> pydict \<Rightarrow> unit result" where
  "validate_with cls checks payload =
     bind_result (run_checks checks payload) (\<lambda>r.
       case r of None \<Rightarrow> Inr () | Some m \<Rightarrow> Inl (Raised cls [m]))"

definition unit_interval :: "pyval \<Rightarrow> bool" where
  "unit_interval v \<longleftrightarrow> is_num v \<and> pf_le (Fin 0) (num_of v) \<and> pf_le (num_of v) (Fin 1)"

definition confidence_check :: "(pyfloat \<Rightarrow> string) \<Rightarrow> check" where
  "confidence_check fr d =
     need (unit_interval (dict_get d ''confidence''))
       (says fr ''confidence must be float in [0,1]; got {!r}'' [dict_get d ''confidence''])"

text \<open>The section sign, code point 167.\<close>

definition cites_section :: "pyval \<Rightarrow> bool" where
  "cites_section v = (case v of VStr (c # s) \<Rightarrow> of_char c = (167 :: nat) | _ \<Rightarrow> False)"

definition section_sign :: string where "section_sign = [char_of (167 :: nat)]"

definition recommendations :: "string list" where
  "recommendations = [''accept-justification'', ''require-repayment'', ''issue-warning'', ''escalate'']"

definition arbitration_checks :: "(pyfloat \<Rightarrow> string) \<Rightarrow> check list" where
  "arbitration_checks fr =
     [parse_check fr ''parse_error'' (\<lambda>d. py_or (dict_get d ''raw'') (VStr [])),
      fields_check [''recommendation'', ''rationale'', ''policy_clause'', ''confidence''],
      one_of fr ''recommendation'' recommendations,
      \<lambda>d. need (filled_str (dict_get d ''rationale'')) (VStr ''rationale must be non-empty''),
      \<lambda>d. need (cites_section (dict_get d ''policy_clause''))
        (says fr (''policy_clause must start with '' @ section_sign @ ''; got {!r}'')
          [dict_get d ''policy_clause'']),
      confidence_check fr]"

definition validate_arbitration :: "(pyfloat \<Rightarrow> string) \<Rightarrow> pydict \<Rightarrow> unit result" where
  "validate_arbitration fr = validate_with ''ArbitrationSchemaError'' (arbitration_checks fr)"

definition verdict_colours :: "string list" where
  "verdict_colours = [''green'', ''amber'', ''red'']"

definition classification_checks :: "(pyfloat \<Rightarrow> string) \<Rightarrow> check list" where
  "classification_checks fr =
     [parse_check fr ''parse_error in classifier payload'' (\<lambda>d. dict_get_or d ''raw'' (VStr [])),
      fields_check [''verdict'', ''policy_clause'', ''reasoning'', ''confidence'', ''competing_interpretations''],
      \<lambda>d. need (str_in (dict_get d ''verdict'') verdict_colours)
        (VStr (''verdict must be one of ('' @ comma (map py_repr verdict_colours) @ ''), got '' @
               val_repr fr (dict_get d ''verdict''))),
      \<lambda>d. need (cites_section (dict_get d ''policy_clause''))
        (says fr (''policy_clause must be a string starting with '' @ section_sign @ ''; got {!r}'')
          [dict_get d ''policy_clause'']),
      \<lambda>d. need (filled_str (dict_get d ''reasoning'')) (VStr ''reasoning must be a non-empty string''),
      confidence_check fr,
      \<lambda>d. need (is_list (dict_get d ''competing_interpretations''))
        (VStr ''competing_interpretations must be a list'')]"

definition validate_classification :: "(pyfloat \<Rightarrow> string) \<Rightarrow> pydict \<Rightarrow> unit result" where
  "validate_classification fr = validate_with ''ClassificationSchemaError'' (classification_checks fr)"

definition receipt_flavours :: "string list" where
  "receipt_flavours = [''correct'', ''wrong-amount'', ''wrong-date'', ''wrong-vendor'',
     ''missing-line-item'', ''missing-receipt'']"

definition receipt_checks :: "(pyfloat \<Rightarrow> string) \<Rightarrow> check list" where
  "receipt_checks fr =
     [parse_check fr ''parse_error in receipt-validator payload'' (\<lambda>d. py_or (dict_get d ''raw'') (VStr [])),
      fields_check [''verdict'', ''flavour'', ''evidence'', ''confidence''],
      \<lambda>d. bind_result (in_strs (dict_get d ''verdict'') [''match'', ''mismatch'']) (\<lambda>b.
        need b (VStr (''verdict must be '' @ py_repr ''match'' @ '' or '' @ py_repr ''mismatch'' @
                      ''; got '' @ val_repr fr (dict_get d ''verdict'')))),
      one_of fr ''flavour'' receipt_flavours,
      \<lambda>d. need ((dict_get d ''verdict'' = VStr ''match'') = (dict_get d ''flavour'' = VStr ''correct''))
        (says fr ''verdict/flavour disagreement: verdict={!r}, flavour={!r}''
          [dict_get d ''verdict'', dict_get d ''flavour'']),
      \<lambda>d. need (filled_str (dict_get d ''evidence'')) (VStr ''evidence must be a non-empty string''),
      confidence_check fr]"

definition validate_receipt :: "(pyfloat \<Rightarrow> string) \<Rightarrow> pydict \<Rightarrow> unit result" where
  "validate_receipt fr = validate_with ''ReceiptSchemaError'' (receipt_checks fr)"

section \<open>Their nodes\<close>

text \<open>The rest of the input is spread over the answer last, and replaces what the answer says
  under the same key.\<close>

definition spread :: "string \<Rightarrow> pydict \<Rightarrow> pydict \<Rightarrow> pydict" where
  "spread key input answer = dict_merge answer (dict_del key input)"

text \<open>\<^verbatim>\<open>except cls as e\<close>: the objection of a validator, other exceptions pass.\<close>

definition caught :: "string \<Rightarrow> unit result \<Rightarrow> pyval option result" where
  "caught cls r =
     (case r of
        Inr _ \<Rightarrow> Inr None
      | Inl (Raised c [m]) \<Rightarrow> if c = cls then Inr (Some m) else Inl (Raised c [m])
      | Inl x \<Rightarrow> Inl x)"

definition spreading_node ::
  "string \<Rightarrow> string \<Rightarrow> (pydict \<Rightarrow> unit result) \<Rightarrow> string list \<Rightarrow> pydict \<Rightarrow> pydict result" where
  "spreading_node key cls validate copied input =
     bind_result (dict_of_val (dict_get_or input key (VDict []))) (\<lambda>d.
     bind_result (caught cls (validate d)) (\<lambda>r. Inr (spread key input
       (case r of
          None \<Rightarrow> [(''ok'', VBool True), (key, VDict d)] @ map (\<lambda>k. (k, dict_get d k)) copied
        | Some m \<Rightarrow> [(''ok'', VBool False), (''blocked_reason'', m), (key, VDict d)]))))"

definition arbitration_node :: "(pyfloat \<Rightarrow> string) \<Rightarrow> pydict \<Rightarrow> pydict result" where
  "arbitration_node fr =
     spreading_node ''arbitration'' ''ArbitrationSchemaError'' (validate_arbitration fr) [''recommendation'']"

definition receipt_node :: "(pyfloat \<Rightarrow> string) \<Rightarrow> pydict \<Rightarrow> pydict result" where
  "receipt_node fr =
     spreading_node ''receipt_validation'' ''ReceiptSchemaError'' (validate_receipt fr)
       [''flavour'', ''verdict'']"

text \<open>\<^verbatim>\<open>validate_classification_schema_node\<close> does not spread its input.\<close>

definition classification_node :: "(pyfloat \<Rightarrow> string) \<Rightarrow> pydict \<Rightarrow> pydict result" where
  "classification_node fr = guard_node ''classification'' (classification_checks fr) [''verdict'']"

section \<open>Stubs and deterministic nodes\<close>

text \<open>\<^verbatim>\<open>order\<close> is the order in which the set of required fields is walked.\<close>

definition required_fields :: "string list" where
  "required_fields = [''category'', ''amount'', ''currency'', ''market'', ''vendor'']"

definition required_node :: "string list \<Rightarrow> pydict \<Rightarrow> pydict result" where
  "required_node order input =
     bind_result (payload_of ''extracted'' input) (\<lambda>fields.
       let missing = filter (\<lambda>k. \<not> truthy (dict_get fields k)) order in
       Inr [(''ok'', VBool (missing = [])), (''missing'', VList (map VStr missing)),
            (''extracted'', VDict fields)])"

definition creative_stub :: "pydict \<Rightarrow> pydict" where
  "creative_stub input =
     (let phase = dict_get input ''phase'' in
      if \<not> truthy phase then
        dict_merge input [(''ok'', VBool False), (''blocked_reason'', VStr ''missing phase tag from agent'')]
      else dict_merge input [(''ok'', VBool True), (''validated_phase'', phase)])"

definition hiring_stub :: "pydict \<Rightarrow> pydict" where
  "hiring_stub input = [(''ok'', VBool True)]"

definition subscript :: "pyval \<Rightarrow> string \<Rightarrow> pyval result" where
  "subscript v k =
     (case v of
        VDict d \<Rightarrow> (case map_of d k of None \<Rightarrow> Inl (KeyError (VStr k)) | Some u \<Rightarrow> Inr u)
      | _ \<Rightarrow> Inl (TypeError (Msg ''not subscriptable by a string'' [v])))"

definition py_le :: "pyval \<Rightarrow> pyval \<Rightarrow> bool result" where
  "py_le a b =
     (if is_num a \<and> is_num b then Inr (pf_le (num_of a) (num_of b))
      else case (a, b) of
        (VStr s, VStr t) \<Rightarrow> Inr (s \<le> t)
      | _ \<Rightarrow> Inl (TypeError (Msg ''unorderable'' [a, b])))"

definition threshold_routing :: "(pyfloat \<Rightarrow> string) \<Rightarrow> pydict \<Rightarrow> pydict result" where
  "threshold_routing fr input =
     (if truthy (dict_get input ''force_hitl'')
      then Inr [(''requires_hitl'', VBool True), (''reason'', VStr ''demo-hitl injection'')]
      else
        bind_result (subscript (VDict input) ''invoice'') (\<lambda>inv.
        bind_result (subscript inv ''amount'') (\<lambda>amount.
        bind_result (subscript (VDict input) ''policy'') (\<lambda>pol.
        bind_result (subscript pol ''auto_threshold'') (\<lambda>thr.
        bind_result (py_le amount thr) (\<lambda>small.
          Inr (if small then [(''requires_hitl'', VBool False), (''decision'', VStr ''auto-approved'')]
               else [(''requires_hitl'', VBool True),
                     (''reason'', says fr ''amount {} > auto threshold {}'' [amount, thr])])))))))"

definition load_authority_policy :: "pydict \<Rightarrow> pydict" where
  "load_authority_policy input =
     [(''auto_threshold'', VFloat (Fin 5000)), (''cfo_threshold'', VFloat (Fin 25000))]"

definition verdict_routing :: "pydict \<Rightarrow> pydict result" where
  "verdict_routing input =
     (let verdict = py_or (dict_get input ''verdict'') (VStr ''amber'') in
      bind_result (payload_of ''escalation'' input) (\<lambda>esc.
      let tier = dict_get esc ''tier''; ov = dict_get input ''route_override'' in
      bind_result (in_strs ov [''auto-approve'', ''reviewer-queue'', ''notify'']) (\<lambda>forced.
        Inr
          (if forced then
             [(''routed_to'', ov), (''verdict'', verdict), (''escalation_tier'', tier),
              (''override_applied'', VBool True)]
           else if verdict = VStr ''green'' then
             [(''routed_to'', VStr ''auto-approve''), (''verdict'', verdict), (''escalation_tier'', VNone)]
           else if verdict = VStr ''amber'' then
             [(''routed_to'', VStr ''reviewer-queue''), (''verdict'', verdict), (''escalation_tier'', tier)]
           else
             [(''routed_to'', VStr ''notify''), (''verdict'', verdict), (''escalation_tier'', tier)]))))"

section \<open>The graph\<close>

record node =
  nd_name :: string
  nd_type :: string
  nd_fn :: "pydict \<Rightarrow> pydict result"
  nd_invocation :: string
  nd_ms :: int

record webhook =
  wh_workflow :: pyval
  wh_instance :: pyval
  wh_kind :: string
  wh_fields :: pydict

definition executor_event ::
  "(pyfloat \<Rightarrow> string) \<Rightarrow> node \<Rightarrow> pydict \<Rightarrow> string \<Rightarrow> pydict \<Rightarrow> webhook" where
  "executor_event fr n input kind extra =
     \<lparr>wh_workflow = dict_get_or input ''workflow_id'' (VStr ''?''),
      wh_instance = dict_get input ''instance_id'', wh_kind = kind,
      wh_fields = [(''name'', VStr (nd_name n))] @ extra @
        (if dict_get input ''phase'' = VNone then []
         else [(''phase'', VStr (py_str fr (dict_get input ''phase'')))]) @
        [(''invocation_id'', VStr (nd_invocation n))]\<rparr>"

definition stage_fields :: "node \<Rightarrow> string \<Rightarrow> pydict" where
  "stage_fields n stage = [(''type'', VStr (nd_type n)), (''stage'', VStr stage)]"

definition block_reason :: "pydict \<Rightarrow> pyval" where
  "block_reason r =
     py_or (py_or (dict_get r ''blocked_reason'') (dict_get r ''missing'')) (VStr ''validation failed'')"

definition objects :: "node \<Rightarrow> pydict \<Rightarrow> bool" where
  "objects n r \<longleftrightarrow> nd_type n = ''validator'' \<and> dict_get r ''ok'' = VBool False"

text \<open>One node: the message it forwards or the exception, and the events.  \<^verbatim>\<open>show\<close> is the text
  of an exception.\<close>

definition process ::
  "(pyfloat \<Rightarrow> string) \<Rightarrow> (exc \<Rightarrow> string) \<Rightarrow> node \<Rightarrow> pydict \<Rightarrow> pydict result \<times> webhook list" where
  "process fr show n input =
     (let start = executor_event fr n input ''executor.invoked'' (stage_fields n ''start'');
          failed = (\<lambda>x. executor_event fr n input ''executor.invoked''
            (stage_fields n ''error'' @ [(''error'', VStr (show x)), (''duration_ms'', VInt (nd_ms n))]))
      in case nd_fn n input of
        Inl x \<Rightarrow> (Inl x, [start, failed x])
      | Inr r \<Rightarrow>
          if objects n r then
            let x = ValueError (Msg ''{}: {}'' [VStr (nd_name n), block_reason r]) in
            (Inl x, [start, executor_event fr n input ''validator.blocked''
                       [(''reason'', VStr (py_str fr (block_reason r)))], failed x])
          else
            (Inr (dict_merge input r),
             [start, executor_event fr n input ''executor.invoked''
                (stage_fields n ''complete'' @ [(''duration_ms'', VInt (nd_ms n))])]))"

fun run_line ::
  "(pyfloat \<Rightarrow> string) \<Rightarrow> (exc \<Rightarrow> string) \<Rightarrow> node list \<Rightarrow> pydict \<Rightarrow> pydict result \<times> webhook list" where
  "run_line fr show [] input = (Inr input, [])"
| "run_line fr show (n # ns) input =
     (case process fr show n input of
        (Inl x, es) \<Rightarrow> (Inl x, es)
      | (Inr out, es) \<Rightarrow> (let (r, es') = run_line fr show ns out in (r, es @ es')))"

section \<open>What a completed graph shows\<close>

text \<open>A validator node and what its answer vouches for.\<close>

locale validator_node =
  fixes fn :: "pydict \<Rightarrow> pydict result"
    and accepts :: "pydict \<Rightarrow> bool"
  assumes vouches: "fn input = Inr r \<Longrightarrow> dict_get r ''ok'' \<noteq> VBool False \<Longrightarrow> accepts input"
begin

lemma forwarded_accepted:
  assumes "process fr show n input = (Inr out, es)" and "nd_fn n = fn" and "nd_type n = ''validator''"
  shows "accepts input"
  using assms vouches[of input]
  by (auto simp: process_def objects_def Let_def split: sum.splits if_splits)

lemma line_accepted:
  assumes "run_line fr show (xs @ n # ys) input = (Inr out, es)"
    and "nd_fn n = fn" and "nd_type n = ''validator''"
  shows "\<exists>mid es'. run_line fr show xs input = (Inr mid, es') \<and> accepts mid"
  using assms(1)
proof (induction xs arbitrary: input es)
  case Nil
  then obtain o1 es1 where "process fr show n input = (Inr o1, es1)"
    by (auto split: prod.splits sum.splits)
  from forwarded_accepted[OF this assms(2,3)] show ?case by simp
next
  case (Cons x xs)
  then obtain o1 es1 es2 where p: "process fr show x input = (Inr o1, es1)"
    and r: "run_line fr show (xs @ n # ys) o1 = (Inr out, es2)"
    by (auto split: prod.splits sum.splits)
  from Cons.IH[OF r] p show ?case by auto
qed

end

interpretation guard: validator_node "guard_node key checks copied"
    "\<lambda>input. \<exists>p. payload_of key input = Inr p \<and> list_all (\<lambda>c. c p = Inr None) checks"
  for key :: string and checks :: "check list" and copied :: "string list"
proof (unfold_locales)
  fix input r
  assume n: "guard_node key checks copied input = Inr r" and ok: "dict_get r ''ok'' \<noteq> VBool False"
  obtain p where p: "payload_of key input = Inr p" "guardrail key checks copied p = Inr r"
    using n by (auto simp: guard_node_def bind_result_Inr_iff)
  from p(2) ok show "\<exists>p. payload_of key input = Inr p \<and> list_all (\<lambda>c. c p = Inr None) checks"
    using p(1) by (cases rule: guardrail_cases) auto
qed

interpretation phase: validator_node "guardrail key checks copied"
    "\<lambda>input. list_all (\<lambda>c. c input = Inr None) checks"
  for key :: string and checks :: "check list" and copied :: "string list"
proof (unfold_locales)
  fix input r
  assume "guardrail key checks copied input = Inr r" and "dict_get r ''ok'' \<noteq> VBool False"
  then show "list_all (\<lambda>c. c input = Inr None) checks" by (cases rule: guardrail_cases) auto
qed

interpretation required: validator_node "required_node order"
    "\<lambda>input. \<exists>p. payload_of ''extracted'' input = Inr p \<and> (\<forall>k\<in>set order. truthy (dict_get p k))"
  for order :: "string list"
  by unfold_locales (auto simp: required_node_def bind_result_Inr_iff Let_def filter_empty_conv)

interpretation creative: validator_node "\<lambda>input. Inr (creative_stub input)"
    "\<lambda>input. truthy (dict_get input ''phase'')"
  by unfold_locales
    (auto simp: creative_stub_def Let_def dict_get_def map_of_dict_merge split: if_splits)

text \<open>The events of a node: it starts, and it completes or fails.\<close>

lemma process_events:
  assumes "process fr show n input = (r, es)"
  shows "es \<noteq> [] \<and> dict_get (wh_fields (hd es)) ''stage'' = VStr ''start'' \<and>
    dict_get (wh_fields (last es)) ''stage'' = VStr (case r of Inl _ \<Rightarrow> ''error'' | Inr _ \<Rightarrow> ''complete'')"
  using assms
  by (auto simp: process_def Let_def executor_event_def stage_fields_def split: sum.splits if_splits)

text \<open>The spreading nodes do not vouch for their payload: an \<^verbatim>\<open>ok\<close> already in the message
  survives.\<close>

lemma spreading_overridden:
  assumes "spreading_node key cls validate copied input = Inr out"
    and "map_of input ''ok'' = Some (VBool True)" and "key \<noteq> ''ok''"
    and "distinct (map fst input)"
  shows "dict_get out ''ok'' = VBool True"
proof -
  have m: "map_of (rev (dict_del key input)) ''ok'' = Some (VBool True)"
  proof (rule map_of_is_SomeI)
    show "distinct (map fst (rev (dict_del key input)))"
      using distinct_dict_del[OF assms(4), of key] by (simp add: rev_map[symmetric])
    show "(''ok'', VBool True) \<in> set (rev (dict_del key input))"
      using map_of_SomeD[OF assms(2)] assms(3) by (auto simp: dict_del_def)
  qed
  have "\<exists>a. out = spread key input a"
    using assms(1)
    by (auto simp: spreading_node_def bind_result_Inr_iff)
  with m show ?thesis by (auto simp: spread_def dict_get_def map_of_dict_merge)
qed

section \<open>What particular guardrails establish\<close>

lemmas check_lists = three_way_checks_def terms_checks_def calibration_checks_def risk_checks_def

text \<open>A three-way match that passes is matched exactly when all three parts hold.\<close>

lemma three_way_established:
  assumes "list_all (\<lambda>c. c d = Inr None) (three_way_checks fr)"
  shows "dict_get d ''matched'' = VBool (all_three d)"
    and "all_three d \<Longrightarrow> dict_get d ''discrepancies'' = VList []"
proof -
  show m: "dict_get d ''matched'' = VBool (all_three d)"
    using assms by (simp add: three_way_checks_def)
  show "dict_get d ''discrepancies'' = VList []" if "all_three d"
    using assms that m by (cases "dict_get d ''discrepancies''") (simp_all add: three_way_checks_def)
qed

text \<open>A calibration draft that passes is never blocked: the checks before the consistency check
  already make it a draft.\<close>

lemma one_of_str_in: "one_of fr key allowed d = Inr None \<Longrightarrow> str_in (dict_get d key) allowed"
  by (auto simp: one_of_None str_in_def list_ex_iff)

lemma calibration_established:
  assumes "list_all (\<lambda>c. c d = Inr None) (calibration_checks fr)"
  shows "dict_get d ''verdict'' = VStr ''drafted''"
proof -
  have "one_of fr ''proposed_rating'' ratings d = Inr None"
    "one_of fr ''distribution_fit'' distribution_fits d = Inr None"
    "filled_str (dict_get d ''narrative'')"
    "(dict_get d ''verdict'' = VStr ''drafted'') = is_drafted d"
    using assms by (simp_all add: calibration_checks_def)
  then show ?thesis by (auto simp: is_drafted_def dest: one_of_str_in)
qed

text \<open>An overall risk that passes is at least the risk of every role.\<close>

lemma max_risk_upper: "e \<in> set es \<Longrightarrow> entry_risk e \<le> max_risk es"
proof -
  have "k \<le> fold (\<lambda>e k. max (entry_risk e) k) es k \<and>
      (\<forall>e\<in>set es. entry_risk e \<le> fold (\<lambda>e k. max (entry_risk e) k) es k)" for k
  proof (induction es arbitrary: k)
    case (Cons e es)
    from Cons[of "max (entry_risk e) k"] show ?case by (auto intro: order_trans)
  qed simp
  then show "e \<in> set es \<Longrightarrow> entry_risk e \<le> max_risk es" by (auto simp: max_risk_def)
qed

lemma risk_established:
  assumes "list_all (\<lambda>c. c d = Inr None) (risk_checks fr)"
  shows "\<exists>k. risk_of (dict_get d ''overall_risk'') = Some k \<and>
    (\<forall>e\<in>set (list_items (dict_get d ''per_role_scores'')). entry_risk e \<le> k)"
proof -
  let ?es = "list_items (dict_get d ''per_role_scores'')"
  have "overall_check fr d = Inr None" using assms by (simp add: risk_checks_def)
  then obtain k where k: "risk_of (dict_get d ''overall_risk'') = Some k" and "?es = [] \<or> max_risk ?es \<le> k"
    by (auto simp: overall_check_def Let_def split: option.splits)
  then have "\<forall>e\<in>set ?es. entry_risk e \<le> k" using max_risk_upper by (auto intro: order_trans)
  with k show ?thesis by blast
qed

text \<open>A current contract value that is a NaN satisfies every check on the amounts, whatever change
  is claimed.\<close>

definition nan_terms :: "pyval \<Rightarrow> pydict" where
  "nan_terms claimed =
     [(''verdict'', VStr ''drafted''), (''cost_change_pct'', claimed),
      (''proposed_terms'', VList [VDict [(''line_item'', VStr ''licence'')]]),
      (''cited_clauses'', VList [VDict [(''section'', VStr ''4''), (''quote'', VStr ''renewal'')]]),
      (''proposed_annual_value_usd'', VInt 900000), (''current_annual_value_usd'', VFloat NaN)]"

lemma nan_terms_pass:
  assumes "is_number claimed"
  shows "list_all (\<lambda>c. c (nan_terms claimed) = Inr None) (terms_checks fr)"
  using assms
  by (simp add: terms_checks_def nan_terms_def one_of_None is_list_of_def carries_def is_number_def
      pf_le_def pf_eq_def derived_pct_def pf_sub_def pf_div_def pf_scale_def pf_abs_def)

end
