(* ===== verification/World_Engine.thy ===== *)
theory World_Engine imports Bus begin

text \<open>
  The system-dynamics engine (\<^verbatim>\<open>api/server/world/contract.py\<close>, \<^verbatim>\<open>api/server/world/engine.py\<close>)
  and its toy pack (\<^verbatim>\<open>api/server/world/packs/toy.py\<close>): stocks, flows, signals, resources,
  perturbations, latched sensors, and actuators that react to bus events.

  A pack's callables read the world through \<^verbatim>\<open>world["name"]\<close>; they are functions of that
  lookup and may raise.  The engine's state extends the bus, because a sensor's event can run an
  actuator before the next sensor is read.  \<^verbatim>\<open>en_out\<close> records the events put on the bus.
\<close>

section \<open>World packs\<close>

type_synonym reading = "string \<Rightarrow> rat result"

record stock =
  st_name :: string
  st_initial :: rat
  st_min :: "rat option"
  st_max :: "rat option"

record flow =
  fl_into :: string
  fl_rate :: "reading \<Rightarrow> rat result"
  fl_out :: "string option"

record signal =
  sg_name :: string
  sg_formula :: "reading \<Rightarrow> rat result"

record world_resource =
  rs_name :: string
  rs_capacity :: rat

record perturbation =
  pt_name :: string
  pt_target :: string
  pt_magnitude :: rat
  pt_ticks :: int

record sensor =
  sn_name :: string
  sn_when :: "reading \<Rightarrow> bool result"
  sn_emit :: string

record actuator =
  ac_name :: string
  ac_on :: string
  ac_target :: string
  ac_effect :: "pydict \<Rightarrow> rat result"

record world_pack =
  pk_name :: string
  pk_stocks :: "stock list"
  pk_flows :: "flow list"
  pk_signals :: "signal list"
  pk_resources :: "world_resource list"
  pk_perturbations :: "perturbation list"
  pk_sensors :: "sensor list"
  pk_actuators :: "actuator list"
  pk_inputs :: "(string \<times> rat) list"
  pk_constants :: "(string \<times> rat) list"

section \<open>World state\<close>

record engine = event_bus +
  en_stocks :: "(string \<times> rat) list"
  en_resources :: "(string \<times> rat) list"
  en_inputs :: "(string \<times> rat) list"
  en_constants :: "(string \<times> rat) list"
  en_signals :: "(string \<times> rat) list"
  en_bounds :: "(string \<times> rat option \<times> rat option) list"
  en_pending :: "string list"
  en_active :: "(string \<times> int) list"
  en_latched :: "(string \<times> bool) list"
  en_attached :: bool
  en_running :: bool
  en_out :: "fleet_event list"

text \<open>A dictionary comprehension over pairs: the last value of a repeated key wins.\<close>

definition dict_of :: "(string \<times> 'v) list \<Rightarrow> (string \<times> 'v) list" where
  "dict_of kvs = dict_merge [] kvs"

text \<open>A new engine on the given bus.\<close>

definition new_engine :: "world_pack \<Rightarrow> event_bus \<Rightarrow> engine" where
  "new_engine p b =
     \<lparr>eb_typed = eb_typed b, eb_any = eb_any b,
      en_stocks = dict_of (map (\<lambda>s. (st_name s, st_initial s)) (pk_stocks p)),
      en_resources = dict_of (map (\<lambda>r. (rs_name r, rs_capacity r)) (pk_resources p)),
      en_inputs = pk_inputs p, en_constants = pk_constants p, en_signals = [],
      en_bounds = dict_of (map (\<lambda>s. (st_name s, st_min s, st_max s)) (pk_stocks p)),
      en_pending = [], en_active = [],
      en_latched = dict_of (map (\<lambda>s. (sn_name s, False)) (pk_sensors p)),
      en_attached = False, en_running = False, en_out = []\<rparr>"

text \<open>\<^verbatim>\<open>state[name]\<close>: the first category that has the name.\<close>

definition read_world :: "'a engine_scheme \<Rightarrow> reading" where
  "read_world s name =
     (case first_match (\<lambda>v. v \<noteq> None)
             [map_of (en_stocks s) name, map_of (en_resources s) name, map_of (en_inputs s) name,
              map_of (en_constants s) name, map_of (en_signals s) name] of
        Some (Some v) \<Rightarrow> Inr v
      | _ \<Rightarrow> Inl (KeyError (VStr name)))"

definition clamp :: "rat option \<times> rat option \<Rightarrow> rat \<Rightarrow> rat" where
  "clamp b v =
     (let v1 = (case fst b of None \<Rightarrow> v | Some lo \<Rightarrow> max lo v)
      in case snd b of None \<Rightarrow> v1 | Some hi \<Rightarrow> min hi v1)"

definition world_add :: "string \<Rightarrow> rat \<Rightarrow> 'a engine_scheme \<Rightarrow> unit result \<times> 'a engine_scheme" where
  "world_add name delta s =
     (case map_of (en_stocks s) name of
        Some v \<Rightarrow>
          (case map_of (en_bounds s) name of
             None \<Rightarrow> (Inl (KeyError (VStr name)), s)
           | Some b \<Rightarrow> (Inr (), s\<lparr>en_stocks := dict_set name (clamp b (v + delta)) (en_stocks s)\<rparr>))
      | None \<Rightarrow>
          (case map_of (en_resources s) name of
             Some v \<Rightarrow> (Inr (), s\<lparr>en_resources := dict_set name (v + delta) (en_resources s)\<rparr>)
           | None \<Rightarrow> (Inl (KeyError (VStr (''unknown stock/resource '' @ py_repr name))), s)))"

section \<open>Actuators and the bus\<close>

text \<open>\<^verbatim>\<open>event.model_dump()\<close>.\<close>

definition event_dump :: "fleet_event \<Rightarrow> pydict" where
  "event_dump e =
     [(''type'', VStr (fe_type e)), (''workflow_id'', opt_str (fe_workflow e))] @ fe_extra e"

definition run_actuator ::
  "world_pack \<Rightarrow> nat \<Rightarrow> fleet_event \<Rightarrow> 'a engine_scheme \<Rightarrow> unit result \<times> 'a engine_scheme" where
  "run_actuator p h e s =
     (if h < length (pk_actuators p) then
        let a = pk_actuators p ! h in
        (case ac_effect a (event_dump e) of
           Inl _ \<Rightarrow> (Inr (), s)
         | Inr delta \<Rightarrow> (Inr (), snd (world_add (ac_target a) delta s)))
      else (Inr (), s))"

definition en_attach :: "world_pack \<Rightarrow> 'a engine_scheme \<Rightarrow> 'a engine_scheme" where
  "en_attach p s =
     (if en_attached s then s
      else (fold (\<lambda>(h, a) s. bus_on (ac_on a) h s) (enumerate 0 (pk_actuators p)) s)
             \<lparr>en_attached := True\<rparr>)"

text \<open>The engine puts an event on the bus; the handlers of the bus are its actuators.\<close>

definition en_emit :: "world_pack \<Rightarrow> fleet_event \<Rightarrow> engine \<Rightarrow> engine" where
  "en_emit p e s = bus_emit (run_actuator p) e (s\<lparr>en_out := en_out s @ [e]\<rparr>)"

section \<open>One tick\<close>

definition inject :: "string \<Rightarrow> 'a engine_scheme \<Rightarrow> 'a engine_scheme" where
  "inject name s = s\<lparr>en_pending := en_pending s @ [name]\<rparr>"

definition start_perturbation :: "perturbation \<Rightarrow> 'a engine_scheme \<Rightarrow> 'a engine_scheme" where
  "start_perturbation pt s =
     (if pt_name pt \<in> set (en_pending s)
      then s\<lparr>en_pending := remove1 (pt_name pt) (en_pending s),
             en_active := dict_set (pt_name pt) (pt_ticks pt) (en_active s)\<rparr>
      else s)"

definition bump :: "string \<Rightarrow> rat \<Rightarrow> (string \<times> rat) list \<Rightarrow> (string \<times> rat) list" where
  "bump k x d = dict_set k ((case map_of d k of None \<Rightarrow> 0 | Some v \<Rightarrow> v) + x) d"

definition apply_perturbation :: "perturbation \<Rightarrow> 'a engine_scheme \<Rightarrow> 'a engine_scheme" where
  "apply_perturbation pt s =
     (case map_of (en_active s) (pt_name pt) of
        None \<Rightarrow> s
      | Some left \<Rightarrow>
          s\<lparr>en_inputs := bump (pt_target pt) (pt_magnitude pt) (en_inputs s),
            en_active := (if left \<le> 1 then dict_del (pt_name pt) (en_active s)
                          else dict_set (pt_name pt) (left - 1) (en_active s))\<rparr>)"

definition apply_perturbations :: "world_pack \<Rightarrow> 'a engine_scheme \<Rightarrow> 'a engine_scheme" where
  "apply_perturbations p s =
     fold apply_perturbation (pk_perturbations p) (fold start_perturbation (pk_perturbations p) s)"

fun flow_deltas ::
  "reading \<Rightarrow> rat \<Rightarrow> flow list \<Rightarrow> (string \<times> rat) list \<Rightarrow> (string \<times> rat) list result" where
  "flow_deltas w dt [] d = Inr d"
| "flow_deltas w dt (f # fs) d =
     (case fl_rate f w of
        Inl x \<Rightarrow> Inl x
      | Inr r \<Rightarrow>
          let d1 = bump (fl_into f) (r * dt) d;
              d2 = (case fl_out f of None \<Rightarrow> d1 | Some out \<Rightarrow> if out = [] then d1 else bump out (- (r * dt)) d1)
          in flow_deltas w dt fs d2)"

fun add_all :: "(string \<times> rat) list \<Rightarrow> 'a engine_scheme \<Rightarrow> unit result \<times> 'a engine_scheme" where
  "add_all [] s = (Inr (), s)"
| "add_all ((k, x) # kxs) s = and_then (world_add k x s) (\<lambda>_ s. add_all kxs s)"

text \<open>A signal whose formula raises is left out; a later formula reads the earlier signals.\<close>

fun compute_signals :: "signal list \<Rightarrow> 'a engine_scheme \<Rightarrow> 'a engine_scheme" where
  "compute_signals [] s = s"
| "compute_signals (g # gs) s =
     (case sg_formula g (read_world s) of
        Inl _ \<Rightarrow> compute_signals gs s
      | Inr v \<Rightarrow> compute_signals gs (s\<lparr>en_signals := dict_set (sg_name g) v (en_signals s)\<rparr>))"

definition is_hot :: "sensor \<Rightarrow> 'a engine_scheme \<Rightarrow> bool" where
  "is_hot n s = (case sn_when n (read_world s) of Inl _ \<Rightarrow> False | Inr b \<Rightarrow> b)"

definition sensor_event :: "sensor \<Rightarrow> fleet_event" where
  "sensor_event n =
     \<lparr>fe_type = sn_emit n, fe_workflow = None, fe_extra = [(''sensor'', VStr (sn_name n))]\<rparr>"

definition read_sensor :: "world_pack \<Rightarrow> sensor \<Rightarrow> engine \<Rightarrow> engine" where
  "read_sensor p n s =
     (let hot = is_hot n s in
      if hot \<and> map_of (en_latched s) (sn_name n) \<noteq> Some True then
        (let s1 = en_emit p (sensor_event n) s in
         s1\<lparr>en_latched := dict_set (sn_name n) True (en_latched s1)\<rparr>)
      else if \<not> hot then s\<lparr>en_latched := dict_set (sn_name n) False (en_latched s)\<rparr>
      else s)"

definition floats :: "(string \<times> rat) list \<Rightarrow> pyval" where
  "floats d = VDict (map (\<lambda>(k, v). (k, VFloat (Fin v))) d)"

definition tick_event :: "world_pack \<Rightarrow> 'a engine_scheme \<Rightarrow> fleet_event" where
  "tick_event p s =
     \<lparr>fe_type = ''world.tick'', fe_workflow = None,
      fe_extra = [(''world'', VStr (pk_name p)), (''signals'', floats (en_signals s)),
                  (''stocks'', floats (en_stocks s))]\<rparr>"

definition tick :: "world_pack \<Rightarrow> rat \<Rightarrow> engine \<Rightarrow> unit result \<times> engine" where
  "tick p dt s =
     (let s1 = apply_perturbations p (s\<lparr>en_inputs := pk_inputs p\<rparr>) in
      and_then (flow_deltas (read_world s1) dt (pk_flows p) [], s1) (\<lambda>deltas s.
      and_then (add_all deltas s) (\<lambda>_ s.
        let s2 = compute_signals (pk_signals p) (s\<lparr>en_signals := []\<rparr>);
            s3 = fold (read_sensor p) (pk_sensors p) s2
        in (Inr (), en_emit p (tick_event p s3) s3))))"

definition en_stop :: "'a engine_scheme \<Rightarrow> 'a engine_scheme" where
  "en_stop s = s\<lparr>en_running := False\<rparr>"

fun run_ticks :: "world_pack \<Rightarrow> rat \<Rightarrow> nat \<Rightarrow> engine \<Rightarrow> unit result \<times> engine" where
  "run_ticks p dt 0 s = (Inr (), s)"
| "run_ticks p dt (Suc n) s = and_then (tick p dt s) (\<lambda>_ s. run_ticks p dt n s)"

section \<open>The toy pack\<close>

definition toy_surge :: perturbation where
  "toy_surge =
     \<lparr>pt_name = ''demand_surge'', pt_target = ''ticket_arrival_rate'', pt_magnitude = 60, pt_ticks = 3\<rparr>"

definition toy_sensor :: sensor where
  "toy_sensor =
     \<lparr>sn_name = ''backlog_high'',
      sn_when = (\<lambda>w. bind_result (w ''sla_breach_pct'') (\<lambda>v. Inr (v > 1 / 2))),
      sn_emit = ''ops.surge_staffing.requested''\<rparr>"

definition toy_hire :: actuator where
  "toy_hire =
     \<lparr>ac_name = ''hire'', ac_on = ''surge-staffing.completed'', ac_target = ''agents'',
      ac_effect = (\<lambda>ev. case num_of (dict_get_or ev ''hired'' (VInt 0)) of
          Fin q \<Rightarrow> Inr q
        | _ \<Rightarrow> Inl (TypeError (Msg ''float() argument'' [dict_get ev ''hired''])))\<rparr>"

definition capacity_rate :: "reading \<Rightarrow> rat result" where
  "capacity_rate w = bind_result (w ''agents'') (\<lambda>a. bind_result (w ''HANDLE'') (\<lambda>h. Inr (a * h)))"

definition toy_pack :: world_pack where
  "toy_pack =
     \<lparr>pk_name = ''toy'',
      pk_stocks = [\<lparr>st_name = ''support_backlog'', st_initial = 0, st_min = Some 0, st_max = None\<rparr>],
      pk_flows =
        [\<lparr>fl_into = ''support_backlog'', fl_rate = (\<lambda>w. w ''ticket_arrival_rate''), fl_out = None\<rparr>,
         \<lparr>fl_into = ''support_backlog'',
          fl_rate = (\<lambda>w. bind_result (capacity_rate w) (\<lambda>c. Inr (- c))), fl_out = None\<rparr>],
      pk_signals =
        [\<lparr>sg_name = ''sla_breach_pct'',
          sg_formula = (\<lambda>w. bind_result (w ''support_backlog'') (\<lambda>b.
            bind_result (capacity_rate w) (\<lambda>c. Inr (b / max (b + c) 1))))\<rparr>],
      pk_resources = [\<lparr>rs_name = ''agents'', rs_capacity = 20\<rparr>],
      pk_perturbations = [toy_surge],
      pk_sensors = [toy_sensor],
      pk_actuators = [toy_hire],
      pk_inputs = [(''ticket_arrival_rate'', 30)],
      pk_constants = [(''HANDLE'', 2)]\<rparr>"

section \<open>Clamping\<close>

text \<open>Every stock lies within its bounds.\<close>

definition in_bounds :: "rat option \<times> rat option \<Rightarrow> rat \<Rightarrow> bool" where
  "in_bounds b v \<longleftrightarrow> (\<forall>lo. fst b = Some lo \<longrightarrow> lo \<le> v) \<and> (\<forall>hi. snd b = Some hi \<longrightarrow> v \<le> hi)"

definition sane_bounds :: "'a engine_scheme \<Rightarrow> bool" where
  "sane_bounds s \<longleftrightarrow>
     (\<forall>name lo hi. map_of (en_bounds s) name = Some (Some lo, Some hi) \<longrightarrow> lo \<le> hi)"

definition stocks_bounded :: "'a engine_scheme \<Rightarrow> bool" where
  "stocks_bounded s \<longleftrightarrow>
     (\<forall>name v b. map_of (en_stocks s) name = Some v \<longrightarrow> map_of (en_bounds s) name = Some b \<longrightarrow>
        in_bounds b v)"

lemma clamp_in_bounds:
  assumes "\<And>lo hi. b = (Some lo, Some hi) \<Longrightarrow> lo \<le> hi"
  shows "in_bounds b (clamp b v)"
proof -
  obtain l h where b: "b = (l, h)" by (cases b)
  show ?thesis using assms by (cases l; cases h) (auto simp: in_bounds_def clamp_def b)
qed

lemma clamp_id: "in_bounds b v \<Longrightarrow> clamp b v = v"
  by (auto simp: in_bounds_def clamp_def split: option.splits)

text \<open>What an operation on stocks and resources leaves alone.\<close>

definition levels_only :: "'a engine_scheme \<Rightarrow> 'a engine_scheme \<Rightarrow> bool" where
  "levels_only s s' \<longleftrightarrow>
     (\<exists>st re. s' = s\<lparr>en_stocks := st, en_resources := re\<rparr>) \<and>
     (sane_bounds s \<longrightarrow> stocks_bounded s \<longrightarrow> stocks_bounded s')"

lemma levels_only_refl: "levels_only s s"
proof -
  have "s = s\<lparr>en_stocks := en_stocks s, en_resources := en_resources s\<rparr>" by simp
  then show ?thesis unfolding levels_only_def by blast
qed

lemma levels_only_trans:
  assumes "levels_only a b" and "levels_only b c"
  shows "levels_only a c"
proof -
  obtain st re st' re' where b: "b = a\<lparr>en_stocks := st, en_resources := re\<rparr>"
    and c: "c = b\<lparr>en_stocks := st', en_resources := re'\<rparr>"
    using assms by (auto simp: levels_only_def)
  have "c = a\<lparr>en_stocks := st', en_resources := re'\<rparr>" by (simp add: b c)
  moreover have "sane_bounds a \<Longrightarrow> sane_bounds b" by (simp add: b sane_bounds_def)
  ultimately show ?thesis using assms unfolding levels_only_def by blast
qed

lemma levels_onlyI:
  "s' = s\<lparr>en_stocks := st, en_resources := re\<rparr> \<Longrightarrow>
   (sane_bounds s \<Longrightarrow> stocks_bounded s \<Longrightarrow> stocks_bounded s') \<Longrightarrow> levels_only s s'"
  unfolding levels_only_def by blast

lemma world_add_stock:
  assumes "map_of (en_stocks s) name = Some v" and "map_of (en_bounds s) name = Some b"
  shows "levels_only s (s\<lparr>en_stocks := dict_set name (clamp b (v + delta)) (en_stocks s)\<rparr>)"
proof (rule levels_onlyI)
  show "s\<lparr>en_stocks := dict_set name (clamp b (v + delta)) (en_stocks s)\<rparr> =
      s\<lparr>en_stocks := dict_set name (clamp b (v + delta)) (en_stocks s), en_resources := en_resources s\<rparr>"
    by simp
  assume "sane_bounds s" and ok: "stocks_bounded s"
  then have "in_bounds b (clamp b (v + delta))"
    using assms(2) by (intro clamp_in_bounds) (auto simp: sane_bounds_def)
  with ok assms(2) show "stocks_bounded (s\<lparr>en_stocks := dict_set name (clamp b (v + delta)) (en_stocks s)\<rparr>)"
    by (auto simp: stocks_bounded_def)
qed

lemma world_add_resource: "levels_only s (s\<lparr>en_resources := re\<rparr>)"
proof (rule levels_onlyI)
  show "s\<lparr>en_resources := re\<rparr> = s\<lparr>en_stocks := en_stocks s, en_resources := re\<rparr>" by simp
qed (simp add: stocks_bounded_def)

lemma world_add_levels: "levels_only s (snd (world_add name delta s))"
  by (auto simp: world_add_def levels_only_refl world_add_resource world_add_stock split: option.split)

lemma run_actuator_levels: "levels_only s (snd (run_actuator p h e s))"
  using world_add_levels by (auto simp: run_actuator_def Let_def levels_only_refl split: sum.split)

lemma deliver_levels: "levels_only s (deliver (run_actuator p) e hs s)"
proof (induction hs arbitrary: s)
  case (Cons h hs)
  have "deliver (run_actuator p) e (h # hs) s =
      deliver (run_actuator p) e hs (snd (run_actuator p h e s))"
    by (simp add: deliver_fold)
  with levels_only_trans[OF run_actuator_levels Cons.IH] show ?case by metis
qed (simp add: levels_only_refl)

lemma en_emit_levels: "levels_only (s\<lparr>en_out := en_out s @ [e]\<rparr>) (en_emit p e s)"
  unfolding en_emit_def bus_emit_def Let_def by (rule levels_only_trans[OF deliver_levels deliver_levels])

lemma add_all_levels: "levels_only s (snd (add_all kxs s))"
proof (induction kxs arbitrary: s)
  case (Cons kx kxs)
  obtain k x where kx: "kx = (k, x)" by (cases kx)
  show ?case unfolding kx add_all.simps
    by (rule and_then_rel[where R = levels_only]) (auto intro: world_add_levels Cons.IH levels_only_trans)
qed (simp add: levels_only_refl)

section \<open>Sensors fire on the rising edge\<close>

lemma levels_only_simps:
  assumes "levels_only s s'"
  shows "en_out s' = en_out s" "en_latched s' = en_latched s" "en_inputs s' = en_inputs s"
    "en_active s' = en_active s" "en_pending s' = en_pending s" "en_bounds s' = en_bounds s"
    "en_signals s' = en_signals s" "en_constants s' = en_constants s"
  using assms by (auto simp: levels_only_def)

lemma read_sensor_edge:
  shows "en_out (read_sensor p n s) =
      en_out s @ (if is_hot n s \<and> map_of (en_latched s) (sn_name n) \<noteq> Some True then [sensor_event n] else [])"
    and "map_of (en_latched (read_sensor p n s)) (sn_name n) = Some (is_hot n s)"
    and "m \<noteq> sn_name n \<Longrightarrow> map_of (en_latched (read_sensor p n s)) m = map_of (en_latched s) m"
  using levels_only_simps(1,2)[OF en_emit_levels[of s "sensor_event n" p]]
  by (auto simp: read_sensor_def Let_def)

text \<open>The bounds hold across a whole tick, whatever the flows, signals, sensors and actuators do.\<close>

definition bounded :: "'a engine_scheme \<Rightarrow> bool" where
  "bounded s \<longleftrightarrow> sane_bounds s \<and> stocks_bounded s"

lemma bounded_levels: "levels_only s s' \<Longrightarrow> bounded s \<Longrightarrow> bounded s'"
  using levels_only_simps(6)[of s s'] by (auto simp: levels_only_def bounded_def sane_bounds_def)

lemma bounded_cong:
  "en_stocks s' = en_stocks s \<Longrightarrow> en_bounds s' = en_bounds s \<Longrightarrow> bounded s' = bounded s"
  by (simp add: bounded_def sane_bounds_def stocks_bounded_def)

lemma bounded_en_emit: "bounded s \<Longrightarrow> bounded (en_emit p e s)"
  using bounded_levels[OF en_emit_levels[of s e p]] bounded_cong[of "s\<lparr>en_out := en_out s @ [e]\<rparr>" s] by simp

lemma bounded_read_sensor: "bounded s \<Longrightarrow> bounded (read_sensor p n s)"
  using bounded_en_emit[of s p "sensor_event n"]
  by (auto simp: read_sensor_def Let_def bounded_def sane_bounds_def stocks_bounded_def)

lemma bounded_signals: "bounded (compute_signals gs s) = bounded s"
  by (induction gs arbitrary: s)
    (auto simp: bounded_def sane_bounds_def stocks_bounded_def split: sum.split)

lemma bounded_start: "bounded (fold start_perturbation ps s) = bounded s"
  by (induction ps arbitrary: s)
    (auto simp: start_perturbation_def bounded_def sane_bounds_def stocks_bounded_def)

lemma bounded_apply: "bounded (fold apply_perturbation ps s) = bounded s"
  by (induction ps arbitrary: s)
    (auto simp: apply_perturbation_def bounded_def sane_bounds_def stocks_bounded_def split: option.split)

lemma bounded_sensors: "bounded s \<Longrightarrow> bounded (fold (read_sensor p) ns s)"
  by (induction ns arbitrary: s) (auto intro: bounded_read_sensor)

lemma tick_bounded:
  assumes "bounded s"
  shows "bounded (snd (tick p dt s))"
proof -
  let ?s1 = "apply_perturbations p (s\<lparr>en_inputs := pk_inputs p\<rparr>)"
  have "bounded (s\<lparr>en_inputs := pk_inputs p\<rparr>) = bounded s" by (rule bounded_cong) simp_all
  with assms have 1: "bounded ?s1"
    by (simp add: apply_perturbations_def bounded_apply bounded_start)
  show ?thesis
  proof (cases "flow_deltas (read_world ?s1) dt (pk_flows p) []")
    case (Inl x)
    with 1 show ?thesis by (simp add: tick_def)
  next
    case (Inr deltas)
    obtain r s2 where a: "add_all deltas ?s1 = (r, s2)" by (cases "add_all deltas ?s1")
    have 2: "bounded s2" using bounded_levels[OF add_all_levels[of ?s1 deltas] 1] by (simp add: a)
    have "bounded (s2\<lparr>en_signals := []\<rparr>) = bounded s2" by (rule bounded_cong) simp_all
    with 2 show ?thesis
      using Inr a by (cases r) (auto simp: tick_def Let_def bounded_signals
          intro!: bounded_en_emit bounded_sensors)
  qed
qed

section \<open>Perturbations\<close>

text \<open>The perturbation of a name that is running contributes its magnitude and counts down; at the
  last tick it is forgotten.\<close>

lemma apply_perturbation_effect:
  assumes "map_of (en_active s) (pt_name pt) = Some left"
  shows "map_of (en_inputs (apply_perturbation pt s)) (pt_target pt) =
      Some ((case map_of (en_inputs s) (pt_target pt) of None \<Rightarrow> 0 | Some v \<Rightarrow> v) + pt_magnitude pt)"
    and "map_of (en_active (apply_perturbation pt s)) (pt_name pt) =
      (if left \<le> 1 then None else Some (left - 1))"
  using assms by (auto simp: apply_perturbation_def bump_def)

text \<open>A new engine of a pack with sane bounds, whose stocks start within them.\<close>

definition sane_pack :: "world_pack \<Rightarrow> bool" where
  "sane_pack p \<longleftrightarrow> distinct (map st_name (pk_stocks p)) \<and>
     (\<forall>s\<in>set (pk_stocks p). in_bounds (st_min s, st_max s) (st_initial s))"

lemma dict_of_map: "map_of (dict_of kvs) = map_of (rev kvs)"
  by (rule ext) (auto simp: dict_of_def map_of_dict_merge split: option.split)

lemma map_of_named:
  assumes "map_of (rev (map (\<lambda>s. (f s, g s)) xs)) k = Some v"
  shows "\<exists>s\<in>set xs. f s = k \<and> g s = v"
  using map_of_SomeD[OF assms] by auto

lemma distinct_named: "distinct (map f xs) \<Longrightarrow> a \<in> set xs \<Longrightarrow> b \<in> set xs \<Longrightarrow> f a = f b \<Longrightarrow> a = b"
  by (auto simp: distinct_map dest: inj_onD)

lemma new_engine_bounded:
  assumes "sane_pack p"
  shows "bounded (new_engine p b)"
proof -
  have "lo \<le> hi" if bd: "map_of (en_bounds (new_engine p b)) name = Some (Some lo, Some hi)" for name lo hi
  proof -
    obtain s where "s \<in> set (pk_stocks p)" "st_min s = Some lo" "st_max s = Some hi"
      using map_of_named[of st_name "\<lambda>s. (st_min s, st_max s)"] bd
      by (fastforce simp: new_engine_def dict_of_map)
    with assms show ?thesis by (force simp: sane_pack_def in_bounds_def intro: order_trans)
  qed
  moreover have "in_bounds bd v"
    if v: "map_of (en_stocks (new_engine p b)) name = Some v"
      and bd: "map_of (en_bounds (new_engine p b)) name = Some bd" for name v bd
  proof -
    obtain s where s: "s \<in> set (pk_stocks p)" "st_name s = name" "st_initial s = v"
      using map_of_named[of st_name st_initial] v by (fastforce simp: new_engine_def dict_of_map)
    obtain s' where s': "s' \<in> set (pk_stocks p)" "st_name s' = name" "(st_min s', st_max s') = bd"
      using map_of_named[of st_name "\<lambda>s. (st_min s, st_max s)"] bd
      by (fastforce simp: new_engine_def dict_of_map)
    have "s = s'" using distinct_named[of st_name "pk_stocks p" s s'] assms s s' by (simp add: sane_pack_def)
    with assms s s' show ?thesis by (auto simp: sane_pack_def)
  qed
  ultimately show ?thesis by (simp add: bounded_def sane_bounds_def stocks_bounded_def)
qed

lemma run_ticks_bounded: "bounded s \<Longrightarrow> bounded (snd (run_ticks p dt n s))"
proof (induction n arbitrary: s)
  case (Suc n)
  show ?case unfolding run_ticks.simps
    by (rule and_then_rel[where R = "\<lambda>s s'. bounded s \<longrightarrow> bounded s'", rule_format])
      (use Suc tick_bounded in auto)
qed simp

end
