(* ===== verification/Agent_Properties.thy ===== *)
theory Agent_Properties imports Claim_Graphs World_Engine begin

text \<open>
  The properties of the agent graphs and their guardrails (\<^verbatim>\<open>src/api/functions/graphs/\<close>) and of
  the system-dynamics engine (\<^verbatim>\<open>src/api/server/world/engine.py\<close>), with instances on small
  messages and on the toy pack.
\<close>

section \<open>Graphs and guardrails\<close>

text \<open>C31: When a line of nodes with a three-way match validator in it completes, the message that
  reached the validator claimed a match exactly when purchase order, goods receipt and amount
  agreed, and a match came without discrepancies.\<close>
theorem completed_line_matched:
  assumes "run_line fr show (xs @ n # ys) input = (Inr out, es)"
    and "nd_fn n = three_way_match fr" and "nd_type n = ''validator''"
  shows "\<exists>mid es'. run_line fr show xs input = (Inr mid, es') \<and>
    dict_get mid ''matched'' = VBool (all_three mid) \<and>
    (\<not> all_three mid \<or> dict_get mid ''discrepancies'' = VList [])"
proof -
  have fn: "nd_fn n = guardrail ''three_way_match'' (three_way_checks fr) [''matched'']"
    using assms(2) by (simp add: three_way_match_def fun_eq_iff)
  from phase.line_accepted[OF assms(1) fn assms(3)] three_way_established show ?thesis by blast
qed

definition demo_match :: pydict where
  "demo_match = [(''ok'', VBool True), (''matched'', VBool True), (''invoice_id'', VStr ''INV-1''),
     (''po_present'', VBool True), (''grn_present'', VBool True),
     (''amount_within_tolerance'', VBool True), (''discrepancies'', VList [])]"

definition demo_node :: "(pydict \<Rightarrow> pydict result) \<Rightarrow> node" where
  "demo_node f = \<lparr>nd_name = ''check'', nd_type = ''validator'', nd_fn = f, nd_invocation = ''i1'', nd_ms = 3\<rparr>"

lemma demo_line:
  "\<exists>out es. run_line (\<lambda>_. []) (\<lambda>_. []) ([] @ demo_node (three_way_match (\<lambda>_. [])) # []) demo_match = (Inr out, es)"
proof -
  have "run_checks (three_way_checks (\<lambda>_. [])) demo_match = Inr None"
    unfolding run_checks_None
    by (simp add: three_way_checks_def demo_match_def all_three_def flag_check_def dict_get_def)
  then have "\<exists>r. three_way_match (\<lambda>_. []) demo_match = Inr r \<and> dict_get r ''ok'' = VBool True"
    by (simp add: three_way_match_def guardrail_def dict_get_def)
  then show ?thesis by (auto simp: demo_node_def process_def objects_def Let_def)
qed

theorem completed_line_matched_witness:
  "dict_get demo_match ''matched'' = VBool (all_three demo_match)"
proof -
  obtain out es where "run_line (\<lambda>_. []) (\<lambda>_. []) ([] @ demo_node (three_way_match (\<lambda>_. [])) # []) demo_match =
      (Inr out, es)"
    using demo_line by blast
  from completed_line_matched[OF this] show ?thesis by (simp add: demo_node_def)
qed

text \<open>A node that spreads its input over its answer cannot block a message that already carries
  a true ok flag: the arbitration node forwards it whatever the validator says.\<close>
theorem arbitration_never_blocks_ok:
  assumes "arbitration_node fr input = Inr r" and "nd_fn n = arbitration_node fr"
    and "map_of input ''ok'' = Some (VBool True)" and "distinct (map fst input)"
  shows "\<exists>es. process fr show n input = (Inr (dict_merge input r), es) \<and> dict_get r ''ok'' = VBool True"
proof -
  have ok: "dict_get r ''ok'' = VBool True"
    using spreading_overridden[OF assms(1)[unfolded arbitration_node_def] assms(3) _ assms(4)] by simp
  then show ?thesis using assms(1,2) by (simp add: process_def objects_def Let_def)
qed

definition demo_ruling :: pydict where
  "demo_ruling = [(''ok'', VBool True), (''arbitration'', VDict [(''recommendation'', VStr ''bribe'')])]"

theorem arbitration_never_blocks_ok_witness:
  "validate_arbitration (\<lambda>_. []) [(''recommendation'', VStr ''bribe'')] \<noteq> Inr () \<and>
   (\<exists>out es. process (\<lambda>_. []) (\<lambda>_. []) (demo_node (arbitration_node (\<lambda>_. []))) demo_ruling = (Inr out, es))"
proof -
  have v: "validate_arbitration (\<lambda>_. []) [(''recommendation'', VStr ''bribe'')] =
      Inl (Raised ''ArbitrationSchemaError'' [VStr ''missing field: rationale''])"
    by (simp add: validate_arbitration_def validate_with_def arbitration_checks_def parse_check_def
        fields_check_def dict_get_def dict_has_def)
  have "\<exists>r. arbitration_node (\<lambda>_. []) demo_ruling = Inr r"
    by (simp add: arbitration_node_def spreading_node_def demo_ruling_def dict_of_val_def
        dict_get_or_def caught_def v)
  then obtain r where "arbitration_node (\<lambda>_. []) demo_ruling = Inr r" by blast
  from arbitration_never_blocks_ok[OF this, of "demo_node (arbitration_node (\<lambda>_. []))" "\<lambda>_. []"] v
  show ?thesis by (auto simp: demo_node_def demo_ruling_def)
qed

text \<open>The guardrail on drafted renewal terms accepts a draft whose current contract value is not
  a number, with any claimed change of cost, although the two values do not support it.\<close>
theorem nan_terms_accepted:
  assumes "is_number claimed"
  shows "\<exists>out. renewal_terms fr [(''renewal_terms_drafter'', VDict (nan_terms claimed))] = Inr out \<and>
    dict_get out ''ok'' = VBool True"
proof -
  have "run_checks (terms_checks fr) (nan_terms claimed) = Inr None"
    unfolding run_checks_None by (rule nan_terms_pass[OF assms])
  moreover have "truthy (VDict (nan_terms claimed))" by (simp add: nan_terms_def)
  ultimately show ?thesis
    by (simp add: renewal_terms_def guard_node_def payload_of_def guardrail_def dict_get_def
        dict_get_or_def py_or_def)
qed

theorem nan_terms_accepted_witness:
  "\<exists>out. renewal_terms (\<lambda>_. []) [(''renewal_terms_drafter'', VDict (nan_terms (VInt (- 90))))] = Inr out \<and>
    dict_get out ''ok'' = VBool True"
  by (rule nan_terms_accepted) (simp add: is_number_def)

text \<open>The calibration guardrail lets no blocked draft through, although it lists that verdict
  among the admissible ones.\<close>
theorem calibration_never_blocked:
  assumes "calibration_drafter fr input = Inr out" and "dict_get out ''ok'' = VBool True"
  shows "\<exists>d. payload_of ''calibration_drafter'' input = Inr d \<and> dict_get d ''verdict'' = VStr ''drafted''"
  using guard_node_ok[OF assms(1)[unfolded calibration_drafter_def]] assms(2) calibration_established
  by blast

definition passes :: "pydict result \<Rightarrow> bool" where
  "passes r = (case r of Inr out \<Rightarrow> dict_get out ''ok'' = VBool True | Inl _ \<Rightarrow> False)"

lemma passesD: "passes r \<Longrightarrow> \<exists>out. r = Inr out \<and> dict_get out ''ok'' = VBool True"
  by (simp add: passes_def split: sum.splits)

definition demo_draft :: pydict where
  "demo_draft = [(''verdict'', VStr ''drafted''), (''proposed_rating'', VStr ''meets-expectations''),
     (''distribution_fit'', VStr ''fits''), (''narrative'', VStr ''steady year''),
     (''grade_distribution_summary'', VDict [(''headroom_proposed_rating'', VInt 2)]),
     (''calibration_history_summary'', VList [])]"

theorem calibration_never_blocked_witness:
  "\<exists>d. payload_of ''calibration_drafter'' [(''calibration_drafter'', VDict demo_draft)] = Inr d \<and>
     dict_get d ''verdict'' = VStr ''drafted''"
proof -
  have "passes (calibration_drafter (\<lambda>_. []) [(''calibration_drafter'', VDict demo_draft)])" by code_simp
  from passesD[OF this] obtain out where
    "calibration_drafter (\<lambda>_. []) [(''calibration_drafter'', VDict demo_draft)] = Inr out"
    "dict_get out ''ok'' = VBool True" by blast
  then show ?thesis by (rule calibration_never_blocked)
qed

text \<open>An access-review risk that passes is at least the risk of each role it lists.\<close>
theorem risk_not_understated:
  assumes "risk_assessor fr input = Inr out" and "dict_get out ''ok'' = VBool True"
  shows "\<exists>d k. payload_of ''risk_assessor'' input = Inr d \<and>
    risk_of (dict_get d ''overall_risk'') = Some k \<and>
    (\<forall>e\<in>set (list_items (dict_get d ''per_role_scores'')). entry_risk e \<le> k)"
  using guard_node_ok[OF assms(1)[unfolded risk_assessor_def]] assms(2) risk_established by blast

definition demo_scores :: pydict where
  "demo_scores = [(''overall_risk'', VStr ''medium''),
     (''per_role_scores'', VList [VDict [(''template_id'', VStr ''T1''), (''risk'', VStr ''medium'')]]),
     (''breach_count'', VInt 0), (''recent_grant_volume'', VInt 4)]"

theorem risk_not_understated_witness:
  "\<exists>d k. payload_of ''risk_assessor'' [(''risk_assessor'', VDict demo_scores)] = Inr d \<and>
    risk_of (dict_get d ''overall_risk'') = Some k"
proof -
  have "passes (risk_assessor (\<lambda>_. []) [(''risk_assessor'', VDict demo_scores)])" by code_simp
  from passesD[OF this] obtain out where
    "risk_assessor (\<lambda>_. []) [(''risk_assessor'', VDict demo_scores)] = Inr out"
    "dict_get out ''ok'' = VBool True" by blast
  from risk_not_understated[OF this] show ?thesis by blast
qed

section \<open>The system-dynamics engine\<close>

text \<open>C32: In a pack whose stocks start within their bounds, no tick, flow, sensor or actuator ever
  moves a stock out of its bounds, and the bounds stay as declared.\<close>
theorem stocks_stay_bounded:
  assumes "sane_pack p" and "s = snd (run_ticks p dt n (new_engine p b))"
    and "map_of (en_stocks s) name = Some v" and "map_of (en_bounds s) name = Some bd"
  shows "in_bounds bd v"
proof -
  have "stocks_bounded s"
    using run_ticks_bounded[OF new_engine_bounded[OF assms(1)], of p dt n b] assms(2)
    by (simp add: bounded_def)
  with assms(3,4) show ?thesis unfolding stocks_bounded_def by blast
qed

definition demo_bus :: event_bus where
  "demo_bus = \<lparr>eb_typed = (\<lambda>_. []), eb_any = []\<rparr>"

theorem stocks_stay_bounded_witness:
  "\<exists>v. map_of (en_stocks (snd (run_ticks toy_pack 1 1 (new_engine toy_pack demo_bus)))) ''support_backlog'' = Some v \<and>
     in_bounds (Some 0, None) v"
proof -
  have p: "sane_pack toy_pack" by (simp add: sane_pack_def toy_pack_def in_bounds_def)
  let ?s = "snd (run_ticks toy_pack 1 1 (new_engine toy_pack demo_bus))"
  have "map_of (en_stocks ?s) ''support_backlog'' \<noteq> None \<and>
      map_of (en_bounds ?s) ''support_backlog'' = Some (Some 0, None)"
    by code_simp
  then obtain v where v: "map_of (en_stocks ?s) ''support_backlog'' = Some v"
    and b: "map_of (en_bounds ?s) ''support_backlog'' = Some (Some 0, None)" by blast
  from stocks_stay_bounded[OF p refl v b] v show ?thesis by blast
qed

text \<open>Reading a sensor puts its event on the bus exactly on a rising edge, and leaves the latch
  of that sensor, and of no other, at what was read.\<close>
theorem sensor_fires_on_edge:
  "en_out (read_sensor p n s) =
     en_out s @ (if is_hot n s \<and> map_of (en_latched s) (sn_name n) \<noteq> Some True then [sensor_event n] else []) \<and>
   map_of (en_latched (read_sensor p n s)) = (map_of (en_latched s))(sn_name n \<mapsto> is_hot n s)"
proof (intro conjI ext)
  show "map_of (en_latched (read_sensor p n s)) m = ((map_of (en_latched s))(sn_name n \<mapsto> is_hot n s)) m" for m
    using read_sensor_edge(2)[of p n s] read_sensor_edge(3)[of m n p s] by (cases "m = sn_name n") simp_all
qed (rule read_sensor_edge(1))

end
