(* ===== verification/Durable.thy ===== *)
theory Durable imports Claim_Graphs begin

text \<open>
  Durable orchestrations.  The workflows under \<^verbatim>\<open>api/functions/workflows\<close> are generators that
  the Durable Functions runtime drives: each \<^verbatim>\<open>yield\<close> hands the runtime a task (an activity to
  call, an external event raced against a timer, child orchestrations to join) and is resumed with
  its result.  A generator is modelled as the tree of its resumptions, so that what it yields
  depends on its input and on the results so far and on nothing else, which is the determinism the
  runtime's replay asks of it.

  The runtime itself is not in the repository.  Its part is the relation \<^verbatim>\<open>plays\<close>, which lets an
  activity return or raise anything and lets an event or its timer win every race.
\<close>

section \<open>Generators\<close>

text \<open>
  \<^verbatim>\<open>Act name input k\<close> is \<^verbatim>\<open>yield context.call_activity(name, input)\<close>, resumed with the result of
  the activity or with its exception.  \<^verbatim>\<open>Race event minutes k\<close> is the wait for an external event
  raced against a timer (\<^verbatim>\<open>wait_for_external_event\<close>, \<^verbatim>\<open>create_timer\<close>, \<^verbatim>\<open>task_any\<close>), resumed with
  None when the timer won.  \<^verbatim>\<open>Join children k\<close> is \<^verbatim>\<open>yield context.task_all(...)\<close> over child
  orchestrations, each a name, an input and an instance id.
\<close>

datatype orch =
    Ret pydict
  | Fail exc
  | Act string pyval "pyval result \<Rightarrow> orch"
  | Race string int "pyval option \<Rightarrow> orch"
  | Join "(string \<times> pyval \<times> string) list" "pyval list result \<Rightarrow> orch"

text \<open>
  The orchestration context: its input, its instance id, the way the interpreter writes a float
  and an exception, and the environment variable \<^verbatim>\<open>SEGMENT_MAX_RETRIES\<close>.
\<close>

record ctx =
  cx_input :: pyval
  cx_instance :: string
  cx_float :: "pyfloat \<Rightarrow> string"
  cx_exc :: "exc \<Rightarrow> string"
  cx_retries_env :: "string option"

subsection \<open>Conversions\<close>

text \<open>\<^verbatim>\<open>int(s)\<close> of a string: blanks around it, a sign, digits with single underscores between.\<close>

fun digits_val :: "bool \<Rightarrow> nat \<Rightarrow> string \<Rightarrow> nat option" where
  "digits_val after_digit n [] = (if after_digit then Some n else None)"
| "digits_val after_digit n (c # cs) =
     (let v = of_char c :: nat in
      if 48 \<le> v \<and> v \<le> 57 then digits_val True (10 * n + (v - 48)) cs
      else if c = CHR ''_'' \<and> after_digit then digits_val False n cs
      else None)"

definition parse_int :: "string \<Rightarrow> int option" where
  "parse_int s =
     (case strip s of
        [] \<Rightarrow> None
      | c # cs \<Rightarrow>
          if c = CHR ''-'' then map_option (\<lambda>n. - int n) (digits_val False 0 cs)
          else if c = CHR ''+'' then map_option int (digits_val False 0 cs)
          else map_option int (digits_val False 0 (c # cs)))"

text \<open>\<^verbatim>\<open>int(v)\<close>; a float is truncated towards zero.\<close>

definition py_int :: "pyval \<Rightarrow> int result" where
  "py_int v =
     (case v of
        VInt i \<Rightarrow> Inr i
      | VBool b \<Rightarrow> Inr (if b then 1 else 0)
      | VFloat (Fin q) \<Rightarrow> Inr (if q < 0 then \<lceil>q\<rceil> else \<lfloor>q\<rfloor>)
      | VFloat NaN \<Rightarrow> Inl (ValueError (Msg ''cannot convert float NaN to integer'' []))
      | VFloat _ \<Rightarrow> Inl (Raised ''OverflowError'' [v])
      | VStr s \<Rightarrow> (case parse_int s of
          None \<Rightarrow> Inl (ValueError (Msg ''invalid literal for int() with base 10: {!r}'' [v]))
        | Some i \<Rightarrow> Inr i)
      | _ \<Rightarrow> Inl (TypeError (Msg ''int() argument'' [v])))"

text \<open>\<^verbatim>\<open>int(os.environ.get("SEGMENT_MAX_RETRIES", "2"))\<close>.\<close>

definition cx_retries :: "ctx \<Rightarrow> int result" where
  "cx_retries cx = py_int (VStr (case cx_retries_env cx of None \<Rightarrow> ''2'' | Some s \<Rightarrow> s))"

lemma py_or_VList [simp]: "py_or (VList xs) (VList []) = VList xs"
  by (cases xs) (simp_all add: py_or_def)

text \<open>\<^verbatim>\<open>str.upper\<close> of ASCII text.\<close>

definition upper_char :: "char \<Rightarrow> char" where
  "upper_char c = (let n = (of_char c :: nat) in if 97 \<le> n \<and> n \<le> 122 then char_of (n - 32) else c)"

subsection \<open>What a generator does between two yields\<close>

text \<open>An expression that may raise, in a generator that does not catch it.\<close>

definition try_to :: "'a result \<Rightarrow> ('a \<Rightarrow> orch) \<Rightarrow> orch" where
  "try_to r k = (case r of Inl e \<Rightarrow> Fail e | Inr a \<Rightarrow> k a)"

lemma try_to_simps [simp]: "try_to (Inl e) k = Fail e" "try_to (Inr a) k = k a"
  by (simp_all add: try_to_def)

text \<open>\<^verbatim>\<open>x = yield context.call_activity(name, input)\<close>, its exception not caught.\<close>

definition activity :: "string \<Rightarrow> pyval \<Rightarrow> (pyval \<Rightarrow> orch) \<Rightarrow> orch" where
  "activity name v k = Act name v (\<lambda>r. try_to r k)"

text \<open>\<^verbatim>\<open>try: x = yield context.call_activity(...) except Exception as exc: ...\<close>\<close>

definition guarded :: "string \<Rightarrow> pyval \<Rightarrow> (exc \<Rightarrow> orch) \<Rightarrow> (pyval \<Rightarrow> orch) \<Rightarrow> orch" where
  "guarded name v handler k = Act name v (\<lambda>r. case r of Inl e \<Rightarrow> handler e | Inr u \<Rightarrow> k u)"

definition checkpoint_entry :: "pyval \<Rightarrow> pyval \<Rightarrow> string \<Rightarrow> pydict \<Rightarrow> pydict" where
  "checkpoint_entry wid iid kind payload =
     [(''workflow_id'', wid), (''instance_id'', iid), (''kind'', VStr kind), (''payload'', VDict payload)]"

definition checkpoint :: "pyval \<Rightarrow> pyval \<Rightarrow> string \<Rightarrow> pydict \<Rightarrow> orch \<Rightarrow> orch" where
  "checkpoint wid iid kind payload k =
     activity ''checkpoint_activity_trigger'' (VDict (checkpoint_entry wid iid kind payload)) (\<lambda>_. k)"

text \<open>A wait whose timer branch is \<^verbatim>\<open>late\<close>.\<close>

definition race :: "string \<Rightarrow> int \<Rightarrow> orch \<Rightarrow> (pyval \<Rightarrow> orch) \<Rightarrow> orch" where
  "race event minutes late k = Race event minutes (\<lambda>a. case a of None \<Rightarrow> late | Some v \<Rightarrow> k v)"

definition hours :: "int \<Rightarrow> int" where "hours n = 60 * n"

definition days :: "int \<Rightarrow> int" where "days n = hours (24 * n)"

text \<open>\<^verbatim>\<open>v.get(key)\<close> of a value that may be anything.\<close>

definition get_of :: "pyval \<Rightarrow> string \<Rightarrow> pyval result" where
  "get_of v key = bind_result (dict_of_val v) (\<lambda>d. Inr (dict_get d key))"

text \<open>\<^verbatim>\<open>{**v}\<close>.\<close>

definition unpack :: "pyval \<Rightarrow> pydict result" where
  "unpack v = (case v of VDict d \<Rightarrow> Inr d | _ \<Rightarrow> Inl (TypeError (Msg ''object is not a mapping'' [v])))"

text \<open>\<^verbatim>\<open>context.get_input() or {}\<close>, of which the generator reads keys.\<close>

definition input_of :: "ctx \<Rightarrow> pydict result" where
  "input_of cx = dict_of_val (py_or (cx_input cx) (VDict []))"

text \<open>\<^verbatim>\<open>v.get(key) if isinstance(v, dict) else None\<close>.\<close>

definition get_if_dict :: "pyval \<Rightarrow> string \<Rightarrow> pyval" where
  "get_if_dict v key = (case v of VDict d \<Rightarrow> dict_get d key | _ \<Rightarrow> VNone)"

text \<open>\<^verbatim>\<open>v.lower()\<close>.\<close>

definition lower_of :: "pyval \<Rightarrow> string result" where
  "lower_of v = (case v of VStr s \<Rightarrow> Inr (lower s) | _ \<Rightarrow> Inl (Raised ''AttributeError'' [v, VStr ''lower'']))"

text \<open>\<^verbatim>\<open>((v.get(key) or "") if isinstance(v, dict) else "").lower()\<close>.\<close>

definition word_of :: "pyval \<Rightarrow> string \<Rightarrow> string result" where
  "word_of v key = lower_of (py_or (get_if_dict v key) (VStr []))"

definition timed_out :: "string \<Rightarrow> pydict" where
  "timed_out phase = [(''status'', VStr ''timeout''), (''phase'', VStr phase)]"

section \<open>Runs\<close>

datatype entry =
    Called string pyval "pyval result"
  | Waited string int "pyval option"
  | Joined "(string \<times> pyval \<times> string) list" "pyval list result"

text \<open>A history of the runtime and the outcome it leads to.\<close>

inductive plays :: "orch \<Rightarrow> entry list \<Rightarrow> pydict result \<Rightarrow> bool" where
  plays_Ret: "plays (Ret d) [] (Inr d)"
| plays_Fail: "plays (Fail e) [] (Inl e)"
| plays_Act: "plays (k r) t out \<Longrightarrow> plays (Act name v k) (Called name v r # t) out"
| plays_Race: "plays (k a) t out \<Longrightarrow> plays (Race event n k) (Waited event n a # t) out"
| plays_Join: "plays (k rs) t out \<Longrightarrow> plays (Join cs k) (Joined cs rs # t) out"

inductive_simps plays_Ret_iff [simp]: "plays (Ret d) t out"
inductive_simps plays_Fail_iff [simp]: "plays (Fail e) t out"
inductive_simps plays_Act_iff: "plays (Act name v k) t out"
inductive_simps plays_Race_iff: "plays (Race event n k) t out"
inductive_simps plays_Join_iff: "plays (Join cs k) t out"
inductive_simps plays_Nil_iff: "plays w [] out"

text \<open>The run against given answers.\<close>

record host =
  on_activity :: "string \<Rightarrow> pyval \<Rightarrow> pyval result"
  on_event :: "string \<Rightarrow> pyval option"
  on_children :: "(string \<times> pyval \<times> string) list \<Rightarrow> pyval list result"

definition log_entry :: "entry \<Rightarrow> entry list \<times> pydict result \<Rightarrow> entry list \<times> pydict result" where
  "log_entry e r = (e # fst r, snd r)"

primrec play :: "host \<Rightarrow> orch \<Rightarrow> entry list \<times> pydict result" where
  "play h (Ret d) = ([], Inr d)"
| "play h (Fail e) = ([], Inl e)"
| "play h (Act name v k) =
     log_entry (Called name v (on_activity h name v)) (play h (k (on_activity h name v)))"
| "play h (Race event n k) = log_entry (Waited event n (on_event h event)) (play h (k (on_event h event)))"
| "play h (Join cs k) = log_entry (Joined cs (on_children h cs)) (play h (k (on_children h cs)))"

lemma log_entry_sel [simp]: "fst (log_entry e r) = e # fst r" "snd (log_entry e r) = snd r"
  by (simp_all add: log_entry_def)

text \<open>
  What a workflow may assume of the runtime: it resumes the generator with some result of the task
  it yielded, until the generator returns or raises.
\<close>

locale durable_runtime =
  fixes run :: "orch \<Rightarrow> entry list \<times> pydict result"
  assumes run_Ret: "run (Ret d) = ([], Inr d)"
    and run_Fail: "run (Fail e) = ([], Inl e)"
    and run_Act: "\<exists>r. run (Act name v k) = (Called name v r # fst (run (k r)), snd (run (k r)))"
    and run_Race: "\<exists>a. run (Race event n j) = (Waited event n a # fst (run (j a)), snd (run (j a)))"
    and run_Join: "\<exists>rs. run (Join cs h) = (Joined cs rs # fst (run (h rs)), snd (run (h rs)))"
begin

lemma run_plays: "plays w (fst (run w)) (snd (run w))"
proof (induction w)
  case (Act name v k)
  then show ?case using run_Act[of name v k] by (auto intro!: plays_Act)
next
  case (Race event n k)
  then show ?case using run_Race[of event n k] by (auto intro!: plays_Race)
next
  case (Join cs k)
  then show ?case using run_Join[of cs k] by (auto intro!: plays_Join)
qed (simp_all add: run_Ret run_Fail)

lemma run_returns: "run w = (t, out) \<Longrightarrow> plays w t out"
  using run_plays[of w] by simp

end

interpretation played: durable_runtime "play h" for h
  by unfold_locales (auto simp: log_entry_def)

section \<open>Monitors\<close>

text \<open>
  A monitor reads a history entry by entry and may refuse one; \<^verbatim>\<open>obeys\<close> follows the tree of the
  generator instead of its histories.
\<close>

fun watch :: "('q \<Rightarrow> entry \<Rightarrow> 'q option) \<Rightarrow> 'q \<Rightarrow> entry list \<Rightarrow> 'q option" where
  "watch step q [] = Some q"
| "watch step q (e # es) = (case step q e of None \<Rightarrow> None | Some q' \<Rightarrow> watch step q' es)"

definition accepted ::
  "('q \<Rightarrow> entry \<Rightarrow> 'q option) \<Rightarrow> ('q \<Rightarrow> pydict result \<Rightarrow> bool) \<Rightarrow> 'q \<Rightarrow> entry list \<Rightarrow> pydict result \<Rightarrow> bool" where
  "accepted step final q t out = (case watch step q t of None \<Rightarrow> False | Some q' \<Rightarrow> final q' out)"

primrec obeys ::
  "('q \<Rightarrow> entry \<Rightarrow> 'q option) \<Rightarrow> ('q \<Rightarrow> pydict result \<Rightarrow> bool) \<Rightarrow> 'q \<Rightarrow> orch \<Rightarrow> bool" where
  "obeys step final q (Ret d) = final q (Inr d)"
| "obeys step final q (Fail e) = final q (Inl e)"
| "obeys step final q (Act name v k) =
     (\<forall>r. case step q (Called name v r) of None \<Rightarrow> False | Some q' \<Rightarrow> obeys step final q' (k r))"
| "obeys step final q (Race event n k) =
     (\<forall>a. case step q (Waited event n a) of None \<Rightarrow> False | Some q' \<Rightarrow> obeys step final q' (k a))"
| "obeys step final q (Join cs k) =
     (\<forall>rs. case step q (Joined cs rs) of None \<Rightarrow> False | Some q' \<Rightarrow> obeys step final q' (k rs))"

lemma obeysD:
  assumes "plays w t out" "obeys step final q w"
  shows "accepted step final q t out"
  using assms
proof (induction arbitrary: q rule: plays.induct)
  case (plays_Act k r t out name v)
  then show ?case by (force simp: accepted_def split: option.splits)
next
  case (plays_Race k a t out event n)
  then show ?case by (force simp: accepted_def split: option.splits)
next
  case (plays_Join k rs t out cs)
  then show ?case by (force simp: accepted_def split: option.splits)
qed (auto simp: accepted_def)

lemma obeys_activity:
  "obeys step final q (activity name v k) \<longleftrightarrow>
     (\<forall>e. case step q (Called name v (Inl e)) of None \<Rightarrow> False | Some q' \<Rightarrow> final q' (Inl e)) \<and>
     (\<forall>u. case step q (Called name v (Inr u)) of None \<Rightarrow> False | Some q' \<Rightarrow> obeys step final q' (k u))"
  by (simp add: activity_def split_sum_all cong: option.case_cong)

lemma obeys_guarded:
  "obeys step final q (guarded name v handler k) \<longleftrightarrow>
     (\<forall>e. case step q (Called name v (Inl e)) of None \<Rightarrow> False | Some q' \<Rightarrow> obeys step final q' (handler e)) \<and>
     (\<forall>u. case step q (Called name v (Inr u)) of None \<Rightarrow> False | Some q' \<Rightarrow> obeys step final q' (k u))"
  by (simp add: guarded_def split_sum_all cong: option.case_cong)

lemma obeys_race:
  "obeys step final q (race event n late k) \<longleftrightarrow>
     (case step q (Waited event n None) of None \<Rightarrow> False | Some q' \<Rightarrow> obeys step final q' late) \<and>
     (\<forall>u. case step q (Waited event n (Some u)) of None \<Rightarrow> False | Some q' \<Rightarrow> obeys step final q' (k u))"
  by (simp add: race_def split_option_all cong: option.case_cong)

lemma obeys_try_to:
  "obeys step final q (try_to r k) \<longleftrightarrow>
     (\<forall>e. r = Inl e \<longrightarrow> final q (Inl e)) \<and> (\<forall>a. r = Inr a \<longrightarrow> obeys step final q (k a))"
  by (cases r) auto

lemma obeys_if:
  "obeys step final q (if b then w else w') \<longleftrightarrow>
     (b \<longrightarrow> obeys step final q w) \<and> (\<not> b \<longrightarrow> obeys step final q w')"
  by simp

subsection \<open>The life of a workflow\<close>

text \<open>
  What the operator surfaces rely on: a workflow announces its start once, announces every gate
  before it waits at it and under the event it then waits for, reports the answer before it goes
  on, and reports its end exactly once, after which it does nothing more.
\<close>

datatype life = Fresh | Running | Parked string | Answered | Expired | Over

definition terminal_kinds :: "string list" where
  "terminal_kinds = [''workflow.completed'', ''workflow.rejected'', ''workflow.failed'']"

fun life_checkpoint :: "life \<Rightarrow> string \<Rightarrow> pydict \<Rightarrow> life option" where
  "life_checkpoint Fresh kind p = (if kind = ''workflow.started'' then Some Running else None)"
| "life_checkpoint Running kind p =
     (if kind \<in> set terminal_kinds then Some Over
      else if kind = ''suspended'' then
        (case dict_get p ''external_event'' of VStr e \<Rightarrow> Some (Parked e) | _ \<Rightarrow> None)
      else if kind = ''workflow.started'' \<or> kind = ''resumed'' then None
      else Some Running)"
| "life_checkpoint (Parked e) kind p = None"
| "life_checkpoint Answered kind p =
     (if kind \<in> set terminal_kinds then Some Over
      else if kind = ''resumed'' then Some Running
      else if kind = ''workflow.started'' \<or> kind = ''suspended'' then None
      else Some Answered)"
| "life_checkpoint Expired kind p = (if kind \<in> set terminal_kinds then Some Over else None)"
| "life_checkpoint Over kind p = None"

definition checkpoint_of :: "pyval \<Rightarrow> (string \<times> pydict) option" where
  "checkpoint_of v =
     (case v of
        VDict d \<Rightarrow>
          (case (dict_get d ''kind'', dict_get d ''payload'') of
             (VStr kind, VDict p) \<Rightarrow> Some (kind, p)
           | _ \<Rightarrow> None)
      | _ \<Rightarrow> None)"

fun life_step :: "life \<Rightarrow> entry \<Rightarrow> life option" where
  "life_step q (Called name v r) =
     (if name = ''checkpoint_activity_trigger'' then
        (case checkpoint_of v of None \<Rightarrow> None | Some (kind, p) \<Rightarrow> life_checkpoint q kind p)
      else if q = Running \<or> q = Answered then Some q else None)"
| "life_step q (Waited event n a) =
     (if q = Parked event then Some (if a = None then Expired else Answered) else None)"
| "life_step q (Joined cs rs) = (if q = Running then Some q else None)"

text \<open>A workflow that returns is over; one that raises stops where it was.\<close>

definition life_end :: "life \<Rightarrow> pydict result \<Rightarrow> bool" where
  "life_end q out \<longleftrightarrow> (case out of Inr _ \<Rightarrow> q = Over | Inl _ \<Rightarrow> True)"

lemma life_end_simps [simp]: "life_end q (Inl e)" "life_end q (Inr d) \<longleftrightarrow> q = Over"
  by (simp_all add: life_end_def)

definition lives :: "life \<Rightarrow> orch \<Rightarrow> bool" where
  "lives q w = obeys life_step life_end q w"

definition well_lived :: "entry list \<Rightarrow> pydict result \<Rightarrow> bool" where
  "well_lived t out = accepted life_step life_end Fresh t out"

lemma well_lived_I: "lives Fresh w \<Longrightarrow> plays w t out \<Longrightarrow> well_lived t out"
  by (simp add: lives_def well_lived_def obeysD)

lemma checkpoint_of_entry [simp]: "checkpoint_of (VDict (checkpoint_entry wid iid kind p)) = Some (kind, p)"
  by (simp add: checkpoint_of_def checkpoint_entry_def)

lemma lives_Ret: "lives q (Ret d) \<longleftrightarrow> q = Over"
  by (simp add: lives_def)

lemma lives_Fail: "lives q (Fail e)"
  by (simp add: lives_def)

lemma lives_checkpoint:
  "lives q (checkpoint wid iid kind p k) \<longleftrightarrow>
     (case life_checkpoint q kind p of None \<Rightarrow> False | Some q' \<Rightarrow> lives q' k)"
  by (auto simp: lives_def checkpoint_def obeys_activity split: option.splits)

lemma lives_activity:
  "name \<noteq> ''checkpoint_activity_trigger'' \<Longrightarrow>
   lives q (activity name v k) \<longleftrightarrow> (q = Running \<or> q = Answered) \<and> (\<forall>u. lives q (k u))"
  by (auto simp: lives_def obeys_activity)

lemma lives_guarded:
  "name \<noteq> ''checkpoint_activity_trigger'' \<Longrightarrow>
   lives q (guarded name v handler k) \<longleftrightarrow>
     (q = Running \<or> q = Answered) \<and> (\<forall>e. lives q (handler e)) \<and> (\<forall>u. lives q (k u))"
  by (auto simp: lives_def obeys_guarded)

lemma lives_Join:
  "lives q (Join cs k) \<longleftrightarrow> q = Running \<and> (\<forall>rs. lives q (k rs))"
  by (auto simp: lives_def)

lemma lives_race:
  "lives q (race event n late k) \<longleftrightarrow> q = Parked event \<and> lives Expired late \<and> (\<forall>u. lives Answered (k u))"
  by (auto simp: lives_def obeys_race)

lemma lives_try_to: "lives q (try_to r k) \<longleftrightarrow> (\<forall>a. r = Inr a \<longrightarrow> lives q (k a))"
  by (auto simp: lives_def obeys_try_to)

lemma lives_if: "lives q (if b then w else w') \<longleftrightarrow> (b \<longrightarrow> lives q w) \<and> (\<not> b \<longrightarrow> lives q w')"
  by simp

lemmas lives_simps = lives_Ret lives_Fail lives_checkpoint lives_activity lives_race lives_try_to
  lives_guarded lives_Join lives_if terminal_kinds_def

subsection \<open>What a history says\<close>

text \<open>
  The answers a history holds, by event (an inner None: the timer won), and the activities it
  called.  \<^verbatim>\<open>tells P w\<close> follows the tree of a generator and asks \<^verbatim>\<open>P\<close> of the two at every end.
\<close>

definition waits :: "entry list \<Rightarrow> (string \<times> pyval option) list" where
  "waits t = concat (map (\<lambda>x. case x of Waited e n a \<Rightarrow> [(e, a)] | _ \<Rightarrow> []) t)"

definition answered :: "entry list \<Rightarrow> string \<Rightarrow> pyval option option" where
  "answered t = map_of (rev (waits t))"

definition called :: "entry list \<Rightarrow> string list" where
  "called t = concat (map (\<lambda>x. case x of Called a v r \<Rightarrow> [a] | _ \<Rightarrow> []) t)"

type_synonym notebook = "(string \<Rightarrow> pyval option option) \<times> string set"

fun note_entry :: "notebook \<Rightarrow> entry \<Rightarrow> notebook option" where
  "note_entry (w, c) (Called a v r) = Some (w, insert a c)"
| "note_entry (w, c) (Waited e n a) = Some (w(e \<mapsto> a), c)"
| "note_entry (w, c) (Joined cs rs) = Some (w, c)"

lemma watch_tells:
  "watch note_entry (w, c) t = Some (w ++ map_of (rev (waits t)), c \<union> set (called t))"
proof (induction t arbitrary: w c)
  case (Cons x t)
  then show ?case by (cases x) (auto simp: waits_def called_def map_add_upd_left map_add_def fun_eq_iff split: option.splits)
qed (simp add: waits_def called_def)

definition tells :: "(notebook \<Rightarrow> pydict result \<Rightarrow> bool) \<Rightarrow> notebook \<Rightarrow> orch \<Rightarrow> bool" where
  "tells P q w = obeys note_entry P q w"

lemma tellsD:
  assumes "plays w t out" "tells P (\<lambda>_. None, {}) w"
  shows "P (answered t, set (called t)) out"
  using obeysD[OF assms(1) assms(2)[unfolded tells_def]]
  by (simp add: accepted_def watch_tells answered_def)

lemma tells_Ret: "tells P q (Ret d) \<longleftrightarrow> P q (Inr d)"
  by (simp add: tells_def)

lemma tells_Fail: "tells P q (Fail e) \<longleftrightarrow> P q (Inl e)"
  by (simp add: tells_def)

lemma tells_activity:
  "tells P (w, c) (activity a v k) \<longleftrightarrow>
     (\<forall>e. P (w, insert a c) (Inl e)) \<and> (\<forall>u. tells P (w, insert a c) (k u))"
  by (simp add: tells_def obeys_activity)

lemma tells_checkpoint:
  "tells P (w, c) (checkpoint wid iid kind p k) \<longleftrightarrow>
     (\<forall>e. P (w, insert ''checkpoint_activity_trigger'' c) (Inl e)) \<and>
     tells P (w, insert ''checkpoint_activity_trigger'' c) k"
  by (simp add: checkpoint_def tells_activity)

lemma tells_guarded:
  "tells P (w, c) (guarded a v handler k) \<longleftrightarrow>
     (\<forall>e. tells P (w, insert a c) (handler e)) \<and> (\<forall>u. tells P (w, insert a c) (k u))"
  by (simp add: tells_def obeys_guarded)

lemma tells_Join: "tells P (w, c) (Join cs k) \<longleftrightarrow> (\<forall>rs. tells P (w, c) (k rs))"
  by (simp add: tells_def)

lemma tells_race:
  "tells P (w, c) (race event n late k) \<longleftrightarrow>
     tells P (w(event \<mapsto> None), c) late \<and> (\<forall>u. tells P (w(event \<mapsto> Some u), c) (k u))"
  by (simp add: tells_def obeys_race)

lemma tells_try_to:
  "tells P q (try_to r k) \<longleftrightarrow>
     (\<forall>e. r = Inl e \<longrightarrow> P q (Inl e)) \<and> (\<forall>a. r = Inr a \<longrightarrow> tells P q (k a))"
  by (simp add: tells_def obeys_try_to)

lemma tells_if: "tells P q (if b then w else w') \<longleftrightarrow> (b \<longrightarrow> tells P q w) \<and> (\<not> b \<longrightarrow> tells P q w')"
  by simp

lemmas tells_simps = tells_Ret tells_Fail tells_activity tells_checkpoint tells_race tells_try_to
  tells_guarded tells_Join tells_if

text \<open>\<^verbatim>\<open>(v or {}).get("decision") == s\<close> of an answer that has arrived.\<close>

definition decides :: "pyval option option \<Rightarrow> string \<Rightarrow> bool" where
  "decides a s = (case a of
     Some (Some v) \<Rightarrow> get_of (py_or v (VDict [])) ''decision'' = Inr (VStr s) | _ \<Rightarrow> False)"

end
