(* ===== verification/Fleet_Workflows.thy ===== *)
theory Fleet_Workflows imports Durable begin

text \<open>
  The fleet workflows (\<^verbatim>\<open>api/functions/workflows/fleet_*.py\<close>) that park at an approval gate and
  hand the answer on without reading it.  Each definition follows its generator statement by
  statement, under the generator's own variable names: \<^verbatim>\<open>enriched\<close> grows by the result of each
  phase and is the input of the next.
\<close>

section \<open>Ten generators\<close>

subsection \<open>Travel pre-approval\<close>

definition travel_flow :: "ctx \<Rightarrow> orch" where
  "travel_flow cx =
     try_to (input_of cx) (\<lambda>input_dict.
     let iid = VStr (cx_instance cx) in
     let workflow_id = dict_get_or input_dict ''workflow_id'' (VStr ''?'') in
     let workflow_type = dict_get_or input_dict ''type'' (VStr ''travel-preapproval'') in
     let enriched = dict_set ''instance_id'' iid input_dict in
     checkpoint workflow_id iid ''workflow.started''
       [(''domain'', VStr ''fleet-travel-preapproval''), (''workflow_type'', workflow_type)] (
     activity ''fleet_travel_preapproval_employee_lookup_activity_trigger''
       (VDict enriched) (\<lambda>employee_lookup_result.
     let enriched = dict_set ''employee_lookup'' employee_lookup_result enriched in
     activity ''fleet_travel_preapproval_policy_fit_check_activity_trigger''
       (VDict enriched) (\<lambda>policy_fit_check_result.
     let enriched = dict_set ''policy_fit_check'' policy_fit_check_result enriched in
     checkpoint workflow_id iid ''suspended''
       [(''reason'', VStr ''awaiting_manager_approval''),
        (''phase'', VStr ''manager_approval''), (''wait_kind'', VStr ''operator_review''),
        (''workflow_type'', workflow_type), (''persona'', VStr ''line_manager''),
        (''external_event'', VStr ''manager_approval_decision''),
        (''context'', VDict [
          (''trip'', dict_get enriched ''trip''),
          (''employee_lookup'', dict_get enriched ''employee_lookup''),
          (''policy_fit_check'', dict_get enriched ''policy_fit_check'')])] (
     race ''manager_approval_decision'' (hours 24)
       (checkpoint workflow_id iid ''workflow.completed''
          [(''status'', VStr ''timeout''), (''phase'', VStr ''manager_approval''),
        (''workflow_type'', workflow_type)] (
        Ret (timed_out ''manager_approval'')))
       (\<lambda>decision_event.
     let enriched = dict_set ''manager_approval_decision'' decision_event enriched in
     checkpoint workflow_id iid ''resumed''
       [(''phase'', VStr ''manager_approval''), (''workflow_type'', workflow_type)] (
     checkpoint workflow_id iid ''workflow.completed'' [(''workflow_type'', workflow_type)] (
     Ret [(''status'', VStr ''completed''), (''employee_lookup'', employee_lookup_result),
          (''policy_fit_check'', policy_fit_check_result),
          (''manager_approval_decision'', dict_get enriched ''manager_approval_decision'')]))))))))"

subsection \<open>Vendor onboarding and KYC\<close>

definition vendor_kyc_flow :: "ctx \<Rightarrow> orch" where
  "vendor_kyc_flow cx =
     try_to (input_of cx) (\<lambda>input_dict.
     let iid = VStr (cx_instance cx) in
     let workflow_id = dict_get_or input_dict ''workflow_id'' (VStr ''?'') in
     let workflow_type = dict_get_or input_dict ''type'' (VStr ''vendor-kyc'') in
     let enriched = dict_set ''instance_id'' iid input_dict in
     checkpoint workflow_id iid ''workflow.started''
       [(''domain'', VStr ''fleet-vendor-kyc''), (''workflow_type'', workflow_type)] (
     activity ''fleet_vendor_kyc_vendor_intake_activity_trigger''
       (VDict enriched) (\<lambda>vendor_intake_result.
     let enriched = dict_set ''vendor_intake'' vendor_intake_result enriched in
     activity ''fleet_vendor_kyc_kyc_diligence_activity_trigger''
       (VDict enriched) (\<lambda>kyc_diligence_result.
     let enriched = dict_set ''kyc_diligence'' kyc_diligence_result enriched in
     activity ''fleet_vendor_kyc_ubo_resolver_activity_trigger''
       (VDict enriched) (\<lambda>ubo_resolver_result.
     let enriched = dict_set ''ubo_resolver'' ubo_resolver_result enriched in
     checkpoint workflow_id iid ''suspended''
       [(''reason'', VStr ''awaiting_finance_signoff''), (''phase'', VStr ''finance_signoff''),
        (''wait_kind'', VStr ''operator_review''), (''workflow_type'', workflow_type),
        (''persona'', VStr ''vendor_kyc_finance_bp''),
        (''external_event'', VStr ''finance_signoff_decision''),
        (''context'', VDict [
          (''ubo_resolver'', dict_get enriched ''ubo_resolver''),
          (''kyc_diligence'', dict_get enriched ''kyc_diligence'')])] (
     race ''finance_signoff_decision'' (hours 24)
       (checkpoint workflow_id iid ''workflow.completed''
          [(''status'', VStr ''timeout''), (''phase'', VStr ''finance_signoff''),
        (''workflow_type'', workflow_type)] (
        Ret (timed_out ''finance_signoff'')))
       (\<lambda>decision_event.
     let enriched = dict_set ''finance_signoff_decision'' decision_event enriched in
     checkpoint workflow_id iid ''resumed''
       [(''phase'', VStr ''finance_signoff''), (''workflow_type'', workflow_type)] (
     checkpoint workflow_id iid ''workflow.completed'' [(''workflow_type'', workflow_type)] (
     Ret [(''status'', VStr ''completed''), (''vendor_intake'', vendor_intake_result),
          (''kyc_diligence'', kyc_diligence_result), (''ubo_resolver'', ubo_resolver_result),
          (''finance_signoff_decision'', dict_get enriched ''finance_signoff_decision'')])))))))))"

subsection \<open>Employee onboarding\<close>

definition onboarding_flow :: "ctx \<Rightarrow> orch" where
  "onboarding_flow cx =
     try_to (input_of cx) (\<lambda>input_dict.
     let iid = VStr (cx_instance cx) in
     let workflow_id = dict_get_or input_dict ''workflow_id'' (VStr ''?'') in
     let workflow_type = dict_get_or input_dict ''type'' (VStr ''employee-onboarding'') in
     let enriched = dict_set ''instance_id'' iid input_dict in
     checkpoint workflow_id iid ''workflow.started''
       [(''domain'', VStr ''fleet-employee-onboarding''), (''workflow_type'', workflow_type)] (
     activity ''fleet_employee_onboarding_employee_lookup_activity_trigger''
       (VDict enriched) (\<lambda>employee_lookup_result.
     let enriched = dict_set ''employee_lookup'' employee_lookup_result enriched in
     activity ''fleet_employee_onboarding_access_drafter_activity_trigger''
       (VDict enriched) (\<lambda>access_drafter_result.
     let enriched = dict_set ''access_drafter'' access_drafter_result enriched in
     checkpoint workflow_id iid ''suspended''
       [(''reason'', VStr ''awaiting_it_admin_approval''),
        (''phase'', VStr ''it_admin_approval''), (''wait_kind'', VStr ''operator_review''),
        (''workflow_type'', workflow_type), (''persona'', VStr ''onboarding_it_admin''),
        (''external_event'', VStr ''it_admin_approval_decision''),
        (''context'', VDict [(''access_drafter'', dict_get enriched ''access_drafter'')])] (
     race ''it_admin_approval_decision'' (hours 24)
       (checkpoint workflow_id iid ''workflow.completed''
          [(''status'', VStr ''timeout''), (''phase'', VStr ''it_admin_approval''),
        (''workflow_type'', workflow_type)] (
        Ret (timed_out ''it_admin_approval'')))
       (\<lambda>decision_event.
     let enriched = dict_set ''it_admin_approval_decision'' decision_event enriched in
     checkpoint workflow_id iid ''resumed''
       [(''phase'', VStr ''it_admin_approval''), (''workflow_type'', workflow_type)] (
     activity ''fleet_employee_onboarding_induction_planner_activity_trigger''
       (VDict enriched) (\<lambda>induction_planner_result.
     let enriched = dict_set ''induction_planner'' induction_planner_result enriched in
     checkpoint workflow_id iid ''workflow.completed'' [(''workflow_type'', workflow_type)] (
     Ret [(''status'', VStr ''completed''), (''employee_lookup'', employee_lookup_result),
          (''access_drafter'', access_drafter_result),
          (''it_admin_approval_decision'', dict_get enriched ''it_admin_approval_decision''),
          (''induction_planner'', induction_planner_result)])))))))))"

subsection \<open>Purchase order\<close>

definition purchase_order_flow :: "ctx \<Rightarrow> orch" where
  "purchase_order_flow cx =
     try_to (input_of cx) (\<lambda>input_dict.
     let iid = VStr (cx_instance cx) in
     let workflow_id = dict_get_or input_dict ''workflow_id'' (VStr ''?'') in
     let workflow_type = dict_get_or input_dict ''type'' (VStr ''purchase-order'') in
     let enriched = dict_set ''instance_id'' iid input_dict in
     checkpoint workflow_id iid ''workflow.started''
       [(''domain'', VStr ''fleet-purchase-order''), (''workflow_type'', workflow_type)] (
     activity ''fleet_purchase_order_po_lookup_activity_trigger''
       (VDict enriched) (\<lambda>po_lookup_result.
     let enriched = dict_set ''po_lookup'' po_lookup_result enriched in
     activity ''fleet_purchase_order_supplier_check_activity_trigger''
       (VDict enriched) (\<lambda>supplier_check_result.
     let enriched = dict_set ''supplier_check'' supplier_check_result enriched in
     activity ''fleet_purchase_order_authority_resolve_activity_trigger''
       (VDict enriched) (\<lambda>authority_resolve_result.
     let enriched = dict_set ''authority_resolve'' authority_resolve_result enriched in
     try_to (get_of (py_or authority_resolve_result (VDict [])) ''approver_role'')
       (\<lambda>approver_role.
     let approver = py_or approver_role (VStr ''category_manager'') in
     checkpoint workflow_id iid ''suspended''
       [(''reason'', says (cx_float cx) ''awaiting_{}'' [approver]),
        (''phase'', VStr ''approver_signoff''), (''wait_kind'', VStr ''operator_review''),
        (''workflow_type'', workflow_type), (''persona'', approver),
        (''external_event'', VStr ''purchase_order_approval_decision''),
        (''context'', VDict [
          (''purchase_order'', dict_get enriched ''purchase_order''),
          (''po_lookup'', dict_get enriched ''po_lookup''),
          (''supplier_check'', dict_get enriched ''supplier_check''),
          (''authority_resolve'', dict_get enriched ''authority_resolve''),
          (''action'', VStr ''purchase_order_approval'')])] (
     race ''purchase_order_approval_decision'' (hours 48)
       (checkpoint workflow_id iid ''workflow.completed''
          [(''status'', VStr ''timeout''), (''phase'', VStr ''approver_signoff''),
        (''workflow_type'', workflow_type)] (
        Ret (timed_out ''approver_signoff'')))
       (\<lambda>decision_event.
     let enriched = dict_set ''approver_signoff'' decision_event enriched in
     checkpoint workflow_id iid ''resumed''
       [(''phase'', VStr ''approver_signoff''), (''workflow_type'', workflow_type)] (
     checkpoint workflow_id iid ''workflow.completed'' [(''workflow_type'', workflow_type)] (
     Ret [(''status'', VStr ''completed''), (''po_lookup'', po_lookup_result),
          (''supplier_check'', supplier_check_result),
          (''authority_resolve'', authority_resolve_result),
          (''approver_signoff'', dict_get enriched ''approver_signoff'')]))))))))))"

subsection \<open>Contract review\<close>

definition contract_review_flow :: "ctx \<Rightarrow> orch" where
  "contract_review_flow cx =
     try_to (input_of cx) (\<lambda>input_dict.
     let iid = VStr (cx_instance cx) in
     let workflow_id = dict_get_or input_dict ''workflow_id'' (VStr ''?'') in
     let workflow_type = dict_get_or input_dict ''type'' (VStr ''contract-review'') in
     let enriched = dict_set ''instance_id'' iid input_dict in
     checkpoint workflow_id iid ''workflow.started''
       [(''domain'', VStr ''fleet-contract-review''), (''workflow_type'', workflow_type)] (
     activity ''fleet_contract_review_contract_intake_activity_trigger''
       (VDict enriched) (\<lambda>contract_intake_result.
     let enriched = dict_set ''contract_intake'' contract_intake_result enriched in
     activity ''fleet_contract_review_risk_classify_activity_trigger''
       (VDict enriched) (\<lambda>risk_classify_result.
     let enriched = dict_set ''risk_classify'' risk_classify_result enriched in
     activity ''fleet_contract_review_authority_resolve_activity_trigger''
       (VDict enriched) (\<lambda>authority_resolve_result.
     let enriched = dict_set ''authority_resolve'' authority_resolve_result enriched in
     try_to (get_of (py_or authority_resolve_result (VDict [])) ''approver_role'')
       (\<lambda>approver_role.
     let approver = py_or approver_role (VStr ''contracts_counsel'') in
     checkpoint workflow_id iid ''suspended''
       [(''reason'', says (cx_float cx) ''awaiting_{}'' [approver]),
        (''phase'', VStr ''approver_signoff''), (''wait_kind'', VStr ''operator_review''),
        (''workflow_type'', workflow_type), (''persona'', approver),
        (''external_event'', VStr ''contract_review_signoff_decision''),
        (''context'', VDict [
          (''contract_review'', dict_get enriched ''contract_review''),
          (''contract_intake'', dict_get enriched ''contract_intake''),
          (''risk_classify'', dict_get enriched ''risk_classify''),
          (''authority_resolve'', dict_get enriched ''authority_resolve''),
          (''action'', VStr ''contract_review_signoff'')])] (
     race ''contract_review_signoff_decision'' (hours 48)
       (checkpoint workflow_id iid ''workflow.completed''
          [(''status'', VStr ''timeout''), (''phase'', VStr ''approver_signoff''),
        (''workflow_type'', workflow_type)] (
        Ret (timed_out ''approver_signoff'')))
       (\<lambda>decision_event.
     let enriched = dict_set ''approver_signoff'' decision_event enriched in
     checkpoint workflow_id iid ''resumed''
       [(''phase'', VStr ''approver_signoff''), (''workflow_type'', workflow_type)] (
     checkpoint workflow_id iid ''workflow.completed'' [(''workflow_type'', workflow_type)] (
     Ret [(''status'', VStr ''completed''), (''contract_intake'', contract_intake_result),
          (''risk_classify'', risk_classify_result), (''authority_resolve'',
            authority_resolve_result),
          (''approver_signoff'', dict_get enriched ''approver_signoff'')]))))))))))"

subsection \<open>Privacy impact assessment\<close>

definition privacy_dpia_flow :: "ctx \<Rightarrow> orch" where
  "privacy_dpia_flow cx =
     try_to (input_of cx) (\<lambda>input_dict.
     let iid = VStr (cx_instance cx) in
     let workflow_id = dict_get_or input_dict ''workflow_id'' (VStr ''?'') in
     let workflow_type = dict_get_or input_dict ''type'' (VStr ''privacy-dpia'') in
     let enriched = dict_set ''instance_id'' iid input_dict in
     checkpoint workflow_id iid ''workflow.started''
       [(''domain'', VStr ''fleet-privacy-dpia''), (''workflow_type'', workflow_type)] (
     activity ''fleet_privacy_dpia_dpia_intake_activity_trigger''
       (VDict enriched) (\<lambda>dpia_intake_result.
     let enriched = dict_set ''dpia_intake'' dpia_intake_result enriched in
     activity ''fleet_privacy_dpia_risk_classify_activity_trigger''
       (VDict enriched) (\<lambda>risk_classify_result.
     let enriched = dict_set ''risk_classify'' risk_classify_result enriched in
     activity ''fleet_privacy_dpia_authority_resolve_activity_trigger''
       (VDict enriched) (\<lambda>authority_resolve_result.
     let enriched = dict_set ''authority_resolve'' authority_resolve_result enriched in
     try_to (get_of (py_or authority_resolve_result (VDict [])) ''approver_role'')
       (\<lambda>approver_role.
     let approver = py_or approver_role (VStr ''dpo'') in
     checkpoint workflow_id iid ''suspended''
       [(''reason'', says (cx_float cx) ''awaiting_{}'' [approver]),
        (''phase'', VStr ''approver_signoff''), (''wait_kind'', VStr ''operator_review''),
        (''workflow_type'', workflow_type), (''persona'', approver),
        (''external_event'', VStr ''dpia_signoff_decision''),
        (''context'', VDict [
          (''dpia'', dict_get enriched ''dpia''),
          (''dpia_intake'', dict_get enriched ''dpia_intake''),
          (''risk_classify'', dict_get enriched ''risk_classify''),
          (''authority_resolve'', dict_get enriched ''authority_resolve''),
          (''action'', VStr ''privacy_dpia_signoff'')])] (
     race ''dpia_signoff_decision'' (hours 72)
       (checkpoint workflow_id iid ''workflow.completed''
          [(''status'', VStr ''timeout''), (''phase'', VStr ''approver_signoff''),
        (''workflow_type'', workflow_type)] (
        Ret (timed_out ''approver_signoff'')))
       (\<lambda>decision_event.
     let enriched = dict_set ''approver_signoff'' decision_event enriched in
     checkpoint workflow_id iid ''resumed''
       [(''phase'', VStr ''approver_signoff''), (''workflow_type'', workflow_type)] (
     checkpoint workflow_id iid ''workflow.completed'' [(''workflow_type'', workflow_type)] (
     Ret [(''status'', VStr ''completed''), (''dpia_intake'', dpia_intake_result),
          (''risk_classify'', risk_classify_result), (''authority_resolve'',
            authority_resolve_result),
          (''approver_signoff'', dict_get enriched ''approver_signoff'')]))))))))))"

subsection \<open>Treasury FX\<close>

definition treasury_fx_flow :: "ctx \<Rightarrow> orch" where
  "treasury_fx_flow cx =
     try_to (input_of cx) (\<lambda>input_dict.
     let iid = VStr (cx_instance cx) in
     let workflow_id = dict_get_or input_dict ''workflow_id'' (VStr ''?'') in
     let workflow_type = dict_get_or input_dict ''type'' (VStr ''treasury-fx'') in
     let enriched = dict_set ''instance_id'' iid input_dict in
     checkpoint workflow_id iid ''workflow.started''
       [(''domain'', VStr ''fleet-treasury-fx''), (''workflow_type'', workflow_type)] (
     activity ''fleet_treasury_fx_op_lookup_activity_trigger''
       (VDict enriched) (\<lambda>op_lookup_result.
     let enriched = dict_set ''op_lookup'' op_lookup_result enriched in
     activity ''fleet_treasury_fx_position_check_activity_trigger''
       (VDict enriched) (\<lambda>position_check_result.
     let enriched = dict_set ''position_check'' position_check_result enriched in
     activity ''fleet_treasury_fx_authority_resolve_activity_trigger''
       (VDict enriched) (\<lambda>authority_resolve_result.
     let enriched = dict_set ''authority_resolve'' authority_resolve_result enriched in
     try_to (get_of (py_or authority_resolve_result (VDict [])) ''approver_role'')
       (\<lambda>approver_role.
     let approver = py_or approver_role (VStr ''treasurer'') in
     checkpoint workflow_id iid ''suspended''
       [(''reason'', says (cx_float cx) ''awaiting_{}'' [approver]),
        (''phase'', VStr ''approver_signoff''), (''wait_kind'', VStr ''operator_review''),
        (''workflow_type'', workflow_type), (''persona'', approver),
        (''external_event'', VStr ''treasury_signoff_decision''),
        (''context'', VDict [
          (''treasury_op'', dict_get enriched ''treasury_op''),
          (''op_lookup'', dict_get enriched ''op_lookup''),
          (''position_check'', dict_get enriched ''position_check''),
          (''authority_resolve'', dict_get enriched ''authority_resolve''),
          (''action'', VStr ''treasury_fx_hedge'')])] (
     race ''treasury_signoff_decision'' (hours 24)
       (checkpoint workflow_id iid ''workflow.completed''
          [(''status'', VStr ''timeout''), (''phase'', VStr ''approver_signoff''),
        (''workflow_type'', workflow_type)] (
        Ret (timed_out ''approver_signoff'')))
       (\<lambda>decision_event.
     let enriched = dict_set ''approver_signoff'' decision_event enriched in
     checkpoint workflow_id iid ''resumed''
       [(''phase'', VStr ''approver_signoff''), (''workflow_type'', workflow_type)] (
     checkpoint workflow_id iid ''workflow.completed'' [(''workflow_type'', workflow_type)] (
     Ret [(''status'', VStr ''completed''), (''op_lookup'', op_lookup_result),
          (''position_check'', position_check_result),
          (''authority_resolve'', authority_resolve_result),
          (''approver_signoff'', dict_get enriched ''approver_signoff'')]))))))))))"

subsection \<open>Contract renewal\<close>

definition contract_renewal_flow :: "ctx \<Rightarrow> orch" where
  "contract_renewal_flow cx =
     try_to (input_of cx) (\<lambda>input_dict.
     let iid = VStr (cx_instance cx) in
     let workflow_id = dict_get_or input_dict ''workflow_id'' (VStr ''?'') in
     let workflow_type = dict_get_or input_dict ''type'' (VStr ''contract-renewal'') in
     let enriched = dict_set ''instance_id'' iid input_dict in
     checkpoint workflow_id iid ''workflow.started''
       [(''domain'', VStr ''fleet-contract-renewal''), (''workflow_type'', workflow_type)] (
     activity ''fleet_contract_renewal_contract_lookup_activity_trigger''
       (VDict enriched) (\<lambda>contract_lookup_result.
     let enriched = dict_set ''contract_lookup'' contract_lookup_result enriched in
     activity ''fleet_contract_renewal_market_benchmarker_activity_trigger''
       (VDict enriched) (\<lambda>market_benchmarker_result.
     let enriched = dict_set ''market_benchmarker'' market_benchmarker_result enriched in
     activity ''fleet_contract_renewal_renewal_terms_drafter_activity_trigger''
       (VDict enriched) (\<lambda>renewal_terms_drafter_result.
     let enriched = dict_set ''renewal_terms_drafter'' renewal_terms_drafter_result enriched in
     checkpoint workflow_id iid ''suspended''
       [(''reason'', VStr ''awaiting_finance_signoff''), (''phase'', VStr ''finance_signoff''),
        (''wait_kind'', VStr ''operator_review''), (''workflow_type'', workflow_type),
        (''persona'', VStr ''contract_finance_bp''),
        (''external_event'', VStr ''finance_signoff_decision''),
        (''context'', VDict [
          (''renewal_terms_drafter'', dict_get enriched ''renewal_terms_drafter''),
          (''market_benchmarker'', dict_get enriched ''market_benchmarker'')])] (
     race ''finance_signoff_decision'' (hours 24)
       (checkpoint workflow_id iid ''workflow.completed''
          [(''status'', VStr ''timeout''), (''phase'', VStr ''finance_signoff''),
        (''workflow_type'', workflow_type)] (
        Ret (timed_out ''finance_signoff'')))
       (\<lambda>decision_event_fin.
     let enriched = dict_set ''finance_signoff'' decision_event_fin enriched in
     checkpoint workflow_id iid ''resumed''
       [(''phase'', VStr ''finance_signoff''), (''workflow_type'', workflow_type)] (
     checkpoint workflow_id iid ''suspended''
       [(''reason'', VStr ''awaiting_contract_owner_signoff''),
        (''phase'', VStr ''contract_owner_signoff''),
        (''wait_kind'', VStr ''operator_review''), (''workflow_type'', workflow_type),
        (''persona'', VStr ''contract_line_manager''),
        (''external_event'', VStr ''contract_owner_signoff_decision''),
        (''context'', VDict [
          (''finance_signoff'', dict_get enriched ''finance_signoff''),
          (''renewal_terms_drafter'', dict_get enriched ''renewal_terms_drafter'')])] (
     race ''contract_owner_signoff_decision'' (hours 24)
       (checkpoint workflow_id iid ''workflow.completed''
          [(''status'', VStr ''timeout''), (''phase'', VStr ''contract_owner_signoff''),
        (''workflow_type'', workflow_type)] (
        Ret (timed_out ''contract_owner_signoff'')))
       (\<lambda>decision_event_co.
     let enriched = dict_set ''contract_owner_signoff'' decision_event_co enriched in
     checkpoint workflow_id iid ''resumed''
       [(''phase'', VStr ''contract_owner_signoff''), (''workflow_type'', workflow_type)] (
     checkpoint workflow_id iid ''workflow.completed'' [(''workflow_type'', workflow_type)] (
     Ret [(''status'', VStr ''completed''), (''contract_lookup'', contract_lookup_result),
          (''market_benchmarker'', market_benchmarker_result),
          (''renewal_terms_drafter'', renewal_terms_drafter_result),
          (''finance_signoff'', dict_get enriched ''finance_signoff''),
          (''contract_owner_signoff'', dict_get enriched ''contract_owner_signoff'')]))))))))))))"

subsection \<open>IT access request\<close>

definition it_access_flow :: "ctx \<Rightarrow> orch" where
  "it_access_flow cx =
     try_to (input_of cx) (\<lambda>input_dict.
     let iid = VStr (cx_instance cx) in
     let workflow_id = dict_get_or input_dict ''workflow_id'' (VStr ''?'') in
     let workflow_type = dict_get_or input_dict ''type'' (VStr ''it-access-request'') in
     let enriched = dict_set ''instance_id'' iid input_dict in
     checkpoint workflow_id iid ''workflow.started''
       [(''domain'', VStr ''fleet-it-access-request''), (''workflow_type'', workflow_type)] (
     activity ''fleet_it_access_request_employee_lookup_activity_trigger''
       (VDict enriched) (\<lambda>employee_lookup_result.
     let enriched = dict_set ''employee_lookup'' employee_lookup_result enriched in
     activity ''fleet_it_access_request_rbac_resolver_activity_trigger''
       (VDict enriched) (\<lambda>rbac_resolver_result.
     let enriched = dict_set ''rbac_resolver'' rbac_resolver_result enriched in
     activity ''fleet_it_access_request_risk_assessor_activity_trigger''
       (VDict enriched) (\<lambda>risk_assessor_result.
     let enriched = dict_set ''risk_assessor'' risk_assessor_result enriched in
     checkpoint workflow_id iid ''suspended''
       [(''reason'', VStr ''awaiting_line_manager_approval''),
        (''phase'', VStr ''line_manager_approval''), (''wait_kind'', VStr ''operator_review''),
        (''workflow_type'', workflow_type), (''persona'', VStr ''it_access_line_manager''),
        (''external_event'', VStr ''line_manager_approval_decision''),
        (''context'', VDict [
          (''risk_assessor'', dict_get enriched ''risk_assessor''),
          (''employee_lookup'', dict_get enriched ''employee_lookup''),
          (''rbac_resolver'', dict_get enriched ''rbac_resolver'')])] (
     race ''line_manager_approval_decision'' (hours 24)
       (checkpoint workflow_id iid ''workflow.completed''
          [(''status'', VStr ''timeout''), (''phase'', VStr ''line_manager_approval''),
        (''workflow_type'', workflow_type)] (
        Ret (timed_out ''line_manager_approval'')))
       (\<lambda>decision_event_lm.
     let enriched = dict_set ''line_manager_approval'' decision_event_lm enriched in
     checkpoint workflow_id iid ''resumed''
       [(''phase'', VStr ''line_manager_approval''), (''workflow_type'', workflow_type)] (
     checkpoint workflow_id iid ''suspended''
       [(''reason'', VStr ''awaiting_it_admin_approval''),
        (''phase'', VStr ''it_admin_approval''), (''wait_kind'', VStr ''operator_review''),
        (''workflow_type'', workflow_type), (''persona'', VStr ''it_access_it_admin''),
        (''external_event'', VStr ''it_admin_approval_decision''),
        (''context'', VDict [
          (''line_manager_approval'', dict_get enriched ''line_manager_approval''),
          (''rbac_resolver'', dict_get enriched ''rbac_resolver'')])] (
     race ''it_admin_approval_decision'' (hours 24)
       (checkpoint workflow_id iid ''workflow.completed''
          [(''status'', VStr ''timeout''), (''phase'', VStr ''it_admin_approval''),
        (''workflow_type'', workflow_type)] (
        Ret (timed_out ''it_admin_approval'')))
       (\<lambda>decision_event_it.
     let enriched = dict_set ''it_admin_approval'' decision_event_it enriched in
     checkpoint workflow_id iid ''resumed''
       [(''phase'', VStr ''it_admin_approval''), (''workflow_type'', workflow_type)] (
     checkpoint workflow_id iid ''workflow.completed'' [(''workflow_type'', workflow_type)] (
     Ret [(''status'', VStr ''completed''), (''employee_lookup'', employee_lookup_result),
          (''rbac_resolver'', rbac_resolver_result), (''risk_assessor'', risk_assessor_result),
          (''line_manager_approval'', dict_get enriched ''line_manager_approval''),
          (''it_admin_approval'', dict_get enriched ''it_admin_approval'')]))))))))))))"

subsection \<open>Performance review\<close>

definition perf_review_flow :: "ctx \<Rightarrow> orch" where
  "perf_review_flow cx =
     try_to (input_of cx) (\<lambda>input_dict.
     let iid = VStr (cx_instance cx) in
     let workflow_id = dict_get_or input_dict ''workflow_id'' (VStr ''?'') in
     let workflow_type = dict_get_or input_dict ''type'' (VStr ''perf-review'') in
     let enriched = dict_set ''instance_id'' iid input_dict in
     checkpoint workflow_id iid ''workflow.started''
       [(''domain'', VStr ''fleet-perf-review''), (''workflow_type'', workflow_type)] (
     activity ''fleet_perf_review_employee_lookup_activity_trigger''
       (VDict enriched) (\<lambda>employee_lookup_result.
     let enriched = dict_set ''employee_lookup'' employee_lookup_result enriched in
     activity ''fleet_perf_review_peer_feedback_aggregator_activity_trigger''
       (VDict enriched) (\<lambda>peer_feedback_aggregator_result.
     let enriched = dict_set ''peer_feedback_aggregator'' peer_feedback_aggregator_result enriched
       in
     activity ''fleet_perf_review_calibration_drafter_activity_trigger''
       (VDict enriched) (\<lambda>calibration_drafter_result.
     let enriched = dict_set ''calibration_drafter'' calibration_drafter_result enriched in
     checkpoint workflow_id iid ''suspended''
       [(''reason'', VStr ''awaiting_hr_calibration''), (''phase'', VStr ''hr_calibration''),
        (''wait_kind'', VStr ''operator_review''), (''workflow_type'', workflow_type),
        (''persona'', VStr ''perf_review_hr_bp''),
        (''external_event'', VStr ''hr_calibration_decision''),
        (''context'', VDict [
          (''calibration_drafter'', dict_get enriched ''calibration_drafter''),
          (''peer_feedback_aggregator'', dict_get enriched ''peer_feedback_aggregator''),
          (''employee_lookup'', dict_get enriched ''employee_lookup'')])] (
     race ''hr_calibration_decision'' (hours 24)
       (checkpoint workflow_id iid ''workflow.completed''
          [(''status'', VStr ''timeout''), (''phase'', VStr ''hr_calibration''),
        (''workflow_type'', workflow_type)] (
        Ret (timed_out ''hr_calibration'')))
       (\<lambda>decision_event_hr.
     let enriched = dict_set ''hr_calibration'' decision_event_hr enriched in
     checkpoint workflow_id iid ''resumed''
       [(''phase'', VStr ''hr_calibration''), (''workflow_type'', workflow_type)] (
     checkpoint workflow_id iid ''suspended''
       [(''reason'', VStr ''awaiting_line_manager_delivery''),
        (''phase'', VStr ''line_manager_delivery''), (''wait_kind'', VStr ''operator_review''),
        (''workflow_type'', workflow_type), (''persona'', VStr ''perf_review_line_manager''),
        (''external_event'', VStr ''line_manager_delivery_decision''),
        (''context'', VDict [
          (''hr_calibration'', dict_get enriched ''hr_calibration''),
          (''calibration_drafter'', dict_get enriched ''calibration_drafter'')])] (
     race ''line_manager_delivery_decision'' (hours 24)
       (checkpoint workflow_id iid ''workflow.completed''
          [(''status'', VStr ''timeout''), (''phase'', VStr ''line_manager_delivery''),
        (''workflow_type'', workflow_type)] (
        Ret (timed_out ''line_manager_delivery'')))
       (\<lambda>decision_event_lm.
     let enriched = dict_set ''line_manager_delivery'' decision_event_lm enriched in
     checkpoint workflow_id iid ''resumed''
       [(''phase'', VStr ''line_manager_delivery''), (''workflow_type'', workflow_type)] (
     checkpoint workflow_id iid ''workflow.completed'' [(''workflow_type'', workflow_type)] (
     Ret [(''status'', VStr ''completed''), (''employee_lookup'', employee_lookup_result),
          (''peer_feedback_aggregator'', peer_feedback_aggregator_result),
          (''calibration_drafter'', calibration_drafter_result),
          (''hr_calibration'', dict_get enriched ''hr_calibration''),
          (''line_manager_delivery'', dict_get enriched ''line_manager_delivery'')]))))))))))))"

section \<open>Their lives\<close>

text \<open>The orchestrations by workflow type.\<close>

definition fleet_flows :: "(string \<times> (ctx \<Rightarrow> orch)) list" where
  "fleet_flows =
     [(''travel-preapproval'', travel_flow), (''vendor-kyc'', vendor_kyc_flow),
      (''employee-onboarding'', onboarding_flow), (''purchase-order'', purchase_order_flow),
      (''contract-review'', contract_review_flow), (''privacy-dpia'', privacy_dpia_flow),
      (''treasury-fx'', treasury_fx_flow), (''contract-renewal'', contract_renewal_flow),
      (''it-access-request'', it_access_flow), (''perf-review'', perf_review_flow)]"

lemma travel_flow_lives: "lives Fresh (travel_flow cx)"
  by (simp add: travel_flow_def Let_def lives_simps)

lemma vendor_kyc_flow_lives: "lives Fresh (vendor_kyc_flow cx)"
  by (simp add: vendor_kyc_flow_def Let_def lives_simps)

lemma onboarding_flow_lives: "lives Fresh (onboarding_flow cx)"
  by (simp add: onboarding_flow_def Let_def lives_simps)

lemma purchase_order_flow_lives: "lives Fresh (purchase_order_flow cx)"
  by (simp add: purchase_order_flow_def Let_def lives_simps)

lemma contract_review_flow_lives: "lives Fresh (contract_review_flow cx)"
  by (simp add: contract_review_flow_def Let_def lives_simps)

lemma privacy_dpia_flow_lives: "lives Fresh (privacy_dpia_flow cx)"
  by (simp add: privacy_dpia_flow_def Let_def lives_simps)

lemma treasury_fx_flow_lives: "lives Fresh (treasury_fx_flow cx)"
  by (simp add: treasury_fx_flow_def Let_def lives_simps)

lemma contract_renewal_flow_lives: "lives Fresh (contract_renewal_flow cx)"
  by (simp add: contract_renewal_flow_def Let_def lives_simps)

lemma it_access_flow_lives: "lives Fresh (it_access_flow cx)"
  by (simp add: it_access_flow_def Let_def lives_simps)

lemma perf_review_flow_lives: "lives Fresh (perf_review_flow cx)"
  by (simp add: perf_review_flow_def Let_def lives_simps)

lemmas fleet_lives = travel_flow_lives vendor_kyc_flow_lives onboarding_flow_lives purchase_order_flow_lives contract_review_flow_lives privacy_dpia_flow_lives treasury_fx_flow_lives contract_renewal_flow_lives it_access_flow_lives perf_review_flow_lives

section \<open>The answers are not read\<close>

text \<open>Either a timer won, or a run that returns reports completion.\<close>

definition completes :: "notebook \<Rightarrow> pydict result \<Rightarrow> bool" where
  "completes q out \<longleftrightarrow>
     (case out of
        Inl _ \<Rightarrow> True
      | Inr d \<Rightarrow> dict_get d ''status'' = VStr (if None \<in> ran (fst q) then ''timeout'' else ''completed''))"

lemma ran_upd_fresh: "w e = None \<Longrightarrow> ran (w(e \<mapsto> a)) = insert a (ran w)"
  by (simp add: ran_map_upd)

lemma travel_flow_completes: "tells completes (\<lambda>_. None, {}) (travel_flow cx)"
  by (simp add: travel_flow_def Let_def tells_simps completes_def timed_out_def ran_upd_fresh)

lemma vendor_kyc_flow_completes: "tells completes (\<lambda>_. None, {}) (vendor_kyc_flow cx)"
  by (simp add: vendor_kyc_flow_def Let_def tells_simps completes_def timed_out_def ran_upd_fresh)

lemma onboarding_flow_completes: "tells completes (\<lambda>_. None, {}) (onboarding_flow cx)"
  by (simp add: onboarding_flow_def Let_def tells_simps completes_def timed_out_def ran_upd_fresh)

lemma purchase_order_flow_completes: "tells completes (\<lambda>_. None, {}) (purchase_order_flow cx)"
  by (simp add: purchase_order_flow_def Let_def tells_simps completes_def timed_out_def ran_upd_fresh)

lemma contract_review_flow_completes: "tells completes (\<lambda>_. None, {}) (contract_review_flow cx)"
  by (simp add: contract_review_flow_def Let_def tells_simps completes_def timed_out_def ran_upd_fresh)

lemma privacy_dpia_flow_completes: "tells completes (\<lambda>_. None, {}) (privacy_dpia_flow cx)"
  by (simp add: privacy_dpia_flow_def Let_def tells_simps completes_def timed_out_def ran_upd_fresh)

lemma treasury_fx_flow_completes: "tells completes (\<lambda>_. None, {}) (treasury_fx_flow cx)"
  by (simp add: treasury_fx_flow_def Let_def tells_simps completes_def timed_out_def ran_upd_fresh)

lemma contract_renewal_flow_completes: "tells completes (\<lambda>_. None, {}) (contract_renewal_flow cx)"
  by (simp add: contract_renewal_flow_def Let_def tells_simps completes_def timed_out_def ran_upd_fresh)

lemma it_access_flow_completes: "tells completes (\<lambda>_. None, {}) (it_access_flow cx)"
  by (simp add: it_access_flow_def Let_def tells_simps completes_def timed_out_def ran_upd_fresh)

lemma perf_review_flow_completes: "tells completes (\<lambda>_. None, {}) (perf_review_flow cx)"
  by (simp add: perf_review_flow_def Let_def tells_simps completes_def timed_out_def ran_upd_fresh)

lemmas fleet_completes = travel_flow_completes vendor_kyc_flow_completes onboarding_flow_completes purchase_order_flow_completes contract_review_flow_completes privacy_dpia_flow_completes treasury_fx_flow_completes contract_renewal_flow_completes it_access_flow_completes perf_review_flow_completes

end
