(* ===== verification/Segment_Workflows.thy ===== *)
theory Segment_Workflows imports Durable begin

text \<open>
  The workflows with agent segments (\<^verbatim>\<open>fleet_employee_transfer.py\<close>, \<^verbatim>\<open>fleet_training_request.py\<close>)
  and the creative campaign (\<^verbatim>\<open>creative_campaign.py\<close>).  A segment is an activity whose output a
  second activity validates; a refused output is retried with the validator's objections in the
  input, at most \<^verbatim>\<open>SEGMENT_MAX_RETRIES + 1\<close> times.  A generator longer than a page is cut where a
  phase begins; the part after the cut takes the variables it still reads.
\<close>

section \<open>The retry loop\<close>

text \<open>\<^verbatim>\<open>for attempt in range(n)\<close> with its \<^verbatim>\<open>else\<close>: \<open>validator\<close> is the last answer of the validator.\<close>

primrec segment_attempts ::
  "ctx \<Rightarrow> string \<Rightarrow> string \<Rightarrow> (pydict \<Rightarrow> orch) \<Rightarrow> (pyval \<Rightarrow> orch) \<Rightarrow> nat \<Rightarrow> pydict \<Rightarrow> pydict \<Rightarrow> orch" where
  "segment_attempts cx segment validate exhausted k 0 validator input = exhausted validator"
| "segment_attempts cx segment validate exhausted k (Suc n) validator input =
     activity segment (VDict input) (\<lambda>result.
     activity validate result (\<lambda>answer.
     try_to (dict_of_val answer) (\<lambda>verdict.
       if truthy (dict_get verdict ''ok'') then try_to (subscript (VDict verdict) ''output'') k
       else segment_attempts cx segment validate exhausted k n verdict
              (dict_set ''prior_validator_error''
                (VStr (val_repr (cx_float cx) (dict_get verdict ''errors''))) input))))"

definition segment_loop ::
  "ctx \<Rightarrow> int \<Rightarrow> string \<Rightarrow> string \<Rightarrow> (pydict \<Rightarrow> orch) \<Rightarrow> pydict \<Rightarrow> (pyval \<Rightarrow> orch) \<Rightarrow> orch" where
  "segment_loop cx retries segment validate exhausted input k =
     segment_attempts cx segment validate exhausted k (nat (retries + 1)) [] input"

lemma lives_segment_attempts:
  assumes "segment \<noteq> ''checkpoint_activity_trigger''" "validate \<noteq> ''checkpoint_activity_trigger''"
    and "\<And>v. lives Running (exhausted v)" "\<And>v. lives Running (k v)"
  shows "lives Running (segment_attempts cx segment validate exhausted k n validator input)"
  using assms by (induction n arbitrary: validator input) (auto simp: lives_simps)

lemma lives_segment_loop:
  assumes "segment \<noteq> ''checkpoint_activity_trigger''" "validate \<noteq> ''checkpoint_activity_trigger''"
    and "\<And>v. lives Running (exhausted v)" "\<And>v. lives Running (k v)"
  shows "lives Running (segment_loop cx retries segment validate exhausted input k)"
  using lives_segment_attempts[OF assms] by (simp add: segment_loop_def)

section \<open>Employee transfer and training request\<close>

subsection \<open>Employee transfer\<close>

definition transfer_flow_2 :: "ctx \<Rightarrow> int \<Rightarrow> pyval \<Rightarrow> pyval
  \<Rightarrow> pydict \<Rightarrow> pyval \<Rightarrow> pyval \<Rightarrow> pyval \<Rightarrow>
    orch" where
  "transfer_flow_2 cx segment_max_retries workflow_id workflow_type enriched transfer_intake_result
    employee_lookup_result eligibility_check_result =
     (let iid = VStr (cx_instance cx) in
     let segment_input = dict_set ''covered_phases'' (VList [VStr ''Compensation Remap'']) enriched
       in
     segment_loop cx segment_max_retries ''employee_transfer_segment_d_activity_trigger''
       ''validate_employee_transfer_segment_d_output_activity_trigger''
       (\<lambda>validator_d.
        checkpoint workflow_id iid ''segment.failed''
          [(''segment'', VStr ''d''), (''phase'', VStr ''compensation_remap''),
        (''errors'', dict_get validator_d ''errors''), (''workflow_type'', workflow_type)] (
        Fail (Raised ''RuntimeError''
          [says (cx_float cx) ''Segment D (compensation_remap) validation failed after {} attempts''
            [VInt (segment_max_retries + 1)]])))
       segment_input (\<lambda>segment_d_result.
     let compensation_remap_result = segment_d_result in
     let enriched = dict_set ''compensation_remap'' compensation_remap_result enriched in
     checkpoint workflow_id iid ''suspended''
       [(''reason'', VStr ''awaiting_hr_director_signoff''),
        (''phase'', VStr ''hr_director_signoff''), (''wait_kind'', VStr ''operator_review''),
        (''workflow_type'', workflow_type), (''persona'', VStr ''hr_director''),
        (''external_event'', VStr ''hr_director_decision''),
        (''context'', VDict [
          (''eligibility_check'', dict_get enriched ''eligibility_check''),
          (''compensation_remap'', dict_get enriched ''compensation_remap'')])] (
     race ''hr_director_decision'' (hours 48)
       (checkpoint workflow_id iid ''workflow.completed''
          [(''status'', VStr ''timeout''), (''phase'', VStr ''hr_director_signoff''),
        (''workflow_type'', workflow_type)] (
        Ret (timed_out ''hr_director_signoff'')))
       (\<lambda>director_event.
     let enriched = dict_set ''hr_director_decision'' director_event enriched in
     checkpoint workflow_id iid ''resumed''
       [(''phase'', VStr ''hr_director_signoff''), (''workflow_type'', workflow_type)] (
     activity ''fleet_employee_transfer_identity_migration_activity_trigger''
       (VDict enriched) (\<lambda>identity_migration_result.
     let enriched = dict_set ''identity_migration'' identity_migration_result enriched in
     checkpoint workflow_id iid ''workflow.completed'' [(''workflow_type'', workflow_type)] (
     Ret [(''status'', VStr ''completed''), (''transfer_intake'', transfer_intake_result),
          (''employee_lookup'', employee_lookup_result),
          (''eligibility_check'', eligibility_check_result),
          (''manager_approval_decision'', dict_get enriched ''manager_approval_decision''),
          (''compensation_remap'', compensation_remap_result),
          (''hr_director_decision'', dict_get enriched ''hr_director_decision''),
          (''identity_migration'', identity_migration_result)])))))))"

definition transfer_flow :: "ctx \<Rightarrow> orch" where
  "transfer_flow cx =
     try_to (cx_retries cx) (\<lambda>segment_max_retries.
     try_to (input_of cx) (\<lambda>input_dict.
     let iid = VStr (cx_instance cx) in
     let workflow_id = dict_get_or input_dict ''workflow_id'' (VStr ''?'') in
     let workflow_type = dict_get_or input_dict ''type'' (VStr ''employee-transfer'') in
     let enriched = dict_merge input_dict [(''workflow_id'', workflow_id), (''instance_id'', iid)]
       in
     checkpoint workflow_id iid ''workflow.started''
       [(''domain'', VStr ''fleet-employee-transfer''), (''workflow_type'', workflow_type)] (
     activity ''fleet_employee_transfer_transfer_intake_activity_trigger''
       (VDict enriched) (\<lambda>transfer_intake_result.
     let enriched = dict_set ''transfer_intake'' transfer_intake_result enriched in
     activity ''fleet_employee_transfer_employee_lookup_activity_trigger''
       (VDict enriched) (\<lambda>employee_lookup_result.
     let enriched = dict_set ''employee_lookup'' employee_lookup_result enriched in
     let segment_input = dict_set ''covered_phases'' (VList [VStr ''Eligibility Check'']) enriched
       in
     segment_loop cx segment_max_retries ''employee_transfer_segment_b_activity_trigger''
       ''validate_employee_transfer_segment_b_output_activity_trigger''
       (\<lambda>validator_b.
        checkpoint workflow_id iid ''segment.failed''
          [(''segment'', VStr ''b''), (''phase'', VStr ''eligibility_check''),
        (''errors'', dict_get validator_b ''errors''), (''workflow_type'', workflow_type)] (
        Fail (Raised ''RuntimeError''
          [says (cx_float cx) ''Segment B (eligibility_check) validation failed after {} attempts''
            [VInt (segment_max_retries + 1)]])))
       segment_input (\<lambda>segment_b_result.
     let eligibility_check_result = segment_b_result in
     let enriched = dict_set ''eligibility_check'' eligibility_check_result enriched in
     checkpoint workflow_id iid ''suspended''
       [(''reason'', VStr ''awaiting_manager_approval''),
        (''phase'', VStr ''manager_approval''), (''wait_kind'', VStr ''operator_review''),
        (''workflow_type'', workflow_type), (''persona'', VStr ''line_manager''),
        (''external_event'', VStr ''manager_approval_decision''),
        (''context'', VDict [
          (''employee_lookup'', dict_get enriched ''employee_lookup''),
          (''eligibility_check'', dict_get enriched ''eligibility_check'')])] (
     race ''manager_approval_decision'' (hours 24)
       (checkpoint workflow_id iid ''workflow.completed''
          [(''status'', VStr ''timeout''), (''phase'', VStr ''manager_approval''),
        (''workflow_type'', workflow_type)] (
        Ret (timed_out ''manager_approval'')))
       (\<lambda>manager_event.
     let enriched = dict_set ''manager_approval_decision'' manager_event enriched in
     checkpoint workflow_id iid ''resumed''
       [(''phase'', VStr ''manager_approval''), (''workflow_type'', workflow_type)] (
     transfer_flow_2 cx segment_max_retries workflow_id workflow_type enriched
       transfer_intake_result employee_lookup_result eligibility_check_result)))))))))"

subsection \<open>Training request\<close>

definition training_flow :: "ctx \<Rightarrow> orch" where
  "training_flow cx =
     try_to (cx_retries cx) (\<lambda>segment_max_retries.
     try_to (input_of cx) (\<lambda>input_dict.
     let iid = VStr (cx_instance cx) in
     let workflow_id = dict_get_or input_dict ''workflow_id'' (VStr ''?'') in
     let workflow_type = dict_get_or input_dict ''type'' (VStr ''training-request'') in
     let enriched = dict_merge input_dict [(''workflow_id'', workflow_id), (''instance_id'', iid)]
       in
     checkpoint workflow_id iid ''workflow.started''
       [(''domain'', VStr ''fleet-training-request''), (''workflow_type'', workflow_type)] (
     activity ''fleet_training_request_request_intake_activity_trigger''
       (VDict enriched) (\<lambda>request_intake_result.
     let enriched = dict_set ''request_intake'' request_intake_result enriched in
     let segment_input = dict_set ''covered_phases'' (VList [VStr ''Eligibility & Catalogue''])
       enriched in
     segment_loop cx segment_max_retries ''training_request_segment_b_activity_trigger''
       ''validate_training_request_segment_b_output_activity_trigger''
       (\<lambda>validator_b.
        checkpoint workflow_id iid ''segment.failed''
          [(''segment'', VStr ''b''), (''phase'', VStr ''eligibility_and_catalogue''),
        (''errors'', dict_get validator_b ''errors''), (''workflow_type'', workflow_type)] (
        Fail (Raised ''RuntimeError''
          [says (cx_float cx)
            ''Segment B (eligibility_and_catalogue) validation failed after {} attempts'' [VInt
              (segment_max_retries + 1)]])))
       segment_input (\<lambda>segment_b_result.
     let eligibility_and_catalogue_result = segment_b_result in
     let enriched = dict_set ''eligibility_and_catalogue'' eligibility_and_catalogue_result enriched
       in
     checkpoint workflow_id iid ''suspended''
       [(''reason'', VStr ''awaiting_hr_director_approval''),
        (''phase'', VStr ''hr_director_approval''), (''wait_kind'', VStr ''operator_review''),
        (''workflow_type'', workflow_type), (''persona'', VStr ''hr_director''),
        (''external_event'', VStr ''hr_director_decision''),
        (''context'', VDict [
          (''request_intake'', dict_get enriched ''request_intake''),
          (''eligibility_and_catalogue'', dict_get enriched ''eligibility_and_catalogue'')])] (
     race ''hr_director_decision'' (hours 48)
       (checkpoint workflow_id iid ''workflow.completed''
          [(''status'', VStr ''timeout''), (''phase'', VStr ''hr_director_approval''),
        (''workflow_type'', workflow_type)] (
        Ret (timed_out ''hr_director_approval'')))
       (\<lambda>director_event.
     let enriched = dict_set ''hr_director_decision'' director_event enriched in
     checkpoint workflow_id iid ''resumed''
       [(''phase'', VStr ''hr_director_approval''), (''workflow_type'', workflow_type)] (
     activity ''fleet_training_request_book_activity_trigger''
       (VDict enriched) (\<lambda>book_result.
     let enriched = dict_set ''book'' book_result enriched in
     checkpoint workflow_id iid ''workflow.completed'' [(''workflow_type'', workflow_type)] (
     Ret [(''status'', VStr ''completed''), (''request_intake'', request_intake_result),
          (''eligibility_and_catalogue'', eligibility_and_catalogue_result),
          (''hr_director_decision'', dict_get enriched ''hr_director_decision''),
          (''book'', book_result)]))))))))))"

section \<open>The creative campaign\<close>

definition suspend ::
  "pyval \<Rightarrow> pyval \<Rightarrow> string \<Rightarrow> string \<Rightarrow> string \<Rightarrow> string \<Rightarrow> pyval \<Rightarrow> pydict \<Rightarrow> orch \<Rightarrow> orch" where
  "suspend workflow_id iid phase external_event reason persona workflow_type context_payload =
     checkpoint workflow_id iid ''suspended''
       [(''reason'', VStr reason), (''phase'', VStr phase), (''wait_kind'', VStr ''operator_review''),
        (''workflow_type'', workflow_type), (''persona'', VStr persona),
        (''external_event'', VStr external_event), (''context'', VDict context_payload)]"

definition publish_output :: "pyval \<Rightarrow> pyval \<Rightarrow> string \<Rightarrow> pyval \<Rightarrow> orch \<Rightarrow> orch" where
  "publish_output workflow_id iid slot payload_data k =
     try_to (case py_or payload_data (VDict []) of
               VDict d \<Rightarrow> Inr d
             | v \<Rightarrow> Inl (Raised ''AttributeError'' [v, VStr ''items''])) (\<lambda>d.
     checkpoint workflow_id iid ''creative.phase.output''
       [(''slot'', VStr slot),
        (''data'', VDict (filter (\<lambda>(key, _).
           key \<notin> {''workflow_id'', ''instance_id'', ''phase'', ''stub''}) d))] k)"

text \<open>\<^verbatim>\<open>if b: yield ...\<close>\<close>

definition only_if :: "bool \<Rightarrow> (orch \<Rightarrow> orch) \<Rightarrow> orch \<Rightarrow> orch" where
  "only_if b f k = (if b then f k else k)"

lemma lives_suspend:
  "lives q (suspend wid iid phase event reason persona wt c k) \<longleftrightarrow> q = Running \<and> lives (Parked event) k"
  by (cases q) (auto simp: suspend_def lives_simps)

lemma lives_publish_output: "lives q k \<Longrightarrow> q = Running \<or> q = Answered \<Longrightarrow> lives q (publish_output wid iid slot v k)"
  by (cases q) (auto simp: publish_output_def lives_simps)

definition creative_flow_3 :: "ctx \<Rightarrow> pyval \<Rightarrow> pyval \<Rightarrow> pydict
  \<Rightarrow> pyval \<Rightarrow> pyval \<Rightarrow> pyval \<Rightarrow> pyval \<Rightarrow>
    orch" where
  "creative_flow_3 cx workflow_id workflow_type enriched brief_synthesis_result insight_result
    concept_result storyboard_result =
     (let iid = VStr (cx_instance cx) in
     suspend workflow_id iid ''storyboard_approval'' ''storyboard_approval_decision''
       ''awaiting_storyboard_approval'' ''creative_director''
            workflow_type [(''storyboard_render'', storyboard_result)] (
     race ''storyboard_approval_decision'' (hours 24)
       (checkpoint workflow_id iid ''workflow.completed''
          [(''status'', VStr ''timeout''), (''phase'', VStr ''storyboard_approval''),
        (''workflow_type'', workflow_type)] (
        Ret (timed_out ''storyboard_approval'')))
       (\<lambda>sb_event.
     let enriched = dict_set ''storyboard_approval_decision'' sb_event enriched in
     try_to (get_of (py_or sb_event (VDict [])) ''decision'') (\<lambda>v3.
     if v3 = VStr ''reject'' then
       checkpoint workflow_id iid ''workflow.completed''
         [(''status'', VStr ''rejected_at_storyboard_approval''),
        (''workflow_type'', workflow_type)] (
       Ret [(''status'', VStr ''rejected''), (''phase'', VStr ''storyboard_approval'')])
     else (
     checkpoint workflow_id iid ''resumed''
       [(''phase'', VStr ''storyboard_approval''), (''workflow_type'', workflow_type)] (
     suspend workflow_id iid ''final_signoff'' ''final_signoff_decision'' ''awaiting_final_signoff''
       ''creative_director''
            workflow_type [(''storyboard_render'', storyboard_result), (''concept_fanout'',
              concept_result)] (
     race ''final_signoff_decision'' (hours 48)
       (checkpoint workflow_id iid ''workflow.completed''
          [(''status'', VStr ''timeout''), (''phase'', VStr ''final_signoff''),
        (''workflow_type'', workflow_type)] (
        Ret (timed_out ''final_signoff'')))
       (\<lambda>fs_event.
     let enriched = dict_set ''final_signoff_decision'' fs_event enriched in
     try_to (get_of (py_or fs_event (VDict [])) ''decision'') (\<lambda>v4.
     if v4 = VStr ''reject'' then
       checkpoint workflow_id iid ''workflow.completed''
         [(''status'', VStr ''rejected_at_final_signoff''), (''workflow_type'', workflow_type)] (
       Ret [(''status'', VStr ''rejected''), (''phase'', VStr ''final_signoff'')])
     else (
     checkpoint workflow_id iid ''resumed''
       [(''phase'', VStr ''final_signoff''), (''workflow_type'', workflow_type)] (
     activity ''creative_package_handoff_activity_trigger''
       (VDict enriched) (\<lambda>package_result.
     let enriched = dict_set ''package_handoff'' package_result enriched in
     publish_output workflow_id iid ''package_handoff'' package_result (
     checkpoint workflow_id iid ''workflow.completed'' [(''workflow_type'', workflow_type)] (
     try_to (get_of package_result ''figma_file_url'') (\<lambda>figma_file_url.
     Ret [(''status'', VStr ''completed''), (''brief_synthesis'', brief_synthesis_result),
          (''insight_audience'', insight_result), (''concept_fanout'', concept_result),
          (''storyboard_render'', storyboard_result), (''package_handoff'', package_result),
          (''figma_file_url'', figma_file_url)])))))))))))))))"

definition creative_flow_2 :: "ctx \<Rightarrow> pyval \<Rightarrow> pyval \<Rightarrow> pydict
  \<Rightarrow> pyval \<Rightarrow> orch" where
  "creative_flow_2 cx workflow_id workflow_type enriched brief_synthesis_result =
     (let iid = VStr (cx_instance cx) in
     checkpoint workflow_id iid ''resumed''
       [(''phase'', VStr ''brief_approval''), (''workflow_type'', workflow_type)] (
     activity ''creative_insight_audience_activity_trigger''
       (VDict enriched) (\<lambda>insight_result.
     let enriched = dict_set ''insight_audience'' insight_result enriched in
     publish_output workflow_id iid ''insight_audience'' insight_result (
     activity ''creative_concept_fanout_activity_trigger''
       (VDict enriched) (\<lambda>concept_result.
     let enriched = dict_set ''concept_fanout'' concept_result enriched in
     publish_output workflow_id iid ''concept_fanout'' concept_result (
     suspend workflow_id iid ''concept_lock'' ''concept_lock_decision'' ''awaiting_concept_lock''
       ''creative_director''
            workflow_type [(''concept_fanout'', concept_result)] (
     race ''concept_lock_decision'' (hours 24)
       (checkpoint workflow_id iid ''workflow.completed''
          [(''status'', VStr ''timeout''), (''phase'', VStr ''concept_lock''),
        (''workflow_type'', workflow_type)] (
        Ret (timed_out ''concept_lock'')))
       (\<lambda>concept_event.
     let enriched = dict_set ''concept_lock_decision'' concept_event enriched in
     publish_output workflow_id iid ''concept_lock_decision'' (py_or concept_event (VDict [])) (
     try_to (get_of (py_or concept_event (VDict [])) ''decision'') (\<lambda>v2.
     if v2 = VStr ''reject'' then
       checkpoint workflow_id iid ''workflow.completed''
         [(''status'', VStr ''rejected_at_concept_lock''), (''workflow_type'', workflow_type)] (
       Ret [(''status'', VStr ''rejected''), (''phase'', VStr ''concept_lock'')])
     else (
     checkpoint workflow_id iid ''resumed''
       [(''phase'', VStr ''concept_lock''), (''workflow_type'', workflow_type)] (
     activity ''creative_storyboard_render_activity_trigger''
       (VDict enriched) (\<lambda>storyboard_result.
     let enriched = dict_set ''storyboard_render'' storyboard_result enriched in
     publish_output workflow_id iid ''storyboard_render'' storyboard_result (
     creative_flow_3 cx workflow_id workflow_type enriched brief_synthesis_result insight_result
       concept_result storyboard_result))))))))))))))"

definition creative_flow :: "ctx \<Rightarrow> orch" where
  "creative_flow cx =
     try_to (input_of cx) (\<lambda>input_dict.
     let iid = VStr (cx_instance cx) in
     let workflow_id = dict_get_or input_dict ''workflow_id'' (VStr ''?'') in
     let workflow_type = dict_get_or input_dict ''type'' (VStr ''creative-campaign'') in
     let enriched = dict_set ''instance_id'' iid input_dict in
     checkpoint workflow_id iid ''workflow.started''
       [(''domain'', VStr ''creative-campaign''), (''workflow_type'', workflow_type)] (
     only_if (truthy (dict_get enriched ''brief''))
       (publish_output workflow_id iid ''brief'' (dict_get enriched ''brief'')) (
     suspend workflow_id iid ''brief_capture'' ''voice_complete'' ''awaiting_brief_capture_voice''
       ''creative_director''
            workflow_type [(''brief'', dict_get enriched ''brief'')] (
     race ''voice_complete'' (hours 4)
       (checkpoint workflow_id iid ''workflow.completed''
          [(''status'', VStr ''timeout''), (''phase'', VStr ''brief_capture''),
        (''workflow_type'', workflow_type)] (
        Ret (timed_out ''brief_capture'')))
       (\<lambda>voice_event.
     let enriched = dict_set ''brief_capture'' (py_or voice_event (VDict [])) enriched in
     checkpoint workflow_id iid ''resumed''
       [(''phase'', VStr ''brief_capture''), (''workflow_type'', workflow_type)] (
     activity ''creative_brief_synthesis_activity_trigger''
       (VDict enriched) (\<lambda>brief_synthesis_result.
     let enriched = dict_set ''brief_synthesis'' brief_synthesis_result enriched in
     publish_output workflow_id iid ''brief_synthesis'' brief_synthesis_result (
     suspend workflow_id iid ''brief_approval'' ''brief_approval_decision''
       ''awaiting_brief_approval'' ''creative_director''
            workflow_type [(''brief_synthesis'', brief_synthesis_result)] (
     race ''brief_approval_decision'' (hours 24)
       (checkpoint workflow_id iid ''workflow.completed''
          [(''status'', VStr ''timeout''), (''phase'', VStr ''brief_approval''),
        (''workflow_type'', workflow_type)] (
        Ret (timed_out ''brief_approval'')))
       (\<lambda>brief_approval_event.
     let enriched = dict_set ''brief_approval_decision'' brief_approval_event enriched in
     try_to (get_of (py_or brief_approval_event (VDict [])) ''decision'') (\<lambda>decision.
     if decision = VStr ''reject'' then
       checkpoint workflow_id iid ''workflow.completed''
         [(''status'', VStr ''rejected_at_brief_approval''), (''workflow_type'', workflow_type)] (
       Ret [(''status'', VStr ''rejected''), (''phase'', VStr ''brief_approval'')])
     else (
     creative_flow_2 cx workflow_id workflow_type enriched brief_synthesis_result))))))))))))"

lemma transfer_flow_lives: "lives Fresh (transfer_flow cx)"
  by (simp add: transfer_flow_def transfer_flow_2_def Let_def lives_simps lives_segment_loop)

lemma training_flow_lives: "lives Fresh (training_flow cx)"
  by (simp add: training_flow_def Let_def lives_simps lives_segment_loop)

lemma creative_flow_lives: "lives Fresh (creative_flow cx)"
  by (simp add: creative_flow_def creative_flow_2_def creative_flow_3_def Let_def only_if_def
    lives_simps lives_suspend lives_publish_output)

section \<open>How often a segment runs\<close>

text \<open>At most \<open>N\<close> calls of an activity by the end, given \<open>n\<close> so far.\<close>

fun count_calls :: "string \<Rightarrow> nat \<Rightarrow> entry \<Rightarrow> nat option" where
  "count_calls a n (Called b v r) = Some (if b = a then Suc n else n)"
| "count_calls a n e = Some n"

definition at_most :: "string \<Rightarrow> nat \<Rightarrow> nat \<Rightarrow> orch \<Rightarrow> bool" where
  "at_most a N n w = obeys (count_calls a) (\<lambda>n _. n \<le> N) n w"

lemma watch_count: "watch (count_calls a) n t = Some (n + count_list (called t) a)"
  by (induction t arbitrary: n) (auto simp: called_def split: entry.split)

lemma at_mostD: "plays w t out \<Longrightarrow> at_most a N 0 w \<Longrightarrow> count_list (called t) a \<le> N"
  using obeysD[of w t out "count_calls a" "\<lambda>n _. n \<le> N" 0]
  by (simp add: at_most_def accepted_def watch_count)

lemma at_most_simps:
  "at_most a N n (Ret d) \<longleftrightarrow> n \<le> N"
  "at_most a N n (Fail e) \<longleftrightarrow> n \<le> N"
  "at_most a N n (activity b v k) \<longleftrightarrow>
     (let m = (if b = a then Suc n else n) in m \<le> N \<and> (\<forall>u. at_most a N m (k u)))"
  "at_most a N n (race ev i late k) \<longleftrightarrow> at_most a N n late \<and> (\<forall>u. at_most a N n (k u))"
  "at_most a N n (try_to r l) \<longleftrightarrow>
     (\<forall>e. r = Inl e \<longrightarrow> n \<le> N) \<and> (\<forall>x. r = Inr x \<longrightarrow> at_most a N n (l x))"
  by (auto simp: at_most_def obeys_activity obeys_race obeys_try_to)

lemma at_most_checkpoint:
  "a \<noteq> ''checkpoint_activity_trigger'' \<Longrightarrow>
   at_most a N n (checkpoint wid iid kind p k) \<longleftrightarrow> n \<le> N \<and> at_most a N n k"
  by (auto simp: checkpoint_def at_most_simps)

lemma at_most_attempts:
  assumes "validate \<noteq> segment" "n + m \<le> N"
    and "\<And>j v. j \<le> n + m \<Longrightarrow> at_most segment N j (exhausted v)"
    and "\<And>j v. j \<le> n + m \<Longrightarrow> at_most segment N j (k v)"
  shows "at_most segment N n (segment_attempts cx segment validate exhausted k m v input)"
  using assms
proof (induction m arbitrary: n v input)
  case (Suc m)
  then show ?case using Suc.IH[of "Suc n"] by (auto simp: at_most_simps Let_def)
qed simp

lemma at_most_other:
  assumes "segment \<noteq> a" "validate \<noteq> a" "n \<le> N"
    and "\<And>v. at_most a N n (exhausted v)" "\<And>v. at_most a N n (k v)"
  shows "at_most a N n (segment_attempts cx segment validate exhausted k m v input)"
  using assms by (induction m arbitrary: v input) (auto simp: at_most_simps Let_def)

lemma at_most_loop:
  assumes "validate \<noteq> segment"
    and "\<And>j v. j \<le> nat (retries + 1) \<Longrightarrow> at_most segment (nat (retries + 1)) j (exhausted v)"
    and "\<And>j v. j \<le> nat (retries + 1) \<Longrightarrow> at_most segment (nat (retries + 1)) j (k v)"
  shows "at_most segment (nat (retries + 1)) 0 (segment_loop cx retries segment validate exhausted input k)"
  unfolding segment_loop_def by (rule at_most_attempts) (use assms in simp_all)

lemma at_most_other_loop:
  assumes "segment \<noteq> a" "validate \<noteq> a" "n \<le> N"
    and "\<And>v. at_most a N n (exhausted v)" "\<And>v. at_most a N n (k v)"
  shows "at_most a N n (segment_loop cx retries segment validate exhausted input k)"
  unfolding segment_loop_def by (rule at_most_other) (use assms in simp_all)

lemma training_at_most:
  "cx_retries cx = Inr r \<Longrightarrow>
   at_most ''training_request_segment_b_activity_trigger'' (nat (r + 1)) 0 (training_flow cx)"
  by (simp add: training_flow_def Let_def at_most_simps at_most_checkpoint at_most_loop)

lemma transfer_at_most_b:
  "cx_retries cx = Inr r \<Longrightarrow>
   at_most ''employee_transfer_segment_b_activity_trigger'' (nat (r + 1)) 0 (transfer_flow cx)"
  by (simp add: transfer_flow_def transfer_flow_2_def Let_def at_most_simps at_most_checkpoint
    at_most_loop at_most_other_loop)

lemma transfer_at_most_d:
  "cx_retries cx = Inr r \<Longrightarrow>
   at_most ''employee_transfer_segment_d_activity_trigger'' (nat (r + 1)) 0 (transfer_flow cx)"
  by (simp add: transfer_flow_def transfer_flow_2_def Let_def at_most_simps at_most_checkpoint
    at_most_loop at_most_other_loop)

section \<open>What follows a transfer's approvals\<close>

definition migrated :: "notebook \<Rightarrow> pydict result \<Rightarrow> bool" where
  "migrated q out \<longleftrightarrow>
     (case out of
        Inl _ \<Rightarrow> True
      | Inr d \<Rightarrow>
          if None \<in> ran (fst q) then dict_get d ''status'' = VStr ''timeout''
          else dict_get d ''status'' = VStr ''completed'' \<and>
               ''fleet_employee_transfer_identity_migration_activity_trigger'' \<in> snd q)"

lemma tells_segment_attempts:
  assumes "\<And>c e. P (w, c) (Inl e)" "\<And>c v. tells P (w, c) (exhausted v)" "\<And>c v. tells P (w, c) (k v)"
  shows "tells P (w, c) (segment_attempts cx segment validate exhausted k n v input)"
  using assms by (induction n arbitrary: c v input) (auto simp: tells_simps)

lemma tells_segment_loop:
  assumes "\<And>c e. P (w, c) (Inl e)" "\<And>c v. tells P (w, c) (exhausted v)" "\<And>c v. tells P (w, c) (k v)"
  shows "tells P (w, c) (segment_loop cx retries segment validate exhausted input k)"
  unfolding segment_loop_def by (rule tells_segment_attempts) (use assms in auto)

lemma transfer_flow_migrates: "tells migrated (\<lambda>_. None, {}) (transfer_flow cx)"
  by (simp add: transfer_flow_def transfer_flow_2_def Let_def tells_simps tells_segment_loop migrated_def
    timed_out_def ran_map_upd)

end
