(* ===== verification/Claim_Workflows.thy ===== *)
theory Claim_Workflows imports Durable begin

text \<open>
  The two workflows that act on what a reviewer answers: the AP invoice
  (\<^verbatim>\<open>api/functions/workflows/fleet_ap_invoice.py\<close>), with its clerk and its controller, and the
  expense claim (\<^verbatim>\<open>expense_claim.py\<close>), with its claimant and its reviewer.  A generator is cut
  where an answer has arrived; the part after the cut takes the variables it still reads.
\<close>

section \<open>AP invoice\<close>

text \<open>\<^verbatim>\<open>workflow.output\<close> and the terminal checkpoint, then the outcome.\<close>

definition conclude_invoice ::
  "pyval \<Rightarrow> pyval \<Rightarrow> pyval \<Rightarrow> pydict \<Rightarrow> string \<Rightarrow> pydict result \<Rightarrow> orch" where
  "conclude_invoice workflow_id iid workflow_type outcome terminal_kind terminal_payload =
     checkpoint workflow_id iid ''workflow.output''
       [(''slot'', VStr ''outcome''), (''data'', VDict outcome), (''workflow_type'', workflow_type)] (
     try_to terminal_payload (\<lambda>payload.
     checkpoint workflow_id iid terminal_kind payload (
     Ret outcome)))"

text \<open>The payload of a rejection, read off the answer.\<close>

definition rejection_payload :: "pyval \<Rightarrow> string \<Rightarrow> string \<Rightarrow> pyval \<Rightarrow> pydict result" where
  "rejection_payload signoff phase fallback workflow_type =
     bind_result (get_of signoff ''reason'') (\<lambda>reason.
     bind_result (get_of signoff ''decision_id'') (\<lambda>decision_id.
     Inr [(''phase'', VStr phase), (''reason'', py_or reason (VStr fallback)),
          (''decision_id'', decision_id), (''workflow_type'', workflow_type)]))"

text \<open>Phase 4, from the suspension for the controller on.\<close>

definition invoice_controller_decided ::
  "ctx \<Rightarrow> pyval \<Rightarrow> pyval \<Rightarrow> pydict \<Rightarrow> pydict \<Rightarrow> pyval \<Rightarrow> pyval \<Rightarrow> orch" where
  "invoice_controller_decided cx workflow_id workflow_type enriched invoice_context
      invoice_lookup_result three_way_match_result =
     (let iid = VStr (cx_instance cx) in
     let controller_signoff = dict_get enriched ''controller_signoff'' in
     try_to (get_of (py_or controller_signoff (VDict [])) ''decision'') (\<lambda>controller_decision.
     let outcome =
       [(''status'', VStr (if controller_decision = VStr ''approve'' then ''completed''
                         else if controller_decision = VStr ''reject'' then ''rejected'' else ''failed'')),
        (''invoice_id'', dict_get invoice_context ''invoice_id''),
        (''invoice_lookup'', invoice_lookup_result),
        (''three_way_match'', three_way_match_result),
        (''ap_clerk_signoff'', dict_get enriched ''ap_clerk_signoff''),
        (''controller_signoff'', controller_signoff)] in
     if controller_decision = VStr ''escalate'' then
       conclude_invoice workflow_id iid workflow_type
         (dict_set ''outcome'' (VStr ''unresolved_escalation'') outcome) ''workflow.failed''
         (Inr [(''outcome'', VStr ''unresolved_escalation''),
               (''reason'', VStr ''Controller escalation remains unresolved''),
               (''workflow_type'', workflow_type)])
     else
       try_to (in_strs controller_decision [''approve'', ''reject'']) (\<lambda>known.
       if \<not> known then
         conclude_invoice workflow_id iid workflow_type
           (dict_set ''outcome'' (VStr ''invalid_controller_decision'') outcome) ''workflow.failed''
           (Inr [(''outcome'', VStr ''invalid_controller_decision''),
                 (''reason'', says (cx_float cx) ''Unsupported controller decision {!r}''
                    [controller_decision]),
                 (''workflow_type'', workflow_type)])
       else if controller_decision = VStr ''approve'' then
         conclude_invoice workflow_id iid workflow_type outcome ''workflow.completed''
           (Inr [(''workflow_type'', workflow_type)])
       else
         conclude_invoice workflow_id iid workflow_type outcome ''workflow.rejected''
           (rejection_payload controller_signoff ''controller_signoff''
              ''Controller rejected invoice'' workflow_type))))"

definition invoice_controller ::
  "ctx \<Rightarrow> pyval \<Rightarrow> pyval \<Rightarrow> pydict \<Rightarrow> pydict \<Rightarrow> pyval \<Rightarrow> pyval \<Rightarrow> orch" where
  "invoice_controller cx workflow_id workflow_type enriched invoice_context
      invoice_lookup_result three_way_match_result =
     (let iid = VStr (cx_instance cx) in
     checkpoint workflow_id iid ''suspended''
       [(''reason'', VStr ''awaiting_controller''), (''phase'', VStr ''controller_signoff''),
        (''wait_kind'', VStr ''operator_review''), (''workflow_type'', workflow_type),
        (''persona'', VStr ''controller''),
        (''external_event'', VStr ''controller_signoff_decision''),
        (''context'', VDict [
          (''invoice'', VDict invoice_context),
          (''invoice_lookup'', dict_get enriched ''invoice_lookup''),
          (''three_way_match'', dict_get enriched ''three_way_match''),
          (''ap_clerk_signoff'', dict_get enriched ''ap_clerk_signoff''),
          (''action'', VStr ''ap_invoice_approval''),
          (''escalation_chain'', VList [VStr ''cfo'']),
          (''workflow_type'', workflow_type)])] (
     race ''controller_signoff_decision'' (hours 72)
       (checkpoint workflow_id iid ''workflow.failed''
          [(''outcome'', VStr ''timeout''), (''phase'', VStr ''controller_signoff''),
           (''reason'', VStr ''Controller decision timed out''), (''workflow_type'', workflow_type)] (
        Ret (timed_out ''controller_signoff'')))
       (\<lambda>decision_event_ctrl.
     let enriched = dict_set ''controller_signoff'' decision_event_ctrl enriched in
     checkpoint workflow_id iid ''resumed''
       [(''phase'', VStr ''controller_signoff''), (''workflow_type'', workflow_type)] (
     invoice_controller_decided cx workflow_id workflow_type enriched invoice_context
       invoice_lookup_result three_way_match_result))))"

text \<open>The clerk's decision.\<close>

definition invoice_clerk_decided ::
  "ctx \<Rightarrow> pyval \<Rightarrow> pyval \<Rightarrow> pydict \<Rightarrow> pydict \<Rightarrow> pyval \<Rightarrow> pyval \<Rightarrow> orch" where
  "invoice_clerk_decided cx workflow_id workflow_type enriched invoice_context
      invoice_lookup_result three_way_match_result =
     (let iid = VStr (cx_instance cx) in
     let ap_clerk_signoff = dict_get enriched ''ap_clerk_signoff'' in
     try_to (get_of (py_or ap_clerk_signoff (VDict [])) ''decision'') (\<lambda>clerk_decision.
     if clerk_decision = VStr ''approve'' then
       conclude_invoice workflow_id iid workflow_type
         [(''status'', VStr ''completed''),
          (''invoice_id'', dict_get invoice_context ''invoice_id''),
          (''invoice_lookup'', invoice_lookup_result),
          (''three_way_match'', three_way_match_result),
          (''ap_clerk_signoff'', ap_clerk_signoff)]
         ''workflow.completed'' (Inr [(''workflow_type'', workflow_type)])
     else if clerk_decision = VStr ''reject'' then
       conclude_invoice workflow_id iid workflow_type
         [(''status'', VStr ''rejected''), (''phase'', VStr ''ap_clerk_signoff''),
          (''invoice_id'', dict_get invoice_context ''invoice_id''),
          (''ap_clerk_signoff'', ap_clerk_signoff)]
         ''workflow.rejected''
         (rejection_payload ap_clerk_signoff ''ap_clerk_signoff''
            ''AP clerk rejected invoice'' workflow_type)
     else if clerk_decision \<noteq> VStr ''escalate'' then
       checkpoint workflow_id iid ''workflow.failed''
         [(''outcome'', VStr ''invalid_ap_clerk_decision''),
          (''reason'', says (cx_float cx) ''Unsupported AP clerk decision {!r}'' [clerk_decision]),
          (''workflow_type'', workflow_type)] (
       Ret [(''status'', VStr ''failed''), (''outcome'', VStr ''invalid_ap_clerk_decision'')])
     else
       invoice_controller cx workflow_id workflow_type enriched invoice_context
         invoice_lookup_result three_way_match_result))"

definition ap_invoice_flow :: "ctx \<Rightarrow> orch" where
  "ap_invoice_flow cx =
     try_to (input_of cx) (\<lambda>input_dict.
     let iid = VStr (cx_instance cx) in
     let workflow_id = dict_get_or input_dict ''workflow_id'' (VStr ''?'') in
     let workflow_type = dict_get_or input_dict ''type'' (VStr ''ap-invoice'') in
     let enriched = dict_set ''instance_id'' iid input_dict in
     let invoice = py_or (dict_get input_dict ''invoice'') (VDict []) in
     checkpoint workflow_id iid ''workflow.started''
       [(''domain'', VStr ''fleet-ap-invoice''), (''workflow_type'', workflow_type),
        (''workflow'', VDict [
          (''current_phase'', VStr ''Invoice Lookup''), (''jurisdiction'', VStr ''London-Zava''),
          (''agency'', VStr ''Zava''),
          (''payload'', VDict [
            (''parent_workflow_id'', dict_get input_dict ''parent_workflow_id''),
            (''invoice'', invoice), (''scenario'', dict_get input_dict ''scenario'')])])] (
     activity ''fleet_ap_invoice_invoice_lookup_activity_trigger''
       (VDict enriched) (\<lambda>invoice_lookup_result.
     let enriched = dict_set ''invoice_lookup'' invoice_lookup_result enriched in
     try_to (unpack invoice) (\<lambda>given.
     try_to (unpack (py_or invoice_lookup_result (VDict []))) (\<lambda>looked_up.
     let invoice_context = dict_merge given looked_up in
     activity ''fleet_ap_invoice_three_way_match_activity_trigger''
       (VDict enriched) (\<lambda>three_way_match_result.
     let enriched = dict_set ''three_way_match'' three_way_match_result enriched in
     checkpoint workflow_id iid ''suspended''
       [(''reason'', VStr ''awaiting_ap_clerk''), (''phase'', VStr ''ap_clerk_signoff''),
        (''wait_kind'', VStr ''operator_review''), (''workflow_type'', workflow_type),
        (''persona'', VStr ''ap_clerk''),
        (''external_event'', VStr ''ap_invoice_processing_decision''),
        (''context'', VDict [
          (''invoice'', VDict invoice_context),
          (''invoice_lookup'', dict_get enriched ''invoice_lookup''),
          (''three_way_match'', dict_get enriched ''three_way_match''),
          (''action'', VStr ''ap_invoice_approval''),
          (''escalation_chain'', VList [VStr ''controller'', VStr ''cfo'']),
          (''workflow_type'', workflow_type)])] (
     race ''ap_invoice_processing_decision'' (hours 24)
       (checkpoint workflow_id iid ''workflow.failed''
          [(''outcome'', VStr ''timeout''), (''phase'', VStr ''ap_clerk_signoff''),
           (''reason'', VStr ''AP clerk decision timed out''), (''workflow_type'', workflow_type)] (
        Ret (timed_out ''ap_clerk_signoff'')))
       (\<lambda>decision_event_clerk.
     let enriched = dict_set ''ap_clerk_signoff'' decision_event_clerk enriched in
     checkpoint workflow_id iid ''resumed''
       [(''phase'', VStr ''ap_clerk_signoff''), (''workflow_type'', workflow_type)] (
     invoice_clerk_decided cx workflow_id workflow_type enriched invoice_context
       invoice_lookup_result three_way_match_result)))))))))"

subsection \<open>Its life and its approvals\<close>

lemma lives_conclude_invoice:
  "kind \<in> set terminal_kinds \<Longrightarrow> lives Running (conclude_invoice wid iid wt outcome kind payload)"
  by (auto simp: conclude_invoice_def lives_simps)

lemmas invoice_defs = ap_invoice_flow_def invoice_clerk_decided_def invoice_controller_def
  invoice_controller_decided_def

lemma ap_invoice_flow_lives: "lives Fresh (ap_invoice_flow cx)"
  by (simp add: invoice_defs Let_def lives_simps lives_conclude_invoice)

definition invoice_approved :: "(string \<Rightarrow> pyval option option) \<Rightarrow> bool" where
  "invoice_approved w \<longleftrightarrow>
     decides (w ''ap_invoice_processing_decision'') ''approve'' \<or>
     decides (w ''ap_invoice_processing_decision'') ''escalate'' \<and>
     decides (w ''controller_signoff_decision'') ''approve''"

text \<open>What an ended invoice says of its answers.\<close>

definition invoice_accounted :: "notebook \<Rightarrow> pydict result \<Rightarrow> bool" where
  "invoice_accounted q out \<longleftrightarrow>
     (case out of
        Inl _ \<Rightarrow> True
      | Inr d \<Rightarrow> (dict_get d ''status'' = VStr ''completed'' \<longleftrightarrow> invoice_approved (fst q)) \<and>
          (decides (fst q ''ap_invoice_processing_decision'') ''reject'' \<longrightarrow>
             dict_get d ''status'' = VStr ''rejected'' \<and> fst q ''controller_signoff_decision'' = None))"

lemma tells_conclude_invoice:
  "tells invoice_accounted (w, c) (conclude_invoice wid iid wt outcome kind payload) \<longleftrightarrow>
     (case payload of Inl _ \<Rightarrow> True
      | Inr _ \<Rightarrow> invoice_accounted (w, c) (Inr outcome))"
  by (auto simp: conclude_invoice_def tells_simps invoice_accounted_def split: sum.splits)

lemma ap_invoice_tells: "tells invoice_accounted (\<lambda>_. None, {}) (ap_invoice_flow cx)"
  apply (simp add: invoice_defs Let_def tells_simps tells_conclude_invoice)
  apply (auto simp: invoice_accounted_def invoice_approved_def decides_def timed_out_def in_strs_def split: sum.splits pyval.splits)
  done

section \<open>Expense claim\<close>

definition decision_rejected :: "string list" where
  "decision_rejected = [''reject'', ''rejected'', ''deny'', ''denied'']"

text \<open>Phase 7, for every claim that was not rejected.\<close>

definition expense_audit ::
  "ctx \<Rightarrow> pyval \<Rightarrow> pydict \<Rightarrow> pyval \<Rightarrow> pyval \<Rightarrow> pyval \<Rightarrow> pyval \<Rightarrow> pyval \<Rightarrow> orch" where
  "expense_audit cx workflow_id enriched verdict intake_result classify_result receipt_result route_result =
     activity ''audit_activity_trigger'' (VDict enriched) (\<lambda>audit_result.
     checkpoint workflow_id (VStr (cx_instance cx)) ''workflow.completed'' [] (
     Ret [(''status'', VStr ''completed''), (''verdict'', verdict), (''intake'', intake_result),
          (''classify'', classify_result), (''receipt'', receipt_result), (''route'', route_result),
          (''audit'', audit_result)]))"

text \<open>Phase 6: the reviewer, after the claimant's justification.\<close>

definition expense_arbitrate ::
  "ctx \<Rightarrow> pyval \<Rightarrow> pyval \<Rightarrow> pydict \<Rightarrow> (pydict \<Rightarrow> orch) \<Rightarrow> orch" where
  "expense_arbitrate cx workflow_id workflow_type enriched audit =
     (let iid = VStr (cx_instance cx) in
     activity ''arbitrate_activity_trigger'' (VDict enriched) (\<lambda>arbitrate_result.
     let enriched = dict_set ''arbitrate'' arbitrate_result enriched in
     checkpoint workflow_id iid ''suspended''
       [(''reason'', VStr ''awaiting_reviewer''), (''wait_kind'', VStr ''operator_review''),
        (''phase'', VStr ''Arbitrate''), (''workflow_type'', workflow_type),
        (''persona'', VStr ''ssc_reviewer''), (''external_event'', VStr ''reviewer_decision''),
        (''context'', VDict [
          (''claim'', dict_get enriched ''claim''), (''classify'', dict_get enriched ''classify''),
          (''justification'', dict_get enriched ''justification''),
          (''arbitrate'', dict_get enriched ''arbitrate'')])] (
     race ''reviewer_decision'' (hours 72)
       (checkpoint workflow_id iid ''workflow.completed'' [(''status'', VStr ''timeout'')] (
        Ret (timed_out ''Arbitrate'')))
       (\<lambda>decision.
     try_to (word_of decision ''decision'') (\<lambda>decision_type.
     if decision_type \<in> set decision_rejected then
       checkpoint workflow_id iid ''workflow.rejected''
         [(''by'', get_if_dict decision ''resolved_by''), (''reason'', VStr ''reviewer rejected'')] (
       Ret [(''status'', VStr ''rejected''), (''phase'', VStr ''Arbitrate''), (''decision'', decision)])
     else
       let enriched = dict_set ''reviewer_decision'' decision enriched in
       checkpoint workflow_id iid ''resumed'' [(''decision'', decision)] (
       audit enriched))))))"

text \<open>Phase 5, for a red verdict only.\<close>

definition expense_notify ::
  "ctx \<Rightarrow> pyval \<Rightarrow> pyval \<Rightarrow> pydict \<Rightarrow> (pydict \<Rightarrow> orch) \<Rightarrow> orch" where
  "expense_notify cx workflow_id workflow_type enriched audit =
     (let iid = VStr (cx_instance cx) in
     activity ''notify_activity_trigger'' (VDict enriched) (\<lambda>notify_result.
     let enriched = dict_set ''notify'' notify_result enriched in
     checkpoint workflow_id iid ''suspended''
       [(''reason'', VStr ''awaiting_justification''), (''wait_kind'', VStr ''external_party''),
        (''phase'', VStr ''Notify''), (''workflow_type'', workflow_type),
        (''persona'', VStr ''claim_submitter''), (''external_event'', VStr ''justification''),
        (''context'', VDict [
          (''claim'', dict_get enriched ''claim''), (''classify'', dict_get enriched ''classify''),
          (''receipt'', dict_get enriched ''receipt''), (''route'', dict_get enriched ''route'')])] (
     race ''justification'' (hours 72)
       (checkpoint workflow_id iid ''workflow.completed'' [(''status'', VStr ''timeout'')] (
        Ret (timed_out ''Notify'')))
       (\<lambda>justification.
     let enriched = dict_set ''justification'' justification enriched in
     checkpoint workflow_id iid ''resumed'' [(''justification'', justification)] (
     expense_arbitrate cx workflow_id workflow_type enriched audit)))))"

definition expense_flow :: "ctx \<Rightarrow> orch" where
  "expense_flow cx =
     try_to (input_of cx) (\<lambda>input_dict.
     let iid = VStr (cx_instance cx) in
     let workflow_id = dict_get_or input_dict ''workflow_id'' (VStr ''?'') in
     let workflow_type = dict_get_or input_dict ''type'' (VStr ''expense-claim'') in
     let enriched = dict_set ''instance_id'' iid input_dict in
     checkpoint workflow_id iid ''workflow.started'' [(''workflow_type'', workflow_type)] (
     activity ''intake_activity_trigger'' (VDict enriched) (\<lambda>intake_result.
     let enriched = dict_set ''intake'' intake_result enriched in
     activity ''classify_activity_trigger'' (VDict enriched) (\<lambda>classify_result.
     let enriched = dict_set ''classify'' classify_result enriched in
     activity ''receipt_activity_trigger'' (VDict enriched) (\<lambda>receipt_result.
     let enriched = dict_set ''receipt'' receipt_result enriched in
     activity ''route_activity_trigger'' (VDict enriched) (\<lambda>route_result.
     let enriched = dict_set ''route'' route_result enriched in
     try_to (dict_of_val (py_or classify_result (VDict []))) (\<lambda>classified.
     let verdict = dict_get_or classified ''verdict'' (VStr ''amber'') in
     let audit = (\<lambda>enriched. expense_audit cx workflow_id enriched verdict intake_result
                    classify_result receipt_result route_result) in
     if verdict = VStr ''red'' then expense_notify cx workflow_id workflow_type enriched audit
     else audit enriched)))))))"

lemmas expense_defs = expense_flow_def expense_notify_def expense_arbitrate_def expense_audit_def

lemma expense_flow_lives: "lives Fresh (expense_flow cx)"
  by (simp add: expense_defs Let_def lives_simps)

subsection \<open>What becomes of a claim\<close>

definition reviewer_says :: "(string \<Rightarrow> pyval option option) \<Rightarrow> string \<Rightarrow> bool" where
  "reviewer_says w s \<longleftrightarrow> (\<exists>v. w ''reviewer_decision'' = Some (Some v) \<and> word_of v ''decision'' = Inr s)"

definition claim_accounted :: "notebook \<Rightarrow> pydict result \<Rightarrow> bool" where
  "claim_accounted q out \<longleftrightarrow>
     (case out of
        Inl _ \<Rightarrow> True
      | Inr d \<Rightarrow>
          (dict_get d ''status'' = VStr ''rejected'' \<longleftrightarrow>
             (\<exists>s \<in> set decision_rejected. reviewer_says (fst q) s)) \<and>
          (dict_get d ''status'' = VStr ''completed'' \<longleftrightarrow>
             ''notify_activity_trigger'' \<notin> snd q \<or> (\<exists>s. s \<notin> set decision_rejected \<and> reviewer_says (fst q) s)) \<and>
          (dict_get d ''verdict'' = VStr ''red'' \<longrightarrow> ''notify_activity_trigger'' \<in> snd q))"

lemma expense_tells: "tells claim_accounted (\<lambda>_. None, {}) (expense_flow cx)"
  by (simp add: expense_defs Let_def tells_simps claim_accounted_def reviewer_says_def timed_out_def)

end
