(* ===== verification/Hiring.thy ===== *)
theory Hiring imports Claim_Workflows begin

text \<open>
  The hiring workflow (\<^verbatim>\<open>api/functions/workflows/hiring.py\<close>): ten phases, six gates, four agent
  segments.  The generator is cut where a phase begins.  What later parts read is passed on in a
  record of its local variables; a result that the generator keeps both in a variable and in
  \<^verbatim>\<open>enriched\<close> is read from \<^verbatim>\<open>enriched\<close>.
\<close>

section \<open>Segments\<close>

definition segment_failure ::
  "pyval \<Rightarrow> pyval \<Rightarrow> string \<Rightarrow> string \<Rightarrow> pyval \<Rightarrow> int \<Rightarrow> int \<Rightarrow> pydict \<Rightarrow> bool \<Rightarrow> string \<Rightarrow> string \<Rightarrow>
   pyval list option \<Rightarrow> pydict" where
  "segment_failure workflow_id iid segment phase covered attempt max_attempts validator retrying kind
      error irreversible_tools =
     checkpoint_entry workflow_id iid kind
       ([(''segment'', VStr segment), (''phase'', VStr phase), (''covered_phases'', covered),
         (''attempt'', VInt attempt), (''max_attempts'', VInt max_attempts),
         (''retrying'', VBool retrying), (''error'', VStr error),
         (''errors'', dict_get validator ''errors''), (''validation'', VDict validator)] @
        (case irreversible_tools of None \<Rightarrow> [] | Some ts \<Rightarrow> [(''irreversible_tools'', VList ts)]))"

text \<open>What the four retry loops differ in; only segment F looks for irreversible tool calls.\<close>

record hiring_segment =
  hs_label :: string
  hs_letter :: string
  hs_activity :: string
  hs_validate :: string
  hs_phase :: string
  hs_covered :: "string list"
  hs_guarded :: bool

definition segment_b :: hiring_segment where
  "segment_b = \<lparr>hs_label = ''b'', hs_letter = ''B'', hs_activity = ''hiring_segment_b_activity_trigger'',
     hs_validate = ''validate_segment_b_output_activity_trigger'', hs_phase = ''Screening'',
     hs_covered = [''Job Design'', ''Sourcing'', ''Triage'', ''Screening''], hs_guarded = False\<rparr>"

definition segment_d :: hiring_segment where
  "segment_d = \<lparr>hs_label = ''d'', hs_letter = ''D'', hs_activity = ''hiring_segment_d_activity_trigger'',
     hs_validate = ''validate_segment_d_output_activity_trigger'', hs_phase = ''Interview'',
     hs_covered = [''Interview''], hs_guarded = False\<rparr>"

definition segment_e :: hiring_segment where
  "segment_e = \<lparr>hs_label = ''e'', hs_letter = ''E'', hs_activity = ''hiring_segment_e_activity_trigger'',
     hs_validate = ''validate_segment_e_output_activity_trigger'', hs_phase = ''Offer'',
     hs_covered = [''Compliance'', ''Offer''], hs_guarded = False\<rparr>"

definition segment_f :: hiring_segment where
  "segment_f = \<lparr>hs_label = ''f'', hs_letter = ''F'', hs_activity = ''hiring_segment_f_activity_trigger'',
     hs_validate = ''validate_segment_f_output_activity_trigger'', hs_phase = ''Onboarding'',
     hs_covered = [''Onboarding''], hs_guarded = True\<rparr>"

text \<open>
  \<^verbatim>\<open>[tc for tc in ((result or {}).get("_tool_call_summary") or []) if not tc.get("reversible")]\<close>.
  Iterating a string or a dictionary yields strings, which have no \<^verbatim>\<open>get\<close>.
\<close>

definition tool_calls :: "pyval \<Rightarrow> pydict list result" where
  "tool_calls v =
     (case v of
        VList xs \<Rightarrow> all_ok (map dict_of_val xs)
      | VStr s \<Rightarrow> if s = [] then Inr [] else Inl (Raised ''AttributeError'' [v, VStr ''get''])
      | VDict d \<Rightarrow> if d = [] then Inr [] else Inl (Raised ''AttributeError'' [v, VStr ''get''])
      | _ \<Rightarrow> Inl (TypeError (Msg ''object is not iterable'' [v])))"

definition irreversible_calls :: "pyval \<Rightarrow> pydict list result" where
  "irreversible_calls result =
     bind_result (get_of (py_or result (VDict [])) ''_tool_call_summary'') (\<lambda>summary.
     bind_result (tool_calls (py_or summary (VList []))) (\<lambda>tcs.
     Inr (filter (\<lambda>tc. \<not> truthy (dict_get tc ''reversible'')) tcs)))"

text \<open>One of the retry loops; \<open>attempt\<close> counts from 0.\<close>

primrec hiring_attempts ::
  "ctx \<Rightarrow> hiring_segment \<Rightarrow> pyval \<Rightarrow> int \<Rightarrow> (pyval \<Rightarrow> orch) \<Rightarrow> nat \<Rightarrow> int \<Rightarrow> pydict \<Rightarrow> orch" where
  "hiring_attempts cx s workflow_id retries k 0 attempt input =
     Fail (Raised ''RuntimeError''
       [says (cx_float cx) ''Segment {} validation failed after {} attempts''
          [VStr (hs_letter s), VInt (retries + 1)]])"
| "hiring_attempts cx s workflow_id retries k (Suc n) attempt input =
     activity (hs_activity s) (VDict input) (\<lambda>segment_result.
     activity (hs_validate s) segment_result (\<lambda>answer.
     try_to (dict_of_val answer) (\<lambda>validator.
     if truthy (dict_get validator ''ok'') then try_to (subscript (VDict validator) ''output'') k
     else
       try_to (if hs_guarded s then irreversible_calls segment_result else Inr []) (\<lambda>irreversibles.
       if irreversibles \<noteq> [] then
         try_to (all_ok (map (\<lambda>tc. subscript (VDict tc) ''name'') irreversibles)) (\<lambda>tools.
         activity ''checkpoint_activity_trigger''
           (VDict (segment_failure workflow_id (VStr (cx_instance cx)) (hs_label s) (hs_phase s)
              (dict_get input ''covered_phases'') (attempt + 1) (retries + 1) validator False
              ''segment.failed.irreversible''
              ''segment validation failed after irreversible tool calls'' (Some tools))) (\<lambda>_.
         Fail (Raised ''RuntimeError''
           [VStr ''Segment F validation failed after irreversible tool calls; HITL required''])))
       else
         activity ''checkpoint_activity_trigger''
           (VDict (segment_failure workflow_id (VStr (cx_instance cx)) (hs_label s) (hs_phase s)
              (dict_get input ''covered_phases'') (attempt + 1) (retries + 1) validator
              (attempt < retries) ''segment.failed'' ''segment validation failed'' None)) (\<lambda>_.
         hiring_attempts cx s workflow_id retries k n (attempt + 1)
           (dict_set ''prior_validator_error''
             (VStr (val_repr (cx_float cx) (dict_get validator ''errors''))) input))))))"

definition hiring_loop ::
  "ctx \<Rightarrow> hiring_segment \<Rightarrow> pyval \<Rightarrow> int \<Rightarrow> pydict \<Rightarrow> (pyval \<Rightarrow> orch) \<Rightarrow> orch" where
  "hiring_loop cx s workflow_id retries input k =
     hiring_attempts cx s workflow_id retries k (nat (retries + 1)) 0
       (dict_set ''covered_phases'' (VList (map VStr (hs_covered s))) input)"

section \<open>Phases\<close>

record hiring =
  h_workflow_id :: pyval
  h_workflow_type :: pyval
  h_retries :: int
  h_input :: pydict
  h_candidate_id :: pyval
  h_screening_verdict :: pyval
  h_voice_payload :: pyval
  h_booked_payload :: pyval

text \<open>The checkpoints of the generator, under its workflow id and instance id.\<close>

definition hiring_note :: "ctx \<Rightarrow> hiring \<Rightarrow> string \<Rightarrow> pydict \<Rightarrow> orch \<Rightarrow> orch" where
  "hiring_note cx h kind payload = checkpoint (h_workflow_id h) (VStr (cx_instance cx)) kind payload"

definition hiring_suspend ::
  "ctx \<Rightarrow> hiring \<Rightarrow> string \<Rightarrow> string \<Rightarrow> string \<Rightarrow> string \<Rightarrow> string \<Rightarrow> pydict \<Rightarrow> orch \<Rightarrow> orch" where
  "hiring_suspend cx h reason phase wait_kind persona external_event context =
     hiring_note cx h ''suspended''
       [(''reason'', VStr reason), (''phase'', VStr phase), (''wait_kind'', VStr wait_kind),
        (''workflow_type'', h_workflow_type h), (''persona'', VStr persona),
        (''external_event'', VStr external_event), (''context'', VDict context)]"

text \<open>A timer that won: \<^verbatim>\<open>workflow.completed\<close> with the status \<^verbatim>\<open>timeout\<close>.\<close>

definition hiring_late :: "ctx \<Rightarrow> hiring \<Rightarrow> string \<Rightarrow> pydict \<Rightarrow> orch" where
  "hiring_late cx h phase extra =
     hiring_note cx h ''workflow.completed''
       ([(''status'', VStr ''timeout''), (''phase'', VStr phase)] @ extra) (
     Ret (timed_out phase))"

text \<open>The fields of the rejection and booking mails, in the order they are read.\<close>

definition candidate_fields :: "pydict \<Rightarrow> pydict result" where
  "candidate_fields enriched =
     (let cand = py_or (dict_get enriched ''candidate'') (VDict []) in
      bind_result (get_of (py_or (dict_get enriched ''metadata'') (VDict [])) ''role_title'') (\<lambda>title.
      bind_result (get_of cand ''name'') (\<lambda>name.
      bind_result (get_of cand ''email'') (\<lambda>email.
      Inr [(''role_title'', title), (''name'', name), (''email'', email)]))))"

text \<open>Phase 10: onboarding, then the result of the hire.\<close>

definition hiring_onboard :: "ctx \<Rightarrow> hiring \<Rightarrow> pydict \<Rightarrow> orch" where
  "hiring_onboard cx h enriched =
     hiring_loop cx segment_f (h_workflow_id h) (h_retries h) enriched (\<lambda>segment_result_f.
     try_to (dict_of_val (py_or segment_result_f (VDict []))) (\<lambda>out.
     let onboarding_result =
       [(''onboarding_kickoff_id'', dict_get out ''onboarding_kickoff_id''),
        (''avatar_video_url'', dict_get out ''avatar_video_url''),
        (''day1_calendar_id'', dict_get out ''day1_calendar_id''),
        (''provisioning_steps'', dict_get_or out ''provisioning_steps'' (VList []))] in
     let enriched = dict_set ''onboarding'' (VDict onboarding_result) enriched in
     hiring_note cx h ''workflow.completed'' [] (
     Ret ([(''status'', VStr ''completed''), (''screening_verdict'', h_screening_verdict h)] @
          map (\<lambda>key. (key, dict_get enriched key))
            [''budget'', ''job_design'', ''sourcing'', ''triage'', ''screening'', ''voice'',
             ''interview'', ''compliance'', ''offer'', ''onboarding'']))))"

text \<open>Phases 8 and 9: compliance, the offer, and the candidate's answer to it.\<close>

definition hiring_offer :: "ctx \<Rightarrow> hiring \<Rightarrow> pydict \<Rightarrow> orch" where
  "hiring_offer cx h enriched =
     hiring_loop cx segment_e (h_workflow_id h) (h_retries h) enriched (\<lambda>segment_result_e.
     try_to (dict_of_val (py_or segment_result_e (VDict []))) (\<lambda>out.
     let compliance_result =
       [(''jurisdiction'', dict_get out ''jurisdiction''),
        (''steps'', dict_get_or out ''compliance_steps'' (VList [])),
        (''citations'', dict_get_or out ''policy_citations'' (VList []))] in
     let offer_result = [(''offer_letter_id'', dict_get out ''offer_letter_id'')] in
     let enriched = dict_merge enriched
       [(''compliance'', VDict compliance_result), (''offer'', VDict offer_result)] in
     hiring_suspend cx h ''awaiting_offer_approval'' ''Offer'' ''external_party'' ''candidate''
       ''offer_approval''
       [(''offer'', dict_get enriched ''offer''), (''compliance'', dict_get enriched ''compliance''),
        (''interview'', dict_get enriched ''interview'')] (
     race ''offer_approval'' (days 7) (hiring_late cx h ''Offer'' []) (\<lambda>offer_decision.
     try_to (word_of offer_decision ''decision'') (\<lambda>decision_type.
     if decision_type \<in> set decision_rejected then
       hiring_note cx h ''workflow.rejected''
         [(''by'', get_if_dict offer_decision ''resolved_by''),
          (''reason'', VStr ''HR BP rejected offer''), (''phase'', VStr ''Offer'')] (
       Ret [(''status'', VStr ''rejected''), (''phase'', VStr ''Offer''), (''decision'', offer_decision)])
     else
       let enriched = dict_set ''offer_approval'' offer_decision enriched in
       hiring_note cx h ''resumed'' [(''phase'', VStr ''Offer''), (''decision'', offer_decision)] (
       hiring_onboard cx h enriched))))))"

text \<open>Gate 3 of the interview: the recruiter's decision.\<close>

definition hiring_decide :: "ctx \<Rightarrow> hiring \<Rightarrow> pydict \<Rightarrow> orch" where
  "hiring_decide cx h enriched =
     (let slot = get_if_dict (h_booked_payload h) ''slot'' in
     hiring_suspend cx h ''awaiting_interview_complete'' ''Interview'' ''operator_review'' ''recruiter''
       ''offer_decision''
       [(''gate'', VStr ''post_interview''), (''triage'', dict_get enriched ''triage''),
        (''screening'', dict_get enriched ''screening''), (''voice'', dict_get enriched ''voice''),
        (''slot'', slot)] (
     race ''offer_decision'' (days 5)
       (hiring_late cx h ''Interview'' [(''gate'', VStr ''interview_decision'')]) (\<lambda>post_payload.
     try_to (word_of post_payload ''decision'') (\<lambda>post_decision.
     if post_decision \<notin> {''offer'', ''approve''} then
       try_to (candidate_fields enriched) (\<lambda>fields.
       activity ''send_rejection_email_activity_trigger''
         (VDict ([(''candidate_id'', h_candidate_id h), (''gate'', VStr ''offer'')] @ fields)) (\<lambda>_.
       hiring_note cx h ''workflow.rejected''
         [(''by'', get_if_dict post_payload ''resolved_by''),
          (''reason'', VStr ''recruiter declined post-interview''), (''phase'', VStr ''Interview''),
          (''gate'', VStr ''interview_decision''), (''notes'', get_if_dict post_payload ''notes''),
          (''rating'', get_if_dict post_payload ''rating'')] (
       Ret [(''status'', VStr ''rejected''), (''phase'', VStr ''Interview''),
            (''gate'', VStr ''interview_decision'')])))
     else
       let interview_result =
         [(''decision'', VStr ''offer''), (''level'', get_if_dict post_payload ''level''),
          (''rating'', get_if_dict post_payload ''rating''),
          (''notes'', get_if_dict post_payload ''notes''), (''slot'', slot)] in
       let enriched = dict_set ''interview'' (VDict interview_result) enriched in
       hiring_note cx h ''resumed''
         [(''phase'', VStr ''Interview''), (''gate'', VStr ''interview_decision''),
          (''decision'', VStr ''offer''), (''level'', dict_get interview_result ''level'')] (
       hiring_offer cx h enriched)))))"

text \<open>Gate 2: the candidate books a slot.\<close>

definition hiring_book :: "ctx \<Rightarrow> hiring \<Rightarrow> pydict \<Rightarrow> orch" where
  "hiring_book cx h enriched =
     activity ''issue_book_interview_link_activity_trigger''
       (VDict [(''candidate_id'', h_candidate_id h)]) (\<lambda>book_link.
     try_to (get_of book_link ''token'') (\<lambda>token.
     try_to (get_of book_link ''portal_url'') (\<lambda>portal_url.
     try_to (candidate_fields enriched) (\<lambda>fields.
     activity ''send_book_interview_email_activity_trigger''
       (VDict ([(''candidate_id'', h_candidate_id h), (''token'', token), (''portal_url'', portal_url)] @
               fields)) (\<lambda>_.
     hiring_suspend cx h ''awaiting_interview_booking'' ''Interview'' ''external_party'' ''candidate''
       ''interview_booked''
       [(''book_link'', book_link), (''candidate'', py_or (dict_get enriched ''candidate'') (VDict []))] (
     race ''interview_booked'' (days 7)
       (hiring_late cx h ''Interview'' [(''gate'', VStr ''interview_booking'')]) (\<lambda>booked_payload.
     hiring_note cx h ''resumed''
       [(''phase'', VStr ''Interview''), (''gate'', VStr ''interview_booking''),
        (''slot'', get_if_dict booked_payload ''slot'')] (
     hiring_decide cx (h\<lparr>h_booked_payload := booked_payload\<rparr>) enriched))))))))"

text \<open>Gate 1, after the recommendation of segment D: invite or reject.\<close>

definition hiring_invite :: "ctx \<Rightarrow> hiring \<Rightarrow> pydict \<Rightarrow> orch" where
  "hiring_invite cx h enriched =
     (let voice = py_or (h_voice_payload h) (VDict []) in
     try_to (get_of (py_or (dict_get enriched ''triage'') (VDict [])) ''cv_crystalliser'') (\<lambda>cv.
     try_to (get_of voice ''transcript'') (\<lambda>transcript.
     try_to (get_of voice ''score'') (\<lambda>score.
     let rec_input_gate1 = dict_merge enriched
       [(''gate'', VStr ''post_voice''), (''cv_crystalliser'', py_or cv (VDict [])),
        (''screening'', py_or (dict_get enriched ''screening'') (VDict [])),
        (''voice_transcript'', py_or transcript (VList [])), (''voice_score'', score)] in
     hiring_loop cx segment_d (h_workflow_id h) (h_retries h) rec_input_gate1 (\<lambda>segment_result_d.
     try_to (get_of (py_or segment_result_d (VDict [])) ''interview_recommendation'') (\<lambda>rec.
     let enriched = dict_set ''interview_recommendation'' rec enriched in
     hiring_suspend cx h ''awaiting_interview_invite'' ''Interview'' ''operator_review'' ''recruiter''
       ''interview_invite''
       [(''gate'', VStr ''post_voice''), (''triage'', dict_get enriched ''triage''),
        (''screening'', dict_get enriched ''screening''), (''voice'', dict_get enriched ''voice'')] (
     race ''interview_invite'' (days 3)
       (hiring_late cx h ''Interview'' [(''gate'', VStr ''interview_invite'')]) (\<lambda>invite_payload.
     try_to (word_of invite_payload ''decision'') (\<lambda>invite_decision.
     if invite_decision \<notin> {''invite'', ''approve''} then
       try_to (candidate_fields enriched) (\<lambda>fields.
       activity ''send_rejection_email_activity_trigger''
         (VDict ([(''candidate_id'', h_candidate_id h), (''gate'', VStr ''interview'')] @ fields)) (\<lambda>_.
       hiring_note cx h ''workflow.rejected''
         [(''by'', get_if_dict invite_payload ''resolved_by''),
          (''reason'', if is_dict invite_payload then get_if_dict invite_payload ''reason''
                     else VStr ''recruiter rejected at interview-invite''),
          (''phase'', VStr ''Interview''), (''gate'', VStr ''interview_invite'')] (
       Ret [(''status'', VStr ''rejected''), (''phase'', VStr ''Interview''),
            (''gate'', VStr ''interview_invite'')])))
     else
       hiring_note cx h ''resumed''
         [(''phase'', VStr ''Interview''), (''gate'', VStr ''interview_invite''),
          (''decision'', VStr ''invite'')] (
       hiring_book cx h enriched))))))))))"

text \<open>Phase 6: the voice screen, when a candidate is bound.\<close>

definition hiring_voice :: "ctx \<Rightarrow> hiring \<Rightarrow> pydict \<Rightarrow> orch" where
  "hiring_voice cx h enriched =
     try_to (if truthy (dict_get (h_input h) ''candidate_id'') then Inr (dict_get (h_input h) ''candidate_id'')
             else get_of (py_or (dict_get enriched ''metadata'') (VDict [])) ''candidate_id'') (\<lambda>candidate_id.
     let h = h\<lparr>h_candidate_id := candidate_id\<rparr> in
     if truthy candidate_id then
       activity ''issue_screen_link_activity_trigger'' (VDict [(''candidate_id'', candidate_id)]) (\<lambda>link_result.
       try_to (get_of link_result ''token'') (\<lambda>token.
       try_to (get_of link_result ''portal_url'') (\<lambda>portal_url.
       activity ''send_screen_email_activity_trigger''
         (VDict [(''candidate_id'', candidate_id), (''token'', token), (''portal_url'', portal_url)]) (\<lambda>_.
       hiring_suspend cx h ''awaiting_voice_complete'' ''Voice'' ''external_party'' ''candidate''
         ''voice_complete''
         [(''candidate_id'', candidate_id), (''screen_link'', link_result)] (
       race ''voice_complete'' (hours 24) (hiring_late cx h ''Voice'' []) (\<lambda>voice_payload.
       activity ''hiring_voice_activity_trigger''
         (VDict (dict_merge enriched [(''voice_event'', voice_payload), (''screen_link'', link_result)])) (\<lambda>voice.
       try_to (if get_if_dict voice_payload ''score'' \<noteq> VNone then
                 bind_result (unpack (py_or voice (VDict []))) (\<lambda>v. Inr (VDict (dict_merge v
                   [(''score'', get_if_dict voice_payload ''score''),
                    (''duration_s'', get_if_dict voice_payload ''duration_s'')])))
               else Inr voice) (\<lambda>voice_result.
       hiring_note cx h ''resumed''
         [(''phase'', VStr ''Voice''), (''score'', get_if_dict voice_payload ''score'')] (
       hiring_invite cx (h\<lparr>h_voice_payload := voice_payload\<rparr>)
         (dict_set ''voice'' voice_result enriched))))))))))
     else
       activity ''hiring_voice_activity_trigger'' (VDict enriched) (\<lambda>voice_result.
       hiring_invite cx (h\<lparr>h_voice_payload := VDict []\<rparr>) (dict_set ''voice'' voice_result enriched)))"

text \<open>Phases 2 to 5: segment B, and the screening verdict that may drop the candidate.\<close>

definition hiring_screen :: "ctx \<Rightarrow> hiring \<Rightarrow> pydict \<Rightarrow> orch" where
  "hiring_screen cx h enriched =
     hiring_loop cx segment_b (h_workflow_id h) (h_retries h) enriched (\<lambda>segment_result.
     try_to (subscript segment_result ''verdict'') (\<lambda>verdict.
     try_to (unpack segment_result) (\<lambda>out.
     let screening_result = dict_merge [(''verdict'', verdict)] out in
     let enriched = dict_merge enriched
       [(''job_design'', VDict [(''jd_draft_id'', dict_get out ''jd_draft_id'')]),
        (''sourcing'', VDict [(''sourcing_pool_id'', dict_get out ''sourcing_pool_id'')]),
        (''triage'', VDict [(''candidates'', dict_get_or out ''candidates'' (VList []))]),
        (''screening'', VDict screening_result)] in
     let screening_verdict = dict_get_or screening_result ''verdict'' (VStr ''borderline'') in
     try_to (in_strs screening_verdict [''low'', ''auto-drop'']) (\<lambda>dropped.
     if dropped then
       hiring_note cx h ''workflow.completed''
         [(''status'', VStr ''auto_dropped''), (''phase'', VStr ''Screening'')] (
       Ret [(''status'', VStr ''auto_dropped''), (''phase'', VStr ''Screening''),
            (''screening'', VDict screening_result)])
     else hiring_voice cx (h\<lparr>h_screening_verdict := screening_verdict\<rparr>) enriched))))"

text \<open>Phase 1: the budget and its approval.\<close>

definition hiring_flow :: "ctx \<Rightarrow> orch" where
  "hiring_flow cx =
     try_to (cx_retries cx) (\<lambda>segment_max_retries.
     try_to (input_of cx) (\<lambda>input_dict.
     let iid = VStr (cx_instance cx) in
     let workflow_id = dict_get_or input_dict ''workflow_id'' (VStr ''?'') in
     let workflow_type = dict_get_or input_dict ''type'' (VStr ''hiring'') in
     let h = \<lparr>h_workflow_id = workflow_id, h_workflow_type = workflow_type,
              h_retries = segment_max_retries, h_input = input_dict, h_candidate_id = VNone,
              h_screening_verdict = VNone, h_voice_payload = VDict [], h_booked_payload = VDict []\<rparr> in
     let enriched = dict_merge input_dict [(''workflow_id'', workflow_id), (''instance_id'', iid)] in
     hiring_note cx h ''workflow.started''
       [(''poc'', VStr ''poc2-hiring''), (''workflow_type'', workflow_type)] (
     activity ''hiring_budget_activity_trigger'' (VDict enriched) (\<lambda>budget_result.
     let enriched = dict_set ''budget'' budget_result enriched in
     hiring_suspend cx h ''awaiting_budget_approval'' ''Budget'' ''external_party'' ''finance_bp''
       ''budget_approval''
       [(''budget'', dict_get enriched ''budget''), (''metadata'', dict_get enriched ''metadata'')] (
     race ''budget_approval'' (days 7) (hiring_late cx h ''Budget'' []) (\<lambda>budget_decision.
     let budget_verdict =
       (if is_dict budget_decision then
          lower (strip (py_str (cx_float cx)
            (py_or (get_if_dict budget_decision ''decision'') (VStr []))))
        else []) in
     if budget_verdict \<in> set decision_rejected then
       hiring_note cx h ''workflow.rejected''
         [(''phase'', VStr ''Budget''), (''workflow_type'', workflow_type),
          (''by'', get_if_dict budget_decision ''resolved_by''),
          (''reason'', py_or (get_if_dict budget_decision ''reason'') (VStr ''budget rejected''))] (
       Ret [(''status'', VStr ''rejected''), (''phase'', VStr ''Budget''), (''decision'', budget_decision)])
     else
       let enriched = dict_set ''budget_approval'' budget_decision enriched in
       hiring_note cx h ''resumed'' [(''phase'', VStr ''Budget''), (''decision'', budget_decision)] (
       hiring_screen cx h enriched)))))))"

section \<open>Its life\<close>

lemma lives_hiring_note:
  "lives q (hiring_note cx h kind p k) \<longleftrightarrow>
     (case life_checkpoint q kind p of None \<Rightarrow> False | Some q' \<Rightarrow> lives q' k)"
  by (simp add: hiring_note_def lives_checkpoint)

lemma lives_hiring_suspend:
  "lives q (hiring_suspend cx h r p wk pe event c k) \<longleftrightarrow> q = Running \<and> lives (Parked event) k"
  by (cases q) (auto simp: hiring_suspend_def lives_hiring_note terminal_kinds_def)

lemma lives_hiring_late: "lives Expired (hiring_late cx h phase extra)"
  by (simp add: hiring_late_def lives_hiring_note lives_simps)

lemma lives_note_activity:
  "lives q (activity ''checkpoint_activity_trigger'' (VDict (checkpoint_entry wid iid kind p)) (\<lambda>_. k)) \<longleftrightarrow>
     (case life_checkpoint q kind p of None \<Rightarrow> False | Some q' \<Rightarrow> lives q' k)"
  using lives_checkpoint[of q wid iid kind p k] by (simp add: checkpoint_def)

lemma lives_hiring_attempts:
  assumes "hs_activity s \<noteq> ''checkpoint_activity_trigger''"
    "hs_validate s \<noteq> ''checkpoint_activity_trigger''" "\<And>v. lives Running (k v)"
  shows "lives Running (hiring_attempts cx s wid retries k n i input)"
  using assms
  by (induction n arbitrary: i input)
    (auto simp: lives_simps segment_failure_def lives_note_activity)

lemmas hiring_segments = segment_b_def segment_d_def segment_e_def segment_f_def

lemma lives_hiring_loop:
  assumes "s \<in> {segment_b, segment_d, segment_e, segment_f}" "\<And>v. lives Running (k v)"
  shows "lives Running (hiring_loop cx s wid retries input k)"
  unfolding hiring_loop_def
  by (rule lives_hiring_attempts) (use assms in \<open>auto simp: hiring_segments\<close>)

lemmas lives_hiring = lives_simps lives_hiring_note lives_hiring_suspend lives_hiring_late lives_hiring_loop

lemma hiring_onboard_lives: "lives Running (hiring_onboard cx h e)"
  by (simp add: hiring_onboard_def Let_def lives_hiring)

lemma hiring_offer_lives: "lives Running (hiring_offer cx h e)"
  by (simp add: hiring_offer_def Let_def lives_hiring hiring_onboard_lives)

lemma hiring_decide_lives: "lives Running (hiring_decide cx h e)"
  by (simp add: hiring_decide_def Let_def lives_hiring hiring_offer_lives)

lemma hiring_book_lives: "lives Running (hiring_book cx h e)"
  by (simp add: hiring_book_def Let_def lives_hiring hiring_decide_lives)

lemma hiring_invite_lives: "lives Running (hiring_invite cx h e)"
  by (simp add: hiring_invite_def Let_def lives_hiring hiring_book_lives)

lemma hiring_voice_lives: "lives Running (hiring_voice cx h e)"
  by (simp add: hiring_voice_def Let_def lives_hiring hiring_invite_lives)

lemma hiring_screen_lives: "lives Running (hiring_screen cx h e)"
  by (simp add: hiring_screen_def Let_def lives_hiring hiring_voice_lives)

lemma hiring_flow_lives: "lives Fresh (hiring_flow cx)"
  by (simp add: hiring_flow_def Let_def lives_hiring hiring_screen_lives)

section \<open>No second onboarding after an irreversible tool call\<close>

text \<open>The validator refused an output of segment F that reports irreversible tool calls.\<close>

definition refused_irreversible :: "pyval \<Rightarrow> pyval result \<Rightarrow> bool" where
  "refused_irreversible v r =
     (case r of
        Inr (VDict d) \<Rightarrow> \<not> truthy (dict_get d ''ok'') \<and>
          (case irreversible_calls v of Inr (_ # _) \<Rightarrow> True | _ \<Rightarrow> False)
      | _ \<Rightarrow> False)"

text \<open>Segment F runs at most \<open>R + 1\<close> times, and not at all after such a refusal.\<close>

fun onboarding_step :: "int \<Rightarrow> nat \<times> bool \<Rightarrow> entry \<Rightarrow> (nat \<times> bool) option" where
  "onboarding_step R (n, b) (Called a v r) =
     (if a = ''hiring_segment_f_activity_trigger'' then
        (if b \<or> R < int n then None else Some (Suc n, b))
      else if a = ''validate_segment_f_output_activity_trigger'' then
        Some (n, b \<or> refused_irreversible v r)
      else Some (n, b))"
| "onboarding_step R q e = Some q"

definition careful :: "int \<Rightarrow> nat \<times> bool \<Rightarrow> orch \<Rightarrow> bool" where
  "careful R q w = obeys (onboarding_step R) (\<lambda>_ _. True) q w"

lemma careful_simps:
  "careful R q (Ret d)" "careful R q (Fail e)"
  "careful R q (try_to r l) \<longleftrightarrow> (\<forall>x. r = Inr x \<longrightarrow> careful R q (l x))"
  "careful R q (race ev i late k) \<longleftrightarrow> careful R q late \<and> (\<forall>u. careful R q (k u))"
  by (cases q; auto simp: careful_def obeys_race obeys_try_to)+

lemma careful_activity:
  "a \<noteq> ''hiring_segment_f_activity_trigger'' \<Longrightarrow> a \<noteq> ''validate_segment_f_output_activity_trigger'' \<Longrightarrow>
   careful R q (activity a v k) \<longleftrightarrow> (\<forall>u. careful R q (k u))"
  by (cases q) (auto simp: careful_def obeys_activity)

lemma careful_segment_f:
  "careful R (n, b) (activity ''hiring_segment_f_activity_trigger'' v k) \<longleftrightarrow>
     \<not> b \<and> int n \<le> R \<and> (\<forall>u. careful R (Suc n, b) (k u))"
  by (auto simp: careful_def obeys_activity)

lemma careful_validate_f:
  "careful R (n, b) (activity ''validate_segment_f_output_activity_trigger'' v k) \<longleftrightarrow>
     (\<forall>u. careful R (n, b \<or> refused_irreversible v (Inr u)) (k u))"
  by (auto simp: careful_def obeys_activity)

lemma careful_note:
  "careful R q (hiring_note cx h kind p k) \<longleftrightarrow> careful R q k"
  "careful R q (hiring_suspend cx h rs ph wk pe ev c k) \<longleftrightarrow> careful R q k"
  "careful R q (hiring_late cx h ph extra)"
  by (simp_all add: hiring_suspend_def hiring_late_def hiring_note_def checkpoint_def careful_activity
    careful_simps)

lemma careful_other_attempts:
  assumes "s \<in> {segment_b, segment_d, segment_e}" "\<And>v. careful R q (k v)"
  shows "careful R q (hiring_attempts cx s wid R k m i input)"
  using assms
  by (induction m arbitrary: i input)
    (auto simp: careful_activity careful_simps hiring_segments)

lemma careful_f_attempts:
  assumes "\<And>n b v. careful R (n, b) (k v)" "m = 0 \<or> int n + int m \<le> R + 1"
  shows "careful R (n, False) (hiring_attempts cx segment_f wid R k m i input)"
  using assms(2)
proof (induction m arbitrary: n i input)
  case (Suc m)
  have "careful R (Suc n, False) (hiring_attempts cx segment_f wid R k m i input)" for i input
    using Suc.IH[of "Suc n"] Suc.prems by simp
  then show ?case
    using Suc.prems assms(1)
    by (auto simp: segment_f_def careful_simps careful_segment_f careful_validate_f careful_activity
        refused_irreversible_def dict_of_val_def split: pyval.splits list.splits)
qed (simp add: careful_simps)

lemma careful_loops:
  "s \<in> {segment_b, segment_d, segment_e} \<Longrightarrow> (\<And>v. careful R q (k v)) \<Longrightarrow>
   careful R q (hiring_loop cx s wid R input k)"
  "(\<And>n b v. careful R (n, b) (k v)) \<Longrightarrow> careful R (0, False) (hiring_loop cx segment_f wid R input k)"
  unfolding hiring_loop_def
  by (rule careful_other_attempts, assumption, blast) (rule careful_f_attempts, auto)

lemmas careful_hiring = careful_simps careful_activity careful_note careful_loops

lemma hiring_onboard_careful: "careful (h_retries h) (0, False) (hiring_onboard cx h e)"
  by (simp add: hiring_onboard_def Let_def careful_hiring)

lemma hiring_offer_careful: "careful (h_retries h) (0, False) (hiring_offer cx h e)"
  by (simp add: hiring_offer_def Let_def careful_hiring hiring_onboard_careful)

lemma hiring_decide_careful: "careful (h_retries h) (0, False) (hiring_decide cx h e)"
  by (simp add: hiring_decide_def Let_def careful_hiring hiring_offer_careful)

lemma hiring_book_careful: "careful (h_retries h) (0, False) (hiring_book cx h e)"
  using hiring_decide_careful[of "h\<lparr>h_booked_payload := u\<rparr>" for u]
  by (simp add: hiring_book_def Let_def careful_hiring)

lemma hiring_invite_careful: "careful (h_retries h) (0, False) (hiring_invite cx h e)"
  by (simp add: hiring_invite_def Let_def careful_hiring hiring_book_careful)

lemma hiring_voice_careful: "careful (h_retries h) (0, False) (hiring_voice cx h e)"
  using hiring_invite_careful[of "h\<lparr>h_candidate_id := c, h_voice_payload := u\<rparr>" for c u]
  by (simp add: hiring_voice_def Let_def careful_hiring)

lemma hiring_screen_careful: "careful (h_retries h) (0, False) (hiring_screen cx h e)"
  using hiring_voice_careful[of "h\<lparr>h_screening_verdict := v\<rparr>" for v]
  by (simp add: hiring_screen_def Let_def careful_hiring)

lemma hiring_flow_careful: "cx_retries cx = Inr R \<Longrightarrow> careful R (0, False) (hiring_flow cx)"
  using hiring_screen_careful[of "\<lparr>h_workflow_id = a, h_workflow_type = b, h_retries = R, h_input = c,
     h_candidate_id = VNone, h_screening_verdict = VNone, h_voice_payload = VDict [],
     h_booked_payload = VDict []\<rparr>" for a b c]
  by (simp add: hiring_flow_def Let_def careful_hiring)

abbreviation "segment_f_call \<equiv> ''hiring_segment_f_activity_trigger''"

lemma called_simps [simp]:
  "called [] = []" "called (Called a v r # t) = a # called t" "called (Waited e n x # t) = called t"
  "called (Joined cs rs # t) = called t"
  by (simp_all add: called_def)

lemma watch_onboarding:
  "watch (onboarding_step R) (n, b) t = Some (m, b') \<Longrightarrow>
   m = n + count_list (called t) segment_f_call \<and> int m \<le> max (int n) (R + 1) \<and>
   (b \<longrightarrow> segment_f_call \<notin> set (called t))"
proof (induction t arbitrary: n b)
  case (Cons x t)
  show ?case
  proof (cases x)
    case (Called a v r)
    consider (run) "a = segment_f_call" | (check) "a = ''validate_segment_f_output_activity_trigger''"
      | (other) "a \<noteq> segment_f_call" "a \<noteq> ''validate_segment_f_output_activity_trigger''"
      by blast
    then show ?thesis
    proof cases
      case run
      then have "\<not> b" "int n \<le> R" "watch (onboarding_step R) (Suc n, b) t = Some (m, b')"
        using Cons.prems Called by (simp_all split: if_splits)
      with Cons.IH[of "Suc n" b] run Called show ?thesis by simp
    next
      case check
      then show ?thesis
        using Cons.prems Cons.IH[of n "b \<or> refused_irreversible v r"] Called by auto
    next
      case other
      then show ?thesis using Cons.prems Cons.IH[of n b] Called by auto
    qed
  qed (use Cons in auto)
qed simp

lemma watch_append:
  "watch step q (t @ u) = (case watch step q t of None \<Rightarrow> None | Some q' \<Rightarrow> watch step q' u)"
  by (induction t arbitrary: q) (auto split: option.split)

lemma watch_refused:
  assumes "watch (onboarding_step R) q (t1 @ Called ''validate_segment_f_output_activity_trigger'' v r # t2) \<noteq> None"
    and "refused_irreversible v r"
  shows "segment_f_call \<notin> set (called t2)"
proof -
  obtain n b where "watch (onboarding_step R) q t1 = Some (n, b)"
    using assms(1) by (auto simp: watch_append split: option.splits)
  then obtain m b' where "watch (onboarding_step R) (n, True) t2 = Some (m, b')"
    using assms by (fastforce simp: watch_append)
  then show ?thesis using watch_onboarding by blast
qed

lemma careful_watch:
  "plays w t out \<Longrightarrow> careful R q w \<Longrightarrow> watch (onboarding_step R) q t \<noteq> None"
  using obeysD[of w t out "onboarding_step R" "\<lambda>_ _. True" q]
  by (auto simp: careful_def accepted_def split: option.splits)

end
