(* ===== verification/Aurora.thy ===== *)
theory Aurora imports Claim_Workflows begin

text \<open>
  The Aurora budget response (\<^verbatim>\<open>api/functions/workflows/aurora_budget_response.py\<close>) and its
  synthesis activity (\<^verbatim>\<open>aurora_budget_response_activities.py\<close>): observe, recommend, ask the
  operator, apply the policy, run one AP invoice workflow per selected invoice as a child, and
  synthesise what the children answered.  \<open>sha\<close> is \<^verbatim>\<open>hashlib.sha256(...).hexdigest()\<close>.
\<close>

section \<open>Identities and checkpoints\<close>

definition child_identity :: "(string \<Rightarrow> string) \<Rightarrow> string \<Rightarrow> string \<Rightarrow> string \<times> string" where
  "child_identity sha workflow_id invoice_id =
     (let digest = map upper_char (take 12 (sha (workflow_id @ '':'' @ invoice_id))) in
      (''API-'' @ digest, ''aurora-ap-'' @ lower digest))"

definition aurora_note :: "ctx \<Rightarrow> string \<Rightarrow> string \<Rightarrow> pydict \<Rightarrow> orch \<Rightarrow> orch" where
  "aurora_note cx workflow_id kind payload =
     checkpoint (VStr workflow_id) (VStr (cx_instance cx)) kind
       (dict_merge [(''workflow_type'', VStr ''aurora-budget-response'')] payload)"

definition aurora_output :: "ctx \<Rightarrow> string \<Rightarrow> string \<Rightarrow> pyval \<Rightarrow> orch \<Rightarrow> orch" where
  "aurora_output cx workflow_id slot data =
     aurora_note cx workflow_id ''workflow.output'' [(''slot'', VStr slot), (''data'', data)]"

definition start_phase :: "ctx \<Rightarrow> string \<Rightarrow> string \<Rightarrow> orch \<Rightarrow> orch" where
  "start_phase cx workflow_id phase = aurora_note cx workflow_id ''step.started'' [(''step'', VStr phase)]"

definition complete_phase :: "ctx \<Rightarrow> string \<Rightarrow> string \<Rightarrow> orch \<Rightarrow> orch" where
  "complete_phase cx workflow_id phase =
     aurora_note cx workflow_id ''step.completed'' [(''step'', VStr phase)]"

text \<open>A phase that failed: \<^verbatim>\<open>step.failed\<close>, \<^verbatim>\<open>workflow.failed\<close>, and the result.\<close>

definition fail_phase :: "ctx \<Rightarrow> string \<Rightarrow> string \<Rightarrow> string \<Rightarrow> string \<Rightarrow> pydict \<Rightarrow> pydict \<Rightarrow> orch" where
  "fail_phase cx workflow_id phase outcome reason extra result =
     aurora_note cx workflow_id ''step.failed'' [(''step'', VStr phase), (''reason'', VStr reason)] (
     aurora_note cx workflow_id ''workflow.failed''
       ([(''outcome'', VStr outcome), (''reason'', VStr reason)] @ extra) (
     Ret ([(''status'', VStr ''failed''), (''outcome'', VStr outcome)] @ result)))"

section \<open>The children\<close>

text \<open>One selected invoice: the invoice id, the child's workflow id, and the child orchestration.\<close>

definition invoice_child ::
  "ctx \<Rightarrow> (string \<Rightarrow> string) \<Rightarrow> string \<Rightarrow> string \<Rightarrow> pyval \<Rightarrow> (string \<times> string \<times> string \<times> pyval \<times> string) result" where
  "invoice_child cx sha workflow_id brand_id invoice =
     bind_result (subscript invoice ''invoice_id'') (\<lambda>i.
     bind_result (unpack invoice) (\<lambda>inv.
     let invoice_id = py_str (cx_float cx) i;
         ids = child_identity sha workflow_id invoice_id in
     Inr (invoice_id, fst ids, ''FleetApInvoiceOrchestrator'',
       VDict [(''workflow_id'', VStr (fst ids)), (''type'', VStr ''ap-invoice''),
              (''parent_workflow_id'', VStr workflow_id),
              (''invoice'', VDict (dict_set ''brand_id'' (VStr brand_id) inv)),
              (''scenario'', py_or (dict_get inv ''scenario'') (VStr ''matched-clean''))],
       snd ids)))"

definition selected_invoices :: "string \<Rightarrow> pydict \<Rightarrow> pyval list result" where
  "selected_invoices brand_id recommendation =
     bind_result (py_list (py_or (dict_get recommendation ''selected_invoices'') (VList []))) (\<lambda>xs.
     if xs \<noteq> [] then Inr xs
     else
       bind_result (py_list (py_or (dict_get recommendation ''selected_invoice_ids'') (VList []))) (\<lambda>ids.
       Inr (map (\<lambda>i. VDict [(''invoice_id'', i), (''brand_id'', VStr brand_id),
                            (''scenario'', VStr ''matched-clean'')]) ids)))"

section \<open>The generator\<close>

text \<open>The last phase: what the children answered.\<close>

definition aurora_synthesise :: "ctx \<Rightarrow> string \<Rightarrow> pyval \<Rightarrow> pyval \<Rightarrow> pyval \<Rightarrow> pyval list \<Rightarrow> orch" where
  "aurora_synthesise cx workflow_id policy child_ids queued_ids child_results =
     (let phase = ''Synthesise outcomes'' in
     start_phase cx workflow_id phase (
     guarded ''aurora_synthesise_activity_trigger''
       (VDict [(''workflow_id'', VStr workflow_id), (''child_workflow_ids'', child_ids),
               (''queued_invoice_ids'', queued_ids), (''child_results'', VList child_results)])
       (\<lambda>exc. fail_phase cx workflow_id phase ''synthesis_failed'' (cx_exc cx exc) [] [])
       (\<lambda>synthesis.
     aurora_output cx workflow_id ''synthesis'' synthesis (
     try_to (get_of synthesis ''status'') (\<lambda>status.
     if status \<noteq> VStr ''completed'' then
       fail_phase cx workflow_id phase ''child_failure'' ''One or more AP child workflows failed''
         [(''child_workflow_ids'', child_ids)]
         [(''child_workflow_ids'', child_ids), (''synthesis'', synthesis)]
     else
       complete_phase cx workflow_id phase (
       aurora_note cx workflow_id ''workflow.completed''
         [(''status'', VStr ''completed''), (''child_workflow_ids'', child_ids)] (
       Ret [(''status'', VStr ''completed''), (''workflow_id'', VStr workflow_id),
            (''policy'', policy), (''child_workflow_ids'', child_ids), (''synthesis'', synthesis)])))))))"

text \<open>The invoices, run as children.\<close>

definition aurora_queue ::
  "ctx \<Rightarrow> (string \<Rightarrow> string) \<Rightarrow> string \<Rightarrow> string \<Rightarrow> pydict \<Rightarrow> pyval \<Rightarrow> orch" where
  "aurora_queue cx sha workflow_id brand_id recommendation policy =
     (let phase = ''Queue AP invoice reviews'' in
     start_phase cx workflow_id phase (
     try_to (selected_invoices brand_id recommendation) (\<lambda>invoices.
     try_to (all_ok (map (invoice_child cx sha workflow_id brand_id) invoices)) (\<lambda>children.
     let child_ids = VList (map (\<lambda>c. VStr (fst (snd c))) children) in
     let queued_ids = VList (map (\<lambda>c. VStr (fst c)) children) in
     aurora_output cx workflow_id ''children''
       (VList (map (\<lambda>c. VDict [(''workflow_id'', VStr (fst (snd c))), (''invoice_id'', VStr (fst c)),
                               (''status'', VStr ''queued'')]) children)) (
     Join (map (\<lambda>c. snd (snd c)) children) (\<lambda>r.
     case r of
       Inl exc \<Rightarrow>
         fail_phase cx workflow_id phase ''child_execution_failed'' (cx_exc cx exc)
           [(''child_workflow_ids'', child_ids)] [(''child_workflow_ids'', child_ids)]
     | Inr child_results \<Rightarrow>
         complete_phase cx workflow_id phase (
         aurora_synthesise cx workflow_id policy child_ids queued_ids child_results)))))))"

text \<open>The governed policy, once the operator has approved.\<close>

definition aurora_policy ::
  "ctx \<Rightarrow> (string \<Rightarrow> string) \<Rightarrow> string \<Rightarrow> string \<Rightarrow> pydict \<Rightarrow> pydict \<Rightarrow> pyval \<Rightarrow> pyval \<Rightarrow> orch" where
  "aurora_policy cx sha workflow_id brand_id enriched recommendation proposed_action approval =
     (let phase = ''Apply governed policy'' in
     start_phase cx workflow_id phase (
     guarded ''aurora_apply_policy_activity_trigger''
       (VDict (dict_merge enriched [(''approval'', approval), (''proposed_action'', proposed_action)]))
       (\<lambda>exc. fail_phase cx workflow_id phase ''policy_application_denied'' (cx_exc cx exc) []
               [(''reason'', VStr (cx_exc cx exc))])
       (\<lambda>policy.
     aurora_output cx workflow_id ''policy'' policy (
     complete_phase cx workflow_id phase (
     aurora_queue cx sha workflow_id brand_id recommendation policy)))))"

text \<open>The operator's answer.\<close>

definition aurora_decided ::
  "ctx \<Rightarrow> (string \<Rightarrow> string) \<Rightarrow> string \<Rightarrow> string \<Rightarrow> pydict \<Rightarrow> pydict \<Rightarrow> pyval \<Rightarrow> pyval \<Rightarrow> orch" where
  "aurora_decided cx sha workflow_id brand_id enriched recommendation proposed_action answer =
     (let phase = ''Executive approval'' in
     try_to (dict_of_val (py_or answer (VDict []))) (\<lambda>approval.
     aurora_note cx workflow_id ''resumed''
       [(''phase'', VStr phase), (''decision_id'', dict_get approval ''decision_id'')] (
     if dict_get approval ''decision'' = VStr ''reject'' then
       aurora_note cx workflow_id ''workflow.rejected''
         [(''phase'', VStr phase),
          (''reason'', py_or (dict_get approval ''reason'') (VStr ''Operator rejected Aurora response'')),
          (''by'', dict_get approval ''resolved_by''),
          (''decision_id'', dict_get approval ''decision_id'')] (
       Ret [(''status'', VStr ''rejected''), (''decision_id'', dict_get approval ''decision_id'')])
     else if dict_get approval ''decision'' \<noteq> VStr ''approve'' then
       aurora_note cx workflow_id ''workflow.failed''
         [(''phase'', VStr phase), (''outcome'', VStr ''invalid_operator_decision''),
          (''reason'', says (cx_float cx) ''Unsupported operator decision {!r}''
             [dict_get approval ''decision''])] (
       Ret [(''status'', VStr ''failed''), (''outcome'', VStr ''invalid_operator_decision'')])
     else
       aurora_policy cx sha workflow_id brand_id enriched recommendation proposed_action
         (VDict approval))))"

text \<open>The question put to the operator.\<close>

definition aurora_ask ::
  "ctx \<Rightarrow> (string \<Rightarrow> string) \<Rightarrow> string \<Rightarrow> string \<Rightarrow> pydict \<Rightarrow> pyval \<Rightarrow> orch" where
  "aurora_ask cx sha workflow_id brand_id enriched recommendation =
     (let phase = ''Executive approval'' in
     try_to (subscript recommendation ''proposed_action'') (\<lambda>proposed_action.
     try_to (subscript proposed_action ''kind'') (\<lambda>action.
     try_to (subscript proposed_action ''attributes'') (\<lambda>attributes.
     try_to (subscript attributes ''scope'') (\<lambda>category.
     try_to (subscript recommendation ''recommendation'') (\<lambda>text.
     try_to (unpack recommendation) (\<lambda>recommended.
     aurora_note cx workflow_id ''suspended''
       [(''reason'', VStr ''awaiting_explicit_operator_approval''), (''phase'', VStr phase),
        (''wait_kind'', VStr ''operator_review''), (''persona'', VStr ''cfo''),
        (''operator_only'', VBool True),
        (''external_event'', VStr ''aurora_budget_response_decision''),
        (''context'', VDict [
          (''operator_only'', VBool True), (''workflow_id'', VStr workflow_id),
          (''brand_id'', VStr brand_id), (''action'', action), (''category'', category),
          (''proposed_action'', proposed_action), (''recommendation'', text)])] (
     race ''aurora_budget_response_decision'' (hours 24)
       (aurora_note cx workflow_id ''workflow.failed''
          [(''outcome'', VStr ''approval_timeout''),
           (''reason'', VStr ''Aurora operator approval timed out''), (''phase'', VStr phase)] (
        Ret [(''status'', VStr ''failed''), (''outcome'', VStr ''approval_timeout'')]))
       (\<lambda>answer.
     aurora_decided cx sha workflow_id brand_id enriched recommended proposed_action answer)))))))))"

text \<open>A phase that is one activity, whose answer is published under \<open>slot\<close> and kept.\<close>

definition aurora_phase ::
  "ctx \<Rightarrow> string \<Rightarrow> string \<Rightarrow> string \<Rightarrow> pydict \<Rightarrow> string \<Rightarrow> string \<Rightarrow> pydict \<Rightarrow> (pydict \<Rightarrow> pyval \<Rightarrow> orch) \<Rightarrow> orch" where
  "aurora_phase cx workflow_id phase name payload outcome slot enriched k =
     start_phase cx workflow_id phase (
     guarded name (VDict payload)
       (\<lambda>exc. fail_phase cx workflow_id phase outcome (cx_exc cx exc) [] [])
       (\<lambda>answer.
     aurora_output cx workflow_id slot answer (
     complete_phase cx workflow_id phase (
     k (dict_set slot answer enriched) answer))))"

definition aurora_flow :: "(string \<Rightarrow> string) \<Rightarrow> ctx \<Rightarrow> orch" where
  "aurora_flow sha cx =
     try_to (input_of cx) (\<lambda>input_dict.
     let workflow_id = py_str (cx_float cx) (py_or (dict_get input_dict ''workflow_id'') (VStr ''?'')) in
     let brand_id = py_str (cx_float cx) (py_or (dict_get input_dict ''brand_id'') (VStr ''BRAND-aurora'')) in
     try_to (py_int (dict_get_or input_dict ''count'' (VInt 3))) (\<lambda>asked.
     let count = max 1 (min 20 asked) in
     let enriched = dict_merge input_dict
       [(''workflow_id'', VStr workflow_id), (''brand_id'', VStr brand_id), (''count'', VInt count),
        (''instance_id'', VStr (cx_instance cx))] in
     aurora_note cx workflow_id ''workflow.started''
       [(''workflow'', VDict [
          (''current_phase'', VStr ''Observe budget signal''), (''jurisdiction'', VStr ''London-Zava''),
          (''agency'', VStr ''Zava''),
          (''payload'', VDict [
            (''request_id'', dict_get input_dict ''request_id''), (''brand_id'', VStr brand_id),
            (''count'', VInt count)])])] (
     aurora_phase cx workflow_id ''Observe budget signal'' ''aurora_observe_budget_activity_trigger''
       (dict_set ''target_pct'' (VFloat (Fin 1)) enriched) ''observation_failed'' ''observation'' enriched
       (\<lambda>enriched observation.
     aurora_phase cx workflow_id ''Recommend response'' ''aurora_recommendation_activity_trigger''
       enriched ''recommendation_failed'' ''recommendation'' enriched
       (\<lambda>enriched recommendation.
     aurora_ask cx sha workflow_id brand_id enriched recommendation)))))"

section \<open>The synthesis\<close>

definition aurora_synthesise_activity :: "pydict \<Rightarrow> pydict result" where
  "aurora_synthesise_activity payload =
     bind_result (py_list (py_or (dict_get payload ''child_results'') (VList []))) (\<lambda>results.
     bind_result (py_list (py_or (dict_get payload ''queued_invoice_ids'') (VList []))) (\<lambda>queued.
     let failed = filter (\<lambda>r. get_if_dict r ''status'' \<noteq> VStr ''completed'') results in
     Inr [(''status'', VStr (if failed \<noteq> [] then ''failed'' else ''completed'')),
          (''queued_invoice_ids'', VList queued), (''queued_count'', VInt (int (length queued))),
          (''completed_count'', VInt (int (length results) - int (length failed))),
          (''failed_count'', VInt (int (length failed))), (''child_outcomes'', VList results)]))"

section \<open>Its life, and the approval before the policy\<close>

lemma lives_aurora_note:
  "lives q (aurora_note cx wid kind p k) \<longleftrightarrow>
     (case life_checkpoint q kind (dict_merge [(''workflow_type'', VStr ''aurora-budget-response'')] p) of
        None \<Rightarrow> False | Some q' \<Rightarrow> lives q' k)"
  by (simp add: aurora_note_def lives_checkpoint)

lemma lives_aurora_running:
  "lives Running (start_phase cx wid ph k) \<longleftrightarrow> lives Running k"
  "lives Running (complete_phase cx wid ph k) \<longleftrightarrow> lives Running k"
  "lives Running (aurora_output cx wid slot v k) \<longleftrightarrow> lives Running k"
  "lives Running (fail_phase cx wid ph oc re mo res)"
  by (simp_all add: start_phase_def complete_phase_def aurora_output_def fail_phase_def
    lives_aurora_note lives_simps)

lemmas lives_aurora = lives_simps lives_aurora_note lives_aurora_running

lemma aurora_synthesise_lives: "lives Running (aurora_synthesise cx wid po ci qi rs)"
  by (simp add: aurora_synthesise_def Let_def lives_aurora)

lemma aurora_queue_lives: "lives Running (aurora_queue cx sha wid b rec po)"
  by (simp add: aurora_queue_def Let_def lives_aurora aurora_synthesise_lives split: sum.split)

lemma aurora_policy_lives: "lives Running (aurora_policy cx sha wid b en rec pa ap)"
  by (simp add: aurora_policy_def Let_def lives_aurora aurora_queue_lives)

lemma aurora_decided_lives: "lives Answered (aurora_decided cx sha wid b en rec pa an)"
  by (simp add: aurora_decided_def Let_def lives_aurora aurora_policy_lives)

lemma aurora_ask_lives: "lives Running (aurora_ask cx sha wid b en rec)"
  by (simp add: aurora_ask_def Let_def lives_aurora aurora_decided_lives dict_merge_def)

lemma aurora_flow_lives: "lives Fresh (aurora_flow sha cx)"
  by (simp add: aurora_flow_def aurora_phase_def Let_def lives_aurora aurora_ask_lives)

section \<open>Approval before the policy\<close>

definition aurora_governed :: "notebook \<Rightarrow> pydict result \<Rightarrow> bool" where
  "aurora_governed q out \<longleftrightarrow>
     (''aurora_apply_policy_activity_trigger'' \<in> snd q \<longrightarrow>
        decides (fst q ''aurora_budget_response_decision'') ''approve'')"

lemma tells_aurora_note:
  "tells P (w, c) (aurora_note cx wid kind p k) \<longleftrightarrow>
     (\<forall>e. P (w, insert ''checkpoint_activity_trigger'' c) (Inl e)) \<and>
     tells P (w, insert ''checkpoint_activity_trigger'' c) k"
  by (simp add: aurora_note_def tells_checkpoint)

lemmas tells_aurora = tells_simps tells_aurora_note start_phase_def complete_phase_def
  aurora_output_def fail_phase_def

text \<open>Once the operator has approved, nothing that follows can break the rule.\<close>

lemma governed_approved [simp]:
  "decides (w ''aurora_budget_response_decision'') ''approve'' \<Longrightarrow> aurora_governed (w, c) out"
  by (simp add: aurora_governed_def)

lemma aurora_synthesise_tells:
  "decides (w ''aurora_budget_response_decision'') ''approve'' \<Longrightarrow>
   tells aurora_governed (w, c) (aurora_synthesise cx wid po ci qi rs)"
  by (simp add: aurora_synthesise_def Let_def tells_aurora)

lemma aurora_queue_tells:
  "decides (w ''aurora_budget_response_decision'') ''approve'' \<Longrightarrow>
   tells aurora_governed (w, c) (aurora_queue cx sha wid b rec po)"
  by (simp add: aurora_queue_def Let_def tells_aurora aurora_synthesise_tells split: sum.split)

lemma aurora_policy_tells:
  "decides (w ''aurora_budget_response_decision'') ''approve'' \<Longrightarrow>
   tells aurora_governed (w, c) (aurora_policy cx sha wid b en rec pa ap)"
  by (simp add: aurora_policy_def Let_def tells_aurora aurora_queue_tells)

lemma governed_unapplied [simp]:
  "''aurora_apply_policy_activity_trigger'' \<notin> c \<Longrightarrow> aurora_governed (w, c) out"
  by (simp add: aurora_governed_def)

lemma aurora_decided_tells:
  assumes "''aurora_apply_policy_activity_trigger'' \<notin> c"
    and "w ''aurora_budget_response_decision'' = Some (Some answer)"
  shows "tells aurora_governed (w, c) (aurora_decided cx sha wid b en rec pa answer)"
proof -
  have "decides (w ''aurora_budget_response_decision'') ''approve''"
    if "dict_of_val (py_or answer (VDict [])) = Inr approval" "dict_get approval ''decision'' = VStr ''approve''"
    for approval
    using that assms(2) by (simp add: decides_def get_of_def)
  then show ?thesis
    using assms by (simp add: aurora_decided_def Let_def tells_aurora aurora_policy_tells)
qed

lemma aurora_flow_tells: "tells aurora_governed (\<lambda>_. None, {}) (aurora_flow sha cx)"
  by (simp add: aurora_flow_def aurora_phase_def aurora_ask_def Let_def tells_aurora aurora_decided_tells)

section \<open>The synthesis and its children\<close>

lemma child_failed_iff:
  "aurora_synthesise_activity
     [(''workflow_id'', w), (''child_workflow_ids'', c), (''queued_invoice_ids'', VList q),
      (''child_results'', VList (map VDict ds))] = Inr out \<Longrightarrow>
   dict_get out ''status'' = VStr ''completed'' \<longleftrightarrow>
     (\<forall>d \<in> set ds. dict_get d ''status'' = VStr ''completed'')"
  by (auto simp: aurora_synthesise_activity_def Let_def py_list_def dict_get_def get_if_dict_def
      filter_empty_conv split: if_splits)

end
