(* ===== verification/Telco_Workflows.thy ===== *)
theory Telco_Workflows imports Durable begin

text \<open>
  The telco workflows: the six cascades (\<^verbatim>\<open>telco_cascade.py\<close>), the profiled processes
  (\<^verbatim>\<open>telco_profiled.py\<close>), proactive customer care, order to activate, network incident and surge
  staffing.  They end by returning a command for the world bridge and, by design, emit no terminal
  checkpoint.
\<close>

section \<open>Checkpoints\<close>

text \<open>The local \<^verbatim>\<open>checkpoint(kind, payload)\<close>, which stamps the workflow type on every payload.\<close>

definition typed_checkpoint :: "pyval \<Rightarrow> ctx \<Rightarrow> pyval \<Rightarrow> string \<Rightarrow> pydict \<Rightarrow> orch \<Rightarrow> orch" where
  "typed_checkpoint workflow_id cx workflow_type kind payload =
     checkpoint workflow_id (VStr (cx_instance cx)) kind (dict_set ''workflow_type'' workflow_type payload)"

text \<open>The command a workflow returns, stamped with the decision that allowed it.\<close>

definition stamp_approval :: "pyval \<Rightarrow> pyval \<Rightarrow> pyval result" where
  "stamp_approval command approval =
     (case command of
        VDict c \<Rightarrow>
          bind_result (unpack (py_or (dict_get c ''payload'') (VDict []))) (\<lambda>p.
          bind_result (get_of approval ''decision'') (\<lambda>v.
          Inr (VDict (dict_set ''payload'' (VDict (dict_set ''approval_decision'' v p)) c))))
      | _ \<Rightarrow> Inr command)"

definition no_command :: "string \<Rightarrow> string \<Rightarrow> pydict" where
  "no_command status reasoning =
     [(''status'', VStr status), (''command'', VNone), (''reasoning'', VStr reasoning)]"

section \<open>Cascades\<close>

record cascade_spec =
  cs_workflow_type :: string
  cs_phases :: "(string \<times> string) list"
  cs_approval_phase :: string
  cs_approval_event :: string
  cs_approval_persona :: string

definition cascade_specs :: "(string \<times> cascade_spec) list" where
  "cascade_specs =
     [(''outage-risk-management'',
       \<lparr>cs_workflow_type = ''outage-risk-management'',
        cs_phases = [(''Assess Weather Risk'', ''deterministic''), (''Plan Pre-Staging'', ''agent''),
          (''Approve Exceptional Spend'', ''hitl''), (''Pre-Stage Resources'', ''deterministic'')],
        cs_approval_phase = ''Approve Exceptional Spend'',
        cs_approval_event = ''network_ops_director_decision'',
        cs_approval_persona = ''network_ops_director''\<rparr>),
      (''predictive-site-maintenance'',
       \<lparr>cs_workflow_type = ''predictive-site-maintenance'',
        cs_phases = [(''Diagnose Failure Risk'', ''agent''), (''Plan Maintenance'', ''deterministic''),
          (''Approve Replacement'', ''hitl''), (''Create Work Order'', ''deterministic'')],
        cs_approval_phase = ''Approve Replacement'',
        cs_approval_event = ''network_ops_director_decision'',
        cs_approval_persona = ''network_ops_director''\<rparr>),
      (''field-repair-dispatch'',
       \<lparr>cs_workflow_type = ''field-repair-dispatch'',
        cs_phases = [(''Match Field Resources'', ''agent''), (''Validate Dispatch'', ''deterministic''),
          (''Approve Dispatch Exception'', ''hitl''), (''Dispatch Repair'', ''deterministic'')],
        cs_approval_phase = ''Approve Dispatch Exception'',
        cs_approval_event = ''delivery_lead_decision'', cs_approval_persona = ''delivery_lead''\<rparr>),
      (''capacity-optimization'',
       \<lparr>cs_workflow_type = ''capacity-optimization'',
        cs_phases = [(''Diagnose Congestion'', ''deterministic''), (''Plan Capacity Action'', ''agent''),
          (''Approve Capital Action'', ''hitl''), (''Apply Capacity Action'', ''deterministic'')],
        cs_approval_phase = ''Approve Capital Action'',
        cs_approval_event = ''network_ops_director_decision'',
        cs_approval_persona = ''network_ops_director''\<rparr>),
      (''service-ticket-resolution'',
       \<lparr>cs_workflow_type = ''service-ticket-resolution'',
        cs_phases = [(''Correlate Root Cause'', ''agent''), (''Plan Ticket Resolution'', ''deterministic''),
          (''Review Vulnerable Customers'', ''hitl''), (''Resolve Ticket Batch'', ''deterministic'')],
        cs_approval_phase = ''Review Vulnerable Customers'',
        cs_approval_event = ''cs_manager_decision'', cs_approval_persona = ''cs_manager''\<rparr>),
      (''retention-orchestration'',
       \<lparr>cs_workflow_type = ''retention-orchestration'',
        cs_phases = [(''Analyse Churn Drivers'', ''agent''), (''Select Retention Offer'', ''agent''),
          (''Approve High-Value Offer'', ''hitl''), (''Issue Retention Offer'', ''deterministic'')],
        cs_approval_phase = ''Approve High-Value Offer'',
        cs_approval_event = ''cs_manager_decision'', cs_approval_persona = ''cs_manager''\<rparr>)]"

text \<open>The end of a cascade.\<close>

definition cascade_result :: "pydict \<Rightarrow> pyval \<Rightarrow> pyval \<Rightarrow> orch" where
  "cascade_result input_dict decision approval =
     try_to (get_of decision ''command'') (\<lambda>command.
     try_to (stamp_approval command approval) (\<lambda>command.
     try_to (get_of decision ''reasoning'') (\<lambda>reasoning.
     Ret [(''status'', VStr ''decision_ready''), (''command'', command), (''reasoning'', reasoning),
          (''observation'', dict_get input_dict ''observation'')])))"

text \<open>The loop over the phases; \<open>decision\<close> is the last answer of the decision activity.\<close>

primrec cascade_loop ::
  "ctx \<Rightarrow> string \<Rightarrow> cascade_spec \<Rightarrow> pydict \<Rightarrow> (string \<times> string) list \<Rightarrow> pyval \<Rightarrow> pyval \<Rightarrow> orch" where
  "cascade_loop cx workflow_type spec input_dict [] decision approval =
     cascade_result input_dict decision approval"
| "cascade_loop cx workflow_type spec input_dict (ph # phases) decision approval =
     (let phase = fst ph;
          note = typed_checkpoint (dict_get_or input_dict ''workflow_id'' (VStr ''?'')) cx (VStr workflow_type)
      in
      if snd ph = ''hitl'' then
        try_to (get_of decision ''requires_approval'') (\<lambda>required.
        if \<not> truthy required then cascade_loop cx workflow_type spec input_dict phases decision approval
        else
          try_to (dict_of_val decision) (\<lambda>d.
          let event = py_str (cx_float cx)
                        (py_or (dict_get d ''approval_event'') (VStr (cs_approval_event spec)));
              persona = py_str (cx_float cx)
                        (py_or (dict_get d ''approval_persona'') (VStr (cs_approval_persona spec)))
          in
          note ''suspended''
            [(''reason'', VStr ''awaiting_approval''), (''phase'', VStr phase),
             (''wait_kind'', VStr ''operator_review''), (''persona'', VStr persona),
             (''external_event'', VStr event),
             (''context'', dict_get_or d ''approval_context'' (VDict []))] (
          race event 5 (Ret (no_command ''timeout'' (phase @ '' timed out''))) (\<lambda>answer.
          let approval = py_or answer (VDict []) in
          note ''resumed'' [(''phase'', VStr phase)] (
          try_to (get_of approval ''decision'') (\<lambda>v.
          if v \<noteq> VStr ''approve'' then Ret (no_command ''denied'' (phase @ '' denied''))
          else cascade_loop cx workflow_type spec input_dict phases decision approval))))))
      else
        note ''step.started'' [(''step'', VStr phase)] (
        if snd ph = ''agent'' then
          activity ''telco_cascade_decision_activity_trigger''
            (VDict (dict_merge input_dict
               [(''instance_id'', VStr (cx_instance cx)), (''type'', VStr workflow_type),
                (''phase'', VStr phase), (''prior_decision'', decision)])) (\<lambda>decision.
          note ''step.completed'' [(''step'', VStr phase)] (
          cascade_loop cx workflow_type spec input_dict phases decision approval))
        else
          note ''step.completed'' [(''step'', VStr phase)] (
          cascade_loop cx workflow_type spec input_dict phases decision approval)))"

definition telco_cascade :: "string \<Rightarrow> ctx \<Rightarrow> orch" where
  "telco_cascade workflow_type cx =
     (case map_of cascade_specs workflow_type of
        None \<Rightarrow> Fail (KeyError (VStr workflow_type))
      | Some spec \<Rightarrow>
          try_to (input_of cx) (\<lambda>input_dict.
          typed_checkpoint (dict_get_or input_dict ''workflow_id'' (VStr ''?'')) cx (VStr workflow_type)
            ''workflow.started'' [] (
          cascade_loop cx workflow_type spec input_dict (cs_phases spec) (VDict [])
            (VDict [(''decision'', VStr ''not_required'')]))))"

section \<open>Proactive customer care\<close>

text \<open>\<^verbatim>\<open>any(bool(a.get("approval_required")) for a in accounts if isinstance(a, dict))\<close>: the
  elements of a string and the keys of a dictionary are strings, which are skipped.\<close>

definition any_approval_required :: "pyval \<Rightarrow> bool result" where
  "any_approval_required accounts =
     (case accounts of
        VList xs \<Rightarrow> Inr (list_ex (\<lambda>a. truthy (get_if_dict a ''approval_required'')) xs)
      | VStr _ \<Rightarrow> Inr False
      | VDict _ \<Rightarrow> Inr False
      | _ \<Rightarrow> Inl (TypeError (Msg ''object is not iterable'' [accounts])))"

text \<open>From the care execution on.\<close>

definition care_execute :: "ctx \<Rightarrow> pyval \<Rightarrow> pyval \<Rightarrow> pydict \<Rightarrow> pydict \<Rightarrow> pyval \<Rightarrow> pyval \<Rightarrow> pyval \<Rightarrow> orch" where
  "care_execute cx workflow_id workflow_type input_dict enriched impact entitlement approval =
     (let iid = VStr (cx_instance cx);
          step_payload = [(''step'', VStr ''Care Execution''), (''workflow_type'', workflow_type)] in
     checkpoint workflow_id iid ''step.started'' step_payload (
     activity ''customer_care_execution_activity_trigger''
       (VDict (dict_merge enriched
          [(''impact_assessment'', impact), (''entitlement_decision'', entitlement),
           (''approval'', approval)])) (\<lambda>execution.
     checkpoint workflow_id iid ''step.completed'' step_payload (
     try_to (get_of execution ''command'') (\<lambda>command.
     try_to (stamp_approval command approval) (\<lambda>command.
     try_to (get_of execution ''reasoning'') (\<lambda>reasoning.
     Ret [(''status'', VStr ''decision_ready''), (''command'', command), (''reasoning'', reasoning),
          (''observation'', dict_get input_dict ''observation'')])))))))"

definition customer_care :: "ctx \<Rightarrow> orch" where
  "customer_care cx =
     try_to (input_of cx) (\<lambda>input_dict.
     let workflow_id = dict_get_or input_dict ''workflow_id'' (VStr ''?'') in
     let workflow_type = dict_get_or input_dict ''type'' (VStr ''proactive-customer-care'') in
     let iid = VStr (cx_instance cx) in
     let enriched = dict_set ''instance_id'' iid input_dict in
     let step = (\<lambda>name. [(''step'', VStr name), (''workflow_type'', workflow_type)]) in
     checkpoint workflow_id iid ''workflow.started'' [(''workflow_type'', workflow_type)] (
     checkpoint workflow_id iid ''step.started'' (step ''Impact Assessment'') (
     activity ''customer_care_impact_activity_trigger'' (VDict enriched) (\<lambda>impact.
     checkpoint workflow_id iid ''step.completed'' (step ''Impact Assessment'') (
     checkpoint workflow_id iid ''step.started'' (step ''Entitlement Decision'') (
     activity ''customer_care_entitlement_activity_trigger''
       (VDict (dict_set ''impact_assessment'' impact enriched)) (\<lambda>entitlement.
     checkpoint workflow_id iid ''step.completed'' (step ''Entitlement Decision'') (
     try_to (dict_of_val impact) (\<lambda>impact_d.
     try_to (any_approval_required (dict_get_or impact_d ''accounts'' (VList []))) (\<lambda>requires_approval.
     if requires_approval then
       try_to (dict_of_val entitlement) (\<lambda>entitlement_d.
       checkpoint workflow_id iid ''suspended''
         [(''reason'', VStr ''awaiting_credit_approval''), (''phase'', VStr ''Credit Approval''),
          (''wait_kind'', VStr ''operator_review''), (''workflow_type'', workflow_type),
          (''persona'', VStr ''cs_manager''), (''external_event'', VStr ''cs_manager_decision''),
          (''context'', VDict [
            (''action'', VStr ''cs_manager_decision''),
            (''request'', VDict [
              (''amount'', dict_get_or entitlement_d ''aggregate_credit'' (VInt 0)),
              (''category'', VStr ''service_credit'')])])] (
       race ''cs_manager_decision'' 5
         (Ret (no_command ''timeout'' ''credit approval timed out''))
         (\<lambda>answer.
       let approval = py_or answer (VDict []) in
       checkpoint workflow_id iid ''resumed''
         [(''phase'', VStr ''Credit Approval''), (''workflow_type'', workflow_type)] (
       try_to (get_of approval ''decision'') (\<lambda>v.
       if v \<noteq> VStr ''approve'' then Ret (no_command ''denied'' ''credit approval denied'')
       else
         care_execute cx workflow_id workflow_type input_dict enriched impact entitlement approval)))))
     else
       care_execute cx workflow_id workflow_type input_dict enriched impact entitlement
         (VDict [(''decision'', VStr ''approve''), (''source'', VStr ''policy'')])))))))))))"

section \<open>Order to activate\<close>

text \<open>From the preparation of the command on.\<close>

definition order_prepare_command :: "pydict \<Rightarrow> pyval \<Rightarrow> pyval \<Rightarrow> orch" where
  "order_prepare_command input_dict feasibility approval =
     activity ''order_activation_prepare_activity_trigger''
       (VDict (dict_merge input_dict [(''feasibility'', feasibility), (''approval'', approval)])) (\<lambda>prepared.
     try_to (get_of prepared ''command'') (\<lambda>command.
     try_to (get_of prepared ''reasoning'') (\<lambda>reasoning.
     Ret [(''status'', VStr ''decision_ready''), (''command'', command), (''reasoning'', reasoning),
          (''observation'', dict_get input_dict ''observation'')])))"

text \<open>The capacity approval, when the feasibility check asks for one.\<close>

definition order_approve :: "ctx \<Rightarrow> pyval \<Rightarrow> pyval \<Rightarrow> pydict \<Rightarrow> pyval \<Rightarrow> orch" where
  "order_approve cx workflow_id workflow_type input_dict feasibility =
     (let note = typed_checkpoint workflow_id cx workflow_type in
     try_to (get_of feasibility ''requires_approval'') (\<lambda>required.
     if truthy required then
       note ''suspended''
         [(''reason'', VStr ''awaiting_capacity_approval''), (''phase'', VStr ''Capacity Approval''),
          (''wait_kind'', VStr ''operator_review''), (''persona'', VStr ''delivery_lead''),
          (''external_event'', VStr ''capacity_manager_decision'')] (
       race ''capacity_manager_decision'' 5
         (Ret (no_command ''timeout'' ''capacity approval timed out''))
         (\<lambda>answer.
       note ''resumed'' [(''phase'', VStr ''Capacity Approval'')] (
       order_prepare_command input_dict feasibility (py_or answer (VDict [])))))
     else
       order_prepare_command input_dict feasibility (VDict [(''decision'', VStr ''not_required'')])))"

definition order_to_activate :: "ctx \<Rightarrow> orch" where
  "order_to_activate cx =
     try_to (input_of cx) (\<lambda>input_dict.
     let workflow_id = dict_get_or input_dict ''workflow_id'' (VStr ''?'') in
     let workflow_type = dict_get_or input_dict ''type'' (VStr ''order-to-activate'') in
     let note = typed_checkpoint workflow_id cx workflow_type in
     note ''workflow.started'' [] (
     note ''step.started'' [(''step'', VStr ''Order Intake'')] (
     note ''step.completed'' [(''step'', VStr ''Order Intake'')] (
     note ''step.started'' [(''step'', VStr ''Feasibility Check'')] (
     activity ''order_activation_feasibility_activity_trigger'' (VDict input_dict) (\<lambda>feasibility.
     note ''step.completed'' [(''step'', VStr ''Feasibility Check'')] (
     order_approve cx workflow_id workflow_type input_dict feasibility)))))))"

section \<open>Network incident and surge staffing\<close>

definition network_incident :: "ctx \<Rightarrow> orch" where
  "network_incident cx =
     try_to (input_of cx) (\<lambda>input_dict.
     let workflow_id = dict_get_or input_dict ''workflow_id'' (VStr ''?'') in
     let workflow_type = dict_get_or input_dict ''type'' (VStr ''network-incident'') in
     let iid = VStr (cx_instance cx) in
     let step = (\<lambda>name. [(''step'', VStr name), (''workflow_type'', workflow_type)]) in
     checkpoint workflow_id iid ''workflow.started'' [(''workflow_type'', workflow_type)] (
     checkpoint workflow_id iid ''step.started'' (step ''Impact Diagnosis'') (
     activity ''network_incident_impact_activity_trigger'' (VDict input_dict) (\<lambda>impact.
     checkpoint workflow_id iid ''step.completed'' (step ''Impact Diagnosis'') (
     checkpoint workflow_id iid ''step.started'' (step ''Reroute Planning'') (
     try_to (dict_of_val impact) (\<lambda>impact.
     activity ''network_incident_reroute_activity_trigger''
       (VDict [(''trace_id'', dict_get input_dict ''trace_id''),
               (''diagnosis'', dict_get impact ''diagnosis''),
               (''diagnosis_reasoning'', dict_get impact ''reasoning'')]) (\<lambda>reroute.
     checkpoint workflow_id iid ''step.completed'' (step ''Reroute Planning'') (
     try_to (dict_of_val reroute) (\<lambda>reroute.
     Ret [(''status'', VStr ''completed''), (''instance_id'', iid),
          (''observation'', dict_get input_dict ''observation''),
          (''command'', dict_get reroute ''command''),
          (''reasoning'', dict_get reroute ''reasoning'')]))))))))))"

definition surge_staffing :: "ctx \<Rightarrow> orch" where
  "surge_staffing cx =
     try_to (input_of cx) (\<lambda>input_dict.
     activity ''surge_staffing_decide_activity_trigger'' (VDict input_dict) (\<lambda>decision.
     try_to (dict_of_val decision) (\<lambda>decision.
     Ret [(''status'', VStr ''completed''), (''instance_id'', VStr (cx_instance cx)),
          (''observation'', dict_get input_dict ''observation''),
          (''command'', dict_get decision ''command''),
          (''reasoning'', dict_get decision ''reasoning'')])))"

section \<open>No command without approval\<close>

definition all_approved :: "(string \<Rightarrow> pyval option option) \<Rightarrow> bool" where
  "all_approved w \<longleftrightarrow> (\<forall>e a. w e = Some a \<longrightarrow> decides (Some a) ''approve'')"

lemma all_approved_None [simp]: "all_approved (\<lambda>_. None)"
  by (simp add: all_approved_def)

lemma all_approved_upd:
  "all_approved w \<Longrightarrow> get_of (py_or v (VDict [])) ''decision'' = Inr (VStr ''approve'') \<Longrightarrow>
   all_approved (w(e \<mapsto> Some v))"
  by (auto simp: all_approved_def decides_def)

text \<open>A result that is ready to be applied; \<open>gate\<close> is an event that must have been answered.\<close>

definition ready_approved :: "string option \<Rightarrow> notebook \<Rightarrow> pydict result \<Rightarrow> bool" where
  "ready_approved gate q out \<longleftrightarrow>
     (case out of
        Inl _ \<Rightarrow> True
      | Inr d \<Rightarrow> dict_get d ''status'' = VStr ''decision_ready'' \<longrightarrow>
          all_approved (fst q) \<and> (case gate of None \<Rightarrow> True | Some e \<Rightarrow> fst q e \<noteq> None))"

lemma ready_approved_simps [simp]:
  "ready_approved g q (Inl e)"
  "ready_approved g (w, c) (Inr (no_command ''timeout'' r))"
  "ready_approved g (w, c) (Inr (no_command ''denied'' r))"
  by (simp_all add: ready_approved_def no_command_def)

lemma tells_typed_checkpoint:
  "tells P (w, c) (typed_checkpoint wid cx wt kind p k) \<longleftrightarrow>
     (\<forall>e. P (w, insert ''checkpoint_activity_trigger'' c) (Inl e)) \<and>
     tells P (w, insert ''checkpoint_activity_trigger'' c) k"
  by (simp add: typed_checkpoint_def tells_checkpoint)

lemma cascade_loop_approved:
  "all_approved w \<Longrightarrow> tells (ready_approved None) (w, c) (cascade_loop cx wt spec inp phases d a)"
proof (induction phases arbitrary: w c d a)
  case Nil
  then show ?case by (simp add: cascade_result_def tells_simps ready_approved_def)
next
  case (Cons ph phases)
  then show ?case
    by (auto simp: Let_def tells_simps tells_typed_checkpoint intro!: Cons.IH all_approved_upd)
qed

lemma telco_cascade_approved: "tells (ready_approved None) (\<lambda>_. None, {}) (telco_cascade wt cx)"
  by (auto simp: telco_cascade_def tells_simps tells_typed_checkpoint cascade_loop_approved split: option.split)

lemma care_execute_approved:
  "all_approved w \<Longrightarrow> tells (ready_approved None) (w, c) (care_execute cx wid wt i en im et ap)"
  by (simp add: care_execute_def Let_def tells_simps ready_approved_def)

lemma customer_care_approved: "tells (ready_approved None) (\<lambda>_. None, {}) (customer_care cx)"
  by (simp add: customer_care_def Let_def tells_simps care_execute_approved all_approved_upd)

end
