(* ===== verification/Process_Profiles.thy ===== *)
theory Process_Profiles imports Telco_Workflows begin

text \<open>
  The library of standard telco processes (\<^verbatim>\<open>verticals/telco/process_profiles.py\<close>), the checks
  the module makes of it when it is imported, and the one orchestration that runs every profile
  (\<^verbatim>\<open>api/functions/workflows/telco_profiled.py\<close>).
\<close>

section \<open>Vocabulary\<close>

definition engine_codes :: "string list" where
  "engine_codes = [''DDA'', ''FSP'', ''CTR'', ''OFV'', ''RIG'', ''ARA'']"

definition skills_by_code :: "(string \<times> string) list" where
  "skills_by_code =
     [(''EC'', ''evidence-correlator''), (''RIA'', ''risk-impact-assessor''),
      (''NBA'', ''next-best-action-planner''), (''RM'', ''resource-matcher''),
      (''PE'', ''policy-entitlement-evaluator''), (''ER'', ''exception-resolution-advisor''),
      (''CD'', ''communication-drafter''), (''SC'', ''scenario-comparator'')]"

definition skill_names :: "string list" where
  "skill_names = map snd skills_by_code"

definition tools_by_pack :: "(string \<times> string list) list" where
  "tools_by_pack =
     [(''network'', [''network_query_state'', ''network_query_impact'', ''network_validate_action'',
        ''network_prepare_action'']),
      (''operations'', [''operations_query_case'', ''operations_search_runbook'',
        ''operations_match_resources'', ''operations_prepare_case_action'']),
      (''commercial'', [''commercial_query_customer'', ''commercial_query_order_revenue'',
        ''commercial_evaluate_entitlement'', ''commercial_prepare_action'']),
      (''twin'', [''twin_forecast'', ''twin_compare_scenarios'', ''twin_query_external_signal'',
        ''twin_publish_plan''])]"

definition engine_boundaries :: "(string \<times> string \<times> string list) list" where
  "engine_boundaries =
     [(''DDA'', ''Detect Signal'', [''Execute Action'', ''Verify Outcome'']),
      (''FSP'', ''Build Forecast'', [''Publish Plan'', ''Verify Outcome'']),
      (''CTR'', ''Open Case'', [''Resolve Case'', ''Confirm Resolution'']),
      (''OFV'', ''Validate Request'', [''Fulfil Request'', ''Verify Fulfilment'']),
      (''RIG'', ''Score Risk'', [''Apply Control'', ''Verify Control'']),
      (''ARA'', ''Understand Request'', [''Record Action'', ''Confirm Action''])]"

section \<open>Profiles\<close>

record phase =
  ph_name :: string
  ph_kind :: string
  ph_skill :: "string option"

record profile =
  pf_source :: string
  pf_type :: string
  pf_display :: string
  pf_function :: string
  pf_engine :: string
  pf_phases :: "phase list"
  pf_skills :: "string list"
  pf_packs :: "string list"
  pf_tools :: "string list"
  pf_sensor :: string
  pf_objective :: string
  pf_command :: string
  pf_success :: string
  pf_family :: string
  pf_persona :: "string option"
  pf_event :: "string option"

text \<open>\<^verbatim>\<open>" ".join(part.title() for part in skill.split("-"))\<close>, for lower-case words.\<close>

fun title_words :: "bool \<Rightarrow> string \<Rightarrow> string" where
  "title_words first [] = []"
| "title_words first (c # cs) =
     (if c = CHR ''-'' then CHR '' '' # title_words True cs
      else (if first then upper_char c else c) # title_words False cs)"

definition phase_name :: "string \<Rightarrow> string" where
  "phase_name skill = title_words True skill"

text \<open>\<^verbatim>\<open>table[code]\<close>: a code that the table does not know is a KeyError, which ends the import of the
  module.\<close>

definition code_of :: "(string \<times> 'v) list \<Rightarrow> string \<Rightarrow> 'v result" where
  "code_of d k = (case map_of d k of None \<Rightarrow> Inl (KeyError (VStr k)) | Some v \<Rightarrow> Inr v)"

definition phases_of :: "string \<Rightarrow> string list \<Rightarrow> string option \<Rightarrow> phase list result" where
  "phases_of engine skills persona =
     bind_result (code_of engine_boundaries engine) (\<lambda>(first, final).
       Inr ([\<lparr>ph_name = first, ph_kind = ''deterministic'', ph_skill = None\<rparr>] @
         map (\<lambda>s. \<lparr>ph_name = phase_name s, ph_kind = ''agent'', ph_skill = Some s\<rparr>) skills @
         (case persona of None \<Rightarrow> []
          | Some _ \<Rightarrow> [\<lparr>ph_name = ''Authority Approval'', ph_kind = ''hitl'', ph_skill = None\<rparr>]) @
         map (\<lambda>name. \<lparr>ph_name = name, ph_kind = ''deterministic'', ph_skill = None\<rparr>) final))"

definition skills_of :: "string list \<Rightarrow> string list result" where
  "skills_of codes = all_ok (map (code_of skills_by_code) codes)"

definition tools_of :: "string list \<Rightarrow> string list result" where
  "tools_of packs =
     bind_result (all_ok (map (code_of tools_by_pack) packs)) (\<lambda>tools. Inr (concat tools))"

definition profile ::
  "string \<Rightarrow> string \<Rightarrow> string \<Rightarrow> string \<Rightarrow> string \<Rightarrow> string list \<Rightarrow> string list \<Rightarrow> string \<Rightarrow> string \<Rightarrow>
   string \<Rightarrow> string option \<Rightarrow> profile result" where
  "profile source_id workflow_type display_name function engine codes packs command_type
      success_event family persona =
     bind_result (skills_of codes) (\<lambda>skills.
     bind_result (phases_of engine skills persona) (\<lambda>phases.
     bind_result (tools_of packs) (\<lambda>tools.
       Inr \<lparr>pf_source = source_id, pf_type = workflow_type, pf_display = display_name,
         pf_function = function, pf_engine = engine, pf_phases = phases,
         pf_skills = skills, pf_packs = packs, pf_tools = tools,
         pf_sensor = ''sensor:'' @ workflow_type,
         pf_objective = map (\<lambda>c. if c = CHR ''-'' then CHR ''_'' else c) workflow_type,
         pf_command = command_type, pf_success = success_event, pf_family = family,
         pf_persona = persona, pf_event = map_option (\<lambda>p. p @ ''_decision'') persona\<rparr>)))"

text \<open>The table, in three parts.\<close>

definition profiles_1 :: "profile result list" where
  "profiles_1 =
     [profile ''OSS-03'' ''ran-capacity-planning''
        ''RAN Capacity Planning'' ''network-operations'' ''FSP''
        [''EC'', ''RIA'', ''SC'', ''NBA''] [''network'', ''twin'']
        ''approve_capacity_plan'' ''capacity_plan.approved'' ''plan''
        (Some ''network_ops_director''),
      profile ''OSS-05'' ''network-configuration-validation''
        ''Network Configuration Validation'' ''service-operations'' ''RIG''
        [''EC'', ''RIA'', ''SC'', ''ER''] [''network'', ''operations'', ''twin'']
        ''record_change_validation'' ''change.validation.completed'' ''plan''
        (Some ''network_ops_director''),
      profile ''OSS-06'' ''rollout-site-planning''
        ''5G and Fibre Rollout Planning'' ''service-operations'' ''FSP''
        [''SC'', ''NBA'', ''RM''] [''twin'', ''operations'']
        ''approve_rollout_plan'' ''rollout.plan.approved'' ''plan''
        (Some ''network_ops_director''),
      profile ''OSS-07'' ''network-slice-assurance''
        ''Network Slice Design and Assurance'' ''network-operations'' ''OFV''
        [''RIA'', ''SC'', ''NBA'', ''RM''] [''network'', ''twin'']
        ''provision_network_slice'' ''network_slice.assured'' ''network''
        (Some ''network_ops_director''),
      profile ''OSS-08'' ''energy-optimization''
        ''Energy and Sustainability Optimisation'' ''network-operations'' ''DDA''
        [''EC'', ''RIA'', ''NBA''] [''network'', ''twin'']
        ''apply_energy_action'' ''energy.target.met'' ''network''
        None,
      profile ''OSS-10'' ''spares-inventory-optimization''
        ''Spares and Inventory Optimisation'' ''service-operations'' ''FSP''
        [''EC'', ''RM'', ''NBA''] [''operations'', ''commercial'', ''twin'']
        ''transfer_spare_stock'' ''spare_stock.rebalanced'' ''operations''
        (Some ''service_ops_manager''),
      profile ''OSS-11'' ''site-asset-health-monitoring''
        ''Site Asset Health Monitoring'' ''network-operations'' ''DDA''
        [''EC'', ''RIA'', ''NBA''] [''network'', ''operations'']
        ''prioritize_asset_work'' ''asset_health.reviewed'' ''operations''
        (Some ''service_ops_manager''),
      profile ''OSS-12'' ''backhaul-optimization''
        ''Transport and Backhaul Optimisation'' ''network-operations'' ''DDA''
        [''EC'', ''RIA'', ''NBA''] [''network'', ''twin'']
        ''apply_backhaul_action'' ''backhaul.stable'' ''network''
        None,
      profile ''OSS-13'' ''core-network-anomaly-management''
        ''Core Network Anomaly Management'' ''network-operations'' ''DDA''
        [''EC'', ''RIA'', ''ER''] [''network'', ''operations'']
        ''execute_core_runbook'' ''core_service.stable'' ''network''
        (Some ''network_ops_director'')]"

definition profiles_2 :: "profile result list" where
  "profiles_2 =
     [profile ''OSS-14'' ''proactive-service-assurance''
        ''Proactive Service Assurance'' ''customer-success'' ''DDA''
        [''EC'', ''RIA'', ''CD''] [''network'', ''commercial'']
        ''open_proactive_assurance'' ''assurance.case.opened'' ''operations''
        (Some ''cs_manager''),
      profile ''OSS-16'' ''network-change-release''
        ''Network Change and Release Orchestration'' ''service-operations'' ''RIG''
        [''RIA'', ''SC'', ''ER''] [''network'', ''operations'', ''twin'']
        ''advance_network_release'' ''release.verified'' ''operations''
        (Some ''network_ops_director''),
      profile ''OSS-17'' ''spectrum-interference-management''
        ''Spectrum and Interference Management'' ''network-operations'' ''DDA''
        [''EC'', ''RIA'', ''NBA''] [''network'', ''twin'']
        ''apply_spectrum_action'' ''interference.reduced'' ''network''
        (Some ''network_ops_director''),
      profile ''OSS-18'' ''network-security-response''
        ''Network Security Response'' ''commercial-risk'' ''RIG''
        [''EC'', ''RIA'', ''NBA''] [''network'', ''operations'']
        ''apply_security_mitigation'' ''threat.contained'' ''network''
        (Some ''commercial_risk_director''),
      profile ''OSS-19'' ''experience-benchmarking''
        ''Experience Benchmarking'' ''network-operations'' ''FSP''
        [''EC'', ''SC'', ''NBA''] [''network'', ''twin'']
        ''publish_benchmark_plan'' ''benchmark.plan.published'' ''plan''
        None,
      profile ''BSS-01'' ''contact-centre-agent-assist''
        ''Contact Centre Agent Assist'' ''customer-success'' ''ARA''
        [''EC'', ''RIA'', ''NBA'', ''CD''] [''commercial'', ''operations'', ''network'']
        ''publish_agent_guidance'' ''agent_guidance.accepted'' ''operations''
        None,
      profile ''BSS-02'' ''autonomous-self-service''
        ''Autonomous Self Service'' ''customer-success'' ''ARA''
        [''EC'', ''PE'', ''ER'', ''CD''] [''commercial'', ''operations'', ''network'']
        ''execute_self_service_resolution'' ''self_service.resolved'' ''commercial''
        (Some ''cs_manager''),
      profile ''BSS-05'' ''next-best-action''
        ''Next Best Action'' ''customer-success'' ''ARA''
        [''RIA'', ''NBA'', ''PE'', ''CD''] [''commercial'', ''twin'']
        ''issue_next_best_action'' ''next_best_action.issued'' ''commercial''
        (Some ''cs_manager''),
      profile ''BSS-07'' ''service-provisioning-activation''
        ''Service Provisioning and Activation'' ''service-operations'' ''OFV''
        [''RM'', ''ER'', ''RIA''] [''commercial'', ''network'']
        ''provision_service'' ''service.activated'' ''commercial''
        (Some ''service_ops_manager'')]"

definition profiles_3 :: "profile result list" where
  "profiles_3 =
     [profile ''BSS-08'' ''billing-dispute-resolution''
        ''Billing Dispute Resolution'' ''commercial-risk'' ''CTR''
        [''EC'', ''PE'', ''ER'', ''CD''] [''commercial'', ''operations'']
        ''resolve_billing_dispute'' ''billing_dispute.resolved'' ''commercial''
        (Some ''commercial_risk_director''),
      profile ''BSS-09'' ''revenue-assurance''
        ''Revenue Assurance'' ''commercial-risk'' ''RIG''
        [''EC'', ''RIA'', ''NBA''] [''commercial'', ''network'']
        ''apply_revenue_recovery'' ''revenue_leakage.recovered'' ''commercial''
        (Some ''commercial_risk_director''),
      profile ''BSS-10'' ''collections-dunning''
        ''Collections and Dunning'' ''commercial-risk'' ''RIG''
        [''RIA'', ''PE'', ''NBA'', ''CD''] [''commercial'']
        ''apply_collections_plan'' ''collections.plan.applied'' ''commercial''
        (Some ''commercial_risk_director''),
      profile ''BSS-11'' ''fraud-prevention''
        ''Fraud Prevention'' ''commercial-risk'' ''RIG''
        [''EC'', ''RIA'', ''NBA''] [''commercial'', ''operations'']
        ''apply_fraud_control'' ''fraud.case.controlled'' ''commercial''
        (Some ''commercial_risk_director''),
      profile ''BSS-12'' ''customer-onboarding-kyc''
        ''Customer Onboarding and KYC'' ''commercial-risk'' ''RIG''
        [''EC'', ''RIA'', ''PE'', ''ER''] [''commercial'', ''operations'']
        ''complete_customer_kyc'' ''customer.kyc.completed'' ''commercial''
        (Some ''commercial_risk_director''),
      profile ''BSS-13'' ''complaint-nps-closed-loop''
        ''Complaint and NPS Closed Loop'' ''customer-success'' ''CTR''
        [''EC'', ''RIA'', ''ER'', ''CD''] [''commercial'', ''operations'', ''network'']
        ''resolve_customer_complaint'' ''complaint.closed'' ''operations''
        (Some ''cs_manager''),
      profile ''BSS-14'' ''device-lifecycle-upgrade''
        ''Device Lifecycle and Upgrade'' ''customer-success'' ''OFV''
        [''PE'', ''NBA'', ''RM''] [''commercial'', ''operations'']
        ''fulfil_device_upgrade'' ''device_upgrade.completed'' ''commercial''
        (Some ''cs_manager''),
      profile ''BSS-15'' ''roaming-experience-steering''
        ''Roaming Experience and Steering'' ''customer-success'' ''DDA''
        [''EC'', ''RIA'', ''NBA'', ''CD''] [''commercial'', ''network'']
        ''apply_roaming_steer'' ''roaming.experience.stable'' ''commercial''
        (Some ''commercial_risk_director''),
      profile ''BSS-16'' ''number-sim-porting''
        ''Number, SIM and Porting'' ''service-operations'' ''OFV''
        [''EC'', ''PE'', ''ER''] [''commercial'', ''operations'']
        ''complete_number_port'' ''number_port.completed'' ''commercial''
        (Some ''service_ops_manager''),
      profile ''BSS-17'' ''customer-experience-twin''
        ''Customer Experience Twin'' ''customer-success'' ''FSP''
        [''EC'', ''RIA'', ''SC'', ''NBA''] [''commercial'', ''network'', ''twin'']
        ''publish_cx_experiment'' ''cx_experiment.published'' ''plan''
        None]"

definition standard_profiles :: "profile list result" where
  "standard_profiles = all_ok (profiles_1 @ profiles_2 @ profiles_3)"

section \<open>The checks at import\<close>

text \<open>The objection to an entry of the table, if any.\<close>

definition profile_objection :: "string \<times> profile \<Rightarrow> string option" where
  "profile_objection kp =
     (case kp of (workflow_type, p) \<Rightarrow>
        if workflow_type \<noteq> pf_type p then Some (''profile key mismatch: '' @ workflow_type)
        else if pf_engine p \<notin> set engine_codes then Some (workflow_type @ '' has unknown engine'')
        else if pf_skills p = [] \<or> \<not> set (pf_skills p) \<subseteq> set skill_names
        then Some (workflow_type @ '' has invalid skills'')
        else if pf_packs p = [] \<or> \<not> set (pf_packs p) \<subseteq> fst ` set tools_by_pack
        then Some (workflow_type @ '' has invalid MCP packs'')
        else if pf_tools p = [] then Some (workflow_type @ '' has no MCP tools'')
        else if set (map ph_skill (filter (\<lambda>ph. ph_kind ph = ''agent'') (pf_phases p))) \<noteq>
                Some ` set (pf_skills p)
        then Some (workflow_type @ '' phase skills do not match'')
        else if (pf_persona p = None) \<noteq> (pf_event p = None)
        then Some (workflow_type @ '' has incomplete HITL metadata'')
        else None)"

fun validate_profiles :: "(string \<times> profile) list \<Rightarrow> unit result" where
  "validate_profiles [] = Inr ()"
| "validate_profiles (kp # kps) =
     (case profile_objection kp of
        Some m \<Rightarrow> Inl (ValueError (Msg m []))
      | None \<Rightarrow> validate_profiles kps)"

text \<open>\<^verbatim>\<open>STANDARD_PROCESS_PROFILES\<close>, as the import of the module leaves it: every row is built, a later
  profile of the same type would replace an earlier one, and the table is validated.\<close>

definition profile_table :: "(string \<times> profile) list result" where
  "profile_table =
     bind_result standard_profiles (\<lambda>ps.
       let table = fold (\<lambda>p. dict_set (pf_type p) p) ps [] in
       bind_result (validate_profiles table) (\<lambda>_. Inr table))"

section \<open>The profiled orchestration\<close>

text \<open>The loop over the phases.\<close>

primrec profile_loop ::
  "ctx \<Rightarrow> profile \<Rightarrow> pydict \<Rightarrow> (pydict \<Rightarrow> pyval \<Rightarrow> orch) \<Rightarrow> phase list \<Rightarrow> pydict \<Rightarrow> pyval \<Rightarrow> orch" where
  "profile_loop cx p input_dict finish [] skill_outputs approval = finish skill_outputs approval"
| "profile_loop cx p input_dict finish (ph # phases) skill_outputs approval =
     (let note = typed_checkpoint (dict_get_or input_dict ''workflow_id'' (VStr ''?'')) cx
                   (VStr (pf_type p));
          name = VStr (ph_name ph)
      in
      if ph_kind ph = ''hitl'' then
        note ''suspended''
          [(''reason'', VStr ''awaiting_approval''), (''phase'', name),
           (''wait_kind'', VStr ''operator_review''), (''persona'', opt_str (pf_persona p)),
           (''external_event'', opt_str (pf_event p)),
           (''context'', VDict [
             (''action'', opt_str (pf_event p)),
             (''request'', VDict [(''amount'', VFloat (Fin 0)), (''category'', VStr (pf_type p))])])] (
        race (py_str (cx_float cx) (opt_str (pf_event p))) 5
          (Ret (no_command ''timeout'' (ph_name ph @ '' timed out'')))
          (\<lambda>answer.
        let approval = py_or answer (VDict []) in
        note ''resumed'' [(''phase'', name)] (
        try_to (get_of approval ''decision'') (\<lambda>v.
        if v \<noteq> VStr ''approve'' then Ret (no_command ''denied'' (ph_name ph @ '' denied''))
        else profile_loop cx p input_dict finish phases skill_outputs approval))))
      else
        note ''step.started'' [(''step'', name)] (
        if ph_kind ph = ''agent'' then
          activity ''telco_profile_skill_activity_trigger''
            (VDict (dict_merge input_dict
               [(''instance_id'', VStr (cx_instance cx)), (''skill'', opt_str (ph_skill ph)),
                (''phase'', name), (''prior_outputs'', VDict skill_outputs)])) (\<lambda>result.
          note ''step.completed'' [(''step'', name)] (
          profile_loop cx p input_dict finish phases
            (dict_set (py_str (cx_float cx) (opt_str (ph_skill ph))) result skill_outputs) approval))
        else
          note ''step.completed'' [(''step'', name)] (
          profile_loop cx p input_dict finish phases skill_outputs approval)))"

definition profile_finish :: "ctx \<Rightarrow> pydict \<Rightarrow> pydict \<Rightarrow> pyval \<Rightarrow> orch" where
  "profile_finish cx input_dict skill_outputs approval =
     activity ''telco_profile_command_activity_trigger''
       (VDict (dict_merge input_dict
          [(''instance_id'', VStr (cx_instance cx)), (''skill_outputs'', VDict skill_outputs),
           (''approval'', approval)])) (\<lambda>decision.
     try_to (get_of decision ''command'') (\<lambda>command.
     try_to (get_of decision ''reasoning'') (\<lambda>reasoning.
     Ret [(''status'', VStr ''decision_ready''), (''command'', command),
          (''reasoning'', reasoning),
          (''observation'', dict_get input_dict ''observation'')])))"

definition telco_profile :: "string \<Rightarrow> ctx \<Rightarrow> orch" where
  "telco_profile engine_code cx =
     try_to (input_of cx) (\<lambda>input_dict.
     try_to (subscript (VDict input_dict) ''type'') (\<lambda>t.
     let workflow_type = py_str (cx_float cx) t in
     try_to profile_table (\<lambda>table.
     case map_of table workflow_type of
       None \<Rightarrow> Fail (KeyError (VStr workflow_type))
     | Some p \<Rightarrow>
         if pf_engine p \<noteq> engine_code then
           Fail (ValueError (Msg ''{} uses {}, not {}''
             [VStr workflow_type, VStr (pf_engine p), VStr engine_code]))
         else
           typed_checkpoint (dict_get_or input_dict ''workflow_id'' (VStr ''?'')) cx (VStr workflow_type)
             ''workflow.started'' [] (
           profile_loop cx p input_dict (profile_finish cx input_dict) (pf_phases p) []
             (VDict [(''decision'', VStr ''not_required'')])))))"

section \<open>The library is well formed\<close>

lemma code_of_known: "map_of d k = Some v \<Longrightarrow> code_of d k = Inr v"
  by (simp add: code_of_def)

lemma codes_known:
  assumes "list_all (\<lambda>k. map_of d k \<noteq> None) ks"
  shows "\<exists>vs. all_ok (map (code_of d) ks) = Inr vs \<and> length vs = length ks \<and> set vs \<subseteq> snd ` set d"
  using assms
proof (induction ks)
  case (Cons k ks)
  then obtain v vs where "map_of d k = Some v" "all_ok (map (code_of d) ks) = Inr vs"
      "length vs = length ks" "set vs \<subseteq> snd ` set d" by auto
  moreover from this have "code_of d k = Inr v" "v \<in> snd ` set d"
    by (auto simp: code_of_known rev_image_eqI dest: map_of_SomeD)
  ultimately show ?case by simp
qed simp

text \<open>One unknown code among the skills of a row is enough to end the import.\<close>

lemma unknown_code_raises:
  "c \<in> set cs \<Longrightarrow> map_of d c = None \<Longrightarrow> \<exists>k. all_ok (map (code_of d) cs) = Inl (KeyError (VStr k))"
  by (induction cs) (auto simp: code_of_def split: option.splits)

lemma unknown_skill_raises:
  assumes "c \<in> set cs" and "map_of skills_by_code c = None"
  shows "\<exists>k. profile sid wt dn fn en cs ps ct se fam per = Inl (KeyError (VStr k))"
  using unknown_code_raises[OF assms] by (auto simp: profile_def skills_of_def)

text \<open>A row is fine when it names a known engine and at least one skill and one pack, all known.\<close>

definition row_fine :: "string \<Rightarrow> string list \<Rightarrow> string list \<Rightarrow> bool" where
  "row_fine engine codes packs \<longleftrightarrow>
     engine \<in> set engine_codes \<and> codes \<noteq> [] \<and> list_all (\<lambda>c. map_of skills_by_code c \<noteq> None) codes \<and>
     packs \<noteq> [] \<and> list_all (\<lambda>p. map_of tools_by_pack p \<noteq> None) packs"

lemma tools_nonempty: "ts \<in> snd ` set tools_by_pack \<Longrightarrow> ts \<noteq> []"
  by (auto simp: tools_by_pack_def)

lemma engine_known: "en \<in> set engine_codes \<Longrightarrow> \<exists>b. map_of engine_boundaries en = Some b"
  by (auto simp: engine_codes_def engine_boundaries_def)

text \<open>A profile with a persona has a phase that waits for it, and an event to wait for.\<close>

definition gate_phases :: "profile \<Rightarrow> bool" where
  "gate_phases p \<longleftrightarrow>
     (pf_persona p \<noteq> None \<longrightarrow> (\<exists>ph \<in> set (pf_phases p). ph_kind ph = ''hitl'') \<and> pf_event p \<noteq> None)"

definition profile_ok :: "profile \<Rightarrow> bool" where
  "profile_ok p \<longleftrightarrow> profile_objection (pf_type p, p) = None \<and> gate_phases p"

lemma profile_fine:
  assumes "row_fine en cs ps"
  shows "\<exists>p. profile sid wt dn fn en cs ps ct se fam per = Inr p \<and> profile_ok p \<and> pf_type p = wt"
proof -
  obtain first final where en: "map_of engine_boundaries en = Some (first, final)" "en \<in> set engine_codes"
    using assms engine_known by (fastforce simp: row_fine_def)
  obtain sk where sk: "skills_of cs = Inr sk" "length sk = length cs" "set sk \<subseteq> set skill_names"
    using codes_known[of skills_by_code cs] assms by (auto simp: row_fine_def skills_of_def skill_names_def)
  obtain ts where ts: "all_ok (map (code_of tools_by_pack) ps) = Inr ts" "length ts = length ps"
      "set ts \<subseteq> snd ` set tools_by_pack"
    using codes_known[of tools_by_pack ps] assms by (auto simp: row_fine_def)
  have packs: "ps \<noteq> []" "set ps \<subseteq> fst ` set tools_by_pack"
    using assms by (auto simp: row_fine_def list_all_iff map_of_eq_None_iff)
  have "sk \<noteq> []" using sk(2) assms by (auto simp: row_fine_def)
  moreover have "concat ts \<noteq> []"
    using ts(2,3) packs(1) tools_nonempty by (cases ts) auto
  moreover have "code_of engine_boundaries en = Inr (first, final)" using en by (simp add: code_of_known)
  moreover define p where "p = projr (profile sid wt dn fn en cs ps ct se fam per)"
  ultimately have p: "profile sid wt dn fn en cs ps ct se fam per = Inr p" "pf_type p = wt"
      "pf_engine p = en" "pf_skills p = sk" "pf_packs p = ps" "pf_tools p = concat ts"
      "pf_persona p = per" "pf_event p = map_option (\<lambda>p. p @ ''_decision'') per"
      "pf_phases p = projr (phases_of en sk per)"
    using sk(1) ts(1) by (simp_all add: profile_def phases_of_def tools_of_def)
  have phases: "set (map ph_skill (filter (\<lambda>ph. ph_kind ph = ''agent'') (pf_phases p))) = Some ` set sk"
      "per \<noteq> None \<Longrightarrow> \<exists>ph \<in> set (pf_phases p). ph_kind ph = ''hitl''"
    using en(1) by (cases per; simp add: p phases_of_def code_of_known filter_map comp_def image_image)+
  have "profile_objection (pf_type p, p) = None"
    unfolding profile_objection_def prod.case p(2-8) phases(1)
    using en(2) sk(3) packs \<open>sk \<noteq> []\<close> \<open>concat ts \<noteq> []\<close> by simp
  with p phases(2) show ?thesis by (auto simp: profile_ok_def gate_phases_def)
qed

lemma profile_okD:
  assumes "profile_ok p"
  shows "pf_engine p \<in> set engine_codes" "pf_skills p \<noteq> []" "pf_tools p \<noteq> []"
    "ph_skill ` {ph \<in> set (pf_phases p). ph_kind ph = ''agent''} = Some ` set (pf_skills p)"
    "pf_persona p = None \<or> (\<exists>ph \<in> set (pf_phases p). ph_kind ph = ''hitl'')"
  using assms by (auto simp: profile_ok_def profile_objection_def gate_phases_def split: if_splits)

text \<open>The rows of the table, with the type of each.\<close>

definition row_ok :: "string \<Rightarrow> profile result \<Rightarrow> bool" where
  "row_ok wt r \<longleftrightarrow> (\<exists>p. r = Inr p \<and> profile_ok p \<and> pf_type p = wt)"

lemma row_okI: "row_fine en cs ps \<Longrightarrow> row_ok wt (profile sid wt dn fn en cs ps ct se fam per)"
  unfolding row_ok_def by (rule profile_fine)

lemmas row_tables = row_fine_def engine_codes_def skills_by_code_def tools_by_pack_def

definition profile_types :: "string list" where
  "profile_types =
    [''ran-capacity-planning'', ''network-configuration-validation'',
     ''rollout-site-planning'', ''network-slice-assurance'', ''energy-optimization'',
     ''spares-inventory-optimization'', ''site-asset-health-monitoring'',
     ''backhaul-optimization'', ''core-network-anomaly-management'',
     ''proactive-service-assurance'', ''network-change-release'',
     ''spectrum-interference-management'', ''network-security-response'',
     ''experience-benchmarking'', ''contact-centre-agent-assist'',
     ''autonomous-self-service'', ''next-best-action'', ''service-provisioning-activation'',
     ''billing-dispute-resolution'', ''revenue-assurance'', ''collections-dunning'',
     ''fraud-prevention'', ''customer-onboarding-kyc'', ''complaint-nps-closed-loop'',
     ''device-lifecycle-upgrade'', ''roaming-experience-steering'', ''number-sim-porting'',
     ''customer-experience-twin'']"

lemma rows_ok_1: "list_all2 row_ok (take 9 profile_types) profiles_1"
  unfolding profiles_1_def profile_types_def
  by (simp, intro conjI row_okI; simp add: row_tables)

lemma rows_ok_2: "list_all2 row_ok (take 9 (drop 9 profile_types)) profiles_2"
  unfolding profiles_2_def profile_types_def
  by (simp, intro conjI row_okI; simp add: row_tables)

lemma rows_ok_3: "list_all2 row_ok (drop 18 profile_types) profiles_3"
  unfolding profiles_3_def profile_types_def
  by (simp, intro conjI row_okI; simp add: row_tables)

lemma all_rows_ok:
  "list_all2 row_ok ts rs \<Longrightarrow> \<exists>ps. all_ok rs = Inr ps \<and> map pf_type ps = ts \<and> list_all profile_ok ps"
proof (induction rule: list_all2_induct)
  case (Cons t ts r rs)
  then obtain p ps where "r = Inr p" "profile_ok p" "pf_type p = t"
      "all_ok rs = Inr ps" "map pf_type ps = ts" "list_all profile_ok ps"
    by (auto simp: row_ok_def)
  then show ?case by auto
qed simp

lemma standard_profiles_ok:
  "\<exists>ps. standard_profiles = Inr ps \<and> map pf_type ps = profile_types \<and> list_all profile_ok ps"
proof -
  have "profile_types = take 9 profile_types @ take 9 (drop 9 profile_types) @ drop 18 profile_types"
    by (simp add: profile_types_def)
  then have "list_all2 row_ok profile_types (profiles_1 @ profiles_2 @ profiles_3)"
    by (metis list_all2_appendI rows_ok_1 rows_ok_2 rows_ok_3)
  from all_rows_ok[OF this] show ?thesis by (simp add: standard_profiles_def)
qed

lemma profile_types_distinct: "distinct profile_types"
  by (simp add: profile_types_def)

lemma validate_profiles_ok: "list_all profile_ok ps \<Longrightarrow> validate_profiles (map (\<lambda>p. (pf_type p, p)) ps) = Inr ()"
  by (induction ps) (auto simp: profile_ok_def)

lemma fold_table_new:
  assumes "distinct (map fst acc @ map pf_type ps)"
  shows "fold (\<lambda>p. dict_set (pf_type p) p) ps acc = acc @ map (\<lambda>p. (pf_type p, p)) ps"
  using assms
proof (induction ps arbitrary: acc)
  case (Cons p ps)
  then have "map_of acc (pf_type p) = None" by (auto simp: map_of_eq_None_iff)
  with Cons show ?case by (simp add: dict_set_new)
qed simp

text \<open>The import succeeds, and every row is in the table under its own type.\<close>

lemma import_ok:
  assumes "standard_profiles = Inr ps"
  shows "profile_table = Inr (map (\<lambda>p. (pf_type p, p)) ps)" "map pf_type ps = profile_types"
    "list_all profile_ok ps"
proof -
  show ps: "map pf_type ps = profile_types" "list_all profile_ok ps"
    using standard_profiles_ok assms by (metis sum.inject(2))+
  have "fold (\<lambda>p. dict_set (pf_type p) p) ps [] = map (\<lambda>p. (pf_type p, p)) ps"
    using fold_table_new[of "[]" ps] ps profile_types_distinct by simp
  then show "profile_table = Inr (map (\<lambda>p. (pf_type p, p)) ps)"
    by (simp add: profile_table_def Let_def assms validate_profiles_ok[OF ps(2)])
qed

lemma profile_found:
  assumes "profile_table = Inr table" and "map_of table k = Some p"
  shows "\<exists>ps. standard_profiles = Inr ps \<and> p \<in> set ps \<and> profile_ok p \<and> pf_type p = k"
proof -
  obtain ps where ps: "standard_profiles = Inr ps" using standard_profiles_ok by blast
  note im = import_ok[OF this]
  have "table = map (\<lambda>p. (pf_type p, p)) ps" using im(1) assms(1) by (metis sum.inject(2))
  then have "(k, p) \<in> set (map (\<lambda>p. (pf_type p, p)) ps)" "list_all profile_ok ps"
    using assms(2) im(3) map_of_SomeD by fast+
  with ps show ?thesis by (auto simp: list_all_iff)
qed

lemma hd_found:
  assumes "standard_profiles = Inr (p # ps)"
  shows "\<exists>table. profile_table = Inr table \<and> map_of table (pf_type p) = Some p"
  by (simp add: import_ok(1)[OF assms])

section \<open>No profile acts without its approval\<close>

lemma profile_loop_approved:
  assumes finish: "\<And>w c so ap. all_approved w \<Longrightarrow> (case gate of None \<Rightarrow> True | Some e \<Rightarrow> w e \<noteq> None) \<Longrightarrow>
      tells (ready_approved gate) (w, c) (finish so ap)"
    and gate: "\<And>e. gate = Some e \<Longrightarrow> py_str (cx_float cx) (opt_str (pf_event p)) = e"
  shows "all_approved w \<Longrightarrow>
    (\<exists>ph \<in> set phases. ph_kind ph = ''hitl'') \<or> (case gate of None \<Rightarrow> True | Some e \<Rightarrow> w e \<noteq> None) \<Longrightarrow>
    tells (ready_approved gate) (w, c) (profile_loop cx p inp finish phases so ap)"
proof (induction phases arbitrary: w c so ap)
  case Nil
  then show ?case using finish by simp
next
  case (Cons ph phases)
  show ?case
  proof (cases "ph_kind ph = ''hitl''")
    case True
    have "tells (ready_approved gate) (w(py_str (cx_float cx) (opt_str (pf_event p)) \<mapsto> Some v), c')
        (profile_loop cx p inp finish phases so (py_or v (VDict [])))"
      if "get_of (py_or v (VDict [])) ''decision'' = Inr (VStr ''approve'')" for v c'
      by (rule Cons.IH[OF all_approved_upd[OF Cons.prems(1) that]])
        (use Cons.prems(2) gate in \<open>auto split: option.splits\<close>)
    with True show ?thesis
      by (simp add: Let_def tells_simps tells_typed_checkpoint)
  next
    case False
    with Cons show ?thesis
      by (simp add: Let_def tells_simps tells_typed_checkpoint)
  qed
qed

end
