(* ===== verification/Decisions.thy ===== *)
theory Decisions imports Telco_Workflows Support_Facts "HOL-Library.Product_Lexorder" "HOL-Library.Multiset" begin

text \<open>
  The deterministic activities behind the telco and staffing workflows: the feasibility check and
  the command of an order (\<^verbatim>\<open>order_to_activate_activities.py\<close>), the impact diagnosis and the
  reroute plan of a network incident (\<^verbatim>\<open>network_incident_activities.py\<close>), the choice of reserve
  workers (\<^verbatim>\<open>surge_staffing_activities.py\<close>) and the impact of customer care
  (\<^verbatim>\<open>proactive_customer_care_activities.py\<close>).

  Ids that serve as dictionary keys or are compared for order are strings, a value of another
  type is reported as a TypeError.  \<open>parse\<close> is \<^verbatim>\<open>float\<close> of a string.
\<close>

section \<open>Reading a payload\<close>

text \<open>\<^verbatim>\<open>float(v)\<close>\<close>

definition py_float :: "(string \<Rightarrow> pyfloat option) \<Rightarrow> pyval \<Rightarrow> pyfloat result" where
  "py_float parse v =
     (case v of
        VStr s \<Rightarrow> (case parse s of
          None \<Rightarrow> Inl (ValueError (Msg ''could not convert string to float: {!r}'' [v]))
        | Some f \<Rightarrow> Inr f)
      | VInt i \<Rightarrow> float_of_int i
      | _ \<Rightarrow> if is_num v then Inr (num_of v) else Inl (TypeError (Msg ''float() argument'' [v])))"

text \<open>\<^verbatim>\<open>d.get(k) or {}\<close>, whose keys are read next, and \<^verbatim>\<open>d.get(k) or []\<close>, which is iterated over
  dictionaries.\<close>

definition sub_of :: "pydict \<Rightarrow> string \<Rightarrow> pydict result" where
  "sub_of d key = dict_of_val (py_or (dict_get d key) (VDict []))"

definition items_of :: "pydict \<Rightarrow> string \<Rightarrow> pyval list result" where
  "items_of d key = py_list (py_or (dict_get d key) (VList []))"

definition id_str :: "pyval \<Rightarrow> string result" where
  "id_str v = (case v of VStr s \<Rightarrow> Inr s | _ \<Rightarrow> Inl (TypeError (Msg ''expected str'' [v])))"

lemma bind_Inr_I: "r = Inr a \<Longrightarrow> f a = b \<Longrightarrow> bind_result r f = b"
  by simp

section \<open>Order to activate\<close>

definition order_feasibility :: "(string \<Rightarrow> pyfloat option) \<Rightarrow> pydict \<Rightarrow> pydict result" where
  "order_feasibility parse payload =
     bind_result (sub_of payload ''observation'') (\<lambda>observation.
     let order = py_or (dict_get observation ''order'') (VDict []) in
     bind_result (sub_of observation ''requested_site'') (\<lambda>site.
     bind_result
       (if dict_get site ''status'' = VStr ''healthy'' then
          bind_result (py_float parse (dict_get_or site ''utilization'' (VFloat (Fin 1)))) (\<lambda>u.
          Inr (pf_lt u (Fin (9 / 10))))
        else Inr False) (\<lambda>feasible.
     bind_result (get_of order ''id'') (\<lambda>order_id.
     Inr [(''order_id'', order_id), (''site_id'', dict_get site ''id''), (''feasible'', VBool feasible),
          (''requires_approval'', VBool (\<not> feasible)),
          (''reason'', VStr (if feasible then ''capacity available''
                           else ''requested site requires capacity exception''))]))))"

definition order_command :: "(pyfloat \<Rightarrow> string) \<Rightarrow> pydict \<Rightarrow> pydict result" where
  "order_command fr payload =
     bind_result (sub_of payload ''feasibility'') (\<lambda>feasibility.
     bind_result (sub_of payload ''approval'') (\<lambda>approval.
     let approved = (dict_get approval ''decision'' = VStr ''approve'');
         required = truthy (dict_get feasibility ''requires_approval'') in
     if required \<and> \<not> approved then
       Inr [(''command'', VNone), (''reasoning'', VStr ''capacity exception was not approved'')]
     else
       let trace_id = py_str fr (py_or (dict_get payload ''trace_id'') (VStr ''unknown''));
           order_id = py_str fr (py_or (dict_get feasibility ''order_id'') (VStr [])) in
       Inr [(''command'', VDict
              [(''command_id'', VStr (''cmd-'' @ trace_id @ ''-activate'')),
               (''trace_id'', VStr trace_id), (''issued_by'', VStr ''service_fulfillment''),
               (''type'', VStr ''activate_service_order''),
               (''payload'', VDict
                  [(''order_id'', VStr order_id),
                   (''capacity_approved'', VBool (required \<and> approved))])]),
            (''reasoning'', VStr (''activation prepared for '' @ order_id))]))"

section \<open>Network incident\<close>

text \<open>The healthy neighbours with room, by site id; a later entry of the same id replaces the first.\<close>

fun spare_capacity :: "(string \<Rightarrow> pyfloat option) \<Rightarrow> pyval list \<Rightarrow> pydict \<Rightarrow> pydict result" where
  "spare_capacity parse [] spare = Inr spare"
| "spare_capacity parse (n # ns) spare =
     bind_result (dict_of_val n) (\<lambda>neighbor.
     if dict_get neighbor ''status'' \<noteq> VStr ''healthy'' then spare_capacity parse ns spare
     else
       bind_result (py_float parse (dict_get_or neighbor ''spare_mbps'' (VFloat (Fin 0)))) (\<lambda>headroom.
       let site_id = dict_get neighbor ''id'' in
       if truthy site_id \<and> pf_lt (Fin 0) headroom then
         bind_result (id_str site_id) (\<lambda>i. spare_capacity parse ns (dict_set i (VFloat headroom) spare))
       else spare_capacity parse ns spare))"

text \<open>Voice first, then by session id.\<close>

definition session_key :: "(pyfloat \<Rightarrow> string) \<Rightarrow> pydict \<Rightarrow> nat \<times> string" where
  "session_key fr s =
     (if dict_get s ''kind'' = VStr ''voice'' then 0 else 1, py_str fr (dict_get s ''id''))"

definition no_diagnosis :: "string \<Rightarrow> pydict" where
  "no_diagnosis why = [(''diagnosis'', VNone), (''reasoning'', VStr why)]"

definition incident_impact ::
  "(string \<Rightarrow> pyfloat option) \<Rightarrow> (pyfloat \<Rightarrow> string) \<Rightarrow> pydict \<Rightarrow> pydict result" where
  "incident_impact parse fr payload =
     bind_result (sub_of payload ''observation'') (\<lambda>observation.
     bind_result (sub_of observation ''incident_site'') (\<lambda>incident.
     let incident_id = dict_get incident ''id'';
         affected = py_or (dict_get observation ''affected_sessions'') (VList []) in
     if \<not> truthy incident_id then Inr (no_diagnosis ''no incident site in observation'')
     else if \<not> truthy affected then Inr (no_diagnosis ''no affected sessions to reroute'')
     else
       bind_result (items_of observation ''neighbor_sites'') (\<lambda>neighbors.
       bind_result (spare_capacity parse neighbors []) (\<lambda>spare.
       if spare = [] then Inr (no_diagnosis ''no healthy neighbour capacity available'')
       else
         bind_result (py_list affected) (\<lambda>sessions.
         bind_result (all_ok (map dict_of_val sessions)) (\<lambda>sessions.
         Inr [(''diagnosis'', VDict
                [(''incident_site_id'', incident_id), (''spare_capacity'', VDict spare),
                 (''affected_sessions'', VList (map VDict (sort_key (session_key fr) sessions))),
                 (''affected_total'', VInt (int (length sessions)))]),
              (''reasoning'', VNone)]))))))"

text \<open>\<^verbatim>\<open>round(x, 6)\<close>: to the nearest millionth, a tie to the even one.\<close>

definition round6 :: "rat \<Rightarrow> rat" where
  "round6 q =
     (let lo = \<lfloor>1000000 * q\<rfloor>; r = 1000000 * q - of_int lo;
          n = (if r < 1 / 2 then lo else if 1 / 2 < r then lo + 1
               else if lo mod 2 = 0 then lo else lo + 1)
      in of_int n / 1000000)"

definition round6_pf :: "pyfloat \<Rightarrow> pyfloat" where
  "round6_pf f = (case f of Fin q \<Rightarrow> Fin (round6 q) | g \<Rightarrow> g)"

text \<open>The first of the candidates sorted by falling room and then by site id.\<close>

fun healthiest :: "(string \<times> pyfloat) list \<Rightarrow> (string \<times> pyfloat) option" where
  "healthiest [] = None"
| "healthiest (x # xs) =
     (case healthiest xs of
        None \<Rightarrow> Some x
      | Some y \<Rightarrow>
          Some (if pf_lt (snd x) (snd y) \<or> snd x = snd y \<and> fst y < fst x then y else x))"

definition has_room :: "pyfloat \<Rightarrow> string \<times> pyfloat \<Rightarrow> bool" where
  "has_room demand sr = pf_le demand (pf_add (snd sr) (Fin (1 / 1000000)))"

text \<open>One planned session: its id, its demand and the site it goes to.\<close>

type_synonym leg = "string \<times> pyfloat \<times> string"

text \<open>The loop over the sessions: the legs, and how many found no room.\<close>

fun reroute_loop ::
  "(string \<Rightarrow> pyfloat option) \<Rightarrow> (pyfloat \<Rightarrow> string) \<Rightarrow> (string \<times> pyfloat) list \<Rightarrow> pydict list \<Rightarrow>
   (leg list \<times> nat) result" where
  "reroute_loop parse fr spare [] = Inr ([], 0)"
| "reroute_loop parse fr spare (s # ss) =
     bind_result (py_float parse (dict_get_or s ''demand_mbps'' (VFloat (Fin 0)))) (\<lambda>demand.
     case healthiest (filter (has_room demand) spare) of
       None \<Rightarrow> bind_result (reroute_loop parse fr spare ss) (\<lambda>(legs, dropped). Inr (legs, Suc dropped))
     | Some (target, room) \<Rightarrow>
         bind_result (subscript (VDict s) ''id'') (\<lambda>sid.
         bind_result
           (reroute_loop parse fr (dict_set target (round6_pf (pf_sub room demand)) spare) ss)
           (\<lambda>(legs, dropped). Inr ((py_str fr sid, demand, target) # legs, dropped))))"

text \<open>The rooms of a diagnosis are numbers; any other value is a TypeError as soon as a session is
  compared with it.\<close>

definition rooms_of :: "pydict \<Rightarrow> (string \<times> pyfloat) list result" where
  "rooms_of spare =
     all_ok (map (\<lambda>(i, v). if is_num v then Inr (i, num_of v)
                           else Inl (TypeError (Msg ''unsupported operand'' [v]))) spare)"

definition reroute_plan ::
  "(string \<Rightarrow> pyfloat option) \<Rightarrow> (pyfloat \<Rightarrow> string) \<Rightarrow> pydict \<Rightarrow> pydict list \<Rightarrow> (leg list \<times> nat) result" where
  "reroute_plan parse fr spare ordered =
     (if ordered = [] then Inr ([], 0)
      else bind_result (rooms_of spare) (\<lambda>rooms. reroute_loop parse fr rooms ordered))"

definition reroute_reasoning :: "(pyfloat \<Rightarrow> string) \<Rightarrow> pyval \<Rightarrow> nat \<Rightarrow> nat \<Rightarrow> nat \<Rightarrow> nat \<Rightarrow> string" where
  "reroute_reasoning fr incident_id planned neighbours voice dropped =
     fill fr ''incident at {}: planned {} session {} across {} {}''
       [incident_id, VInt (int planned), VStr (if planned = 1 then ''assignment'' else ''assignments''),
        VInt (int neighbours), VStr (if neighbours = 1 then ''neighbour'' else ''neighbours'')] @
     (if voice = 0 then [] else fill fr '' ({} voice prioritised)'' [VInt (int voice)]) @
     (if dropped = 0 then [] else fill fr ''; {} unassigned (no capacity)'' [VInt (int dropped)])"

definition incident_reroute ::
  "(string \<Rightarrow> pyfloat option) \<Rightarrow> (pyfloat \<Rightarrow> string) \<Rightarrow> pydict \<Rightarrow> pydict result" where
  "incident_reroute parse fr payload =
     (let trace_id = py_str fr (py_or (dict_get payload ''trace_id'') (VStr ''unknown'')) in
      if \<not> truthy (dict_get payload ''diagnosis'') then
        Inr [(''command'', VNone),
             (''reasoning'', py_or (dict_get payload ''diagnosis_reasoning'')
                              (VStr ''no reroute diagnosis available''))]
      else
        bind_result (dict_of_val (dict_get payload ''diagnosis'')) (\<lambda>diagnosis.
        let incident_id = dict_get diagnosis ''incident_site_id'' in
        bind_result (as_dict (py_or (dict_get diagnosis ''spare_capacity'') (VDict []))) (\<lambda>spare.
        bind_result (items_of diagnosis ''affected_sessions'') (\<lambda>ordered.
        bind_result (all_ok (map dict_of_val ordered)) (\<lambda>ordered.
        bind_result (reroute_plan parse fr spare ordered) (\<lambda>(legs, dropped).
        if legs = [] then
          Inr [(''command'', VNone), (''reasoning'', VStr ''no neighbour has capacity for any session'')]
        else
          let voice = length (filter (\<lambda>s. dict_get s ''kind'' = VStr ''voice'') ordered) in
          Inr [(''command'', VDict
                 [(''command_id'', VStr (''cmd-'' @ trace_id @ ''-reroute'')),
                  (''trace_id'', VStr trace_id), (''issued_by'', VStr ''network_incident''),
                  (''type'', VStr ''reroute_sessions''),
                  (''payload'', VDict
                     [(''incident_site_id'', incident_id),
                      (''assignments'', VList (map (\<lambda>(sid, _, target).
                         VDict [(''session_id'', VStr sid), (''to_site_id'', VStr target)]) legs))])]),
               (''reasoning'', VStr (reroute_reasoning fr incident_id (length legs) (length spare)
                                     voice dropped))]))))))"

section \<open>Surge staffing\<close>

text \<open>\<^verbatim>\<open>Counter(ticket.get("required_skill") for ticket in queued)\<close>\<close>

fun tally :: "pyval list \<Rightarrow> (pyval \<times> nat) list \<Rightarrow> (pyval \<times> nat) list" where
  "tally [] acc = acc"
| "tally (v # vs) acc =
     tally vs (dict_set v (case map_of acc v of None \<Rightarrow> 1 | Some n \<Rightarrow> Suc n) acc)"

definition tally_of :: "(pyval \<times> nat) list \<Rightarrow> pyval \<Rightarrow> nat" where
  "tally_of c v = (case map_of c v of None \<Rightarrow> 0 | Some n \<Rightarrow> n)"

text \<open>The sort key of a worker: the pressure on its skills, greatest first, then its id.\<close>

definition worker_key :: "(pyval \<times> nat) list \<Rightarrow> pydict \<Rightarrow> (int \<times> string) result" where
  "worker_key pressure worker =
     bind_result (py_list (dict_get_or worker ''skills'' (VList []))) (\<lambda>skills.
     bind_result (all_ok (map hashed skills)) (\<lambda>skills.
     bind_result (subscript (VDict worker) ''id'') (\<lambda>i.
     bind_result (id_str i) (\<lambda>i.
     Inr (- int (sum_list (map (tally_of pressure) skills)), i)))))"

definition surge_decide :: "(pyfloat \<Rightarrow> string) \<Rightarrow> pydict \<Rightarrow> pydict result" where
  "surge_decide fr payload =
     (let trace_id = py_str fr (py_or (dict_get payload ''trace_id'') (VStr ''unknown'')) in
     bind_result (sub_of payload ''observation'') (\<lambda>observation.
     let queued = py_or (dict_get observation ''queued_tickets'') (VList []);
         reserve = py_or (dict_get observation ''reserve_workers'') (VList []) in
     if \<not> truthy queued then Inr [(''command'', VNone), (''reasoning'', VStr ''no queued tickets'')]
     else if \<not> truthy reserve then
       Inr [(''command'', VNone), (''reasoning'', VStr ''no reserve workers'')]
     else
       bind_result (py_list queued) (\<lambda>tickets.
       bind_result (all_ok (map (\<lambda>t. get_of t ''required_skill'') tickets)) (\<lambda>wanted.
       bind_result (all_ok (map hashed wanted)) (\<lambda>wanted.
       let pressure = tally wanted [] in
       bind_result (py_list reserve) (\<lambda>workers.
       bind_result (all_ok (map dict_of_val workers)) (\<lambda>workers.
       bind_result (all_ok (map (worker_key pressure) workers)) (\<lambda>keys.
       let ranked = map snd (sort_key fst keys) in
       bind_result (dict_of_val (dict_get_or observation ''projection'' (VDict []))) (\<lambda>projection.
       bind_result (py_int (dict_get_or projection ''support_backlog'' (VInt (int (length tickets))))) (\<lambda>backlog.
       let count = nat (min (int (length ranked)) (max 1 \<lceil>of_int backlog / (20 :: rat)\<rceil>));
           worker_ids = take count ranked in
       Inr [(''command'', VDict
              [(''command_id'', VStr (''cmd-'' @ trace_id @ ''-staff'')),
               (''trace_id'', VStr trace_id), (''issued_by'', VStr ''surge_staffing''),
               (''type'', VStr ''reallocate_workers''),
               (''payload'', VDict
                  [(''worker_ids'', VList (map VStr worker_ids)),
                   (''from_team_id'', VStr ''TEAM-RESERVE''),
                   (''to_team_id'', VStr ''TEAM-SUPPORT''),
                   (''duration_minutes'', VInt 60)])]),
            (''reasoning'', VStr (
               fill fr ''backlog={}; selected {} reserve workers against skill pressure ''
                 [VInt backlog, VInt (int (length worker_ids))] @
               ''{'' @ comma (map (\<lambda>(k, n). val_repr fr k @ '': '' @ int_dec (int n)) pressure) @ ''}''))]))))))))))"

section \<open>Customer care\<close>

definition care_impact :: "pydict \<Rightarrow> pydict result" where
  "care_impact payload =
     bind_result (sub_of payload ''observation'') (\<lambda>observation.
     bind_result (items_of observation ''impacted_accounts'') (\<lambda>accounts.
     Inr [(''accounts'', VList (take 3 accounts)),
          (''affected_account_count'', VInt (int (length accounts))),
          (''incident_site_id'', dict_get observation ''incident_site_id'')]))"

section \<open>The plan fits the rooms\<close>

lemma round6_close: "\<bar>round6 q - q\<bar> \<le> 1 / 2000000"
proof -
  define m where "m = \<lfloor>1000000 * q\<rfloor>"
  have m: "of_int m \<le> 1000000 * q" "1000000 * q < of_int m + 1"
    unfolding m_def by linarith+
  show ?thesis
    using m unfolding round6_def Let_def m_def[symmetric]
    by (cases "m mod 2 = 0") (simp_all add: abs_le_iff field_simps)
qed

text \<open>The demand a plan puts on a site, and the number of legs that go there.\<close>

definition rat_of :: "pyfloat \<Rightarrow> rat" where
  "rat_of f = (case f of Fin q \<Rightarrow> q | _ \<Rightarrow> 0)"

definition legs_to :: "string \<Rightarrow> leg list \<Rightarrow> leg list" where
  "legs_to site legs = filter (\<lambda>(_, _, target). target = site) legs"

definition load :: "string \<Rightarrow> leg list \<Rightarrow> rat" where
  "load site legs = sum_list (map (\<lambda>(_, d, _). rat_of d) (legs_to site legs))"

lemma load_simps [simp]:
  "legs_to site [] = []" "load site [] = 0"
  "legs_to site ((sid, d, target) # legs) =
     (if target = site then (sid, d, target) # legs_to site legs else legs_to site legs)"
  "load site ((sid, d, target) # legs) = (if target = site then rat_of d + load site legs else load site legs)"
  by (simp_all add: legs_to_def load_def)

lemma healthiest_in: "healthiest xs = Some x \<Longrightarrow> x \<in> set xs"
  by (induction xs arbitrary: x) (auto split: option.splits if_splits)

definition finite_demand :: "(string \<Rightarrow> pyfloat option) \<Rightarrow> pydict \<Rightarrow> bool" where
  "finite_demand parse s \<longleftrightarrow>
     (\<exists>q. py_float parse (dict_get_or s ''demand_mbps'' (VFloat (Fin 0))) = Inr (Fin q))"

definition finite_rooms :: "(string \<times> pyfloat) list \<Rightarrow> bool" where
  "finite_rooms spare \<longleftrightarrow> distinct (map fst spare) \<and> (\<forall>sr \<in> set spare. \<exists>q. snd sr = Fin q)"

lemma finite_rooms_set: "finite_rooms spare \<Longrightarrow> finite_rooms (dict_set k (Fin q) spare)"
  unfolding finite_rooms_def by (auto simp: distinct_dict_set dest!: in_dict_set)

text \<open>Within the tolerance of the comparison and of the rounding: a millionth for the last leg, half
  a millionth for each leg before it.\<close>

definition slack :: "nat \<Rightarrow> rat" where
  "slack n = 1 / 1000000 + of_nat (n - 1) / 2000000"

lemma slack_Suc: "0 < n \<Longrightarrow> slack (Suc n) = slack n + 1 / 2000000"
  by (cases n) (simp_all add: slack_def field_simps)

lemma has_roomD: "has_room (Fin d) (i, Fin r) \<Longrightarrow> d \<le> r + 1 / 1000000"
  by (auto simp: has_room_def pf_le_def pf_eq_def)

lemma finite_roomsD: "finite_rooms spare \<Longrightarrow> sr \<in> set spare \<Longrightarrow> \<exists>q. snd sr = Fin q"
  by (simp add: finite_rooms_def)

lemma reroute_loop_drop:
  assumes "reroute_loop parse fr spare (s # ss) = Inr (legs, dropped)"
    and "py_float parse (dict_get_or s ''demand_mbps'' (VFloat (Fin 0))) = Inr (Fin d)"
    and "healthiest (filter (has_room (Fin d)) spare) = None"
  shows "\<exists>k. reroute_loop parse fr spare ss = Inr (legs, k)"
  using assms by (auto simp: bind_result_Inr_iff)

lemma reroute_loop_leg:
  assumes "reroute_loop parse fr spare (s # ss) = Inr (legs, dropped)"
    and "py_float parse (dict_get_or s ''demand_mbps'' (VFloat (Fin 0))) = Inr (Fin d)"
    and "healthiest (filter (has_room (Fin d)) spare) = Some (target, Fin r)"
  shows "\<exists>sid legs'. legs = (sid, Fin d, target) # legs' \<and>
    reroute_loop parse fr (dict_set target (Fin (round6 (r - d))) spare) ss = Inr (legs', dropped)"
  using assms by (auto simp: bind_result_Inr_iff round6_pf_def pf_sub_def)

lemma reroute_loop_fits:
  assumes "reroute_loop parse fr spare ss = Inr (legs, dropped)"
    and "finite_rooms spare" "\<forall>s \<in> set ss. finite_demand parse s"
  shows "(\<forall>leg \<in> set legs. snd (snd leg) \<in> fst ` set spare) \<and>
    (\<forall>r. map_of spare site = Some (Fin r) \<longrightarrow> legs_to site legs \<noteq> [] \<longrightarrow>
       load site legs \<le> r + slack (length (legs_to site legs)))"
  using assms
proof (induction ss arbitrary: spare legs dropped)
  case Nil
  then show ?case by simp
next
  case (Cons s ss)
  note run = Cons.prems(1) and fin = Cons.prems(2) and dem = Cons.prems(3)
  obtain d where d: "py_float parse (dict_get_or s ''demand_mbps'' (VFloat (Fin 0))) = Inr (Fin d)"
    using dem by (auto simp: finite_demand_def)
  show ?case
  proof (cases "healthiest (filter (has_room (Fin d)) spare)")
    case None
    then obtain k where "reroute_loop parse fr spare ss = Inr (legs, k)"
      using reroute_loop_drop[OF run d] by blast
    then show ?thesis using Cons.IH[OF _ fin] dem by auto
  next
    case (Some tr)
    obtain target room where tr: "tr = (target, room)" by fastforce
    have tr_in: "tr \<in> set spare" "has_room (Fin d) tr" using healthiest_in[OF Some] by auto
    obtain R where R: "room = Fin R" using finite_roomsD[OF fin tr_in(1)] tr by auto
    have mem: "(target, Fin R) \<in> set spare" and room: "d \<le> R + 1 / 1000000"
      using tr_in has_roomD[of d target R] by (simp_all add: tr R)
    have look: "map_of spare target = Some (Fin R)"
      using mem fin by (simp add: finite_rooms_def)
    define spare' where "spare' = dict_set target (Fin (round6 (R - d))) spare"
    obtain sid legs' where rest: "reroute_loop parse fr spare' ss = Inr (legs', dropped)"
        and legs: "legs = (sid, Fin d, target) # legs'"
      using reroute_loop_leg[OF run d] Some unfolding tr R spare'_def by blast
    have fin': "finite_rooms spare'" and dem': "\<forall>s \<in> set ss. finite_demand parse s"
      using fin dem by (auto simp: spare'_def finite_rooms_set)
    have target_in: "target \<in> fst ` set spare" using mem by (force intro: rev_image_eqI)
    have keys: "fst ` set spare' = fst ` set spare"
      using target_in by (simp add: spare'_def fst_dict_set insert_absorb)
    have near: "round6 (R - d) \<le> R - d + 1 / 2000000"
      using round6_close[of "R - d"] by linarith
    note IH = Cons.IH[OF rest fin' dem']
    have "load site legs \<le> r + slack (length (legs_to site legs))"
      if look': "map_of spare site = Some (Fin r)" and some: "legs_to site legs \<noteq> []" for r
    proof (cases "target = site")
      case True
      then have rR: "r = R" using look look' by simp
      show ?thesis
      proof (cases "legs_to site legs' = []")
        case True
        then have "load site legs' = 0" by (simp add: load_def)
        then show ?thesis
          using True \<open>target = site\<close> room by (simp add: legs rR rat_of_def slack_def)
      next
        case False
        have "load site legs' \<le> round6 (R - d) + slack (length (legs_to site legs'))"
          using IH False \<open>target = site\<close> by (simp add: spare'_def)
        with near show ?thesis
          using \<open>target = site\<close> False by (simp add: legs rR rat_of_def slack_Suc)
      qed
    next
      case False
      then show ?thesis
        using IH look' some by (simp add: legs spare'_def)
    qed
    moreover have "\<forall>leg \<in> set legs. snd (snd leg) \<in> fst ` set spare"
      using IH target_in keys by (simp add: legs)
    ultimately show ?thesis by blast
  qed
qed

text \<open>Where the legs come from: each is a session of the list, with the demand the session has, and no
  session has two.\<close>

definition demand_of :: "(string \<Rightarrow> pyfloat option) \<Rightarrow> pydict \<Rightarrow> pyfloat" where
  "demand_of parse s =
     (case py_float parse (dict_get_or s ''demand_mbps'' (VFloat (Fin 0))) of Inr f \<Rightarrow> f | Inl _ \<Rightarrow> NaN)"

definition leg_of :: "(string \<Rightarrow> pyfloat option) \<Rightarrow> (pyfloat \<Rightarrow> string) \<Rightarrow> pydict \<times> string \<Rightarrow> leg" where
  "leg_of parse fr st = (py_str fr (dict_get (fst st) ''id''), demand_of parse (fst st), snd st)"

definition sent_to :: "string \<Rightarrow> (pydict \<times> string) list \<Rightarrow> pydict list" where
  "sent_to site plan = map fst (filter (\<lambda>st. snd st = site) plan)"

lemma reroute_loop_plan:
  "reroute_loop parse fr spare ss = Inr (legs, dropped) \<Longrightarrow>
     \<exists>plan. legs = map (leg_of parse fr) plan \<and> mset (map fst plan) \<subseteq># mset ss"
proof (induction ss arbitrary: spare legs dropped)
  case (Cons s ss)
  obtain demand where d: "py_float parse (dict_get_or s ''demand_mbps'' (VFloat (Fin 0))) = Inr demand"
    using Cons.prems by (auto simp: bind_result_Inr_iff)
  show ?case
  proof (cases "healthiest (filter (has_room demand) spare)")
    case None
    then obtain k where "reroute_loop parse fr spare ss = Inr (legs, k)"
      using Cons.prems d by (auto simp: bind_result_Inr_iff)
    from Cons.IH[OF this] obtain plan where "legs = map (leg_of parse fr) plan" "mset (map fst plan) \<subseteq># mset ss"
      by blast
    moreover from this(2) have "mset (map fst plan) \<subseteq># mset (s # ss)"
      by (rule subset_mset.order_trans) simp
    ultimately show ?thesis by blast
  next
    case (Some tr)
    then obtain sid spare' legs' where l: "legs = (py_str fr sid, demand, fst tr) # legs'"
        "subscript (VDict s) ''id'' = Inr sid" "reroute_loop parse fr spare' ss = Inr (legs', dropped)"
      using Cons.prems d by (cases tr) (auto simp: bind_result_Inr_iff)
    from Cons.IH[OF l(3)] obtain plan where plan: "legs' = map (leg_of parse fr) plan"
        "mset (map fst plan) \<subseteq># mset ss" by blast
    have "dict_get s ''id'' = sid"
      using l(2) by (auto simp: subscript_def dict_get_def split: option.splits)
    then have "legs = map (leg_of parse fr) ((s, fst tr) # plan)"
      by (simp add: l(1) plan(1) leg_of_def demand_of_def d)
    moreover have "mset (map fst ((s, fst tr) # plan)) \<subseteq># mset (s # ss)" using plan(2) by simp
    ultimately show ?thesis by blast
  qed
qed simp

lemma load_plan:
  "load site (map (leg_of parse fr) plan) = sum_list (map (rat_of \<circ> demand_of parse) (sent_to site plan))"
  "length (legs_to site (map (leg_of parse fr) plan)) = length (sent_to site plan)"
  by (induction plan) (simp_all add: leg_of_def sent_to_def)

text \<open>Where the rooms come from: every site with room is a healthy neighbour with headroom.\<close>

definition healthy_site :: "(string \<Rightarrow> pyfloat option) \<Rightarrow> pyval list \<Rightarrow> string \<Rightarrow> pyfloat \<Rightarrow> bool" where
  "healthy_site parse ns i room \<longleftrightarrow>
     (\<exists>n. VDict n \<in> set ns \<and> dict_get n ''status'' = VStr ''healthy'' \<and> dict_get n ''id'' = VStr i \<and>
        py_float parse (dict_get_or n ''spare_mbps'' (VFloat (Fin 0))) = Inr room \<and> pf_lt (Fin 0) room)"

lemma healthy_site_Cons: "healthy_site parse ns i room \<Longrightarrow> healthy_site parse (n # ns) i room"
  by (auto simp: healthy_site_def)

lemma spare_capacity_sound:
  assumes "spare_capacity parse ns spare = Inr out"
    and "\<forall>(i, v) \<in> set spare. \<exists>f. v = VFloat f \<and> ok i f" "distinct (map fst spare)"
    and "\<And>i f. healthy_site parse ns i f \<Longrightarrow> ok i f"
  shows "(\<forall>(i, v) \<in> set out. \<exists>f. v = VFloat f \<and> ok i f) \<and> distinct (map fst out)"
  using assms
proof (induction ns arbitrary: spare)
  case (Cons n ns)
  obtain nb where nb: "n = VDict nb" using Cons.prems(1) by (cases n) (auto simp: dict_of_val_def)
  have later: "\<And>i f. healthy_site parse ns i f \<Longrightarrow> ok i f"
    using Cons.prems(4) healthy_site_Cons by blast
  show ?case
  proof (cases "dict_get nb ''status'' = VStr ''healthy''")
    case True
    obtain room where room: "py_float parse (dict_get_or nb ''spare_mbps'' (VFloat (Fin 0))) = Inr room"
      using Cons.prems(1) nb True by (auto simp: dict_of_val_def bind_result_Inr_iff)
    show ?thesis
    proof (cases "truthy (dict_get nb ''id'') \<and> pf_lt (Fin 0) room")
      case take: True
      obtain i where i: "dict_get nb ''id'' = VStr i"
        and rest: "spare_capacity parse ns (dict_set i (VFloat room) spare) = Inr out"
        using Cons.prems(1) nb True room take
        by (auto simp: dict_of_val_def bind_result_Inr_iff id_str_def split: pyval.splits)
      have "ok i room"
        by (rule Cons.prems(4)) (use nb True room take i in \<open>auto simp: healthy_site_def\<close>)
      then have new: "\<forall>(j, v) \<in> set (dict_set i (VFloat room) spare). \<exists>f. v = VFloat f \<and> ok j f"
        using Cons.prems(2) by (induction spare) (auto split: if_splits)
      show ?thesis
        using Cons.IH[OF rest new _ later] Cons.prems(3) by (simp add: distinct_dict_set)
    next
      case False
      then show ?thesis
        using Cons.IH[OF _ Cons.prems(2,3) later] Cons.prems(1) nb True room
        by (auto simp: dict_of_val_def)
    qed
  next
    case False
    then show ?thesis
      using Cons.IH[OF _ Cons.prems(2,3) later] Cons.prems(1) nb by (auto simp: dict_of_val_def)
  qed
qed auto

section \<open>The staffing command is a valid one\<close>

lemma all_ok_map_Inr [simp]: "all_ok (map (\<lambda>x. Inr (f x)) xs) = Inr (map f xs)"
  by (induction xs) simp_all

lemma all_strings_map_VStr [simp]: "all_strings (map VStr xs) = Some xs"
  by (induction xs) simp_all

lemma worker_key_view:
  "dict_of_val (worker_view w) = Inr d \<Longrightarrow>
   worker_key c d = Inr (- int (sum_list (map (tally_of c) (map VStr (w_skills w)))), w_id w)"
  by (auto simp: worker_view_def dict_of_val_def worker_key_def dict_get_or_def py_list_def hashed_def
    subscript_def id_str_def comp_def)

definition view_dict :: "worker \<Rightarrow> pydict" where
  "view_dict w = (case worker_view w of VDict d \<Rightarrow> d | _ \<Rightarrow> [])"

lemma worker_view_dict: "worker_view w = VDict (view_dict w)"
  by (simp add: worker_view_def view_dict_def)

lemma dict_of_view: "dict_of_val (worker_view w) = Inr (view_dict w)"
  by (simp add: worker_view_dict dict_of_val_def)

lemma wanted_skill: "get_of (observed_ticket now t) ''required_skill'' = Inr (VStr (t_skill t))"
  by (simp add: observed_ticket_def get_of_def dict_of_val_def)

text \<open>What the decision reads in an observation, and what it answers.\<close>

definition staffing_ids :: "(pyval \<times> nat) list \<Rightarrow> nat \<Rightarrow> worker list \<Rightarrow> string list" where
  "staffing_ids pressure n ws =
     take n (map snd (sort_key fst
       (map (\<lambda>w. (- int (sum_list (map (tally_of pressure) (map VStr (w_skills w)))), w_id w)) ws)))"

lemma set_staffing_ids: "set (staffing_ids c n ws) \<subseteq> w_id ` set ws"
  unfolding staffing_ids_def by (auto dest!: in_set_takeD)

lemma distinct_staffing_ids:
  assumes "distinct (map w_id ws)"
  shows "distinct (staffing_ids c n ws)"
proof -
  let ?f = "\<lambda>w. (- int (sum_list (map (tally_of c) (map VStr (w_skills w)))), w_id w)"
  have "mset (map snd (sort_key fst (map ?f ws))) = mset (map w_id ws)"
    by (simp add: multiset.map_comp comp_def)
  then have "distinct (map snd (sort_key fst (map ?f ws)))"
    using assms mset_eq_imp_distinct_iff by blast
  then show ?thesis by (simp add: staffing_ids_def)
qed

definition reserves :: "'a support_scheme \<Rightarrow> worker list" where
  "reserves s = filter (\<lambda>w. w_team w = reserve_team) (map snd (su_workers s))"

lemma observation_reads:
  assumes "support_observation ev now s = Inr obs"
  shows "\<exists>ids. observed_ids ev = Inr ids \<and>
      dict_get obs ''queued_tickets'' = VList (map (observed_ticket now) (observed_tickets ids s))"
    and "dict_get obs ''reserve_workers'' = VList (map worker_view (reserves s))"
    and "dict_get_or obs ''projection'' v = VDict (projection_to_dict (project_support s))"
    and "obs \<noteq> []"
  using assms
  by (auto simp: support_observation_def Let_def reserves_def dict_get_or_def bind_result_Inr_iff)

definition staffing_payload :: "string list \<Rightarrow> pydict" where
  "staffing_payload ids =
     [(''worker_ids'', VList (map VStr ids)), (''from_team_id'', VStr ''TEAM-RESERVE''),
      (''to_team_id'', VStr ''TEAM-SUPPORT''), (''duration_minutes'', VInt 60)]"

lemma dict_of_val_VDict: "dict_of_val (VDict d) = Inr d"
  by (simp add: dict_of_val_def)

lemma surge_on_support:
  assumes ob: "support_observation ev now s = Inr obs" and p: "dict_get p ''observation'' = VDict obs"
  shows "\<exists>out. surge_decide fr p = Inr out \<and>
    (if dict_get obs ''queued_tickets'' = VList [] \<or> dict_get obs ''reserve_workers'' = VList []
     then dict_get out ''command'' = VNone
     else \<exists>c pressure n. dict_get out ''command'' = VDict c \<and>
       dict_get c ''type'' = VStr ''reallocate_workers'' \<and>
       dict_get c ''payload'' = VDict (staffing_payload (staffing_ids pressure (Suc n) (reserves s))))"
proof -
  obtain ids where queued: "dict_get obs ''queued_tickets'' =
      VList (map (observed_ticket now) (observed_tickets ids s))"
    using observation_reads(1)[OF ob] by blast
  note reads = queued observation_reads(2,3)[OF ob]
  have obs: "sub_of p ''observation'' = Inr obs"
    using p observation_reads(4)[OF ob] by (simp add: sub_of_def py_or_def dict_of_val_def)
  show ?thesis
  proof (cases "observed_tickets ids s = [] \<or> reserves s = []")
    case True
    then show ?thesis
      by (auto simp: surge_decide_def obs Let_def reads py_or_def)
  next
    case False
    define pressure where "pressure = tally (map (\<lambda>t. VStr (t_skill t)) (observed_tickets ids s)) []"
    define ks where "ks = map (\<lambda>w. (- int (sum_list (map (tally_of pressure) (map VStr (w_skills w)))), w_id w))
      (reserves s)"
    have keys: "all_ok (map (worker_key pressure) (map view_dict (reserves s))) = Inr ks"
      by (simp add: ks_def comp_def worker_key_view[OF dict_of_view])
    have backlog: "dict_get_or (projection_to_dict (project_support s)) ''support_backlog'' v =
        VInt (int (pr_backlog (project_support s)))" for v
      by (simp add: projection_to_dict_def dict_get_or_def)
    obtain n where n: "nat (min (int (length ks))
        (max 1 \<lceil>of_int (int (pr_backlog (project_support s))) / (20 :: rat)\<rceil>)) = Suc n"
      using False gr0_conv_Suc[of "nat (min (int (length ks))
        (max 1 \<lceil>of_int (int (pr_backlog (project_support s))) / (20 :: rat)\<rceil>))"]
      by (auto simp: ks_def)
    show ?thesis
      using False
      keys n
      by (auto simp: surge_decide_def obs Let_def reads py_or_def py_list_def comp_def
          wanted_skill hashed_def dict_of_view dict_of_val_VDict backlog py_int_def staffing_payload_def
          staffing_ids_def ks_def simp flip: pressure_def)
  qed
qed

end
