(* ===== verification/Order_Approval.thy ===== *)
theory Order_Approval imports Decisions begin

text \<open>
  The order workflow (\<^verbatim>\<open>order_to_activate.py\<close>) read together with its two activities
  (\<^verbatim>\<open>order_to_activate_activities.py\<close>): a run that ends with a command found room for the order or
  was approved by the capacity manager.
\<close>

section \<open>An order without room needs an approval\<close>

text \<open>An activity of a history that is the given function.\<close>

definition as_val :: "pydict result \<Rightarrow> pyval result" where
  "as_val r = (case r of Inl e \<Rightarrow> Inl e | Inr d \<Rightarrow> Inr (VDict d))"

definition runs_as :: "string \<Rightarrow> (pydict \<Rightarrow> pydict result) \<Rightarrow> entry list \<Rightarrow> bool" where
  "runs_as name f t \<longleftrightarrow> (\<forall>d r. Called name (VDict d) r \<in> set t \<longrightarrow> r = as_val (f d))"

lemma runs_as_Cons:
  "runs_as name f (Called name (VDict d) r # t) \<longleftrightarrow> r = as_val (f d) \<and> runs_as name f t"
  "a \<noteq> name \<Longrightarrow> runs_as name f (Called a v r # t) \<longleftrightarrow> runs_as name f t"
  "runs_as name f (Waited e n x # t) \<longleftrightarrow> runs_as name f t"
  "runs_as name f []"
  by (auto simp: runs_as_def)

lemma plays_activity:
  "plays (activity a v k) t (Inr d) \<longleftrightarrow> (\<exists>u t'. t = Called a v (Inr u) # t' \<and> plays (k u) t' (Inr d))"
  by (auto simp: activity_def plays_Act_iff try_to_def split: sum.splits) (metis sum.exhaust)

lemma plays_try_to: "plays (try_to r k) t (Inr d) \<longleftrightarrow> (\<exists>a. r = Inr a \<and> plays (k a) t (Inr d))"
  by (cases r) auto

lemma plays_race:
  "plays (race e n late k) t (Inr d) \<longleftrightarrow>
     (\<exists>t'. t = Waited e n None # t' \<and> plays late t' (Inr d)) \<or>
     (\<exists>u t'. t = Waited e n (Some u) # t' \<and> plays (k u) t' (Inr d))"
  by (auto simp: race_def plays_Race_iff split: option.splits)

lemma answered_Cons:
  "answered [] = (\<lambda>_. None)" "answered (Called a v r # t) = answered t"
  "answered (Waited e n x # t) = [e \<mapsto> x] ++ answered t"
  by (simp_all add: answered_def waits_def)

lemma plays_typed_checkpoint:
  "plays (typed_checkpoint wid cx wt kind p k) t (Inr d) \<longleftrightarrow>
     (\<exists>u t'. t = Called ''checkpoint_activity_trigger'' (VDict (checkpoint_entry wid (VStr (cx_instance cx))
        kind (dict_set ''workflow_type'' wt p))) (Inr u) # t' \<and> plays k t' (Inr d))"
  by (simp add: typed_checkpoint_def checkpoint_def plays_activity)

lemma order_command_reads:
  assumes "order_command fr p = Inr out" "dict_get out ''command'' \<noteq> VNone"
    and "dict_get p ''feasibility'' = VDict f" "truthy (dict_get f ''requires_approval'')"
  shows "get_of (py_or (dict_get p ''approval'') (VDict [])) ''decision'' = Inr (VStr ''approve'')"
  using assms
  by (auto simp: order_command_def bind_result_Inr_iff sub_of_def Let_def get_of_def py_or_def
      dict_of_val_def split: if_splits)

lemma order_prepare_plays:
  assumes "plays (order_prepare_command inp (VDict f) ap) t (Inr d)"
    and "runs_as ''order_activation_prepare_activity_trigger'' (order_command fr) t"
    and "dict_get d ''command'' \<noteq> VNone" "truthy (dict_get f ''requires_approval'')"
  shows "get_of (py_or ap (VDict [])) ''decision'' = Inr (VStr ''approve'') \<and> answered t = (\<lambda>_. None)"
proof -
  let ?p = "dict_merge inp [(''feasibility'', VDict f), (''approval'', ap)]"
  obtain u where t: "t = [Called ''order_activation_prepare_activity_trigger'' (VDict ?p) (Inr u)]"
    and d: "get_of u ''command'' = Inr (dict_get d ''command'')"
    using assms(1) by (auto simp: order_prepare_command_def plays_activity plays_try_to)
  obtain out where out: "order_command fr ?p = Inr out" "u = VDict out"
    using assms(2) by (auto simp: t runs_as_Cons as_val_def split: sum.splits)
  have "dict_get ?p ''feasibility'' = VDict f" "dict_get ?p ''approval'' = ap"
    by (simp_all add: dict_merge_def)
  with order_command_reads[OF out(1)] assms(3,4) d out(2) show ?thesis
    by (simp add: t answered_Cons get_of_def[of "VDict out"] dict_of_val_def[of "VDict out"])
qed

lemma order_feasibility_flags:
  "order_feasibility parse inp = Inr f \<Longrightarrow>
   dict_get f ''requires_approval'' = VBool (dict_get f ''feasible'' \<noteq> VBool True)"
  by (auto simp: order_feasibility_def bind_result_Inr_iff Let_def)

lemma order_approve_plays:
  assumes "plays (order_approve cx wid wt inp (VDict f)) t (Inr d)"
    and "runs_as ''order_activation_prepare_activity_trigger'' (order_command fr) t"
    and "dict_get d ''command'' \<noteq> VNone" "truthy (dict_get f ''requires_approval'')"
  shows "decides (answered t ''capacity_manager_decision'') ''approve''"
proof -
  obtain x y u t' where t: "t = Called ''checkpoint_activity_trigger'' x y #
      Waited ''capacity_manager_decision'' 5 (Some u) # t'"
    and rest: "\<exists>x y t2. t' = Called ''checkpoint_activity_trigger'' x y # t2 \<and>
      plays (order_prepare_command inp (VDict f) (py_or u (VDict []))) t2 (Inr d)"
    using assms(1,3,4)
    by (auto simp: order_approve_def Let_def plays_typed_checkpoint plays_try_to plays_race
        no_command_def get_of_def dict_of_val_def)
  from rest obtain x' y' t2 where t': "t' = Called ''checkpoint_activity_trigger'' x' y' # t2"
    and go: "plays (order_prepare_command inp (VDict f) (py_or u (VDict []))) t2 (Inr d)" by blast
  have "runs_as ''order_activation_prepare_activity_trigger'' (order_command fr) t2"
    using assms(2) by (simp add: t t' runs_as_Cons)
  from order_prepare_plays[OF go this assms(3,4)] show ?thesis
    by (simp add: t t' answered_Cons decides_def py_or_def split: if_splits)
qed

lemma order_plays:
  assumes run: "plays (order_to_activate cx) t (Inr d)" and ready: "dict_get d ''command'' \<noteq> VNone"
    and feas: "runs_as ''order_activation_feasibility_activity_trigger'' (order_feasibility parse) t"
    and prep: "runs_as ''order_activation_prepare_activity_trigger'' (order_command fr) t"
  shows "\<exists>inp f. input_of cx = Inr inp \<and> order_feasibility parse inp = Inr f \<and>
    (dict_get f ''feasible'' = VBool True \<or> decides (answered t ''capacity_manager_decision'') ''approve'')"
proof (cases "input_of cx")
  case (Inl e)
  with run show ?thesis by (simp add: order_to_activate_def)
next
  case (Inr inp)
  let ?cp = "''checkpoint_activity_trigger''"
  obtain wid wt v t' x1 x2 x3 x4 x5 y1 y2 y3 y4 y5 where
      t: "t = Called ?cp x1 y1 # Called ?cp x2 y2 # Called ?cp x3 y3 # Called ?cp x4 y4 #
        Called ''order_activation_feasibility_activity_trigger'' (VDict inp) (Inr v) # Called ?cp x5 y5 # t'"
    and go: "plays (order_approve cx wid wt inp v) t' (Inr d)"
    using run by (auto simp: order_to_activate_def Let_def Inr plays_typed_checkpoint plays_activity)
  have same: "answered t = answered t'" and sub: "set t' \<subseteq> set t"
    and check: "Called ''order_activation_feasibility_activity_trigger'' (VDict inp) (Inr v) \<in> set t"
    by (auto simp: t answered_Cons)
  have "Inr v = as_val (order_feasibility parse inp)"
    using feas check by (auto simp: runs_as_def)
  then obtain f where f: "order_feasibility parse inp = Inr f" "v = VDict f"
    by (auto simp: as_val_def split: sum.splits)
  have "runs_as ''order_activation_prepare_activity_trigger'' (order_command fr) t'"
    using prep sub by (auto simp: runs_as_def)
  from order_approve_plays[OF go[unfolded f(2)] this ready] order_feasibility_flags[OF f(1)]
  show ?thesis using Inr f(1) same by auto
qed

end
