(* ===== verification/Workflow_Properties.thy ===== *)
theory Workflow_Properties
  imports Fleet_Workflows Segment_Workflows Claim_Workflows Hiring Aurora Process_Profiles Order_Approval
begin

text \<open>
  The properties of the durable workflows (\<^verbatim>\<open>src/api/functions/workflows/\<close>,
  \<^verbatim>\<open>src/verticals/telco/durable/\<close>): the life every run leads, and what a run that
  returns says of the answers it was given.  Each holds of every history the runtime may produce
  and is followed by a run against a concrete host.
\<close>

section \<open>Concrete runs\<close>

text \<open>
  A host on which every activity returns an empty dictionary and every event is answered by the
  same decision, and the context the witnesses run in.
\<close>

definition answering :: "string \<Rightarrow> host" where
  "answering s =
     \<lparr>on_activity = (\<lambda>_ _. Inr (VDict [])),
      on_event = (\<lambda>_. Some (VDict [(''decision'', VStr s)])),
      on_children = (\<lambda>cs. Inr (map (\<lambda>_. VDict [(''status'', VStr ''completed'')]) cs))\<rparr>"

definition demo_cx :: ctx where
  "demo_cx =
     \<lparr>cx_input = VDict [(''workflow_id'', VStr ''WF-1'')], cx_instance = ''wf-1'',
      cx_float = (\<lambda>_. []), cx_exc = (\<lambda>_. []), cx_retries_env = None\<rparr>"

lemma answering_simps [simp]:
  "on_activity (answering s) a v = Inr (VDict [])"
  "on_event (answering s) e = Some (VDict [(''decision'', VStr s)])"
  "on_children (answering s) cs = Inr (map (\<lambda>_. VDict [(''status'', VStr ''completed'')]) cs)"
  by (simp_all add: answering_def)

lemma demo_cx_simps [simp]:
  "cx_input demo_cx = VDict [(''workflow_id'', VStr ''WF-1'')]" "cx_instance demo_cx = ''wf-1''"
  "cx_float demo_cx = (\<lambda>_. [])" "cx_exc demo_cx = (\<lambda>_. [])" "cx_retries_env demo_cx = None"
  by (simp_all add: demo_cx_def)

lemma play_simps [simp]:
  "play h (activity a v k) = log_entry (Called a v (on_activity h a v))
     (case on_activity h a v of Inl e \<Rightarrow> ([], Inl e) | Inr u \<Rightarrow> play h (k u))"
  "play h (race e n late k) = log_entry (Waited e n (on_event h e))
     (case on_event h e of None \<Rightarrow> play h late | Some u \<Rightarrow> play h (k u))"
  "play h (checkpoint wid iid kind p w) = log_entry
     (Called ''checkpoint_activity_trigger'' (VDict (checkpoint_entry wid iid kind p))
        (on_activity h ''checkpoint_activity_trigger'' (VDict (checkpoint_entry wid iid kind p))))
     (case on_activity h ''checkpoint_activity_trigger'' (VDict (checkpoint_entry wid iid kind p)) of
        Inl e \<Rightarrow> ([], Inl e) | Inr _ \<Rightarrow> play h w)"
  by (auto simp: activity_def race_def checkpoint_def try_to_def split: sum.split option.split)

lemma log_entry_pair [simp]: "log_entry e (t, r) = (e # t, r)"
  by (simp add: log_entry_def)

lemma demo_input [simp]: "input_of demo_cx = Inr [(''workflow_id'', VStr ''WF-1'')]"
  by (simp add: input_of_def py_or_def dict_of_val_def)

section \<open>Every workflow lives well\<close>

definition durable_flows :: "(string \<Rightarrow> string) \<Rightarrow> ctx \<Rightarrow> orch list" where
  "durable_flows sha cx =
     map (\<lambda>f. snd f cx) fleet_flows @
     [transfer_flow cx, training_flow cx, creative_flow cx, ap_invoice_flow cx, expense_flow cx,
      hiring_flow cx, aurora_flow sha cx]"

text \<open>C2: Every fleet workflow keeps the life the operator surfaces rely on, whatever its activities
  return or raise and whoever wins its races: it announces its start first and once, announces every gate
  before it waits there and under the event it then waits for, reports the answer before the next gate, does
  not act after a timer has won, and a run that returns has reported its end exactly once, as its last act.\<close>
theorem workflow_life:
  assumes "w \<in> set (durable_flows sha cx)" and "plays w t out"
  shows "well_lived t out"
proof -
  have "lives Fresh w"
    using assms(1)
    by (auto simp: durable_flows_def fleet_flows_def fleet_lives transfer_flow_lives training_flow_lives
        creative_flow_lives ap_invoice_flow_lives expense_flow_lives hiring_flow_lives aurora_flow_lives)
  then show ?thesis using assms(2) by (rule well_lived_I)
qed

theorem workflow_life_witness:
  "\<exists>t d. play (answering ''approve'') (travel_flow demo_cx) = (t, Inr d) \<and>
     dict_get d ''status'' = VStr ''completed'' \<and> well_lived t (Inr d)"
proof -
  obtain t d where run: "play (answering ''approve'') (travel_flow demo_cx) = (t, Inr d)"
    and "dict_get d ''status'' = VStr ''completed''"
    by (simp add: travel_flow_def Let_def)
  moreover have "well_lived t (Inr d)"
    using workflow_life[OF _ played.run_returns[OF run], of undefined demo_cx]
    by (simp add: durable_flows_def fleet_flows_def)
  ultimately show ?thesis by blast
qed

section \<open>Supplier invoices and claims\<close>

text \<open>C12: A run of the invoice workflow that returns reports completion exactly when the clerk approved, or
  when the clerk escalated and the controller approved; a timeout, a rejection, an unknown answer and an
  escalation the controller does not approve all end otherwise.  A clerk's rejection ends the run as rejected
  without the controller being asked, although a comment of the program says that the controller still gets to
  see a rejected invoice.\<close>
theorem invoice_needs_approval:
  assumes "plays (ap_invoice_flow cx) t (Inr d)"
  shows "(dict_get d ''status'' = VStr ''completed'' \<longleftrightarrow> invoice_approved (answered t)) \<and>
    (decides (answered t ''ap_invoice_processing_decision'') ''reject'' \<longrightarrow>
       dict_get d ''status'' = VStr ''rejected'' \<and> answered t ''controller_signoff_decision'' = None)"
  using tellsD[OF assms ap_invoice_tells] by (simp add: invoice_accounted_def)

theorem invoice_needs_approval_witness:
  "\<exists>t d. play (answering ''escalate'') (ap_invoice_flow demo_cx) = (t, Inr d) \<and>
     dict_get d ''status'' \<noteq> VStr ''completed'' \<and> \<not> invoice_approved (answered t)"
proof -
  obtain t d where run: "play (answering ''escalate'') (ap_invoice_flow demo_cx) = (t, Inr d)"
    and st: "dict_get d ''status'' \<noteq> VStr ''completed''"
    by (simp add: invoice_defs Let_def py_or_def unpack_def get_of_def dict_of_val_def conclude_invoice_def
        dict_merge_def)
  with invoice_needs_approval[OF played.run_returns[OF run]] show ?thesis by blast
qed

text \<open>A run of the expense workflow that returns reports a rejection exactly when the reviewer's word is
  one of the rejecting ones, and completion exactly when no justification was needed or the reviewer
  answered with any other word; a red claim is never completed without a notification.\<close>
theorem claim_follows_reviewer:
  assumes "plays (expense_flow cx) t (Inr d)"
  shows "(dict_get d ''status'' = VStr ''rejected'' \<longleftrightarrow>
            (\<exists>s \<in> set decision_rejected. reviewer_says (answered t) s)) \<and>
         (dict_get d ''status'' = VStr ''completed'' \<longleftrightarrow>
            ''notify_activity_trigger'' \<notin> set (called t) \<or>
            (\<exists>s. s \<notin> set decision_rejected \<and> reviewer_says (answered t) s)) \<and>
         (dict_get d ''verdict'' = VStr ''red'' \<longrightarrow> ''notify_activity_trigger'' \<in> set (called t))"
  using tellsD[OF assms expense_tells] by (simp add: claim_accounted_def)

theorem claim_follows_reviewer_witness:
  "\<exists>t d. play (answering ''reject''\<lparr>on_activity := \<lambda>_ _. Inr (VDict [(''verdict'', VStr ''red'')])\<rparr>)
       (expense_flow demo_cx) = (t, Inr d) \<and>
     dict_get d ''status'' = VStr ''rejected'' \<and> (\<exists>s \<in> set decision_rejected. reviewer_says (answered t) s)"
proof -
  obtain t d where run: "play (answering ''reject''\<lparr>on_activity := \<lambda>_ _. Inr (VDict [(''verdict'', VStr ''red'')])\<rparr>)
       (expense_flow demo_cx) = (t, Inr d)"
    and st: "dict_get d ''status'' = VStr ''rejected''"
    by (simp add: expense_defs Let_def py_or_def dict_of_val_def dict_get_or_def word_of_def get_if_dict_def
        lower_of_def lower_def lower_char_def decision_rejected_def)
  with claim_follows_reviewer[OF played.run_returns[OF run]] show ?thesis by blast
qed

section \<open>Retried segments\<close>

text \<open>C13: The onboarding segment of a hiring runs at most R + 1 times, R the configured number of
  retries, and never again after its output was refused when it had already called a tool whose effect
  cannot be undone.\<close>
theorem irreversible_not_retried:
  assumes "plays (hiring_flow cx) t out" and "cx_retries cx = Inr R"
  shows "count_list (called t) segment_f_call \<le> nat (R + 1) \<and>
    (\<forall>t1 v r t2. t = t1 @ Called ''validate_segment_f_output_activity_trigger'' v r # t2 \<longrightarrow>
       refused_irreversible v r \<longrightarrow> segment_f_call \<notin> set (called t2))"
proof -
  have run: "watch (onboarding_step R) (0, False) t \<noteq> None"
    using careful_watch[OF assms(1) hiring_flow_careful[OF assms(2)]] .
  then obtain m b where "watch (onboarding_step R) (0, False) t = Some (m, b)" by auto
  from watch_onboarding[OF this] have "count_list (called t) segment_f_call \<le> nat (R + 1)" by linarith
  with run watch_refused show ?thesis by blast
qed

text \<open>A host on which the onboarding segment sends a mail and its check refuses the output.\<close>

definition mailing :: host where
  "mailing = answering ''approve''\<lparr>on_activity := (\<lambda>a _.
     if a = segment_f_call then
       Inr (VDict [(''_tool_call_summary'', VList [VDict [(''name'', VStr ''send_welcome_email'')]])])
     else if a = ''validate_segment_f_output_activity_trigger'' then Inr (VDict [(''ok'', VBool False)])
     else Inr (VDict [(''ok'', VBool True), (''output'', VDict [(''verdict'', VStr ''strong'')])]))\<rparr>"

lemma mailing_simps:
  "on_activity mailing a v =
    (if a = segment_f_call then
       Inr (VDict [(''_tool_call_summary'', VList [VDict [(''name'', VStr ''send_welcome_email'')]])])
     else if a = ''validate_segment_f_output_activity_trigger'' then Inr (VDict [(''ok'', VBool False)])
     else Inr (VDict [(''ok'', VBool True), (''output'', VDict [(''verdict'', VStr ''strong'')])]))"
  "on_event mailing e = Some (VDict [(''decision'', VStr ''approve'')])"
  by (simp_all add: mailing_def)

lemma demo_retries: "cx_retries demo_cx = Inr 2"
  by (simp add: cx_retries_def py_int_def parse_int_def strip_def is_space_def)

lemma mailing_once: "count_list (called (fst (play mailing (hiring_flow demo_cx)))) segment_f_call = 1"
  by code_simp

theorem irreversible_not_retried_witness:
  "\<exists>t out. play mailing (hiring_flow demo_cx) = (t, out) \<and>
     count_list (called t) segment_f_call = 1 \<and> count_list (called t) segment_f_call \<le> nat (2 + 1)"
proof -
  obtain t out where run: "play mailing (hiring_flow demo_cx) = (t, out)" by fastforce
  with irreversible_not_retried[OF played.run_returns[OF run] demo_retries] mailing_once show ?thesis
    by auto
qed

section \<open>Transfers\<close>

text \<open>C39: A transfer that no timer ends reports completion and has migrated the identity, whatever the two
  managers answered: the workflow waits for their decisions and does not read them.\<close>
theorem transfer_migrates_anyway:
  assumes "plays (transfer_flow cx) t (Inr d)" and "None \<notin> ran (answered t)"
  shows "dict_get d ''status'' = VStr ''completed'' \<and>
    ''fleet_employee_transfer_identity_migration_activity_trigger'' \<in> set (called t)"
  using tellsD[OF assms(1) transfer_flow_migrates] assms(2) by (simp add: migrated_def)

text \<open>A host on which every check accepts and every gate is answered the same way.\<close>

definition accepting :: "string \<Rightarrow> host" where
  "accepting s = answering s\<lparr>on_activity :=
     (\<lambda>_ _. Inr (VDict [(''ok'', VBool True), (''output'', VDict [])]))\<rparr>"

theorem transfer_migrates_anyway_witness:
  "\<exists>t d. play (accepting ''reject'') (transfer_flow demo_cx) = (t, Inr d) \<and>
     dict_get d ''status'' = VStr ''completed'' \<and>
     ''fleet_employee_transfer_identity_migration_activity_trigger'' \<in> set (called t)"
proof -
  have "\<not> Option.is_none (case snd (play (accepting ''reject'') (transfer_flow demo_cx)) of Inr d \<Rightarrow> Some d | _ \<Rightarrow> None)
     \<and> list_all (\<lambda>x. snd x \<noteq> None) (waits (fst (play (accepting ''reject'') (transfer_flow demo_cx))))"
    by code_simp
  then obtain t d where run: "play (accepting ''reject'') (transfer_flow demo_cx) = (t, Inr d)"
    and "\<forall>x \<in> set (waits t). snd x \<noteq> None"
    by (cases "play (accepting ''reject'') (transfer_flow demo_cx)") (auto simp: list_all_iff split: sum.splits)
  then have "None \<notin> ran (answered t)"
    by (fastforce simp: answered_def ran_def dest!: map_of_SomeD)
  with run transfer_migrates_anyway[OF played.run_returns[OF run]] show ?thesis by blast
qed

section \<open>Commands and their approvals\<close>

text \<open>C36: No command of a telco cascade or of the customer-care workflow is ready to be applied unless every
  gate the run waited at was answered, and answered with an approval.\<close>
theorem telco_commands_approved:
  assumes "plays w t (Inr d)" and "w \<in> {telco_cascade wt cx, customer_care cx}"
    and "dict_get d ''status'' = VStr ''decision_ready''"
  shows "all_approved (answered t)"
proof -
  have "tells (ready_approved None) (\<lambda>_. None, {}) w"
    using assms(2) telco_cascade_approved customer_care_approved by auto
  from tellsD[OF assms(1) this] assms(3) show ?thesis by (simp add: ready_approved_def)
qed

text \<open>A host on which an account's credit needs an approval.\<close>

definition crediting :: "string \<Rightarrow> host" where
  "crediting s = answering s\<lparr>on_activity := (\<lambda>a _. Inr (VDict
     [(''accounts'', VList [VDict [(''approval_required'', VBool True)]])]))\<rparr>"

theorem telco_commands_approved_witness:
  "\<exists>t d. play (crediting ''approve'') (customer_care demo_cx) = (t, Inr d) \<and>
     dict_get d ''status'' = VStr ''decision_ready'' \<and> waits t \<noteq> [] \<and> all_approved (answered t)"
proof -
  have "(case play (crediting ''approve'') (customer_care demo_cx) of
      (t, Inr d) \<Rightarrow> dict_get d ''status'' = VStr ''decision_ready'' \<and> waits t \<noteq> [] | _ \<Rightarrow> False)"
    by code_simp
  then obtain t d where run: "play (crediting ''approve'') (customer_care demo_cx) = (t, Inr d)"
    and st: "dict_get d ''status'' = VStr ''decision_ready''" and w: "waits t \<noteq> []"
    by (cases "play (crediting ''approve'') (customer_care demo_cx)") (auto split: sum.splits)
  with telco_commands_approved[OF played.run_returns[OF run] _ st] show ?thesis by blast
qed

section \<open>The process library\<close>








section \<open>Orders\<close>

text \<open>C38: An order workflow that ends with a command, its two activities computed as the code computes them,
  found room for the order at its site or was approved by the capacity manager.\<close>
theorem order_needs_room_or_approval:
  assumes "plays (order_to_activate cx) t (Inr d)" and "dict_get d ''command'' \<noteq> VNone"
    and "runs_as ''order_activation_feasibility_activity_trigger'' (order_feasibility parse) t"
    and "runs_as ''order_activation_prepare_activity_trigger'' (order_command fr) t"
  shows "\<exists>inp f. input_of cx = Inr inp \<and> order_feasibility parse inp = Inr f \<and>
    (dict_get f ''feasible'' = VBool True \<or> decides (answered t ''capacity_manager_decision'') ''approve'')"
  using assms by (rule order_plays)

text \<open>The two activities of the order workflow, on a host that answers every gate the same way.\<close>

definition order_host :: "string \<Rightarrow> host" where
  "order_host s = answering s\<lparr>on_activity := (\<lambda>a v. case v of
     VDict d \<Rightarrow>
       if a = ''order_activation_feasibility_activity_trigger'' then as_val (order_feasibility (\<lambda>_. None) d)
       else if a = ''order_activation_prepare_activity_trigger'' then as_val (order_command (\<lambda>_. []) d)
       else Inr VNone
     | _ \<Rightarrow> Inr VNone)\<rparr>"

text \<open>Every call a run logs was answered by its host.\<close>

lemma play_calls: "Called a v r \<in> set (fst (play h w)) \<Longrightarrow> r = on_activity h a v"
  by (induction w) auto

lemma order_host_runs:
  "runs_as ''order_activation_feasibility_activity_trigger'' (order_feasibility (\<lambda>_. None)) (fst (play (order_host s) w))"
  "runs_as ''order_activation_prepare_activity_trigger'' (order_command (\<lambda>_. [])) (fst (play (order_host s) w))"
  by (auto simp: runs_as_def order_host_def dest!: play_calls)

theorem order_needs_room_or_approval_witness:
  "\<exists>t d. play (order_host ''approve'') (order_to_activate demo_cx) = (t, Inr d) \<and>
     dict_get d ''command'' \<noteq> VNone \<and>
     (\<exists>inp f. input_of demo_cx = Inr inp \<and> order_feasibility (\<lambda>_. None) inp = Inr f \<and>
        (dict_get f ''feasible'' = VBool True \<or> decides (answered t ''capacity_manager_decision'') ''approve''))"
proof -
  have "(case play (order_host ''approve'') (order_to_activate demo_cx) of
      (t, Inr d) \<Rightarrow> dict_get d ''command'' \<noteq> VNone | _ \<Rightarrow> False)"
    by code_simp
  then obtain t d where run: "play (order_host ''approve'') (order_to_activate demo_cx) = (t, Inr d)"
    and c: "dict_get d ''command'' \<noteq> VNone"
    by (cases "play (order_host ''approve'') (order_to_activate demo_cx)") (auto split: sum.splits)
  have "runs_as ''order_activation_feasibility_activity_trigger'' (order_feasibility (\<lambda>_. None)) t"
    "runs_as ''order_activation_prepare_activity_trigger'' (order_command (\<lambda>_. [])) t"
    using order_host_runs[of "''approve''" "order_to_activate demo_cx"] run by simp_all
  from run c order_needs_room_or_approval[OF played.run_returns[OF run] c this] show ?thesis by blast
qed

section \<open>Budget response\<close>

text \<open>The budget-response workflow calls the activity that applies a policy only when the operator has
  answered its one gate with an approval, in every run, whether it returns or raises.\<close>
theorem policy_needs_approval:
  assumes "plays (aurora_flow sha cx) t out" and "''aurora_apply_policy_activity_trigger'' \<in> set (called t)"
  shows "decides (answered t ''aurora_budget_response_decision'') ''approve''"
  using tellsD[OF assms(1) aurora_flow_tells] assms(2) by (simp add: aurora_governed_def)

text \<open>A host whose analysis recommends a budget policy.\<close>

definition recommending :: "string \<Rightarrow> host" where
  "recommending s = answering s\<lparr>on_activity := (\<lambda>_ _. Inr (VDict
     [(''recommendation'', VStr ''raise''),
      (''proposed_action'', VDict [(''kind'', VStr ''policy''),
         (''attributes'', VDict [(''scope'', VStr ''media'')])])]))\<rparr>"

theorem policy_needs_approval_witness:
  "\<exists>t out. play (recommending ''approve'') (aurora_flow (\<lambda>s. s) demo_cx) = (t, out) \<and>
     ''aurora_apply_policy_activity_trigger'' \<in> set (called t) \<and>
     decides (answered t ''aurora_budget_response_decision'') ''approve''"
proof -
  obtain t out where run: "play (recommending ''approve'') (aurora_flow (\<lambda>s. s) demo_cx) = (t, out)" by fastforce
  have "''aurora_apply_policy_activity_trigger'' \<in> set (called (fst (play (recommending ''approve'') (aurora_flow (\<lambda>s. s) demo_cx))))"
    by code_simp
  with run have "''aurora_apply_policy_activity_trigger'' \<in> set (called t)" by simp
  with run policy_needs_approval[OF played.run_returns[OF run]] show ?thesis by blast
qed

text \<open>The synthesis of a budget response over child runs of the invoice workflow reports completion
  exactly when every one of the child runs was approved, by its clerk or by its controller.\<close>
theorem response_completes_iff_invoices_approved:
  assumes "list_all2 (\<lambda>run d. plays (ap_invoice_flow (fst run)) (snd run) (Inr d)) runs ds"
    and "aurora_synthesise_activity
      [(''workflow_id'', w), (''child_workflow_ids'', c), (''queued_invoice_ids'', VList q),
       (''child_results'', VList (map VDict ds))] = Inr out"
  shows "dict_get out ''status'' = VStr ''completed'' \<longleftrightarrow>
    (\<forall>run \<in> set runs. invoice_approved (answered (snd run)))"
proof -
  have "(\<forall>d \<in> set ds. dict_get d ''status'' = VStr ''completed'') \<longleftrightarrow>
      (\<forall>run \<in> set runs. invoice_approved (answered (snd run)))"
    using assms(1)
  proof (induction rule: list_all2_induct)
    case (Cons run runs d ds)
    then show ?case
      using tellsD[OF Cons.hyps(1) ap_invoice_tells] by (simp add: invoice_accounted_def)
  qed simp
  with child_failed_iff[OF assms(2)] show ?thesis by simp
qed

theorem response_completes_iff_invoices_approved_witness:
  "\<exists>t d out. play (answering ''reject'') (ap_invoice_flow demo_cx) = (t, Inr d) \<and>
     aurora_synthesise_activity
      [(''workflow_id'', VNone), (''child_workflow_ids'', VNone), (''queued_invoice_ids'', VList []),
       (''child_results'', VList (map VDict [d]))] = Inr out \<and>
     (dict_get out ''status'' = VStr ''completed'' \<longleftrightarrow> invoice_approved (answered t))"
proof -
  obtain t d where run: "play (answering ''reject'') (ap_invoice_flow demo_cx) = (t, Inr d)"
    by (simp add: invoice_defs Let_def py_or_def unpack_def get_of_def dict_of_val_def conclude_invoice_def
        dict_merge_def rejection_payload_def)
  obtain out where out: "aurora_synthesise_activity
      [(''workflow_id'', VNone), (''child_workflow_ids'', VNone), (''queued_invoice_ids'', VList []),
       (''child_results'', VList (map VDict [d]))] = Inr out"
    by (simp add: aurora_synthesise_activity_def Let_def dict_get_def py_list_def)
  have "list_all2 (\<lambda>run d. plays (ap_invoice_flow (fst run)) (snd run) (Inr d)) [(demo_cx, t)] [d]"
    using played.run_returns[OF run] by simp
  from run out response_completes_iff_invoices_approved[OF this out] show ?thesis by auto
qed

end
