(* ===== verification/Support_Reserve.thy ===== *)
theory Support_Reserve imports Support_Facts begin

text \<open>
  Which workers a command may move: along the runs of the support world in which the segments of a
  worker's loop run only while its process is alive (\<^verbatim>\<open>_start_worker\<close>, and the interrupt of
  \<^verbatim>\<open>_return_worker_after\<close> in \<^verbatim>\<open>api/server/world/packs/support.py\<close>), the workers of the reserve team
  are exactly in status reserve, so none of them is refused by the validation of a reallocation.
\<close>

section \<open>Runs of the processes\<close>

text \<open>
  A worker takes and resolves tickets in its own process.  The return of a worker interrupts that
  process once the worker is not busy, and moves the worker in its next segment, after the interrupt
  was delivered.
\<close>

inductive process_step :: "'a support_scheme \<Rightarrow> 'a support_scheme \<Rightarrow> bool" where
  commanded: "process_step s (snd (support_apply c s))"
| arrived: "process_step s (snd (create_ticket cid sev sk s))"
| taken: "wid \<in> su_alive s \<Longrightarrow> process_step s (snd (worker_take wid tid u s))"
| resolved: "wid \<in> su_alive s \<Longrightarrow> process_step s (snd (resolve_ticket tid wid s))"
| sla: "process_step s (snd (sla_fired tid s))"
| gave_up: "abandon_wanted tid s = Inr True \<Longrightarrow> process_step s (snd (abandon_taken tid s))"
| sensed: "process_step s (sensor_tick s)"
| scheduled: "process_step s (snd (schedule_surge start m d s))"
| surged: "process_step s (snd (surge_start start m d s))"
| calmed: "process_step s (surge_end e m s)"
| interrupted: "return_ready wid s = Inr True \<Longrightarrow> process_step s (interrupt_worker wid s)"
| returned: "wid \<notin> su_alive s \<Longrightarrow> process_step s (snd (return_worker wid e s))"
| clocked: "rt_now s \<le> t \<Longrightarrow> process_step s (s\<lparr>rt_now := t\<rparr>)"
| elsewhere: "same_support s s' \<Longrightarrow> process_step s s'"

lemma process_step_support: "process_step s s' \<Longrightarrow> support_step s s'"
  by (induction rule: process_step.induct) (blast intro: support_step.intros)+

section \<open>The reserve\<close>

definition reserve_ok :: "'a support_scheme \<Rightarrow> bool" where
  "reserve_ok s \<longleftrightarrow>
     distinct (map fst (su_workers s)) \<and>
     (\<forall>wid w. map_of (su_workers s) wid = Some w \<longrightarrow>
        (w_team w = reserve_team \<longrightarrow> w_status w = ''reserve'' \<and> wid \<notin> su_alive s))"

lemma reserve_ok_same:
  "su_workers s' = su_workers s \<Longrightarrow> su_alive s' \<subseteq> su_alive s \<Longrightarrow> reserve_ok s \<Longrightarrow> reserve_ok s'"
  unfolding reserve_ok_def by (simp only:) blast

text \<open>What the process of a worker does to the worker leaves it in its team, which is not the
  reserve.\<close>

lemma reserve_ok_alive:
  assumes "reserve_ok s" and "map_of (su_workers s) wid = Some w" "wid \<in> su_alive s"
    and "su_workers s' = dict_set wid w' (su_workers s)" "w_team w' = w_team w"
    and "su_alive s' = su_alive s"
  shows "reserve_ok s'"
  using assms by (auto simp: reserve_ok_def distinct_dict_set)

lemma take_reserve:
  assumes "support_inv s" and "reserve_ok s" and "wid \<in> su_alive s"
  shows "reserve_ok (snd (worker_take wid tid u s))"
proof (cases "map_of (su_workers s) wid")
  case None
  then show ?thesis
    using assms(2)
    by (cases "map_of (su_tickets s) tid")
       (auto simp: worker_take_def Let_def item_def intro: reserve_ok_same[rotated 2])
next
  case (Some w)
  then have id: "w_id w = wid" using assms(1) by (auto simp: support_inv_def teams_ok_def)
  let ?s' = "snd (worker_take wid tid u s)"
  have "su_workers ?s' = su_workers s \<or>
      (\<exists>w'. su_workers ?s' = dict_set wid w' (su_workers s) \<and> w_team w' = w_team w)"
    using id Some
    by (cases "map_of (su_tickets s) tid";
        cases "base_minutes (t_severity (the (map_of (su_tickets s) tid)))")
       (auto simp: worker_take_def Let_def split_beta puts world_frame item_def dict_set_twice)
  moreover have "su_alive ?s' = su_alive s"
    by (cases "map_of (su_tickets s) tid"; cases "map_of (su_workers s) wid";
        cases "base_minutes (t_severity (the (map_of (su_tickets s) tid)))")
       (auto simp: worker_take_def Let_def split_beta puts world_frame item_def)
  ultimately show ?thesis
    using reserve_ok_same[OF _ _ assms(2), of ?s'] reserve_ok_alive[OF assms(2) Some assms(3), of ?s']
    by auto
qed

lemma resolve_reserve:
  assumes "support_inv s" and "reserve_ok s" and "wid \<in> su_alive s"
  shows "reserve_ok (snd (resolve_ticket tid wid s))"
proof (cases "map_of (su_workers s) wid")
  case None
  then show ?thesis
    using assms(2)
    by (cases "map_of (su_tickets s) tid") (auto simp: resolve_ticket_def Let_def item_def)
next
  case (Some w)
  then have id: "w_id w = wid" using assms(1) by (auto simp: support_inv_def teams_ok_def)
  let ?s' = "snd (resolve_ticket tid wid s)"
  have "su_workers ?s' = su_workers s \<or>
      (\<exists>w'. su_workers ?s' = dict_set wid w' (su_workers s) \<and> w_team w' = w_team w)"
    using id Some
    by (cases "map_of (su_tickets s) tid";
        cases "map_of (su_customers s) (t_customer (the (map_of (su_tickets s) tid)))")
       (auto simp: resolve_ticket_def Let_def split_beta puts world_frame item_def)
  moreover have "su_alive ?s' = su_alive s"
    by (cases "map_of (su_tickets s) tid"; cases "map_of (su_workers s) wid";
        cases "map_of (su_customers s) (t_customer (the (map_of (su_tickets s) tid)))")
       (auto simp: resolve_ticket_def Let_def split_beta puts world_frame item_def)
  ultimately show ?thesis
    using reserve_ok_same[OF _ _ assms(2), of ?s'] reserve_ok_alive[OF assms(2) Some assms(3), of ?s']
    by auto
qed

lemma apply_reserve:
  assumes "support_inv s" and "reserve_ok s"
  shows "reserve_ok (snd (support_apply c s))"
proof (cases "map_of (su_applied s) (cmd_id c)")
  case (Some e)
  with assms show ?thesis by (simp add: support_apply_def)
next
  case None
  have ok: "teams_ok (su_workers s) (su_teams s)" using assms(1) by (simp add: support_inv_def)
  from None show ?thesis
  proof (cases rule: apply_outcomes)
    case (valid ids)
    then show ?thesis
      using accept_effect[OF ok None] assms(2) by (fastforce simp: reserve_ok_def split: if_splits)
  next
    case overflow
    then show ?thesis using overflow_effect[OF None] assms(2) by simp
  next
    case rejected
    from reject_effect[OF None this] show ?thesis using reserve_ok_same[OF _ _ assms(2)] by fastforce
  qed
qed

definition keeps_keys :: "'a support_scheme \<Rightarrow> 'a support_scheme \<Rightarrow> bool" where
  "keeps_keys s s' \<longleftrightarrow> su_alive s' = su_alive s \<and>
     (distinct (map fst (su_workers s)) \<longrightarrow> distinct (map fst (su_workers s')))"

lemma keeps_keys_trans: "keeps_keys a b \<Longrightarrow> keeps_keys b c \<Longrightarrow> keeps_keys a c"
  by (simp add: keeps_keys_def)

lemma return_keys: "keeps_keys s (snd (return_worker wid e s))"
  unfolding return_worker_def Let_def split_beta
  by (intro and_then_rel[where R = keeps_keys, OF _ _ keeps_keys_trans])
     (auto simp: keeps_keys_def puts world_frame distinct_dict_set)

lemma return_reserve:
  assumes "support_inv s" and "reserve_ok s" and "wid \<notin> su_alive s"
  shows "reserve_ok (snd (return_worker wid e s))"
proof (cases "map_of (su_workers s) wid")
  case None
  with assms show ?thesis by (simp add: return_worker_def item_def)
next
  case (Some w)
  have ok: "teams_ok (su_workers s) (su_teams s)" using assms(1) by (simp add: support_inv_def)
  let ?s' = "snd (return_worker wid e s)"
  have keys: "su_alive ?s' = su_alive s" "distinct (map fst (su_workers ?s'))"
    using return_keys[of s wid e] assms(2) by (simp_all add: keeps_keys_def reserve_ok_def)
  obtain w' where w': "map_of (su_workers ?s') wid = Some w'" "w_status w' = ''reserve''"
    and others: "\<And>i. i \<noteq> wid \<Longrightarrow> map_of (su_workers ?s') i = map_of (su_workers s) i"
    using return_effect[OF ok Some, of e] by (metis snd_conv)
  have "w_status v = ''reserve'' \<and> i \<notin> su_alive ?s'"
    if "map_of (su_workers ?s') i = Some v" "w_team v = reserve_team" for i v
    using that w' others[of i] keys(1) assms(2,3) by (cases "i = wid") (auto simp: reserve_ok_def)
  with keys(2) show ?thesis by (simp add: reserve_ok_def)
qed

section \<open>Installation\<close>

definition hired_ok :: "'a support_scheme \<Rightarrow> bool" where
  "hired_ok s \<longleftrightarrow> distinct (map fst (su_workers s)) \<and> su_alive s = {} \<and>
     (\<forall>(k, w) \<in> set (su_workers s). w_team w = reserve_team \<longrightarrow> w_status w = ''reserve'')"

lemma hired_ok_worker: "hired_ok s \<Longrightarrow> hired_ok (create_worker i rate s)"
  using set_dict_set[of "worker_name i" "new_worker (su_config s) i rate" "su_workers s"]
  by (auto simp: hired_ok_def create_worker_def Let_def puts world_frame distinct_dict_set
      new_worker_def home_team_def split: option.split)

lemma hired_ok_workers: "hired_ok s \<Longrightarrow> hired_ok (fold (\<lambda>i. create_worker i (rates i)) is s)"
  by (induction "is" arbitrary: s) (simp_all add: hired_ok_worker)

lemma create_customer_alive: "su_alive (create_customer i seg s) = su_alive s"
  by (simp add: create_customer_def Let_def world_frame puts)

lemma create_customers_alive: "su_alive (fold (\<lambda>i. create_customer i (segs i)) is s) = su_alive s"
  by (induction "is" arbitrary: s) (simp_all add: create_customer_alive)

lemma started_alive:
  fixes s :: "'a support_scheme"
  defines "st \<equiv> \<lambda>(wid, w). if w_team w = ''TEAM-SUPPORT'' then start_worker wid else id"
  shows "wid \<in> su_alive (fold st ws s) \<longleftrightarrow>
    wid \<in> su_alive s \<or> (\<exists>w. (wid, w) \<in> set ws \<and> w_team w = support_team)"
  by (induction ws arbitrary: s) (auto simp: st_def world_frame split: if_splits)

lemma support_install_reserve:
  assumes "support_init cfg s0 = Inr s"
  shows "reserve_ok (support_install segs rates s)"
proof -
  define s1 where "s1 = snd (emit ''simulation.started'' (Some ''scenario:support'') None None None
      [(''seed'', VInt (rt_seed s)), (''config'', VDict (config_to_dict (su_config s)))] s)"
  define s2 where "s2 = fold (\<lambda>i. create_customer i (segs i)) [1..<Suc (cf_customers (su_config s))] s1"
  define t where "t = create_teams s2"
  define s3 where "s3 = fold (\<lambda>i. create_worker i (rates i)) [1..<Suc (cf_workers (su_config s))] t"
  define s4 where "s4 = fold (\<lambda>(wid, w). if w_team w = ''TEAM-SUPPORT'' then start_worker wid else id)
      (su_workers s3) s3"
  have "su_workers s1 = []" "su_alive s1 = {}"
    using assms by (auto simp: support_init_def s1_def world_frame split: if_splits)
  then have "su_workers t = []" "su_alive t = {}"
    using create_customers_effect[of segs _ s1] create_customers_alive[of segs _ s1]
    by (simp_all add: t_def s2_def create_teams_def puts)
  then have h: "hired_ok s3"
    unfolding s3_def by (intro hired_ok_workers) (simp add: hired_ok_def)
  have w: "su_workers s4 = su_workers s3"
    using start_workers_frame[of "su_workers s3" s3, folded s4_def] by simp
  have "wid \<notin> su_alive s4" if "map_of (su_workers s4) wid = Some v" "w_team v = reserve_team" for wid v
  proof -
    have "u = v" if "(wid, u) \<in> set (su_workers s3)" for u
      using that h \<open>map_of (su_workers s4) wid = Some v\<close> by (simp add: hired_ok_def w)
    then show ?thesis
      using that h started_alive[of wid "su_workers s3" s3, folded s4_def] by (auto simp: hired_ok_def)
  qed
  then have ok: "reserve_ok s4"
    using h by (fastforce simp: reserve_ok_def hired_ok_def w dest: map_of_SomeD)
  have "support_install segs rates s = spawn SensorLoop (spawn ArrivalLoop s4)"
    by (simp only: support_install_def Let_def s1_def s2_def t_def s3_def s4_def)
  then show ?thesis using ok by (simp add: spawn_def reserve_ok_def)
qed

section \<open>Reachable worlds\<close>

lemma watch_alive:
  "su_alive (snd (create_ticket cid sev sk s)) = su_alive s"
  "su_alive (snd (sla_fired tid s)) = su_alive s"
  "su_alive (snd (abandon_taken tid s)) = su_alive s"
  by (cases "map_of (su_customers s) cid"; cases "map_of (su_tickets s) tid";
      cases "map_of (su_customers s) (t_customer (the (map_of (su_tickets s) tid)))";
      simp add: create_ticket_def sla_fired_def abandon_taken_def Let_def split_beta puts world_frame item_def)+

lemma process_step_reserve: "process_step s s' \<Longrightarrow> support_inv s \<Longrightarrow> reserve_ok s \<Longrightarrow> reserve_ok s'"
proof (induction rule: process_step.induct)
  case (commanded s c)
  then show ?case by (intro apply_reserve)
next
  case (taken wid s tid u)
  then show ?case by (intro take_reserve)
next
  case (resolved wid s tid)
  then show ?case by (intro resolve_reserve)
next
  case (returned wid s e)
  then show ?case by (intro return_reserve)
qed (auto intro: reserve_ok_same[rotated 2] simp: create_ticket_teams watch_teams watch_alive
       sensor_tick_def schedule_surge_def spawn_def surge_start_def surge_end_def interrupt_worker_def
       same_support_def Let_def split_beta world_frame)

lemma process_run:
  assumes "support_init cfg s0 = Inr s" and "process_step\<^sup>*\<^sup>* (support_install segs rates s) s'"
  shows "support_inv s' \<and> reserve_ok s'"
  using assms(2)
proof (induction rule: rtranclp_induct)
  case base
  show ?case using assms(1) by (simp add: support_install_inv support_install_reserve)
next
  case (step t u)
  then show ?case using support_step_inv[OF process_step_support] process_step_reserve by blast
qed

end
