(* ===== verification/Decision_Properties.thy ===== *)
theory Decision_Properties imports Decisions World_Properties Support_Reserve Validators begin

text \<open>
  The properties of the deterministic decisions of the telco and staffing workflows
  (\<^verbatim>\<open>network_incident_activities.py\<close>, \<^verbatim>\<open>surge_staffing_activities.py\<close>): a reroute fits the
  capacity of its targets, and a staffing command passes the validation of the world it was
  computed from.
\<close>

section \<open>Reroutes\<close>

lemma all_dicts: "all_ok (map dict_of_val xs) = Inr ds \<Longrightarrow> xs = map VDict ds"
  by (induction xs arbitrary: ds) (auto simp: bind_result_Inr_iff dict_of_val_def split: pyval.splits)

lemma incident_impact_diagnosis:
  assumes "incident_impact parse fr p = Inr out" and "dict_get out ''diagnosis'' = VDict dg"
    and "dict_get p ''observation'' = VDict obs" "dict_get obs ''neighbor_sites'' = VList neighbors"
  shows "\<exists>spare sessions. spare_capacity parse neighbors [] = Inr spare \<and> spare \<noteq> [] \<and>
    dict_get dg ''spare_capacity'' = VDict spare \<and>
    list_items (dict_get obs ''affected_sessions'') = map VDict sessions \<and>
    dict_get dg ''affected_sessions'' = VList (map VDict (sort_key (session_key fr) sessions))"
proof -
  let ?v = "py_or (dict_get obs ''affected_sessions'') (VList [])"
  have obs: "sub_of p ''observation'' = Inr obs" "items_of obs ''neighbor_sites'' = Inr neighbors"
    using assms(3,4) by (auto simp: sub_of_def items_of_def py_or_def py_list_def dict_of_val_def dict_get_def)
  with assms(1,2) obtain spare xs sessions where *: "spare_capacity parse neighbors [] = Inr spare" "spare \<noteq> []"
      "truthy ?v" "py_list ?v = Inr xs" "all_ok (map dict_of_val xs) = Inr sessions"
      "dict_get dg ''spare_capacity'' = VDict spare"
      "dict_get dg ''affected_sessions'' = VList (map VDict (sort_key (session_key fr) sessions))"
    by (auto simp: incident_impact_def no_diagnosis_def bind_result_Inr_iff Let_def split: if_splits)
  have "list_items (dict_get obs ''affected_sessions'') = map VDict sessions"
    using *(3,4) all_dicts[OF *(5)]
    by (cases "dict_get obs ''affected_sessions''"; cases sessions) (auto simp: py_or_def py_list_def split: if_splits)
  with * show ?thesis by blast
qed

lemma incident_reroute_command:
  assumes "incident_reroute parse fr p = Inr res" and "dict_get res ''command'' = VDict cmd"
    and "dict_get p ''diagnosis'' = VDict dg" "dict_get dg ''spare_capacity'' = VDict spare"
    and "dict_get dg ''affected_sessions'' = VList (map VDict ordered)"
  shows "\<exists>legs dropped pl. reroute_plan parse fr spare ordered = Inr (legs, dropped) \<and>
    dict_get cmd ''payload'' = VDict pl \<and>
    dict_get pl ''assignments'' = VList (map (\<lambda>(sid, _, target).
      VDict [(''session_id'', VStr sid), (''to_site_id'', VStr target)]) legs)"
proof -
  have "items_of dg ''affected_sessions'' = Inr (map VDict ordered)"
    using assms(5) by (simp add: items_of_def py_list_def)
  with assms show ?thesis
    by (auto simp: incident_reroute_def bind_result_Inr_iff Let_def py_or_def dict_of_val_def comp_def
        split: if_splits)
qed

lemma rooms_of_floats:
  "\<forall>(i, v) \<in> set spare. \<exists>f. v = VFloat f \<Longrightarrow> rooms_of spare = Inr (map (\<lambda>(i, v). (i, num_of v)) spare)"
  unfolding rooms_of_def by (induction spare) auto

text \<open>C15: Every assignment of a reroute command is for a session of the incident's observation, none for two,
  and goes to a site that the observation lists as a healthy neighbour with headroom; the demands
  (\<^verbatim>\<open>demand_mbps\<close>) of the sessions sent to one site together are no more than its headroom, up to the tolerance
  of the comparison and of the rounding (a millionth for the last session, half a millionth for each one before
  it).  Demands and headrooms are finite numbers, computed with exactly.\<close>
theorem reroute_within_capacity:
  assumes "dict_get p ''observation'' = VDict obs" "dict_get obs ''neighbor_sites'' = VList neighbors"
    and "incident_impact parse fr p = Inr out" and "dict_get out ''diagnosis'' = VDict dg"
    and "incident_reroute parse fr p' = Inr res" and "dict_get p' ''diagnosis'' = VDict dg"
    and "dict_get res ''command'' = VDict cmd"
    and demand: "\<forall>s. VDict s \<in> set (list_items (dict_get obs ''affected_sessions'')) \<longrightarrow> finite_demand parse s"
    and finite: "\<forall>i f. healthy_site parse neighbors i f \<longrightarrow> (\<exists>q. f = Fin q)"
  shows "\<exists>pl plan. dict_get cmd ''payload'' = VDict pl \<and>
    dict_get pl ''assignments'' = VList (map (\<lambda>(s, site).
      VDict [(''session_id'', VStr (py_str fr (dict_get s ''id''))), (''to_site_id'', VStr site)]) plan) \<and>
    mset (map (VDict \<circ> fst) plan) \<subseteq># mset (list_items (dict_get obs ''affected_sessions'')) \<and>
    (\<forall>(s, site) \<in> set plan. \<exists>r. healthy_site parse neighbors site (Fin r) \<and>
       sum_list (map (rat_of \<circ> demand_of parse) (sent_to site plan)) \<le> r + slack (length (sent_to site plan)))"
proof -
  obtain spare sessions where spare: "spare_capacity parse neighbors [] = Inr spare"
      "dict_get dg ''spare_capacity'' = VDict spare"
    and items: "list_items (dict_get obs ''affected_sessions'') = map VDict sessions"
    and sorted: "dict_get dg ''affected_sessions'' = VList (map VDict (sort_key (session_key fr) sessions))"
    using incident_impact_diagnosis[OF assms(3,4,1,2)] by blast
  let ?ordered = "sort_key (session_key fr) sessions"
  obtain legs dropped pl where rp: "reroute_plan parse fr spare ?ordered = Inr (legs, dropped)"
    and pl: "dict_get cmd ''payload'' = VDict pl"
      "dict_get pl ''assignments'' = VList (map (\<lambda>(sid, _, target).
        VDict [(''session_id'', VStr sid), (''to_site_id'', VStr target)]) legs)"
    using incident_reroute_command[OF assms(5,7,6) spare(2) sorted] by blast
  let ?rooms = "map (\<lambda>(i, v). (i, num_of v)) spare"
  have sound: "(\<forall>(i, v) \<in> set spare. \<exists>f. v = VFloat f \<and> healthy_site parse neighbors i f) \<and>
      distinct (map fst spare)"
    by (rule spare_capacity_sound[OF spare(1)]) auto
  have rooms: "finite_rooms ?rooms"
    using sound finite by (fastforce simp: finite_rooms_def comp_def case_prod_unfold)
  have "rooms_of spare = Inr ?rooms"
    by (rule rooms_of_floats) (use sound in fastforce)
  then have run: "reroute_loop parse fr ?rooms ?ordered = Inr (legs, dropped)"
    using rp by (auto simp: reroute_plan_def split: if_splits)
  obtain plan where legs: "legs = map (leg_of parse fr) plan" and sub: "mset (map fst plan) \<subseteq># mset ?ordered"
    using reroute_loop_plan[OF run] by blast
  have "image_mset VDict (mset (map fst plan)) \<subseteq># image_mset VDict (mset ?ordered)"
    using sub by (rule image_mset_subseteq_mono)
  then have sub': "mset (map (VDict \<circ> fst) plan) \<subseteq># mset (list_items (dict_get obs ''affected_sessions''))"
    by (simp add: items multiset.map_comp)
  have "\<forall>s \<in> set ?ordered. finite_demand parse s" using demand items by simp
  with reroute_loop_fits[OF run rooms] have fits: "(\<forall>leg \<in> set legs. snd (snd leg) \<in> fst ` set ?rooms) \<and>
      (\<forall>r. map_of ?rooms site = Some (Fin r) \<longrightarrow> legs_to site legs \<noteq> [] \<longrightarrow>
         load site legs \<le> r + slack (length (legs_to site legs)))" for site
    by blast
  have "\<exists>r. healthy_site parse neighbors site (Fin r) \<and>
       load site legs \<le> r + slack (length (legs_to site legs))" if st: "(s, site) \<in> set plan" for s site
  proof -
    have leg: "leg_of parse fr (s, site) \<in> set legs" using st by (simp add: legs)
    obtain v where v: "(site, v) \<in> set spare" using fits leg by (force simp: leg_of_def)
    then obtain f where f: "v = VFloat f" "healthy_site parse neighbors site f" using sound by fastforce
    then obtain r where r: "f = Fin r" using finite by blast
    have "(site, Fin r) \<in> set ?rooms" using v f r by force
    then have "map_of ?rooms site = Some (Fin r)"
      using rooms by (simp add: finite_rooms_def)
    moreover have "legs_to site legs \<noteq> []" using leg by (force simp: legs_to_def filter_empty_conv leg_of_def)
    ultimately show ?thesis using fits f r by blast
  qed
  moreover have "dict_get pl ''assignments'' = VList (map (\<lambda>(s, site).
      VDict [(''session_id'', VStr (py_str fr (dict_get s ''id''))), (''to_site_id'', VStr site)]) plan)"
    by (simp add: pl(2) legs leg_of_def case_prod_unfold)
  ultimately show ?thesis using pl(1) sub' by (fastforce simp: legs load_plan)
qed

definition demo_incident :: pydict where
  "demo_incident =
     [(''incident_site'', VDict [(''id'', VStr ''S-0'')]),
      (''affected_sessions'', VList
         [VDict [(''id'', VStr ''c-1''), (''kind'', VStr ''voice''), (''demand_mbps'', VInt 40)],
          VDict [(''id'', VStr ''c-2''), (''kind'', VStr ''data''), (''demand_mbps'', VInt 80)]]),
      (''neighbor_sites'', VList
         [VDict [(''id'', VStr ''S-1''), (''status'', VStr ''healthy''), (''spare_mbps'', VInt 100)]])]"

theorem reroute_within_capacity_witness:
  "\<exists>out res cmd pl plan.
     incident_impact (\<lambda>_. None) (\<lambda>_. []) [(''observation'', VDict demo_incident)] = Inr out \<and>
     incident_reroute (\<lambda>_. None) (\<lambda>_. []) out = Inr res \<and> dict_get res ''command'' = VDict cmd \<and>
     dict_get cmd ''payload'' = VDict pl \<and>
     mset (map (VDict \<circ> fst) plan) \<subseteq># mset (list_items (dict_get demo_incident ''affected_sessions'')) \<and>
     list_all (\<lambda>(s, site). sum_list (map (rat_of \<circ> demand_of (\<lambda>_. None)) (sent_to site plan)) \<le>
       100 + slack (length (sent_to site plan))) plan"
proof -
  let ?p = "[(''observation'', VDict demo_incident)]" and ?parse = "\<lambda>_::string. None :: pyfloat option"
  let ?ns = "[VDict [(''id'', VStr ''S-1''), (''status'', VStr ''healthy''), (''spare_mbps'', VInt 100)]]"
  have "case incident_impact ?parse (\<lambda>_. []) ?p of
     Inr out \<Rightarrow> (case incident_reroute ?parse (\<lambda>_. []) out of
       Inr res \<Rightarrow> is_dict (dict_get out ''diagnosis'') \<and> is_dict (dict_get res ''command'') | _ \<Rightarrow> False)
   | _ \<Rightarrow> False"
    by (simp add: incident_impact_def demo_incident_def sub_of_def items_of_def py_or_def dict_of_val_def
        py_list_def Let_def py_float_def dict_get_or_def id_str_def session_key_def incident_reroute_def
        reroute_plan_def rooms_of_def has_room_def pf_le_def pf_eq_def round6_pf_def pf_sub_def round6_def
        subscript_def)
  then obtain out dg res cmd where run: "incident_impact ?parse (\<lambda>_. []) ?p = Inr out"
      "dict_get out ''diagnosis'' = VDict dg" "incident_reroute ?parse (\<lambda>_. []) out = Inr res"
      "dict_get res ''command'' = VDict cmd"
    by (auto split: sum.splits elim!: is_dict.elims)
  have obs: "dict_get ?p ''observation'' = VDict demo_incident" "dict_get demo_incident ''neighbor_sites'' = VList ?ns"
    by (simp_all add: demo_incident_def)
  have "\<forall>s. VDict s \<in> set (list_items (dict_get demo_incident ''affected_sessions'')) \<longrightarrow> finite_demand ?parse s"
    by (auto simp: demo_incident_def finite_demand_def py_float_def dict_get_or_def)
  moreover have room: "\<forall>i f. healthy_site ?parse ?ns i f \<longrightarrow> f = Fin 100"
    by (auto simp: healthy_site_def py_float_def dict_get_or_def)
  ultimately obtain pl plan where c: "dict_get cmd ''payload'' = VDict pl"
      "mset (map (VDict \<circ> fst) plan) \<subseteq># mset (list_items (dict_get demo_incident ''affected_sessions''))"
      "\<forall>(s, site) \<in> set plan. \<exists>r. healthy_site ?parse ?ns site (Fin r) \<and>
       sum_list (map (rat_of \<circ> demand_of ?parse) (sent_to site plan)) \<le> r + slack (length (sent_to site plan))"
    using reroute_within_capacity[OF obs run(1,2,3,2,4)] by blast
  from c(3) room have "list_all (\<lambda>(s, site). sum_list (map (rat_of \<circ> demand_of ?parse) (sent_to site plan)) \<le>
       100 + slack (length (sent_to site plan))) plan"
    by (fastforce simp: list_all_iff)
  with c run show ?thesis by blast
qed

section \<open>Staffing\<close>

lemma reserves_distinct:
  assumes "teams_ok (su_workers s) (su_teams s)" and "distinct (map fst (su_workers s))"
  shows "distinct (map w_id (reserves s))"
proof -
  have "map w_id (map snd (su_workers s)) = map fst (su_workers s)"
    using assms map_of_is_SomeI[OF assms(2)] by (fastforce simp: teams_ok_def)
  then have "distinct (map w_id (map snd (su_workers s)))" using assms(2) by metis
  then show ?thesis unfolding reserves_def by (simp only: distinct_map_filter)
qed

lemma staffing_ids_some:
  assumes "ws \<noteq> []"
  shows "staffing_ids pressure (Suc n) ws \<noteq> []"
proof -
  let ?f = "\<lambda>w. (- int (sum_list (map (tally_of pressure) (map VStr (w_skills w)))), w_id w)"
  have "length (map snd (sort_key fst (map ?f ws))) = length ws"
    by (simp only: length_map length_sort)
  with assms have "map snd (sort_key fst (map ?f ws)) \<noteq> []" by (metis length_0_conv)
  then show ?thesis unfolding staffing_ids_def by simp
qed

text \<open>C14: In every state the support world can reach from its installation, by commands, arrivals, the loops of
  its workers, timers, returns and the passing of time, the surge decision on an observation of that state never
  raises; it has no command when the observation has no queued ticket or no reserve worker, and otherwise its
  command is one the world's own validation accepts: it moves distinct workers of the reserve, all of them in
  status reserve, to the support team.\<close>
theorem surge_command_accepted:
  assumes "support_init cfg s0 = Inr s1" and "process_step\<^sup>*\<^sup>* (support_install segs rates s1) s"
    and "support_observation ev now s = Inr obs" and "dict_get p ''observation'' = VDict obs"
  shows "\<exists>out. surge_decide fr p = Inr out \<and>
    (if dict_get obs ''queued_tickets'' = VList [] \<or> dict_get obs ''reserve_workers'' = VList []
     then dict_get out ''command'' = VNone
     else \<exists>c pl. dict_get out ''command'' = VDict c \<and> dict_get c ''type'' = VStr ''reallocate_workers'' \<and>
       dict_get c ''payload'' = VDict pl \<and> validate_reallocate (su_workers s) pl = Inr None)"
proof -
  have teams: "teams_ok (su_workers s) (su_teams s)" and keys: "distinct (map fst (su_workers s))"
    and reserve: "\<And>wid w. map_of (su_workers s) wid = Some w \<Longrightarrow> w_team w = reserve_team \<Longrightarrow>
      w_status w = ''reserve''"
    using process_run[OF assms(1,2)] by (auto simp: support_inv_def reserve_ok_def)
  have "validate_reallocate (su_workers s) (staffing_payload (staffing_ids pressure (Suc n) (reserves s))) = Inr None"
    if "reserves s \<noteq> []" for pressure n
  proof -
    let ?ids = "staffing_ids pressure (Suc n) (reserves s)"
    have some: "?ids \<noteq> []" using that by (rule staffing_ids_some)
    have "\<exists>w. map_of (su_workers s) i = Some w \<and> w_team w = reserve_team \<and> w_status w = ''reserve''"
      if i: "i \<in> set ?ids" for i
    proof -
      obtain w where w: "w \<in> set (reserves s)" "w_id w = i"
        using i set_staffing_ids by blast
      then obtain k where k: "(k, w) \<in> set (su_workers s)" "w_team w = reserve_team"
        by (auto simp: reserves_def)
      then have "map_of (su_workers s) k = Some w" using keys by simp
      moreover from this have "k = i" using teams w by (auto simp: teams_ok_def)
      ultimately show ?thesis using reserve k by auto
    qed
    then have "valid_reallocation (su_workers s) (staffing_payload ?ids) ?ids"
      using some distinct_staffing_ids[OF reserves_distinct[OF teams keys]]
      by (simp add: valid_reallocation_def staffing_payload_def too_large_def)
    then show ?thesis using validate_reallocate_None by blast
  qed
  note valid = this
  let ?idle = "dict_get obs ''queued_tickets'' = VList [] \<or> dict_get obs ''reserve_workers'' = VList []"
  obtain out where out: "surge_decide fr p = Inr out" and rest:
    "if ?idle then dict_get out ''command'' = VNone
     else \<exists>c pressure n. dict_get out ''command'' = VDict c \<and>
       dict_get c ''type'' = VStr ''reallocate_workers'' \<and>
       dict_get c ''payload'' = VDict (staffing_payload (staffing_ids pressure (Suc n) (reserves s)))"
    using surge_on_support[OF assms(3,4), of fr] by blast
  show ?thesis
  proof (cases ?idle)
    case True
    with out rest show ?thesis by simp
  next
    case False
    then have "reserves s \<noteq> []" using observation_reads(2)[OF assms(3)] by auto
    moreover from False rest obtain c pressure n where "dict_get out ''command'' = VDict c"
        "dict_get c ''type'' = VStr ''reallocate_workers''"
        "dict_get c ''payload'' = VDict (staffing_payload (staffing_ids pressure (Suc n) (reserves s)))"
      by meson
    ultimately show ?thesis using out False valid[of pressure n] by auto
  qed
qed

text \<open>A world in which a ticket has arrived and five minutes have passed.\<close>

definition demo_queue :: support where
  "demo_queue = demo_arrived\<lparr>rt_now := 5\<rparr>"

definition demo_pressure :: pydict where
  "demo_pressure = [(''payload'', VDict [(''actor_ids'', VList [VStr ''TKT-000001''])])]"

lemma demo_queue_run: "process_step\<^sup>*\<^sup>* demo_world demo_queue"
proof -
  have "process_step demo_world demo_arrived" unfolding demo_arrived_def by (rule process_step.arrived)
  moreover have "process_step demo_arrived demo_queue"
    unfolding demo_queue_def by (rule process_step.clocked) (simp add: demo_arrived_now)
  ultimately show ?thesis by (meson rtranclp.rtrancl_into_rtrancl rtranclp.rtrancl_refl)
qed

theorem surge_command_accepted_witness:
  "\<exists>obs out c pl. support_observation demo_pressure 5 demo_queue = Inr obs \<and>
     surge_decide (\<lambda>_. []) [(''observation'', VDict obs)] = Inr out \<and>
     dict_get out ''command'' = VDict c \<and> dict_get c ''payload'' = VDict pl \<and>
     validate_reallocate (su_workers demo_queue) pl = Inr None"
proof -
  have ids: "observed_ids demo_pressure = Inr [VStr ''TKT-000001'']" by code_simp
  have "map_of (su_customers demo_world) ''CUS-00001'' \<noteq> None" "su_seq demo_world = 0"
      "ticket_name (Suc 0) = ''TKT-000001''"
    by code_simp+
  then have "map_of (su_tickets demo_arrived) ''TKT-000001'' \<noteq> None"
    using create_ticket_effect(1)[of demo_world "''CUS-00001''" _ "''high''" "''billing''"]
    by (auto simp: demo_arrived_def)
  then have queue: "observed_tickets [VStr ''TKT-000001''] demo_queue \<noteq> []"
    by (auto simp: observed_tickets_def demo_queue_def)
  have "reserves demo_world \<noteq> []" by code_simp
  moreover have "su_workers demo_queue = su_workers demo_world"
    by (simp add: demo_queue_def demo_arrived_def create_ticket_teams)
  ultimately have "reserves demo_queue \<noteq> []" by (simp add: reserves_def)
  then obtain obs where obs: "support_observation demo_pressure 5 demo_queue = Inr obs"
      "\<not> (dict_get obs ''queued_tickets'' = VList [] \<or> dict_get obs ''reserve_workers'' = VList [])"
    using queue by (auto simp: support_observation_def ids Let_def reserves_def)
  have p: "dict_get [(''observation'', VDict obs)] ''observation'' = VDict obs" by simp
  from surge_command_accepted[OF demo_init demo_queue_run[unfolded demo_world_def] obs(1) p, of "\<lambda>_. []"] obs
  show ?thesis by auto
qed

end
