(* ===== verification/Airline_Model.thy ===== *)
theory Airline_Model imports Sim_Runtime Authority Durable begin

text \<open>
  The records of the airline world (\<^verbatim>\<open>verticals/airline/worlds/model.py\<close>) with the dictionaries
  the observations show of them, the reference data the world is seeded with
  (\<^verbatim>\<open>worlds/reference_data.py\<close>), the authority rows of the three approvers (\<^verbatim>\<open>authority.py\<close>), and
  the world itself (\<^verbatim>\<open>worlds/scenario.py\<close>) as an extension of the simulation runtime.

  A collection is a dictionary from ids to records.  The records are mutable objects that only their
  collection holds, so a write to a record is a write at its key.
\<close>

section \<open>Equality of values\<close>

text \<open>\<^verbatim>\<open>a == b\<close>: numbers by value, dictionaries without regard to the order of their keys.\<close>

function py_eq :: "pyval \<Rightarrow> pyval \<Rightarrow> bool" where
  "py_eq VNone b \<longleftrightarrow> b = VNone"
| "py_eq (VStr s) b \<longleftrightarrow> b = VStr s"
| "py_eq (VBool x) b \<longleftrightarrow> is_num b \<and> pf_eq (num_of (VBool x)) (num_of b)"
| "py_eq (VInt i) b \<longleftrightarrow> is_num b \<and> pf_eq (num_of (VInt i)) (num_of b)"
| "py_eq (VFloat f) b \<longleftrightarrow> is_num b \<and> pf_eq f (num_of b)"
| "py_eq (VList xs) b \<longleftrightarrow>
     (case b of
        VList ys \<Rightarrow> length xs = length ys \<and> (\<forall>(x, y) \<in> set (zip xs ys). py_eq x y)
      | _ \<Rightarrow> False)"
| "py_eq (VDict d) b \<longleftrightarrow>
     (case b of
        VDict e \<Rightarrow> length d = length e \<and>
          (\<forall>(k, v) \<in> set d. case map_of e k of None \<Rightarrow> False | Some w \<Rightarrow> py_eq v w)
      | _ \<Rightarrow> False)"
  by pat_completeness auto

termination
proof (relation "measure (\<lambda>(a, _). size a)", goal_cases)
  case (2 xs b ys z x y)
  then have "x \<in> set xs" by (auto dest: set_zip_leftD)
  then show ?case using size_list_estimation'[of x xs "size x" size] by force
next
  case (3 d b e z k v w)
  then have "(k, v) \<in> set d" by auto
  then show ?case
    using size_list_estimation'[of "(k, v)" d "size v" "\<lambda>p. size_prod (\<lambda>_. 0) size p"] by force
qed simp


section \<open>Views\<close>

definition str_list :: "string list \<Rightarrow> pyval" where
  "str_list ss = VList (map VStr ss)"

record aircraft =
  ac_id :: string
  ac_configuration :: string
  ac_status :: string
  ac_current_station_id :: string
  ac_version :: int
  ac_last_event_id :: "string option"

definition aircraft_view :: "aircraft \<Rightarrow> pydict" where
  "aircraft_view x =
     [(''id'', VStr (ac_id x)),
      (''configuration'', VStr (ac_configuration x)),
      (''status'', VStr (ac_status x)),
      (''current_station_id'', VStr (ac_current_station_id x)),
      (''version'', VInt (ac_version x)),
      (''last_event_id'', opt_str (ac_last_event_id x))]"

record sector =
  sec_id :: string
  sec_origin_id :: string
  sec_destination_id :: string
  sec_aircraft_id :: string
  sec_crew_duty_id :: string
  sec_slot_id :: string
  sec_stand_id :: string
  sec_scheduled_departure :: rat
  sec_delay_minutes :: int
  sec_status :: string
  sec_version :: int
  sec_last_event_id :: "string option"

definition sector_view :: "sector \<Rightarrow> pydict" where
  "sector_view x =
     [(''id'', VStr (sec_id x)),
      (''origin_id'', VStr (sec_origin_id x)),
      (''destination_id'', VStr (sec_destination_id x)),
      (''aircraft_id'', VStr (sec_aircraft_id x)),
      (''crew_duty_id'', VStr (sec_crew_duty_id x)),
      (''slot_id'', VStr (sec_slot_id x)),
      (''stand_id'', VStr (sec_stand_id x)),
      (''scheduled_departure'', VFloat (Fin (sec_scheduled_departure x))),
      (''delay_minutes'', VInt (sec_delay_minutes x)),
      (''status'', VStr (sec_status x)),
      (''version'', VInt (sec_version x)),
      (''last_event_id'', opt_str (sec_last_event_id x))]"

record rotation =
  ro_id :: string
  ro_aircraft_id :: string
  ro_sector_ids :: "string list"
  ro_minimum_turnaround_minutes :: int
  ro_status :: string
  ro_version :: int
  ro_last_event_id :: "string option"

definition rotation_view :: "rotation \<Rightarrow> pydict" where
  "rotation_view x =
     [(''id'', VStr (ro_id x)),
      (''aircraft_id'', VStr (ro_aircraft_id x)),
      (''sector_ids'', str_list (ro_sector_ids x)),
      (''minimum_turnaround_minutes'', VInt (ro_minimum_turnaround_minutes x)),
      (''status'', VStr (ro_status x)),
      (''version'', VInt (ro_version x)),
      (''last_event_id'', opt_str (ro_last_event_id x))]"

record crew_duty =
  cr_id :: string
  cr_qualification :: string
  cr_sector_ids :: "string list"
  cr_duty_start :: rat
  cr_duty_limit_minutes :: int
  cr_remaining_duty_minutes :: int
  cr_status :: string
  cr_is_reserve :: bool
  cr_version :: int
  cr_last_event_id :: "string option"

definition crew_duty_view :: "crew_duty \<Rightarrow> pydict" where
  "crew_duty_view x =
     [(''id'', VStr (cr_id x)),
      (''qualification'', VStr (cr_qualification x)),
      (''sector_ids'', str_list (cr_sector_ids x)),
      (''duty_start'', VFloat (Fin (cr_duty_start x))),
      (''duty_limit_minutes'', VInt (cr_duty_limit_minutes x)),
      (''remaining_duty_minutes'', VInt (cr_remaining_duty_minutes x)),
      (''status'', VStr (cr_status x)),
      (''is_reserve'', VBool (cr_is_reserve x)),
      (''version'', VInt (cr_version x)),
      (''last_event_id'', opt_str (cr_last_event_id x))]"

record airport_slot =
  slt_id :: string
  slt_sector_id :: string
  slt_station_id :: string
  slt_scheduled_time :: rat
  slt_tolerance_minutes :: int
  slt_status :: string
  slt_version :: int
  slt_last_event_id :: "string option"

definition airport_slot_view :: "airport_slot \<Rightarrow> pydict" where
  "airport_slot_view x =
     [(''id'', VStr (slt_id x)),
      (''sector_id'', VStr (slt_sector_id x)),
      (''station_id'', VStr (slt_station_id x)),
      (''scheduled_time'', VFloat (Fin (slt_scheduled_time x))),
      (''tolerance_minutes'', VInt (slt_tolerance_minutes x)),
      (''status'', VStr (slt_status x)),
      (''version'', VInt (slt_version x)),
      (''last_event_id'', opt_str (slt_last_event_id x))]"

record stand =
  std_id :: string
  std_station_id :: string
  std_compatible_configurations :: "string list"
  std_status :: string
  std_version :: int
  std_last_event_id :: "string option"

definition stand_view :: "stand \<Rightarrow> pydict" where
  "stand_view x =
     [(''id'', VStr (std_id x)),
      (''station_id'', VStr (std_station_id x)),
      (''compatible_configurations'', str_list (std_compatible_configurations x)),
      (''status'', VStr (std_status x)),
      (''version'', VInt (std_version x)),
      (''last_event_id'', opt_str (std_last_event_id x))]"

record cohort =
  co_id :: string
  co_inbound_sector_id :: string
  co_outbound_sector_id :: string
  co_passenger_count :: int
  co_minimum_connection_minutes :: int
  co_connection_margin_minutes :: int
  co_assistance_required :: bool
  co_status :: string
  co_version :: int
  co_last_event_id :: "string option"

definition cohort_view :: "cohort \<Rightarrow> pydict" where
  "cohort_view x =
     [(''id'', VStr (co_id x)),
      (''inbound_sector_id'', VStr (co_inbound_sector_id x)),
      (''outbound_sector_id'', VStr (co_outbound_sector_id x)),
      (''passenger_count'', VInt (co_passenger_count x)),
      (''minimum_connection_minutes'', VInt (co_minimum_connection_minutes x)),
      (''connection_margin_minutes'', VInt (co_connection_margin_minutes x)),
      (''assistance_required'', VBool (co_assistance_required x)),
      (''status'', VStr (co_status x)),
      (''version'', VInt (co_version x)),
      (''last_event_id'', opt_str (co_last_event_id x))]"

record tech_status =
  te_id :: string
  te_aircraft_id :: string
  te_defect_code :: string
  te_description :: string
  te_status :: string
  te_version :: int
  te_last_event_id :: "string option"

definition tech_status_view :: "tech_status \<Rightarrow> pydict" where
  "tech_status_view x =
     [(''id'', VStr (te_id x)),
      (''aircraft_id'', VStr (te_aircraft_id x)),
      (''defect_code'', VStr (te_defect_code x)),
      (''description'', VStr (te_description x)),
      (''status'', VStr (te_status x)),
      (''version'', VInt (te_version x)),
      (''last_event_id'', opt_str (te_last_event_id x))]"

record maintenance_task =
  mt_id :: string
  mt_technical_status_id :: string
  mt_aircraft_id :: string
  mt_task_type :: string
  mt_required_capability :: string
  mt_spare_part_number :: "string option"
  mt_provider_id :: "string option"
  mt_status :: string
  mt_version :: int
  mt_last_event_id :: "string option"

definition maintenance_task_view :: "maintenance_task \<Rightarrow> pydict" where
  "maintenance_task_view x =
     [(''id'', VStr (mt_id x)),
      (''technical_status_id'', VStr (mt_technical_status_id x)),
      (''aircraft_id'', VStr (mt_aircraft_id x)),
      (''task_type'', VStr (mt_task_type x)),
      (''required_capability'', VStr (mt_required_capability x)),
      (''spare_part_number'', opt_str (mt_spare_part_number x)),
      (''provider_id'', opt_str (mt_provider_id x)),
      (''status'', VStr (mt_status x)),
      (''version'', VInt (mt_version x)),
      (''last_event_id'', opt_str (mt_last_event_id x))]"

record provider =
  pv_id :: string
  pv_name :: string
  pv_station_id :: string
  pv_capabilities :: "string list"
  pv_approved :: bool
  pv_version :: int
  pv_last_event_id :: "string option"

definition provider_view :: "provider \<Rightarrow> pydict" where
  "provider_view x =
     [(''id'', VStr (pv_id x)),
      (''name'', VStr (pv_name x)),
      (''station_id'', VStr (pv_station_id x)),
      (''capabilities'', str_list (pv_capabilities x)),
      (''approved'', VBool (pv_approved x)),
      (''version'', VInt (pv_version x)),
      (''last_event_id'', opt_str (pv_last_event_id x))]"

record spare =
  spr_id :: string
  spr_part_number :: string
  spr_traceable :: bool
  spr_station_id :: string
  spr_status :: string
  spr_lead_time_minutes :: int
  spr_version :: int
  spr_last_event_id :: "string option"

definition spare_view :: "spare \<Rightarrow> pydict" where
  "spare_view x =
     [(''id'', VStr (spr_id x)),
      (''part_number'', VStr (spr_part_number x)),
      (''traceable'', VBool (spr_traceable x)),
      (''station_id'', VStr (spr_station_id x)),
      (''status'', VStr (spr_status x)),
      (''lead_time_minutes'', VInt (spr_lead_time_minutes x)),
      (''version'', VInt (spr_version x)),
      (''last_event_id'', opt_str (spr_last_event_id x))]"

record work_order =
  wo_id :: string
  wo_workflow_id :: string
  wo_technical_status_id :: string
  wo_maintenance_task_id :: string
  wo_provider_id :: string
  wo_spare_id :: "string option"
  wo_status :: string
  wo_version :: int
  wo_last_event_id :: "string option"

definition work_order_view :: "work_order \<Rightarrow> pydict" where
  "work_order_view x =
     [(''id'', VStr (wo_id x)),
      (''workflow_id'', VStr (wo_workflow_id x)),
      (''technical_status_id'', VStr (wo_technical_status_id x)),
      (''maintenance_task_id'', VStr (wo_maintenance_task_id x)),
      (''provider_id'', VStr (wo_provider_id x)),
      (''spare_id'', opt_str (wo_spare_id x)),
      (''status'', VStr (wo_status x)),
      (''version'', VInt (wo_version x)),
      (''last_event_id'', opt_str (wo_last_event_id x))]"

record spare_movement =
  mv_id :: string
  mv_spare_id :: string
  mv_workflow_id :: string
  mv_from_station_id :: string
  mv_to_station_id :: string
  mv_status :: string
  mv_version :: int
  mv_last_event_id :: "string option"

definition spare_movement_view :: "spare_movement \<Rightarrow> pydict" where
  "spare_movement_view x =
     [(''id'', VStr (mv_id x)),
      (''spare_id'', VStr (mv_spare_id x)),
      (''workflow_id'', VStr (mv_workflow_id x)),
      (''from_station_id'', VStr (mv_from_station_id x)),
      (''to_station_id'', VStr (mv_to_station_id x)),
      (''status'', VStr (mv_status x)),
      (''version'', VInt (mv_version x)),
      (''last_event_id'', opt_str (mv_last_event_id x))]"

record aog_evaluation =
  ae_id :: string
  ae_workflow_id :: string
  ae_command_id :: string
  ae_option_id :: string
  ae_status :: string
  ae_invariant_results :: "string list"
  ae_sectors_protected :: int
  ae_projected_aog_duration_minutes :: int
  ae_spare_lead_time_minutes :: int
  ae_approved_provider_coverage :: bool
  ae_synthetic_recovery_cost_gbp :: rat
  ae_aircraft_released_by_ai :: bool
  ae_version :: int
  ae_last_event_id :: "string option"

definition aog_evaluation_view :: "aog_evaluation \<Rightarrow> pydict" where
  "aog_evaluation_view x =
     [(''id'', VStr (ae_id x)),
      (''workflow_id'', VStr (ae_workflow_id x)),
      (''command_id'', VStr (ae_command_id x)),
      (''option_id'', VStr (ae_option_id x)),
      (''status'', VStr (ae_status x)),
      (''invariant_results'', str_list (ae_invariant_results x)),
      (''sectors_protected'', VInt (ae_sectors_protected x)),
      (''projected_aog_duration_minutes'', VInt (ae_projected_aog_duration_minutes x)),
      (''spare_lead_time_minutes'', VInt (ae_spare_lead_time_minutes x)),
      (''approved_provider_coverage'', VBool (ae_approved_provider_coverage x)),
      (''synthetic_recovery_cost_gbp'', VFloat (Fin (ae_synthetic_recovery_cost_gbp x))),
      (''aircraft_released_by_ai'', VBool (ae_aircraft_released_by_ai x)),
      (''version'', VInt (ae_version x)),
      (''last_event_id'', opt_str (ae_last_event_id x))]"

record commitment =
  cm_id :: string
  cm_workflow_id :: string
  cm_decision_id :: string
  cm_option_id :: string
  cm_persona :: string
  cm_value_gbp :: rat
  cm_action_types :: "string list"
  cm_evidence_versions :: "(string \<times> int) list"
  cm_version :: int
  cm_last_event_id :: "string option"

definition commitment_view :: "commitment \<Rightarrow> pydict" where
  "commitment_view x =
     [(''id'', VStr (cm_id x)),
      (''workflow_id'', VStr (cm_workflow_id x)),
      (''decision_id'', VStr (cm_decision_id x)),
      (''option_id'', VStr (cm_option_id x)),
      (''persona'', VStr (cm_persona x)),
      (''value_gbp'', VFloat (Fin (cm_value_gbp x))),
      (''action_types'', str_list (cm_action_types x)),
      (''evidence_versions'', VList (map (\<lambda>(r, v). VList [VStr r, VInt v]) (cm_evidence_versions x))),
      (''version'', VInt (cm_version x)),
      (''last_event_id'', opt_str (cm_last_event_id x))]"

record recovery_evaluation =
  re_id :: string
  re_workflow_id :: string
  re_command_id :: string
  re_option_id :: string
  re_status :: string
  re_invariant_results :: "string list"
  re_cancellations_avoided :: int
  re_departure_zero_recovered :: int
  re_departure_within_fifteen_recovered :: int
  re_minimum_remaining_crew_duty_minutes :: int
  re_resolved_slot_stand_conflicts :: int
  re_protected_connection_cohorts :: int
  re_passengers_requiring_rerouting :: int
  re_synthetic_recovery_cost_gbp :: rat
  re_version :: int
  re_last_event_id :: "string option"

definition recovery_evaluation_view :: "recovery_evaluation \<Rightarrow> pydict" where
  "recovery_evaluation_view x =
     [(''id'', VStr (re_id x)),
      (''workflow_id'', VStr (re_workflow_id x)),
      (''command_id'', VStr (re_command_id x)),
      (''option_id'', VStr (re_option_id x)),
      (''status'', VStr (re_status x)),
      (''invariant_results'', str_list (re_invariant_results x)),
      (''cancellations_avoided'', VInt (re_cancellations_avoided x)),
      (''departure_zero_recovered'', VInt (re_departure_zero_recovered x)),
      (''departure_within_fifteen_recovered'', VInt (re_departure_within_fifteen_recovered x)),
      (''minimum_remaining_crew_duty_minutes'', VInt (re_minimum_remaining_crew_duty_minutes x)),
      (''resolved_slot_stand_conflicts'', VInt (re_resolved_slot_stand_conflicts x)),
      (''protected_connection_cohorts'', VInt (re_protected_connection_cohorts x)),
      (''passengers_requiring_rerouting'', VInt (re_passengers_requiring_rerouting x)),
      (''synthetic_recovery_cost_gbp'', VFloat (Fin (re_synthetic_recovery_cost_gbp x))),
      (''version'', VInt (re_version x)),
      (''last_event_id'', opt_str (re_last_event_id x))]"

record risk_signal =
  rsk_id :: string
  rsk_scenario_id :: string
  rsk_story_id :: string
  rsk_source :: string
  rsk_horizon_minutes :: int
  rsk_window_start_minutes :: int
  rsk_window_end_minutes :: int
  rsk_confidence :: rat
  rsk_max_cancellations_permitted :: int
  rsk_status :: string
  rsk_version :: int
  rsk_last_event_id :: "string option"

definition risk_signal_view :: "risk_signal \<Rightarrow> pydict" where
  "risk_signal_view x =
     [(''id'', VStr (rsk_id x)),
      (''scenario_id'', VStr (rsk_scenario_id x)),
      (''story_id'', VStr (rsk_story_id x)),
      (''source'', VStr (rsk_source x)),
      (''horizon_minutes'', VInt (rsk_horizon_minutes x)),
      (''window_start_minutes'', VInt (rsk_window_start_minutes x)),
      (''window_end_minutes'', VInt (rsk_window_end_minutes x)),
      (''confidence'', VFloat (Fin (rsk_confidence x))),
      (''max_cancellations_permitted'', VInt (rsk_max_cancellations_permitted x)),
      (''status'', VStr (rsk_status x)),
      (''version'', VInt (rsk_version x)),
      (''last_event_id'', opt_str (rsk_last_event_id x))]"

record forecast_constraint =
  fc_id :: string
  fc_constraint_type :: string
  fc_station_id :: string
  fc_affected_sector_ids :: "string list"
  fc_window_start_minutes :: int
  fc_window_end_minutes :: int
  fc_capacity_reduction_pct :: int
  fc_status :: string
  fc_version :: int
  fc_last_event_id :: "string option"

definition forecast_constraint_view :: "forecast_constraint \<Rightarrow> pydict" where
  "forecast_constraint_view x =
     [(''id'', VStr (fc_id x)),
      (''constraint_type'', VStr (fc_constraint_type x)),
      (''station_id'', VStr (fc_station_id x)),
      (''affected_sector_ids'', str_list (fc_affected_sector_ids x)),
      (''window_start_minutes'', VInt (fc_window_start_minutes x)),
      (''window_end_minutes'', VInt (fc_window_end_minutes x)),
      (''capacity_reduction_pct'', VInt (fc_capacity_reduction_pct x)),
      (''status'', VStr (fc_status x)),
      (''version'', VInt (fc_version x)),
      (''last_event_id'', opt_str (fc_last_event_id x))]"

record schedule_evaluation =
  se_id :: string
  se_workflow_id :: string
  se_command_id :: string
  se_option_id :: string
  se_status :: string
  se_invariant_results :: "string list"
  se_predicted_delay_reduction_minutes :: int
  se_cancellations_reduced :: int
  se_aircraft_feasibility_restored :: bool
  se_crew_feasibility_restored :: bool
  se_slot_feasibility_restored :: bool
  se_protected_cohorts :: int
  se_capacity_retained_pct :: rat
  se_synthetic_cost_gbp :: rat
  se_forecast_confidence :: rat
  se_false_positive_exposure :: string
  se_no_action_cancellations :: int
  se_no_action_delay_minutes :: int
  se_selected_action :: string
  se_version :: int
  se_last_event_id :: "string option"

definition schedule_evaluation_view :: "schedule_evaluation \<Rightarrow> pydict" where
  "schedule_evaluation_view x =
     [(''id'', VStr (se_id x)),
      (''workflow_id'', VStr (se_workflow_id x)),
      (''command_id'', VStr (se_command_id x)),
      (''option_id'', VStr (se_option_id x)),
      (''status'', VStr (se_status x)),
      (''invariant_results'', str_list (se_invariant_results x)),
      (''predicted_delay_reduction_minutes'', VInt (se_predicted_delay_reduction_minutes x)),
      (''cancellations_reduced'', VInt (se_cancellations_reduced x)),
      (''aircraft_feasibility_restored'', VBool (se_aircraft_feasibility_restored x)),
      (''crew_feasibility_restored'', VBool (se_crew_feasibility_restored x)),
      (''slot_feasibility_restored'', VBool (se_slot_feasibility_restored x)),
      (''protected_cohorts'', VInt (se_protected_cohorts x)),
      (''capacity_retained_pct'', VFloat (Fin (se_capacity_retained_pct x))),
      (''synthetic_cost_gbp'', VFloat (Fin (se_synthetic_cost_gbp x))),
      (''forecast_confidence'', VFloat (Fin (se_forecast_confidence x))),
      (''false_positive_exposure'', VStr (se_false_positive_exposure x)),
      (''no_action_cancellations'', VInt (se_no_action_cancellations x)),
      (''no_action_delay_minutes'', VInt (se_no_action_delay_minutes x)),
      (''selected_action'', VStr (se_selected_action x)),
      (''version'', VInt (se_version x)),
      (''last_event_id'', opt_str (se_last_event_id x))]"

section \<open>Reference data\<close>

abbreviation "hub_id \<equiv> ''SYN-HUB-01''"
abbreviation "aog_capability \<equiv> ''hydraulic-actuator-replacement''"
abbreviation "aog_part_number \<equiv> ''SYN-PART-HYD-001''"

text \<open>The en dash in the description of the defect is written as a hyphen.\<close>

definition build_aircraft :: "aircraft list" where
  "build_aircraft =
     [\<lparr>ac_id = ''SYN-TAIL-001'', ac_configuration = ''A320'', ac_status = ''operational'',
        ac_current_station_id = ''SYN-OUT-01'', ac_version = 1, ac_last_event_id = None\<rparr>,
      \<lparr>ac_id = ''SYN-TAIL-002'', ac_configuration = ''A320'', ac_status = ''operational'',
        ac_current_station_id = ''SYN-OUT-02'', ac_version = 1, ac_last_event_id = None\<rparr>,
      \<lparr>ac_id = ''SYN-TAIL-003'', ac_configuration = ''A321'', ac_status = ''operational'',
        ac_current_station_id = ''SYN-OUT-03'', ac_version = 1, ac_last_event_id = None\<rparr>,
      \<lparr>ac_id = ''SYN-TAIL-004'', ac_configuration = ''A320'', ac_status = ''operational'',
        ac_current_station_id = ''SYN-OUT-04'', ac_version = 1, ac_last_event_id = None\<rparr>,
      \<lparr>ac_id = ''SYN-TAIL-005'', ac_configuration = ''A320'', ac_status = ''reserve'',
        ac_current_station_id = hub_id, ac_version = 1, ac_last_event_id = None\<rparr>]"

definition build_sectors :: "sector list" where
  "build_sectors =
     [\<lparr>sec_id = ''SYN-SECTOR-IN-001'', sec_origin_id = ''SYN-OUT-01'',
        sec_destination_id = hub_id, sec_aircraft_id = ''SYN-TAIL-001'',
        sec_crew_duty_id = ''SYN-CREW-DUTY-01'', sec_slot_id = ''SYN-SLOT-01'',
        sec_stand_id = ''SYN-STAND-01'', sec_scheduled_departure = 60, sec_delay_minutes = 0,
        sec_status = ''scheduled'', sec_version = 1, sec_last_event_id = None\<rparr>,
      \<lparr>sec_id = ''SYN-SECTOR-OUT-001'', sec_origin_id = hub_id,
        sec_destination_id = ''SYN-OUT-01'', sec_aircraft_id = ''SYN-TAIL-001'',
        sec_crew_duty_id = ''SYN-CREW-DUTY-01'', sec_slot_id = ''SYN-SLOT-05'',
        sec_stand_id = ''SYN-STAND-01'', sec_scheduled_departure = 150, sec_delay_minutes = 0,
        sec_status = ''scheduled'', sec_version = 1, sec_last_event_id = None\<rparr>,
      \<lparr>sec_id = ''SYN-SECTOR-IN-002'', sec_origin_id = ''SYN-OUT-02'',
        sec_destination_id = hub_id, sec_aircraft_id = ''SYN-TAIL-002'',
        sec_crew_duty_id = ''SYN-CREW-DUTY-02'', sec_slot_id = ''SYN-SLOT-02'',
        sec_stand_id = ''SYN-STAND-02'', sec_scheduled_departure = 70, sec_delay_minutes = 0,
        sec_status = ''scheduled'', sec_version = 1, sec_last_event_id = None\<rparr>,
      \<lparr>sec_id = ''SYN-SECTOR-OUT-002'', sec_origin_id = hub_id,
        sec_destination_id = ''SYN-OUT-02'', sec_aircraft_id = ''SYN-TAIL-002'',
        sec_crew_duty_id = ''SYN-CREW-DUTY-02'', sec_slot_id = ''SYN-SLOT-06'',
        sec_stand_id = ''SYN-STAND-02'', sec_scheduled_departure = 160, sec_delay_minutes = 0,
        sec_status = ''scheduled'', sec_version = 1, sec_last_event_id = None\<rparr>,
      \<lparr>sec_id = ''SYN-SECTOR-IN-003'', sec_origin_id = ''SYN-OUT-03'',
        sec_destination_id = hub_id, sec_aircraft_id = ''SYN-TAIL-003'',
        sec_crew_duty_id = ''SYN-CREW-DUTY-03'', sec_slot_id = ''SYN-SLOT-03'',
        sec_stand_id = ''SYN-STAND-03'', sec_scheduled_departure = 80, sec_delay_minutes = 0,
        sec_status = ''scheduled'', sec_version = 1, sec_last_event_id = None\<rparr>,
      \<lparr>sec_id = ''SYN-SECTOR-OUT-003'', sec_origin_id = hub_id,
        sec_destination_id = ''SYN-OUT-03'', sec_aircraft_id = ''SYN-TAIL-003'',
        sec_crew_duty_id = ''SYN-CREW-DUTY-05'', sec_slot_id = ''SYN-SLOT-07'',
        sec_stand_id = ''SYN-STAND-03'', sec_scheduled_departure = 170, sec_delay_minutes = 0,
        sec_status = ''scheduled'', sec_version = 1, sec_last_event_id = None\<rparr>,
      \<lparr>sec_id = ''SYN-SECTOR-IN-004'', sec_origin_id = ''SYN-OUT-04'',
        sec_destination_id = hub_id, sec_aircraft_id = ''SYN-TAIL-004'',
        sec_crew_duty_id = ''SYN-CREW-DUTY-04'', sec_slot_id = ''SYN-SLOT-04'',
        sec_stand_id = ''SYN-STAND-04'', sec_scheduled_departure = 90, sec_delay_minutes = 0,
        sec_status = ''scheduled'', sec_version = 1, sec_last_event_id = None\<rparr>,
      \<lparr>sec_id = ''SYN-SECTOR-OUT-004'', sec_origin_id = hub_id,
        sec_destination_id = ''SYN-OUT-04'', sec_aircraft_id = ''SYN-TAIL-004'',
        sec_crew_duty_id = ''SYN-CREW-DUTY-04'', sec_slot_id = ''SYN-SLOT-08'',
        sec_stand_id = ''SYN-STAND-04'', sec_scheduled_departure = 180, sec_delay_minutes = 0,
        sec_status = ''scheduled'', sec_version = 1, sec_last_event_id = None\<rparr>]"

definition build_rotations :: "rotation list" where
  "build_rotations =
     [\<lparr>ro_id = ''SYN-ROTATION-01'', ro_aircraft_id = ''SYN-TAIL-001'',
        ro_sector_ids = [''SYN-SECTOR-IN-001'', ''SYN-SECTOR-OUT-001''],
        ro_minimum_turnaround_minutes = 40, ro_status = ''planned'', ro_version = 1,
        ro_last_event_id = None\<rparr>,
      \<lparr>ro_id = ''SYN-ROTATION-02'', ro_aircraft_id = ''SYN-TAIL-002'',
        ro_sector_ids = [''SYN-SECTOR-IN-002'', ''SYN-SECTOR-OUT-002''],
        ro_minimum_turnaround_minutes = 40, ro_status = ''planned'', ro_version = 1,
        ro_last_event_id = None\<rparr>,
      \<lparr>ro_id = ''SYN-ROTATION-03'', ro_aircraft_id = ''SYN-TAIL-003'',
        ro_sector_ids = [''SYN-SECTOR-IN-003'', ''SYN-SECTOR-OUT-003''],
        ro_minimum_turnaround_minutes = 45, ro_status = ''planned'', ro_version = 1,
        ro_last_event_id = None\<rparr>,
      \<lparr>ro_id = ''SYN-ROTATION-04'', ro_aircraft_id = ''SYN-TAIL-004'',
        ro_sector_ids = [''SYN-SECTOR-IN-004'', ''SYN-SECTOR-OUT-004''],
        ro_minimum_turnaround_minutes = 40, ro_status = ''planned'', ro_version = 1,
        ro_last_event_id = None\<rparr>]"

definition build_crew_duties :: "crew_duty list" where
  "build_crew_duties =
     [\<lparr>cr_id = ''SYN-CREW-DUTY-01'', cr_qualification = ''A320'',
        cr_sector_ids = [''SYN-SECTOR-IN-001'', ''SYN-SECTOR-OUT-001''], cr_duty_start = 0,
        cr_duty_limit_minutes = 600, cr_remaining_duty_minutes = 360, cr_status = ''active'',
        cr_is_reserve = False, cr_version = 1, cr_last_event_id = None\<rparr>,
      \<lparr>cr_id = ''SYN-CREW-DUTY-02'', cr_qualification = ''A320'',
        cr_sector_ids = [''SYN-SECTOR-IN-002'', ''SYN-SECTOR-OUT-002''], cr_duty_start = 0,
        cr_duty_limit_minutes = 600, cr_remaining_duty_minutes = 350, cr_status = ''active'',
        cr_is_reserve = False, cr_version = 1, cr_last_event_id = None\<rparr>,
      \<lparr>cr_id = ''SYN-CREW-DUTY-03'', cr_qualification = ''A321'',
        cr_sector_ids = [''SYN-SECTOR-IN-003''], cr_duty_start = 10, cr_duty_limit_minutes = 570,
        cr_remaining_duty_minutes = 330, cr_status = ''active'', cr_is_reserve = False,
        cr_version = 1, cr_last_event_id = None\<rparr>,
      \<lparr>cr_id = ''SYN-CREW-DUTY-04'', cr_qualification = ''A320'',
        cr_sector_ids = [''SYN-SECTOR-IN-004'', ''SYN-SECTOR-OUT-004''], cr_duty_start = 10,
        cr_duty_limit_minutes = 600, cr_remaining_duty_minutes = 340, cr_status = ''active'',
        cr_is_reserve = False, cr_version = 1, cr_last_event_id = None\<rparr>,
      \<lparr>cr_id = ''SYN-CREW-DUTY-05'', cr_qualification = ''A321'',
        cr_sector_ids = [''SYN-SECTOR-OUT-003''], cr_duty_start = 90, cr_duty_limit_minutes = 540,
        cr_remaining_duty_minutes = 390, cr_status = ''active'', cr_is_reserve = False,
        cr_version = 1, cr_last_event_id = None\<rparr>,
      \<lparr>cr_id = ''SYN-DUTY-006'', cr_qualification = ''A320'', cr_sector_ids = [],
        cr_duty_start = 60, cr_duty_limit_minutes = 540, cr_remaining_duty_minutes = 480,
        cr_status = ''reserve'', cr_is_reserve = True, cr_version = 1,
        cr_last_event_id = None\<rparr>]"

definition build_connection_cohorts :: "cohort list" where
  "build_connection_cohorts =
     [\<lparr>co_id = ''SYN-COHORT-001'', co_inbound_sector_id = ''SYN-SECTOR-IN-001'',
        co_outbound_sector_id = ''SYN-SECTOR-OUT-002'', co_passenger_count = 26,
        co_minimum_connection_minutes = 45, co_connection_margin_minutes = 55,
        co_assistance_required = False, co_status = ''protected'', co_version = 1,
        co_last_event_id = None\<rparr>,
      \<lparr>co_id = ''SYN-COHORT-002'', co_inbound_sector_id = ''SYN-SECTOR-IN-003'',
        co_outbound_sector_id = ''SYN-SECTOR-OUT-004'', co_passenger_count = 12,
        co_minimum_connection_minutes = 55, co_connection_margin_minutes = 65,
        co_assistance_required = True, co_status = ''protected'', co_version = 1,
        co_last_event_id = None\<rparr>]"

definition build_technical_statuses :: "tech_status list" where
  "build_technical_statuses =
     [\<lparr>te_id = ''SYN-TECH-003'', te_aircraft_id = ''SYN-TAIL-003'',
        te_defect_code = ''DEF-HYD-ACTUATOR'',
        te_description = ''Hydraulic actuator fault - aircraft grounded pending engineering assessment'', te_status = ''serviceable'', te_version = 1, te_last_event_id = None\<rparr>]"

definition build_maintenance_tasks :: "maintenance_task list" where
  "build_maintenance_tasks =
     [\<lparr>mt_id = ''SYN-TASK-001'', mt_technical_status_id = ''SYN-TECH-003'',
        mt_aircraft_id = ''SYN-TAIL-003'', mt_task_type = ''component-replacement'',
        mt_required_capability = aog_capability, mt_spare_part_number = Some aog_part_number,
        mt_provider_id = None, mt_status = ''open'', mt_version = 1,
        mt_last_event_id = None\<rparr>]"

definition build_approved_providers :: "provider list" where
  "build_approved_providers =
     [\<lparr>pv_id = ''SYN-PROV-001'', pv_name = ''Synthetic MRO Services OUT-03'',
        pv_station_id = ''SYN-OUT-03'', pv_capabilities = [aog_capability, ''general-inspection''],
        pv_approved = True, pv_version = 1, pv_last_event_id = None\<rparr>,
      \<lparr>pv_id = ''SYN-PROV-UNAP-001'', pv_name = ''Synthetic Non-Approved Engineering Ltd'',
        pv_station_id = ''SYN-OUT-03'', pv_capabilities = [aog_capability], pv_approved = False,
        pv_version = 1, pv_last_event_id = None\<rparr>]"

definition build_spares :: "spare list" where
  "build_spares =
     [\<lparr>spr_id = ''SYN-SPARE-LOCAL-001'', spr_part_number = aog_part_number,
        spr_traceable = True, spr_station_id = ''SYN-OUT-03'', spr_status = ''available'',
        spr_lead_time_minutes = 60, spr_version = 1, spr_last_event_id = None\<rparr>,
      \<lparr>spr_id = ''SYN-SPARE-REPO-001'', spr_part_number = aog_part_number,
        spr_traceable = True, spr_station_id = hub_id, spr_status = ''available'',
        spr_lead_time_minutes = 180, spr_version = 1, spr_last_event_id = None\<rparr>,
      \<lparr>spr_id = ''SYN-SPARE-UNTRACED-001'', spr_part_number = aog_part_number,
        spr_traceable = False, spr_station_id = ''SYN-OUT-03'', spr_status = ''available'',
        spr_lead_time_minutes = 30, spr_version = 1, spr_last_event_id = None\<rparr>]"

definition build_schedule_risk_signal :: "risk_signal" where
  "build_schedule_risk_signal =
     \<lparr>rsk_id = ''SYN-RISK-SCHED-001'', rsk_scenario_id = ''synthetic-schedule-restriction'',
        rsk_story_id = ''SYN-STORY-SCHED-001'', rsk_source = ''eurocontrol_forecast'',
        rsk_horizon_minutes = 120, rsk_window_start_minutes = 120, rsk_window_end_minutes = 240,
        rsk_confidence = 41 / 50, rsk_max_cancellations_permitted = 1, rsk_status = ''detected'',
        rsk_version = 1, rsk_last_event_id = None\<rparr>"

definition build_forecast_constraints :: "forecast_constraint list" where
  "build_forecast_constraints =
     [\<lparr>fc_id = ''SYN-FCAST-SLOT-001'', fc_constraint_type = ''reduced_slot_capacity'',
        fc_station_id = hub_id, fc_affected_sector_ids = [''SYN-SECTOR-OUT-003'',
        ''SYN-SECTOR-OUT-004''], fc_window_start_minutes = 120, fc_window_end_minutes = 240,
        fc_capacity_reduction_pct = 40, fc_status = ''forecast'', fc_version = 1,
        fc_last_event_id = None\<rparr>,
      \<lparr>fc_id = ''SYN-FCAST-GROUND-001'', fc_constraint_type = ''reduced_ground_capacity'',
        fc_station_id = hub_id, fc_affected_sector_ids = [''SYN-SECTOR-OUT-003'',
        ''SYN-SECTOR-OUT-004''], fc_window_start_minutes = 120, fc_window_end_minutes = 240,
        fc_capacity_reduction_pct = 25, fc_status = ''forecast'', fc_version = 1,
        fc_last_event_id = None\<rparr>]"

definition build_slots :: "airport_slot list" where
  "build_slots =
     map (\<lambda>(slot_id, sector_id, station_id, scheduled_time).
            \<lparr>slt_id = slot_id, slt_sector_id = sector_id, slt_station_id = station_id,
             slt_scheduled_time = scheduled_time, slt_tolerance_minutes = 15,
             slt_status = ''allocated'', slt_version = 1, slt_last_event_id = None\<rparr>)
       [(''SYN-SLOT-01'', ''SYN-SECTOR-IN-001'', ''SYN-OUT-01'', 60),
        (''SYN-SLOT-02'', ''SYN-SECTOR-IN-002'', ''SYN-OUT-02'', 70),
        (''SYN-SLOT-03'', ''SYN-SECTOR-IN-003'', ''SYN-OUT-03'', 80),
        (''SYN-SLOT-04'', ''SYN-SECTOR-IN-004'', ''SYN-OUT-04'', 90),
        (''SYN-SLOT-05'', ''SYN-SECTOR-OUT-001'', hub_id, 150),
        (''SYN-SLOT-06'', ''SYN-SECTOR-OUT-002'', hub_id, 160),
        (''SYN-SLOT-07'', ''SYN-SECTOR-OUT-003'', hub_id, 170),
        (''SYN-SLOT-08'', ''SYN-SECTOR-OUT-004'', hub_id, 180)]"

definition build_stands :: "stand list" where
  "build_stands =
     map (\<lambda>number.
            \<lparr>std_id = ''SYN-STAND-'' @ pad 2 (dec number), std_station_id = hub_id,
             std_compatible_configurations = [''A320'', ''A321''], std_status = ''available'',
             std_version = 1, std_last_event_id = None\<rparr>)
       [1, 2, 3, 4, 5]"

section \<open>Authority\<close>

definition airline_authority :: "(string \<times> authority_row) list" where
  "airline_authority =
     [(''duty_operations_manager'',
       \<lparr>ar_role = ''duty_operations_manager'', ar_limit = Fin 150000,
        ar_actions = [''duty_operations_manager_decision'', ''airline.commit_recovery_plan''],
        ar_delegate = None, ar_ooo = False\<rparr>),
      (''engineering_duty_manager'',
       \<lparr>ar_role = ''engineering_duty_manager'', ar_limit = Fin 200000,
        ar_actions = [''engineering_duty_manager_decision'', ''airline.commit_aog_recovery''],
        ar_delegate = None, ar_ooo = False\<rparr>),
      (''network_operations_director'',
       \<lparr>ar_role = ''network_operations_director'', ar_limit = Fin 300000,
        ar_actions = [''network_operations_director_decision'', ''airline.commit_schedule_adjustment''],
        ar_delegate = None, ar_ooo = False\<rparr>)]"

section \<open>The world\<close>

record airline = runtime +
  aw_aircraft :: "(string \<times> aircraft) list"
  aw_sectors :: "(string \<times> sector) list"
  aw_rotations :: "(string \<times> rotation) list"
  aw_crew :: "(string \<times> crew_duty) list"
  aw_slots :: "(string \<times> airport_slot) list"
  aw_stands :: "(string \<times> stand) list"
  aw_cohorts :: "(string \<times> cohort) list"
  aw_recoveries :: "(string \<times> commitment) list"
  aw_recovery_evaluations :: "(string \<times> recovery_evaluation) list"
  aw_techs :: "(string \<times> tech_status) list"
  aw_tasks :: "(string \<times> maintenance_task) list"
  aw_providers :: "(string \<times> provider) list"
  aw_spares :: "(string \<times> spare) list"
  aw_work_orders :: "(string \<times> work_order) list"
  aw_movements :: "(string \<times> spare_movement) list"
  aw_aog_commands :: "(string \<times> commitment) list"
  aw_aog_evaluations :: "(string \<times> aog_evaluation) list"
  aw_aog_story :: "(string \<times> string) list"
  aw_signals :: "(string \<times> risk_signal) list"
  aw_forecasts :: "(string \<times> forecast_constraint) list"
  aw_adjustments :: "(string \<times> commitment) list"
  aw_schedule_evaluations :: "(string \<times> schedule_evaluation) list"
  aw_sched_story :: "(string \<times> string) list"
  aw_disruption :: "(string \<times> string) list"
  aw_installed :: bool
  aw_events :: "(string \<times> sim_event) list"
  aw_traces :: "(string \<times> string) list"
  aw_processed :: "(string \<times> sim_command \<times> sim_event) list"
  aw_conflicts :: "(string \<times> sim_event) list"

definition new_airline :: "int \<Rightarrow> airline" where
  "new_airline seed =
     runtime.extend (new_runtime seed)
       (airline.fields [] [] [] [] [] [] [] [] [] [] [] [] [] [] [] [] [] [] [] [] [] [] [] [] False
          [] [] [] [])"

text \<open>\<^verbatim>\<open>d[k]\<close> of a collection.\<close>

definition at_key :: "string \<Rightarrow> (string \<times> 'v) list \<Rightarrow> 'v result" where
  "at_key k d = (case map_of d k of None \<Rightarrow> Inl (KeyError (VStr k)) | Some v \<Rightarrow> Inr v)"

text \<open>A write to the record filed under a key.\<close>

definition amend :: "string \<Rightarrow> ('v \<Rightarrow> 'v) \<Rightarrow> (string \<times> 'v) list \<Rightarrow> (string \<times> 'v) list" where
  "amend k f d = map (\<lambda>(k', v). (k', if k' = k then f v else v)) d"

text \<open>\<^verbatim>\<open>sorted(d.values(), key=lambda r: r.id)\<close>.\<close>

definition by_id :: "('v \<Rightarrow> string) \<Rightarrow> (string \<times> 'v) list \<Rightarrow> 'v list" where
  "by_id ident d = sort_key ident (map snd d)"

text \<open>\<^verbatim>\<open>next(x for x in xs if p(x))\<close>.\<close>

definition next_match :: "('a \<Rightarrow> bool) \<Rightarrow> 'a list \<Rightarrow> 'a result" where
  "next_match p xs = (case first_match p xs of None \<Rightarrow> Inl (Raised ''StopIteration'' []) | Some x \<Rightarrow> Inr x)"

lemma at_key_Inr [simp]: "at_key k d = Inr v \<longleftrightarrow> map_of d k = Some v"
  by (auto simp: at_key_def split: option.splits)

lemma next_match_Inr [simp]: "next_match p xs = Inr x \<longleftrightarrow> first_match p xs = Some x"
  by (auto simp: next_match_def split: option.splits)

lemma map_of_amend [simp]: "map_of (amend k f d) k' = (if k' = k then map_option f (map_of d k) else map_of d k')"
  unfolding amend_def by (induction d) auto

lemma fst_amend [simp]: "map fst (amend k f d) = map fst d"
  by (simp add: amend_def comp_def split_beta)

text \<open>A read of the state that may fail, in a sequence of steps.\<close>

definition reads :: "'a result \<Rightarrow> ('a \<Rightarrow> 'b result \<times> 's) \<Rightarrow> 's \<Rightarrow> 'b result \<times> 's" where
  "reads r f s = (case r of Inl x \<Rightarrow> (Inl x, s) | Inr a \<Rightarrow> f a)"

lemma reads_simps [simp]:
  "reads (Inl x) f s = (Inl x, s)" "reads (Inr a) f s = f a"
  by (simp_all add: reads_def)

end
