(* ===== verification/Airline_Constraints.thy ===== *)
theory Airline_Constraints imports Airline_Model begin

text \<open>
  The deterministic admission of recovery options: the hub disruption
  (\<^verbatim>\<open>verticals/airline/constraints.py\<close>), the grounded aircraft (\<^verbatim>\<open>aog_constraints.py\<close>) and
  the schedule restriction (\<^verbatim>\<open>schedule_constraints.py\<close>).  An admission reads an observation, a
  dictionary of any shape, and gives every option of its story with the list of reasons against it.

  The three modules repeat their option and result types and their helpers; the model has them once,
  with the type of the actions a parameter.
\<close>

section \<open>Options and results\<close>

record recovery_action =
  rac_type :: string
  rac_sector :: string
  rac_resource :: "string option"
  rac_minutes :: "int option"

definition recovery_action_to_dict :: "recovery_action \<Rightarrow> pyval" where
  "recovery_action_to_dict a =
     VDict [(''action_type'', VStr (rac_type a)), (''sector_id'', VStr (rac_sector a)),
       (''resource_id'', opt_str (rac_resource a)),
       (''minutes'', case rac_minutes a of None \<Rightarrow> VNone | Some n \<Rightarrow> VInt n)]"

record aog_action =
  aac_type :: string
  aac_resource :: "string option"
  aac_actor :: "string option"

definition aog_action_to_dict :: "aog_action \<Rightarrow> pyval" where
  "aog_action_to_dict a =
     VDict [(''action_type'', VStr (aac_type a)), (''resource_id'', opt_str (aac_resource a)),
       (''actor_id'', opt_str (aac_actor a))]"

record 'a plan_option =
  po_id :: string
  po_impact :: string
  po_value :: rat
  po_actions :: "'a list"
  po_evidence :: "(string \<times> int) list"

record 'a feasibility =
  fe_option :: "'a plan_option"
  fe_feasible :: bool
  fe_reasons :: "string list"

section \<open>Helpers\<close>

text \<open>The reasons whose condition holds, in order; a condition may raise.\<close>

fun collect :: "(string \<times> bool result) list \<Rightarrow> string list result" where
  "collect [] = Inr []"
| "collect ((m, r) # cs) =
     bind_result r (\<lambda>b. bind_result (collect cs) (\<lambda>ms. Inr (if b then m # ms else ms)))"

lemma collect_none: "collect cs = Inr [] \<longleftrightarrow> (\<forall>(m, r) \<in> set cs. r = Inr False)"
  by (induction cs rule: collect.induct) (auto simp: bind_result_Inr_iff split: if_splits)

definition verdict :: "'a plan_option \<Rightarrow> string list result \<Rightarrow> 'a feasibility result" where
  "verdict opt rs = bind_result rs (\<lambda>reasons.
     Inr \<lparr>fe_option = opt, fe_feasible = (reasons = []), fe_reasons = reasons\<rparr>)"

text \<open>\<^verbatim>\<open>any(p(x) for x in xs)\<close> and \<^verbatim>\<open>next((x for x in xs if p(x)), None)\<close> of a test that may
  raise.\<close>

fun any_of :: "('a \<Rightarrow> bool result) \<Rightarrow> 'a list \<Rightarrow> bool result" where
  "any_of p [] = Inr False"
| "any_of p (x # xs) = bind_result (p x) (\<lambda>b. if b then Inr True else any_of p xs)"

fun first_of :: "('a \<Rightarrow> bool result) \<Rightarrow> 'a list \<Rightarrow> 'a option result" where
  "first_of p [] = Inr None"
| "first_of p (x # xs) = bind_result (p x) (\<lambda>b. if b then Inr (Some x) else first_of p xs)"

lemma any_of_False: "any_of p xs = Inr False \<longleftrightarrow> (\<forall>x \<in> set xs. p x = Inr False)"
  by (induction xs) (auto simp: bind_result_Inr_iff split: if_splits)

text \<open>The dictionaries of a list, and the items of a value the code iterates over.\<close>

definition dicts_in :: "pyval list \<Rightarrow> pydict list" where
  "dicts_in xs = List.map_filter (\<lambda>v. case v of VDict d \<Rightarrow> Some d | _ \<Rightarrow> None) xs"

definition seq_of :: "pydict \<Rightarrow> string \<Rightarrow> pyval list result" where
  "seq_of obs k = py_list (py_or (dict_get obs k) (VList []))"

definition record_of :: "pydict \<Rightarrow> string \<Rightarrow> pydict" where
  "record_of obs k = (case dict_get obs k of VDict d \<Rightarrow> d | _ \<Rightarrow> [])"

text \<open>The number of a value, if it is one and finite.  \<^verbatim>\<open>float(v)\<close> of an int beyond the range of floats
  would raise an OverflowError here and in the handlers; such values are outside the model.\<close>

definition number :: "pyval \<Rightarrow> rat option" where
  "number v = (if is_bool v \<or> \<not> is_num v then None
     else case num_of v of Fin q \<Rightarrow> Some q | _ \<Rightarrow> None)"

definition evidence_versions :: "pydict \<Rightarrow> (string \<times> int) list" where
  "evidence_versions obs =
     (case dict_get obs ''evidence_versions'' of
        VDict d \<Rightarrow> sort_key fst
          (List.map_filter (\<lambda>(k, v). case v of VInt i \<Rightarrow> Some (k, i) | _ \<Rightarrow> None) d)
      | _ \<Rightarrow> [])"

definition versions_agree :: "bool \<Rightarrow> pydict \<Rightarrow> pydict \<Rightarrow> bool" where
  "versions_agree typed versions r =
     (case dict_get r ''id'' of
        VStr i \<Rightarrow> (typed \<longrightarrow> is_int (dict_get r ''version'')) \<and>
          py_eq (dict_get versions i) (dict_get r ''version'')
      | _ \<Rightarrow> False)"

definition evidence_is_current :: "pydict \<Rightarrow> pydict list \<Rightarrow> bool" where
  "evidence_is_current obs records =
     (case dict_get obs ''evidence_versions'' of
        VDict versions \<Rightarrow> list_all (versions_agree True versions) records
      | _ \<Rightarrow> False)"

definition value_bounded :: "rat \<Rightarrow> pydict \<Rightarrow> bool" where
  "value_bounded value obs =
     (case number (dict_get obs ''maximum_value_gbp'') of
        None \<Rightarrow> False
      | Some maximum \<Rightarrow> 0 \<le> value \<and> value \<le> maximum)"

definition close_to :: "rat \<Rightarrow> rat \<Rightarrow> rat \<Rightarrow> bool" where
  "close_to tolerance a b \<longleftrightarrow> \<bar>a - b\<bar> \<le> tolerance"

text \<open>A sector that is not over flies the aircraft.\<close>

definition over :: "string list" where
  "over = [''cancelled'', ''completed'']"

definition still_flown :: "pydict \<Rightarrow> bool result" where
  "still_flown s = bind_result (in_strs (dict_get s ''status'') over) (\<lambda>b. Inr (\<not> b))"

section \<open>The hub disruption\<close>

definition tail_option_id :: string where "tail_option_id = ''SYN-OPTION-TAIL-CREW-STAND''"
definition cancel_option_id :: string where "cancel_option_id = ''SYN-OPTION-CANCEL''"
definition retime_option_id :: string where "retime_option_id = ''SYN-OPTION-RETIME-ONLY''"

abbreviation "target_sector_id \<equiv> ''SYN-SECTOR-OUT-001''"
abbreviation "reserve_tail_id \<equiv> ''SYN-TAIL-005''"
abbreviation "reserve_crew_id \<equiv> ''SYN-DUTY-006''"
abbreviation "reserve_stand_id \<equiv> ''SYN-STAND-05''"

definition planned_departure :: "pydict \<Rightarrow> pydict \<Rightarrow> pydict \<Rightarrow> rat option" where
  "planned_departure target inbound rotation =
     (case (number (dict_get target ''scheduled_departure''),
            number (dict_get inbound ''scheduled_departure''),
            number (dict_get inbound ''delay_minutes''),
            number (dict_get rotation ''minimum_turnaround_minutes'')) of
        (Some scheduled, Some departure, Some delay, Some turnaround) \<Rightarrow>
          Some (max scheduled (departure + delay + turnaround))
      | _ \<Rightarrow> None)"

definition slot_window_missed :: "rat option \<Rightarrow> pydict \<Rightarrow> bool" where
  "slot_window_missed departure slot =
     (case (departure, number (dict_get slot ''scheduled_time''),
            number (dict_get slot ''tolerance_minutes'')) of
        (Some t, Some slot_time, Some tolerance) \<Rightarrow> \<not> close_to tolerance t slot_time
      | _ \<Rightarrow> True)"

definition overlaps :: "pydict \<Rightarrow> pydict \<Rightarrow> pyval \<Rightarrow> bool result" where
  "overlaps target aircraft sector =
     (case sector of
        VDict s \<Rightarrow>
          if py_eq (dict_get s ''id'') (dict_get target ''id'')
             \<or> \<not> py_eq (dict_get s ''aircraft_id'') (dict_get aircraft ''id'')
          then Inr False else still_flown s
      | _ \<Rightarrow> Inr False)"

definition tail_reasons :: "pydict \<Rightarrow> rat \<Rightarrow> (string \<times> bool result) list" where
  "tail_reasons obs value =
     (let inbound = record_of obs ''sector'';
          target = record_of obs ''outbound_sector'';
          rotation = record_of obs ''rotation'';
          current_aircraft = record_of obs ''outbound_aircraft'';
          current_crew = record_of obs ''outbound_crew_duty'';
          aircraft = record_of obs ''candidate_aircraft'';
          crew = record_of obs ''candidate_crew_duty'';
          slot = record_of obs ''outbound_slot'';
          stand = record_of obs ''candidate_stand''
      in [(''aircraft availability'',
           Inr (dict_get aircraft ''id'' \<noteq> VStr reserve_tail_id
             \<or> dict_get aircraft ''status'' \<noteq> VStr ''reserve''
             \<or> \<not> py_eq (dict_get aircraft ''current_station_id'') (dict_get target ''origin_id''))),
          (''aircraft configuration'',
           Inr (\<not> py_eq (dict_get aircraft ''configuration'')
             (dict_get current_aircraft ''configuration''))),
          (''aircraft overlap'',
           (case dict_get obs ''sectors'' of
              VList sectors \<Rightarrow> any_of (overlaps target aircraft) sectors
            | _ \<Rightarrow> Inr True)),
          (''crew availability'',
           Inr (dict_get crew ''id'' \<noteq> VStr reserve_crew_id
             \<or> dict_get crew ''status'' \<noteq> VStr ''reserve''
             \<or> dict_get crew ''is_reserve'' \<noteq> VBool True)),
          (''crew qualification'',
           Inr (\<not> py_eq (dict_get crew ''qualification'') (dict_get aircraft ''configuration''))),
          (''crew overlap'', Inr (dict_get crew ''sector_ids'' \<noteq> VList [])),
          (''crew duty margin'',
           Inr (case number (dict_get crew ''remaining_duty_minutes'') of
                  None \<Rightarrow> True | Some remaining \<Rightarrow> remaining < 90)),
          (''slot window'',
           Inr (\<not> py_eq (dict_get slot ''sector_id'') (dict_get target ''id'')
             \<or> dict_get slot ''status'' \<noteq> VStr ''allocated''
             \<or> slot_window_missed (planned_departure target inbound rotation) slot)),
          (''stand compatibility'',
           Inr (dict_get stand ''id'' \<noteq> VStr reserve_stand_id
             \<or> \<not> py_eq (dict_get stand ''station_id'') (dict_get target ''origin_id'')
             \<or> dict_get stand ''status'' \<noteq> VStr ''available''
             \<or> (case dict_get stand ''compatible_configurations'' of
                  VList cs \<Rightarrow> \<not> list_ex (\<lambda>c. py_eq c (dict_get aircraft ''configuration'')) cs
                | _ \<Rightarrow> True))),
          (''evidence versions'',
           Inr (\<not> evidence_is_current obs
             [inbound, target, rotation, current_aircraft, current_crew, aircraft, crew, slot, stand])),
          (''bounded value'', Inr (\<not> value_bounded value obs))])"

definition tail_feasibility ::
  "pydict \<Rightarrow> recovery_action plan_option \<Rightarrow> recovery_action feasibility result" where
  "tail_feasibility obs opt = verdict opt (collect (tail_reasons obs (po_value opt)))"

definition cancel_feasibility ::
  "pydict \<Rightarrow> recovery_action plan_option \<Rightarrow> recovery_action feasibility result" where
  "cancel_feasibility obs opt =
     (let target = record_of obs ''outbound_sector'' in
      verdict opt (collect
        [(''sector availability'',
          Inr (dict_get target ''id'' \<noteq> VStr target_sector_id
            \<or> dict_get target ''status'' = VStr ''cancelled'')),
         (''evidence versions'', Inr (\<not> evidence_is_current obs [target])),
         (''bounded value'', Inr (\<not> value_bounded (po_value opt) obs))]))"

definition retime_feasibility ::
  "pydict \<Rightarrow> recovery_action plan_option \<Rightarrow> recovery_action feasibility result" where
  "retime_feasibility obs opt =
     (let target = record_of obs ''outbound_sector'';
          crew = record_of obs ''outbound_crew_duty'';
          slot = record_of obs ''outbound_slot''
      in verdict opt (collect
        [(''crew'',
          Inr (case number (dict_get crew ''remaining_duty_minutes'') of
                 None \<Rightarrow> True | Some remaining \<Rightarrow> remaining < 390)),
         (''slot'',
          Inr (slot_window_missed
            (map_option (\<lambda>t. t + 390) (number (dict_get target ''scheduled_departure''))) slot)),
         (''evidence versions'', Inr (\<not> evidence_is_current obs [target, crew, slot])),
         (''bounded value'', Inr (\<not> value_bounded (po_value opt) obs))]))"

definition tail_option :: "pydict \<Rightarrow> recovery_action plan_option" where
  "tail_option obs =
     \<lparr>po_id = tail_option_id, po_impact = ''material'', po_value = 75000,
      po_actions =
        [\<lparr>rac_type = ''assign_aircraft'', rac_sector = target_sector_id,
           rac_resource = Some reserve_tail_id, rac_minutes = None\<rparr>,
         \<lparr>rac_type = ''assign_crew'', rac_sector = target_sector_id,
           rac_resource = Some reserve_crew_id, rac_minutes = None\<rparr>,
         \<lparr>rac_type = ''assign_stand'', rac_sector = target_sector_id,
           rac_resource = Some reserve_stand_id, rac_minutes = None\<rparr>],
      po_evidence = evidence_versions obs\<rparr>"

definition cancel_option :: "pydict \<Rightarrow> recovery_action plan_option" where
  "cancel_option obs =
     \<lparr>po_id = cancel_option_id, po_impact = ''high'', po_value = 145000,
      po_actions = [\<lparr>rac_type = ''cancel_sector'', rac_sector = target_sector_id,
        rac_resource = None, rac_minutes = None\<rparr>],
      po_evidence = evidence_versions obs\<rparr>"

definition retime_option :: "pydict \<Rightarrow> recovery_action plan_option" where
  "retime_option obs =
     \<lparr>po_id = retime_option_id, po_impact = ''material'', po_value = 20000,
      po_actions = [\<lparr>rac_type = ''retime_sector'', rac_sector = target_sector_id,
        rac_resource = Some ''SYN-SLOT-05'', rac_minutes = Some 390\<rparr>],
      po_evidence = evidence_versions obs\<rparr>"

definition admit_recovery_options :: "pydict \<Rightarrow> recovery_action feasibility list result" where
  "admit_recovery_options obs = all_ok
     [tail_feasibility obs (tail_option obs), cancel_feasibility obs (cancel_option obs),
      retime_feasibility obs (retime_option obs)]"

section \<open>The grounded aircraft\<close>

definition work_local_id :: string where "work_local_id = ''SYN-AOG-OPTION-WORK-LOCAL''"
definition work_repo_id :: string where "work_repo_id = ''SYN-AOG-OPTION-WORK-REPO''"
definition substitute_id :: string where "substitute_id = ''SYN-AOG-OPTION-SUBSTITUTE''"
definition unapproved_id :: string where "unapproved_id = ''SYN-AOG-OPTION-UNAPPROVED''"

abbreviation "affected_tail_id \<equiv> ''SYN-TAIL-003''"
abbreviation "threatened_sector_id \<equiv> ''SYN-SECTOR-OUT-003''"
abbreviation "aog_provider_id \<equiv> ''SYN-PROV-001''"
abbreviation "spare_local_id \<equiv> ''SYN-SPARE-LOCAL-001''"
abbreviation "spare_repo_id \<equiv> ''SYN-SPARE-REPO-001''"

text \<open>The records that must agree with the declared versions; a record that is not named is skipped.\<close>

definition consistent :: "pydict \<Rightarrow> pydict list \<Rightarrow> bool" where
  "consistent obs records =
     (case dict_get obs ''evidence_versions'' of
        VDict versions \<Rightarrow> list_all (versions_agree False versions) records
      | _ \<Rightarrow> False)"

definition listed :: "pydict \<Rightarrow> string \<Rightarrow> pydict list" where
  "listed obs k = (case dict_get obs k of VList xs \<Rightarrow> dicts_in xs | _ \<Rightarrow> [])"

definition aog_evidence_consistent :: "pydict \<Rightarrow> bool" where
  "aog_evidence_consistent obs = consistent obs
     (filter (\<lambda>r. r \<noteq> [])
        (map (record_of obs)
          [''technical_status'', ''maintenance_task'', ''substitute_candidate'', ''threatened_sector''])
      @ listed obs ''approved_providers'' @ listed obs ''spares'')"

definition aog_story_active :: "pydict \<Rightarrow> bool" where
  "aog_story_active obs \<longleftrightarrow> dict_get obs ''aog_story_active'' = VBool True"

text \<open>\<^verbatim>\<open>next((p for p in ps if p.get("id") == i and isinstance(p, dict)), None)\<close>: the call of
  \<^verbatim>\<open>get\<close> comes before the test, and fails on a value without that method.\<close>

definition with_id :: "pydict \<Rightarrow> string \<Rightarrow> string \<Rightarrow> pydict option result" where
  "with_id obs k i =
     (case dict_get obs k of
        VList xs \<Rightarrow>
          bind_result (first_of (\<lambda>p. bind_result (get_attr p) (\<lambda>d. Inr (dict_get d ''id'' = VStr i))) xs)
            (\<lambda>v. Inr (case v of Some (VDict d) \<Rightarrow> Some d | _ \<Rightarrow> None))
      | _ \<Rightarrow> Inr None)"

text \<open>\<^verbatim>\<open>s in v\<close> for a string: a member of a list, a key of a dictionary, a part of a string.\<close>

definition part_of :: "string \<Rightarrow> string \<Rightarrow> bool" where
  "part_of s t \<longleftrightarrow> list_ex (\<lambda>i. take (length s) (drop i t) = s) [0..<Suc (length t)]"

definition text_in :: "string \<Rightarrow> pyval \<Rightarrow> bool result" where
  "text_in s v =
     (case v of
        VList xs \<Rightarrow> Inr (VStr s \<in> set xs)
      | VDict d \<Rightarrow> Inr (dict_has d s)
      | VStr t \<Rightarrow> Inr (part_of s t)
      | _ \<Rightarrow> Inl (TypeError (Msg ''argument is not iterable'' [v])))"

definition provider_reasons :: "pydict option \<Rightarrow> (string \<times> bool result) list" where
  "provider_reasons provider =
     (case provider of
        None \<Rightarrow> [(''no approved provider'', Inr True)]
      | Some p \<Rightarrow>
          if \<not> truthy (dict_get p ''approved'') then [(''no approved provider'', Inr True)]
          else [(''provider capability mismatch'',
                 bind_result (text_in aog_capability (py_or (dict_get p ''capabilities'') (VList [])))
                   (\<lambda>b. Inr (\<not> b)))])"

definition spare_reasons :: "pydict option \<Rightarrow> (string \<times> bool result) list" where
  "spare_reasons spare =
     (case spare of
        None \<Rightarrow> [(''spare not found'', Inr True)]
      | Some s \<Rightarrow>
          [(''spare not traceable'', Inr (\<not> truthy (dict_get s ''traceable''))),
           (''spare not available'', Inr (dict_get s ''status'' \<noteq> VStr ''available'')),
           (''spare part number mismatch'', Inr (dict_get s ''part_number'' \<noteq> VStr aog_part_number)),
           (''spare lead time exceeds bound'',
            Inr (case number (dict_get s ''lead_time_minutes'') of
                   None \<Rightarrow> True | Some t \<Rightarrow> 480 < t))])"

definition evidence_reason :: "pydict \<Rightarrow> pydict list \<Rightarrow> (string \<times> bool result) list" where
  "evidence_reason obs records =
     [(''evidence versions'',
       Inr (\<not> aog_evidence_consistent obs \<or> \<not> evidence_is_current obs records))]"

definition work_feasibility ::
  "pydict \<Rightarrow> aog_action plan_option \<Rightarrow> string \<Rightarrow> aog_action feasibility result" where
  "work_feasibility obs opt spare_id =
     (let tech = record_of obs ''technical_status'';
          task = record_of obs ''maintenance_task'';
          first =
            [(''aog story not active'', Inr (\<not> aog_story_active obs)),
             (''aircraft not grounded'', Inr (dict_get tech ''status'' \<noteq> VStr ''grounded'')),
             (''technical status aircraft mismatch'',
              Inr (dict_get tech ''aircraft_id'' \<noteq> VStr affected_tail_id)),
             (''maintenance task not open'', Inr (dict_get task ''status'' \<noteq> VStr ''open'')),
             (''task capability mismatch'',
              Inr (dict_get task ''required_capability'' \<noteq> VStr aog_capability)),
             (''task part number mismatch'',
              Inr (dict_get task ''spare_part_number'' \<noteq> VStr aog_part_number))]
      in verdict opt
           (bind_result (collect first) (\<lambda>r1.
            bind_result (with_id obs ''approved_providers'' aog_provider_id) (\<lambda>provider.
            bind_result (collect (provider_reasons provider)) (\<lambda>r2.
            bind_result (with_id obs ''spares'' spare_id) (\<lambda>spare.
            bind_result (collect
              (spare_reasons spare
               @ evidence_reason obs ([tech, task] @ List.map_filter id [provider, spare])
               @ [(''bounded value'', Inr (\<not> value_bounded (po_value opt) obs))])) (\<lambda>r3.
            Inr (r1 @ r2 @ r3))))))))"

definition substitute_feasibility ::
  "pydict \<Rightarrow> aog_action plan_option \<Rightarrow> aog_action feasibility result" where
  "substitute_feasibility obs opt =
     (let tech = record_of obs ''technical_status'';
          sub = record_of obs ''substitute_candidate'';
          threatened = record_of obs ''threatened_sector''
      in verdict opt (collect
           ([(''aog story not active'', Inr (\<not> aog_story_active obs)),
             (''aircraft not grounded'', Inr (dict_get tech ''status'' \<noteq> VStr ''grounded'')),
             (''substitute candidate id mismatch'', Inr (dict_get sub ''id'' \<noteq> VStr reserve_tail_id)),
             (''substitute configuration mismatch'',
              bind_result (in_strs (dict_get sub ''configuration'') [''A320'', ''A321'']) (\<lambda>b. Inr (\<not> b))),
             (''substitute not in reserve status'', Inr (dict_get sub ''status'' \<noteq> VStr ''reserve'')),
             (''substitute not at hub'', Inr (dict_get sub ''current_station_id'' \<noteq> VStr hub_id)),
             (''threatened sector id mismatch'',
              Inr (dict_get threatened ''id'' \<noteq> VStr threatened_sector_id)),
             (''threatened sector already cancelled'',
              Inr (dict_get threatened ''status'' = VStr ''cancelled'')),
             (''substitute aircraft overlap'',
              any_of (\<lambda>s. if dict_get s ''aircraft_id'' = VStr reserve_tail_id
                          then still_flown s else Inr False)
                (listed obs ''sectors''))]
            @ evidence_reason obs [tech, sub, threatened]
            @ [(''bounded value'', Inr (\<not> value_bounded (po_value opt) obs))])))"

definition unapproved_feasibility ::
  "pydict \<Rightarrow> aog_action plan_option \<Rightarrow> aog_action feasibility result" where
  "unapproved_feasibility obs opt =
     bind_result (with_id obs ''approved_providers'' ''SYN-PROV-UNAP-001'') (\<lambda>p.
       Inr \<lparr>fe_option = opt, fe_feasible = False,
            fe_reasons =
              (if aog_story_active obs then [] else [''aog story not active'']) @
              [if (case p of None \<Rightarrow> True | Some d \<Rightarrow> truthy (dict_get d ''approved''))
               then ''no unapproved provider found'' else ''provider not approved'']\<rparr>)"

definition aog_do :: "string \<Rightarrow> string \<Rightarrow> aog_action" where
  "aog_do ty r = \<lparr>aac_type = ty, aac_resource = Some r, aac_actor = None\<rparr>"

definition work_local_option :: "pydict \<Rightarrow> aog_action plan_option" where
  "work_local_option obs =
     \<lparr>po_id = work_local_id, po_impact = ''material'', po_value = 85000,
      po_actions = [aog_do ''engage_approved_provider'' aog_provider_id,
        aog_do ''reserve_spare'' spare_local_id, aog_do ''open_work_order'' affected_tail_id],
      po_evidence = evidence_versions obs\<rparr>"

definition work_repo_option :: "pydict \<Rightarrow> aog_action plan_option" where
  "work_repo_option obs =
     \<lparr>po_id = work_repo_id, po_impact = ''material'', po_value = 95000,
      po_actions = [aog_do ''engage_approved_provider'' aog_provider_id,
        aog_do ''reposition_spare'' spare_repo_id, aog_do ''open_work_order'' affected_tail_id],
      po_evidence = evidence_versions obs\<rparr>"

definition substitute_option :: "pydict \<Rightarrow> aog_action plan_option" where
  "substitute_option obs =
     \<lparr>po_id = substitute_id, po_impact = ''material'', po_value = 120000,
      po_actions =
        [\<lparr>aac_type = ''assign_substitute_aircraft'', aac_resource = Some threatened_sector_id,
          aac_actor = Some reserve_tail_id\<rparr>,
         aog_do ''create_engineering_coordination'' affected_tail_id],
      po_evidence = evidence_versions obs\<rparr>"

definition unapproved_option :: "pydict \<Rightarrow> aog_action plan_option" where
  "unapproved_option obs =
     \<lparr>po_id = unapproved_id, po_impact = ''low'', po_value = 40000,
      po_actions = [aog_do ''engage_unapproved_provider'' ''SYN-PROV-UNAP-001''],
      po_evidence = evidence_versions obs\<rparr>"

definition admit_aog_options :: "pydict \<Rightarrow> aog_action feasibility list result" where
  "admit_aog_options obs = all_ok
     [work_feasibility obs (work_local_option obs) spare_local_id,
      work_feasibility obs (work_repo_option obs) spare_repo_id,
      substitute_feasibility obs (substitute_option obs),
      unapproved_feasibility obs (unapproved_option obs)]"

section \<open>The schedule restriction\<close>

definition buffer_retime_id :: string where "buffer_retime_id = ''SYN-SCHED-OPTION-BUFFER-RETIME''"
definition preposition_id :: string where "preposition_id = ''SYN-SCHED-OPTION-PREPOSITION''"
definition cancel_limited_id :: string where "cancel_limited_id = ''SYN-SCHED-OPTION-CANCEL-LIMITED''"
definition monitor_risk_id :: string where "monitor_risk_id = ''SYN-SCHED-OPTION-MONITOR-RISK''"
definition infeasible_id :: string where "infeasible_id = ''SYN-SCHED-OPTION-INFEASIBLE''"

abbreviation "risk_signal_id \<equiv> ''SYN-RISK-SCHED-001''"
abbreviation "cancel_sector_id \<equiv> ''SYN-SECTOR-OUT-004''"

definition sched_story_active :: "pydict \<Rightarrow> bool" where
  "sched_story_active obs \<longleftrightarrow> dict_get obs ''sched_story_active'' = VBool True"

definition not_empty :: "pydict \<Rightarrow> pydict list" where
  "not_empty r = (if r = [] then [] else [r])"

definition sched_evidence_consistent :: "pydict \<Rightarrow> bool result" where
  "sched_evidence_consistent obs =
     (case dict_get obs ''evidence_versions'' of
        VDict _ \<Rightarrow>
          bind_result (all_ok (map (seq_of obs)
              [''forecast_constraints'', ''affected_sectors'', ''affected_slots'', ''affected_crew'']))
            (\<lambda>xss. Inr (consistent obs
               (not_empty (record_of obs ''risk_signal'')
                @ dicts_in (concat xss)
                @ not_empty (record_of obs ''reserve_aircraft'')
                @ not_empty (record_of obs ''reserve_crew''))))
      | _ \<Rightarrow> Inr False)"

definition sched_evidence_reason :: "pydict \<Rightarrow> string \<times> bool result" where
  "sched_evidence_reason obs =
     (''evidence versions'', bind_result (sched_evidence_consistent obs) (\<lambda>b. Inr (\<not> b)))"

text \<open>One reason for every item of a list that fails a test.\<close>

definition each_reason ::
  "pydict \<Rightarrow> string \<Rightarrow> (pydict \<Rightarrow> bool) \<Rightarrow> (pydict \<Rightarrow> string) \<Rightarrow> string list result" where
  "each_reason obs k bad describe =
     bind_result (seq_of obs k) (\<lambda>xs. Inr (map describe (filter bad (dicts_in xs))))"

definition below :: "rat \<Rightarrow> pyval \<Rightarrow> bool" where
  "below least v = (case number v of None \<Rightarrow> True | Some n \<Rightarrow> n < least)"

definition buffer_retime_feasibility ::
  "(pyfloat \<Rightarrow> string) \<Rightarrow> pydict \<Rightarrow> aog_action plan_option \<Rightarrow> aog_action feasibility result" where
  "buffer_retime_feasibility fr obs opt =
     (let named = (\<lambda>d. py_str fr (dict_get d ''id'')) in
      verdict opt
        (bind_result (each_reason obs ''affected_sectors'' (\<lambda>s. dict_get s ''status'' = VStr ''cancelled'')
           (\<lambda>s. ''sector '' @ named s @ '' already cancelled'')) (\<lambda>r1.
         bind_result (each_reason obs ''affected_slots'' (\<lambda>s. below 15 (dict_get s ''tolerance_minutes''))
           (\<lambda>s. ''slot '' @ named s @ '' tolerance insufficient'')) (\<lambda>r2.
         bind_result (each_reason obs ''affected_crew''
           (\<lambda>c. below 30 (dict_get c ''remaining_duty_minutes''))
           (\<lambda>c. ''crew '' @ named c @ '' insufficient remaining duty'')) (\<lambda>r3.
         bind_result (collect
           [sched_evidence_reason obs, (''bounded value'', Inr (\<not> value_bounded (po_value opt) obs))]) (\<lambda>r4.
         Inr ((if sched_story_active obs then [] else [''sched story not active'']) @ r1 @ r2 @ r3 @ r4)))))))"

text \<open>An active sector holds a reserve resource.\<close>

definition reserve_overlap :: "pydict \<Rightarrow> string \<Rightarrow> string \<Rightarrow> bool result" where
  "reserve_overlap obs field i =
     (case py_or (dict_get obs ''sectors'') (VList []) of
        VList xs \<Rightarrow> any_of (\<lambda>s. if dict_get s field = VStr i then still_flown s else Inr False) (dicts_in xs)
      | _ \<Rightarrow> Inr False)"

definition preposition_feasibility ::
  "pydict \<Rightarrow> aog_action plan_option \<Rightarrow> aog_action feasibility result" where
  "preposition_feasibility obs opt =
     (let aircraft = record_of obs ''reserve_aircraft'';
          crew = record_of obs ''reserve_crew''
      in verdict opt (collect
           [(''sched story not active'', Inr (\<not> sched_story_active obs)),
            (''reserve aircraft id mismatch'', Inr (dict_get aircraft ''id'' \<noteq> VStr reserve_tail_id)),
            (''reserve aircraft not in reserve status'',
             Inr (dict_get aircraft ''status'' \<noteq> VStr ''reserve'')),
            (''reserve aircraft not at hub'',
             Inr (dict_get aircraft ''current_station_id'' \<noteq> VStr ''SYN-HUB-01'')),
            (''reserve crew id mismatch'', Inr (dict_get crew ''id'' \<noteq> VStr reserve_crew_id)),
            (''reserve crew not in reserve status'',
             bind_result (in_strs (dict_get crew ''status'') [''reserve'']) (\<lambda>b. Inr (\<not> b))),
            (''reserve aircraft overlap with active sector'',
             reserve_overlap obs ''aircraft_id'' reserve_tail_id),
            (''reserve crew overlap with active sector'',
             reserve_overlap obs ''crew_duty_id'' reserve_crew_id),
            sched_evidence_reason obs,
            (''bounded value'', Inr (\<not> value_bounded (po_value opt) obs))]))"

definition cancel_limited_feasibility ::
  "pydict \<Rightarrow> aog_action plan_option \<Rightarrow> aog_action feasibility result" where
  "cancel_limited_feasibility obs opt = verdict opt
     (bind_result (seq_of obs ''affected_sectors'') (\<lambda>xs.
      let affected = dicts_in xs;
          permitted = dict_get obs ''max_cancellations_permitted'';
          sector = first_match (\<lambda>s. dict_get s ''id'' = VStr cancel_sector_id) affected
      in collect
        [(''sched story not active'', Inr (\<not> sched_story_active obs)),
         (''constraint does not permit pre-day cancellation'',
          Inr (\<not> is_int permitted \<or> pf_lt (num_of permitted) (Fin 1))),
         (''cancel sector not found in affected sectors'', Inr (sector = None)),
         (''cancel sector SYN-SECTOR-OUT-004 already cancelled'',
          Inr (\<exists>s \<in> set_option sector. dict_get s ''status'' = VStr ''cancelled'')),
         (''pre-existing cancellations in affected window'',
          Inr (list_ex (\<lambda>s. dict_get s ''status'' = VStr ''cancelled'') affected)),
         sched_evidence_reason obs,
         (''bounded value'', Inr (\<not> value_bounded (po_value opt) obs))]))"

definition monitor_risk_feasibility ::
  "pydict \<Rightarrow> aog_action plan_option \<Rightarrow> aog_action feasibility result" where
  "monitor_risk_feasibility obs opt =
     (let signal = record_of obs ''risk_signal''
      in verdict opt (collect
           [(''sched story not active'', Inr (\<not> sched_story_active obs)),
            (''risk signal not found in observation'',
             Inr (dict_get signal ''id'' \<noteq> VStr risk_signal_id)),
            (''risk signal is not in active/detected state'',
             if dict_get signal ''id'' \<noteq> VStr risk_signal_id then Inr False
             else bind_result (in_strs (dict_get signal ''status'') [''detected'', ''active''])
               (\<lambda>b. Inr (\<not> b))),
            (''monitor_risk option must have GBP 0 value'', Inr (po_value opt \<noteq> 0)),
            sched_evidence_reason obs]))"

definition infeasible_feasibility ::
  "(pyfloat \<Rightarrow> string) \<Rightarrow> pydict \<Rightarrow> aog_action plan_option \<Rightarrow> aog_action feasibility" where
  "infeasible_feasibility fr obs opt =
     (let confidence = number (dict_get obs ''forecast_confidence'') in
      \<lparr>fe_option = opt, fe_feasible = False,
       fe_reasons =
         (if sched_story_active obs then [] else [''sched story not active'']) @
         (if (case confidence of None \<Rightarrow> True | Some c \<Rightarrow> c \<le> 19 / 20)
          then [''slot_override_without_backup requires forecast confidence > 0.95 (actual: ''
                @ py_str fr (opt_num confidence) @ '')'']
          else [])\<rparr>)"

definition buffer_retime_option :: "pydict \<Rightarrow> aog_action plan_option" where
  "buffer_retime_option obs =
     \<lparr>po_id = buffer_retime_id, po_impact = ''material'', po_value = 45000,
      po_actions = [aog_do ''retime_sector'' ''SYN-SECTOR-OUT-003'',
        aog_do ''retime_sector'' ''SYN-SECTOR-OUT-004'', aog_do ''update_slot'' ''SYN-SLOT-07'',
        aog_do ''update_slot'' ''SYN-SLOT-08''],
      po_evidence = evidence_versions obs\<rparr>"

definition preposition_option :: "pydict \<Rightarrow> aog_action plan_option" where
  "preposition_option obs =
     \<lparr>po_id = preposition_id, po_impact = ''material'', po_value = 75000,
      po_actions = [aog_do ''preposition_reserve_aircraft'' reserve_tail_id,
        aog_do ''preposition_reserve_crew'' reserve_crew_id],
      po_evidence = evidence_versions obs\<rparr>"

definition cancel_limited_option :: "pydict \<Rightarrow> aog_action plan_option" where
  "cancel_limited_option obs =
     \<lparr>po_id = cancel_limited_id, po_impact = ''material'', po_value = 110000,
      po_actions = [aog_do ''cancel_sector'' cancel_sector_id,
        aog_do ''adjust_rotation'' ''SYN-ROTATION-04'', aog_do ''release_crew_duty'' ''SYN-CREW-DUTY-04''],
      po_evidence = evidence_versions obs\<rparr>"

definition monitor_risk_option :: "pydict \<Rightarrow> aog_action plan_option" where
  "monitor_risk_option obs =
     \<lparr>po_id = monitor_risk_id, po_impact = ''none'', po_value = 0,
      po_actions = [aog_do ''accept_risk'' risk_signal_id],
      po_evidence = evidence_versions obs\<rparr>"

definition infeasible_option :: "pydict \<Rightarrow> aog_action plan_option" where
  "infeasible_option obs =
     \<lparr>po_id = infeasible_id, po_impact = ''low'', po_value = 35000,
      po_actions = [aog_do ''slot_override_without_backup'' ''SYN-SLOT-07''],
      po_evidence = evidence_versions obs\<rparr>"

definition admit_schedule_options ::
  "(pyfloat \<Rightarrow> string) \<Rightarrow> pydict \<Rightarrow> aog_action feasibility list result" where
  "admit_schedule_options fr obs = all_ok
     [buffer_retime_feasibility fr obs (buffer_retime_option obs),
      preposition_feasibility obs (preposition_option obs),
      cancel_limited_feasibility obs (cancel_limited_option obs),
      monitor_risk_feasibility obs (monitor_risk_option obs),
      Inr (infeasible_feasibility fr obs (infeasible_option obs))]"

end
