(* ===== verification/Airline_World.thy ===== *)
theory Airline_World imports Airline_Constraints begin

text \<open>
  The airline world before any command (\<^verbatim>\<open>verticals/airline/worlds/scenario.py\<close>): installation,
  the activation of the three scenarios, and the observations built from the records and the
  journal.
\<close>

section \<open>Constants\<close>

abbreviation "hub_scenario \<equiv> ''synthetic-hub-cascade''"
abbreviation "hub_story \<equiv> ''SYN-STORY-HUB-001''"
abbreviation "hub_workflow \<equiv> ''AIRHUB-0001''"
abbreviation "hub_sensor \<equiv> ''sensor:integrated_hub_disruption''"
abbreviation "hub_type \<equiv> ''integrated-hub-disruption-recovery''"
abbreviation "hub_source_type \<equiv> ''airline.hub_disruption.detected''"

abbreviation "aog_scenario \<equiv> ''synthetic-aog-defect''"
abbreviation "aog_story \<equiv> ''SYN-STORY-AOG-001''"
abbreviation "aog_workflow \<equiv> ''AOGA-0001''"
abbreviation "aog_sensor \<equiv> ''sensor:aog_engineering''"
abbreviation "aog_type \<equiv> ''aog-engineering-recovery''"
abbreviation "aog_source_type \<equiv> ''airline.aog.detected''"
abbreviation "aog_tech_id \<equiv> ''SYN-TECH-003''"
abbreviation "aog_task_id \<equiv> ''SYN-TASK-001''"
abbreviation "aog_rotation_id \<equiv> ''SYN-ROTATION-03''"

abbreviation "sched_scenario \<equiv> ''synthetic-schedule-restriction''"
abbreviation "sched_story \<equiv> ''SYN-STORY-SCHED-001''"
abbreviation "sched_workflow \<equiv> ''AIRSCHED-0001''"
abbreviation "sched_sensor \<equiv> ''sensor:schedule_resilience''"
abbreviation "sched_type \<equiv> ''preemptive-schedule-resilience''"
abbreviation "sched_source_type \<equiv> ''airline.schedule_risk.detected''"

abbreviation "inbound_sector_id \<equiv> ''SYN-SECTOR-IN-001''"
abbreviation "constrained_stand_id \<equiv> ''SYN-STAND-01''"

section \<open>Installation\<close>

definition seed_collection ::
  "(((string \<times> 'r) list \<Rightarrow> (string \<times> 'r) list) \<Rightarrow> airline \<Rightarrow> airline) \<Rightarrow> ('r \<Rightarrow> string) \<Rightarrow>
   ('r \<Rightarrow> pydict) \<Rightarrow> (string \<Rightarrow> 'r \<Rightarrow> 'r) \<Rightarrow> 'r list \<Rightarrow> string \<Rightarrow> airline \<Rightarrow> airline" where
  "seed_collection update ident view stamp rs ty w =
     fold (\<lambda>r w.
       let w1 = update (dict_set (ident r) r) w;
           (e, w2) = emit ty (Some (ident r)) None None None (dict_del ''last_event_id'' (view r)) w1
       in update (amend (ident r) (stamp (ev_id e))) w2) rs w"

definition install :: "airline \<Rightarrow> airline" where
  "install w =
     (if aw_installed w then w
      else
        let w1 = snd (emit ''simulation.started'' (Some ''scenario:airline-synthetic-hub'') None None None
                   [(''seed'', VInt (rt_seed w)), (''scale'', VStr ''demo'')] w);
            w2 = seed_collection aw_aircraft_update ac_id aircraft_view (\<lambda>e r. r\<lparr>ac_last_event_id := Some e\<rparr>)
                   build_aircraft ''airline.aircraft.seeded'' w1;
            w3 = seed_collection aw_sectors_update sec_id sector_view (\<lambda>e r. r\<lparr>sec_last_event_id := Some e\<rparr>)
                   build_sectors ''airline.sector.seeded'' w2;
            w4 = seed_collection aw_rotations_update ro_id rotation_view (\<lambda>e r. r\<lparr>ro_last_event_id := Some e\<rparr>)
                   build_rotations ''airline.rotation.seeded'' w3;
            w5 = seed_collection aw_crew_update cr_id crew_duty_view (\<lambda>e r. r\<lparr>cr_last_event_id := Some e\<rparr>)
                   build_crew_duties ''airline.crew_duty.seeded'' w4;
            w6 = seed_collection aw_slots_update slt_id airport_slot_view (\<lambda>e r. r\<lparr>slt_last_event_id := Some e\<rparr>)
                   build_slots ''airline.slot.seeded'' w5;
            w7 = seed_collection aw_stands_update std_id stand_view (\<lambda>e r. r\<lparr>std_last_event_id := Some e\<rparr>)
                   build_stands ''airline.stand.seeded'' w6;
            w8 = seed_collection aw_cohorts_update co_id cohort_view (\<lambda>e r. r\<lparr>co_last_event_id := Some e\<rparr>)
                   build_connection_cohorts ''airline.connection_cohort.seeded'' w7;
            w9 = seed_collection aw_techs_update te_id tech_status_view (\<lambda>e r. r\<lparr>te_last_event_id := Some e\<rparr>)
                   build_technical_statuses ''airline.technical_status.seeded'' w8;
            w10 = seed_collection aw_tasks_update mt_id maintenance_task_view (\<lambda>e r. r\<lparr>mt_last_event_id := Some e\<rparr>)
                   build_maintenance_tasks ''airline.maintenance_task.seeded'' w9;
            w11 = seed_collection aw_providers_update pv_id provider_view (\<lambda>e r. r\<lparr>pv_last_event_id := Some e\<rparr>)
                   build_approved_providers ''airline.approved_provider.seeded'' w10;
            w12 = seed_collection aw_spares_update spr_id spare_view (\<lambda>e r. r\<lparr>spr_last_event_id := Some e\<rparr>)
                   build_spares ''airline.spare.seeded'' w11;
            w13 = seed_collection aw_signals_update rsk_id risk_signal_view (\<lambda>e r. r\<lparr>rsk_last_event_id := Some e\<rparr>)
                   [build_schedule_risk_signal] ''airline.schedule_risk_signal.seeded'' w12;
            w14 = seed_collection aw_forecasts_update fc_id forecast_constraint_view (\<lambda>e r. r\<lparr>fc_last_event_id := Some e\<rparr>)
                   build_forecast_constraints ''airline.forecast_constraint.seeded'' w13
        in w14\<lparr>aw_installed := True\<rparr>)"

section \<open>Activation\<close>

abbreviation not_installed :: exc where
  "not_installed \<equiv> Raised ''RuntimeError'' [VStr ''AirlineWorld must be installed before activation'']"

text \<open>An activation that was done before gives the source event of then.\<close>

definition activate_once ::
  "string \<Rightarrow> (airline \<Rightarrow> sim_event result \<times> airline) \<Rightarrow> airline \<Rightarrow> sim_event result \<times> airline" where
  "activate_once scenario body w =
     (if \<not> aw_installed w then (Inl not_installed, w)
      else case map_of (aw_events w) scenario of
        Some e \<Rightarrow> (Inr e, w)
      | None \<Rightarrow> body w)"

definition hub_baseline :: "sector \<Rightarrow> rotation \<Rightarrow> stand \<Rightarrow> cohort list \<Rightarrow> pydict" where
  "hub_baseline sector rotation stand cohorts =
     (let at_risk = filter (\<lambda>c. co_connection_margin_minutes c - sec_delay_minutes sector
                                 < co_minimum_connection_minutes c) cohorts
      in [(''cancellations'',
           VInt (if ro_minimum_turnaround_minutes rotation < sec_delay_minutes sector
                    \<and> std_status stand = ''unavailable'' then 1 else 0)),
          (''departure_zero_recovered'', VInt 0),
          (''departure_within_fifteen_recovered'', VInt 0),
          (''protected_connection_cohorts'', VInt (int (length cohorts) - int (length at_risk))),
          (''passengers_requiring_rerouting'', VInt (sum_list (map co_passenger_count at_risk)))])"

definition rotation_with :: "string \<Rightarrow> airline \<Rightarrow> (string \<times> rotation) result" where
  "rotation_with sector w = next_match (\<lambda>(_, r). sector \<in> set (ro_sector_ids r)) (aw_rotations w)"

text \<open>The writes and the two events of an activation, once the records are found.\<close>

definition disrupt_hub :: "sector \<Rightarrow> stand \<Rightarrow> rotation \<Rightarrow> airline \<Rightarrow> sim_event \<times> airline" where
  "disrupt_hub sector0 stand0 rotation w =
     (let cohorts = filter (\<lambda>c. co_inbound_sector_id c = sec_id sector0) (map snd (aw_cohorts w));
          sector = sector0\<lparr>sec_delay_minutes := 45, sec_status := ''delayed'',
                           sec_version := sec_version sector0 + 1\<rparr>;
          stand = stand0\<lparr>std_status := ''unavailable'', std_version := std_version stand0 + 1\<rparr>;
          w1 = w\<lparr>aw_sectors := amend inbound_sector_id (\<lambda>_. sector) (aw_sectors w),
                 aw_stands := amend constrained_stand_id (\<lambda>_. stand) (aw_stands w)\<rparr>;
          (source, w2) = emit hub_source_type (Some (''scenario:'' @ hub_scenario)) (Some (sec_id sector))
            None None
            [(''scenario_id'', VStr hub_scenario), (''story_id'', VStr hub_story),
             (''workflow_id'', VStr hub_workflow), (''inbound_sector_id'', VStr (sec_id sector)),
             (''delay_minutes'', VInt (sec_delay_minutes sector)),
             (''rotation_id'', VStr (ro_id rotation)), (''stand_id'', VStr (std_id stand)),
             (''stand_status'', VStr (std_status stand)),
             (''connection_cohort_ids'', str_list (map co_id cohorts)),
             (''no_action_baseline'', VDict (hub_baseline sector rotation stand cohorts)),
             (''evidence_versions'',
              VDict [(sec_id sector, VInt (sec_version sector)), (std_id stand, VInt (std_version stand))])]
            w1;
          w3 = w2\<lparr>aw_sectors := amend inbound_sector_id (\<lambda>r. r\<lparr>sec_last_event_id := Some (ev_id source)\<rparr>)
                                 (aw_sectors w2),
                  aw_stands := amend constrained_stand_id (\<lambda>r. r\<lparr>std_last_event_id := Some (ev_id source)\<rparr>)
                                 (aw_stands w2)\<rparr>;
          w4 = snd (emit ''sensor.tripped'' (Some hub_sensor) (Some (sec_id sector))
            (Some (ev_id source)) (Some (ev_trace source))
            [(''workflow_type'', VStr hub_type), (''workflow_id'', VStr hub_workflow),
             (''story_id'', VStr hub_story), (''scenario_id'', VStr hub_scenario),
             (''source_event_id'', VStr (ev_id source)),
             (''inbound_sector_id'', VStr (sec_id sector)), (''stand_id'', VStr (std_id stand))] w3)
      in (source,
          w4\<lparr>aw_events := dict_set hub_scenario source (aw_events w4),
             aw_disruption := dict_set hub_story ''active'' (aw_disruption w4)\<rparr>))"

definition activate_hub :: "airline \<Rightarrow> sim_event result \<times> airline" where
  "activate_hub = activate_once hub_scenario (\<lambda>w.
     reads (bind_result (at_key inbound_sector_id (aw_sectors w)) (\<lambda>sector.
            bind_result (at_key constrained_stand_id (aw_stands w)) (\<lambda>stand.
            bind_result (rotation_with (sec_id sector) w) (\<lambda>(_, rotation).
            Inr (sector, stand, rotation)))))
       (\<lambda>(sector, stand, rotation). apfst Inr (disrupt_hub sector stand rotation w)) w)"

definition ground_aircraft ::
  "aircraft \<Rightarrow> tech_status \<Rightarrow> maintenance_task \<Rightarrow> rotation \<Rightarrow> sector \<Rightarrow> airline \<Rightarrow> sim_event \<times> airline" where
  "ground_aircraft aircraft0 tech0 task rotation sector w =
     (let aircraft = aircraft0\<lparr>ac_status := ''grounded'', ac_version := ac_version aircraft0 + 1\<rparr>;
          tech = tech0\<lparr>te_status := ''grounded'', te_version := te_version tech0 + 1\<rparr>;
          w1 = w\<lparr>aw_aircraft := amend affected_tail_id (\<lambda>_. aircraft) (aw_aircraft w),
                 aw_techs := amend aog_tech_id (\<lambda>_. tech) (aw_techs w)\<rparr>;
          (source, w2) = emit aog_source_type (Some (''scenario:'' @ aog_scenario)) (Some (ac_id aircraft))
            None None
            [(''scenario_id'', VStr aog_scenario), (''story_id'', VStr aog_story),
             (''workflow_id'', VStr aog_workflow), (''affected_tail_id'', VStr (ac_id aircraft)),
             (''defect_code'', VStr (te_defect_code tech)),
             (''technical_status_id'', VStr (te_id tech)),
             (''maintenance_task_id'', VStr (mt_id task)), (''rotation_id'', VStr (ro_id rotation)),
             (''threatened_sector_id'', VStr (sec_id sector)),
             (''no_action_baseline'',
              VDict [(''sectors_at_risk'', VInt 1), (''rotation_cancelled'', VInt 0),
                (''passengers_requiring_rerouting'', VInt 0)]),
             (''evidence_versions'',
              VDict [(ac_id aircraft, VInt (ac_version aircraft)), (te_id tech, VInt (te_version tech))])]
            w1;
          w3 = w2\<lparr>aw_aircraft := amend affected_tail_id (\<lambda>r. r\<lparr>ac_last_event_id := Some (ev_id source)\<rparr>)
                                  (aw_aircraft w2),
                  aw_techs := amend aog_tech_id (\<lambda>r. r\<lparr>te_last_event_id := Some (ev_id source)\<rparr>)
                               (aw_techs w2)\<rparr>;
          w4 = snd (emit ''sensor.tripped'' (Some aog_sensor) (Some (ac_id aircraft))
            (Some (ev_id source)) (Some (ev_trace source))
            [(''workflow_type'', VStr aog_type), (''workflow_id'', VStr aog_workflow),
             (''story_id'', VStr aog_story), (''scenario_id'', VStr aog_scenario),
             (''source_event_id'', VStr (ev_id source)),
             (''affected_tail_id'', VStr (ac_id aircraft)),
             (''technical_status_id'', VStr (te_id tech)), (''rotation_id'', VStr (ro_id rotation))] w3)
      in (source,
          w4\<lparr>aw_events := dict_set aog_scenario source (aw_events w4),
             aw_aog_story := dict_set aog_story ''active'' (aw_aog_story w4)\<rparr>))"

definition activate_aog :: "airline \<Rightarrow> sim_event result \<times> airline" where
  "activate_aog = activate_once aog_scenario (\<lambda>w.
     reads (bind_result (at_key affected_tail_id (aw_aircraft w)) (\<lambda>aircraft.
            bind_result (at_key aog_tech_id (aw_techs w)) (\<lambda>tech.
            bind_result (at_key aog_task_id (aw_tasks w)) (\<lambda>task.
            bind_result (at_key aog_rotation_id (aw_rotations w)) (\<lambda>rotation.
            bind_result (at_key threatened_sector_id (aw_sectors w)) (\<lambda>sector.
            Inr (aircraft, tech, task, rotation, sector)))))))
       (\<lambda>(aircraft, tech, task, rotation, sector).
          apfst Inr (ground_aircraft aircraft tech task rotation sector w)) w)"

text \<open>The constraints that the schedule scenario amends are all of the collection, whatever the order.\<close>

definition amend_all :: "('v \<Rightarrow> 'v) \<Rightarrow> (string \<times> 'v) list \<Rightarrow> (string \<times> 'v) list" where
  "amend_all f d = map (\<lambda>(k, v). (k, f v)) d"

definition restrict_schedule :: "risk_signal \<Rightarrow> airline \<Rightarrow> sim_event \<times> airline" where
  "restrict_schedule signal0 w =
     (let signal = signal0\<lparr>rsk_status := ''active'', rsk_version := rsk_version signal0 + 1\<rparr>;
          w1 = w\<lparr>aw_signals := amend risk_signal_id (\<lambda>_. signal) (aw_signals w),
                 aw_forecasts := amend_all (\<lambda>c. c\<lparr>fc_status := ''active'', fc_version := fc_version c + 1\<rparr>)
                                   (aw_forecasts w)\<rparr>;
          constraints = by_id fc_id (aw_forecasts w1);
          affected = str_list [''SYN-SECTOR-OUT-003'', ''SYN-SECTOR-OUT-004''];
          (source, w2) = emit sched_source_type (Some (''scenario:'' @ sched_scenario))
            (Some (rsk_id signal)) None None
            [(''scenario_id'', VStr sched_scenario), (''story_id'', VStr sched_story),
             (''workflow_id'', VStr sched_workflow), (''risk_signal_id'', VStr (rsk_id signal)),
             (''horizon_minutes'', VInt (rsk_horizon_minutes signal)),
             (''window_start_minutes'', VInt (rsk_window_start_minutes signal)),
             (''window_end_minutes'', VInt (rsk_window_end_minutes signal)),
             (''forecast_confidence'', VFloat (Fin (rsk_confidence signal))),
             (''affected_sector_ids'', affected),
             (''no_action_baseline'',
              VDict [(''predicted_delays'', VInt 2), (''predicted_cancellations'', VInt 0),
                (''predicted_delay_per_sector'', VInt 45), (''capacity_retained_pct'', VInt 60),
                (''at_risk_cohort_ids'', str_list [''SYN-COHORT-002''])]),
             (''evidence_versions'',
              VDict (dict_merge [(rsk_id signal, VInt (rsk_version signal))]
                (map (\<lambda>c. (fc_id c, VInt (fc_version c))) constraints)))]
            w1;
          w3 = w2\<lparr>aw_signals := amend risk_signal_id (\<lambda>r. r\<lparr>rsk_last_event_id := Some (ev_id source)\<rparr>)
                                 (aw_signals w2),
                  aw_forecasts := amend_all (\<lambda>c. c\<lparr>fc_last_event_id := Some (ev_id source)\<rparr>)
                                    (aw_forecasts w2)\<rparr>;
          w4 = snd (emit ''sensor.tripped'' (Some sched_sensor) (Some (rsk_id signal))
            (Some (ev_id source)) (Some (ev_trace source))
            [(''workflow_type'', VStr sched_type), (''workflow_id'', VStr sched_workflow),
             (''story_id'', VStr sched_story), (''scenario_id'', VStr sched_scenario),
             (''source_event_id'', VStr (ev_id source)), (''risk_signal_id'', VStr (rsk_id signal)),
             (''affected_sector_ids'', affected)] w3)
      in (source,
          w4\<lparr>aw_events := dict_set sched_scenario source (aw_events w4),
             aw_sched_story := dict_set sched_story ''active'' (aw_sched_story w4)\<rparr>))"

definition activate_schedule :: "airline \<Rightarrow> sim_event result \<times> airline" where
  "activate_schedule = activate_once sched_scenario (\<lambda>w.
     reads (at_key risk_signal_id (aw_signals w)) (\<lambda>signal. apfst Inr (restrict_schedule signal w)) w)"

definition activate_scenario :: "string \<Rightarrow> airline \<Rightarrow> sim_event result \<times> airline" where
  "activate_scenario scenario w =
     (if scenario = hub_scenario then activate_hub w
      else if scenario = aog_scenario then activate_aog w
      else if scenario = sched_scenario then activate_schedule w
      else (Inl (ValueError (Msg ''unsupported Airline scenario: {!r}'' [VStr scenario])), w))"

text \<open>\<^verbatim>\<open>bind_scenario_trace\<close> with a string for the trace.\<close>

definition bind_scenario_trace :: "string \<Rightarrow> string \<Rightarrow> airline \<Rightarrow> unit result \<times> airline" where
  "bind_scenario_trace scenario trace w =
     (if map_of (aw_events w) scenario = None
      then (Inl (ValueError (Msg ''scenario {!r} is not active'' [VStr scenario])), w)
      else if strip trace = []
      then (Inl (ValueError (Msg ''trace_id must be a non-empty string'' [])), w)
      else (Inr (), w\<lparr>aw_traces := dict_set scenario trace (aw_traces w)\<rparr>))"

section \<open>Observations\<close>

definition unavailable :: "string \<Rightarrow> 'a result" where
  "unavailable s = Inl (Raised ''RecoveryObservationUnavailableError'' [VStr s])"

text \<open>The last event of a sensor for its story.\<close>

definition last_sensor :: "string \<Rightarrow> string \<Rightarrow> 'a runtime_scheme \<Rightarrow> sim_event option" where
  "last_sensor sensor story w =
     first_match (\<lambda>e. ev_type e = ''sensor.tripped'' \<and> ev_actor e = Some sensor \<and>
        dict_get (ev_payload e) ''story_id'' = VStr story) (rev (rt_journal w))"

definition event_with :: "pyval \<Rightarrow> 'a runtime_scheme \<Rightarrow> sim_event option" where
  "event_with i w = first_match (\<lambda>e. VStr (ev_id e) = i) (rt_journal w)"

definition baseline_of :: "sim_event option \<Rightarrow> pydict result" where
  "baseline_of e =
     (case e of
        None \<Rightarrow> Inr []
      | Some s \<Rightarrow> as_dict (py_or (dict_get (ev_payload s) ''no_action_baseline'') (VDict [])))"

text \<open>\<^verbatim>\<open>{r.id: r.version for r in records}\<close>, and the same in the order of the ids.\<close>

definition versions_of :: "(string \<times> int) list \<Rightarrow> pydict" where
  "versions_of ps = map (\<lambda>(k, v). (k, VInt v)) (dict_merge [] ps)"

definition sorted_versions :: "(string \<times> int) list \<Rightarrow> pydict" where
  "sorted_versions ps = sort_key fst (versions_of ps)"

definition views :: "('r \<Rightarrow> pydict) \<Rightarrow> 'r list \<Rightarrow> pyval" where
  "views view rs = VList (map (\<lambda>r. VDict (view r)) rs)"

definition scenario_trace :: "string \<Rightarrow> sim_event \<Rightarrow> airline \<Rightarrow> string" where
  "scenario_trace scenario sensor w =
     (case map_of (aw_traces w) scenario of None \<Rightarrow> ev_trace sensor | Some t \<Rightarrow> t)"

definition current_aog_observation :: "airline \<Rightarrow> pydict result" where
  "current_aog_observation w =
     (if map_of (aw_aog_story w) aog_story \<noteq> Some ''active'' then unavailable ''AOG story is not active''
      else case last_sensor aog_sensor aog_story w of
        None \<Rightarrow> unavailable ''AOG sensor evidence is missing''
      | Some sensor \<Rightarrow>
          bind_result (at_key affected_tail_id (aw_aircraft w)) (\<lambda>aircraft.
          bind_result (at_key aog_tech_id (aw_techs w)) (\<lambda>tech.
          bind_result (at_key aog_task_id (aw_tasks w)) (\<lambda>task.
          bind_result (at_key aog_rotation_id (aw_rotations w)) (\<lambda>rotation.
          bind_result (at_key threatened_sector_id (aw_sectors w)) (\<lambda>threatened.
          bind_result (at_key reserve_tail_id (aw_aircraft w)) (\<lambda>substitute.
          bind_result (baseline_of (event_with (opt_str (ev_cause sensor)) w)) (\<lambda>baseline.
          let providers = by_id pv_id (aw_providers w);
              spares = by_id spr_id (aw_spares w)
          in Inr
            [(''workflow_type'', VStr aog_type), (''workflow_id'', VStr aog_workflow),
             (''story_id'', VStr aog_story), (''scenario_id'', VStr aog_scenario),
             (''trace_id'', VStr (scenario_trace aog_scenario sensor w)),
             (''sensor_event_id'', VStr (ev_id sensor)),
             (''source_event_id'', opt_str (ev_cause sensor)),
             (''observed_at'', VFloat (Fin (rt_now w))),
             (''affected_tail_id'', VStr (ac_id aircraft)), (''rotation_id'', VStr (ro_id rotation)),
             (''technical_status'', VDict (tech_status_view tech)),
             (''maintenance_task'', VDict (maintenance_task_view task)),
             (''approved_providers'', views provider_view providers),
             (''spares'', views spare_view spares),
             (''threatened_sector'', VDict (sector_view threatened)),
             (''substitute_candidate'', VDict (aircraft_view substitute)),
             (''sectors'', views sector_view (by_id sec_id (aw_sectors w))),
             (''evidence_versions'', VDict (sorted_versions
               ([(ac_id aircraft, ac_version aircraft), (te_id tech, te_version tech),
                 (mt_id task, mt_version task), (ro_id rotation, ro_version rotation),
                 (sec_id threatened, sec_version threatened), (ac_id substitute, ac_version substitute)]
                @ map (\<lambda>p. (pv_id p, pv_version p)) providers
                @ map (\<lambda>s. (spr_id s, spr_version s)) spares))),
             (''evidence_event_ids'', VList [opt_str (ev_cause sensor), VStr (ev_id sensor)]),
             (''no_action_baseline'', VDict baseline),
             (''maximum_value_gbp'', VFloat (Fin 200000)),
             (''aog_story_active'', VBool (map_of (aw_aog_story w) aog_story = Some ''active''))]))))))))"

text \<open>The records of a collection under some keys, in their order.\<close>

definition present :: "(string \<times> 'v) list \<Rightarrow> string list \<Rightarrow> 'v list" where
  "present d ks = List.map_filter (map_of d) ks"

definition current_schedule_observation :: "airline \<Rightarrow> pydict result" where
  "current_schedule_observation w =
     (if map_of (aw_sched_story w) sched_story \<noteq> Some ''active''
      then unavailable ''schedule story is not active''
      else case last_sensor sched_sensor sched_story w of
        None \<Rightarrow> unavailable ''schedule sensor evidence is missing''
      | Some sensor \<Rightarrow>
          bind_result (at_key risk_signal_id (aw_signals w)) (\<lambda>signal.
          bind_result (at_key reserve_tail_id (aw_aircraft w)) (\<lambda>aircraft.
          bind_result (at_key reserve_crew_id (aw_crew w)) (\<lambda>crew.
          bind_result (baseline_of (event_with (opt_str (ev_cause sensor)) w)) (\<lambda>baseline.
          let constraints = by_id fc_id (aw_forecasts w);
              sectors = present (aw_sectors w) [''SYN-SECTOR-OUT-003'', ''SYN-SECTOR-OUT-004''];
              rotations = present (aw_rotations w) [''SYN-ROTATION-03'', ''SYN-ROTATION-04''];
              slots = present (aw_slots w) [''SYN-SLOT-07'', ''SYN-SLOT-08''];
              crews = present (aw_crew w) [''SYN-CREW-DUTY-05'', ''SYN-CREW-DUTY-04''];
              tails = present (aw_aircraft w) [''SYN-TAIL-003'', ''SYN-TAIL-004'']
          in Inr
            [(''workflow_type'', VStr sched_type), (''workflow_id'', VStr sched_workflow),
             (''story_id'', VStr sched_story), (''scenario_id'', VStr sched_scenario),
             (''trace_id'', VStr (scenario_trace sched_scenario sensor w)),
             (''sensor_event_id'', VStr (ev_id sensor)),
             (''source_event_id'', opt_str (ev_cause sensor)),
             (''observed_at'', VFloat (Fin (rt_now w))),
             (''sched_story_active'', VBool (map_of (aw_sched_story w) sched_story = Some ''active'')),
             (''maximum_value_gbp'', VFloat (Fin 300000)),
             (''forecast_confidence'', VFloat (Fin (rsk_confidence signal))),
             (''max_cancellations_permitted'', VInt (rsk_max_cancellations_permitted signal)),
             (''risk_signal'', VDict (risk_signal_view signal)),
             (''forecast_constraints'', views forecast_constraint_view constraints),
             (''affected_sectors'', views sector_view sectors),
             (''affected_rotations'', views rotation_view rotations),
             (''affected_slots'', views airport_slot_view slots),
             (''affected_crew'', views crew_duty_view crews),
             (''affected_aircraft'', views aircraft_view tails),
             (''reserve_aircraft'', VDict (aircraft_view aircraft)),
             (''reserve_crew'', VDict (crew_duty_view crew)),
             (''sectors'', views sector_view (by_id sec_id (aw_sectors w))),
             (''evidence_versions'', VDict (versions_of
               ([(rsk_id signal, rsk_version signal)]
                @ map (\<lambda>c. (fc_id c, fc_version c)) constraints
                @ map (\<lambda>s. (sec_id s, sec_version s)) sectors
                @ map (\<lambda>r. (ro_id r, ro_version r)) rotations
                @ map (\<lambda>s. (slt_id s, slt_version s)) slots
                @ map (\<lambda>c. (cr_id c, cr_version c)) crews
                @ map (\<lambda>a. (ac_id a, ac_version a)) tails
                @ [(ac_id aircraft, ac_version aircraft), (cr_id crew, cr_version crew)]))),
             (''evidence_event_ids'', VList [opt_str (ev_cause sensor), VStr (ev_id sensor)]),
             (''no_action_baseline'', VDict baseline)])))))"

text \<open>
  \<^verbatim>\<open>build_observation\<close> of the hub: \<^verbatim>\<open>now\<close> replaces the clock when it is given.
\<close>

definition hub_observation :: "pydict \<Rightarrow> rat option \<Rightarrow> airline \<Rightarrow> pydict result" where
  "hub_observation sensor now w =
     (if dict_get sensor ''type'' \<noteq> VStr ''sensor.tripped'' \<or> dict_get sensor ''actor_id'' \<noteq> VStr hub_sensor
      then Inl (ValueError (Msg ''observation requires the integrated hub sensor event'' []))
      else
        bind_result (get_attr (py_or (dict_get sensor ''payload'') (VDict []))) (\<lambda>payload.
        bind_result (in_strs (dict_get payload ''inbound_sector_id'') (map fst (aw_sectors w))) (\<lambda>has_sector.
        bind_result (if has_sector
                     then in_strs (dict_get payload ''stand_id'') (map fst (aw_stands w)) else Inr False)
          (\<lambda>known.
        if \<not> known
        then Inl (ValueError (Msg ''integrated hub sensor references unknown world records'' []))
        else
          bind_result (item_str payload ''inbound_sector_id'') (\<lambda>sector_id.
          bind_result (item_str payload ''stand_id'') (\<lambda>stand_id.
          bind_result (at_key sector_id (aw_sectors w)) (\<lambda>sector.
          bind_result (at_key stand_id (aw_stands w)) (\<lambda>stand.
          bind_result (rotation_with (sec_id sector) w) (\<lambda>(_, rotation).
          bind_result (at_key (last (ro_sector_ids rotation)) (aw_sectors w)) (\<lambda>out.
          bind_result (at_key (sec_aircraft_id out) (aw_aircraft w)) (\<lambda>out_aircraft.
          bind_result (at_key (sec_crew_duty_id out) (aw_crew w)) (\<lambda>out_crew.
          bind_result (at_key (sec_slot_id out) (aw_slots w)) (\<lambda>out_slot.
          bind_result (at_key reserve_tail_id (aw_aircraft w)) (\<lambda>tail.
          bind_result (at_key reserve_crew_id (aw_crew w)) (\<lambda>crew.
          bind_result (at_key reserve_stand_id (aw_stands w)) (\<lambda>cand_stand.
          bind_result (at_key (sec_aircraft_id sector) (aw_aircraft w)) (\<lambda>in_aircraft.
          bind_result (at_key (sec_crew_duty_id sector) (aw_crew w)) (\<lambda>in_crew.
          bind_result (at_key (sec_slot_id sector) (aw_slots w)) (\<lambda>in_slot.
          bind_result (baseline_of (event_with (dict_get sensor ''cause_event_id'') w)) (\<lambda>baseline.
          let cohorts = sort_key co_id
                (filter (\<lambda>c. co_inbound_sector_id c = sec_id sector) (map snd (aw_cohorts w)))
          in Inr
            [(''workflow_type'', VStr hub_type), (''workflow_id'', VStr hub_workflow),
             (''story_id'', VStr hub_story), (''scenario_id'', VStr hub_scenario),
             (''trace_id'', dict_get sensor ''trace_id''),
             (''sensor_event_id'', dict_get sensor ''event_id''),
             (''source_event_id'', dict_get sensor ''cause_event_id''),
             (''observed_at'', VFloat (Fin (case now of None \<Rightarrow> rt_now w | Some t \<Rightarrow> t))),
             (''sector'', VDict (sector_view sector)),
             (''stand'', VDict (stand_view stand)),
             (''rotation'', VDict (rotation_view rotation)),
             (''aircraft'', VDict (aircraft_view in_aircraft)),
             (''crew_duty'', VDict (crew_duty_view in_crew)),
             (''slot'', VDict (airport_slot_view in_slot)),
             (''connection_cohorts'', views cohort_view cohorts),
             (''outbound_sector'', VDict (sector_view out)),
             (''outbound_aircraft'', VDict (aircraft_view out_aircraft)),
             (''outbound_crew_duty'', VDict (crew_duty_view out_crew)),
             (''outbound_slot'', VDict (airport_slot_view out_slot)),
             (''candidate_aircraft'', VDict (aircraft_view tail)),
             (''candidate_crew_duty'', VDict (crew_duty_view crew)),
             (''candidate_stand'', VDict (stand_view cand_stand)),
             (''sectors'', views sector_view (by_id sec_id (aw_sectors w))),
             (''evidence_versions'', VDict (sorted_versions
               [(sec_id sector, sec_version sector), (std_id stand, std_version stand),
                (ro_id rotation, ro_version rotation), (ac_id in_aircraft, ac_version in_aircraft),
                (cr_id in_crew, cr_version in_crew), (slt_id in_slot, slt_version in_slot),
                (sec_id out, sec_version out), (ac_id out_aircraft, ac_version out_aircraft),
                (cr_id out_crew, cr_version out_crew), (slt_id out_slot, slt_version out_slot),
                (ac_id tail, ac_version tail), (cr_id crew, cr_version crew),
                (std_id cand_stand, std_version cand_stand)])),
             (''maximum_value_gbp'', VFloat (Fin 150000)),
             (''evidence_event_ids'',
              VList [dict_get sensor ''cause_event_id'', dict_get sensor ''event_id'']),
             (''no_action_baseline'', VDict baseline)]))))))))))))))))))))"

text \<open>The observation must be of the sensor event that was given.\<close>

definition same_sensor :: "string \<Rightarrow> pydict \<Rightarrow> pydict \<Rightarrow> pydict result" where
  "same_sensor story sensor obs =
     (if py_eq (dict_get obs ''sensor_event_id'') (dict_get sensor ''event_id'') then Inr obs
      else Inl (ValueError (Msg (story @ '' observation does not match the supplied sensor event'') [])))"

definition build_observation :: "pydict \<Rightarrow> rat option \<Rightarrow> airline \<Rightarrow> pydict result" where
  "build_observation sensor now w =
     (let tripped = dict_get sensor ''type'' = VStr ''sensor.tripped'';
          actor = dict_get sensor ''actor_id''
      in if tripped \<and> actor = VStr aog_sensor
         then bind_result (current_aog_observation w) (same_sensor ''AOG'' sensor)
         else if tripped \<and> actor = VStr sched_sensor
         then bind_result (current_schedule_observation w) (same_sensor ''schedule'' sensor)
         else if dict_get sensor ''type'' = VStr hub_source_type
         then
           (case first_match (\<lambda>e. ev_type e = ''sensor.tripped'' \<and> ev_actor e = Some hub_sensor \<and>
                   py_eq (opt_str (ev_cause e)) (dict_get sensor ''event_id'')) (rt_journal w) of
              None \<Rightarrow> Inl (ValueError (Msg ''source disruption has no integrated hub sensor event'' []))
            | Some e \<Rightarrow> hub_observation (event_to_dict e) now w)
         else hub_observation sensor now w)"

definition current_recovery_observation :: "airline \<Rightarrow> pydict result" where
  "current_recovery_observation w =
     (if map_of (aw_disruption w) hub_story \<noteq> Some ''active''
      then unavailable ''integrated hub disruption is not active''
      else case last_sensor hub_sensor hub_story w of
        None \<Rightarrow> unavailable ''integrated hub disruption sensor evidence is missing''
      | Some sensor \<Rightarrow> build_observation (event_to_dict sensor) None w)"

section \<open>Scenario and process entry points\<close>

text \<open>Scenario, sensor, workflow and story of each workflow type.\<close>

definition hero_identities :: "(string \<times> string \<times> string \<times> string \<times> string) list" where
  "hero_identities =
     [(hub_type, hub_scenario, hub_sensor, hub_workflow, hub_story),
      (aog_type, aog_scenario, aog_sensor, aog_workflow, aog_story),
      (sched_type, sched_scenario, sched_sensor, sched_workflow, sched_story)]"

definition scenario_to_workflow_type :: "(string \<times> string) list" where
  "scenario_to_workflow_type =
     [(hub_scenario, hub_type), (aog_scenario, aog_type), (sched_scenario, sched_type)]"

definition run_scenario :: "string \<Rightarrow> airline \<Rightarrow> pydict result \<times> airline" where
  "run_scenario scenario w =
     (case map_of scenario_to_workflow_type scenario of
        None \<Rightarrow> (Inl (ValueError (Msg ''unsupported Airline scenario: {!r}'' [VStr scenario])), w)
      | Some ty \<Rightarrow>
          (case map_of hero_identities ty of
             None \<Rightarrow> (Inl (KeyError (VStr ty)), w)
           | Some (_, _, workflow, story) \<Rightarrow>
               and_then (activate_scenario scenario w) (\<lambda>source w1.
                 (Inr [(''scenario_id'', VStr scenario), (''root_event_id'', VStr (ev_id source)),
                       (''workflow_id'', VStr workflow), (''story_id'', VStr story)], w1))))"

definition run_reference_process :: "string \<Rightarrow> airline \<Rightarrow> pydict result \<times> airline" where
  "run_reference_process ty w =
     (case map_of hero_identities ty of
        None \<Rightarrow> (Inl (ValueError (Msg ''unsupported Airline reference process: {!r}'' [VStr ty])), w)
      | Some (scenario, sensor_id, workflow, story) \<Rightarrow>
          and_then (activate_scenario scenario w) (\<lambda>source w1.
            (bind_result (next_match (\<lambda>e. ev_type e = ''sensor.tripped'' \<and> ev_actor e = Some sensor_id \<and>
                 ev_cause e = Some (ev_id source)) (rt_journal w1)) (\<lambda>sensor.
               Inr [(''workflow_type'', VStr ty), (''workflow_id'', VStr workflow),
                    (''scenario_id'', VStr scenario), (''story_id'', VStr story),
                    (''source_event_id'', VStr (ev_id source)),
                    (''sensor_event_id'', VStr (ev_id sensor))]), w1)))"

end
