(* ===== verification/Airline_Commands.thy ===== *)
theory Airline_Commands imports Airline_World begin

text \<open>
  The command handlers of the airline world: \<^verbatim>\<open>actions/commands.py\<close> (the hub disruption),
  \<^verbatim>\<open>actions/aog_commands.py\<close> (the grounded aircraft), \<^verbatim>\<open>actions/schedule_commands.py\<close> (the
  schedule restriction), and \<^verbatim>\<open>AirlineWorld.apply_command\<close>, which sends a command to its handler
  once.

  A handler admits the options again on the current observation, compares the command with the
  admitted option, and rejects it with the first fault it finds.  \<^verbatim>\<open>fr\<close> is the decimal of a float.
\<close>

section \<open>Shared steps\<close>

definition starts_with :: "string \<Rightarrow> string \<Rightarrow> bool" where
  "starts_with p s \<longleftrightarrow> take (length p) s = p"

fun is_id :: "string \<Rightarrow> pyval \<Rightarrow> bool" where
  "is_id p (VStr s) = starts_with p s"
| "is_id p _ = False"

text \<open>The reason of the first fault.\<close>

fun first_fault :: "(bool \<times> string) list \<Rightarrow> string option" where
  "first_fault [] = None"
| "first_fault ((b, m) # fs) = (if b then Some m else first_fault fs)"

lemma first_fault_None: "first_fault fs = None \<longleftrightarrow> (\<forall>(b, m) \<in> set fs. \<not> b)"
  by (induction fs rule: first_fault.induct) auto

text \<open>\<^verbatim>\<open>f"{q:,.2f}"\<close> of a number that is not negative.\<close>

definition round_half_even :: "rat \<Rightarrow> int" where
  "round_half_even q =
     (let n = \<lfloor>q\<rfloor>; f = q - of_int n in
      if f < 1 / 2 \<or> f = 1 / 2 \<and> even n then n else n + 1)"

fun group_digits :: "string \<Rightarrow> string" where
  "group_digits (a # b # c # d # ds) = a # b # c # CHR '','' # group_digits (d # ds)"
| "group_digits ds = ds"

definition money :: "rat \<Rightarrow> string" where
  "money q =
     (let cents = nat (round_half_even (100 * q)) in
      rev (group_digits (rev (dec (cents div 100)))) @ ''.'' @ pad 2 (dec (cents mod 100)))"

definition value_message :: "rat \<Rightarrow> rat \<Rightarrow> string" where
  "value_message value limit =
     ''bounded value must equal GBP '' @ money value @ '' and not exceed GBP '' @ money limit"

text \<open>The value of a command is a finite number, the one of the option, and within the limit.\<close>

definition value_wrong :: "pyval \<Rightarrow> rat \<Rightarrow> rat \<Rightarrow> bool" where
  "value_wrong v value limit =
     (case number v of None \<Rightarrow> True | Some q \<Rightarrow> q \<noteq> value \<or> q < 0 \<or> limit < q)"

definition spend_limit :: "string \<Rightarrow> rat" where
  "spend_limit role =
     (case map_of airline_authority role of
        Some row \<Rightarrow> (case ar_limit row of Fin q \<Rightarrow> q | _ \<Rightarrow> 0)
      | None \<Rightarrow> 0)"

definition may_approve :: "string \<Rightarrow> string \<Rightarrow> bool" where
  "may_approve role action =
     (case map_of airline_authority role of None \<Rightarrow> False | Some row \<Rightarrow> action \<in> set (ar_actions row))"

definition result_for :: "string \<Rightarrow> 'a feasibility list \<Rightarrow> 'a feasibility option" where
  "result_for i rs = first_match (\<lambda>r. po_id (fe_option r) = i) rs"

text \<open>\<^verbatim>\<open>str(d[k])\<close>, and a \<^verbatim>\<open>repr\<close> inside a message.\<close>

definition str_at :: "(pyfloat \<Rightarrow> string) \<Rightarrow> pydict \<Rightarrow> string \<Rightarrow> string result" where
  "str_at fr d k = bind_result (at_key k d) (\<lambda>v. Inr (py_str fr v))"

definition join_reasons :: "string list \<Rightarrow> string" where
  "join_reasons rs = comma rs"

text \<open>The checks of an evaluation, as the code reports them.\<close>

definition check_results :: "(string \<times> bool) list \<Rightarrow> string \<times> string list" where
  "check_results checks =
     (if list_all snd checks then ''pass'' else ''fail'',
      map (\<lambda>(name, passed). name @ '':'' @ (if passed then ''pass'' else ''fail'')) checks)"

section \<open>Mutated records\<close>

text \<open>
  A handler keeps the records it changed in a list, and then counts up their versions and notes the
  event on them.  A reference is the collection of the record, its key, and the id it had.
\<close>

datatype coll = CAircraft | CSector | CRotation | CCrew | CSlot | CStand | CTech | CTask | CSpare | CSignal

type_synonym mref = "coll \<times> string \<times> string"

fun bump_ref :: "mref \<Rightarrow> airline \<Rightarrow> airline" where
  "bump_ref (CAircraft, k, _) w = w\<lparr>aw_aircraft := amend k (\<lambda>r. r\<lparr>ac_version := ac_version r + 1\<rparr>) (aw_aircraft w)\<rparr>"
| "bump_ref (CSector, k, _) w = w\<lparr>aw_sectors := amend k (\<lambda>r. r\<lparr>sec_version := sec_version r + 1\<rparr>) (aw_sectors w)\<rparr>"
| "bump_ref (CRotation, k, _) w = w\<lparr>aw_rotations := amend k (\<lambda>r. r\<lparr>ro_version := ro_version r + 1\<rparr>) (aw_rotations w)\<rparr>"
| "bump_ref (CCrew, k, _) w = w\<lparr>aw_crew := amend k (\<lambda>r. r\<lparr>cr_version := cr_version r + 1\<rparr>) (aw_crew w)\<rparr>"
| "bump_ref (CSlot, k, _) w = w\<lparr>aw_slots := amend k (\<lambda>r. r\<lparr>slt_version := slt_version r + 1\<rparr>) (aw_slots w)\<rparr>"
| "bump_ref (CStand, k, _) w = w\<lparr>aw_stands := amend k (\<lambda>r. r\<lparr>std_version := std_version r + 1\<rparr>) (aw_stands w)\<rparr>"
| "bump_ref (CTech, k, _) w = w\<lparr>aw_techs := amend k (\<lambda>r. r\<lparr>te_version := te_version r + 1\<rparr>) (aw_techs w)\<rparr>"
| "bump_ref (CTask, k, _) w = w\<lparr>aw_tasks := amend k (\<lambda>r. r\<lparr>mt_version := mt_version r + 1\<rparr>) (aw_tasks w)\<rparr>"
| "bump_ref (CSpare, k, _) w = w\<lparr>aw_spares := amend k (\<lambda>r. r\<lparr>spr_version := spr_version r + 1\<rparr>) (aw_spares w)\<rparr>"
| "bump_ref (CSignal, k, _) w = w\<lparr>aw_signals := amend k (\<lambda>r. r\<lparr>rsk_version := rsk_version r + 1\<rparr>) (aw_signals w)\<rparr>"

fun stamp :: "string \<Rightarrow> mref \<Rightarrow> airline \<Rightarrow> airline" where
  "stamp e (CAircraft, k, _) w = w\<lparr>aw_aircraft := amend k (\<lambda>r. r\<lparr>ac_last_event_id := Some e\<rparr>) (aw_aircraft w)\<rparr>"
| "stamp e (CSector, k, _) w = w\<lparr>aw_sectors := amend k (\<lambda>r. r\<lparr>sec_last_event_id := Some e\<rparr>) (aw_sectors w)\<rparr>"
| "stamp e (CRotation, k, _) w = w\<lparr>aw_rotations := amend k (\<lambda>r. r\<lparr>ro_last_event_id := Some e\<rparr>) (aw_rotations w)\<rparr>"
| "stamp e (CCrew, k, _) w = w\<lparr>aw_crew := amend k (\<lambda>r. r\<lparr>cr_last_event_id := Some e\<rparr>) (aw_crew w)\<rparr>"
| "stamp e (CSlot, k, _) w = w\<lparr>aw_slots := amend k (\<lambda>r. r\<lparr>slt_last_event_id := Some e\<rparr>) (aw_slots w)\<rparr>"
| "stamp e (CStand, k, _) w = w\<lparr>aw_stands := amend k (\<lambda>r. r\<lparr>std_last_event_id := Some e\<rparr>) (aw_stands w)\<rparr>"
| "stamp e (CTech, k, _) w = w\<lparr>aw_techs := amend k (\<lambda>r. r\<lparr>te_last_event_id := Some e\<rparr>) (aw_techs w)\<rparr>"
| "stamp e (CTask, k, _) w = w\<lparr>aw_tasks := amend k (\<lambda>r. r\<lparr>mt_last_event_id := Some e\<rparr>) (aw_tasks w)\<rparr>"
| "stamp e (CSpare, k, _) w = w\<lparr>aw_spares := amend k (\<lambda>r. r\<lparr>spr_last_event_id := Some e\<rparr>) (aw_spares w)\<rparr>"
| "stamp e (CSignal, k, _) w = w\<lparr>aw_signals := amend k (\<lambda>r. r\<lparr>rsk_last_event_id := Some e\<rparr>) (aw_signals w)\<rparr>"

definition bump_all :: "mref list \<Rightarrow> airline \<Rightarrow> airline" where
  "bump_all rs w = fold bump_ref rs w"

definition stamp_all :: "string \<Rightarrow> mref list \<Rightarrow> airline \<Rightarrow> airline" where
  "stamp_all e rs w = fold (stamp e) rs w"

definition ref_ids :: "mref list \<Rightarrow> pyval" where
  "ref_ids rs = str_list (map (\<lambda>(_, _, i). i) rs)"

section \<open>The hub disruption\<close>

abbreviation "hub_command_type \<equiv> ''airline.commit_recovery_plan''"
abbreviation "hub_success \<equiv> ''airline.recovery.applied''"
abbreviation "hub_persona \<equiv> ''duty_operations_manager''"
abbreviation "hub_issuer \<equiv> ''operations-control''"

definition recovery_command_id :: "string \<Rightarrow> string \<Rightarrow> string \<Rightarrow> string" where
  "recovery_command_id workflow decision opt = ''SYN-CMD-'' @ workflow @ ''-'' @ decision @ ''-'' @ opt"

definition hub_options :: "airline \<Rightarrow> (pydict \<times> recovery_action feasibility list) result" where
  "hub_options w =
     bind_result (current_recovery_observation w) (\<lambda>obs.
     bind_result (admit_recovery_options obs) (\<lambda>rs. Inr (obs, rs)))"

definition command_for_hub ::
  "(pyfloat \<Rightarrow> string) \<Rightarrow> airline \<Rightarrow> string \<Rightarrow> string \<Rightarrow> string \<Rightarrow> string \<Rightarrow> sim_command result" where
  "command_for_hub fr w opt_id workflow decision persona =
     bind_result (hub_options w) (\<lambda>(obs, rs).
       case result_for opt_id rs of
         None \<Rightarrow> Inl (ValueError (Msg ''unknown recovery option: {!r}'' [VStr opt_id]))
       | Some r \<Rightarrow>
           if \<not> fe_feasible r
           then Inl (ValueError (Msg ''recovery option {!r} is not admitted: {}''
                  [VStr opt_id, VStr (join_reasons (fe_reasons r))]))
           else
             bind_result (str_at fr obs ''trace_id'') (\<lambda>trace.
             let opt = fe_option r in
             Inr \<lparr>cmd_id = recovery_command_id workflow decision opt_id, cmd_trace = trace,
                  cmd_issuer = hub_issuer, cmd_type = hub_command_type,
                  cmd_payload =
                    [(''workflow_id'', VStr workflow),
                     (''objective_id'', VStr (''SYN-OBJECTIVE-'' @ workflow)),
                     (''decision_id'', VStr decision),
                     (''disruption_id'', VStr ''SYN-DISRUPTION-HUB-001''),
                     (''scenario_id'', VStr hub_scenario), (''story_id'', VStr hub_story),
                     (''persona'', VStr persona), (''option_id'', VStr (po_id opt)),
                     (''action_category'', VStr ''integrated_hub_recovery''),
                     (''actions'', VList (map recovery_action_to_dict (po_actions opt))),
                     (''evidence_versions'', VDict (versions_of (po_evidence opt))),
                     (''value_gbp'', VFloat (Fin (po_value opt))),
                     (''expected_event_type'', VStr hub_success),
                     (''expected_evaluation_type'', VStr ''airline.recovery.evaluation'')]\<rparr>))"

definition reject :: "airline \<Rightarrow> sim_command \<Rightarrow> string \<Rightarrow> sim_event \<times> airline" where
  "reject w c reason =
     emit ''command.rejected'' (Some (cmd_issuer c)) (Some target_sector_id)
       (map_option ev_id (map_of (aw_events w) hub_scenario)) (Some (cmd_trace c))
       [(''command'', VDict (command_to_dict c)), (''reason'', VStr reason)] w"

definition hub_faults ::
  "(pyfloat \<Rightarrow> string) \<Rightarrow> sim_command \<Rightarrow> pydict \<Rightarrow> recovery_action plan_option \<Rightarrow> (bool \<times> string) list" where
  "hub_faults fr c obs opt =
     (let p = cmd_payload c;
          workflow = dict_get p ''workflow_id'';
          persona = dict_get p ''persona''
      in [(\<not> is_id ''AIRHUB-'' workflow, ''workflow_id is not a canonical AIRHUB id''),
          (\<not> is_id ''SYN-DECISION-'' (dict_get p ''decision_id''),
           ''decision_id is not a canonical synthetic id''),
          (dict_get p ''objective_id'' \<noteq> VStr (''SYN-OBJECTIVE-'' @ py_str fr workflow),
           ''objective identity does not match workflow''),
          (dict_get p ''disruption_id'' \<noteq> VStr ''SYN-DISRUPTION-HUB-001''
             \<or> dict_get p ''scenario_id'' \<noteq> VStr hub_scenario
             \<or> dict_get p ''story_id'' \<noteq> VStr hub_story,
           ''scenario or disruption identity is invalid''),
          (VStr (cmd_trace c) \<noteq> dict_get obs ''trace_id'',
           ''command trace does not match source sensor trace''),
          (cmd_issuer c \<noteq> hub_issuer, ''issuer '' @ py_repr (cmd_issuer c) @ '' is not authorised''),
          (persona \<noteq> VStr hub_persona, ''persona '' @ val_repr fr persona @ '' cannot approve recovery''),
          (\<not> may_approve hub_persona hub_command_type,
           ''persona '' @ val_repr fr persona @ '' lacks action authority''),
          (value_wrong (dict_get p ''value_gbp'') (po_value opt) (spend_limit hub_persona),
           value_message (po_value opt) (spend_limit hub_persona)),
          (\<not> py_eq (dict_get p ''evidence_versions'') (VDict (versions_of (po_evidence opt))),
           ''evidence versions are stale or incomplete''),
          (\<not> py_eq (dict_get p ''actions'') (VList (map recovery_action_to_dict (po_actions opt))),
           ''actions do not match the admitted option''),
          (dict_get p ''action_category'' \<noteq> VStr ''integrated_hub_recovery''
             \<or> dict_get p ''expected_event_type'' \<noteq> VStr hub_success
             \<or> dict_get p ''expected_evaluation_type'' \<noteq> VStr ''airline.recovery.evaluation'',
           ''command contract metadata is invalid'')])"

text \<open>An option that is not in the list of results is unknown; one that is must be feasible.\<close>

definition chosen ::
  "'a feasibility list \<Rightarrow> string \<Rightarrow> string \<Rightarrow> string \<Rightarrow> string + 'a plan_option" where
  "chosen rs opt_id unknown refused =
     (case result_for opt_id rs of
        None \<Rightarrow> Inl unknown
      | Some r \<Rightarrow> if fe_feasible r then Inr (fe_option r) else Inl (refused @ join_reasons (fe_reasons r)))"

text \<open>The reason against a command, or the option it takes with the observation.\<close>

definition validated_hub ::
  "(pyfloat \<Rightarrow> string) \<Rightarrow> airline \<Rightarrow> sim_command \<Rightarrow>
   (string + recovery_action plan_option \<times> pydict) result" where
  "validated_hub fr w c =
     (if cmd_type c \<noteq> hub_command_type
      then Inr (Inl (''unsupported command type '' @ py_repr (cmd_type c)))
      else
        let option_id = dict_get (cmd_payload c) ''option_id''; shown = val_repr fr option_id in
        bind_result (in_strs option_id [tail_option_id, cancel_option_id, retime_option_id]) (\<lambda>known.
        if \<not> known then Inr (Inl (''unknown or non-admitted recovery option '' @ shown))
        else if map_of (aw_disruption w) hub_story \<noteq> Some ''active''
        then Inr (Inl (''disruption '' @ py_repr hub_story @ '' is not active''))
        else
          bind_result (hub_options w) (\<lambda>(obs, rs).
          Inr (case chosen rs (py_str fr option_id) (''unknown recovery option '' @ shown)
                      (''option '' @ shown @ '' is not admitted: '') of
                 Inl m \<Rightarrow> Inl m
               | Inr opt \<Rightarrow>
                   (case first_fault (hub_faults fr c obs opt) of
                      Some m \<Rightarrow> Inl m
                    | None \<Rightarrow> Inr (opt, obs))))))"

definition without :: "string \<Rightarrow> string list \<Rightarrow> string list" where
  "without s ss = filter (\<lambda>t. t \<noteq> s) ss"

definition mutate_tail_plan :: "airline \<Rightarrow> mref list result \<times> airline" where
  "mutate_tail_plan w =
     reads (bind_result (at_key target_sector_id (aw_sectors w)) (\<lambda>sector.
            bind_result (rotation_with (sec_id sector) w) (\<lambda>(rotation_key, rotation).
            bind_result (at_key (sec_crew_duty_id sector) (aw_crew w)) (\<lambda>old_crew.
            bind_result (at_key reserve_tail_id (aw_aircraft w)) (\<lambda>tail.
            bind_result (at_key reserve_crew_id (aw_crew w)) (\<lambda>crew.
            bind_result (at_key reserve_stand_id (aw_stands w)) (\<lambda>stand.
            Inr (sector, rotation_key, rotation, old_crew, tail, crew, stand))))))))
       (\<lambda>(sector, rotation_key, rotation, old_crew, tail, crew, stand).
          (Inr [(CSector, target_sector_id, sec_id sector), (CRotation, rotation_key, ro_id rotation),
                (CCrew, sec_crew_duty_id sector, cr_id old_crew), (CCrew, reserve_crew_id, cr_id crew),
                (CAircraft, reserve_tail_id, ac_id tail), (CStand, reserve_stand_id, std_id stand)],
           w\<lparr>aw_sectors := amend target_sector_id (\<lambda>r. r\<lparr>sec_aircraft_id := ac_id tail,
                 sec_crew_duty_id := cr_id crew, sec_stand_id := std_id stand\<rparr>) (aw_sectors w),
             aw_rotations := amend rotation_key (\<lambda>r. r\<lparr>ro_aircraft_id := ac_id tail\<rparr>) (aw_rotations w),
             aw_crew := amend reserve_crew_id (\<lambda>r. r\<lparr>cr_sector_ids := cr_sector_ids r @ [sec_id sector],
                 cr_status := ''active''\<rparr>)
               (amend (sec_crew_duty_id sector)
                  (\<lambda>r. r\<lparr>cr_sector_ids := without (sec_id sector) (cr_sector_ids r)\<rparr>) (aw_crew w)),
             aw_aircraft := amend reserve_tail_id (\<lambda>r. r\<lparr>ac_status := ''assigned''\<rparr>) (aw_aircraft w),
             aw_stands := amend reserve_stand_id (\<lambda>r. r\<lparr>std_status := ''assigned''\<rparr>) (aw_stands w)\<rparr>)) w"

definition mutate_cancel_plan :: "airline \<Rightarrow> mref list result \<times> airline" where
  "mutate_cancel_plan w =
     reads (bind_result (at_key target_sector_id (aw_sectors w)) (\<lambda>sector.
            bind_result (rotation_with (sec_id sector) w) (\<lambda>(rotation_key, rotation).
            bind_result (at_key (sec_crew_duty_id sector) (aw_crew w)) (\<lambda>crew.
            Inr (sector, rotation_key, rotation, crew)))))
       (\<lambda>(sector, rotation_key, rotation, crew).
          (Inr [(CSector, target_sector_id, sec_id sector), (CRotation, rotation_key, ro_id rotation),
                (CCrew, sec_crew_duty_id sector, cr_id crew)],
           w\<lparr>aw_sectors := amend target_sector_id (\<lambda>r. r\<lparr>sec_status := ''cancelled''\<rparr>) (aw_sectors w),
             aw_rotations := amend rotation_key (\<lambda>r. r\<lparr>ro_status := ''recovered''\<rparr>) (aw_rotations w),
             aw_crew := amend (sec_crew_duty_id sector)
               (\<lambda>r. r\<lparr>cr_sector_ids := without (sec_id sector) (cr_sector_ids r)\<rparr>) (aw_crew w)\<rparr>)) w"

text \<open>Every check of the retime plan comes before the first write.\<close>

definition retime_action :: "recovery_action plan_option \<Rightarrow> recovery_action result" where
  "retime_action opt = next_match (\<lambda>a. rac_type a = ''retime_sector'') (po_actions opt)"

definition mutate_retime_plan ::
  "airline \<Rightarrow> recovery_action plan_option \<Rightarrow> mref list result \<times> airline" where
  "mutate_retime_plan w opt =
     reads (bind_result (retime_action opt) (\<lambda>a.
            bind_result (case rac_resource a of
                Some (c # cs) \<Rightarrow> Inr (c # cs)
              | r \<Rightarrow> Inl (ValueError (Msg ''retime action resource_id must be a non-empty string, got {!r}''
                            [opt_str r]))) (\<lambda>slot_id.
            bind_result (case rac_minutes a of
                Some n \<Rightarrow> if 0 < n then Inr n
                  else Inl (ValueError (Msg ''retime action minutes must be a positive int (not bool), got {!r}''
                              [VInt n]))
              | None \<Rightarrow> Inl (ValueError (Msg ''retime action minutes must be a positive int (not bool), got {!r}''
                              [VNone]))) (\<lambda>minutes.
            bind_result (if dict_has (aw_slots w) slot_id then at_key slot_id (aw_slots w)
                         else Inl (ValueError (Msg ''slot {!r} not found in world.slots'' [VStr slot_id])))
              (\<lambda>slot.
            bind_result (at_key target_sector_id (aw_sectors w)) (\<lambda>sector.
            if slt_sector_id slot \<noteq> sec_id sector
            then Inl (ValueError (Msg ''slot {!r} is not allocated to sector {!r}, it is allocated to {!r}''
                        [VStr slot_id, VStr (sec_id sector), VStr (slt_sector_id slot)]))
            else Inr (sector, minutes)))))))
       (\<lambda>(sector, minutes).
          (Inr [(CSector, target_sector_id, sec_id sector)],
           w\<lparr>aw_sectors := amend target_sector_id
               (\<lambda>r. r\<lparr>sec_scheduled_departure := sec_scheduled_departure r + of_int minutes,
                      sec_delay_minutes := 0\<rparr>) (aw_sectors w)\<rparr>)) w"

definition flies :: "string \<Rightarrow> sector \<Rightarrow> bool" where
  "flies tail s \<longleftrightarrow> sec_aircraft_id s = tail \<and> sec_status s \<notin> set over"

definition resolved_hub :: "airline \<Rightarrow> string \<times> bool" where
  "resolved_hub w = (''disruption_resolved'', map_of (aw_disruption w) hub_story = Some ''resolved'')"

definition hub_evaluation :: "airline \<Rightarrow> recovery_action plan_option \<Rightarrow> (string \<times> string list) result" where
  "hub_evaluation w opt =
     bind_result (at_key target_sector_id (aw_sectors w)) (\<lambda>sector.
       if po_id opt = tail_option_id then
         bind_result (at_key reserve_tail_id (aw_aircraft w)) (\<lambda>tail.
         bind_result (at_key reserve_crew_id (aw_crew w)) (\<lambda>crew.
         bind_result (at_key reserve_stand_id (aw_stands w)) (\<lambda>stand.
         bind_result (if sec_slot_id sector = ''SYN-SLOT-05''
                      then bind_result (at_key (sec_slot_id sector) (aw_slots w))
                             (\<lambda>slot. Inr (slt_status slot = ''allocated''))
                      else Inr False) (\<lambda>slot_kept.
         Inr (check_results
           [(''aircraft_assigned'',
             sec_aircraft_id sector = ac_id tail \<and> ac_status tail = ''assigned''
             \<and> length (filter (flies (ac_id tail)) (map snd (aw_sectors w))) = 1),
            (''crew_assigned'',
             sec_crew_duty_id sector = cr_id crew \<and> cr_status crew = ''active''
             \<and> cr_sector_ids crew = [sec_id sector]),
            (''stand_assigned'', sec_stand_id sector = std_id stand \<and> std_status stand = ''assigned''),
            (''slot_preserved'', slot_kept),
            resolved_hub w])))))
       else if po_id opt = cancel_option_id then
         Inr (check_results [(''sector_cancelled'', sec_status sector = ''cancelled''), resolved_hub w])
       else if po_id opt = retime_option_id then
         bind_result (retime_action opt) (\<lambda>a.
         bind_result (at_key (case rac_resource a of None \<Rightarrow> ''None'' | Some s \<Rightarrow> s) (aw_slots w)) (\<lambda>slot.
         Inr (check_results
           [(''sector_scheduled_departure_matches_slot'',
             close_to (of_int (slt_tolerance_minutes slot)) (sec_scheduled_departure sector)
               (slt_scheduled_time slot)),
            (''sector_delay_cleared'', sec_delay_minutes sector = 0),
            (''slot_allocated_to_sector'',
             slt_sector_id slot = sec_id sector \<and> slt_status slot = ''allocated''),
            resolved_hub w])))
       else Inl (ValueError (Msg ''recovery option {!r} has no registered evaluator'' [VStr (po_id opt)])))"

definition commitment_of ::
  "(pyfloat \<Rightarrow> string) \<Rightarrow> sim_command \<Rightarrow> string \<Rightarrow> 'a plan_option \<Rightarrow> ('a \<Rightarrow> string) \<Rightarrow> commitment result" where
  "commitment_of fr c workflow opt ty =
     bind_result (str_at fr (cmd_payload c) ''decision_id'') (\<lambda>decision.
     bind_result (str_at fr (cmd_payload c) ''persona'') (\<lambda>persona.
     Inr \<lparr>cm_id = cmd_id c, cm_workflow_id = workflow, cm_decision_id = decision,
          cm_option_id = po_id opt, cm_persona = persona, cm_value_gbp = po_value opt,
          cm_action_types = map ty (po_actions opt), cm_evidence_versions = po_evidence opt,
          cm_version = 1, cm_last_event_id = None\<rparr>))"

text \<open>\<^verbatim>\<open>int(d.get(k) or 0)\<close>.\<close>

definition count_at :: "pydict \<Rightarrow> string \<Rightarrow> int result" where
  "count_at d k = py_int (py_or (dict_get d k) (VInt 0))"

definition mutate_hub :: "airline \<Rightarrow> recovery_action plan_option \<Rightarrow> mref list result \<times> airline" where
  "mutate_hub w opt =
     (if po_id opt = tail_option_id then mutate_tail_plan w
      else if po_id opt = cancel_option_id then mutate_cancel_plan w
      else mutate_retime_plan w opt)"

definition hub_evaluation_record ::
  "airline \<Rightarrow> sim_command \<Rightarrow> string \<Rightarrow> recovery_action plan_option \<Rightarrow> pydict \<Rightarrow>
   recovery_evaluation result" where
  "hub_evaluation_record w c workflow opt obs =
     bind_result (hub_evaluation w opt) (\<lambda>(status, results).
     bind_result (at_key target_sector_id (aw_sectors w)) (\<lambda>out.
     bind_result (at_key (sec_crew_duty_id out) (aw_crew w)) (\<lambda>crew.
     bind_result (get_attr (py_or (dict_get obs ''no_action_baseline'') (VDict []))) (\<lambda>baseline.
     bind_result (count_at baseline ''cancellations'') (\<lambda>cancellations.
     bind_result (if po_id opt \<in> {tail_option_id, retime_option_id} then Inr 0
                  else count_at baseline ''passengers_requiring_rerouting'') (\<lambda>rerouting.
     let on = sec_status out \<noteq> ''cancelled'' in
     Inr \<lparr>re_id = ''SYN-EVAL-'' @ workflow, re_workflow_id = workflow, re_command_id = cmd_id c,
          re_option_id = po_id opt, re_status = status, re_invariant_results = results,
          re_cancellations_avoided = max 0 (cancellations - (if on then 0 else 1)),
          re_departure_zero_recovered = (if on \<and> sec_delay_minutes out = 0 then 1 else 0),
          re_departure_within_fifteen_recovered = (if on \<and> sec_delay_minutes out \<le> 15 then 1 else 0),
          re_minimum_remaining_crew_duty_minutes = cr_remaining_duty_minutes crew,
          re_resolved_slot_stand_conflicts = (if po_id opt = tail_option_id then 2 else 0),
          re_protected_connection_cohorts =
            int (length (filter (\<lambda>c. co_inbound_sector_id c = inbound_sector_id \<and> co_status c = ''protected'')
                   (map snd (aw_cohorts w)))),
          re_passengers_requiring_rerouting = rerouting, re_synthetic_recovery_cost_gbp = po_value opt,
          re_version = 1, re_last_event_id = None\<rparr>))))))"

text \<open>The last part of an acceptance: the business event, the records it is noted on, and the event
  that reports the command.\<close>

definition settle_hub ::
  "airline \<Rightarrow> sim_command \<Rightarrow> recovery_action plan_option \<Rightarrow> mref list \<Rightarrow> string \<Rightarrow> commitment \<Rightarrow>
   recovery_evaluation \<Rightarrow> string \<Rightarrow> pyval \<Rightarrow> pyval \<Rightarrow> sim_event \<times> airline" where
  "settle_hub w c opt refs workflow commitment evaluation cause decision event_ids =
     (let (business, w1) = emit hub_success (Some (cmd_issuer c)) (Some target_sector_id)
            (Some cause) (Some (cmd_trace c))
            [(''command_id'', VStr (cmd_id c)), (''workflow_id'', VStr workflow),
             (''decision_id'', decision), (''option_id'', VStr (po_id opt)),
             (''actions'', VList (map recovery_action_to_dict (po_actions opt))),
             (''affected_actor_ids'', ref_ids refs), (''evidence_event_ids'', event_ids),
             (''measurements'',
              VDict [(''evaluation_status'', VStr (re_status evaluation)),
                (''disruption_status'', VStr ''resolved''),
                (''value_gbp'', VFloat (Fin (po_value opt)))])] w;
          w2 = stamp_all (ev_id business) refs w1;
          w3 = w2\<lparr>aw_recoveries := dict_set (cm_id commitment)
                    (commitment\<lparr>cm_last_event_id := Some (ev_id business)\<rparr>) (aw_recoveries w2),
                  aw_recovery_evaluations := dict_set workflow
                    (evaluation\<lparr>re_last_event_id := Some (ev_id business)\<rparr>)
                    (aw_recovery_evaluations w2)\<rparr>
      in emit ''command.accepted'' (Some (cmd_issuer c)) (Some target_sector_id)
           (Some (ev_id business)) (Some (cmd_trace c))
           [(''workflow_id'', VStr workflow), (''decision_id'', decision),
            (''option_id'', VStr (po_id opt)), (''command'', VDict (command_to_dict c)),
            (''business_event_id'', VStr (ev_id business)),
            (''evaluation_id'', VStr (re_id evaluation))] w3)"

definition accept_hub ::
  "(pyfloat \<Rightarrow> string) \<Rightarrow> airline \<Rightarrow> sim_command \<Rightarrow> recovery_action plan_option \<Rightarrow> pydict \<Rightarrow>
   sim_event result \<times> airline" where
  "accept_hub fr w c opt obs =
     (if po_id opt \<notin> {tail_option_id, cancel_option_id, retime_option_id}
      then apfst Inr (reject w c (''recovery option '' @ py_repr (po_id opt)
             @ '' has no registered mutator/evaluator''))
      else
        and_then (mutate_hub w opt) (\<lambda>refs w1.
        let w2 = (bump_all refs w1)\<lparr>aw_disruption := dict_set hub_story ''resolved'' (aw_disruption w1)\<rparr>
        in reads (bind_result (str_at fr (cmd_payload c) ''workflow_id'') (\<lambda>workflow.
                  bind_result (commitment_of fr c workflow opt rac_type) (\<lambda>commitment.
                  bind_result (hub_evaluation_record w2 c workflow opt obs) (\<lambda>evaluation.
                  bind_result (str_at fr obs ''sensor_event_id'') (\<lambda>cause.
                  bind_result (at_key ''decision_id'' (cmd_payload c)) (\<lambda>decision.
                  bind_result (at_key ''evidence_event_ids'' obs) (\<lambda>event_ids.
                  Inr (workflow, commitment, evaluation, cause, decision, event_ids))))))))
             (\<lambda>(workflow, commitment, evaluation, cause, decision, event_ids).
                apfst Inr (settle_hub w2 c opt refs workflow commitment evaluation cause decision event_ids))
             w2))"

definition apply_recovery_command ::
  "(pyfloat \<Rightarrow> string) \<Rightarrow> airline \<Rightarrow> sim_command \<Rightarrow> sim_event result \<times> airline" where
  "apply_recovery_command fr w c =
     reads (validated_hub fr w c)
       (\<lambda>v. case v of
          Inl reason \<Rightarrow> apfst Inr (reject w c reason)
        | Inr (opt, obs) \<Rightarrow> accept_hub fr w c opt obs) w"

end
