(* ===== verification/Airline_Handlers.thy ===== *)
theory Airline_Handlers imports Airline_Commands begin

text \<open>
  The handlers of the grounded aircraft (\<^verbatim>\<open>actions/aog_commands.py\<close>) and of the schedule
  restriction (\<^verbatim>\<open>actions/schedule_commands.py\<close>), and the entry points of the world that send a
  command to its handler (\<^verbatim>\<open>AirlineWorld.apply_command\<close>) and build the command of an option
  (\<^verbatim>\<open>command_for_option\<close> and its two siblings).
\<close>

section \<open>The grounded aircraft\<close>

abbreviation "aog_command_type \<equiv> ''airline.commit_aog_recovery''"
abbreviation "aog_success \<equiv> ''airline.aog_recovery.applied''"
abbreviation "aog_persona \<equiv> ''engineering_duty_manager''"
abbreviation "aog_issuer \<equiv> ''engineering-maintenance''"

definition aog_recovery_command_id :: "string \<Rightarrow> string \<Rightarrow> string \<Rightarrow> string" where
  "aog_recovery_command_id workflow decision opt =
     ''SYN-AOG-CMD-'' @ workflow @ ''-'' @ decision @ ''-'' @ opt"

definition aog_options :: "airline \<Rightarrow> (pydict \<times> aog_action feasibility list) result" where
  "aog_options w =
     bind_result (current_aog_observation w) (\<lambda>obs.
     bind_result (admit_aog_options obs) (\<lambda>rs. Inr (obs, rs)))"

definition command_for_aog ::
  "(pyfloat \<Rightarrow> string) \<Rightarrow> airline \<Rightarrow> string \<Rightarrow> string \<Rightarrow> string \<Rightarrow> string \<Rightarrow> sim_command result" where
  "command_for_aog fr w opt_id workflow decision persona =
     bind_result (aog_options w) (\<lambda>(obs, rs).
       case result_for opt_id rs of
         None \<Rightarrow> Inl (ValueError (Msg ''unknown AOG recovery option: {!r}'' [VStr opt_id]))
       | Some r \<Rightarrow>
           if \<not> fe_feasible r
           then Inl (ValueError (Msg ''AOG option {!r} is not admitted: {}''
                  [VStr opt_id, VStr (join_reasons (fe_reasons r))]))
           else
             bind_result (str_at fr obs ''trace_id'') (\<lambda>trace.
             let opt = fe_option r in
             Inr \<lparr>cmd_id = aog_recovery_command_id workflow decision opt_id, cmd_trace = trace,
                  cmd_issuer = aog_issuer, cmd_type = aog_command_type,
                  cmd_payload =
                    [(''workflow_id'', VStr workflow),
                     (''objective_id'', VStr (''SYN-AOG-OBJECTIVE-'' @ workflow)),
                     (''decision_id'', VStr decision),
                     (''scenario_id'', VStr aog_scenario), (''story_id'', VStr aog_story),
                     (''persona'', VStr persona), (''option_id'', VStr (po_id opt)),
                     (''action_category'', VStr ''aog_engineering_recovery''),
                     (''actions'', VList (map aog_action_to_dict (po_actions opt))),
                     (''evidence_versions'', VDict (versions_of (po_evidence opt))),
                     (''value_gbp'', VFloat (Fin (po_value opt))),
                     (''expected_event_type'', VStr aog_success),
                     (''expected_evaluation_type'', VStr ''airline.aog.evaluation'')]\<rparr>))"

definition aog_reject :: "airline \<Rightarrow> sim_command \<Rightarrow> string \<Rightarrow> sim_event \<times> airline" where
  "aog_reject w c reason =
     emit ''command.rejected'' (Some (cmd_issuer c)) (Some threatened_sector_id)
       (map_option ev_id (map_of (aw_events w) aog_scenario)) (Some (cmd_trace c))
       [(''command'', VDict (command_to_dict c)), (''reason'', VStr reason)] w"

text \<open>The dash of the fail-closed messages is written as a hyphen.\<close>

definition aog_faults ::
  "(pyfloat \<Rightarrow> string) \<Rightarrow> sim_command \<Rightarrow> pydict \<Rightarrow> aog_action plan_option \<Rightarrow> (bool \<times> string) list" where
  "aog_faults fr c obs opt =
     (let p = cmd_payload c;
          workflow = dict_get p ''workflow_id'';
          persona = dict_get p ''persona''
      in [(\<not> is_id ''AOGA-'' workflow, ''workflow_id is not a canonical AOGA id''),
          (\<not> is_id ''SYN-AOG-DECISION-'' (dict_get p ''decision_id''),
           ''decision_id is not a canonical AOG synthetic id''),
          (dict_get p ''objective_id'' \<noteq> VStr (''SYN-AOG-OBJECTIVE-'' @ py_str fr workflow),
           ''AOG objective identity does not match workflow''),
          (dict_get p ''scenario_id'' \<noteq> VStr aog_scenario \<or> dict_get p ''story_id'' \<noteq> VStr aog_story,
           ''AOG scenario or story identity is invalid''),
          (VStr (cmd_trace c) \<noteq> dict_get obs ''trace_id'',
           ''command trace does not match AOG sensor trace''),
          (cmd_issuer c \<noteq> aog_issuer, ''issuer '' @ py_repr (cmd_issuer c) @ '' is not authorised''),
          (persona \<noteq> VStr aog_persona, ''persona '' @ val_repr fr persona @ '' cannot approve AOG recovery''),
          (map_of airline_authority aog_persona = None,
           ''no authority row for persona '' @ py_repr aog_persona @ '' - failing closed''),
          (\<not> may_approve aog_persona aog_command_type,
           ''action '' @ py_repr aog_command_type @ '' not in authority row for '' @ py_repr aog_persona
             @ '' - failing closed''),
          (value_wrong (dict_get p ''value_gbp'') (po_value opt) (spend_limit aog_persona),
           value_message (po_value opt) (spend_limit aog_persona)),
          (\<not> py_eq (dict_get p ''evidence_versions'') (VDict (versions_of (po_evidence opt))),
           ''AOG evidence versions are stale or incomplete''),
          (\<not> py_eq (dict_get p ''actions'') (VList (map aog_action_to_dict (po_actions opt))),
           ''AOG actions do not match the admitted option''),
          (dict_get p ''action_category'' \<noteq> VStr ''aog_engineering_recovery''
             \<or> dict_get p ''expected_event_type'' \<noteq> VStr aog_success
             \<or> dict_get p ''expected_evaluation_type'' \<noteq> VStr ''airline.aog.evaluation'',
           ''AOG command contract metadata is invalid'')])"

definition validated_aog ::
  "(pyfloat \<Rightarrow> string) \<Rightarrow> airline \<Rightarrow> sim_command \<Rightarrow> (string + aog_action plan_option \<times> pydict) result" where
  "validated_aog fr w c =
     (if cmd_type c \<noteq> aog_command_type
      then Inr (Inl (''unsupported command type '' @ py_repr (cmd_type c) @ '' for AOG handler''))
      else
        let option_id = dict_get (cmd_payload c) ''option_id''; shown = val_repr fr option_id in
        bind_result (in_strs option_id [work_local_id, work_repo_id, substitute_id]) (\<lambda>known.
        if \<not> known then Inr (Inl (''unknown or non-admitted AOG recovery option '' @ shown))
        else if map_of (aw_aog_story w) aog_story \<noteq> Some ''active''
        then Inr (Inl (''AOG story '' @ py_repr aog_story @ '' is not active''))
        else
          bind_result (aog_options w) (\<lambda>(obs, rs).
          Inr (case chosen rs (py_str fr option_id) (''unknown AOG recovery option '' @ shown)
                      (''option '' @ shown @ '' not admitted: '') of
                 Inl m \<Rightarrow> Inl m
               | Inr opt \<Rightarrow>
                   (case first_fault (aog_faults fr c obs opt) of
                      Some m \<Rightarrow> Inl m
                    | None \<Rightarrow> Inr (opt, obs))))))"

definition mutate_work_order :: "airline \<Rightarrow> string \<Rightarrow> mref list result \<times> airline" where
  "mutate_work_order w spare_id =
     reads (bind_result (at_key aog_tech_id (aw_techs w)) (\<lambda>tech.
            bind_result (at_key aog_task_id (aw_tasks w)) (\<lambda>task.
            bind_result (at_key spare_id (aw_spares w)) (\<lambda>spare.
            bind_result (at_key affected_tail_id (aw_aircraft w)) (\<lambda>aircraft.
            Inr (tech, task, spare, aircraft))))))
       (\<lambda>(tech, task, spare, aircraft).
          (Inr [(CTech, aog_tech_id, te_id tech), (CTask, aog_task_id, mt_id task),
                (CSpare, spare_id, spr_id spare), (CAircraft, affected_tail_id, ac_id aircraft)],
           w\<lparr>aw_tasks := amend aog_task_id
               (\<lambda>r. r\<lparr>mt_provider_id := Some aog_provider_id, mt_status := ''in_progress''\<rparr>) (aw_tasks w),
             aw_techs := amend aog_tech_id (\<lambda>r. r\<lparr>te_status := ''work_in_progress''\<rparr>) (aw_techs w),
             aw_spares := amend spare_id (\<lambda>r. r\<lparr>spr_status := ''reserved''\<rparr>) (aw_spares w)\<rparr>)) w"

definition work_order_records ::
  "airline \<Rightarrow> string \<Rightarrow> string \<Rightarrow> (work_order \<times> spare_movement) result" where
  "work_order_records w workflow spare_id =
     bind_result (at_key spare_id (aw_spares w)) (\<lambda>spare.
     bind_result (at_key affected_tail_id (aw_aircraft w)) (\<lambda>aircraft.
     Inr (\<lparr>wo_id = ''SYN-EWO-'' @ workflow, wo_workflow_id = workflow,
           wo_technical_status_id = aog_tech_id, wo_maintenance_task_id = aog_task_id,
           wo_provider_id = aog_provider_id, wo_spare_id = Some spare_id, wo_status = ''in_progress'',
           wo_version = 1, wo_last_event_id = None\<rparr>,
          \<lparr>mv_id = ''SYN-SMOV-'' @ workflow, mv_spare_id = spare_id, mv_workflow_id = workflow,
           mv_from_station_id = spr_station_id spare, mv_to_station_id = ac_current_station_id aircraft,
           mv_status = ''reserved'', mv_version = 1, mv_last_event_id = None\<rparr>)))"

definition mutate_substitute :: "airline \<Rightarrow> mref list result \<times> airline" where
  "mutate_substitute w =
     reads (bind_result (at_key threatened_sector_id (aw_sectors w)) (\<lambda>sector.
            bind_result (at_key reserve_tail_id (aw_aircraft w)) (\<lambda>sub. Inr (sector, sub))))
       (\<lambda>(sector, sub).
          (Inr [(CSector, threatened_sector_id, sec_id sector), (CAircraft, reserve_tail_id, ac_id sub)],
           w\<lparr>aw_sectors := amend threatened_sector_id (\<lambda>r. r\<lparr>sec_aircraft_id := ac_id sub\<rparr>) (aw_sectors w),
             aw_aircraft := amend reserve_tail_id (\<lambda>r. r\<lparr>ac_status := ''assigned''\<rparr>) (aw_aircraft w)\<rparr>)) w"

definition substitute_coordination :: "string \<Rightarrow> work_order" where
  "substitute_coordination workflow =
     \<lparr>wo_id = ''SYN-EWO-'' @ workflow, wo_workflow_id = workflow,
      wo_technical_status_id = aog_tech_id, wo_maintenance_task_id = aog_task_id,
      wo_provider_id = aog_provider_id, wo_spare_id = None, wo_status = ''open'',
      wo_version = 1, wo_last_event_id = None\<rparr>"

definition is_work :: "'a plan_option \<Rightarrow> bool" where
  "is_work opt \<longleftrightarrow> po_id opt \<in> {work_local_id, work_repo_id}"

definition spare_of :: "'a plan_option \<Rightarrow> string" where
  "spare_of opt = (if po_id opt = work_local_id then spare_local_id else spare_repo_id)"

definition aog_evaluation_checks :: "airline \<Rightarrow> aog_action plan_option \<Rightarrow> (string \<times> string list) result" where
  "aog_evaluation_checks w opt =
     (if is_work opt then
        bind_result (at_key aog_tech_id (aw_techs w)) (\<lambda>tech.
        bind_result (at_key aog_task_id (aw_tasks w)) (\<lambda>task.
        bind_result (at_key (spare_of opt) (aw_spares w)) (\<lambda>spare.
        bind_result (at_key affected_tail_id (aw_aircraft w)) (\<lambda>aircraft.
        Inr (check_results
          [(''technical_status_work_in_progress'',
            te_status tech = ''work_in_progress'' \<and> te_aircraft_id tech = affected_tail_id),
           (''task_in_progress'', mt_status task = ''in_progress'' \<and> mt_provider_id task = Some aog_provider_id),
           (''spare_reserved'', spr_status spare = ''reserved''),
           (''aircraft_not_released'', ac_status aircraft \<in> {''grounded'', ''work_in_progress''}),
           (''work_order_created'', aw_work_orders w \<noteq> []),
           (''spare_movement_created'', aw_movements w \<noteq> [])])))))
      else if po_id opt = substitute_id then
        bind_result (at_key threatened_sector_id (aw_sectors w)) (\<lambda>sector.
        bind_result (at_key reserve_tail_id (aw_aircraft w)) (\<lambda>sub.
        bind_result (at_key affected_tail_id (aw_aircraft w)) (\<lambda>aircraft.
        Inr (check_results
          [(''substitute_assigned'', sec_aircraft_id sector = ac_id sub \<and> ac_status sub = ''assigned''),
           (''grounded_tail_unchanged'', ac_status aircraft = ''grounded''),
           (''engineering_coordination_created'', aw_work_orders w \<noteq> [])]))))
      else Inl (ValueError (Msg ''AOG option {!r} has no registered evaluator'' [VStr (po_id opt)])))"

text \<open>The changes of an option, with the records it creates.\<close>

definition mutate_aog ::
  "airline \<Rightarrow> aog_action plan_option \<Rightarrow> string \<Rightarrow>
   (mref list \<times> work_order \<times> spare_movement option) result \<times> airline" where
  "mutate_aog w opt workflow =
     (if is_work opt then
        and_then (mutate_work_order w (spare_of opt)) (\<lambda>refs w1.
          reads (work_order_records w1 workflow (spare_of opt))
            (\<lambda>(wo, mv). (Inr (refs, wo, Some mv), w1)) w1)
      else
        and_then (mutate_substitute w) (\<lambda>refs w1.
          (Inr (refs, substitute_coordination workflow, None), w1)))"

definition aog_evaluation_record ::
  "airline \<Rightarrow> sim_command \<Rightarrow> string \<Rightarrow> aog_action plan_option \<Rightarrow> aog_evaluation result" where
  "aog_evaluation_record w c workflow opt =
     bind_result (aog_evaluation_checks w opt) (\<lambda>(status, results).
     bind_result (if is_work opt
                  then bind_result (at_key (spare_of opt) (aw_spares w)) (\<lambda>s. Inr (spr_lead_time_minutes s))
                  else Inr 0) (\<lambda>lead_time.
     Inr \<lparr>ae_id = ''SYN-AOG-EVAL-'' @ workflow, ae_workflow_id = workflow, ae_command_id = cmd_id c,
          ae_option_id = po_id opt, ae_status = status, ae_invariant_results = results,
          ae_sectors_protected = (if po_id opt = substitute_id then 1 else 0),
          ae_projected_aog_duration_minutes = (if po_id opt \<noteq> substitute_id then lead_time + 240 else 0),
          ae_spare_lead_time_minutes = lead_time, ae_approved_provider_coverage = is_work opt,
          ae_synthetic_recovery_cost_gbp = po_value opt, ae_aircraft_released_by_ai = False,
          ae_version = 1, ae_last_event_id = None\<rparr>))"

definition register_work :: "work_order \<Rightarrow> spare_movement option \<Rightarrow> airline \<Rightarrow> airline" where
  "register_work wo mv w =
     (let w1 = w\<lparr>aw_work_orders := dict_set (wo_id wo) wo (aw_work_orders w)\<rparr> in
      case mv of None \<Rightarrow> w1 | Some m \<Rightarrow> w1\<lparr>aw_movements := dict_set (mv_id m) m (aw_movements w1)\<rparr>)"

definition settle_aog ::
  "airline \<Rightarrow> sim_command \<Rightarrow> aog_action plan_option \<Rightarrow> mref list \<Rightarrow> work_order \<Rightarrow> spare_movement option \<Rightarrow>
   string \<Rightarrow> commitment \<Rightarrow> aog_evaluation \<Rightarrow> string \<Rightarrow> pyval \<Rightarrow> pyval \<Rightarrow> sim_event result \<times> airline" where
  "settle_aog w c opt refs wo0 mv0 workflow commitment0 evaluation0 cause decision event_ids =
     (let (business, w1) = emit aog_success (Some (cmd_issuer c)) (Some threatened_sector_id)
            (Some cause) (Some (cmd_trace c))
            [(''command_id'', VStr (cmd_id c)), (''workflow_id'', VStr workflow),
             (''decision_id'', decision), (''option_id'', VStr (po_id opt)),
             (''actions'', VList (map aog_action_to_dict (po_actions opt))),
             (''affected_actor_ids'', ref_ids refs), (''evidence_event_ids'', event_ids),
             (''measurements'',
              VDict [(''evaluation_status'', VStr (ae_status evaluation0)),
                (''aog_story_status'', VStr ''resolved''),
                (''value_gbp'', VFloat (Fin (po_value opt))),
                (''aircraft_released_by_ai'', VBool False)])] w;
          e = Some (ev_id business);
          wo = wo0\<lparr>wo_last_event_id := e\<rparr>;
          mv = map_option (\<lambda>m. m\<lparr>mv_last_event_id := e\<rparr>) mv0;
          commitment = commitment0\<lparr>cm_last_event_id := e\<rparr>;
          evaluation = evaluation0\<lparr>ae_last_event_id := e\<rparr>;
          w2 = register_work wo mv (stamp_all (ev_id business) refs w1);
          w3 = w2\<lparr>aw_aog_commands := dict_set (cm_id commitment) commitment (aw_aog_commands w2),
                  aw_aog_evaluations := dict_set (ae_id evaluation) evaluation (aw_aog_evaluations w2)\<rparr>
      in reads (case wo_spare_id wo of
                  None \<Rightarrow> Inr VNone
                | Some s \<Rightarrow> bind_result (at_key s (aw_spares w3)) (\<lambda>r. Inr (VDict (spare_view r))))
           (\<lambda>spare. apfst Inr (emit ''command.accepted'' (Some (cmd_issuer c))
              (Some threatened_sector_id) e (Some (cmd_trace c))
              [(''workflow_id'', VStr workflow), (''decision_id'', decision),
               (''option_id'', VStr (po_id opt)), (''command'', VDict (command_to_dict c)),
               (''business_event_id'', VStr (ev_id business)),
               (''evaluation_id'', VStr (ae_id evaluation)),
               (''mutation_records'',
                VDict [(''work_order'', VDict (work_order_view wo)),
                  (''spare_movement'', case mv of None \<Rightarrow> VNone | Some m \<Rightarrow> VDict (spare_movement_view m)),
                  (''spare'', spare),
                  (''aog_command'', VDict (commitment_view commitment)),
                  (''evaluation'', VDict (aog_evaluation_view evaluation))])] w3)) w3)"

definition accept_aog ::
  "(pyfloat \<Rightarrow> string) \<Rightarrow> airline \<Rightarrow> sim_command \<Rightarrow> aog_action plan_option \<Rightarrow> pydict \<Rightarrow>
   sim_event result \<times> airline" where
  "accept_aog fr w c opt obs =
     reads (str_at fr (cmd_payload c) ''workflow_id'') (\<lambda>workflow.
     if \<not> is_work opt \<and> po_id opt \<noteq> substitute_id
     then apfst Inr (aog_reject w c (''AOG option '' @ py_repr (po_id opt) @ '' has no registered mutator''))
     else
       and_then (mutate_aog w opt workflow) (\<lambda>(refs, wo, mv) w1.
       let w2 = register_work wo mv
             ((bump_all refs w1)\<lparr>aw_aog_story := dict_set aog_story ''resolved'' (aw_aog_story w1)\<rparr>)
       in reads (bind_result (commitment_of fr c workflow opt aac_type) (\<lambda>commitment.
                 bind_result (aog_evaluation_record w2 c workflow opt) (\<lambda>evaluation.
                 bind_result (str_at fr obs ''sensor_event_id'') (\<lambda>cause.
                 bind_result (at_key ''decision_id'' (cmd_payload c)) (\<lambda>decision.
                 bind_result (at_key ''evidence_event_ids'' obs) (\<lambda>event_ids.
                 Inr (commitment, evaluation, cause, decision, event_ids)))))))
            (\<lambda>(commitment, evaluation, cause, decision, event_ids).
               settle_aog w2 c opt refs wo mv workflow commitment evaluation cause decision event_ids)
            w2)) w"

definition apply_aog_recovery_command ::
  "(pyfloat \<Rightarrow> string) \<Rightarrow> airline \<Rightarrow> sim_command \<Rightarrow> sim_event result \<times> airline" where
  "apply_aog_recovery_command fr w c =
     reads (validated_aog fr w c)
       (\<lambda>v. case v of
          Inl reason \<Rightarrow> apfst Inr (aog_reject w c reason)
        | Inr (opt, obs) \<Rightarrow> accept_aog fr w c opt obs) w"

section \<open>The schedule restriction\<close>

abbreviation "sched_command_type \<equiv> ''airline.commit_schedule_adjustment''"
abbreviation "sched_success \<equiv> ''airline.schedule_adjustment.applied''"
abbreviation "sched_persona \<equiv> ''network_operations_director''"
abbreviation "sched_issuer \<equiv> ''network-planning''"

definition schedule_command_id :: "string \<Rightarrow> string \<Rightarrow> string \<Rightarrow> string" where
  "schedule_command_id workflow decision opt =
     ''SYN-SCHED-CMD-'' @ workflow @ ''-'' @ decision @ ''-'' @ opt"

definition sched_options ::
  "(pyfloat \<Rightarrow> string) \<Rightarrow> airline \<Rightarrow> (pydict \<times> aog_action feasibility list) result" where
  "sched_options fr w =
     bind_result (current_schedule_observation w) (\<lambda>obs.
     bind_result (admit_schedule_options fr obs) (\<lambda>rs. Inr (obs, rs)))"

definition command_for_schedule ::
  "(pyfloat \<Rightarrow> string) \<Rightarrow> airline \<Rightarrow> string \<Rightarrow> string \<Rightarrow> string \<Rightarrow> string \<Rightarrow> sim_command result" where
  "command_for_schedule fr w opt_id workflow decision persona =
     bind_result (sched_options fr w) (\<lambda>(obs, rs).
       case result_for opt_id rs of
         None \<Rightarrow> Inl (ValueError (Msg ''unknown schedule resilience option: {!r}'' [VStr opt_id]))
       | Some r \<Rightarrow>
           if \<not> fe_feasible r
           then Inl (ValueError (Msg ''schedule option {!r} is not admitted: {}''
                  [VStr opt_id, VStr (join_reasons (fe_reasons r))]))
           else
             bind_result (str_at fr obs ''trace_id'') (\<lambda>trace.
             let opt = fe_option r in
             Inr \<lparr>cmd_id = schedule_command_id workflow decision opt_id, cmd_trace = trace,
                  cmd_issuer = sched_issuer, cmd_type = sched_command_type,
                  cmd_payload =
                    [(''workflow_id'', VStr workflow),
                     (''objective_id'', VStr (''SYN-SCHED-OBJECTIVE-'' @ workflow)),
                     (''decision_id'', VStr decision),
                     (''scenario_id'', VStr sched_scenario), (''story_id'', VStr sched_story),
                     (''persona'', VStr persona), (''option_id'', VStr (po_id opt)),
                     (''action_category'', VStr ''schedule_resilience''),
                     (''actions'', VList (map aog_action_to_dict (po_actions opt))),
                     (''evidence_versions'', VDict (versions_of (po_evidence opt))),
                     (''value_gbp'', VFloat (Fin (po_value opt))),
                     (''expected_event_type'', VStr sched_success),
                     (''expected_evaluation_type'', VStr ''airline.schedule.evaluation'')]\<rparr>))"

definition sched_reject :: "airline \<Rightarrow> sim_command \<Rightarrow> string \<Rightarrow> sim_event \<times> airline" where
  "sched_reject w c reason =
     emit ''command.rejected'' (Some (cmd_issuer c)) (Some risk_signal_id)
       (map_option ev_id (map_of (aw_events w) sched_scenario)) (Some (cmd_trace c))
       [(''command'', VDict (command_to_dict c)), (''reason'', VStr reason)] w"

definition sched_faults ::
  "(pyfloat \<Rightarrow> string) \<Rightarrow> sim_command \<Rightarrow> pydict \<Rightarrow> aog_action plan_option \<Rightarrow> (bool \<times> string) list" where
  "sched_faults fr c obs opt =
     (let p = cmd_payload c;
          workflow = dict_get p ''workflow_id'';
          persona = dict_get p ''persona''
      in [(\<not> is_id ''AIRSCHED-'' workflow, ''workflow_id is not a canonical AIRSCHED id''),
          (\<not> is_id ''SYN-SCHED-DECISION-'' (dict_get p ''decision_id''),
           ''decision_id is not a canonical schedule synthetic id''),
          (dict_get p ''objective_id'' \<noteq> VStr (''SYN-SCHED-OBJECTIVE-'' @ py_str fr workflow),
           ''schedule objective identity does not match workflow''),
          (dict_get p ''scenario_id'' \<noteq> VStr sched_scenario \<or> dict_get p ''story_id'' \<noteq> VStr sched_story,
           ''schedule scenario or story identity is invalid''),
          (VStr (cmd_trace c) \<noteq> dict_get obs ''trace_id'',
           ''command trace does not match schedule sensor trace''),
          (cmd_issuer c \<noteq> sched_issuer, ''issuer '' @ py_repr (cmd_issuer c) @ '' is not authorised''),
          (persona \<noteq> VStr sched_persona,
           ''persona '' @ val_repr fr persona @ '' cannot approve schedule adjustment''),
          (map_of airline_authority sched_persona = None,
           ''no authority row for persona '' @ py_repr sched_persona @ '' - failing closed''),
          (\<not> may_approve sched_persona sched_command_type,
           ''action '' @ py_repr sched_command_type @ '' not in authority row for ''
             @ py_repr sched_persona @ '' - failing closed''),
          (value_wrong (dict_get p ''value_gbp'') (po_value opt) (spend_limit sched_persona),
           value_message (po_value opt) (spend_limit sched_persona)),
          (\<not> py_eq (dict_get p ''evidence_versions'') (VDict (versions_of (po_evidence opt))),
           ''schedule evidence versions are stale or incomplete''),
          (\<not> py_eq (dict_get p ''actions'') (VList (map aog_action_to_dict (po_actions opt))),
           ''schedule actions do not match the admitted option''),
          (dict_get p ''action_category'' \<noteq> VStr ''schedule_resilience''
             \<or> dict_get p ''expected_event_type'' \<noteq> VStr sched_success
             \<or> dict_get p ''expected_evaluation_type'' \<noteq> VStr ''airline.schedule.evaluation'',
           ''schedule command contract metadata is invalid'')])"

definition validated_sched ::
  "(pyfloat \<Rightarrow> string) \<Rightarrow> airline \<Rightarrow> sim_command \<Rightarrow> (string + aog_action plan_option \<times> pydict) result" where
  "validated_sched fr w c =
     (if cmd_type c \<noteq> sched_command_type
      then Inr (Inl (''unsupported command type '' @ py_repr (cmd_type c) @ '' for schedule handler''))
      else
        let option_id = dict_get (cmd_payload c) ''option_id''; shown = val_repr fr option_id in
        bind_result (in_strs option_id
            [buffer_retime_id, preposition_id, cancel_limited_id, monitor_risk_id]) (\<lambda>known.
        if \<not> known then Inr (Inl (''unknown or non-admitted schedule option '' @ shown))
        else if map_of (aw_sched_story w) sched_story \<noteq> Some ''active''
        then Inr (Inl (''schedule story '' @ py_repr sched_story @ '' is not active''))
        else
          bind_result (sched_options fr w) (\<lambda>(obs, rs).
          Inr (case chosen rs (py_str fr option_id) (''unknown schedule option '' @ shown)
                      (''option '' @ shown @ '' not admitted: '') of
                 Inl m \<Rightarrow> Inl m
               | Inr opt \<Rightarrow>
                   (case first_fault (sched_faults fr c obs opt) of
                      Some m \<Rightarrow> Inl m
                    | None \<Rightarrow> Inr (opt, obs))))))"

definition mutate_buffer_retime :: "airline \<Rightarrow> mref list result \<times> airline" where
  "mutate_buffer_retime w =
     reads (bind_result (at_key ''SYN-SECTOR-OUT-003'' (aw_sectors w)) (\<lambda>s3.
            bind_result (at_key ''SYN-SECTOR-OUT-004'' (aw_sectors w)) (\<lambda>s4.
            bind_result (at_key ''SYN-SLOT-07'' (aw_slots w)) (\<lambda>sl7.
            bind_result (at_key ''SYN-SLOT-08'' (aw_slots w)) (\<lambda>sl8. Inr (s3, s4, sl7, sl8))))))
       (\<lambda>(s3, s4, sl7, sl8).
          let later = (\<lambda>r. r\<lparr>sec_scheduled_departure := sec_scheduled_departure r + 15\<rparr>);
              moved = (\<lambda>r. r\<lparr>slt_scheduled_time := slt_scheduled_time r + 15\<rparr>)
          in (Inr [(CSector, ''SYN-SECTOR-OUT-003'', sec_id s3), (CSector, ''SYN-SECTOR-OUT-004'', sec_id s4),
                   (CSlot, ''SYN-SLOT-07'', slt_id sl7), (CSlot, ''SYN-SLOT-08'', slt_id sl8)],
              w\<lparr>aw_sectors := amend ''SYN-SECTOR-OUT-004'' later
                  (amend ''SYN-SECTOR-OUT-003'' later (aw_sectors w)),
                aw_slots := amend ''SYN-SLOT-08'' moved (amend ''SYN-SLOT-07'' moved (aw_slots w))\<rparr>)) w"

definition mutate_preposition :: "airline \<Rightarrow> mref list result \<times> airline" where
  "mutate_preposition w =
     reads (bind_result (at_key reserve_tail_id (aw_aircraft w)) (\<lambda>aircraft.
            bind_result (at_key reserve_crew_id (aw_crew w)) (\<lambda>crew. Inr (aircraft, crew))))
       (\<lambda>(aircraft, crew).
          (Inr [(CAircraft, reserve_tail_id, ac_id aircraft), (CCrew, reserve_crew_id, cr_id crew)],
           w\<lparr>aw_aircraft := amend reserve_tail_id (\<lambda>r. r\<lparr>ac_status := ''prepositioned''\<rparr>) (aw_aircraft w),
             aw_crew := amend reserve_crew_id (\<lambda>r. r\<lparr>cr_status := ''prepositioned''\<rparr>) (aw_crew w)\<rparr>)) w"

definition mutate_cancel_limited :: "airline \<Rightarrow> mref list result \<times> airline" where
  "mutate_cancel_limited w =
     reads (bind_result (at_key cancel_sector_id (aw_sectors w)) (\<lambda>sector.
            bind_result (at_key ''SYN-ROTATION-04'' (aw_rotations w)) (\<lambda>rotation.
            bind_result (at_key ''SYN-CREW-DUTY-04'' (aw_crew w)) (\<lambda>crew. Inr (sector, rotation, crew)))))
       (\<lambda>(sector, rotation, crew).
          (Inr [(CSector, cancel_sector_id, sec_id sector), (CRotation, ''SYN-ROTATION-04'', ro_id rotation),
                (CCrew, ''SYN-CREW-DUTY-04'', cr_id crew)],
           w\<lparr>aw_sectors := amend cancel_sector_id (\<lambda>r. r\<lparr>sec_status := ''cancelled''\<rparr>) (aw_sectors w),
             aw_rotations := amend ''SYN-ROTATION-04'' (\<lambda>r. r\<lparr>ro_status := ''partial''\<rparr>) (aw_rotations w),
             aw_crew := amend ''SYN-CREW-DUTY-04''
               (\<lambda>r. r\<lparr>cr_remaining_duty_minutes := cr_remaining_duty_minutes r + 90\<rparr>) (aw_crew w)\<rparr>)) w"

definition mutate_monitor_risk :: "airline \<Rightarrow> mref list result \<times> airline" where
  "mutate_monitor_risk w =
     reads (at_key risk_signal_id (aw_signals w))
       (\<lambda>signal.
          (Inr [(CSignal, risk_signal_id, rsk_id signal)],
           w\<lparr>aw_signals := amend risk_signal_id (\<lambda>r. r\<lparr>rsk_status := ''monitored''\<rparr>) (aw_signals w)\<rparr>)) w"

definition mutate_sched :: "airline \<Rightarrow> aog_action plan_option \<Rightarrow> mref list result \<times> airline" where
  "mutate_sched w opt =
     (if po_id opt = buffer_retime_id then mutate_buffer_retime w
      else if po_id opt = preposition_id then mutate_preposition w
      else if po_id opt = cancel_limited_id then mutate_cancel_limited w
      else mutate_monitor_risk w)"

record sched_outcome =
  so_status :: string
  so_results :: "string list"
  so_selected :: string
  so_aircraft :: bool
  so_crew :: bool
  so_slot :: bool
  so_cohorts :: int
  so_capacity :: rat
  so_exposure :: string
  so_delay :: int

definition sched_outcome_of ::
  "(string \<times> bool) list \<Rightarrow> string \<Rightarrow> bool \<times> bool \<times> bool \<Rightarrow> int \<Rightarrow> rat \<Rightarrow> string \<Rightarrow> int \<Rightarrow> sched_outcome" where
  "sched_outcome_of checks selected restored cohorts capacity exposure delay =
     (let (status, results) = check_results checks; (aircraft, crew, slot) = restored in
      \<lparr>so_status = status, so_results = results, so_selected = selected, so_aircraft = aircraft,
       so_crew = crew, so_slot = slot, so_cohorts = cohorts, so_capacity = capacity,
       so_exposure = exposure, so_delay = delay\<rparr>)"

definition sched_evaluation_checks :: "airline \<Rightarrow> aog_action plan_option \<Rightarrow> sched_outcome result" where
  "sched_evaluation_checks w opt =
     (if po_id opt = buffer_retime_id then
        bind_result (at_key ''SYN-SECTOR-OUT-003'' (aw_sectors w)) (\<lambda>s3.
        bind_result (at_key ''SYN-SECTOR-OUT-004'' (aw_sectors w)) (\<lambda>s4.
        bind_result (at_key ''SYN-SLOT-07'' (aw_slots w)) (\<lambda>sl7.
        bind_result (at_key ''SYN-SLOT-08'' (aw_slots w)) (\<lambda>sl8.
        bind_result (at_key reserve_tail_id (aw_aircraft w)) (\<lambda>aircraft.
        bind_result (at_key reserve_crew_id (aw_crew w)) (\<lambda>crew.
        Inr (sched_outcome_of
          [(''sectors_retimed'', 170 < sec_scheduled_departure s3 \<and> 180 < sec_scheduled_departure s4),
           (''slots_updated'', 170 < slt_scheduled_time sl7 \<and> 180 < slt_scheduled_time sl8),
           (''within_slot_tolerance'',
            sec_scheduled_departure s3 - 170 \<le> 15 \<and> sec_scheduled_departure s4 - 180 \<le> 15),
           (''reserve_aircraft_unchanged'', ac_status aircraft = ''reserve''),
           (''reserve_crew_unchanged'', cr_status crew = ''reserve'')]
          ''buffer_retime'' (True, True, True) 1 100 ''low'' 30)))))))
      else if po_id opt = preposition_id then
        bind_result (at_key reserve_tail_id (aw_aircraft w)) (\<lambda>aircraft.
        bind_result (at_key reserve_crew_id (aw_crew w)) (\<lambda>crew.
        bind_result (at_key ''SYN-SECTOR-OUT-003'' (aw_sectors w)) (\<lambda>s3.
        bind_result (at_key ''SYN-SECTOR-OUT-004'' (aw_sectors w)) (\<lambda>s4.
        Inr (sched_outcome_of
          [(''reserve_aircraft_prepositioned'', ac_status aircraft = ''prepositioned''),
           (''reserve_crew_prepositioned'', cr_status crew = ''prepositioned''),
           (''no_operational_rotation_changed'', sec_version s3 = 1 \<and> sec_version s4 = 1),
           (''no_aircraft_double_assignment'', ac_status aircraft = ''prepositioned'')]
          ''preposition_reserve'' (True, True, False) 0 100 ''medium'' 0)))))
      else if po_id opt = cancel_limited_id then
        bind_result (at_key cancel_sector_id (aw_sectors w)) (\<lambda>sector.
        bind_result (at_key ''SYN-ROTATION-04'' (aw_rotations w)) (\<lambda>rotation.
        bind_result (at_key ''SYN-CREW-DUTY-04'' (aw_crew w)) (\<lambda>crew.
        bind_result (at_key ''SYN-SECTOR-OUT-003'' (aw_sectors w)) (\<lambda>s3.
        Inr (sched_outcome_of
          [(''sector_cancelled'', sec_status sector = ''cancelled''),
           (''rotation_adjusted'', ro_status rotation = ''partial''),
           (''crew_duty_adjusted'', 340 < cr_remaining_duty_minutes crew),
           (''within_cancellation_limit'', True),
           (''other_sectors_intact'', sec_status s3 = ''scheduled'')]
          ''cancel_limited'' (False, True, False) 0 50 ''high'' 45)))))
      else if po_id opt = monitor_risk_id then
        bind_result (at_key risk_signal_id (aw_signals w)) (\<lambda>signal.
        bind_result (at_key ''SYN-SECTOR-OUT-003'' (aw_sectors w)) (\<lambda>s3.
        bind_result (at_key ''SYN-SECTOR-OUT-004'' (aw_sectors w)) (\<lambda>s4.
        Inr (sched_outcome_of
          [(''risk_signal_monitored'', rsk_status signal = ''monitored''),
           (''no_operational_sector_mutation'', sec_version s3 = 1 \<and> sec_version s4 = 1),
           (''command_persisted'', True),
           (''evaluation_persisted'', True)]
          ''monitor_risk'' (False, False, False) 0 60 ''none'' 0))))
      else Inl (ValueError (Msg ''schedule option {!r} has no registered evaluator'' [VStr (po_id opt)])))"

text \<open>\<^verbatim>\<open>float(v)\<close> of a finite number, which is what the observation holds.\<close>

definition finite_float :: "pyval \<Rightarrow> rat result" where
  "finite_float v =
     (if is_num v then (case num_of v of Fin q \<Rightarrow> Inr q | _ \<Rightarrow> Inl (Raised ''OverflowError'' [v]))
      else Inl (TypeError (Msg ''float() argument'' [v])))"

definition sched_evaluation_record ::
  "airline \<Rightarrow> sim_command \<Rightarrow> string \<Rightarrow> aog_action plan_option \<Rightarrow> pydict \<Rightarrow> schedule_evaluation result" where
  "sched_evaluation_record w c workflow opt obs =
     bind_result (sched_evaluation_checks w opt) (\<lambda>out.
     bind_result (as_dict (py_or (dict_get obs ''no_action_baseline'') (VDict []))) (\<lambda>baseline.
     bind_result (finite_float (dict_get_or obs ''forecast_confidence'' (VFloat (Fin 0)))) (\<lambda>confidence.
     bind_result (py_int (dict_get_or baseline ''predicted_cancellations'' (VInt 0))) (\<lambda>cancellations.
     bind_result (py_int (dict_get_or baseline ''predicted_delay_per_sector'' (VInt 45))) (\<lambda>delay.
     Inr \<lparr>se_id = ''SYN-SCHED-EVAL-'' @ workflow, se_workflow_id = workflow, se_command_id = cmd_id c,
          se_option_id = po_id opt, se_status = so_status out, se_invariant_results = so_results out,
          se_predicted_delay_reduction_minutes = so_delay out,
          se_cancellations_reduced = (if po_id opt = cancel_limited_id then -1 else 0),
          se_aircraft_feasibility_restored = so_aircraft out,
          se_crew_feasibility_restored = so_crew out, se_slot_feasibility_restored = so_slot out,
          se_protected_cohorts = so_cohorts out, se_capacity_retained_pct = so_capacity out,
          se_synthetic_cost_gbp = po_value opt, se_forecast_confidence = confidence,
          se_false_positive_exposure = so_exposure out, se_no_action_cancellations = cancellations,
          se_no_action_delay_minutes = delay, se_selected_action = so_selected out,
          se_version = 1, se_last_event_id = None\<rparr>)))))"

definition settle_sched ::
  "airline \<Rightarrow> sim_command \<Rightarrow> aog_action plan_option \<Rightarrow> mref list \<Rightarrow> string \<Rightarrow> commitment \<Rightarrow>
   schedule_evaluation \<Rightarrow> string \<Rightarrow> pyval \<Rightarrow> pyval \<Rightarrow> sim_event \<times> airline" where
  "settle_sched w c opt refs workflow commitment0 evaluation0 cause decision event_ids =
     (let (business, w1) = emit sched_success (Some (cmd_issuer c)) (Some risk_signal_id)
            (Some cause) (Some (cmd_trace c))
            [(''command_id'', VStr (cmd_id c)), (''workflow_id'', VStr workflow),
             (''decision_id'', decision), (''option_id'', VStr (po_id opt)),
             (''actions'', VList (map aog_action_to_dict (po_actions opt))),
             (''affected_actor_ids'', ref_ids refs), (''evidence_event_ids'', event_ids),
             (''measurements'',
              VDict [(''evaluation_status'', VStr (se_status evaluation0)),
                (''sched_story_status'', opt_str (map_of (aw_sched_story w) sched_story)),
                (''value_gbp'', VFloat (Fin (po_value opt))),
                (''selected_action'', VStr (se_selected_action evaluation0))])] w;
          e = Some (ev_id business);
          commitment = commitment0\<lparr>cm_last_event_id := e\<rparr>;
          evaluation = evaluation0\<lparr>se_last_event_id := e\<rparr>;
          w2 = stamp_all (ev_id business) refs w1;
          w3 = w2\<lparr>aw_adjustments := dict_set (cm_id commitment) commitment (aw_adjustments w2),
                  aw_schedule_evaluations := dict_set (se_id evaluation) evaluation
                    (aw_schedule_evaluations w2)\<rparr>
      in emit ''command.accepted'' (Some (cmd_issuer c)) (Some risk_signal_id) e (Some (cmd_trace c))
           [(''workflow_id'', VStr workflow), (''decision_id'', decision),
            (''option_id'', VStr (po_id opt)), (''command'', VDict (command_to_dict c)),
            (''business_event_id'', VStr (ev_id business)),
            (''evaluation_id'', VStr (se_id evaluation)),
            (''mutation_records'',
             VDict [(''schedule_command'', VDict (commitment_view commitment)),
               (''evaluation'', VDict (schedule_evaluation_view evaluation))])] w3)"

definition story_after :: "'a plan_option \<Rightarrow> string" where
  "story_after opt = (if po_id opt = monitor_risk_id then ''monitored'' else ''resolved'')"

definition accept_sched ::
  "(pyfloat \<Rightarrow> string) \<Rightarrow> airline \<Rightarrow> sim_command \<Rightarrow> aog_action plan_option \<Rightarrow> pydict \<Rightarrow>
   sim_event result \<times> airline" where
  "accept_sched fr w c opt obs =
     reads (str_at fr (cmd_payload c) ''workflow_id'') (\<lambda>workflow.
     if po_id opt \<notin> {buffer_retime_id, preposition_id, cancel_limited_id, monitor_risk_id}
     then apfst Inr (sched_reject w c (''schedule option '' @ py_repr (po_id opt)
            @ '' has no registered mutator''))
     else
       and_then (mutate_sched w opt) (\<lambda>refs w1.
       let w2 = (bump_all refs w1)\<lparr>aw_sched_story := dict_set sched_story
                  (story_after opt) (aw_sched_story w1)\<rparr>
       in reads (bind_result (commitment_of fr c workflow opt aac_type) (\<lambda>commitment.
                 bind_result (sched_evaluation_record w2 c workflow opt obs) (\<lambda>evaluation.
                 bind_result (str_at fr obs ''sensor_event_id'') (\<lambda>cause.
                 bind_result (at_key ''decision_id'' (cmd_payload c)) (\<lambda>decision.
                 bind_result (at_key ''evidence_event_ids'' obs) (\<lambda>event_ids.
                 Inr (commitment, evaluation, cause, decision, event_ids)))))))
            (\<lambda>(commitment, evaluation, cause, decision, event_ids).
               apfst Inr (settle_sched w2 c opt refs workflow commitment evaluation cause decision event_ids))
            w2)) w"

definition apply_schedule_adjustment_command ::
  "(pyfloat \<Rightarrow> string) \<Rightarrow> airline \<Rightarrow> sim_command \<Rightarrow> sim_event result \<times> airline" where
  "apply_schedule_adjustment_command fr w c =
     reads (validated_sched fr w c)
       (\<lambda>v. case v of
          Inl reason \<Rightarrow> apfst Inr (sched_reject w c reason)
        | Inr (opt, obs) \<Rightarrow> accept_sched fr w c opt obs) w"

section \<open>The world\<close>

text \<open>\<^verbatim>\<open>prior_command == command\<close>.\<close>

definition same_command :: "sim_command \<Rightarrow> sim_command \<Rightarrow> bool" where
  "same_command a b \<longleftrightarrow> cmd_id a = cmd_id b \<and> cmd_trace a = cmd_trace b \<and> cmd_issuer a = cmd_issuer b
     \<and> cmd_type a = cmd_type b \<and> py_eq (VDict (cmd_payload a)) (VDict (cmd_payload b))"

definition handle_command ::
  "(pyfloat \<Rightarrow> string) \<Rightarrow> airline \<Rightarrow> sim_command \<Rightarrow> sim_event result \<times> airline" where
  "handle_command fr w c =
     (if cmd_type c = aog_command_type then apply_aog_recovery_command fr w c
      else if cmd_type c = sched_command_type then apply_schedule_adjustment_command fr w c
      else apply_recovery_command fr w c)"

definition apply_command ::
  "(pyfloat \<Rightarrow> string) \<Rightarrow> sim_command \<Rightarrow> airline \<Rightarrow> sim_event result \<times> airline" where
  "apply_command fr c w =
     (case map_of (aw_processed w) (cmd_id c) of
        Some (prior, event) \<Rightarrow>
          if same_command prior c then (Inr event, w)
          else (case map_of (aw_conflicts w) (cmd_id c) of
              Some e \<Rightarrow> (Inr e, w)
            | None \<Rightarrow>
                let (e, w1) = reject w c ''idempotency key was reused with a different command payload''
                in (Inr e, w1\<lparr>aw_conflicts := dict_set (cmd_id c) e (aw_conflicts w1)\<rparr>))
      | None \<Rightarrow>
          and_then (handle_command fr w c) (\<lambda>e w1.
            (Inr e, w1\<lparr>aw_processed := dict_set (cmd_id c) (c, e) (aw_processed w1)\<rparr>)))"

definition command_was_processed :: "string \<Rightarrow> airline \<Rightarrow> bool" where
  "command_was_processed i w \<longleftrightarrow> map_of (aw_processed w) i \<noteq> None"

text \<open>A command that was processed is given again, if the identities are those of its payload.\<close>

definition command_or_cached ::
  "string \<Rightarrow> string \<Rightarrow> sim_command result \<Rightarrow> airline \<Rightarrow> string \<Rightarrow> string \<Rightarrow> string \<Rightarrow> string \<Rightarrow>
   sim_command result" where
  "command_or_cached story command_id fresh w opt_id workflow decision persona =
     (case map_of (aw_processed w) command_id of
        None \<Rightarrow> fresh
      | Some (prior, _) \<Rightarrow>
          if map (dict_get (cmd_payload prior)) [''workflow_id'', ''decision_id'', ''option_id'', ''persona'']
             = map VStr [workflow, decision, opt_id, persona]
          then Inr prior
          else Inl (ValueError (Msg (story @ '' command identity does not match the processed command'') [])))"

definition command_for_option where
  "command_for_option fr w opt_id workflow decision persona =
     command_or_cached ''recovery'' (recovery_command_id workflow decision opt_id)
       (command_for_hub fr w opt_id workflow decision persona) w opt_id workflow decision persona"

definition command_for_aog_option where
  "command_for_aog_option fr w opt_id workflow decision persona =
     command_or_cached ''AOG recovery'' (aog_recovery_command_id workflow decision opt_id)
       (command_for_aog fr w opt_id workflow decision persona) w opt_id workflow decision persona"

definition command_for_schedule_option where
  "command_for_schedule_option fr w opt_id workflow decision persona =
     command_or_cached ''schedule adjustment'' (schedule_command_id workflow decision opt_id)
       (command_for_schedule fr w opt_id workflow decision persona) w opt_id workflow decision persona"

end
