(* ===== verification/Airline_Facts.thy ===== *)
theory Airline_Facts imports Airline_Handlers begin

text \<open>
  What the operations of the airline world leave alone, and what each writes to the sectors, the
  aircraft, the slots and the stories.
\<close>

named_theorems airline_frame \<open>parts of the airline world that an operation leaves alone\<close>

section \<open>The plan\<close>

text \<open>The plan is what the invariants read of the sectors, the aircraft and the slots.\<close>

definition cores :: "('v \<Rightarrow> 'c) \<Rightarrow> (string \<times> 'v) list \<Rightarrow> (string \<times> 'c) list" where
  "cores f d = map (\<lambda>(k, v). (k, f v)) d"

lemma cores_amend: "(\<And>v. f (g v) = f v) \<Longrightarrow> cores f (amend k g d) = cores f d"
  by (auto simp: cores_def amend_def)

lemma cores_amend_comm: "(\<And>v. f (g v) = h (f v)) \<Longrightarrow> cores f (amend k g d) = amend k h (cores f d)"
  by (auto simp: cores_def amend_def)

lemma map_of_cores: "map_of (cores f d) k = map_option f (map_of d k)"
  unfolding cores_def by (induction d) auto

lemma fst_cores: "map fst (cores f d) = map fst d"
  by (simp add: cores_def comp_def split_beta)

definition sector_core :: "sector \<Rightarrow> string \<times> string \<times> string \<times> string \<times> string" where
  "sector_core s = (sec_id s, sec_aircraft_id s, sec_crew_duty_id s, sec_slot_id s, sec_status s)"

definition aircraft_core :: "aircraft \<Rightarrow> string \<times> string" where
  "aircraft_core a = (ac_id a, ac_status a)"

text \<open>The sensor events of the journal are part of the plan: an observation starts from one.\<close>

definition sensor_events where
  "sensor_events w = filter (\<lambda>e. ev_type e = ''sensor.tripped'') (rt_journal w)"

definition sector_part where "sector_part w = cores sector_core (aw_sectors w)"
definition aircraft_part where "aircraft_part w = cores aircraft_core (aw_aircraft w)"
definition rest_part where
  "rest_part w = (cores cr_id (aw_crew w), cores slt_status (aw_slots w), cores ro_sector_ids (aw_rotations w),
     sensor_events w)"

definition plan where
  "plan w = (sector_part w, aircraft_part w, rest_part w)"

lemmas plan_defs = plan_def sector_part_def aircraft_part_def rest_part_def sensor_events_def

text \<open>The stories: their status, their source events, and what was committed for them.\<close>

definition stories where
  "stories w = (aw_installed w, aw_events w, (aw_disruption w, aw_recoveries w, aw_recovery_evaluations w),
     (aw_aog_story w, aw_aog_commands w, aw_aog_evaluations w),
     (aw_sched_story w, aw_adjustments w, aw_schedule_evaluations w))"

definition caches where
  "caches w = (aw_processed w, aw_conflicts w)"

lemma emit_plan [airline_frame]:
  "ty \<noteq> ''sensor.tripped'' \<Longrightarrow> plan (snd (emit ty a t c tr p w)) = plan w"
  by (simp add: emit_def plan_defs Let_def)

lemma emit_frame [airline_frame]:
  "stories (snd (emit ty a t c tr p w)) = stories w"
  "caches (snd (emit ty a t c tr p w)) = caches w"
  by (simp_all add: emit_def stories_def caches_def Let_def)

lemma emit_fields [airline_frame]:
  "aw_sectors (snd (emit ty a t c tr p w)) = aw_sectors w"
  "aw_aircraft (snd (emit ty a t c tr p w)) = aw_aircraft w"
  "aw_slots (snd (emit ty a t c tr p w)) = aw_slots w"
  "aw_stands (snd (emit ty a t c tr p w)) = aw_stands w"
  "aw_techs (snd (emit ty a t c tr p w)) = aw_techs w"
  "aw_signals (snd (emit ty a t c tr p w)) = aw_signals w"
  "aw_forecasts (snd (emit ty a t c tr p w)) = aw_forecasts w"
  by (simp_all add: emit_def Let_def)

lemma bump_ref_frame [airline_frame]:
  "plan (bump_ref r w) = plan w" "stories (bump_ref r w) = stories w" "caches (bump_ref r w) = caches w"
  by (cases "(r, w)" rule: bump_ref.cases;
      simp add: plan_defs stories_def caches_def cores_amend sector_core_def aircraft_core_def)+

lemma stamp_frame [airline_frame]:
  "plan (stamp e r w) = plan w" "stories (stamp e r w) = stories w" "caches (stamp e r w) = caches w"
  by (cases "(e, r, w)" rule: stamp.cases;
      simp add: plan_defs stories_def caches_def cores_amend sector_core_def aircraft_core_def)+

lemma bump_all_frame [airline_frame]:
  "plan (bump_all rs w) = plan w" "stories (bump_all rs w) = stories w" "caches (bump_all rs w) = caches w"
  unfolding bump_all_def by (induction rs arbitrary: w) (simp_all add: airline_frame)

lemma stamp_all_frame [airline_frame]:
  "plan (stamp_all e rs w) = plan w" "stories (stamp_all e rs w) = stories w"
  "caches (stamp_all e rs w) = caches w"
  unfolding stamp_all_def by (induction rs arbitrary: w) (simp_all add: airline_frame)

lemma plan_update [airline_frame]:
  fixes w :: airline
  shows
  "plan (w\<lparr>aw_disruption := x1\<rparr>) = plan w"
  "plan (w\<lparr>aw_aog_story := x2\<rparr>) = plan w"
  "plan (w\<lparr>aw_sched_story := x3\<rparr>) = plan w"
  "plan (w\<lparr>aw_recoveries := x4\<rparr>) = plan w"
  "plan (w\<lparr>aw_recovery_evaluations := x5\<rparr>) = plan w"
  "plan (w\<lparr>aw_work_orders := x6\<rparr>) = plan w"
  "plan (w\<lparr>aw_movements := x7\<rparr>) = plan w"
  "plan (w\<lparr>aw_aog_commands := x8\<rparr>) = plan w"
  "plan (w\<lparr>aw_aog_evaluations := x9\<rparr>) = plan w"
  "plan (w\<lparr>aw_adjustments := x10\<rparr>) = plan w"
  "plan (w\<lparr>aw_schedule_evaluations := x11\<rparr>) = plan w"
  "plan (w\<lparr>aw_events := x12\<rparr>) = plan w"
  "plan (w\<lparr>aw_processed := x13\<rparr>) = plan w"
  "plan (w\<lparr>aw_conflicts := x14\<rparr>) = plan w"
  "plan (w\<lparr>aw_installed := x15\<rparr>) = plan w"
  "plan (w\<lparr>aw_traces := x16\<rparr>) = plan w"
  "plan (w\<lparr>aw_techs := x17\<rparr>) = plan w"
  "plan (w\<lparr>aw_tasks := x18\<rparr>) = plan w"
  "plan (w\<lparr>aw_spares := x19\<rparr>) = plan w"
  "plan (w\<lparr>aw_signals := x20\<rparr>) = plan w"
  "plan (w\<lparr>aw_forecasts := x21\<rparr>) = plan w"
  "plan (w\<lparr>aw_stands := x22\<rparr>) = plan w"
  "plan (w\<lparr>rt_now := x0\<rparr>) = plan w"
  "plan (w\<lparr>aw_cohorts := x24\<rparr>) = plan w"
  "plan (w\<lparr>aw_providers := x25\<rparr>) = plan w"
  by (simp_all add: plan_defs)

lemma reject_frame [airline_frame]:
  "plan (snd (reject w c m)) = plan w" "stories (snd (reject w c m)) = stories w"
  "caches (snd (reject w c m)) = caches w"
  "plan (snd (aog_reject w c m)) = plan w" "stories (snd (aog_reject w c m)) = stories w"
  "caches (snd (aog_reject w c m)) = caches w"
  "plan (snd (sched_reject w c m)) = plan w" "stories (snd (sched_reject w c m)) = stories w"
  "caches (snd (sched_reject w c m)) = caches w"
  by (simp_all add: reject_def aog_reject_def sched_reject_def airline_frame)

lemma register_work_frame [airline_frame]: "plan (register_work wo mv w) = plan w"
  by (simp add: register_work_def Let_def airline_frame split: option.splits)

section \<open>Outcomes of the handlers\<close>

lemma snd_apfst [simp]: "snd (apfst f p) = snd p"
  by (cases p) simp

lemmas emit_stories = emit_frame(1)[unfolded stories_def, simplified]
lemmas stamp_all_stories = stamp_all_frame(2)[unfolded stories_def, simplified]
lemmas bump_all_stories = bump_all_frame(2)[unfolded stories_def, simplified]

lemmas emit_caches = emit_frame(2)[unfolded caches_def, simplified]
lemmas stamp_all_caches = stamp_all_frame(3)[unfolded caches_def, simplified]
lemmas bump_all_caches = bump_all_frame(3)[unfolded caches_def, simplified]

lemmas airline_parts = emit_stories stamp_all_stories bump_all_stories emit_caches stamp_all_caches
  bump_all_caches

lemma ev_type_emit: "ev_type (fst (emit ty a t c tr p w)) = ty"
  by (simp add: emit_def Let_def)

lemma settle_hub_effect:
  fixes w :: airline
  assumes w': "w' = snd (settle_hub w c opt refs n cm ev cause d is)"
  shows "plan w' = plan w" "caches w' = caches w"
    "\<exists>e. aw_recoveries w' = dict_set (cm_id cm) (cm\<lparr>cm_last_event_id := e\<rparr>) (aw_recoveries w)"
    "\<exists>e. aw_recovery_evaluations w' = dict_set n (ev\<lparr>re_last_event_id := e\<rparr>) (aw_recovery_evaluations w)"
    "stories w' = stories (w\<lparr>aw_recoveries := aw_recoveries w',
       aw_recovery_evaluations := aw_recovery_evaluations w'\<rparr>)"
    "ev_type (fst (settle_hub w c opt refs n cm ev cause d is)) = ''command.accepted''"
  by (auto simp: w' settle_hub_def Let_def split_beta airline_frame caches_def stories_def airline_parts
      ev_type_emit)

lemma settle_sched_effect:
  fixes w :: airline
  assumes w': "w' = snd (settle_sched w c opt refs n cm ev cause d is)"
  shows "plan w' = plan w" "caches w' = caches w"
    "\<exists>e. aw_adjustments w' = dict_set (cm_id cm) (cm\<lparr>cm_last_event_id := e\<rparr>) (aw_adjustments w)"
    "\<exists>e. aw_schedule_evaluations w' =
       dict_set (se_id ev) (ev\<lparr>se_last_event_id := e\<rparr>) (aw_schedule_evaluations w)"
    "stories w' = stories (w\<lparr>aw_adjustments := aw_adjustments w',
       aw_schedule_evaluations := aw_schedule_evaluations w'\<rparr>)"
    "ev_type (fst (settle_sched w c opt refs n cm ev cause d is)) = ''command.accepted''"
  by (auto simp: w' settle_sched_def Let_def split_beta airline_frame caches_def stories_def
      airline_parts ev_type_emit)

lemma register_work_parts:
  "stories (register_work wo mv w) = stories w" "caches (register_work wo mv w) = caches w"
  by (simp_all add: register_work_def Let_def stories_def caches_def split: option.splits)

lemmas register_work_fields = register_work_parts[unfolded stories_def caches_def, simplified]

lemma settle_aog_effect:
  fixes w :: airline
  assumes w': "w' = snd (settle_aog w c opt refs wo mv n cm ev cause d is)"
  shows "plan w' = plan w" "caches w' = caches w"
    "\<exists>e. aw_aog_commands w' = dict_set (cm_id cm) (cm\<lparr>cm_last_event_id := e\<rparr>) (aw_aog_commands w)"
    "\<exists>e. aw_aog_evaluations w' =
       dict_set (ae_id ev) (ev\<lparr>ae_last_event_id := e\<rparr>) (aw_aog_evaluations w)"
    "stories w' = stories (w\<lparr>aw_aog_commands := aw_aog_commands w',
       aw_aog_evaluations := aw_aog_evaluations w'\<rparr>)"
    "\<And>e. fst (settle_aog w c opt refs wo mv n cm ev cause d is) = Inr e \<Longrightarrow> ev_type e = ''command.accepted''"
  by (auto simp: w' settle_aog_def Let_def split_beta airline_frame caches_def stories_def
      airline_parts register_work_fields reads_def ev_type_emit split: sum.splits)

lemma ev_type_reject:
  "ev_type (fst (reject w c m)) = ''command.rejected''"
  "ev_type (fst (aog_reject w c m)) = ''command.rejected''"
  "ev_type (fst (sched_reject w c m)) = ''command.rejected''"
  by (simp_all add: reject_def aog_reject_def sched_reject_def ev_type_emit)

text \<open>An event that is returned is the rejection that was recorded.\<close>

definition rejects :: "(string \<Rightarrow> sim_event \<times> airline) \<Rightarrow> sim_event result \<Rightarrow> airline \<Rightarrow> bool" where
  "rejects f r w' \<longleftrightarrow> (\<forall>e. r = Inr e \<longrightarrow> (\<exists>m. f m = (e, w')))"

lemma rejects_simps [simp]: "rejects f (Inl x) w'" "rejects f (Inr (fst (f m))) (snd (f m))"
  by (auto simp: rejects_def intro: prod.collapse[symmetric])

text \<open>A mutation reads before it writes: it fails without a change.\<close>

lemma mutate_fails:
  "mutate_hub w opt = (Inl x, w1) \<Longrightarrow> w1 = w"
  "mutate_sched w aopt = (Inl x, w1) \<Longrightarrow> w1 = w"
  "mutate_work_order w i = (Inl x, w1) \<Longrightarrow> w1 = w"
  "mutate_substitute w = (Inl x, w1) \<Longrightarrow> w1 = w"
  by (auto simp: mutate_hub_def mutate_tail_plan_def mutate_cancel_plan_def mutate_retime_plan_def
      mutate_sched_def mutate_buffer_retime_def mutate_preposition_def mutate_cancel_limited_def
      mutate_monitor_risk_def mutate_work_order_def mutate_substitute_def reads_def Let_def
      split: sum.splits if_splits)

lemma accept_hub_outcome:
  assumes "accept_hub fr w c opt obs = (r, w')"
  obtains (refused) "plan w' = plan w" "stories w' = stories w" "caches w' = caches w" "rejects (reject w c) r w'"
  | (raised) refs w1 where "mutate_hub w opt = (Inr refs, w1)" "\<exists>x. r = Inl x"
      "w' = (bump_all refs w1)\<lparr>aw_disruption := dict_set hub_story ''resolved'' (aw_disruption w1)\<rparr>"
  | (settled) refs w1 w2 n cm ev cause d es where "mutate_hub w opt = (Inr refs, w1)"
      "w2 = (bump_all refs w1)\<lparr>aw_disruption := dict_set hub_story ''resolved'' (aw_disruption w1)\<rparr>"
      "hub_evaluation_record w2 c n opt obs = Inr ev"
      "apfst Inr (settle_hub w2 c opt refs n cm ev cause d es) = (r, w')"
proof (cases "po_id opt \<in> {tail_option_id, cancel_option_id, retime_option_id}")
  case False
  then obtain m where "r = Inr (fst (reject w c m))" "w' = snd (reject w c m)"
    using assms by (auto simp: accept_hub_def apfst_def map_prod_def split_beta simp del: append.simps)
  then show thesis by (intro refused) (simp_all add: airline_frame)
next
  case True
  obtain m w1 where mut: "mutate_hub w opt = (m, w1)" by fastforce
  show thesis
  proof (cases m)
    case (Inl x)
    with True mut assms have "r = Inl x" "w' = w1" by (auto simp: accept_hub_def)
    with mutate_fails(1)[of w opt x w1] mut Inl show thesis by (intro refused) simp_all
  next
    case (Inr refs)
    let ?w2 = "(bump_all refs w1)\<lparr>aw_disruption := dict_set hub_story ''resolved'' (aw_disruption w1)\<rparr>"
    have "(\<exists>x. r = Inl x \<and> w' = ?w2) \<or>
      (\<exists>n cm ev cause d es. hub_evaluation_record ?w2 c n opt obs = Inr ev \<and>
         apfst Inr (settle_hub ?w2 c opt refs n cm ev cause d es) = (r, w'))"
      using assms True mut Inr
      by (auto simp: accept_hub_def reads_def Let_def bind_result_Inr_iff split: sum.splits)
    with mut Inr show thesis by (auto intro: raised settled)
  qed
qed

lemma accept_sched_outcome:
  assumes "accept_sched fr w c opt obs = (r, w')"
  obtains (refused) "plan w' = plan w" "stories w' = stories w" "caches w' = caches w" "rejects (sched_reject w c) r w'"
  | (raised) refs w1 where "mutate_sched w opt = (Inr refs, w1)" "\<exists>x. r = Inl x"
      "w' = (bump_all refs w1)\<lparr>aw_sched_story := dict_set sched_story (story_after opt) (aw_sched_story w1)\<rparr>"
  | (settled) refs w1 w2 n cm ev cause d es where "mutate_sched w opt = (Inr refs, w1)"
      "w2 = (bump_all refs w1)\<lparr>aw_sched_story := dict_set sched_story (story_after opt) (aw_sched_story w1)\<rparr>"
      "sched_evaluation_record w2 c n opt obs = Inr ev"
      "apfst Inr (settle_sched w2 c opt refs n cm ev cause d es) = (r, w')"
proof (cases "str_at fr (cmd_payload c) ''workflow_id''")
  case (Inl x)
  with assms have "r = Inl x" "w' = w" by (auto simp: accept_sched_def)
  then show thesis by (intro refused) simp_all
next
  case n: (Inr n)
  show thesis
  proof (cases "po_id opt \<in> {buffer_retime_id, preposition_id, cancel_limited_id, monitor_risk_id}")
    case False
    then obtain m where "r = Inr (fst (sched_reject w c m))" "w' = snd (sched_reject w c m)"
      using assms n by (auto simp: accept_sched_def apfst_def map_prod_def split_beta simp del: append.simps)
    then show thesis by (intro refused) (simp_all add: airline_frame)
  next
    case True
    then have known: "(po_id opt \<notin> {buffer_retime_id, preposition_id, cancel_limited_id, monitor_risk_id}) = False"
      by simp
    obtain m w1 where mut: "mutate_sched w opt = (m, w1)" by fastforce
    show thesis
    proof (cases m)
      case (Inl x)
      with assms have "r = Inl x" "w' = w1"
        unfolding accept_sched_def n reads_simps known if_False mut by simp_all
      with mutate_fails(2)[of w opt x w1] mut Inl show thesis by (intro refused) simp_all
    next
      case (Inr refs)
      let ?w2 = "(bump_all refs w1)\<lparr>aw_sched_story := dict_set sched_story (story_after opt) (aw_sched_story w1)\<rparr>"
      have "(\<exists>x. r = Inl x \<and> w' = ?w2) \<or>
        (\<exists>n cm ev cause d es. sched_evaluation_record ?w2 c n opt obs = Inr ev \<and>
           apfst Inr (settle_sched ?w2 c opt refs n cm ev cause d es) = (r, w'))"
        using assms unfolding accept_sched_def n reads_simps known if_False mut Inr and_then_simps Let_def
        by (auto simp: reads_def bind_result_Inr_iff split: sum.splits)
      then show thesis using mut Inr by (auto intro: raised settled)
    qed
  qed
qed

section \<open>Effects of the mutations\<close>

lemma core_amends:
  "cores sector_core (amend k (\<lambda>r. r\<lparr>sec_aircraft_id := x, sec_crew_duty_id := y, sec_stand_id := z\<rparr>) d) =
     amend k (\<lambda>(i, _, _, sl, st). (i, x, y, sl, st)) (cores sector_core d)"
  "cores sector_core (amend k (sec_aircraft_id_update (\<lambda>_. x)) d) =
     amend k (\<lambda>(i, _, c, sl, st). (i, x, c, sl, st)) (cores sector_core d)"
  "cores sector_core (amend k (sec_status_update (\<lambda>_. x)) d) =
     amend k (\<lambda>(i, a, c, sl, st). (i, a, c, sl, x)) (cores sector_core d)"
  "cores aircraft_core (amend k (ac_status_update (\<lambda>_. x)) e) =
     amend k (\<lambda>(i, _). (i, x)) (cores aircraft_core e)"
  by (rule cores_amend_comm; simp add: sector_core_def aircraft_core_def)+

lemmas effect_simps = reads_def bind_result_Inr_iff plan_defs stories_def caches_def core_amends
  cores_amend sector_core_def aircraft_core_def Let_def

lemma tail_plan_effect:
  assumes "mutate_tail_plan w = (Inr refs, w1)"
  obtains s a cr where "map_of (aw_sectors w) target_sector_id = Some s"
    "map_of (aw_aircraft w) reserve_tail_id = Some a" "map_of (aw_crew w) reserve_crew_id = Some cr"
    "plan w1 = (amend target_sector_id (\<lambda>(i, _, _, sl, st). (i, ac_id a, cr_id cr, sl, st)) (sector_part w),
                amend reserve_tail_id (\<lambda>(i, _). (i, ''assigned'')) (aircraft_part w), rest_part w)"
    "stories w1 = stories w" "caches w1 = caches w"
  using assms
  by (auto simp: mutate_tail_plan_def effect_simps split: sum.splits)

lemma cancel_plan_effect:
  assumes "mutate_cancel_plan w = (Inr refs, w1)"
  shows "plan w1 = (amend target_sector_id (\<lambda>(i, a, c, sl, st). (i, a, c, sl, ''cancelled'')) (sector_part w),
            aircraft_part w, rest_part w)"
    "stories w1 = stories w" "caches w1 = caches w"
  using assms
  by (auto simp: mutate_cancel_plan_def effect_simps split: sum.splits)

lemma plan_same_effects:
  "mutate_retime_plan w hopt = (Inr refs, w1) \<Longrightarrow> plan w1 = plan w \<and> stories w1 = stories w \<and> caches w1 = caches w"
  "mutate_buffer_retime w = (Inr refs, w1) \<Longrightarrow> plan w1 = plan w \<and> stories w1 = stories w \<and> caches w1 = caches w"
  "mutate_monitor_risk w = (Inr refs, w1) \<Longrightarrow> plan w1 = plan w \<and> stories w1 = stories w \<and> caches w1 = caches w"
  "mutate_work_order w i = (Inr refs, w1) \<Longrightarrow> plan w1 = plan w \<and> stories w1 = stories w \<and> caches w1 = caches w"
  by (auto simp: mutate_retime_plan_def mutate_buffer_retime_def mutate_monitor_risk_def
      mutate_work_order_def reads_def bind_result_Inr_iff plan_defs stories_def caches_def Let_def
      cores_amend sector_core_def split: sum.splits if_splits)

lemma preposition_effect:
  assumes "mutate_preposition w = (Inr refs, w1)"
  shows "plan w1 = (sector_part w, amend reserve_tail_id (\<lambda>(i, _). (i, ''prepositioned'')) (aircraft_part w),
            rest_part w)"
    "stories w1 = stories w" "caches w1 = caches w"
  using assms
  by (auto simp: mutate_preposition_def effect_simps split: sum.splits)

lemma cancel_limited_effect:
  assumes "mutate_cancel_limited w = (Inr refs, w1)"
  shows "plan w1 = (amend cancel_sector_id (\<lambda>(i, a, c, sl, st). (i, a, c, sl, ''cancelled'')) (sector_part w),
            aircraft_part w, rest_part w)"
    "stories w1 = stories w" "caches w1 = caches w"
  using assms
  by (auto simp: mutate_cancel_limited_def effect_simps split: sum.splits)

lemma substitute_effect:
  assumes "mutate_substitute w = (Inr refs, w1)"
  obtains a where "map_of (aw_aircraft w) reserve_tail_id = Some a"
    "plan w1 = (amend threatened_sector_id (\<lambda>(i, _, c, sl, st). (i, ac_id a, c, sl, st)) (sector_part w),
                amend reserve_tail_id (\<lambda>(i, _). (i, ''assigned'')) (aircraft_part w), rest_part w)"
    "stories w1 = stories w" "caches w1 = caches w"
  using assms
  by (auto simp: mutate_substitute_def effect_simps split: sum.splits)

lemma mutate_aog_effect:
  assumes "mutate_aog w opt n = (r, w1)"
  shows "\<exists>refs w2. (mutate_work_order w (spare_of opt) = (refs, w2) \<or> mutate_substitute w = (refs, w2)) \<and> w1 = w2"
  using assms
  by (cases "mutate_work_order w (spare_of opt)"; cases "mutate_substitute w")
    (auto simp: mutate_aog_def reads_def and_then_def split: if_splits sum.splits prod.splits)

lemma mutate_aog_fails:
  assumes "mutate_aog w opt n = (Inl x, w1)"
  shows "plan w1 = plan w \<and> stories w1 = stories w \<and> caches w1 = caches w"
  using assms mutate_fails(3,4)[of w] plan_same_effects(4)[of w]
  by (cases "mutate_work_order w (spare_of opt)"; cases "mutate_substitute w")
    (auto simp: mutate_aog_def reads_def and_then_def split: if_splits sum.splits prod.splits)

lemma accept_aog_outcome:
  assumes "accept_aog fr w c opt obs = (r, w')"
  obtains (refused) "plan w' = plan w" "stories w' = stories w" "caches w' = caches w" "rejects (aog_reject w c) r w'"
  | (raised) refs w1 wo mv n where "mutate_aog w opt n = (Inr (refs, wo, mv), w1)" "\<exists>x. r = Inl x"
      "w' = register_work wo mv
         ((bump_all refs w1)\<lparr>aw_aog_story := dict_set aog_story ''resolved'' (aw_aog_story w1)\<rparr>)"
  | (settled) refs w1 w2 wo mv n cm ev cause d es where "mutate_aog w opt n = (Inr (refs, wo, mv), w1)"
      "w2 = register_work wo mv
         ((bump_all refs w1)\<lparr>aw_aog_story := dict_set aog_story ''resolved'' (aw_aog_story w1)\<rparr>)"
      "aog_evaluation_record w2 c n opt = Inr ev"
      "settle_aog w2 c opt refs wo mv n cm ev cause d es = (r, w')"
proof (cases "str_at fr (cmd_payload c) ''workflow_id''")
  case (Inl x)
  with assms have "r = Inl x" "w' = w" by (auto simp: accept_aog_def)
  then show thesis by (intro refused) simp_all
next
  case n: (Inr n)
  show thesis
  proof (cases "is_work opt \<or> po_id opt = substitute_id")
    case False
    then obtain m where "r = Inr (fst (aog_reject w c m))" "w' = snd (aog_reject w c m)"
      using assms n by (auto simp: accept_aog_def apfst_def map_prod_def split_beta simp del: append.simps)
    then show thesis by (intro refused) (simp_all add: airline_frame)
  next
    case True
    obtain m w1 where mut: "mutate_aog w opt n = (m, w1)" by fastforce
    show thesis
    proof (cases m)
      case (Inl x)
      with True mut assms n have "r = Inl x" "w' = w1" by (auto simp: accept_aog_def)
      with mutate_aog_fails[OF mut[unfolded Inl]] show thesis by (intro refused) simp_all
    next
      case (Inr m')
      obtain refs wo mv where m': "m' = (refs, wo, mv)" by (cases m')
      let ?w2 = "register_work wo mv
         ((bump_all refs w1)\<lparr>aw_aog_story := dict_set aog_story ''resolved'' (aw_aog_story w1)\<rparr>)"
      have "(\<exists>x. r = Inl x \<and> w' = ?w2) \<or>
        (\<exists>cm ev cause d es. aog_evaluation_record ?w2 c n opt = Inr ev \<and>
           settle_aog ?w2 c opt refs wo mv n cm ev cause d es = (r, w'))"
        using assms True mut Inr n m'
        by (auto simp: accept_aog_def reads_def Let_def bind_result_Inr_iff split: sum.splits)
      then show thesis using mut Inr m' by (auto intro: raised settled)
    qed
  qed
qed


end
