(* ===== verification/Airline_Admission.thy ===== *)
theory Airline_Admission imports Airline_Facts begin

text \<open>
  What installation and activation write, the invariant of the plan, and what an admitted option and a
  validated command tell of the world they were read from.
\<close>

section \<open>Seeding\<close>

text \<open>A collection of the world: its records, how they are written, and how an event is noted on one.\<close>

locale collection =
  fixes get :: "airline \<Rightarrow> (string \<times> 'r) list"
    and update :: "((string \<times> 'r) list \<Rightarrow> (string \<times> 'r) list) \<Rightarrow> airline \<Rightarrow> airline"
    and ident :: "'r \<Rightarrow> string"
    and view :: "'r \<Rightarrow> pydict"
    and stamp :: "string \<Rightarrow> 'r \<Rightarrow> 'r"
  assumes get_update: "get (update f w) = f (get w)"
    and get_emit: "get (snd (emit ty a t c tr p w)) = get w"
begin

lemma seeded:
  assumes "\<And>e r. core (stamp e r) = core r"
  shows "cores core (get (seed_collection update ident view stamp rs ty w)) =
           fold (\<lambda>r. dict_set (ident r) (core r)) rs (cores core (get w))"
proof (induction rs arbitrary: w)
  case Nil
  then show ?case by (simp add: seed_collection_def)
next
  case (Cons r rs)
  have step: "cores core (dict_set k v d) = dict_set k (core v) (cores core d)" for k v and d :: "(string \<times> 'r) list"
    unfolding cores_def by (induction d) auto
  show ?case
    using Cons assms
    by (simp add: seed_collection_def Let_def split_beta get_update get_emit cores_amend step)
qed

end

lemma seeding_keeps:
  assumes "\<And>f w. P (update f w) = P w" "\<And>a t c tr p w. P (snd (emit ty a t c tr p w)) = P w"
  shows "P (seed_collection update ident view mark rs ty w) = P w"
proof (induction rs arbitrary: w)
  case (Cons r rs)
  then show ?case by (simp add: seed_collection_def Let_def split_beta assms)
qed (simp add: seed_collection_def)

interpretation aircraft_c: collection aw_aircraft aw_aircraft_update ac_id aircraft_view
    "\<lambda>e r. r\<lparr>ac_last_event_id := Some e\<rparr>"
  by unfold_locales (simp_all add: emit_def Let_def)
interpretation sector_c: collection aw_sectors aw_sectors_update sec_id sector_view
    "\<lambda>e r. r\<lparr>sec_last_event_id := Some e\<rparr>"
  by unfold_locales (simp_all add: emit_def Let_def)
interpretation rotation_c: collection aw_rotations aw_rotations_update ro_id rotation_view
    "\<lambda>e r. r\<lparr>ro_last_event_id := Some e\<rparr>"
  by unfold_locales (simp_all add: emit_def Let_def)
interpretation crew_c: collection aw_crew aw_crew_update cr_id crew_duty_view
    "\<lambda>e r. r\<lparr>cr_last_event_id := Some e\<rparr>"
  by unfold_locales (simp_all add: emit_def Let_def)
interpretation slot_c: collection aw_slots aw_slots_update slt_id airport_slot_view
    "\<lambda>e r. r\<lparr>slt_last_event_id := Some e\<rparr>"
  by unfold_locales (simp_all add: emit_def Let_def)
interpretation stand_c: collection aw_stands aw_stands_update std_id stand_view
    "\<lambda>e r. r\<lparr>std_last_event_id := Some e\<rparr>"
  by unfold_locales (simp_all add: emit_def Let_def)
interpretation cohort_c: collection aw_cohorts aw_cohorts_update co_id cohort_view
    "\<lambda>e r. r\<lparr>co_last_event_id := Some e\<rparr>"
  by unfold_locales (simp_all add: emit_def Let_def)
interpretation tech_c: collection aw_techs aw_techs_update te_id tech_status_view
    "\<lambda>e r. r\<lparr>te_last_event_id := Some e\<rparr>"
  by unfold_locales (simp_all add: emit_def Let_def)
interpretation task_c: collection aw_tasks aw_tasks_update mt_id maintenance_task_view
    "\<lambda>e r. r\<lparr>mt_last_event_id := Some e\<rparr>"
  by unfold_locales (simp_all add: emit_def Let_def)
interpretation provider_c: collection aw_providers aw_providers_update pv_id provider_view
    "\<lambda>e r. r\<lparr>pv_last_event_id := Some e\<rparr>"
  by unfold_locales (simp_all add: emit_def Let_def)
interpretation spare_c: collection aw_spares aw_spares_update spr_id spare_view
    "\<lambda>e r. r\<lparr>spr_last_event_id := Some e\<rparr>"
  by unfold_locales (simp_all add: emit_def Let_def)
interpretation signal_c: collection aw_signals aw_signals_update rsk_id risk_signal_view
    "\<lambda>e r. r\<lparr>rsk_last_event_id := Some e\<rparr>"
  by unfold_locales (simp_all add: emit_def Let_def)
interpretation forecast_c: collection aw_forecasts aw_forecasts_update fc_id forecast_constraint_view
    "\<lambda>e r. r\<lparr>fc_last_event_id := Some e\<rparr>"
  by unfold_locales (simp_all add: emit_def Let_def)

definition seeded_plan where
  "seeded_plan =
     (fold (\<lambda>r. dict_set (sec_id r) (sector_core r)) build_sectors [],
      fold (\<lambda>r. dict_set (ac_id r) (aircraft_core r)) build_aircraft [],
      (fold (\<lambda>r. dict_set (cr_id r) (cr_id r)) build_crew_duties [],
       fold (\<lambda>r. dict_set (slt_id r) (slt_status r)) build_slots [],
       fold (\<lambda>r. dict_set (ro_id r) (ro_sector_ids r)) build_rotations [],
       [] :: sim_event list))"

lemma seed_fields:
  "aw_sectors (seed_collection aw_aircraft_update i0 v0 s0 rs0 ty w) = aw_sectors w"
  "aw_sectors (seed_collection aw_rotations_update i2 v2 s2 rs2 ty w) = aw_sectors w"
  "aw_sectors (seed_collection aw_crew_update i3 v3 s3 rs3 ty w) = aw_sectors w"
  "aw_sectors (seed_collection aw_slots_update i4 v4 s4 rs4 ty w) = aw_sectors w"
  "aw_sectors (seed_collection aw_stands_update i5 v5 s5 rs5 ty w) = aw_sectors w"
  "aw_sectors (seed_collection aw_cohorts_update i6 v6 s6 rs6 ty w) = aw_sectors w"
  "aw_sectors (seed_collection aw_techs_update i7 v7 s7 rs7 ty w) = aw_sectors w"
  "aw_sectors (seed_collection aw_tasks_update i8 v8 s8 rs8 ty w) = aw_sectors w"
  "aw_sectors (seed_collection aw_providers_update i9 v9 s9 rs9 ty w) = aw_sectors w"
  "aw_sectors (seed_collection aw_spares_update i10 v10 s10 rs10 ty w) = aw_sectors w"
  "aw_sectors (seed_collection aw_signals_update i11 v11 s11 rs11 ty w) = aw_sectors w"
  "aw_sectors (seed_collection aw_forecasts_update i12 v12 s12 rs12 ty w) = aw_sectors w"
  "aw_aircraft (seed_collection aw_sectors_update i1 v1 s1 rs1 ty w) = aw_aircraft w"
  "aw_aircraft (seed_collection aw_rotations_update i2 v2 s2 rs2 ty w) = aw_aircraft w"
  "aw_aircraft (seed_collection aw_crew_update i3 v3 s3 rs3 ty w) = aw_aircraft w"
  "aw_aircraft (seed_collection aw_slots_update i4 v4 s4 rs4 ty w) = aw_aircraft w"
  "aw_aircraft (seed_collection aw_stands_update i5 v5 s5 rs5 ty w) = aw_aircraft w"
  "aw_aircraft (seed_collection aw_cohorts_update i6 v6 s6 rs6 ty w) = aw_aircraft w"
  "aw_aircraft (seed_collection aw_techs_update i7 v7 s7 rs7 ty w) = aw_aircraft w"
  "aw_aircraft (seed_collection aw_tasks_update i8 v8 s8 rs8 ty w) = aw_aircraft w"
  "aw_aircraft (seed_collection aw_providers_update i9 v9 s9 rs9 ty w) = aw_aircraft w"
  "aw_aircraft (seed_collection aw_spares_update i10 v10 s10 rs10 ty w) = aw_aircraft w"
  "aw_aircraft (seed_collection aw_signals_update i11 v11 s11 rs11 ty w) = aw_aircraft w"
  "aw_aircraft (seed_collection aw_forecasts_update i12 v12 s12 rs12 ty w) = aw_aircraft w"
  "aw_crew (seed_collection aw_aircraft_update i0 v0 s0 rs0 ty w) = aw_crew w"
  "aw_crew (seed_collection aw_sectors_update i1 v1 s1 rs1 ty w) = aw_crew w"
  "aw_crew (seed_collection aw_rotations_update i2 v2 s2 rs2 ty w) = aw_crew w"
  "aw_crew (seed_collection aw_slots_update i4 v4 s4 rs4 ty w) = aw_crew w"
  "aw_crew (seed_collection aw_stands_update i5 v5 s5 rs5 ty w) = aw_crew w"
  "aw_crew (seed_collection aw_cohorts_update i6 v6 s6 rs6 ty w) = aw_crew w"
  "aw_crew (seed_collection aw_techs_update i7 v7 s7 rs7 ty w) = aw_crew w"
  "aw_crew (seed_collection aw_tasks_update i8 v8 s8 rs8 ty w) = aw_crew w"
  "aw_crew (seed_collection aw_providers_update i9 v9 s9 rs9 ty w) = aw_crew w"
  "aw_crew (seed_collection aw_spares_update i10 v10 s10 rs10 ty w) = aw_crew w"
  "aw_crew (seed_collection aw_signals_update i11 v11 s11 rs11 ty w) = aw_crew w"
  "aw_crew (seed_collection aw_forecasts_update i12 v12 s12 rs12 ty w) = aw_crew w"
  "aw_slots (seed_collection aw_aircraft_update i0 v0 s0 rs0 ty w) = aw_slots w"
  "aw_slots (seed_collection aw_sectors_update i1 v1 s1 rs1 ty w) = aw_slots w"
  "aw_slots (seed_collection aw_rotations_update i2 v2 s2 rs2 ty w) = aw_slots w"
  "aw_slots (seed_collection aw_crew_update i3 v3 s3 rs3 ty w) = aw_slots w"
  "aw_slots (seed_collection aw_stands_update i5 v5 s5 rs5 ty w) = aw_slots w"
  "aw_slots (seed_collection aw_cohorts_update i6 v6 s6 rs6 ty w) = aw_slots w"
  "aw_slots (seed_collection aw_techs_update i7 v7 s7 rs7 ty w) = aw_slots w"
  "aw_slots (seed_collection aw_tasks_update i8 v8 s8 rs8 ty w) = aw_slots w"
  "aw_slots (seed_collection aw_providers_update i9 v9 s9 rs9 ty w) = aw_slots w"
  "aw_slots (seed_collection aw_spares_update i10 v10 s10 rs10 ty w) = aw_slots w"
  "aw_slots (seed_collection aw_signals_update i11 v11 s11 rs11 ty w) = aw_slots w"
  "aw_slots (seed_collection aw_forecasts_update i12 v12 s12 rs12 ty w) = aw_slots w"
  "aw_rotations (seed_collection aw_aircraft_update i0 v0 s0 rs0 ty w) = aw_rotations w"
  "aw_rotations (seed_collection aw_sectors_update i1 v1 s1 rs1 ty w) = aw_rotations w"
  "aw_rotations (seed_collection aw_crew_update i3 v3 s3 rs3 ty w) = aw_rotations w"
  "aw_rotations (seed_collection aw_slots_update i4 v4 s4 rs4 ty w) = aw_rotations w"
  "aw_rotations (seed_collection aw_stands_update i5 v5 s5 rs5 ty w) = aw_rotations w"
  "aw_rotations (seed_collection aw_cohorts_update i6 v6 s6 rs6 ty w) = aw_rotations w"
  "aw_rotations (seed_collection aw_techs_update i7 v7 s7 rs7 ty w) = aw_rotations w"
  "aw_rotations (seed_collection aw_tasks_update i8 v8 s8 rs8 ty w) = aw_rotations w"
  "aw_rotations (seed_collection aw_providers_update i9 v9 s9 rs9 ty w) = aw_rotations w"
  "aw_rotations (seed_collection aw_spares_update i10 v10 s10 rs10 ty w) = aw_rotations w"
  "aw_rotations (seed_collection aw_signals_update i11 v11 s11 rs11 ty w) = aw_rotations w"
  "aw_rotations (seed_collection aw_forecasts_update i12 v12 s12 rs12 ty w) = aw_rotations w"
  by (rule seeding_keeps; simp add: emit_def Let_def)+

lemma seed_sensors:
  "ty \<noteq> ''sensor.tripped'' \<Longrightarrow> sensor_events (seed_collection aw_aircraft_update i0 v0 s0 rs0 ty w) = sensor_events w"
  "ty \<noteq> ''sensor.tripped'' \<Longrightarrow> sensor_events (seed_collection aw_sectors_update i1 v1 s1 rs1 ty w) = sensor_events w"
  "ty \<noteq> ''sensor.tripped'' \<Longrightarrow> sensor_events (seed_collection aw_rotations_update i2 v2 s2 rs2 ty w) = sensor_events w"
  "ty \<noteq> ''sensor.tripped'' \<Longrightarrow> sensor_events (seed_collection aw_crew_update i3 v3 s3 rs3 ty w) = sensor_events w"
  "ty \<noteq> ''sensor.tripped'' \<Longrightarrow> sensor_events (seed_collection aw_slots_update i4 v4 s4 rs4 ty w) = sensor_events w"
  "ty \<noteq> ''sensor.tripped'' \<Longrightarrow> sensor_events (seed_collection aw_stands_update i5 v5 s5 rs5 ty w) = sensor_events w"
  "ty \<noteq> ''sensor.tripped'' \<Longrightarrow> sensor_events (seed_collection aw_cohorts_update i6 v6 s6 rs6 ty w) = sensor_events w"
  "ty \<noteq> ''sensor.tripped'' \<Longrightarrow> sensor_events (seed_collection aw_techs_update i7 v7 s7 rs7 ty w) = sensor_events w"
  "ty \<noteq> ''sensor.tripped'' \<Longrightarrow> sensor_events (seed_collection aw_tasks_update i8 v8 s8 rs8 ty w) = sensor_events w"
  "ty \<noteq> ''sensor.tripped'' \<Longrightarrow> sensor_events (seed_collection aw_providers_update i9 v9 s9 rs9 ty w) = sensor_events w"
  "ty \<noteq> ''sensor.tripped'' \<Longrightarrow> sensor_events (seed_collection aw_spares_update i10 v10 s10 rs10 ty w) = sensor_events w"
  "ty \<noteq> ''sensor.tripped'' \<Longrightarrow> sensor_events (seed_collection aw_signals_update i11 v11 s11 rs11 ty w) = sensor_events w"
  "ty \<noteq> ''sensor.tripped'' \<Longrightarrow> sensor_events (seed_collection aw_forecasts_update i12 v12 s12 rs12 ty w) = sensor_events w"
  by (rule seeding_keeps; simp add: sensor_events_def emit_def Let_def)+

lemma seed_stories:
  "stories (seed_collection aw_aircraft_update i0 v0 s0 rs0 ty w) = stories w" "caches (seed_collection aw_aircraft_update i0 v0 s0 rs0 ty w) = caches w"
  "stories (seed_collection aw_sectors_update i1 v1 s1 rs1 ty w) = stories w" "caches (seed_collection aw_sectors_update i1 v1 s1 rs1 ty w) = caches w"
  "stories (seed_collection aw_rotations_update i2 v2 s2 rs2 ty w) = stories w" "caches (seed_collection aw_rotations_update i2 v2 s2 rs2 ty w) = caches w"
  "stories (seed_collection aw_crew_update i3 v3 s3 rs3 ty w) = stories w" "caches (seed_collection aw_crew_update i3 v3 s3 rs3 ty w) = caches w"
  "stories (seed_collection aw_slots_update i4 v4 s4 rs4 ty w) = stories w" "caches (seed_collection aw_slots_update i4 v4 s4 rs4 ty w) = caches w"
  "stories (seed_collection aw_stands_update i5 v5 s5 rs5 ty w) = stories w" "caches (seed_collection aw_stands_update i5 v5 s5 rs5 ty w) = caches w"
  "stories (seed_collection aw_cohorts_update i6 v6 s6 rs6 ty w) = stories w" "caches (seed_collection aw_cohorts_update i6 v6 s6 rs6 ty w) = caches w"
  "stories (seed_collection aw_techs_update i7 v7 s7 rs7 ty w) = stories w" "caches (seed_collection aw_techs_update i7 v7 s7 rs7 ty w) = caches w"
  "stories (seed_collection aw_tasks_update i8 v8 s8 rs8 ty w) = stories w" "caches (seed_collection aw_tasks_update i8 v8 s8 rs8 ty w) = caches w"
  "stories (seed_collection aw_providers_update i9 v9 s9 rs9 ty w) = stories w" "caches (seed_collection aw_providers_update i9 v9 s9 rs9 ty w) = caches w"
  "stories (seed_collection aw_spares_update i10 v10 s10 rs10 ty w) = stories w" "caches (seed_collection aw_spares_update i10 v10 s10 rs10 ty w) = caches w"
  "stories (seed_collection aw_signals_update i11 v11 s11 rs11 ty w) = stories w" "caches (seed_collection aw_signals_update i11 v11 s11 rs11 ty w) = caches w"
  "stories (seed_collection aw_forecasts_update i12 v12 s12 rs12 ty w) = stories w" "caches (seed_collection aw_forecasts_update i12 v12 s12 rs12 ty w) = caches w"
  by (rule seeding_keeps; simp add: stories_def caches_def emit_def Let_def)+

lemma emit_parts:
  "aw_sectors (snd (emit ty a t c tr p w)) = aw_sectors w"
  "aw_aircraft (snd (emit ty a t c tr p w)) = aw_aircraft w"
  "aw_slots (snd (emit ty a t c tr p w)) = aw_slots w"
  "aw_crew (snd (emit ty a t c tr p w)) = aw_crew w"
  "aw_rotations (snd (emit ty a t c tr p w)) = aw_rotations w"
  "ty \<noteq> ''sensor.tripped'' \<Longrightarrow> sensor_events (snd (emit ty a t c tr p w)) = sensor_events w"
  by (simp_all add: emit_def Let_def sensor_events_def)

lemma sensor_events_installed [simp]: "sensor_events (w\<lparr>aw_installed := b\<rparr>) = sensor_events w" for w :: airline
  by (simp add: sensor_events_def)

lemma cores_Nil [simp]: "cores f [] = []"
  by (simp add: cores_def)

lemma plan_nil:
  "plan w = ([], [], ([], [], [], [])) \<longleftrightarrow>
     aw_sectors w = [] \<and> aw_aircraft w = [] \<and> aw_crew w = [] \<and> aw_slots w = [] \<and> aw_rotations w = []
     \<and> sensor_events w = []"
  by (simp add: plan_defs cores_def)

lemma install_plan:
  assumes "\<not> aw_installed w" "plan w = ([], [], ([], [], [], []))"
  shows "plan (install w) = seeded_plan"
  using assms
  by (simp add: install_def Let_def seed_fields seed_sensors plan_nil plan_def sector_part_def
      aircraft_part_def rest_part_def seeded_plan_def sector_c.seeded aircraft_c.seeded crew_c.seeded
      slot_c.seeded rotation_c.seeded sector_core_def aircraft_core_def emit_parts)
section \<open>The invariant\<close>

text \<open>
  Ids are keys; only the two threatened sectors ever carry the reserve aircraft, and only the
  outbound sector the reserve crew; at most one sector that is not over flies the reserve aircraft;
  slots stay allocated; a sensor event of the hub names the inbound sector and its stand.
\<close>

definition sector_entry_ok where
  "sector_entry_ok = (\<lambda>(k, i, a, c, sl, _).
     i = k \<and> (a = reserve_tail_id \<longrightarrow> k \<in> {target_sector_id, threatened_sector_id})
     \<and> (c = reserve_crew_id \<longrightarrow> k = target_sector_id) \<and> (k = target_sector_id \<longrightarrow> sl = ''SYN-SLOT-05''))"

definition flown where
  "flown = (\<lambda>(k :: string, i :: string, a, c :: string, sl :: string, st). a = reserve_tail_id \<and> st \<notin> set over)"

definition rest_ok where
  "rest_ok = (\<lambda>(crews, slots, rots, sensors).
     (\<forall>(k, i) \<in> set crews. i = (k :: string)) \<and> (\<forall>(k :: string, st) \<in> set slots. st = ''allocated'')
     \<and> (\<forall>(k :: string, ss) \<in> set rots. inbound_sector_id \<in> set ss \<longrightarrow> last ss = target_sector_id)
     \<and> (\<forall>e \<in> set sensors. ev_actor e = Some hub_sensor \<longrightarrow>
          dict_get (ev_payload e) ''inbound_sector_id'' = VStr inbound_sector_id))"

definition sectors_ok where
  "sectors_ok secs \<longleftrightarrow> distinct (map fst secs) \<and> (\<forall>x \<in> set secs. sector_entry_ok x)
     \<and> (\<forall>x \<in> set secs. \<forall>y \<in> set secs. flown x \<and> flown y \<longrightarrow> fst x = fst y)"

definition plan_ok where
  "plan_ok = (\<lambda>(secs, acs, rest). sectors_ok secs \<and> (\<forall>(k, i, st :: string) \<in> set acs. i = (k :: string))
     \<and> rest_ok rest)"

lemma in_amend: "x \<in> set (amend k g d) \<longleftrightarrow> (fst x \<noteq> k \<and> x \<in> set d) \<or> (\<exists>v. (k, v) \<in> set d \<and> x = (k, g v))"
  by (cases x) (force simp: amend_def)

lemma sectors_ok_amend:
  assumes "sectors_ok secs"
    and "\<And>v. (k, v) \<in> set secs \<Longrightarrow> sector_entry_ok (k, v) \<Longrightarrow> sector_entry_ok (k, g v)"
    and "\<And>v y. (k, v) \<in> set secs \<Longrightarrow> flown (k, g v) \<Longrightarrow> y \<in> set secs \<Longrightarrow> flown y \<Longrightarrow> fst y = k"
  shows "sectors_ok (amend k g secs)"
  unfolding sectors_ok_def
proof (intro conjI ballI impI)
  fix x assume "x \<in> set (amend k g secs)"
  then show "sector_entry_ok x" using assms(1,2) by (auto simp: in_amend sectors_ok_def)
next
  fix x y assume "x \<in> set (amend k g secs)" "y \<in> set (amend k g secs)" "flown x \<and> flown y"
  with assms(1,3) show "fst x = fst y" unfolding in_amend sectors_ok_def by (metis fst_conv)
qed (use assms(1) in \<open>simp add: sectors_ok_def\<close>)

lemma seeded_plan_ok: "plan_ok seeded_plan"
  by (simp add: plan_ok_def seeded_plan_def build_sectors_def build_aircraft_def build_crew_duties_def
      build_slots_def build_rotations_def sector_core_def aircraft_core_def sector_entry_ok_def rest_ok_def
      flown_def over_def sectors_ok_def)

lemma nil_plan_ok: "plan_ok ([], [], ([], [], [], []))"
  by (simp add: plan_ok_def rest_ok_def sectors_ok_def)

lemma plan_ok_tail:
  assumes "sectors_ok secs" and "\<forall>x \<in> set secs. flown x \<longrightarrow> fst x = target_sector_id"
  shows "sectors_ok (amend target_sector_id (\<lambda>(i, _, _, sl, st). (i, reserve_tail_id, reserve_crew_id, sl, st)) secs)"
  by (rule sectors_ok_amend) (use assms in \<open>auto simp: sector_entry_ok_def\<close>)

lemma plan_ok_substitute:
  assumes "sectors_ok secs" and "\<forall>x \<in> set secs. \<not> flown x"
  shows "sectors_ok (amend threatened_sector_id (\<lambda>(i, _, c, sl, st). (i, reserve_tail_id, c, sl, st)) secs)"
  by (rule sectors_ok_amend) (use assms in \<open>auto simp: sector_entry_ok_def\<close>)

lemma plan_ok_cancel:
  assumes "sectors_ok secs"
  shows "sectors_ok (amend k (\<lambda>(i, a, c, sl, st). (i, a, c, sl, ''cancelled'')) secs)"
  by (rule sectors_ok_amend) (use assms in \<open>auto simp: sector_entry_ok_def flown_def over_def\<close>)

lemma plan_ok_delayed:
  assumes "sectors_ok secs" "sector_entry_ok (inbound_sector_id, v')"
  shows "sectors_ok (amend inbound_sector_id (\<lambda>_. v') secs)"
  by (rule sectors_ok_amend) (use assms in \<open>auto simp: sector_entry_ok_def flown_def\<close>)

section \<open>Activation\<close>

lemma emit_sensor:
  "sensor_events (snd (emit ''sensor.tripped'' a t c tr p w)) =
     sensor_events w @ [fst (emit ''sensor.tripped'' a t c tr p w)]"
  by (simp add: emit_def Let_def sensor_events_def)

lemma emit_sensor_event:
  "ev_actor (fst (emit ty a t c tr p w)) = a" "ev_payload (fst (emit ty a t c tr p w)) = p"
  by (simp_all add: emit_def Let_def)

definition story_writes where
  "story_writes w w' scenario ev \<longleftrightarrow> aw_installed w' = aw_installed w
     \<and> aw_events w' = dict_set scenario ev (aw_events w) \<and> caches w' = caches w"

lemma sensor_events_updates [simp]:
  fixes w :: airline
  shows "sensor_events (aw_sectors_update f1 w) = sensor_events w"
    "sensor_events (aw_stands_update f2 w) = sensor_events w"
    "sensor_events (aw_aircraft_update f3 w) = sensor_events w"
    "sensor_events (aw_techs_update f4 w) = sensor_events w"
    "sensor_events (aw_signals_update f5 w) = sensor_events w"
    "sensor_events (aw_forecasts_update f6 w) = sensor_events w"
    "sensor_events (aw_events_update f7 w) = sensor_events w"
    "sensor_events (aw_disruption_update f8 w) = sensor_events w"
    "sensor_events (aw_aog_story_update f9 w) = sensor_events w"
    "sensor_events (aw_sched_story_update f10 w) = sensor_events w"
  by (simp_all add: sensor_events_def)

lemma cores_amend_const: "cores f (amend k (\<lambda>_. v) d) = amend k (\<lambda>_. f v) (cores f d)"
  by (rule cores_amend_comm) simp

lemma cores_amend_same:
  "cores sector_core (amend k (sec_last_event_id_update x) d) = cores sector_core d"
  "cores aircraft_core (amend k (ac_last_event_id_update y) e) = cores aircraft_core e"
  by (rule cores_amend; simp add: sector_core_def aircraft_core_def)+

lemmas activation_simps = Let_def split_beta plan_def sector_part_def aircraft_part_def rest_part_def emit_parts
  cores_amend_const cores_amend_same emit_sensor emit_sensor_event stories_def caches_def airline_parts

lemma disrupt_hub_effect:
  fixes w :: airline
  assumes w': "w' = snd (disrupt_hub s std ro w)"
  shows "sector_part w' = amend inbound_sector_id
           (\<lambda>_. (sec_id s, sec_aircraft_id s, sec_crew_duty_id s, sec_slot_id s, ''delayed'')) (sector_part w)"
    "aircraft_part w' = aircraft_part w"
    "\<exists>e. rest_part w' = (cores cr_id (aw_crew w), cores slt_status (aw_slots w),
         cores ro_sector_ids (aw_rotations w), sensor_events w @ [e])
       \<and> dict_get (ev_payload e) ''inbound_sector_id'' = VStr (sec_id s)"
    "\<exists>ev. stories w' = stories (w\<lparr>aw_events := dict_set hub_scenario ev (aw_events w),
         aw_disruption := dict_set hub_story ''active'' (aw_disruption w)\<rparr>)" "caches w' = caches w"
  by (auto simp: w' disrupt_hub_def activation_simps sector_core_def simp del: append.simps)

lemma ground_aircraft_effect:
  fixes w :: airline
  assumes w': "w' = snd (ground_aircraft a te ta ro s w)"
  shows "sector_part w' = sector_part w"
    "aircraft_part w' = amend affected_tail_id (\<lambda>_. (ac_id a, ''grounded'')) (aircraft_part w)"
    "\<exists>e. rest_part w' = (cores cr_id (aw_crew w), cores slt_status (aw_slots w),
         cores ro_sector_ids (aw_rotations w), sensor_events w @ [e]) \<and> ev_actor e = Some aog_sensor"
    "\<exists>ev. stories w' = stories (w\<lparr>aw_events := dict_set aog_scenario ev (aw_events w),
         aw_aog_story := dict_set aog_story ''active'' (aw_aog_story w)\<rparr>)" "caches w' = caches w"
  by (auto simp: w' ground_aircraft_def activation_simps aircraft_core_def simp del: append.simps)

lemma restrict_schedule_effect:
  fixes w :: airline
  assumes w': "w' = snd (restrict_schedule g w)"
  shows "sector_part w' = sector_part w" "aircraft_part w' = aircraft_part w"
    "\<exists>e. rest_part w' = (cores cr_id (aw_crew w), cores slt_status (aw_slots w),
         cores ro_sector_ids (aw_rotations w), sensor_events w @ [e]) \<and> ev_actor e = Some sched_sensor"
    "\<exists>ev. stories w' = stories (w\<lparr>aw_events := dict_set sched_scenario ev (aw_events w),
         aw_sched_story := dict_set sched_story ''active'' (aw_sched_story w)\<rparr>)" "caches w' = caches w"
  by (auto simp: w' restrict_schedule_def activation_simps aircraft_core_def simp del: append.simps)

lemma apfst_snd: "apfst f p = (r, w') \<Longrightarrow> w' = snd p"
  by (metis snd_apfst snd_conv)

lemma activate_once_cases:
  assumes "activate_once scenario body w = (r, w')"
  obtains (same) "w' = w"
  | (acted) "aw_installed w" "map_of (aw_events w) scenario = None" "body w = (r, w')"
  using assms by (auto simp: activate_once_def split: if_splits option.splits)

lemma reads_cases:
  assumes "reads r f s = (x, s')"
  obtains (same) "s' = s" | (acted) a where "r = Inr a" "f a = (x, s')"
  using assms by (cases r) auto

lemma activate_hub_cases:
  assumes "activate_hub w = (r, w')"
  obtains (same) "w' = w"
  | (acted) s std ro where "aw_installed w" "map_of (aw_events w) hub_scenario = None"
      "map_of (aw_sectors w) inbound_sector_id = Some s" "w' = snd (disrupt_hub s std ro w)"
  using assms unfolding activate_hub_def
  by (elim activate_once_cases reads_cases; clarsimp simp: bind_result_Inr_iff; metis apfst_snd)

lemma activate_aog_cases:
  assumes "activate_aog w = (r, w')"
  obtains (same) "w' = w"
  | (acted) a te ta ro s where "aw_installed w" "map_of (aw_events w) aog_scenario = None"
      "map_of (aw_aircraft w) affected_tail_id = Some a" "w' = snd (ground_aircraft a te ta ro s w)"
  using assms unfolding activate_aog_def
  by (elim activate_once_cases reads_cases; clarsimp simp: bind_result_Inr_iff; metis apfst_snd)

lemma activate_schedule_cases:
  assumes "activate_schedule w = (r, w')"
  obtains (same) "w' = w"
  | (acted) g where "aw_installed w" "map_of (aw_events w) sched_scenario = None"
      "w' = snd (restrict_schedule g w)"
  using assms unfolding activate_schedule_def
  by (elim activate_once_cases reads_cases; clarsimp simp: bind_result_Inr_iff; metis apfst_snd)

section \<open>What an observation of the hub shows\<close>

lemma sector_partD: "map_of (aw_sectors w) k = Some s \<Longrightarrow> (k, sector_core s) \<in> set (sector_part w)"
  by (force simp: sector_part_def cores_def dest: map_of_SomeD)

lemma plan_ok_sector:
  assumes "plan_ok (plan w)" "map_of (aw_sectors w) k = Some s"
  shows "sec_id s = k" "k = target_sector_id \<Longrightarrow> sec_slot_id s = ''SYN-SLOT-05''"
  using assms sector_partD[OF assms(2)]
  by (auto simp: plan_ok_def plan_def sectors_ok_def sector_entry_ok_def sector_core_def dest!: bspec)

lemma plan_ok_aircraft:
  assumes "plan_ok (plan w)" "map_of (aw_aircraft w) k = Some a"
  shows "ac_id a = k"
proof -
  have "(k, aircraft_core a) \<in> set (aircraft_part w)"
    using assms(2) by (force simp: aircraft_part_def cores_def dest: map_of_SomeD)
  with assms(1) show ?thesis by (auto simp: plan_ok_def plan_def aircraft_core_def dest!: bspec)
qed

lemma plan_ok_rest:
  assumes "plan_ok (plan w)"
  shows "map_of (aw_crew w) k = Some cr \<Longrightarrow> cr_id cr = k"
    "map_of (aw_slots w) k = Some sl \<Longrightarrow> slt_status sl = ''allocated''"
    "map_of (aw_rotations w) k = Some ro \<Longrightarrow> inbound_sector_id \<in> set (ro_sector_ids ro) \<Longrightarrow>
       last (ro_sector_ids ro) = target_sector_id"
    "e \<in> set (sensor_events w) \<Longrightarrow> ev_actor e = Some hub_sensor \<Longrightarrow>
       dict_get (ev_payload e) ''inbound_sector_id'' = VStr inbound_sector_id"
  using assms
  by (fastforce simp: plan_ok_def plan_def rest_part_def rest_ok_def cores_def dest: map_of_SomeD)+

lemma rotation_withD:
  assumes "plan_ok (plan w)" "rotation_with i w = Inr (k, ro)"
  shows "i \<in> set (ro_sector_ids ro)" "i = inbound_sector_id \<Longrightarrow> last (ro_sector_ids ro) = target_sector_id"
proof -
  have ro: "(k, ro) \<in> set (aw_rotations w)" "i \<in> set (ro_sector_ids ro)"
    using assms(2) by (auto simp: rotation_with_def dest!: first_match_SomeD)
  then show "i \<in> set (ro_sector_ids ro)" by simp
  show "last (ro_sector_ids ro) = target_sector_id" if "i = inbound_sector_id"
    using assms(1) ro that by (fastforce simp: plan_ok_def plan_def rest_part_def rest_ok_def cores_def)
qed

lemma last_sensorD:
  assumes "last_sensor sensor story w = Some e"
  shows "e \<in> set (sensor_events w)" "ev_actor e = Some sensor" "ev_type e = ''sensor.tripped''"
  using assms by (auto simp: last_sensor_def sensor_events_def dest!: first_match_SomeD)

lemma event_dict_gets:
  "dict_get (event_to_dict e) ''type'' = VStr (ev_type e)"
  "dict_get (event_to_dict e) ''actor_id'' = opt_str (ev_actor e)"
  "dict_get (event_to_dict e) ''payload'' = VDict (ev_payload e)"
  by (simp_all add: event_to_dict_def)

lemma hub_observation_reads:
  assumes "hub_observation sensor now w = Inr obs" "dict_get sensor ''payload'' = VDict p"
    and "dict_get p ''inbound_sector_id'' = VStr i"
  obtains s k ro out ac cr slot where
    "map_of (aw_sectors w) i = Some s" "rotation_with (sec_id s) w = Inr (k, ro)"
    "map_of (aw_sectors w) (last (ro_sector_ids ro)) = Some out"
    "map_of (aw_aircraft w) reserve_tail_id = Some ac" "map_of (aw_crew w) reserve_crew_id = Some cr"
    "map_of (aw_slots w) (sec_slot_id out) = Some slot"
    "record_of obs ''outbound_sector'' = sector_view out" "record_of obs ''candidate_aircraft'' = aircraft_view ac"
    "record_of obs ''candidate_crew_duty'' = crew_duty_view cr"
    "record_of obs ''outbound_slot'' = airport_slot_view slot"
    "dict_get obs ''sectors'' = views sector_view (by_id sec_id (aw_sectors w))"
    "dict_get obs ''maximum_value_gbp'' = VFloat (Fin 150000)"
    "dict_get obs ''trace_id'' = dict_get sensor ''trace_id''"
proof -
  have p: "get_attr (py_or (dict_get sensor ''payload'') (VDict [])) = Inr p"
    using assms(2) by (cases p) (simp_all add: py_or_def get_attr_def)
  have i: "item_str p ''inbound_sector_id'' = Inr i"
    using assms(3) by (auto simp: item_str_def dict_get_def split: option.splits)
  show thesis
    using assms(1)
    by (auto simp: hub_observation_def p i bind_result_Inr_iff record_of_def split: if_splits intro!: that)
qed

lemma hub_observed:
  assumes ok: "plan_ok (plan w)" and obs: "current_recovery_observation w = Inr obs"
  obtains out ac cr slot where
    "map_of (aw_sectors w) target_sector_id = Some out" "record_of obs ''outbound_sector'' = sector_view out"
    "map_of (aw_aircraft w) reserve_tail_id = Some ac" "record_of obs ''candidate_aircraft'' = aircraft_view ac"
    "map_of (aw_crew w) reserve_crew_id = Some cr" "record_of obs ''candidate_crew_duty'' = crew_duty_view cr"
    "map_of (aw_slots w) ''SYN-SLOT-05'' = Some slot" "record_of obs ''outbound_slot'' = airport_slot_view slot"
    "dict_get obs ''sectors'' = views sector_view (by_id sec_id (aw_sectors w))"
proof -
  obtain e where e: "last_sensor hub_sensor hub_story w = Some e"
    and h: "build_observation (event_to_dict e) None w = Inr obs"
    using obs by (auto simp: current_recovery_observation_def unavailable_def split: if_splits option.splits)
  note e' = last_sensorD[OF e]
  have h': "hub_observation (event_to_dict e) None w = Inr obs"
    using h e' by (simp add: build_observation_def event_dict_gets)
  show thesis
  proof (rule hub_observation_reads[OF h' event_dict_gets(3) plan_ok_rest(4)[OF ok e'(1,2)]])
    fix s k ro out ac cr slot
    assume s: "map_of (aw_sectors w) inbound_sector_id = Some s" "rotation_with (sec_id s) w = Inr (k, ro)"
      and out: "map_of (aw_sectors w) (last (ro_sector_ids ro)) = Some out"
      and slot: "map_of (aw_slots w) (sec_slot_id out) = Some slot"
      and rest: "map_of (aw_aircraft w) reserve_tail_id = Some ac" "map_of (aw_crew w) reserve_crew_id = Some cr"
        "record_of obs ''outbound_sector'' = sector_view out" "record_of obs ''candidate_aircraft'' = aircraft_view ac"
        "record_of obs ''candidate_crew_duty'' = crew_duty_view cr"
        "record_of obs ''outbound_slot'' = airport_slot_view slot"
        "dict_get obs ''sectors'' = views sector_view (by_id sec_id (aw_sectors w))"
    have "last (ro_sector_ids ro) = target_sector_id"
      using rotation_withD(2)[OF ok s(2)] plan_ok_sector(1)[OF ok s(1)] by simp
    with out have out': "map_of (aw_sectors w) target_sector_id = Some out" by simp
    with slot have "map_of (aw_slots w) ''SYN-SLOT-05'' = Some slot"
      using plan_ok_sector(2)[OF ok out'] by simp
    with out' rest show thesis by (intro that)
  qed
qed

lemma feasible_verdict: "verdict opt rs = Inr r \<Longrightarrow> fe_feasible r \<Longrightarrow> rs = Inr [] \<and> fe_option r = opt"
  by (auto simp: verdict_def bind_result_Inr_iff)

lemma set_by_id [simp]: "set (by_id f d) = snd ` set d"
  by (simp add: by_id_def)

lemma sector_view_gets:
  "dict_get (sector_view s) ''id'' = VStr (sec_id s)"
  "dict_get (sector_view s) ''aircraft_id'' = VStr (sec_aircraft_id s)"
  "dict_get (sector_view s) ''crew_duty_id'' = VStr (sec_crew_duty_id s)"
  "dict_get (sector_view s) ''status'' = VStr (sec_status s)"
  by (simp_all add: sector_view_def)

lemma still_flown_view: "still_flown (sector_view s) = Inr (sec_status s \<notin> set over)"
  by (simp add: still_flown_def sector_view_gets in_strs_def)

lemma sector_part_flown:
  "x \<in> set (sector_part w) \<Longrightarrow> flown x \<Longrightarrow>
     \<exists>s. (fst x, s) \<in> set (aw_sectors w) \<and> sec_aircraft_id s = reserve_tail_id \<and> sec_status s \<notin> set over"
  by (auto simp: sector_part_def cores_def flown_def sector_core_def)

lemma tail_admitted:
  assumes ok: "plan_ok (plan w)" and obs: "current_recovery_observation w = Inr obs"
    and r: "collect (tail_reasons obs v) = Inr []"
  shows "\<forall>x \<in> set (sector_part w). flown x \<longrightarrow> fst x = target_sector_id"
    "\<exists>cr. map_of (aw_crew w) reserve_crew_id = Some cr \<and> cr_sector_ids cr = []"
proof -
  obtain out ac cr slot where o: "map_of (aw_sectors w) target_sector_id = Some out"
      "record_of obs ''outbound_sector'' = sector_view out"
    and a: "map_of (aw_aircraft w) reserve_tail_id = Some ac" "record_of obs ''candidate_aircraft'' = aircraft_view ac"
    and c: "map_of (aw_crew w) reserve_crew_id = Some cr" "record_of obs ''candidate_crew_duty'' = crew_duty_view cr"
    and ss: "dict_get obs ''sectors'' = views sector_view (by_id sec_id (aw_sectors w))"
    using hub_observed[OF ok obs] by metis
  have none: "(m, q) \<in> set (tail_reasons obs v) \<Longrightarrow> q = Inr False" for m q
    using r by (auto simp: collect_none)
  have "any_of (overlaps (sector_view out) (aircraft_view ac))
      (map (\<lambda>r. VDict (sector_view r)) (by_id sec_id (aw_sectors w))) = Inr False"
    by (rule none[of "''aircraft overlap''"]) (simp add: tail_reasons_def Let_def o a ss views_def)
  then have free: "sec_id s = sec_id out \<or> sec_aircraft_id s \<noteq> ac_id ac \<or> sec_status s \<in> set over"
    if "(k, s) \<in> set (aw_sectors w)" for k s
    using that by (fastforce simp: any_of_False overlaps_def sector_view_gets still_flown_view aircraft_view_def
        split: if_splits)
  show "\<forall>x \<in> set (sector_part w). flown x \<longrightarrow> fst x = target_sector_id"
  proof (intro ballI impI)
    fix x assume x: "x \<in> set (sector_part w)" "flown x"
    obtain s where s: "(fst x, s) \<in> set (aw_sectors w)" "sec_aircraft_id s = reserve_tail_id"
      "sec_status s \<notin> set over" using sector_part_flown[OF x] by blast
    have "sec_id s = fst x"
    proof -
      have "(fst x, sector_core s) \<in> set (sector_part w)" using s(1) by (force simp: sector_part_def cores_def)
      with ok show ?thesis
        by (auto simp: plan_ok_def plan_def sectors_ok_def sector_entry_ok_def sector_core_def dest!: bspec)
    qed
    with free[OF s(1)] s(2,3) plan_ok_aircraft[OF ok a(1)] plan_ok_sector(1)[OF ok o(1)]
    show "fst x = target_sector_id" by simp
  qed
  have "dict_get (record_of obs ''candidate_crew_duty'') ''sector_ids'' = VList []"
    using none[of "''crew overlap''"] by (force simp: tail_reasons_def Let_def)
  then show "\<exists>cr. map_of (aw_crew w) reserve_crew_id = Some cr \<and> cr_sector_ids cr = []"
    using c by (auto simp: crew_duty_view_def str_list_def)
qed

lemma tail_feasible:
  "tail_feasibility obs opt = Inr r \<Longrightarrow> fe_feasible r \<Longrightarrow>
   fe_option r = opt \<and> collect (tail_reasons obs (po_value opt)) = Inr []"
  by (auto simp: tail_feasibility_def dest: feasible_verdict)

lemma cancel_feasible:
  "cancel_feasibility obs opt = Inr r \<Longrightarrow> fe_feasible r \<Longrightarrow> fe_option r = opt"
  by (auto simp: cancel_feasibility_def Let_def simp del: collect.simps dest: feasible_verdict)

lemma retime_feasible:
  "retime_feasibility obs opt = Inr r \<Longrightarrow> fe_feasible r \<Longrightarrow> fe_option r = opt \<and>
     \<not> slot_window_missed (map_option (\<lambda>t. t + 390)
         (number (dict_get (record_of obs ''outbound_sector'') ''scheduled_departure'')))
         (record_of obs ''outbound_slot'')"
  unfolding retime_feasibility_def Let_def by (drule feasible_verdict, assumption) (simp add: collect_none del: collect.simps)

lemma option_parts:
  "po_id (tail_option obs) = tail_option_id" "po_value (tail_option obs) = 75000"
  "po_id (cancel_option obs) = cancel_option_id" "po_value (cancel_option obs) = 145000"
  "po_id (retime_option obs) = retime_option_id" "po_value (retime_option obs) = 20000"
  "po_id (work_local_option obs) = work_local_id" "po_value (work_local_option obs) = 85000"
  "po_id (work_repo_option obs) = work_repo_id" "po_value (work_repo_option obs) = 95000"
  "po_id (substitute_option obs) = substitute_id" "po_value (substitute_option obs) = 120000"
  "po_id (unapproved_option obs) = unapproved_id" "po_value (unapproved_option obs) = 40000"
  "po_id (buffer_retime_option obs) = buffer_retime_id" "po_value (buffer_retime_option obs) = 45000"
  "po_id (preposition_option obs) = preposition_id" "po_value (preposition_option obs) = 75000"
  "po_id (cancel_limited_option obs) = cancel_limited_id" "po_value (cancel_limited_option obs) = 110000"
  "po_id (monitor_risk_option obs) = monitor_risk_id" "po_value (monitor_risk_option obs) = 0"
  "po_id (infeasible_option obs) = infeasible_id" "po_value (infeasible_option obs) = 35000"
  by (simp_all add: tail_option_def cancel_option_def retime_option_def work_local_option_def
      work_repo_option_def substitute_option_def unapproved_option_def buffer_retime_option_def
      preposition_option_def cancel_limited_option_def monitor_risk_option_def infeasible_option_def)

lemmas option_ids = tail_option_id_def cancel_option_id_def retime_option_id_def work_local_id_def
  work_repo_id_def substitute_id_def unapproved_id_def buffer_retime_id_def preposition_id_def
  cancel_limited_id_def monitor_risk_id_def infeasible_id_def

lemma option_ids_distinct [simp]:
  "tail_option_id \<noteq> cancel_option_id" "cancel_option_id \<noteq> tail_option_id"
  "tail_option_id \<noteq> retime_option_id" "retime_option_id \<noteq> tail_option_id"
  "cancel_option_id \<noteq> retime_option_id" "retime_option_id \<noteq> cancel_option_id"
  "work_local_id \<noteq> work_repo_id" "work_repo_id \<noteq> work_local_id"
  "substitute_id \<noteq> work_local_id" "work_local_id \<noteq> substitute_id"
  "substitute_id \<noteq> work_repo_id" "work_repo_id \<noteq> substitute_id"
  by (simp_all add: option_ids)

lemma hub_admitted:
  assumes "hub_options w = Inr (obs, rs)" "result_for i rs = Some r" "fe_feasible r"
  shows "current_recovery_observation w = Inr obs"
    "fe_option r = tail_option obs \<and> collect (tail_reasons obs 75000) = Inr [] \<or> fe_option r = cancel_option obs
     \<or> fe_option r = retime_option obs \<and>
       \<not> slot_window_missed (map_option (\<lambda>t. t + 390)
         (number (dict_get (record_of obs ''outbound_sector'') ''scheduled_departure'')))
         (record_of obs ''outbound_slot'')"
proof -
  show obs: "current_recovery_observation w = Inr obs"
    using assms(1) by (auto simp: hub_options_def bind_result_Inr_iff)
  have "admit_recovery_options obs = Inr rs" "r \<in> set rs"
    using assms by (auto simp: hub_options_def bind_result_Inr_iff result_for_def dest!: first_match_SomeD)
  then have "Inr r \<in> set [tail_feasibility obs (tail_option obs), cancel_feasibility obs (cancel_option obs),
      retime_feasibility obs (retime_option obs)]"
    unfolding admit_recovery_options_def all_ok_Inr_iff by (metis image_eqI set_map)
  then consider "tail_feasibility obs (tail_option obs) = Inr r" | "cancel_feasibility obs (cancel_option obs) = Inr r"
    | "retime_feasibility obs (retime_option obs) = Inr r" by auto
  then show "fe_option r = tail_option obs \<and> collect (tail_reasons obs 75000) = Inr [] \<or>
     fe_option r = cancel_option obs
     \<or> fe_option r = retime_option obs \<and>
       \<not> slot_window_missed (map_option (\<lambda>t. t + 390)
         (number (dict_get (record_of obs ''outbound_sector'') ''scheduled_departure'')))
         (record_of obs ''outbound_slot'')"
  proof cases
    case 1
    from tail_feasible[OF this assms(3)] show ?thesis by (simp add: option_parts)
  next
    case 2
    from cancel_feasible[OF this assms(3)] show ?thesis by simp
  next
    case 3
    from retime_feasible[OF this assms(3)] show ?thesis by simp
  qed
qed

lemma aog_observed:
  assumes "current_aog_observation w = Inr obs"
  obtains tech where "map_of (aw_techs w) aog_tech_id = Some tech"
    "record_of obs ''technical_status'' = tech_status_view tech"
    "dict_get obs ''sectors'' = views sector_view (by_id sec_id (aw_sectors w))"
  using assms
  by (auto simp: current_aog_observation_def unavailable_def bind_result_Inr_iff Let_def record_of_def
      split: if_splits option.splits intro!: that)

lemma dicts_in_views: "dicts_in (map (\<lambda>r. VDict (v r)) rs) = map v rs"
  by (induction rs) (simp_all add: dicts_in_def List.map_filter_simps)

lemma substitute_feasible:
  assumes "substitute_feasibility obs opt = Inr r" "fe_feasible r"
  shows "fe_option r = opt"
    "any_of (\<lambda>s. if dict_get s ''aircraft_id'' = VStr reserve_tail_id then still_flown s else Inr False)
       (listed obs ''sectors'') = Inr False"
  using feasible_verdict[OF assms[unfolded substitute_feasibility_def Let_def]]
  by (simp_all add: collect_none del: collect.simps)

lemma work_feasible:
  assumes "work_feasibility obs opt i = Inr r" "fe_feasible r"
  shows "fe_option r = opt" "dict_get (record_of obs ''technical_status'') ''aircraft_id'' = VStr affected_tail_id"
  using feasible_verdict[OF assms[unfolded work_feasibility_def Let_def]]
  by (auto simp: bind_result_Inr_iff collect_none simp del: collect.simps)

lemma aog_admitted:
  assumes "aog_options w = Inr (obs, rs)" "result_for i rs = Some r" "fe_feasible r"
  shows "fe_option r = substitute_option obs \<and> (\<forall>x \<in> set (sector_part w). \<not> flown x) \<or>
    (fe_option r = work_local_option obs \<or> fe_option r = work_repo_option obs) \<and>
      (\<exists>tech. map_of (aw_techs w) aog_tech_id = Some tech \<and> te_aircraft_id tech = affected_tail_id)"
proof -
  have obs: "current_aog_observation w = Inr obs"
    using assms(1) by (auto simp: aog_options_def bind_result_Inr_iff)
  obtain tech where t: "map_of (aw_techs w) aog_tech_id = Some tech"
      "record_of obs ''technical_status'' = tech_status_view tech"
    and ss: "dict_get obs ''sectors'' = views sector_view (by_id sec_id (aw_sectors w))"
    using aog_observed[OF obs] by metis
  have "admit_aog_options obs = Inr rs" "r \<in> set rs"
    using assms by (auto simp: aog_options_def bind_result_Inr_iff result_for_def dest!: first_match_SomeD)
  then have "Inr r \<in> set [work_feasibility obs (work_local_option obs) spare_local_id,
      work_feasibility obs (work_repo_option obs) spare_repo_id,
      substitute_feasibility obs (substitute_option obs), unapproved_feasibility obs (unapproved_option obs)]"
    unfolding admit_aog_options_def all_ok_Inr_iff by (metis image_eqI set_map)
  then consider "work_feasibility obs (work_local_option obs) spare_local_id = Inr r"
    | "work_feasibility obs (work_repo_option obs) spare_repo_id = Inr r"
    | "substitute_feasibility obs (substitute_option obs) = Inr r"
    | "unapproved_feasibility obs (unapproved_option obs) = Inr r" by auto
  then show ?thesis
  proof cases
    case 1
    from work_feasible[OF this assms(3)] t show ?thesis by (simp add: tech_status_view_def)
  next
    case 2
    from work_feasible[OF this assms(3)] t show ?thesis by (simp add: tech_status_view_def)
  next
    case 3
    note sub = substitute_feasible[OF this assms(3)]
    have "\<not> flown x" if "x \<in> set (sector_part w)" for x
      using sub(2) sector_part_flown[OF that]
      by (fastforce simp: any_of_False listed_def ss views_def dicts_in_views sector_view_gets still_flown_view
          split: if_splits)
    with sub(1) show ?thesis by simp
  next
    case 4
    with assms(3) show ?thesis by (auto simp: unapproved_feasibility_def bind_result_Inr_iff)
  qed
qed

section \<open>Validated commands\<close>

lemma chosen_Inr: "chosen rs i u m = Inr opt \<longleftrightarrow> (\<exists>r. result_for i rs = Some r \<and> fe_feasible r \<and> opt = fe_option r)"
  by (auto simp: chosen_def split: option.splits)

lemma choice_Inr:
  "(case chosen rs i u m of Inl x \<Rightarrow> Inl x
    | Inr opt \<Rightarrow> (case first_fault (F opt) of Some x \<Rightarrow> Inl x | None \<Rightarrow> Inr (opt, obs))) = Inr (o', obs') \<longleftrightarrow>
   obs' = obs \<and> (\<exists>r. result_for i rs = Some r \<and> fe_feasible r \<and> o' = fe_option r \<and> first_fault (F o') = None)"
  by (auto simp: chosen_def split: option.splits)

lemma validated_hub_Inr:
  assumes "validated_hub fr w c = Inr (Inr (opt, obs))"
  obtains rs r i where "hub_options w = Inr (obs, rs)" "result_for i rs = Some r" "fe_feasible r"
    "opt = fe_option r" "map_of (aw_disruption w) hub_story = Some ''active''"
    "first_fault (hub_faults fr c obs opt) = None" "cmd_type c = hub_command_type"
  using assms
  by (auto simp: validated_hub_def Let_def bind_result_Inr_iff choice_Inr
      simp del: append.simps split: if_splits intro: that)

lemma validated_aog_Inr:
  assumes "validated_aog fr w c = Inr (Inr (opt, obs))"
  obtains rs r i where "aog_options w = Inr (obs, rs)" "result_for i rs = Some r" "fe_feasible r"
    "opt = fe_option r" "map_of (aw_aog_story w) aog_story = Some ''active''"
    "first_fault (aog_faults fr c obs opt) = None" "cmd_type c = aog_command_type"
  using assms
  by (auto simp: validated_aog_def Let_def bind_result_Inr_iff choice_Inr
      simp del: append.simps split: if_splits intro: that)

lemma validated_sched_Inr:
  assumes "validated_sched fr w c = Inr (Inr (opt, obs))"
  obtains rs r i where "sched_options fr w = Inr (obs, rs)" "result_for i rs = Some r" "fe_feasible r"
    "opt = fe_option r" "map_of (aw_sched_story w) sched_story = Some ''active''"
    "first_fault (sched_faults fr c obs opt) = None" "cmd_type c = sched_command_type"
  using assms
  by (auto simp: validated_sched_def Let_def bind_result_Inr_iff choice_Inr
      simp del: append.simps split: if_splits intro: that)

end
