(* ===== verification/Airline_Invariants.thy ===== *)
theory Airline_Invariants imports Airline_Admission begin

text \<open>
  The worlds that the operations of the airline reach, and what holds in all of them: who flies the
  reserve aircraft, how far each story has come, and how the committed recoveries were evaluated.
\<close>

section \<open>The invariant\<close>

text \<open>A story without a source event has not begun; before it is resolved nothing is committed for it;
  it is committed once.\<close>

definition story_ok :: "string option \<Rightarrow> 'e option \<Rightarrow> 'c list \<Rightarrow> bool" where
  "story_ok st ev cs \<longleftrightarrow> (ev = None \<longrightarrow> st = None) \<and> (st = None \<or> st = Some ''active'' \<longrightarrow> cs = []) \<and> length cs \<le> 1"

definition stories_ok where
  "stories_ok w \<longleftrightarrow>
     story_ok (map_of (aw_disruption w) hub_story) (map_of (aw_events w) hub_scenario) (aw_recoveries w)
   \<and> story_ok (map_of (aw_aog_story w) aog_story) (map_of (aw_events w) aog_scenario) (aw_aog_commands w)
   \<and> story_ok (map_of (aw_sched_story w) sched_story) (map_of (aw_events w) sched_scenario) (aw_adjustments w)"

definition fresh_ok where
  "fresh_ok w \<longleftrightarrow> aw_installed w \<or> plan w = ([], [], ([], [], [], [])) \<and> aw_events w = []"

text \<open>The outbound sector is on until the hub is resolved; a grounded aircraft stays on the ground.\<close>

definition open_ok where
  "open_ok w \<longleftrightarrow>
     (map_of (aw_disruption w) hub_story = Some ''resolved''
      \<or> (\<forall>(k, _, _, _, _, st) \<in> set (sector_part w). k = target_sector_id \<longrightarrow> st \<notin> set over))
   \<and> (map_of (aw_events w) aog_scenario = None
      \<or> (\<forall>(k, _, st) \<in> set (aircraft_part w). k = affected_tail_id \<longrightarrow> st = ''grounded''))"

definition evaluations_ok where
  "evaluations_ok w \<longleftrightarrow> (\<forall>(_, e) \<in> set (aw_recovery_evaluations w). re_status e = ''pass'')
     \<and> (\<forall>(_, e) \<in> set (aw_aog_evaluations w). ae_status e = ''pass'')"

definition airline_ok where
  "airline_ok w \<longleftrightarrow> plan_ok (plan w) \<and> stories_ok w \<and> fresh_ok w \<and> open_ok w \<and> evaluations_ok w"

lemmas airline_ok_defs = airline_ok_def stories_ok_def fresh_ok_def open_ok_def evaluations_ok_def

lemma stories_eq:
  "stories w' = stories w \<longleftrightarrow> aw_installed w' = aw_installed w \<and> aw_events w' = aw_events w
     \<and> aw_disruption w' = aw_disruption w \<and> aw_recoveries w' = aw_recoveries w
     \<and> aw_recovery_evaluations w' = aw_recovery_evaluations w \<and> aw_aog_story w' = aw_aog_story w
     \<and> aw_aog_commands w' = aw_aog_commands w \<and> aw_aog_evaluations w' = aw_aog_evaluations w
     \<and> aw_sched_story w' = aw_sched_story w \<and> aw_adjustments w' = aw_adjustments w
     \<and> aw_schedule_evaluations w' = aw_schedule_evaluations w"
  by (auto simp: stories_def)

lemma plan_eqD:
  "plan w' = plan w \<Longrightarrow> sector_part w' = sector_part w \<and> aircraft_part w' = aircraft_part w \<and> rest_part w' = rest_part w"
  by (simp add: plan_def)

lemma airline_ok_cong:
  assumes "plan w' = plan w" "stories w' = stories w" "airline_ok w"
  shows "airline_ok w'"
  using assms plan_eqD[OF assms(1)] by (simp add: airline_ok_defs stories_eq)

lemma airline_ok_new: "airline_ok (new_airline seed)"
  by (simp add: airline_ok_defs story_ok_def new_airline_def new_runtime_def runtime.defs airline.defs plan_defs
      nil_plan_ok cores_def)

lemma installed_updates:
  fixes w :: airline
  shows "stories (w\<lparr>aw_installed := b\<rparr>) = (b, snd (stories w))" "caches (w\<lparr>aw_installed := b\<rparr>) = caches w"
  by (simp_all add: stories_def caches_def)

lemma install_stories:
  "\<not> aw_installed w \<Longrightarrow> stories (install w) = (True, snd (stories w))" "caches (install w) = caches w"
  by (simp_all add: install_def Let_def installed_updates seed_stories airline_frame)

lemma seeded_open:
  "\<forall>(k, _, _, _, _, st) \<in> set (fst seeded_plan). k = target_sector_id \<longrightarrow> st \<notin> set over"
  by (simp add: seeded_plan_def build_sectors_def sector_core_def over_def)

lemma install_ok:
  assumes "airline_ok w"
  shows "airline_ok (install w)"
proof (cases "aw_installed w")
  case True
  with assms show ?thesis by (simp add: install_def)
next
  case False
  then have p: "plan (install w) = seeded_plan"
    using assms by (intro install_plan) (auto simp: airline_ok_defs)
  have ev: "aw_events w = []" using assms False by (auto simp: airline_ok_defs)
  have s: "stories (install w) = stories (w\<lparr>aw_installed := True\<rparr>)"
    using install_stories(1)[OF False] by (simp add: stories_def)
  have "sector_part (install w) = fst seeded_plan" using p by (simp add: plan_def seeded_plan_def)
  with s ev seeded_open have "open_ok (install w)" by (simp add: open_ok_def stories_eq)
  with assms p ev s seeded_plan_ok show ?thesis
    by (simp add: airline_ok_def stories_ok_def fresh_ok_def evaluations_ok_def stories_eq)
qed

lemma rest_ok_sensor:
  assumes "rest_ok (crews, slots, rots, sensors)"
    and "ev_actor e \<noteq> Some hub_sensor \<or> dict_get (ev_payload e) ''inbound_sector_id'' = VStr inbound_sector_id"
  shows "rest_ok (crews, slots, rots, sensors @ [e])"
  using assms by (auto simp: rest_ok_def)

lemma activate_hub_ok:
  assumes ok: "airline_ok w" and act: "activate_hub w = (r, w')"
  shows "airline_ok w'"
  using act
proof (cases rule: activate_hub_cases)
  case (acted s std ro)
  note eff = disrupt_hub_effect[OF acted(4)]
  have s: "sec_id s = inbound_sector_id" "plan_ok (plan w)"
    using plan_ok_sector(1)[of w] acted(3) ok by (auto simp: airline_ok_def)
  obtain e where rest: "rest_part w' = (cores cr_id (aw_crew w), cores slt_status (aw_slots w),
      cores ro_sector_ids (aw_rotations w), sensor_events w @ [e])"
    "dict_get (ev_payload e) ''inbound_sector_id'' = VStr inbound_sector_id" using eff(3) s by auto
  obtain ev where st: "stories w' = stories (w\<lparr>aw_events := dict_set hub_scenario ev (aw_events w),
      aw_disruption := dict_set hub_story ''active'' (aw_disruption w)\<rparr>)" using eff(4) by auto
  have entry: "sector_entry_ok (inbound_sector_id, sector_core s)"
    using s(2) sector_partD[OF acted(3)] by (auto simp: plan_ok_def plan_def sectors_ok_def)
  have "plan_ok (plan w')"
    using s(2) entry rest(2) unfolding plan_def eff(1,2) rest(1)
    by (auto simp: plan_ok_def rest_part_def s(1) sector_core_def sector_entry_ok_def
        intro!: plan_ok_delayed rest_ok_sensor)
  moreover have "stories_ok w'" "evaluations_ok w'" "fresh_ok w'"
    using ok st acted(1,2) by (auto simp: airline_ok_defs stories_eq story_ok_def)
  moreover have "open_ok w'"
  proof -
    have "map_of (aw_disruption w) hub_story = None" "open_ok w"
      using ok acted(2) by (simp_all add: airline_ok_def stories_ok_def story_ok_def)
    with st eff(1,2) show ?thesis by (auto simp: open_ok_def stories_eq in_amend)
  qed
  ultimately show ?thesis by (simp add: airline_ok_def)
qed (use ok in simp)

lemma activate_aog_ok:
  assumes ok: "airline_ok w" and act: "activate_aog w = (r, w')"
  shows "airline_ok w'"
  using act
proof (cases rule: activate_aog_cases)
  case (acted a te ta ro s)
  note eff = ground_aircraft_effect[OF acted(4)]
  have a: "ac_id a = affected_tail_id" "plan_ok (plan w)"
    using plan_ok_aircraft[of w] acted(3) ok by (auto simp: airline_ok_def)
  obtain e where rest: "rest_part w' = (cores cr_id (aw_crew w), cores slt_status (aw_slots w),
      cores ro_sector_ids (aw_rotations w), sensor_events w @ [e])" "ev_actor e = Some aog_sensor"
    using eff(3) by auto
  obtain ev where st: "stories w' = stories (w\<lparr>aw_events := dict_set aog_scenario ev (aw_events w),
      aw_aog_story := dict_set aog_story ''active'' (aw_aog_story w)\<rparr>)" using eff(4) by auto
  have "plan_ok (plan w')"
    using a rest(2) unfolding plan_def eff(1,2) rest(1)
    by (auto simp: plan_ok_def rest_part_def in_amend intro!: rest_ok_sensor)
  moreover have "stories_ok w'" "evaluations_ok w'" "fresh_ok w'"
    using ok st acted(1,2) by (auto simp: airline_ok_defs stories_eq story_ok_def)
  moreover have "open_ok w'"
    using ok st eff(1,2) by (auto simp: airline_ok_defs stories_eq in_amend)
  ultimately show ?thesis by (simp add: airline_ok_def)
qed (use ok in simp)

lemma activate_schedule_ok:
  assumes ok: "airline_ok w" and act: "activate_schedule w = (r, w')"
  shows "airline_ok w'"
  using act
proof (cases rule: activate_schedule_cases)
  case (acted g)
  note eff = restrict_schedule_effect[OF acted(3)]
  obtain e where rest: "rest_part w' = (cores cr_id (aw_crew w), cores slt_status (aw_slots w),
      cores ro_sector_ids (aw_rotations w), sensor_events w @ [e])" "ev_actor e = Some sched_sensor"
    using eff(3) by auto
  obtain ev where st: "stories w' = stories (w\<lparr>aw_events := dict_set sched_scenario ev (aw_events w),
      aw_sched_story := dict_set sched_story ''active'' (aw_sched_story w)\<rparr>)" using eff(4) by auto
  have "plan_ok (plan w')"
    using ok rest(2) unfolding airline_ok_def plan_def eff(1,2) rest(1)
    by (auto simp: plan_ok_def rest_part_def intro!: rest_ok_sensor)
  moreover have "stories_ok w'" "evaluations_ok w'" "fresh_ok w'" "open_ok w'"
    using ok st acted(1,2) eff(1,2) by (auto simp: airline_ok_defs stories_eq story_ok_def)
  ultimately show ?thesis by (simp add: airline_ok_def)
qed (use ok in simp)

lemma activate_scenario_ok:
  assumes "airline_ok w"
  shows "airline_ok (snd (activate_scenario s w))"
  using activate_hub_ok[OF assms prod.collapse[symmetric]] activate_aog_ok[OF assms prod.collapse[symmetric]]
    activate_schedule_ok[OF assms prod.collapse[symmetric]] assms
  by (simp add: activate_scenario_def)

section \<open>The hub\<close>

text \<open>The evaluation that follows the mutation of an admitted option passes.\<close>

lemma check_results_pass: "fst (check_results cs) = ''pass'' \<longleftrightarrow> (\<forall>(_, b) \<in> set cs. b)"
  by (auto simp: check_results_def list_all_iff)

lemma flies_count: "length (filter (flies reserve_tail_id) (map snd secs)) = length (filter flown (cores sector_core secs))"
  unfolding cores_def flown_def by (induction secs) (auto simp: flies_def sector_core_def)

lemma at_most_one:
  assumes "distinct (map fst xs)" and "\<forall>x \<in> set xs. \<forall>y \<in> set xs. fst x = fst y"
  shows "length xs \<le> 1"
proof (cases xs)
  case (Cons x ys)
  show ?thesis
  proof (cases ys)
    case (Cons y zs)
    with \<open>xs = x # ys\<close> assms have False by auto
    then show ?thesis ..
  qed (simp add: Cons)
qed simp

lemma one_flown:
  assumes "sectors_ok secs"
  shows "length (filter flown secs) \<le> 1" "x \<in> set secs \<Longrightarrow> flown x \<Longrightarrow> length (filter flown secs) = 1"
proof -
  show le: "length (filter flown secs) \<le> 1"
    using assms by (intro at_most_one) (auto simp: sectors_ok_def distinct_map_filter)
  assume "x \<in> set secs" "flown x"
  then have "filter flown secs \<noteq> []" unfolding filter_empty_conv by blast
  with le show "length (filter flown secs) = 1" by (cases "filter flown secs") simp_all
qed

lemma tail_evaluation:
  assumes ok: "plan_ok (plan w)" and mut: "mutate_tail_plan w = (Inr refs, w1)"
    and w2: "w2 = (bump_all refs w1)\<lparr>aw_disruption := dict_set hub_story ''resolved'' (aw_disruption w1)\<rparr>"
    and ok2: "plan_ok (plan w2)"
    and on: "\<And>s. map_of (aw_sectors w) target_sector_id = Some s \<Longrightarrow> sec_status s \<notin> set over"
    and crew: "\<And>cr. map_of (aw_crew w) reserve_crew_id = Some cr \<Longrightarrow> cr_sector_ids cr = []"
    and ev: "hub_evaluation w2 opt = Inr (st, rs)" and opt: "po_id opt = tail_option_id"
  shows "st = ''pass''"
proof -
  obtain s where s: "map_of (aw_sectors w) target_sector_id = Some s"
    using mut by (auto simp: mutate_tail_plan_def reads_def bind_result_Inr_iff split: sum.splits)
  have wr: "\<exists>s2. map_of (aw_sectors w2) target_sector_id = Some s2 \<and> sec_aircraft_id s2 = reserve_tail_id
      \<and> sec_status s2 \<notin> set over"
    "map_of (aw_aircraft w2) reserve_tail_id = Some a \<Longrightarrow> ac_status a = ''assigned''"
    "map_of (aw_crew w2) reserve_crew_id = Some c \<Longrightarrow> cr_status c = ''active'' \<and> cr_sector_ids c = [sec_id s]
       \<and> (\<forall>s2. map_of (aw_sectors w2) target_sector_id = Some s2 \<longrightarrow> sec_crew_duty_id s2 = cr_id c)"
    "map_of (aw_stands w2) reserve_stand_id = Some d \<Longrightarrow> std_status d = ''assigned''
       \<and> (\<forall>s2. map_of (aw_sectors w2) target_sector_id = Some s2 \<longrightarrow> sec_stand_id s2 = std_id d)" for a c d
    using mut on[OF s] s plan_ok_aircraft[OF ok] crew
    by (auto simp: w2 mutate_tail_plan_def reads_def bind_result_Inr_iff bump_all_def without_def
        split: sum.splits if_splits)
  then obtain s2 where s2: "map_of (aw_sectors w2) target_sector_id = Some s2" "sec_aircraft_id s2 = reserve_tail_id"
    "sec_status s2 \<notin> set over" by blast
  have "flown (target_sector_id, sector_core s2)" using s2 by (simp add: flown_def sector_core_def)
  then have "length (filter (flies reserve_tail_id) (map snd (aw_sectors w2))) = 1"
    unfolding flies_count using one_flown(2) ok2 sector_partD[OF s2(1)]
    by (auto simp: plan_ok_def plan_def sector_part_def)
  then have one: "length (filter (flies reserve_tail_id) (map snd (aw_sectors w2))) = Suc 0" by simp
  have slot: "map_of (aw_slots w2) k = Some sl \<Longrightarrow> slt_status sl = ''allocated''" for k sl
    by (rule plan_ok_rest(2)[OF ok2])
  have id: "map_of (aw_aircraft w2) k = Some a \<Longrightarrow> ac_id a = k" for k a by (rule plan_ok_aircraft[OF ok2])
  have "sec_id s = target_sector_id" by (rule plan_ok_sector(1)[OF ok s])
  moreover have "map_of (aw_disruption w2) hub_story = Some ''resolved''" by (simp add: w2)
  ultimately show ?thesis
    using ev plan_ok_sector[OF ok2 s2(1)] one s2 wr(2-)
    by (auto simp: hub_evaluation_def opt bind_result_Inr_iff check_results_def resolved_hub_def
       split: if_splits dest!: slot id)
qed

lemma cancel_evaluation:
  assumes mut: "mutate_cancel_plan w = (Inr refs, w1)"
    and w2: "w2 = (bump_all refs w1)\<lparr>aw_disruption := dict_set hub_story ''resolved'' (aw_disruption w1)\<rparr>"
    and ev: "hub_evaluation w2 opt = Inr (st, rs)" and opt: "po_id opt = cancel_option_id"
  shows "st = ''pass''"
proof -
  have "map_of (aw_sectors w2) target_sector_id = Some s \<Longrightarrow> sec_status s = ''cancelled''" for s
    using mut by (auto simp: w2 mutate_cancel_plan_def reads_def bind_result_Inr_iff bump_all_def split: sum.splits)
  moreover have "map_of (aw_disruption w2) hub_story = Some ''resolved''" by (simp add: w2)
  ultimately show ?thesis
    using ev by (auto simp: hub_evaluation_def opt bind_result_Inr_iff check_results_def resolved_hub_def)
qed

lemma retime_evaluation:
  assumes ok: "plan_ok (plan w)" and obs: "current_recovery_observation w = Inr obs"
    and slot: "\<not> slot_window_missed (map_option (\<lambda>t. t + 390)
         (number (dict_get (record_of obs ''outbound_sector'') ''scheduled_departure'')))
         (record_of obs ''outbound_slot'')"
    and mut: "mutate_retime_plan w (retime_option obs') = (Inr refs, w1)"
    and w2: "w2 = (bump_all refs w1)\<lparr>aw_disruption := dict_set hub_story ''resolved'' (aw_disruption w1)\<rparr>"
    and ev: "hub_evaluation w2 (retime_option obs') = Inr (st, rs)"
  shows "st = ''pass''"
proof -
  obtain out sl where o: "map_of (aw_sectors w) target_sector_id = Some out"
      "record_of obs ''outbound_sector'' = sector_view out"
    and sl: "map_of (aw_slots w) ''SYN-SLOT-05'' = Some sl" "record_of obs ''outbound_slot'' = airport_slot_view sl"
    using hub_observed[OF ok obs] by metis
  have near: "close_to (of_int (slt_tolerance_minutes sl)) (sec_scheduled_departure out + 390) (slt_scheduled_time sl)"
    using slot by (simp add: o sl slot_window_missed_def sector_view_def airport_slot_view_def number_def)
  have act: "retime_action (retime_option obs') = Inr \<lparr>rac_type = ''retime_sector'', rac_sector = target_sector_id,
        rac_resource = Some ''SYN-SLOT-05'', rac_minutes = Some 390\<rparr>"
    by (simp add: retime_action_def retime_option_def)
  have al: "slt_status sl = ''allocated''" by (rule plan_ok_rest(2)[OF ok sl(1)])
  have "map_of (aw_slots w2) ''SYN-SLOT-05'' = Some sl" "slt_sector_id sl = sec_id out"
    "\<exists>s. map_of (aw_sectors w2) target_sector_id = Some s \<and> sec_id s = sec_id out \<and> sec_delay_minutes s = 0
       \<and> sec_scheduled_departure s = sec_scheduled_departure out + 390"
    using mut o(1) sl(1)
    by (auto simp: w2 mutate_retime_plan_def act reads_def bind_result_Inr_iff bump_all_def
        split: sum.splits if_splits)
  moreover have "map_of (aw_disruption w2) hub_story = Some ''resolved''" by (simp add: w2)
  ultimately show ?thesis
    using ev near al
    by (auto simp: hub_evaluation_def option_parts act bind_result_Inr_iff check_results_def resolved_hub_def)
qed

lemma hub_evaluation_status:
  "hub_evaluation_record w c n opt obs = Inr ev \<Longrightarrow> \<exists>rs. hub_evaluation w opt = Inr (re_status ev, rs)"
  by (auto simp: hub_evaluation_record_def bind_result_Inr_iff Let_def)

text \<open>An admitted option leaves a good plan and evaluates to a pass.\<close>

lemma hub_mutation_ok:
  assumes ok: "airline_ok w" and active: "map_of (aw_disruption w) hub_story = Some ''active''"
    and adm: "hub_options w = Inr (obs, rs)" "result_for i rs = Some r" "fe_feasible r" "opt = fe_option r"
    and mut: "mutate_hub w opt = (Inr refs, w1)"
    and w2: "w2 = (bump_all refs w1)\<lparr>aw_disruption := dict_set hub_story ''resolved'' (aw_disruption w1)\<rparr>"
  shows "plan_ok (plan w2)" "aircraft_part w2 = aircraft_part w \<or>
      (\<exists>st. aircraft_part w2 = amend reserve_tail_id (\<lambda>(i, _). (i, st)) (aircraft_part w))"
    "stories w1 = stories w" "caches w1 = caches w"
    "hub_evaluation_record w2 c n opt obs2 = Inr ev \<Longrightarrow> re_status ev = ''pass''"
proof -
  have p: "plan_ok (plan w)" using ok by (simp add: airline_ok_def)
  have plan2: "plan w2 = plan w1" by (simp add: w2 airline_frame)
  have on: "sec_status s \<notin> set over" if "map_of (aw_sectors w) target_sector_id = Some s" for s
    using ok active sector_partD[OF that] by (auto simp: airline_ok_def open_ok_def sector_core_def)
  note adm' = hub_admitted[OF adm(1-3), folded adm(4)]
  have "plan_ok (plan w2) \<and> (aircraft_part w2 = aircraft_part w \<or>
      (\<exists>st. aircraft_part w2 = amend reserve_tail_id (\<lambda>(i, _). (i, st)) (aircraft_part w)))
    \<and> stories w1 = stories w \<and> caches w1 = caches w
    \<and> (hub_evaluation_record w2 c n opt obs2 = Inr ev \<longrightarrow> re_status ev = ''pass'')"
    using adm'(2)
  proof (elim disjE conjE)
    assume opt: "opt = tail_option obs" and tr: "collect (tail_reasons obs 75000) = Inr []"
    have m: "mutate_tail_plan w = (Inr refs, w1)" using mut by (simp add: mutate_hub_def opt option_parts)
    note adt = tail_admitted[OF p adm'(1) tr]
    obtain s a cr where a: "map_of (aw_aircraft w) reserve_tail_id = Some a"
        "map_of (aw_crew w) reserve_crew_id = Some cr" "stories w1 = stories w" "caches w1 = caches w"
      and p1: "plan w1 = (amend target_sector_id (\<lambda>(i, _, _, sl, st). (i, ac_id a, cr_id cr, sl, st)) (sector_part w),
                amend reserve_tail_id (\<lambda>(i, _). (i, ''assigned'')) (aircraft_part w), rest_part w)"
      using tail_plan_effect[OF m] by metis
    have ids: "ac_id a = reserve_tail_id" "cr_id cr = reserve_crew_id"
      using plan_ok_aircraft[OF p a(1)] plan_ok_rest(1)[OF p a(2)] by simp_all
    have p2: "plan_ok (plan w2)"
      using p adt(1) unfolding plan2 p1 ids
      by (auto simp: plan_ok_def plan_def in_amend intro!: plan_ok_tail)
    moreover have "aircraft_part w2 = amend reserve_tail_id (\<lambda>(i, _). (i, ''assigned'')) (aircraft_part w)"
      using plan2 p1 by (simp add: plan_def)
    moreover have "re_status ev = ''pass''" if e: "hub_evaluation_record w2 c n opt obs2 = Inr ev"
      using hub_evaluation_status[OF e] tail_evaluation[OF p m w2 p2 on] adt(2) opt
      by (auto simp: option_parts)
    ultimately show ?thesis using a(3,4) by blast
  next
    assume opt: "opt = cancel_option obs"
    have m: "mutate_cancel_plan w = (Inr refs, w1)" using mut by (simp add: mutate_hub_def opt option_parts)
    note eff = cancel_plan_effect[OF m]
    have "plan_ok (plan w2)"
      using p unfolding plan2 eff(1) by (auto simp: plan_ok_def plan_def intro!: plan_ok_cancel)
    moreover have "aircraft_part w2 = aircraft_part w" using plan2 eff(1) by (simp add: plan_def)
    ultimately show ?thesis
      using eff(2,3) cancel_evaluation[OF m w2] opt by (auto simp: option_parts dest!: hub_evaluation_status)
  next
    assume opt: "opt = retime_option obs" and sl: "\<not> slot_window_missed (map_option (\<lambda>t. t + 390)
         (number (dict_get (record_of obs ''outbound_sector'') ''scheduled_departure'')))
         (record_of obs ''outbound_slot'')"
    have m: "mutate_retime_plan w (retime_option obs) = (Inr refs, w1)"
      using mut by (simp add: mutate_hub_def opt option_parts)
    note eff = plan_same_effects(1)[OF m]
    with p plan2 have "plan_ok (plan w2)" "aircraft_part w2 = aircraft_part w" by (simp_all add: plan_def)
    then show ?thesis
      using eff retime_evaluation[OF p adm'(1) sl m w2] opt by (auto dest!: hub_evaluation_status)
  qed
  then show "plan_ok (plan w2)" "aircraft_part w2 = aircraft_part w \<or>
      (\<exists>st. aircraft_part w2 = amend reserve_tail_id (\<lambda>(i, _). (i, st)) (aircraft_part w))"
    "stories w1 = stories w" "caches w1 = caches w"
    "hub_evaluation_record w2 c n opt obs2 = Inr ev \<Longrightarrow> re_status ev = ''pass''" by simp_all
qed

end
