(* ===== verification/Airline_Reach.thy ===== *)
theory Airline_Reach imports Airline_Invariants begin

text \<open>
  Every operation of the airline world keeps the invariant, so every world that its operations reach
  has it.
\<close>

section \<open>Commands of the hub\<close>

lemma story_ok_active:
  "story_ok (Some ''active'') ev cs \<Longrightarrow> ev \<noteq> None \<and> cs = []"
  by (simp add: story_ok_def)

lemma story_ok_over: "story_ok (Some ''active'') ev cs \<Longrightarrow> st \<noteq> ''active'' \<Longrightarrow> story_ok (Some st) ev cs"
  by (simp add: story_ok_def)

lemma story_ok_commit: "story_ok (Some st) ev ([] :: ('k \<times> 'v) list) \<Longrightarrow> st \<noteq> ''active'' \<Longrightarrow> story_ok (Some st) ev [(k, v)]"
  by (auto simp: story_ok_def)

text \<open>The reserve aircraft is not the one of the engineering story.\<close>

lemma open_ok_aircraft:
  assumes "\<forall>(k, _, st) \<in> set (aircraft_part w). k = affected_tail_id \<longrightarrow> st = ''grounded''"
    and "aircraft_part w2 = aircraft_part w \<or>
      (\<exists>st. aircraft_part w2 = amend reserve_tail_id (\<lambda>(i, _). (i, st)) (aircraft_part w))"
  shows "\<forall>(k, _, st) \<in> set (aircraft_part w2). k = affected_tail_id \<longrightarrow> st = ''grounded''"
  using assms by (auto simp: in_amend)

lemma hub_resolved_ok:
  assumes ok: "airline_ok w" and active: "map_of (aw_disruption w) hub_story = Some ''active''"
    and st: "stories w1 = stories w" and p: "plan_ok (plan w2)"
    and ac: "aircraft_part w2 = aircraft_part w \<or>
      (\<exists>st. aircraft_part w2 = amend reserve_tail_id (\<lambda>(i, _). (i, st)) (aircraft_part w))"
    and w2: "w2 = (bump_all refs w1)\<lparr>aw_disruption := dict_set hub_story ''resolved'' (aw_disruption w1)\<rparr>"
  shows "airline_ok w2" "aw_recoveries w2 = []"
proof -
  have s2: "stories w2 = stories (w\<lparr>aw_disruption := dict_set hub_story ''resolved'' (aw_disruption w)\<rparr>)"
    using st by (simp add: w2 stories_def airline_parts)
  have ev: "map_of (aw_events w) hub_scenario \<noteq> None" and rc: "aw_recoveries w = []"
    using ok active by (auto simp: airline_ok_defs dest: story_ok_active)
  show "aw_recoveries w2 = []" using s2 rc by (simp add: stories_eq)
  have "aw_installed w" using ok ev by (auto simp: airline_ok_defs)
  moreover have "open_ok w2"
    using ok s2 open_ok_aircraft[OF _ ac] by (auto simp: airline_ok_def open_ok_def stories_eq)
  ultimately show "airline_ok w2"
    using ok s2 p active
    by (simp add: airline_ok_def stories_ok_def fresh_ok_def evaluations_ok_def stories_eq story_ok_over)
qed

lemma dict_set_pass:
  assumes "\<forall>(_, e) \<in> set d. P e" "P v"
  shows "\<forall>(_, e) \<in> set (dict_set k v d). P e"
  using assms by (induction d) (auto split: if_splits)

lemma hub_settled_ok:
  assumes ok: "airline_ok w2" "aw_recoveries w2 = []" "map_of (aw_disruption w2) hub_story = Some ''resolved''"
    and pass: "re_status ev = ''pass''"
    and w': "w' = snd (settle_hub w2 c opt refs n cm ev cause d es)"
  shows "airline_ok w'"
proof -
  note eff = settle_hub_effect[OF w']
  obtain e1 e2 where "aw_recoveries w' = dict_set (cm_id cm) (cm\<lparr>cm_last_event_id := e1\<rparr>) []"
    and re: "aw_recovery_evaluations w' = dict_set n (ev\<lparr>re_last_event_id := e2\<rparr>) (aw_recovery_evaluations w2)"
    using eff(3,4) ok(2) by auto
  moreover have "story_ok (Some ''resolved'') (map_of (aw_events w2) hub_scenario) [(cm_id cm, cm\<lparr>cm_last_event_id := e1\<rparr>)]"
    using ok by (intro story_ok_commit) (auto simp: airline_ok_def stories_ok_def)
  ultimately have "stories_ok w'" using ok eff(5) by (simp add: airline_ok_def stories_ok_def stories_eq)
  moreover have "\<forall>(_, e) \<in> set (aw_recovery_evaluations w'). re_status e = ''pass''"
    unfolding re by (rule dict_set_pass) (use ok(1) pass in \<open>simp_all add: airline_ok_def evaluations_ok_def\<close>)
  then have "evaluations_ok w'" using ok(1) eff(5) by (simp add: airline_ok_def evaluations_ok_def stories_eq)
  moreover have "plan_ok (plan w')" "fresh_ok w'" "open_ok w'"
    using ok(1) eff(1,5) plan_eqD[OF eff(1)] by (auto simp: airline_ok_def fresh_ok_def open_ok_def stories_eq)
  ultimately show ?thesis by (simp add: airline_ok_def)
qed

lemma apply_hub_ok:
  assumes ok: "airline_ok w" and app: "apply_recovery_command fr w c = (r, w')"
  shows "airline_ok w' \<and> caches w' = caches w"
proof (cases "\<exists>opt obs. validated_hub fr w c = Inr (Inr (opt, obs))")
  case False
  then have "w' = w \<or> (\<exists>m. w' = snd (reject w c m))"
    using app by (auto simp: apply_recovery_command_def reads_def split: sum.splits dest: apfst_snd)
  with ok show ?thesis
    using reject_frame(1-3)[of w c] by (metis airline_ok_cong)
next
  case True
  then obtain opt obs where v: "validated_hub fr w c = Inr (Inr (opt, obs))" by blast
  then have acc: "accept_hub fr w c opt obs = (r, w')" using app by (simp add: apply_recovery_command_def)
  obtain rs rr i where adm: "hub_options w = Inr (obs, rs)" "result_for i rs = Some rr" "fe_feasible rr"
      "opt = fe_option rr" and active: "map_of (aw_disruption w) hub_story = Some ''active''"
    using validated_hub_Inr[OF v] by metis
  from acc show ?thesis
  proof (cases rule: accept_hub_outcome)
    case refused
    with ok show ?thesis using airline_ok_cong by blast
  next
    case (raised refs w1)
    note mut = hub_mutation_ok[OF ok active adm raised(1,3)]
    have "airline_ok w'" by (rule hub_resolved_ok(1)[OF ok active mut(3,1,2) raised(3)])
    moreover have "caches w' = caches w" using mut(4) raised(3) by (simp add: caches_def airline_parts)
    ultimately show ?thesis ..
  next
    case (settled refs w1 w2 n cm ev cause d es)
    note mut = hub_mutation_ok[OF ok active adm settled(1,2)]
    note ok2 = hub_resolved_ok[OF ok active mut(3,1,2) settled(2)]
    have "re_status ev = ''pass''" by (rule mut(5)[OF settled(3)])
    moreover have w': "w' = snd (settle_hub w2 c opt refs n cm ev cause d es)" by (rule apfst_snd[OF settled(4)])
    ultimately have "airline_ok w'" using ok2 settled(2) by (intro hub_settled_ok[OF ok2 _ _ w']) auto
    moreover have "caches w' = caches w"
      using settle_hub_effect(2)[OF w'] mut(4) settled(2) by (simp add: caches_def airline_parts)
    ultimately show ?thesis ..
  qed
qed

section \<open>Commands of the grounded aircraft\<close>

lemma aircraft_partD: "map_of (aw_aircraft w) k = Some a \<Longrightarrow> (k, ac_id a, ac_status a) \<in> set (aircraft_part w)"
  using map_of_SomeD[of "aw_aircraft w" k a] by (force simp: aircraft_part_def cores_def aircraft_core_def)

lemma aog_evaluation_status:
  "aog_evaluation_record w c n opt = Inr ev \<Longrightarrow> \<exists>rs. aog_evaluation_checks w opt = Inr (ae_status ev, rs)"
  by (auto simp: aog_evaluation_record_def bind_result_Inr_iff Let_def)

lemma dict_set_not_Nil [simp]: "dict_set k v d \<noteq> []"
  by (cases d) (auto split: if_splits)

lemma mutate_work_order_Inr:
  assumes "mutate_work_order w i = (Inr refs, w1)"
  obtains te ta sp ac where "map_of (aw_techs w) aog_tech_id = Some te" "map_of (aw_tasks w) aog_task_id = Some ta"
    "map_of (aw_spares w) i = Some sp" "map_of (aw_aircraft w) affected_tail_id = Some ac"
    "refs = [(CTech, aog_tech_id, te_id te), (CTask, aog_task_id, mt_id ta), (CSpare, i, spr_id sp),
       (CAircraft, affected_tail_id, ac_id ac)]"
    "w1 = w\<lparr>aw_tasks := amend aog_task_id
               (\<lambda>r. r\<lparr>mt_provider_id := Some aog_provider_id, mt_status := ''in_progress''\<rparr>) (aw_tasks w),
             aw_techs := amend aog_tech_id (\<lambda>r. r\<lparr>te_status := ''work_in_progress''\<rparr>) (aw_techs w),
             aw_spares := amend i (\<lambda>r. r\<lparr>spr_status := ''reserved''\<rparr>) (aw_spares w)\<rparr>"
  using assms unfolding mutate_work_order_def reads_def by (auto simp: bind_result_Inr_iff split: sum.splits)

lemma mutate_substitute_Inr:
  assumes "mutate_substitute w = (Inr refs, w1)"
  obtains s ac where "map_of (aw_sectors w) threatened_sector_id = Some s"
    "map_of (aw_aircraft w) reserve_tail_id = Some ac"
    "refs = [(CSector, threatened_sector_id, sec_id s), (CAircraft, reserve_tail_id, ac_id ac)]"
    "w1 = w\<lparr>aw_sectors := amend threatened_sector_id (\<lambda>r. r\<lparr>sec_aircraft_id := ac_id ac\<rparr>) (aw_sectors w),
            aw_aircraft := amend reserve_tail_id (\<lambda>r. r\<lparr>ac_status := ''assigned''\<rparr>) (aw_aircraft w)\<rparr>"
  using assms unfolding mutate_substitute_def reads_def by (auto simp: bind_result_Inr_iff split: sum.splits)

lemma mutate_aog_parts:
  assumes "mutate_aog w opt n = (Inr (refs, wo, mv), w1)"
  shows "is_work opt \<Longrightarrow> mutate_work_order w (spare_of opt) = (Inr refs, w1) \<and> (\<exists>m. mv = Some m)"
    "\<not> is_work opt \<Longrightarrow> mutate_substitute w = (Inr refs, w1)"
proof -
  show "mutate_work_order w (spare_of opt) = (Inr refs, w1) \<and> (\<exists>m. mv = Some m)" if "is_work opt"
    using assms that by (cases "mutate_work_order w (spare_of opt)") (auto simp: mutate_aog_def and_then_def reads_def split: sum.splits)
  show "mutate_substitute w = (Inr refs, w1)" if "\<not> is_work opt"
    using assms that by (cases "mutate_substitute w") (auto simp: mutate_aog_def and_then_def split: sum.splits)
qed

lemma work_evaluation:
  assumes mut: "mutate_aog w opt n = (Inr (refs, wo, mv), w1)" and work: "is_work opt"
    and w2: "w2 = register_work wo mv
         ((bump_all refs w1)\<lparr>aw_aog_story := dict_set aog_story ''resolved'' (aw_aog_story w1)\<rparr>)"
    and tech: "map_of (aw_techs w) aog_tech_id = Some te" "te_aircraft_id te = affected_tail_id"
    and grounded: "\<And>a. map_of (aw_aircraft w) affected_tail_id = Some a \<Longrightarrow> ac_status a = ''grounded''"
    and ev: "aog_evaluation_checks w2 opt = Inr (st, rs)"
  shows "st = ''pass''"
proof -
  obtain m where mv: "mv = Some m" and wm: "mutate_work_order w (spare_of opt) = (Inr refs, w1)"
    using mutate_aog_parts(1)[OF mut work] by blast
  from wm obtain te' ta sp ac where r: "map_of (aw_techs w) aog_tech_id = Some te'"
    "map_of (aw_tasks w) aog_task_id = Some ta"
    "map_of (aw_spares w) (spare_of opt) = Some sp" "map_of (aw_aircraft w) affected_tail_id = Some ac"
    and refs: "refs = [(CTech, aog_tech_id, te_id te'), (CTask, aog_task_id, mt_id ta),
       (CSpare, spare_of opt, spr_id sp), (CAircraft, affected_tail_id, ac_id ac)]"
    and w1: "w1 = w\<lparr>aw_tasks := amend aog_task_id
               (\<lambda>r. r\<lparr>mt_provider_id := Some aog_provider_id, mt_status := ''in_progress''\<rparr>) (aw_tasks w),
             aw_techs := amend aog_tech_id (\<lambda>r. r\<lparr>te_status := ''work_in_progress''\<rparr>) (aw_techs w),
             aw_spares := amend (spare_of opt) (\<lambda>r. r\<lparr>spr_status := ''reserved''\<rparr>) (aw_spares w)\<rparr>"
    by (rule mutate_work_order_Inr)
  have f: "map_of (aw_techs w2) aog_tech_id = Some (te\<lparr>te_status := ''work_in_progress'', te_version := te_version te + 1\<rparr>)"
    "map_of (aw_tasks w2) aog_task_id = Some (ta\<lparr>mt_provider_id := Some aog_provider_id,
        mt_status := ''in_progress'', mt_version := mt_version ta + 1\<rparr>)"
    "map_of (aw_spares w2) (spare_of opt) = Some (sp\<lparr>spr_status := ''reserved'', spr_version := spr_version sp + 1\<rparr>)"
    "map_of (aw_aircraft w2) affected_tail_id = Some (ac\<lparr>ac_version := ac_version ac + 1\<rparr>)"
    "aw_work_orders w2 \<noteq> []" "aw_movements w2 \<noteq> []"
    using r tech(1) by (simp_all add: w2 w1 refs mv register_work_def bump_all_def)
  from ev show ?thesis
    using f tech(2) grounded[OF r(4)]
    by (auto simp: aog_evaluation_checks_def work check_results_def bind_result_Inr_iff)
qed

lemma substitute_evaluation:
  assumes mut: "mutate_aog w opt n = (Inr (refs, wo, mv), w1)" and sub: "po_id opt = substitute_id"
    and w2: "w2 = register_work wo mv
         ((bump_all refs w1)\<lparr>aw_aog_story := dict_set aog_story ''resolved'' (aw_aog_story w1)\<rparr>)"
    and grounded: "\<And>a. map_of (aw_aircraft w) affected_tail_id = Some a \<Longrightarrow> ac_status a = ''grounded''"
    and ev: "aog_evaluation_checks w2 opt = Inr (st, rs)"
  shows "st = ''pass''"
proof -
  have nw: "\<not> is_work opt" using sub by (simp add: is_work_def)
  from mutate_aog_parts(2)[OF mut nw] obtain s ac where r: "map_of (aw_sectors w) threatened_sector_id = Some s"
    "map_of (aw_aircraft w) reserve_tail_id = Some ac"
    and refs: "refs = [(CSector, threatened_sector_id, sec_id s), (CAircraft, reserve_tail_id, ac_id ac)]"
    and w1: "w1 = w\<lparr>aw_sectors := amend threatened_sector_id (\<lambda>r. r\<lparr>sec_aircraft_id := ac_id ac\<rparr>) (aw_sectors w),
            aw_aircraft := amend reserve_tail_id (\<lambda>r. r\<lparr>ac_status := ''assigned''\<rparr>) (aw_aircraft w)\<rparr>"
    by (rule mutate_substitute_Inr)
  have f: "map_of (aw_sectors w2) threatened_sector_id = Some (s\<lparr>sec_aircraft_id := ac_id ac, sec_version := sec_version s + 1\<rparr>)"
    "map_of (aw_aircraft w2) reserve_tail_id = Some (ac\<lparr>ac_status := ''assigned'', ac_version := ac_version ac + 1\<rparr>)"
    "map_of (aw_aircraft w2) affected_tail_id = map_of (aw_aircraft w) affected_tail_id"
    "aw_work_orders w2 \<noteq> []"
    using r by (simp_all add: w2 w1 refs register_work_def bump_all_def Let_def split: option.splits)
  from ev show ?thesis
    using f grounded
    by (auto simp: aog_evaluation_checks_def nw sub check_results_def bind_result_Inr_iff)
qed

lemma aog_mutation_ok:
  assumes ok: "airline_ok w" and active: "map_of (aw_aog_story w) aog_story = Some ''active''"
    and adm: "aog_options w = Inr (obs, rs)" "result_for i rs = Some r" "fe_feasible r" "opt = fe_option r"
    and mut: "mutate_aog w opt n = (Inr (refs, wo, mv), w1)"
    and w2: "w2 = register_work wo mv
         ((bump_all refs w1)\<lparr>aw_aog_story := dict_set aog_story ''resolved'' (aw_aog_story w1)\<rparr>)"
  shows "plan_ok (plan w2) \<and> (aircraft_part w2 = aircraft_part w \<or>
      (\<exists>st. aircraft_part w2 = amend reserve_tail_id (\<lambda>(i, _). (i, st)) (aircraft_part w)))
    \<and> (\<forall>x \<in> set (sector_part w2). fst x = target_sector_id \<longrightarrow> x \<in> set (sector_part w))
    \<and> stories w1 = stories w \<and> caches w1 = caches w
    \<and> (aog_evaluation_record w2 c m opt = Inr ev \<longrightarrow> ae_status ev = ''pass'')"
proof -
  have p: "plan_ok (plan w)" using ok by (simp add: airline_ok_def)
  have plan2: "plan w2 = plan w1" by (simp add: w2 airline_frame)
  have "map_of (aw_events w) aog_scenario \<noteq> None"
    using ok active by (auto simp: airline_ok_defs dest: story_ok_active)
  then have grounded: "ac_status a = ''grounded''" if "map_of (aw_aircraft w) affected_tail_id = Some a" for a
    using ok aircraft_partD[OF that] by (auto simp: airline_ok_def open_ok_def)
  consider (substitute) "opt = substitute_option obs" "\<forall>x \<in> set (sector_part w). \<not> flown x"
    | (work) te where "opt = work_local_option obs \<or> opt = work_repo_option obs"
      "map_of (aw_techs w) aog_tech_id = Some te" "te_aircraft_id te = affected_tail_id"
    using aog_admitted[OF adm(1-3), folded adm(4)] by blast
  then show ?thesis
  proof cases
    case substitute
    note opt = substitute(1) and free = substitute(2)
    then have nw: "\<not> is_work opt" by (simp add: is_work_def option_parts)
    obtain a where a: "map_of (aw_aircraft w) reserve_tail_id = Some a" "stories w1 = stories w" "caches w1 = caches w"
      and p1: "plan w1 = (amend threatened_sector_id (\<lambda>(i, _, c, sl, st). (i, ac_id a, c, sl, st)) (sector_part w),
                amend reserve_tail_id (\<lambda>(i, _). (i, ''assigned'')) (aircraft_part w), rest_part w)"
      using substitute_effect[OF mutate_aog_parts(2)[OF mut nw]] by metis
    have "plan_ok (plan w2)"
      using p free unfolding plan2 p1 plan_ok_aircraft[OF p a(1)]
      by (auto simp: plan_ok_def plan_def in_amend intro!: plan_ok_substitute)
    moreover have "aircraft_part w2 = amend reserve_tail_id (\<lambda>(i, _). (i, ''assigned'')) (aircraft_part w)"
      using plan2 p1 by (simp add: plan_def)
    moreover have "\<forall>x \<in> set (sector_part w2). fst x = target_sector_id \<longrightarrow> x \<in> set (sector_part w)"
      using plan2 p1 by (auto simp: plan_def in_amend)
    ultimately show ?thesis
      using a substitute_evaluation[OF mut _ w2 grounded] opt
      by (auto simp: option_parts dest!: aog_evaluation_status)
  next
    case (work te)
    then have wk: "is_work opt" by (auto simp: is_work_def option_parts)
    note eff = plan_same_effects(4)[OF conjunct1[OF mutate_aog_parts(1)[OF mut wk]]]
    with p plan2 have "plan_ok (plan w2)" "aircraft_part w2 = aircraft_part w"
      "sector_part w2 = sector_part w" by (simp_all add: plan_def)
    with eff show ?thesis
      using work_evaluation[OF mut wk w2 work(2,3) grounded] by (auto dest!: aog_evaluation_status)
  qed
qed

lemma aog_resolved_ok:
  assumes ok: "airline_ok w" and active: "map_of (aw_aog_story w) aog_story = Some ''active''"
    and st: "stories w1 = stories w" and p: "plan_ok (plan w2)"
    and ac: "aircraft_part w2 = aircraft_part w \<or>
      (\<exists>st. aircraft_part w2 = amend reserve_tail_id (\<lambda>(i, _). (i, st)) (aircraft_part w))"
    and on: "\<forall>x \<in> set (sector_part w2). fst x = target_sector_id \<longrightarrow> x \<in> set (sector_part w)"
    and w2: "w2 = register_work wo mv
         ((bump_all refs w1)\<lparr>aw_aog_story := dict_set aog_story ''resolved'' (aw_aog_story w1)\<rparr>)"
  shows "airline_ok w2" "aw_aog_commands w2 = []"
proof -
  have s2: "stories w2 = stories (w\<lparr>aw_aog_story := dict_set aog_story ''resolved'' (aw_aog_story w)\<rparr>)"
    using st by (simp add: w2 stories_def airline_parts register_work_fields)
  have ev: "map_of (aw_events w) aog_scenario \<noteq> None" and rc: "aw_aog_commands w = []"
    using ok active by (auto simp: airline_ok_defs dest: story_ok_active)
  show "aw_aog_commands w2 = []" using s2 rc by (simp add: stories_eq)
  have "aw_installed w" using ok ev by (auto simp: airline_ok_defs)
  moreover have "open_ok w2"
    using ok s2 open_ok_aircraft[OF _ ac] on by (fastforce simp: airline_ok_def open_ok_def stories_eq)
  ultimately show "airline_ok w2"
    using ok s2 p active
    by (simp add: airline_ok_def stories_ok_def fresh_ok_def evaluations_ok_def stories_eq story_ok_over)
qed

lemma aog_settled_ok:
  assumes ok: "airline_ok w2" "aw_aog_commands w2 = []" "map_of (aw_aog_story w2) aog_story = Some ''resolved''"
    and pass: "ae_status ev = ''pass''"
    and w': "w' = snd (settle_aog w2 c opt refs wo mv n cm ev cause d es)"
  shows "airline_ok w'"
proof -
  note eff = settle_aog_effect[OF w']
  obtain e1 e2 where "aw_aog_commands w' = dict_set (cm_id cm) (cm\<lparr>cm_last_event_id := e1\<rparr>) []"
    and ae: "aw_aog_evaluations w' = dict_set (ae_id ev) (ev\<lparr>ae_last_event_id := e2\<rparr>) (aw_aog_evaluations w2)"
    using eff(3,4) ok(2) by auto
  moreover have "story_ok (Some ''resolved'') (map_of (aw_events w2) aog_scenario) [(cm_id cm, cm\<lparr>cm_last_event_id := e1\<rparr>)]"
    using ok by (intro story_ok_commit) (auto simp: airline_ok_def stories_ok_def)
  ultimately have "stories_ok w'" using ok eff(5) by (simp add: airline_ok_def stories_ok_def stories_eq)
  moreover have "\<forall>(_, e) \<in> set (aw_aog_evaluations w'). ae_status e = ''pass''"
    unfolding ae by (rule dict_set_pass) (use ok(1) pass in \<open>simp_all add: airline_ok_def evaluations_ok_def\<close>)
  then have "evaluations_ok w'" using ok(1) eff(5) by (simp add: airline_ok_def evaluations_ok_def stories_eq)
  moreover have "plan_ok (plan w')" "fresh_ok w'" "open_ok w'"
    using ok(1) eff(1,5) plan_eqD[OF eff(1)] by (auto simp: airline_ok_def fresh_ok_def open_ok_def stories_eq)
  ultimately show ?thesis by (simp add: airline_ok_def)
qed

lemma apply_aog_ok:
  assumes ok: "airline_ok w" and app: "apply_aog_recovery_command fr w c = (r, w')"
  shows "airline_ok w' \<and> caches w' = caches w"
proof (cases "\<exists>opt obs. validated_aog fr w c = Inr (Inr (opt, obs))")
  case False
  then have "w' = w \<or> (\<exists>m. w' = snd (aog_reject w c m))"
    using app by (auto simp: apply_aog_recovery_command_def reads_def split: sum.splits dest: apfst_snd)
  with ok show ?thesis
    using reject_frame(4-6)[of w c] by (metis airline_ok_cong)
next
  case True
  then obtain opt obs where v: "validated_aog fr w c = Inr (Inr (opt, obs))" by blast
  then have acc: "accept_aog fr w c opt obs = (r, w')" using app by (simp add: apply_aog_recovery_command_def)
  obtain rs rr i where adm: "aog_options w = Inr (obs, rs)" "result_for i rs = Some rr" "fe_feasible rr"
      "opt = fe_option rr" and active: "map_of (aw_aog_story w) aog_story = Some ''active''"
    using validated_aog_Inr[OF v] by metis
  from acc show ?thesis
  proof (cases rule: accept_aog_outcome)
    case refused
    with ok show ?thesis using airline_ok_cong by blast
  next
    case (raised refs w1 wo mv n)
    note mut = aog_mutation_ok[OF ok active adm raised(1,3)]
    have "airline_ok w'" using mut by (intro aog_resolved_ok(1)[OF ok active _ _ _ _ raised(3)]) auto
    moreover have "caches w' = caches w"
      using mut raised(3) by (simp add: caches_def airline_parts register_work_fields)
    ultimately show ?thesis ..
  next
    case (settled refs w1 w2 wo mv n cm ev cause d es)
    note mut = aog_mutation_ok[OF ok active adm settled(1,2)]
    have ok2: "airline_ok w2" "aw_aog_commands w2 = []"
      using mut by (auto intro!: aog_resolved_ok[OF ok active _ _ _ _ settled(2)])
    have "map_of (aw_aog_story w2) aog_story = Some ''resolved''"
      by (simp add: settled(2) register_work_def Let_def split: option.splits)
    moreover have "ae_status ev = ''pass''" using mut settled(3) by blast
    moreover have w': "w' = snd (settle_aog w2 c opt refs wo mv n cm ev cause d es)" using settled(4) by simp
    ultimately have "airline_ok w'" using ok2 by (intro aog_settled_ok[OF ok2 _ _ w'])
    moreover have "caches w' = caches w"
      using settle_aog_effect(2)[OF w'] mut settled(2) by (simp add: caches_def airline_parts register_work_fields)
    ultimately show ?thesis ..
  qed
qed

section \<open>Commands of the schedule\<close>

lemma sched_mutation_ok:
  assumes p: "plan_ok (plan w)" and mut: "mutate_sched w opt = (Inr refs, w1)"
    and w2: "w2 = (bump_all refs w1)\<lparr>aw_sched_story := dict_set sched_story (story_after opt) (aw_sched_story w1)\<rparr>"
  shows "plan_ok (plan w2) \<and> (aircraft_part w2 = aircraft_part w \<or>
      (\<exists>st. aircraft_part w2 = amend reserve_tail_id (\<lambda>(i, _). (i, st)) (aircraft_part w)))
    \<and> (\<forall>x \<in> set (sector_part w2). fst x = target_sector_id \<longrightarrow> x \<in> set (sector_part w))
    \<and> stories w1 = stories w \<and> caches w1 = caches w"
proof -
  have plan2: "plan w2 = plan w1" by (simp add: w2 airline_frame)
  consider (same) "mutate_buffer_retime w = (Inr refs, w1) \<or> mutate_monitor_risk w = (Inr refs, w1)"
    | (reserve) "mutate_preposition w = (Inr refs, w1)" | (cancel) "mutate_cancel_limited w = (Inr refs, w1)"
    using mut by (auto simp: mutate_sched_def split: if_splits)
  then show ?thesis
  proof cases
    case same
    then have eff: "plan w1 = plan w \<and> stories w1 = stories w \<and> caches w1 = caches w"
      using plan_same_effects(2,3) by blast
    with p plan2 show ?thesis by (simp add: plan_def)
  next
    case reserve
    note eff = preposition_effect[OF reserve]
    have "plan_ok (plan w2)" using p unfolding plan2 eff(1) by (auto simp: plan_ok_def plan_def in_amend)
    with eff plan2 show ?thesis by (auto simp: plan_def)
  next
    case cancel
    note eff = cancel_limited_effect[OF cancel]
    have "plan_ok (plan w2)"
      using p unfolding plan2 eff(1) by (auto simp: plan_ok_def plan_def intro!: plan_ok_cancel)
    with eff plan2 show ?thesis by (auto simp: plan_def in_amend)
  qed
qed

lemma story_after_over: "story_after opt \<noteq> ''active''"
  by (simp add: story_after_def)

lemma sched_resolved_ok:
  assumes ok: "airline_ok w" and active: "map_of (aw_sched_story w) sched_story = Some ''active''"
    and st: "stories w1 = stories w" and p: "plan_ok (plan w2)"
    and ac: "aircraft_part w2 = aircraft_part w \<or>
      (\<exists>st. aircraft_part w2 = amend reserve_tail_id (\<lambda>(i, _). (i, st)) (aircraft_part w))"
    and on: "\<forall>x \<in> set (sector_part w2). fst x = target_sector_id \<longrightarrow> x \<in> set (sector_part w)"
    and w2: "w2 = (bump_all refs w1)\<lparr>aw_sched_story := dict_set sched_story (story_after opt) (aw_sched_story w1)\<rparr>"
  shows "airline_ok w2" "aw_adjustments w2 = []"
proof -
  have s2: "stories w2 = stories (w\<lparr>aw_sched_story := dict_set sched_story (story_after opt) (aw_sched_story w)\<rparr>)"
    using st by (simp add: w2 stories_def airline_parts)
  have ev: "map_of (aw_events w) sched_scenario \<noteq> None" and rc: "aw_adjustments w = []"
    using ok active by (auto simp: airline_ok_defs dest: story_ok_active)
  show "aw_adjustments w2 = []" using s2 rc by (simp add: stories_eq)
  have "aw_installed w" using ok ev by (auto simp: airline_ok_defs)
  moreover have "open_ok w2"
    using ok s2 open_ok_aircraft[OF _ ac] on by (fastforce simp: airline_ok_def open_ok_def stories_eq)
  ultimately show "airline_ok w2"
    using ok s2 p active
    by (simp add: airline_ok_def stories_ok_def fresh_ok_def evaluations_ok_def stories_eq story_ok_over
        story_after_over)
qed

lemma sched_settled_ok:
  assumes ok: "airline_ok w2" "aw_adjustments w2 = []" "map_of (aw_sched_story w2) sched_story = Some st"
    and st: "st \<noteq> ''active''" and w': "w' = snd (settle_sched w2 c opt refs n cm ev cause d es)"
  shows "airline_ok w'"
proof -
  note eff = settle_sched_effect[OF w']
  obtain e where "aw_adjustments w' = dict_set (cm_id cm) (cm\<lparr>cm_last_event_id := e\<rparr>) []"
    using eff(3) ok(2) by auto
  moreover have "story_ok (Some st) (map_of (aw_events w2) sched_scenario) [(cm_id cm, cm\<lparr>cm_last_event_id := e\<rparr>)]"
    using ok st by (intro story_ok_commit) (auto simp: airline_ok_def stories_ok_def)
  ultimately have "stories_ok w'" using ok eff(5) by (simp add: airline_ok_def stories_ok_def stories_eq)
  moreover have "plan_ok (plan w')" "fresh_ok w'" "open_ok w'" "evaluations_ok w'"
    using ok(1) eff(1,5) plan_eqD[OF eff(1)]
    by (auto simp: airline_ok_def fresh_ok_def open_ok_def evaluations_ok_def stories_eq)
  ultimately show ?thesis by (simp add: airline_ok_def)
qed

lemma apply_sched_ok:
  assumes ok: "airline_ok w" and app: "apply_schedule_adjustment_command fr w c = (r, w')"
  shows "airline_ok w' \<and> caches w' = caches w"
proof (cases "\<exists>opt obs. validated_sched fr w c = Inr (Inr (opt, obs))")
  case False
  then have "w' = w \<or> (\<exists>m. w' = snd (sched_reject w c m))"
    using app by (auto simp: apply_schedule_adjustment_command_def reads_def split: sum.splits dest: apfst_snd)
  with ok show ?thesis
    using reject_frame(7-9)[of w c] by (metis airline_ok_cong)
next
  case True
  then obtain opt obs where v: "validated_sched fr w c = Inr (Inr (opt, obs))" by blast
  then have acc: "accept_sched fr w c opt obs = (r, w')" using app by (simp add: apply_schedule_adjustment_command_def)
  have active: "map_of (aw_sched_story w) sched_story = Some ''active''" and p: "plan_ok (plan w)"
    using validated_sched_Inr[OF v] ok by (metis, simp add: airline_ok_def)
  from acc show ?thesis
  proof (cases rule: accept_sched_outcome)
    case refused
    with ok show ?thesis using airline_ok_cong by blast
  next
    case (raised refs w1)
    note mut = sched_mutation_ok[OF p raised(1,3)]
    have "airline_ok w'" using mut by (intro sched_resolved_ok(1)[OF ok active _ _ _ _ raised(3)]) auto
    moreover have "caches w' = caches w" using mut raised(3) by (simp add: caches_def airline_parts)
    ultimately show ?thesis ..
  next
    case (settled refs w1 w2 n cm ev cause d es)
    note mut = sched_mutation_ok[OF p settled(1,2)]
    have ok2: "airline_ok w2" "aw_adjustments w2 = []"
      using mut by (auto intro!: sched_resolved_ok[OF ok active _ _ _ _ settled(2)])
    have "map_of (aw_sched_story w2) sched_story = Some (story_after opt)" by (simp add: settled(2))
    moreover have w': "w' = snd (settle_sched w2 c opt refs n cm ev cause d es)" by (rule apfst_snd[OF settled(4)])
    ultimately have "airline_ok w'" using ok2 story_after_over by (intro sched_settled_ok[OF ok2 _ _ w'])
    moreover have "caches w' = caches w"
      using settle_sched_effect(2)[OF w'] mut settled(2) by (simp add: caches_def airline_parts)
    ultimately show ?thesis ..
  qed
qed

section \<open>Any command\<close>

lemma handle_command_ok:
  assumes "airline_ok w"
  shows "airline_ok (snd (handle_command fr w c))" "caches (snd (handle_command fr w c)) = caches w"
  using apply_hub_ok[OF assms prod.collapse[symmetric]] apply_aog_ok[OF assms prod.collapse[symmetric]]
    apply_sched_ok[OF assms prod.collapse[symmetric]]
  by (simp_all add: handle_command_def)

lemma cache_updates:
  fixes w :: airline
  shows "stories (w\<lparr>aw_processed := d\<rparr>) = stories w" "stories (w\<lparr>aw_conflicts := cf\<rparr>) = stories w"
    "stories (w\<lparr>rt_now := t\<rparr>) = stories w" "stories (w\<lparr>aw_traces := tr\<rparr>) = stories w"
    "caches (w\<lparr>rt_now := t\<rparr>) = caches w" "caches (w\<lparr>aw_traces := tr\<rparr>) = caches w"
  by (simp_all add: stories_def caches_def)

text \<open>What a command does to the world: its handler, and then the two caches.\<close>

lemma apply_command_cases:
  assumes "apply_command fr c w = (r, w')"
  obtains (again) prior e where "map_of (aw_processed w) (cmd_id c) = Some (prior, e)" "same_command prior c"
      "r = Inr e" "w' = w"
  | (conflict) prior p e where "map_of (aw_processed w) (cmd_id c) = Some (prior, p)" "\<not> same_command prior c"
      "map_of (aw_conflicts w) (cmd_id c) = Some e" "r = Inr e" "w' = w"
  | (refused) prior p e w1 where "map_of (aw_processed w) (cmd_id c) = Some (prior, p)" "\<not> same_command prior c"
      "map_of (aw_conflicts w) (cmd_id c) = None"
      "reject w c ''idempotency key was reused with a different command payload'' = (e, w1)" "r = Inr e"
      "w' = w1\<lparr>aw_conflicts := dict_set (cmd_id c) e (aw_conflicts w1)\<rparr>"
  | (raised) x where "map_of (aw_processed w) (cmd_id c) = None" "handle_command fr w c = (Inl x, w')" "r = Inl x"
  | (handled) e w1 where "map_of (aw_processed w) (cmd_id c) = None" "handle_command fr w c = (Inr e, w1)"
      "r = Inr e" "w' = w1\<lparr>aw_processed := dict_set (cmd_id c) (c, e) (aw_processed w1)\<rparr>"
proof (cases "map_of (aw_processed w) (cmd_id c)")
  case None
  obtain q w1 where h: "handle_command fr w c = (q, w1)" by fastforce
  show thesis
  proof (cases q)
    case (Inl x)
    with None h assms have "r = Inl x" "w' = w1" by (simp_all add: apply_command_def)
    with None h Inl show thesis by (intro raised) simp_all
  next
    case (Inr e)
    with None h assms show thesis by (intro handled[OF None, of e w1]) (simp_all add: apply_command_def)
  qed
next
  case (Some pe)
  obtain prior e where pe: "pe = (prior, e)" by (cases pe)
  note entry = Some[unfolded pe]
  show thesis
  proof (cases "same_command prior c")
    case True
    with entry assms show thesis by (intro again[OF entry True]) (auto simp: apply_command_def)
  next
    case False
    show thesis
    proof (cases "map_of (aw_conflicts w) (cmd_id c)")
      case None
      obtain e1 w1 where rj: "reject w c ''idempotency key was reused with a different command payload'' = (e1, w1)"
        by fastforce
      from entry False None assms show thesis
        unfolding apply_command_def by (intro refused[OF _ _ _ rj]) (simp_all add: rj)
    next
      case (Some e1)
      with entry False assms show thesis by (intro conflict[OF entry False Some]) (auto simp: apply_command_def)
    qed
  qed
qed

lemma apply_command_ok:
  assumes ok: "airline_ok w"
  shows "airline_ok (snd (apply_command fr c w))"
proof -
  obtain r w' where app: "apply_command fr c w = (r, w')" by fastforce
  then have "airline_ok w'"
  proof (cases rule: apply_command_cases)
    case (refused prior p e w1)
    then have "w1 = snd (reject w c ''idempotency key was reused with a different command payload'')" by simp
    with ok refused(6) show ?thesis
      using airline_ok_cong[of w' w] by (simp add: airline_frame cache_updates)
  next
    case (raised x)
    with ok show ?thesis using handle_command_ok(1)[OF ok, of fr c] by simp
  next
    case (handled e w1)
    then have "airline_ok w1" using handle_command_ok(1)[OF ok, of fr c] by simp
    with handled(4) show ?thesis using airline_ok_cong[of w' w1] by (simp add: airline_frame cache_updates)
  qed (use ok in auto)
  with app show ?thesis by simp
qed

text \<open>An entry of a cache is not overwritten.\<close>

definition keeps_caches :: "airline \<Rightarrow> airline \<Rightarrow> bool" where
  "keeps_caches w w' \<longleftrightarrow> map_of (aw_processed w) \<subseteq>\<^sub>m map_of (aw_processed w')
     \<and> map_of (aw_conflicts w) \<subseteq>\<^sub>m map_of (aw_conflicts w')"

lemma keeps_caches_same: "caches w' = caches w \<Longrightarrow> keeps_caches w w'"
  by (simp add: keeps_caches_def caches_def)

lemma map_le_new: "m k = None \<Longrightarrow> m \<subseteq>\<^sub>m m(k \<mapsto> v)"
  by (auto simp: map_le_def)

lemma caches_eq: "caches w' = caches w \<longleftrightarrow> aw_processed w' = aw_processed w \<and> aw_conflicts w' = aw_conflicts w"
  by (simp add: caches_def)

lemma apply_command_keeps:
  assumes ok: "airline_ok w"
  shows "keeps_caches w (snd (apply_command fr c w))"
proof -
  obtain r w' where app: "apply_command fr c w = (r, w')" by fastforce
  then have "keeps_caches w w'"
  proof (cases rule: apply_command_cases)
    case (refused prior p e w1)
    then have "caches w1 = caches w" using reject_frame(3)[of w c] by (metis snd_conv)
    with refused(3,6) show ?thesis by (simp add: keeps_caches_def caches_eq map_of_dict_set map_le_new)
  next
    case (raised x)
    then show ?thesis using handle_command_ok(2)[OF ok, of fr c] by (simp add: keeps_caches_same)
  next
    case (handled e w1)
    then have "caches w1 = caches w" using handle_command_ok(2)[OF ok, of fr c] by simp
    with handled(1,4) show ?thesis by (simp add: keeps_caches_def caches_eq map_of_dict_set map_le_new)
  qed (simp_all add: keeps_caches_def)
  with app show ?thesis by simp
qed

section \<open>Reachable worlds\<close>

text \<open>
  The steps of the world: its entry points, the clock of the runtime, and the events that other users
  of the runtime record.  Only the world itself records that a sensor tripped.
\<close>

inductive airline_step :: "(pyfloat \<Rightarrow> string) \<Rightarrow> airline \<Rightarrow> airline \<Rightarrow> bool" for fr where
  installs: "airline_step fr w (install w)"
| activates: "airline_step fr w (snd (activate_scenario s w))"
| binds: "airline_step fr w (snd (bind_scenario_trace s t w))"
| commands: "airline_step fr w (snd (apply_command fr c w))"
| advances: "airline_step fr w (w\<lparr>rt_now := t\<rparr>)"
| records: "ty \<noteq> ''sensor.tripped'' \<Longrightarrow> airline_step fr w (snd (emit ty a t cause tr p w))"

abbreviation airline_steps where
  "airline_steps fr \<equiv> (airline_step fr)\<^sup>*\<^sup>*"

definition airline_reach :: "(pyfloat \<Rightarrow> string) \<Rightarrow> airline \<Rightarrow> bool" where
  "airline_reach fr w \<longleftrightarrow> (\<exists>seed. airline_steps fr (new_airline seed) w)"

lemma bind_parts:
  "plan (snd (bind_scenario_trace s t w)) = plan w" "stories (snd (bind_scenario_trace s t w)) = stories w"
  "caches (snd (bind_scenario_trace s t w)) = caches w"
  by (simp_all add: bind_scenario_trace_def airline_frame cache_updates)

lemma airline_step_ok: "airline_step fr w w' \<Longrightarrow> airline_ok w \<Longrightarrow> airline_ok w'"
proof (induction rule: airline_step.induct)
  case (advances w t)
  then show ?case using airline_ok_cong[of "w\<lparr>rt_now := t\<rparr>" w] by (simp add: airline_frame cache_updates)
next
  case (records ty w a t cause tr p)
  then show ?case using airline_ok_cong[of "snd (emit ty a t cause tr p w)" w] by (simp add: airline_frame)
next
  case (binds w s t)
  then show ?case using airline_ok_cong[of "snd (bind_scenario_trace s t w)" w] by (simp add: bind_parts)
qed (simp_all add: install_ok activate_scenario_ok apply_command_ok)

lemma activate_caches: "caches (snd (activate_scenario s w)) = caches w"
proof -
  have h: "caches w' = caches w" if "activate_hub w = (r, w')" for r w'
    using that by (cases rule: activate_hub_cases) (simp_all add: disrupt_hub_effect(5)[OF refl])
  have a: "caches w' = caches w" if "activate_aog w = (r, w')" for r w'
    using that by (cases rule: activate_aog_cases) (simp_all add: ground_aircraft_effect(5)[OF refl])
  have s: "caches w' = caches w" if "activate_schedule w = (r, w')" for r w'
    using that by (cases rule: activate_schedule_cases) (simp_all add: restrict_schedule_effect(5)[OF refl])
  show ?thesis
    unfolding activate_scenario_def
    using h[OF prod.collapse[symmetric]] a[OF prod.collapse[symmetric]] s[OF prod.collapse[symmetric]] by simp
qed

lemma airline_step_keeps: "airline_step fr w w' \<Longrightarrow> airline_ok w \<Longrightarrow> keeps_caches w w'"
proof (induction rule: airline_step.induct)
  case (installs w)
  have "caches (install w) = caches w"
    using install_stories(2)[of w] by (cases "aw_installed w") (simp_all add: install_def)
  then show ?case by (rule keeps_caches_same)
next
  case (commands w c)
  then show ?case by (simp add: apply_command_keeps)
qed (simp_all add: keeps_caches_same activate_caches bind_parts cache_updates airline_frame)

lemma airline_steps_ok:
  assumes "airline_steps fr w w'" "airline_ok w"
  shows "airline_ok w' \<and> keeps_caches w w'"
  using assms
proof (induction rule: rtranclp_induct)
  case (step y z)
  then have "airline_ok z" "keeps_caches w y" "keeps_caches y z"
    using airline_step_ok[OF step(2)] airline_step_keeps[OF step(2)] by simp_all
  then show ?case unfolding keeps_caches_def by (blast intro: map_le_trans)
qed (simp add: keeps_caches_def)

lemma airline_reach_ok: "airline_reach fr w \<Longrightarrow> airline_ok w"
  unfolding airline_reach_def using airline_steps_ok airline_ok_new by metis

lemma airline_reach_new: "airline_reach fr (new_airline seed)"
  by (auto simp: airline_reach_def)

lemma airline_reach_steps: "airline_reach fr w \<Longrightarrow> airline_steps fr w w' \<Longrightarrow> airline_reach fr w'"
  unfolding airline_reach_def by (metis rtranclp_trans)

lemma airline_reach_step: "airline_reach fr w \<Longrightarrow> airline_step fr w w' \<Longrightarrow> airline_reach fr w'"
  by (rule airline_reach_steps) auto

end
