(* ===== verification/Airline_Outcomes.thy ===== *)
theory Airline_Outcomes imports Airline_Reach begin

text \<open>
  The properties of the airline recovery: what the operations never do to the plan, how often a story
  is committed, who may commit it, and what a command does when it is sent again.
\<close>

section \<open>Commands built from an option\<close>

lemma py_eq_refl_versions: "py_eq (VDict (versions_of ps)) (VDict (versions_of ps))"
proof -
  have "distinct (map fst (fold (\<lambda>(k, v). dict_set k v) ps d))"
    if "distinct (map fst d)" for d :: "(string \<times> int) list"
    using that by (induction ps arbitrary: d) (auto simp: distinct_dict_set)
  from this[of "[]"] have d: "distinct (map fst (versions_of ps))"
    by (simp add: versions_of_def dict_merge_def comp_def split_beta)
  then have "map_of (versions_of ps) k = Some v" if "(k, v) \<in> set (versions_of ps)" for k v
    using that by (rule map_of_is_SomeI)
  moreover have "py_eq v v" if "(k, v) \<in> set (versions_of ps)" for k v
    using that by (auto simp: versions_of_def pf_eq_def)
  ultimately show ?thesis by (auto split: option.splits)
qed

lemma py_eq_refl_actions:
  "py_eq (recovery_action_to_dict a) (recovery_action_to_dict a)"
  "py_eq (aog_action_to_dict b) (aog_action_to_dict b)"
  by (auto simp: recovery_action_to_dict_def aog_action_to_dict_def opt_str_def pf_eq_def
      split: option.splits)

lemma py_eq_refl_list: "(\<And>x. x \<in> set xs \<Longrightarrow> py_eq (f x) (f x)) \<Longrightarrow> py_eq (VList (map f xs)) (VList (map f xs))"
  by (auto simp: set_zip)

lemma value_right: "0 \<le> q \<Longrightarrow> q \<le> l \<Longrightarrow> \<not> value_wrong (VFloat (Fin q)) q l"
  by (simp add: value_wrong_def number_def)

lemma limits:
  "spend_limit hub_persona = 150000" "spend_limit aog_persona = 200000" "spend_limit sched_persona = 300000"
  "may_approve hub_persona hub_command_type" "may_approve aog_persona aog_command_type"
  "may_approve sched_persona sched_command_type"
  "\<exists>row. map_of airline_authority aog_persona = Some row"
  "\<exists>row. map_of airline_authority sched_persona = Some row"
  by (simp_all add: spend_limit_def may_approve_def airline_authority_def)


lemma hub_trace:
  assumes "current_recovery_observation w = Inr obs"
  shows "\<exists>t. dict_get obs ''trace_id'' = VStr t" "map_of (aw_disruption w) hub_story = Some ''active''"
proof -
  obtain e where e: "last_sensor hub_sensor hub_story w = Some e" "build_observation (event_to_dict e) None w = Inr obs"
    and active: "map_of (aw_disruption w) hub_story = Some ''active''"
    using assms by (auto simp: current_recovery_observation_def unavailable_def split: if_splits option.splits)
  show "map_of (aw_disruption w) hub_story = Some ''active''" by (rule active)
  have "hub_observation (event_to_dict e) None w = Inr obs"
    using e(2) last_sensorD(2,3)[OF e(1)] by (simp add: build_observation_def event_to_dict_def)
  then show "\<exists>t. dict_get obs ''trace_id'' = VStr t"
    by (auto simp: hub_observation_def bind_result_Inr_iff Let_def event_to_dict_def split: if_splits)
qed

lemma aog_trace:
  assumes "current_aog_observation w = Inr obs"
  shows "\<exists>t. dict_get obs ''trace_id'' = VStr t" "map_of (aw_aog_story w) aog_story = Some ''active''"
  using assms
  by (auto simp: current_aog_observation_def unavailable_def bind_result_Inr_iff Let_def
      split: if_splits option.splits)

lemma sched_trace:
  assumes "current_schedule_observation w = Inr obs"
  shows "\<exists>t. dict_get obs ''trace_id'' = VStr t" "map_of (aw_sched_story w) sched_story = Some ''active''"
  using assms
  by (auto simp: current_schedule_observation_def unavailable_def bind_result_Inr_iff Let_def
      split: if_splits option.splits)


lemma result_for_id: "result_for i rs = Some r \<Longrightarrow> po_id (fe_option r) = i \<and> r \<in> set rs"
  by (auto simp: result_for_def dest!: first_match_SomeD)

lemma str_at_VStr: "dict_get d k = VStr s \<Longrightarrow> str_at fr d k = Inr s"
  by (auto simp: str_at_def at_key_def dict_get_def split: option.splits)

lemma in_strs_VStr: "in_strs (VStr s) S = Inr (s \<in> set S)"
  by (simp add: in_strs_def)

lemma built_hub_validated:
  assumes built: "command_for_hub fr w i n d hub_persona = Inr c"
    and ids: "starts_with ''AIRHUB-'' n" "starts_with ''SYN-DECISION-'' d"
  shows "\<exists>opt obs. po_id opt = i \<and> validated_hub fr w c = Inr (Inr (opt, obs))"
proof -
  obtain obs rs r t where o: "hub_options w = Inr (obs, rs)" "result_for i rs = Some r" "fe_feasible r"
    and t: "dict_get obs ''trace_id'' = VStr t"
    and c: "c = \<lparr>cmd_id = recovery_command_id n d i, cmd_trace = t,
                  cmd_issuer = hub_issuer, cmd_type = hub_command_type,
                  cmd_payload =
                    [(''workflow_id'', VStr n),
                     (''objective_id'', VStr (''SYN-OBJECTIVE-'' @ n)),
                     (''decision_id'', VStr d),
                     (''disruption_id'', VStr ''SYN-DISRUPTION-HUB-001''),
                     (''scenario_id'', VStr hub_scenario), (''story_id'', VStr hub_story),
                     (''persona'', VStr hub_persona), (''option_id'', VStr i),
                     (''action_category'', VStr ''integrated_hub_recovery''),
                     (''actions'', VList (map recovery_action_to_dict (po_actions (fe_option r)))),
                     (''evidence_versions'', VDict (versions_of (po_evidence (fe_option r)))),
                     (''value_gbp'', VFloat (Fin (po_value (fe_option r)))),
                     (''expected_event_type'', VStr hub_success),
                     (''expected_evaluation_type'', VStr ''airline.recovery.evaluation'')]\<rparr>"
  proof -
    obtain obs rs where o: "hub_options w = Inr (obs, rs)"
      using built by (auto simp: command_for_hub_def bind_result_Inr_iff)
    then have "current_recovery_observation w = Inr obs" by (auto simp: hub_options_def bind_result_Inr_iff)
    then obtain t where t: "dict_get obs ''trace_id'' = VStr t" using hub_trace(1) by blast
    obtain r where r: "result_for i rs = Some r" "fe_feasible r"
      using built o by (auto simp: command_for_hub_def Let_def split: option.splits if_splits)
    have tr: "str_at fr obs ''trace_id'' = Inr t" by (rule str_at_VStr[OF t])
    from built o r tr show thesis
      using result_for_id[OF r(1)] by (intro that[OF o r t]) (simp add: command_for_hub_def Let_def)
  qed
  note adm = hub_admitted[OF o]
  have known: "i \<in> {tail_option_id, cancel_option_id, retime_option_id}" "0 \<le> po_value (fe_option r)"
      "po_value (fe_option r) \<le> 150000"
    using adm(2) result_for_id[OF o(2)] by (auto simp: option_parts)
  have "first_fault (hub_faults fr c obs (fe_option r)) = None"
    using ids known(2,3) t
    by (simp add: first_fault_None hub_faults_def c Let_def limits value_right py_eq_refl_versions
        py_eq_refl_list py_eq_refl_actions del: py_eq.simps)
  with o hub_trace(2)[OF adm(1)] known(1) show ?thesis
    using result_for_id[OF o(2)]
    by (auto simp: validated_hub_def c in_strs_VStr Let_def chosen_def)
qed

lemma built_aog_validated:
  assumes built: "command_for_aog fr w i n d aog_persona = Inr c"
    and ids: "starts_with ''AOGA-'' n" "starts_with ''SYN-AOG-DECISION-'' d"
  shows "\<exists>opt obs. po_id opt = i \<and> validated_aog fr w c = Inr (Inr (opt, obs))"
proof -
  obtain obs rs r t where o: "aog_options w = Inr (obs, rs)" "result_for i rs = Some r" "fe_feasible r"
    and t: "dict_get obs ''trace_id'' = VStr t"
    and c: "c = \<lparr>cmd_id = aog_recovery_command_id n d i, cmd_trace = t,
                  cmd_issuer = aog_issuer, cmd_type = aog_command_type,
                  cmd_payload =
                    [(''workflow_id'', VStr n),
                     (''objective_id'', VStr (''SYN-AOG-OBJECTIVE-'' @ n)),
                     (''decision_id'', VStr d),
                     (''scenario_id'', VStr aog_scenario), (''story_id'', VStr aog_story),
                     (''persona'', VStr aog_persona), (''option_id'', VStr i),
                     (''action_category'', VStr ''aog_engineering_recovery''),
                     (''actions'', VList (map aog_action_to_dict (po_actions (fe_option r)))),
                     (''evidence_versions'', VDict (versions_of (po_evidence (fe_option r)))),
                     (''value_gbp'', VFloat (Fin (po_value (fe_option r)))),
                     (''expected_event_type'', VStr aog_success),
                     (''expected_evaluation_type'', VStr ''airline.aog.evaluation'')]\<rparr>"
  proof -
    obtain obs rs where o: "aog_options w = Inr (obs, rs)"
      using built by (auto simp: command_for_aog_def bind_result_Inr_iff)
    then have "current_aog_observation w = Inr obs" by (auto simp: aog_options_def bind_result_Inr_iff)
    then obtain t where t: "dict_get obs ''trace_id'' = VStr t" using aog_trace(1) by blast
    obtain r where r: "result_for i rs = Some r" "fe_feasible r"
      using built o by (auto simp: command_for_aog_def Let_def split: option.splits if_splits)
    have tr: "str_at fr obs ''trace_id'' = Inr t" by (rule str_at_VStr[OF t])
    from built o r tr show thesis
      using result_for_id[OF r(1)] by (intro that[OF o r t]) (simp add: command_for_aog_def Let_def)
  qed
  have obs: "current_aog_observation w = Inr obs" using o(1) by (auto simp: aog_options_def bind_result_Inr_iff)
  note adm = obs aog_admitted[OF o]
  have known: "i \<in> {work_local_id, work_repo_id, substitute_id}" "0 \<le> po_value (fe_option r)"
      "po_value (fe_option r) \<le> 200000"
    using adm(2) result_for_id[OF o(2)] by (auto simp: option_parts)
  have "first_fault (aog_faults fr c obs (fe_option r)) = None"
    using ids known(2,3) t
    by (simp add: first_fault_None aog_faults_def c Let_def limits value_right py_eq_refl_versions
        py_eq_refl_list py_eq_refl_actions del: py_eq.simps)
  with o aog_trace(2)[OF adm(1)] known(1) show ?thesis
    using result_for_id[OF o(2)]
    by (auto simp: validated_aog_def c in_strs_VStr Let_def chosen_def)
qed

lemma sched_admitted:
  assumes "sched_options fr w = Inr (obs, rs)" "result_for i rs = Some r" "fe_feasible r"
  shows "current_schedule_observation w = Inr obs"
    "fe_option r \<in> {buffer_retime_option obs, preposition_option obs, cancel_limited_option obs,
       monitor_risk_option obs}"
proof -
  show obs: "current_schedule_observation w = Inr obs"
    using assms(1) by (auto simp: sched_options_def bind_result_Inr_iff)
  have "admit_schedule_options fr obs = Inr rs" "r \<in> set rs"
    using assms by (auto simp: sched_options_def bind_result_Inr_iff dest!: result_for_id)
  then have "Inr r \<in> set [buffer_retime_feasibility fr obs (buffer_retime_option obs),
      preposition_feasibility obs (preposition_option obs),
      cancel_limited_feasibility obs (cancel_limited_option obs),
      monitor_risk_feasibility obs (monitor_risk_option obs),
      Inr (infeasible_feasibility fr obs (infeasible_option obs))]"
    unfolding admit_schedule_options_def all_ok_Inr_iff by (metis image_eqI set_map)
  then consider "buffer_retime_feasibility fr obs (buffer_retime_option obs) = Inr r"
    | "preposition_feasibility obs (preposition_option obs) = Inr r"
    | "cancel_limited_feasibility obs (cancel_limited_option obs) = Inr r"
    | "monitor_risk_feasibility obs (monitor_risk_option obs) = Inr r"
    | "r = infeasible_feasibility fr obs (infeasible_option obs)" by auto
  then show "fe_option r \<in> {buffer_retime_option obs, preposition_option obs, cancel_limited_option obs,
       monitor_risk_option obs}"
  proof cases
    case 1
    from feasible_verdict[OF this[unfolded buffer_retime_feasibility_def Let_def] assms(3)] show ?thesis by simp
  next
    case 2
    from feasible_verdict[OF this[unfolded preposition_feasibility_def Let_def] assms(3)] show ?thesis by simp
  next
    case 3
    from feasible_verdict[OF this[unfolded cancel_limited_feasibility_def Let_def] assms(3)] show ?thesis by simp
  next
    case 4
    from feasible_verdict[OF this[unfolded monitor_risk_feasibility_def Let_def] assms(3)] show ?thesis by simp
  next
    case 5
    with assms(3) show ?thesis by (simp add: infeasible_feasibility_def Let_def)
  qed
qed

lemma built_sched_validated:
  assumes built: "command_for_schedule fr w i n d sched_persona = Inr c"
    and ids: "starts_with ''AIRSCHED-'' n" "starts_with ''SYN-SCHED-DECISION-'' d"
  shows "\<exists>opt obs. po_id opt = i \<and> validated_sched fr w c = Inr (Inr (opt, obs))"
proof -
  obtain obs rs r t where o: "sched_options fr w = Inr (obs, rs)" "result_for i rs = Some r" "fe_feasible r"
    and t: "dict_get obs ''trace_id'' = VStr t"
    and c: "c = \<lparr>cmd_id = schedule_command_id n d i, cmd_trace = t,
                  cmd_issuer = sched_issuer, cmd_type = sched_command_type,
                  cmd_payload =
                    [(''workflow_id'', VStr n),
                     (''objective_id'', VStr (''SYN-SCHED-OBJECTIVE-'' @ n)),
                     (''decision_id'', VStr d),
                     (''scenario_id'', VStr sched_scenario), (''story_id'', VStr sched_story),
                     (''persona'', VStr sched_persona), (''option_id'', VStr i),
                     (''action_category'', VStr ''schedule_resilience''),
                     (''actions'', VList (map aog_action_to_dict (po_actions (fe_option r)))),
                     (''evidence_versions'', VDict (versions_of (po_evidence (fe_option r)))),
                     (''value_gbp'', VFloat (Fin (po_value (fe_option r)))),
                     (''expected_event_type'', VStr sched_success),
                     (''expected_evaluation_type'', VStr ''airline.schedule.evaluation'')]\<rparr>"
  proof -
    obtain obs rs where o: "sched_options fr w = Inr (obs, rs)"
      using built by (auto simp: command_for_schedule_def bind_result_Inr_iff)
    then have "current_schedule_observation w = Inr obs" by (auto simp: sched_options_def bind_result_Inr_iff)
    then obtain t where t: "dict_get obs ''trace_id'' = VStr t" using sched_trace(1) by blast
    obtain r where r: "result_for i rs = Some r" "fe_feasible r"
      using built o by (auto simp: command_for_schedule_def Let_def split: option.splits if_splits)
    have tr: "str_at fr obs ''trace_id'' = Inr t" by (rule str_at_VStr[OF t])
    from built o r tr show thesis
      using result_for_id[OF r(1)] by (intro that[OF o r t]) (simp add: command_for_schedule_def Let_def)
  qed
  note adm = sched_admitted[OF o]
  have known: "i \<in> {buffer_retime_id, preposition_id, cancel_limited_id, monitor_risk_id}" "0 \<le> po_value (fe_option r)"
      "po_value (fe_option r) \<le> 300000"
    using adm(2) result_for_id[OF o(2)] by (auto simp: option_parts)
  have "first_fault (sched_faults fr c obs (fe_option r)) = None"
    using ids known(2,3) t
    by (simp add: first_fault_None sched_faults_def c Let_def limits value_right py_eq_refl_versions
        py_eq_refl_list py_eq_refl_actions del: py_eq.simps)
  with o sched_trace(2)[OF adm(1)] known(1) show ?thesis
    using result_for_id[OF o(2)]
    by (auto simp: validated_sched_def c in_strs_VStr Let_def chosen_def)
qed

section \<open>Accepted or rejected\<close>

lemma apfst_Inr_iff: "apfst Inr p = (Inr e, w') \<longleftrightarrow> p = (e, w')"
  by (cases p) simp

lemma hub_event:
  assumes "apply_recovery_command fr w c = (Inr e, w')"
  shows "(\<exists>m. reject w c m = (e, w')) \<or>
    ev_type e = ''command.accepted'' \<and> (\<exists>opt obs. validated_hub fr w c = Inr (Inr (opt, obs)))"
proof -
  obtain v where v: "validated_hub fr w c = Inr v"
    using assms by (cases "validated_hub fr w c") (simp_all add: apply_recovery_command_def)
  show ?thesis
  proof (cases v)
    case (Inl m)
    with v assms show ?thesis by (auto simp: apply_recovery_command_def apfst_Inr_iff)
  next
    case (Inr oo)
    obtain opt obs where oo: "oo = (opt, obs)" by (cases oo)
    with v Inr assms have "accept_hub fr w c opt obs = (Inr e, w')" by (simp add: apply_recovery_command_def)
    then show ?thesis
    proof (cases rule: accept_hub_outcome)
      case (settled refs w1 w2 n cm ev cause d es)
      then show ?thesis
        using settle_hub_effect(6)[OF refl, of w2 c opt refs n cm ev cause d es] v Inr oo by (auto simp: apfst_Inr_iff)
    qed (auto simp: rejects_def)
  qed
qed

lemma aog_event:
  assumes "apply_aog_recovery_command fr w c = (Inr e, w')"
  shows "(\<exists>m. aog_reject w c m = (e, w')) \<or>
    ev_type e = ''command.accepted'' \<and> (\<exists>opt obs. validated_aog fr w c = Inr (Inr (opt, obs)))"
proof -
  obtain v where v: "validated_aog fr w c = Inr v"
    using assms by (cases "validated_aog fr w c") (simp_all add: apply_aog_recovery_command_def)
  show ?thesis
  proof (cases v)
    case (Inl m)
    with v assms show ?thesis by (auto simp: apply_aog_recovery_command_def apfst_Inr_iff)
  next
    case (Inr oo)
    obtain opt obs where oo: "oo = (opt, obs)" by (cases oo)
    with v Inr assms have "accept_aog fr w c opt obs = (Inr e, w')" by (simp add: apply_aog_recovery_command_def)
    then show ?thesis
    proof (cases rule: accept_aog_outcome)
      case (settled refs w1 w2 wo mv n cm ev cause d es)
      then show ?thesis
        using settle_aog_effect(6)[OF refl, of w2 c opt refs wo mv n cm ev cause d es] v Inr oo by auto
    qed (auto simp: rejects_def)
  qed
qed

lemma sched_event:
  assumes "apply_schedule_adjustment_command fr w c = (Inr e, w')"
  shows "(\<exists>m. sched_reject w c m = (e, w')) \<or>
    ev_type e = ''command.accepted'' \<and> (\<exists>opt obs. validated_sched fr w c = Inr (Inr (opt, obs)))"
proof -
  obtain v where v: "validated_sched fr w c = Inr v"
    using assms by (cases "validated_sched fr w c") (simp_all add: apply_schedule_adjustment_command_def)
  show ?thesis
  proof (cases v)
    case (Inl m)
    with v assms show ?thesis by (auto simp: apply_schedule_adjustment_command_def apfst_Inr_iff)
  next
    case (Inr oo)
    obtain opt obs where oo: "oo = (opt, obs)" by (cases oo)
    with v Inr assms have "accept_sched fr w c opt obs = (Inr e, w')"
      by (simp add: apply_schedule_adjustment_command_def)
    then show ?thesis
    proof (cases rule: accept_sched_outcome)
      case (settled refs w1 w2 n cm ev cause d es)
      then show ?thesis
        using settle_sched_effect(6)[OF refl, of w2 c opt refs n cm ev cause d es] v Inr oo by (auto simp: apfst_Inr_iff)
    qed (auto simp: rejects_def)
  qed
qed

text \<open>A rejection writes to the journal only.\<close>

definition journal_only :: "airline \<Rightarrow> airline \<Rightarrow> bool" where
  "journal_only w w' \<longleftrightarrow> (\<exists>n j. w' = w\<lparr>rt_seq := n, rt_journal := j\<rparr>)"

lemma reject_journal:
  "reject w c m = (e, w') \<Longrightarrow> journal_only w w' \<and> ev_type e = ''command.rejected''"
  "aog_reject w c m = (e, w') \<Longrightarrow> journal_only w w' \<and> ev_type e = ''command.rejected''"
  "sched_reject w c m = (e, w') \<Longrightarrow> journal_only w w' \<and> ev_type e = ''command.rejected''"
  by (auto simp: journal_only_def reject_def aog_reject_def sched_reject_def emit_def Let_def)

lemma handled_event:
  assumes "handle_command fr w c = (Inr e, w')"
  shows "ev_type e = ''command.rejected'' \<and> journal_only w w' \<or> ev_type e = ''command.accepted'' \<and>
    ((\<exists>opt obs. validated_hub fr w c = Inr (Inr (opt, obs))) \<or> (\<exists>opt obs. validated_aog fr w c = Inr (Inr (opt, obs)))
     \<or> (\<exists>opt obs. validated_sched fr w c = Inr (Inr (opt, obs))))"
  using assms hub_event[of fr w c e w'] aog_event[of fr w c e w'] sched_event[of fr w c e w']
  by (auto simp: handle_command_def dest: reject_journal split: if_splits)

end
