(* ===== verification/Airline_Sample.thy ===== *)
theory Airline_Sample imports Airline_Outcomes begin

text \<open>
  A small world with an active hub disruption, in which the cancellation is admitted and its command
  accepted, and a seeded world that a recovery was sent to.
\<close>

section \<open>A small world\<close>

lemma collect_total: "(\<forall>(m, r) \<in> set cs. \<exists>b. r = Inr b) \<Longrightarrow> \<exists>ms. collect cs = Inr ms"
proof (induction cs rule: collect.induct)
  case (2 m r cs)
  then obtain b ms where "r = Inr b" "collect cs = Inr ms" by auto
  then have "collect ((m, r) # cs) = Inr (if b then m # ms else ms)" by simp
  then show ?case ..
qed simp

definition demo_sector :: "string \<Rightarrow> string \<Rightarrow> string \<Rightarrow> string \<Rightarrow> string \<times> sector" where
  "demo_sector k a c s = (k, \<lparr>sec_id = k, sec_origin_id = ''H'', sec_destination_id = ''D'', sec_aircraft_id = a,
     sec_crew_duty_id = c, sec_slot_id = s, sec_stand_id = ''P'', sec_scheduled_departure = 170,
     sec_delay_minutes = 0, sec_status = ''scheduled'', sec_version = 1, sec_last_event_id = None\<rparr>)"


definition demo_aircraft :: "string \<Rightarrow> string \<times> aircraft" where
  "demo_aircraft k = (k, \<lparr>ac_id = k, ac_configuration = ''A'', ac_status = ''reserve'',
       ac_current_station_id = ''H'', ac_version = 1, ac_last_event_id = None\<rparr>)"

definition demo_crew :: "string \<Rightarrow> string \<times> crew_duty" where
  "demo_crew k = (k, \<lparr>cr_id = k, cr_qualification = ''A'', cr_sector_ids = [],
       cr_duty_start = 0, cr_duty_limit_minutes = 600, cr_remaining_duty_minutes = 300, cr_status = ''reserve'',
       cr_is_reserve = True, cr_version = 1, cr_last_event_id = None\<rparr>)"

definition demo_slot :: "string \<Rightarrow> string \<Rightarrow> string \<times> airport_slot" where
  "demo_slot k s = (k, \<lparr>slt_id = k, slt_sector_id = s, slt_station_id = ''H'', slt_scheduled_time = 170,
       slt_tolerance_minutes = 15, slt_status = ''allocated'', slt_version = 1, slt_last_event_id = None\<rparr>)"

definition demo_stand :: "string \<Rightarrow> string \<times> stand" where
  "demo_stand k = (k, \<lparr>std_id = k, std_station_id = ''H'', std_compatible_configurations = [''A''],
       std_status = ''available'', std_version = 1, std_last_event_id = None\<rparr>)"

definition sample_hub :: airline where
  "sample_hub = (new_airline 1)\<lparr>
     aw_disruption := [(hub_story, ''active'')],
     aw_aircraft := [demo_aircraft ''A'', demo_aircraft reserve_tail_id],
     aw_crew := [demo_crew ''C'', demo_crew reserve_crew_id],
     aw_slots := [demo_slot ''S'' inbound_sector_id, demo_slot ''SYN-SLOT-05'' target_sector_id],
     aw_stands := [demo_stand ''P'', demo_stand reserve_stand_id],
     aw_rotations := [(''R'', \<lparr>ro_id = ''R'', ro_aircraft_id = ''A'',
       ro_sector_ids = [inbound_sector_id, target_sector_id], ro_minimum_turnaround_minutes = 30,
       ro_status = ''active'', ro_version = 1, ro_last_event_id = None\<rparr>)],
     aw_sectors := [demo_sector inbound_sector_id ''A'' ''C'' ''S'', demo_sector target_sector_id ''A'' ''C'' ''SYN-SLOT-05''],
     rt_journal := [\<lparr>ev_seq = 1, ev_id = ''e1'', ev_time = 0, ev_type = ''sensor.tripped'', ev_actor = Some hub_sensor,
       ev_target = None, ev_cause = None, ev_trace = ''t'', ev_payload = [(''story_id'', VStr hub_story),
       (''inbound_sector_id'', VStr inbound_sector_id), (''stand_id'', VStr ''P'')]\<rparr>]\<rparr>"


lemmas demo = sample_hub_def demo_sector_def demo_aircraft_def demo_crew_def demo_slot_def demo_stand_def
  new_airline_def new_runtime_def runtime.defs airline.defs

lemma demo_sensor: "last_sensor hub_sensor hub_story sample_hub = Some \<lparr>ev_seq = 1, ev_id = ''e1'', ev_time = 0, ev_type = ''sensor.tripped'', ev_actor = Some hub_sensor,
       ev_target = None, ev_cause = None, ev_trace = ''t'', ev_payload = [(''story_id'', VStr hub_story),
       (''inbound_sector_id'', VStr inbound_sector_id), (''stand_id'', VStr ''P'')]\<rparr>"
  by (simp add: demo last_sensor_def)



abbreviation demo_outbound :: sector where
  "demo_outbound \<equiv> snd (demo_sector target_sector_id ''A'' ''C'' ''SYN-SLOT-05'')"
abbreviation demo_inbound :: sector where
  "demo_inbound \<equiv> snd (demo_sector inbound_sector_id ''A'' ''C'' ''S'')"

lemma demo_observed: "\<exists>obs. current_recovery_observation sample_hub = Inr obs \<and>
    record_of obs ''outbound_sector'' = sector_view demo_outbound \<and> record_of obs ''sector'' = sector_view demo_inbound \<and>
    record_of obs ''outbound_slot'' = airport_slot_view (snd (demo_slot ''SYN-SLOT-05'' target_sector_id)) \<and>
    record_of obs ''candidate_aircraft'' = aircraft_view (snd (demo_aircraft reserve_tail_id)) \<and>
    dict_get obs ''sectors'' = VList [VDict (sector_view demo_inbound), VDict (sector_view demo_outbound)] \<and>
    dict_get obs ''evidence_versions'' = VDict (sorted_versions
               [(inbound_sector_id, 1), (''P'', 1), (''R'', 1), (''A'', 1), (''C'', 1), (''S'', 1),
                (target_sector_id, 1), (''A'', 1), (''C'', 1), (''SYN-SLOT-05'', 1), (reserve_tail_id, 1),
                (reserve_crew_id, 1), (reserve_stand_id, 1)]) \<and>
    dict_get obs ''maximum_value_gbp'' = VFloat (Fin 150000) \<and>
    dict_get obs ''no_action_baseline'' = VDict [] \<and> dict_get obs ''sensor_event_id'' = VStr ''e1'' \<and>
    (\<exists>v. at_key ''evidence_event_ids'' obs = Inr v)"
  unfolding current_recovery_observation_def demo_sensor
  by (simp add: demo build_observation_def event_to_dict_def hub_observation_def in_strs_def item_str_def bind_result_Inr_iff rotation_with_def
     event_with_def baseline_of_def record_of_def Let_def py_or_def get_attr_def as_dict_def views_def by_id_def)

lemma demo_options:
  obtains obs rs r where "hub_options sample_hub = Inr (obs, rs)" "result_for cancel_option_id rs = Some r"
    "fe_feasible r" "fe_option r = cancel_option obs" "dict_get obs ''no_action_baseline'' = VDict []"
    "dict_get obs ''sensor_event_id'' = VStr ''e1''" "\<exists>v. at_key ''evidence_event_ids'' obs = Inr v"
proof -
  obtain obs where o: "current_recovery_observation sample_hub = Inr obs"
    "record_of obs ''outbound_sector'' = sector_view demo_outbound"
    "dict_get obs ''sectors'' = VList [VDict (sector_view demo_inbound), VDict (sector_view demo_outbound)]"
    "record_of obs ''candidate_aircraft'' = aircraft_view (snd (demo_aircraft reserve_tail_id))"
    "dict_get obs ''evidence_versions'' = VDict (sorted_versions
               [(inbound_sector_id, 1), (''P'', 1), (''R'', 1), (''A'', 1), (''C'', 1), (''S'', 1),
                (target_sector_id, 1), (''A'', 1), (''C'', 1), (''SYN-SLOT-05'', 1), (reserve_tail_id, 1),
                (reserve_crew_id, 1), (reserve_stand_id, 1)])"
    "dict_get obs ''maximum_value_gbp'' = VFloat (Fin 150000)"
    and more: "dict_get obs ''no_action_baseline'' = VDict []" "dict_get obs ''sensor_event_id'' = VStr ''e1''"
    "\<exists>v. at_key ''evidence_event_ids'' obs = Inr v"
    using demo_observed by blast
  have "\<exists>ms. collect (tail_reasons obs (po_value (tail_option obs))) = Inr ms"
    by (rule collect_total)
      (auto simp: tail_reasons_def Let_def o overlaps_def sector_view_gets still_flown_view aircraft_view_def
        demo_sector_def demo_aircraft_def over_def)
  then obtain r1 where r1: "tail_feasibility obs (tail_option obs) = Inr r1" "po_id (fe_option r1) = tail_option_id"
    by (auto simp: tail_feasibility_def verdict_def option_parts)
  have "evidence_is_current obs [sector_view demo_outbound]"
    by (simp add: evidence_is_current_def o versions_agree_def sector_view_def demo_sector_def
        sorted_versions_def versions_of_def dict_merge_def pf_eq_def)
  then have r2: "cancel_feasibility obs (cancel_option obs) = Inr \<lparr>fe_option = cancel_option obs, fe_feasible = True, fe_reasons = []\<rparr>"
    by (simp add: cancel_feasibility_def Let_def o verdict_def sector_view_gets demo_sector_def
        value_bounded_def number_def option_parts)
  obtain r3 where r3: "retime_feasibility obs (retime_option obs) = Inr r3"
    by (simp add: retime_feasibility_def verdict_def Let_def)
  from r1 r2 r3 o(1) more show thesis
    by (intro that[of obs "[r1, \<lparr>fe_option = cancel_option obs, fe_feasible = True, fe_reasons = []\<rparr>, r3]"
          "\<lparr>fe_option = cancel_option obs, fe_feasible = True, fe_reasons = []\<rparr>"]) (simp_all add: hub_options_def admit_recovery_options_def result_for_def option_parts)
qed

abbreviation demo_fr :: "pyfloat \<Rightarrow> string" where
  "demo_fr \<equiv> \<lambda>_. []"

lemma demo_command:
  obtains c where "command_for_hub demo_fr sample_hub cancel_option_id ''AIRHUB-1'' ''SYN-DECISION-1'' hub_persona = Inr c"
    "str_at demo_fr (cmd_payload c) ''workflow_id'' = Inr ''AIRHUB-1''"
    "\<exists>v. str_at demo_fr (cmd_payload c) ''persona'' = Inr v"
    "\<exists>v. at_key ''decision_id'' (cmd_payload c) = Inr v" "\<exists>v. str_at demo_fr (cmd_payload c) ''decision_id'' = Inr v"
    "cmd_type c = hub_command_type"
proof -
  obtain obs rs r where o: "hub_options sample_hub = Inr (obs, rs)" "result_for cancel_option_id rs = Some r" "fe_feasible r"
    using demo_options by metis
  then have "current_recovery_observation sample_hub = Inr obs" by (auto simp: hub_options_def bind_result_Inr_iff)
  then obtain t where "str_at demo_fr obs ''trace_id'' = Inr t" using hub_trace(1) str_at_VStr by blast
  with o obtain c where c: "command_for_hub demo_fr sample_hub cancel_option_id ''AIRHUB-1'' ''SYN-DECISION-1'' hub_persona = Inr c"
    and "cmd_type c = hub_command_type" "dict_get (cmd_payload c) ''workflow_id'' = VStr ''AIRHUB-1''"
      "dict_get (cmd_payload c) ''persona'' = VStr hub_persona" "dict_get (cmd_payload c) ''decision_id'' = VStr ''SYN-DECISION-1''"
    by (simp add: command_for_hub_def Let_def)
  then show thesis
    by (intro that) (auto simp: str_at_VStr dict_get_def split: option.splits)
qed

lemma demo_accepted:
  obtains c e w' where "apply_command demo_fr c sample_hub = (Inr e, w')" "ev_type e = ''command.accepted''"
    "map_of (aw_processed sample_hub) (cmd_id c) = None"
proof -
  have processed: "aw_processed sample_hub = []" by (simp add: demo)
  obtain c where c: "command_for_hub demo_fr sample_hub cancel_option_id ''AIRHUB-1'' ''SYN-DECISION-1'' hub_persona = Inr c"
    and p: "str_at demo_fr (cmd_payload c) ''workflow_id'' = Inr ''AIRHUB-1''"
    "\<exists>v. str_at demo_fr (cmd_payload c) ''persona'' = Inr v"
    "\<exists>v. at_key ''decision_id'' (cmd_payload c) = Inr v" "\<exists>v. str_at demo_fr (cmd_payload c) ''decision_id'' = Inr v"
    "cmd_type c = hub_command_type"
    by (rule demo_command)
  obtain obs' rs' r' where o: "hub_options sample_hub = Inr (obs', rs')" "result_for cancel_option_id rs' = Some r'"
    "fe_feasible r'" "fe_option r' = cancel_option obs'" "dict_get obs' ''no_action_baseline'' = VDict []"
    "dict_get obs' ''sensor_event_id'' = VStr ''e1''" "\<exists>v. at_key ''evidence_event_ids'' obs' = Inr v"
    by (rule demo_options)
  obtain opt obs where v: "po_id opt = cancel_option_id" "validated_hub demo_fr sample_hub c = Inr (Inr (opt, obs))"
    using built_hub_validated[OF c] by (auto simp: starts_with_def)
  have obs: "obs = obs'" using validated_hub_Inr[OF v(2)] o(1) by fastforce
  have "\<exists>refs w1. mutate_hub sample_hub opt = (Inr refs, w1)
      \<and> refs = [(CSector, target_sector_id, target_sector_id), (CRotation, ''R'', ''R''), (CCrew, ''C'', ''C'')]
      \<and> map_of (aw_sectors w1) target_sector_id = Some (demo_outbound\<lparr>sec_status := ''cancelled''\<rparr>)
      \<and> (\<exists>cr. map_of (aw_crew w1) ''C'' = Some cr)"
    by (simp add: mutate_hub_def v(1) mutate_cancel_plan_def demo rotation_with_def next_match_def at_key_def)
  then obtain refs w1 where m: "mutate_hub sample_hub opt = (Inr refs, w1)"
    and w1: "refs = [(CSector, target_sector_id, target_sector_id), (CRotation, ''R'', ''R''), (CCrew, ''C'', ''C'')]"
      "map_of (aw_sectors w1) target_sector_id = Some (demo_outbound\<lparr>sec_status := ''cancelled''\<rparr>)"
      "\<exists>cr. map_of (aw_crew w1) ''C'' = Some cr" by blast
  let ?w2 = "(bump_all refs w1)\<lparr>aw_disruption := dict_set hub_story ''resolved'' (aw_disruption w1)\<rparr>"
  obtain cr where "map_of (aw_crew w1) ''C'' = Some cr" using w1(3) ..
  then have w2: "map_of (aw_sectors ?w2) target_sector_id = Some (demo_outbound\<lparr>sec_status := ''cancelled'', sec_version := 2\<rparr>)"
    "map_of (aw_crew ?w2) ''C'' = Some (cr\<lparr>cr_version := cr_version cr + 1\<rparr>)"
    using w1(2) by (simp_all add: w1(1) bump_all_def demo_sector_def)
  obtain ev where ev: "hub_evaluation_record ?w2 c ''AIRHUB-1'' opt obs = Inr ev"
    using w2 o(5) obs
    by (simp add: hub_evaluation_record_def hub_evaluation_def v(1) Let_def demo_sector_def count_at_def py_or_def
        get_attr_def split_beta at_key_def py_int_def)
  obtain cm cause d es where "commitment_of demo_fr c ''AIRHUB-1'' opt rac_type = Inr cm"
      "str_at demo_fr obs ''sensor_event_id'' = Inr cause" "at_key ''decision_id'' (cmd_payload c) = Inr d"
      "at_key ''evidence_event_ids'' obs = Inr es"
    using p o(6,7) obs by (auto simp: commitment_of_def str_at_VStr)
  with p(1) ev m have a: "accept_hub demo_fr sample_hub c opt obs =
      apfst Inr (settle_hub ?w2 c opt refs ''AIRHUB-1'' cm ev cause d es)"
    by (simp add: accept_hub_def v(1) Let_def at_key_def)
  obtain e w3 where e: "settle_hub ?w2 c opt refs ''AIRHUB-1'' cm ev cause d es = (e, w3)" by fastforce
  have "apply_command demo_fr c sample_hub =
      (Inr e, w3\<lparr>aw_processed := dict_set (cmd_id c) (c, e) (aw_processed w3)\<rparr>)"
    using a e p(5) v(2) processed by (simp add: apply_command_def handle_command_def apply_recovery_command_def)
  moreover have "ev_type e = ''command.accepted''"
    using settle_hub_effect(6)[OF refl, of ?w2 c opt refs "''AIRHUB-1''" cm ev cause d es] e by simp
  ultimately show thesis using processed by (intro that) simp_all
qed

section \<open>A seeded world\<close>

definition seeded_hub :: airline where
  "seeded_hub = snd (activate_scenario hub_scenario (install (new_airline 42)))"

definition seeded_command :: sim_command where
  "seeded_command =
     (case command_for_hub demo_fr seeded_hub tail_option_id ''AIRHUB-0001'' ''SYN-DECISION-1'' hub_persona of
        Inr c \<Rightarrow> c
      | Inl _ \<Rightarrow> \<lparr>cmd_id = ''none'', cmd_trace = [], cmd_issuer = [], cmd_type = [], cmd_payload = []\<rparr>)"

definition recovered_hub :: airline where
  "recovered_hub = snd (apply_command demo_fr seeded_command seeded_hub)"

lemma recovered_reach: "airline_reach demo_fr recovered_hub"
  unfolding recovered_hub_def seeded_hub_def
  by (intro airline_reach_step[OF _ airline_step.commands] airline_reach_step[OF _ airline_step.activates]
      airline_reach_step[OF _ airline_step.installs] airline_reach_new)

section \<open>A refused command\<close>

definition unknown_command :: sim_command where
  "unknown_command = \<lparr>cmd_id = ''c-1'', cmd_trace = ''t'', cmd_issuer = ''ops'', cmd_type = ''unknown'', cmd_payload = []\<rparr>"

lemma unknown_rejected:
  obtains e w1 where "apply_command demo_fr unknown_command (new_airline 7) = (Inr e, w1)"
    "ev_type e = ''command.rejected''"
proof -
  obtain e v where r: "reject (new_airline 7) unknown_command (''unsupported command type '' @ py_repr ''unknown'') = (e, v)"
    by fastforce
  have "aw_processed (new_airline 7) = []" by (simp add: demo)
  with r have app: "apply_command demo_fr unknown_command (new_airline 7) =
      (Inr e, v\<lparr>aw_processed := dict_set ''c-1'' (unknown_command, e) (aw_processed v)\<rparr>)"
    by (simp add: unknown_command_def apply_command_def handle_command_def apply_recovery_command_def
        validated_hub_def del: append.simps)
  have "ev_type e = ''command.rejected''" using reject_journal(1)[OF r] ..
  with app show thesis by (rule that)
qed

end
