(* ===== verification/Airline_Properties.thy ===== *)
theory Airline_Properties imports Airline_Sample begin

text \<open>
  The properties of the airline recovery: what no sequence of operations does to the plan, how often a
  story is committed and how its recovery is evaluated, who may commit it, and what a command does when
  it is rejected or sent again.
\<close>

section \<open>The reserve\<close>

text \<open>C3: In every world the operations of the airline reach, at most one sector that is neither
  cancelled nor completed flies the reserve aircraft, which the hub recovery and the engineering recovery
  compete for, and only the outbound sector of the hub ever carries the reserve crew.\<close>
theorem reserve_used_once:
  assumes "airline_reach fr w"
  shows "length (filter (flies ''SYN-TAIL-005'') (map snd (aw_sectors w))) \<le> 1
     \<and> (\<forall>(k, s) \<in> set (aw_sectors w). sec_crew_duty_id s = ''SYN-DUTY-006'' \<longrightarrow> k = ''SYN-SECTOR-OUT-001'')"
proof
  have ok: "sectors_ok (sector_part w)"
    using airline_reach_ok[OF assms] by (simp add: airline_ok_def plan_ok_def plan_def)
  show "length (filter (flies ''SYN-TAIL-005'') (map snd (aw_sectors w))) \<le> 1"
    using one_flown(1)[OF ok] by (simp only: flies_count sector_part_def)
  show "\<forall>(k, s) \<in> set (aw_sectors w). sec_crew_duty_id s = ''SYN-DUTY-006'' \<longrightarrow> k = ''SYN-SECTOR-OUT-001''"
  proof (clarify)
    fix k s assume s: "(k, s) \<in> set (aw_sectors w)" "sec_crew_duty_id s = ''SYN-DUTY-006''"
    then have "(k, sector_core s) \<in> set (sector_part w)" by (force simp: sector_part_def cores_def)
    with ok s(2) show "k = ''SYN-SECTOR-OUT-001''"
      by (auto simp: sectors_ok_def sector_entry_ok_def sector_core_def dest!: bspec)
  qed
qed

theorem reserve_used_once_witness:
  "airline_reach demo_fr recovered_hub
     \<and> length (filter (flies ''SYN-TAIL-005'') (map snd (aw_sectors recovered_hub))) \<le> 1"
  using reserve_used_once[OF recovered_reach] recovered_reach by blast

section \<open>Stories\<close>

text \<open>C17: In every world the operations reach, each of the three stories has at most one committed
  recovery, and none while the story is active or before it began.\<close>
theorem story_committed_once:
  assumes "airline_reach fr w"
  shows "length (aw_recoveries w) \<le> 1 \<and> length (aw_aog_commands w) \<le> 1 \<and> length (aw_adjustments w) \<le> 1
     \<and> (map_of (aw_disruption w) hub_story \<in> {None, Some ''active''} \<longrightarrow> aw_recoveries w = [])
     \<and> (map_of (aw_aog_story w) aog_story \<in> {None, Some ''active''} \<longrightarrow> aw_aog_commands w = [])
     \<and> (map_of (aw_sched_story w) sched_story \<in> {None, Some ''active''} \<longrightarrow> aw_adjustments w = [])"
  using airline_reach_ok[OF assms] by (auto simp: airline_ok_def stories_ok_def story_ok_def)

theorem story_committed_once_witness:
  "airline_reach demo_fr recovered_hub \<and> length (aw_recoveries recovered_hub) \<le> 1"
  using story_committed_once[OF recovered_reach] recovered_reach by blast

text \<open>C7: The evaluation that is stored with a committed hub or engineering recovery has passed: the
  changes an admitted option makes satisfy every invariant the code evaluates after them, in every
  world the operations reach.\<close>
theorem committed_recoveries_pass:
  assumes "airline_reach fr w"
  shows "(\<forall>(_, ev) \<in> set (aw_recovery_evaluations w). re_status ev = ''pass'')
     \<and> (\<forall>(_, ev) \<in> set (aw_aog_evaluations w). ae_status ev = ''pass'')"
  using airline_reach_ok[OF assms] by (simp add: airline_ok_def evaluations_ok_def)

theorem committed_recoveries_pass_witness:
  "airline_reach demo_fr recovered_hub
     \<and> list_all (\<lambda>(_, ev). re_status ev = ''pass'') (aw_recovery_evaluations recovered_hub)"
  using committed_recoveries_pass[OF recovered_reach] recovered_reach by (simp add: list_all_iff)

section \<open>Commands\<close>

text \<open>C6: A command that was answered with an event is answered with the same event whenever it is sent
  again, after any further operations, and then changes nothing.\<close>
theorem airline_command_idempotent:
  assumes "airline_reach fr w" and app: "apply_command fr c w = (Inr e, w1)" and same: "same_command c c"
    and later: "airline_steps fr w1 w2"
  shows "apply_command fr c w2 = (Inr e, w2)"
proof -
  have ok: "airline_ok w" by (rule airline_reach_ok) fact
  then have "airline_ok w1" using apply_command_ok[OF ok, of fr c] app by simp
  then have keeps: "keeps_caches w1 w2" using airline_steps_ok[OF later] by simp
  have p: "map_of (aw_processed w2) (cmd_id c) = Some v" if "map_of (aw_processed w1) (cmd_id c) = Some v" for v
    using keeps that by (metis domI keeps_caches_def map_le_def)
  have f: "map_of (aw_conflicts w2) (cmd_id c) = Some v" if "map_of (aw_conflicts w1) (cmd_id c) = Some v" for v
    using keeps that by (metis domI keeps_caches_def map_le_def)
  from app show ?thesis
  proof (cases rule: apply_command_cases)
    case (again prior e')
    with p[of "(prior, e')"] show ?thesis by (simp add: apply_command_def)
  next
    case (conflict prior q e')
    with p[of "(prior, q)"] f[of e'] show ?thesis by (simp add: apply_command_def)
  next
    case (refused prior q e' v)
    have "caches v = caches w" using reject_frame(3)[of w c] refused(4) by (metis snd_conv)
    with refused p[of "(prior, q)"] f[of e'] show ?thesis by (simp add: apply_command_def caches_eq)
  next
    case (handled e' v)
    with p[of "(c, e')"] same show ?thesis by (simp add: apply_command_def)
  qed simp
qed

theorem airline_command_idempotent_witness:
  "\<exists>e w1. apply_command demo_fr unknown_command (new_airline 7) = (Inr e, w1)
     \<and> apply_command demo_fr unknown_command (install w1) = (Inr e, install w1)"
proof -
  obtain e w1 where a: "apply_command demo_fr unknown_command (new_airline 7) = (Inr e, w1)"
    by (rule unknown_rejected)
  have "same_command unknown_command unknown_command" by (simp add: same_command_def unknown_command_def)
  moreover have "airline_steps demo_fr w1 (install w1)" by (intro r_into_rtranclp airline_step.installs)
  ultimately show ?thesis using airline_command_idempotent[OF airline_reach_new a] a by blast
qed

lemma journal_caches:
  fixes w :: airline
  shows "\<exists>n j p f. w\<lparr>rt_seq := m, rt_journal := i, aw_conflicts := g\<rparr>
      = w\<lparr>rt_seq := n, rt_journal := j, aw_processed := p, aw_conflicts := f\<rparr>"
    "\<exists>n j p f. w\<lparr>rt_seq := m, rt_journal := i, aw_processed := q\<rparr>
      = w\<lparr>rt_seq := n, rt_journal := j, aw_processed := p, aw_conflicts := f\<rparr>"
    "\<exists>n j p f. w = w\<lparr>rt_seq := n, rt_journal := j, aw_processed := p, aw_conflicts := f\<rparr>"
  by (rule exI[of _ m], rule exI[of _ i], rule exI[of _ "aw_processed w"], rule exI[of _ g], simp)
    (rule exI[of _ m], rule exI[of _ i], rule exI[of _ q], rule exI[of _ "aw_conflicts w"], simp,
     rule exI[of _ "rt_seq w"], rule exI[of _ "rt_journal w"], rule exI[of _ "aw_processed w"],
     rule exI[of _ "aw_conflicts w"], simp)

lemma within_authority:
  assumes "may_approve role act" "\<not> value_wrong v value (spend_limit role)"
  shows "\<exists>q. number v = Some q \<and> 0 \<le> q \<and> fst (authority_check airline_authority role act (Some (Fin q)))"
proof -
  obtain row where row: "map_of airline_authority role = Some row" "act \<in> set (ar_actions row)"
    using assms(1) by (auto simp: may_approve_def split: option.splits)
  then obtain l where l: "ar_limit row = Fin l"
    by (auto simp: airline_authority_def split: if_splits)
  obtain q where "number v = Some q" "0 \<le> q" "q \<le> l"
    using assms(2) row l by (auto simp: value_wrong_def spend_limit_def split: option.splits)
  with row l show ?thesis by (auto simp: authority_check_allowed)
qed

lemma hub_authorised:
  "first_fault (hub_faults fr c obs opt) = None \<Longrightarrow> dict_get (cmd_payload c) ''persona'' = VStr hub_persona
     \<and> may_approve hub_persona hub_command_type
     \<and> \<not> value_wrong (dict_get (cmd_payload c) ''value_gbp'') (po_value opt) (spend_limit hub_persona)"
  "first_fault (aog_faults fr c obs aopt) = None \<Longrightarrow> dict_get (cmd_payload c) ''persona'' = VStr aog_persona
     \<and> may_approve aog_persona aog_command_type
     \<and> \<not> value_wrong (dict_get (cmd_payload c) ''value_gbp'') (po_value aopt) (spend_limit aog_persona)"
  "first_fault (sched_faults fr c obs aopt) = None \<Longrightarrow> dict_get (cmd_payload c) ''persona'' = VStr sched_persona
     \<and> may_approve sched_persona sched_command_type
     \<and> \<not> value_wrong (dict_get (cmd_payload c) ''value_gbp'') (po_value aopt) (spend_limit sched_persona)"
  unfolding first_fault_None hub_faults_def aog_faults_def sched_faults_def Let_def
  by (simp_all del: append.simps)

text \<open>C5: A command is accepted only for a persona that the authority matrix of the airline allows the
  command for, with a value that is finite, not negative and within the limit of that persona.\<close>
theorem accepted_command_authorised:
  assumes "apply_command fr c w = (Inr e, w')" and "ev_type e = ''command.accepted''"
    and "map_of (aw_processed w) (cmd_id c) = None"
  shows "\<exists>role q. dict_get (cmd_payload c) ''persona'' = VStr role \<and> number (dict_get (cmd_payload c) ''value_gbp'') = Some q
     \<and> 0 \<le> q \<and> fst (authority_check airline_authority role (cmd_type c) (Some (Fin q)))"
proof -
  obtain w1 where h: "handle_command fr w c = (Inr e, w1)"
    using assms(1) by (cases rule: apply_command_cases) (use assms(3) in auto)
  consider opt obs where "validated_hub fr w c = Inr (Inr (opt, obs))" | opt obs where "validated_aog fr w c = Inr (Inr (opt, obs))"
    | opt obs where "validated_sched fr w c = Inr (Inr (opt, obs))"
    using handled_event[OF h] assms(2) by auto
  then show ?thesis
  proof cases
    case (1 opt obs)
    then have "first_fault (hub_faults fr c obs opt) = None" "cmd_type c = hub_command_type" by (metis validated_hub_Inr)+
    with hub_authorised(1) within_authority show ?thesis by metis
  next
    case (2 opt obs)
    then have "first_fault (aog_faults fr c obs opt) = None" "cmd_type c = aog_command_type" by (metis validated_aog_Inr)+
    with hub_authorised(2) within_authority show ?thesis by metis
  next
    case (3 opt obs)
    then have "first_fault (sched_faults fr c obs opt) = None" "cmd_type c = sched_command_type" by (metis validated_sched_Inr)+
    with hub_authorised(3) within_authority show ?thesis by metis
  qed
qed

theorem accepted_command_authorised_witness:
  "\<exists>c e w'. apply_command demo_fr c sample_hub = (Inr e, w') \<and> ev_type e = ''command.accepted''
     \<and> (\<exists>role q. dict_get (cmd_payload c) ''persona'' = VStr role \<and> number (dict_get (cmd_payload c) ''value_gbp'') = Some q
     \<and> 0 \<le> q \<and> fst (authority_check airline_authority role (cmd_type c) (Some (Fin q))))"
  by (rule demo_accepted) (metis accepted_command_authorised)

text \<open>C18: The command that is built for an admitted option of the hub, under canonical identities and for
  the approving persona, passes the validation of its handler in the same world, with the option it was
  built for.\<close>
theorem built_command_validates:
  assumes "command_for_hub fr w opt_id workflow decision ''duty_operations_manager'' = Inr c"
    and "starts_with ''AIRHUB-'' workflow" "starts_with ''SYN-DECISION-'' decision"
  shows "\<exists>opt obs. po_id opt = opt_id \<and> validated_hub fr w c = Inr (Inr (opt, obs))"
  using built_hub_validated[OF assms] .

theorem built_command_validates_witness:
  "\<exists>c opt obs. command_for_hub demo_fr sample_hub cancel_option_id ''AIRHUB-1'' ''SYN-DECISION-1'' ''duty_operations_manager'' = Inr c
     \<and> po_id opt = cancel_option_id \<and> validated_hub demo_fr sample_hub c = Inr (Inr (opt, obs))"
proof -
  obtain c where c: "command_for_hub demo_fr sample_hub cancel_option_id ''AIRHUB-1'' ''SYN-DECISION-1'' hub_persona = Inr c"
    by (rule demo_command)
  have "starts_with ''AIRHUB-'' ''AIRHUB-1''" "starts_with ''SYN-DECISION-'' ''SYN-DECISION-1''"
    by (simp_all add: starts_with_def)
  from built_command_validates[OF c this] c show ?thesis by blast
qed

text \<open>C19: A command that is answered with a rejection changes nothing but the journal and the two caches
  of answers: no record of the airline, no story and no commitment.\<close>
theorem rejected_command_harmless:
  assumes "apply_command fr c w = (Inr e, w')" and "ev_type e = ''command.rejected''"
  shows "\<exists>n j p f. w' = w\<lparr>rt_seq := n, rt_journal := j, aw_processed := p, aw_conflicts := f\<rparr>"
  using assms(1)
proof (cases rule: apply_command_cases)
  case (again prior e')
  then show ?thesis using journal_caches(3)[of w] by simp
next
  case (conflict prior q e')
  then show ?thesis using journal_caches(3)[of w] by simp
next
  case (refused prior q e' v)
  then show ?thesis using reject_journal(1)[OF refused(4)] by (auto simp: journal_only_def intro: journal_caches)
next
  case (handled e' v)
  then have "journal_only w v" using handled_event[OF handled(2)] assms(2) by auto
  with handled(4) show ?thesis by (auto simp: journal_only_def intro: journal_caches)
qed simp

theorem rejected_command_harmless_witness:
  "\<exists>e w1 n j p f. apply_command demo_fr unknown_command (new_airline 7) = (Inr e, w1)
     \<and> w1 = (new_airline 7)\<lparr>rt_seq := n, rt_journal := j, aw_processed := p, aw_conflicts := f\<rparr>"
  by (rule unknown_rejected) (use rejected_command_harmless in blast)

end
