(* ===== verification/Spec2Isabelle.thy ===== *)
theory Spec2Isabelle imports World_Properties Governance_Properties Agent_Properties Workflow_Properties
    Decision_Properties Airline_Properties begin

text \<open>
  A model of the Zava control plane, the Python program under \<^verbatim>\<open>src/api/\<close>: a simulated
  operation whose sensors open objectives, agents that claim them and send commands through a
  gateway, governance that decides which tool calls an agent may make, a hash-chained audit ledger,
  the guardrails of the agents' graphs, and the durable workflows that run the business processes
  with their human gates; and, of the packs under \<^verbatim>\<open>src/verticals/\<close>, the operations recovery of the
  airline, whose world admits, commits and evaluates the recovery an agent proposes.

  Theories and what they model (paths under \<^verbatim>\<open>src/api/server/\<close> unless said otherwise):

  \<^item> \<^verbatim>\<open>Prelude\<close>: Python values, results, dictionaries as association lists, strings, float
    comparison with NaN and infinities, the conversion of an int to a float with its rounding and its
    OverflowError, and lemmas on them; the locale of keyed stores.
  \<^item> \<^verbatim>\<open>Sim_Runtime\<close>: \<^verbatim>\<open>world/model.py\<close>, \<^verbatim>\<open>world/runtime.py\<close>.  The journal, the clock and the
    loops \<^verbatim>\<open>run_until\<close> and \<^verbatim>\<open>run_events\<close>.
  \<^item> \<^verbatim>\<open>Objectives\<close>, \<^verbatim>\<open>Objective_Lifecycle\<close>: \<^verbatim>\<open>world/objectives.py\<close>.  The state extends the
    runtime's; the second theory has the invariant and the step relation, in which the clock moves on
    between the operations of the manager and the rest of the program writes its own state.
  \<^item> \<^verbatim>\<open>Outcomes\<close>: \<^verbatim>\<open>world/evaluations.py\<close>, \<^verbatim>\<open>world/commands.py\<close>, with the locale of scenarios that
    take commands.
  \<^item> \<^verbatim>\<open>World_Service\<close>: \<^verbatim>\<open>world/service.py\<close>.  The service extends the evaluator's state by its bus
    and publishing index.
  \<^item> \<^verbatim>\<open>Support\<close>, \<^verbatim>\<open>Support_Facts\<close>: \<^verbatim>\<open>world/packs/support.py\<close>, \<^verbatim>\<open>world/projection.py\<close>.  Each SimPy
    process is cut at its yields into segments; each segment is a function of the world.  The relation
    \<^verbatim>\<open>support_step\<close> lets every segment, command and surge happen in any order, with time passing
    between them.
  \<^item> \<^verbatim>\<open>Support_Reserve\<close>: the same with the segments of a worker's loop bound to its live process
    (\<^verbatim>\<open>process_step\<close>); along these runs the workers of the reserve team are in status reserve.
  \<^item> \<^verbatim>\<open>World_Calls\<close>: the calls of the service over the support world as a relation (\<^verbatim>\<open>reset\<close> apart,
    which starts a new world and with it new books), and the books that survive them.  A caller opens
    no objective for a sensor event whose objective is finished.
  \<^item> \<^verbatim>\<open>Bus\<close>: fleet events, the event bus, triage, the fleet manager's queue, pending gates, verdicts.
  \<^item> \<^verbatim>\<open>Governance\<close>, \<^verbatim>\<open>Authority\<close>: kill switches, the authority matrix and the role matrix
    (\<^verbatim>\<open>services/governance/\<close>, \<^verbatim>\<open>api/shared/authority.py\<close>).
  \<^item> \<^verbatim>\<open>Identity\<close>: \<^verbatim>\<open>services/governance/identity.py\<close> and the signed actions of the kernel.
  \<^item> \<^verbatim>\<open>Kernel\<close>: \<^verbatim>\<open>services/governance/kernel.py\<close>, the permission handler and the policy compiler.
  \<^item> \<^verbatim>\<open>Audit_Ledger\<close>: \<^verbatim>\<open>services/audit_logger.py\<close>.
  \<^item> \<^verbatim>\<open>World_Engine\<close>: \<^verbatim>\<open>world/contract.py\<close>, \<^verbatim>\<open>world/engine.py\<close>, \<^verbatim>\<open>world/packs/toy.py\<close>.
  \<^item> \<^verbatim>\<open>Validators\<close>, \<^verbatim>\<open>Claim_Graphs\<close>: the guardrails and routers under
    \<^verbatim>\<open>src/api/functions/graphs/executors/\<close> and the tracked executor that runs them in a line.
  \<^item> \<^verbatim>\<open>Durable\<close>: what the generators under \<^verbatim>\<open>src/api/functions/workflows/\<close> are made of.  A
    generator is the tree of its resumptions; the Durable Functions runtime is the relation
    \<^verbatim>\<open>plays\<close> between a generator, a history and an outcome, which lets every activity return or
    raise anything and every timer win.  Two monitors read a history: the life of a workflow
    (started, parked at an announced gate, resumed, over) and the notebook of its answers and calls;
    each has a lemma per constructor, so that a property of a workflow is one call of the simplifier.
  \<^item> \<^verbatim>\<open>Fleet_Workflows\<close>: ten workflows, \<^verbatim>\<open>fleet_*.py\<close>.  \<^verbatim>\<open>Segment_Workflows\<close>: those with retried
    agent segments and the creative campaign.  \<^verbatim>\<open>Claim_Workflows\<close>: supplier invoices and expense
    claims.  \<^verbatim>\<open>Hiring\<close>: \<^verbatim>\<open>hiring.py\<close>.  \<^verbatim>\<open>Aurora\<close>: the budget response with its child invoices.
  \<^item> \<^verbatim>\<open>Telco_Workflows\<close>: cascades, customer care, orders, incidents, staffing.  \<^verbatim>\<open>Process_Profiles\<close>:
    the process library \<^verbatim>\<open>src/verticals/telco/process_profiles.py\<close> and the engine that runs it.
  \<^item> \<^verbatim>\<open>Decisions\<close>, \<^verbatim>\<open>Order_Approval\<close>: the deterministic activities those workflows call, and an
    order read together with its two activities.
  \<^item> \<^verbatim>\<open>Airline_Model\<close>, \<^verbatim>\<open>Airline_Constraints\<close>, \<^verbatim>\<open>Airline_World\<close>, \<^verbatim>\<open>Airline_Commands\<close>,
    \<^verbatim>\<open>Airline_Handlers\<close>: \<^verbatim>\<open>src/verticals/airline/\<close>.  The records and seed data of the world, which
    extends the runtime; the feasibility of the recovery options of the three stories (a hub
    disruption, a grounded aircraft, a schedule restriction) on an observation; installation,
    activation and observations; and the handlers that validate a command, write the plan, evaluate
    it and record the commitment.  A record that a handler keeps in a list of changed records is named
    by its collection and key.
  \<^item> \<^verbatim>\<open>Airline_Facts\<close> (what each step writes, through the projections \<^verbatim>\<open>plan\<close>, \<^verbatim>\<open>stories\<close> and
    \<^verbatim>\<open>caches\<close>), \<^verbatim>\<open>Airline_Admission\<close> (what an admitted option tells of the world),
    \<^verbatim>\<open>Airline_Invariants\<close> and \<^verbatim>\<open>Airline_Reach\<close> (the invariant and the worlds that operations reach),
    \<^verbatim>\<open>Airline_Outcomes\<close> (built commands validate, an answer is an acceptance or a rejection),
    \<^verbatim>\<open>Airline_Sample\<close> (concrete worlds for the witnesses).
  \<^item> \<^verbatim>\<open>World_Properties\<close>, \<^verbatim>\<open>Governance_Properties\<close>, \<^verbatim>\<open>Agent_Properties\<close>, \<^verbatim>\<open>Workflow_Properties\<close>,
    \<^verbatim>\<open>Decision_Properties\<close>, \<^verbatim>\<open>Airline_Properties\<close>: the properties, each with an instance on concrete data.

  Conventions.  An operation returns a result, \<^verbatim>\<open>Inl\<close> an exception and \<^verbatim>\<open>Inr\<close> a value, beside the
  state it leaves, so that what an operation did before raising stays visible.  Records extend one
  another the way the objects hold one another: runtime, objectives, evaluator, service, scenario.
  Floats are rationals with infinities and NaN; float arithmetic is exact, without rounding and
  overflow.  Integers are Python's, unbounded; \<^verbatim>\<open>float(i)\<close> and \<^verbatim>\<open>math.isfinite(i)\<close> of an int round to
  53 bits and raise OverflowError beyond the range of floats where the support world, the service and the
  decision activities convert one, while the airline pack is modelled for ints within that range.

  Parameters.  What the repository only calls is an argument: one SimPy step and the time of the next
  (\<^verbatim>\<open>estep\<close>, \<^verbatim>\<open>peek\<close>), random draws, clocks and fresh ids, the Ed25519, base64 and digest primitives
  (record \<^verbatim>\<open>crypto\<close>), the policy bundle's evaluation (\<^verbatim>\<open>agt\<close>), key files and the vault, the blob
  service, and how a float is written (\<^verbatim>\<open>fr\<close>).  The laws assumed of them are named in the
  hypotheses: \<^verbatim>\<open>env_appends\<close>, \<^verbatim>\<open>scenario_segment\<close>, \<^verbatim>\<open>sound_crypto\<close>.

  Loops.  \<^verbatim>\<open>run_until\<close> may run forever, since a scenario may schedule ever more events before the
  bound, so it is a partial function; nothing is claimed of its termination beyond the lemma that it
  returns when a measure of the environment goes down.  The loop that publishes the journal, which
  may grow while it runs, ends because each verdict uses up a started evaluation.  All other loops
  recurse over data.  No fuel is used.

  Not modelled: the worlds of the other verticals and the durable generators and pages of the airline;
  activities that call agents, the orchestrator and personas,
  the graph store, HTTP routes, MCP tools and front ends; the text of log messages; asynchronous
  scheduling, except where an operation awaits and the model has a step boundary there.
\<close>

end
